(* ===== verification/Termlm_Prelude.thy ===== *)
theory Termlm_Prelude
  imports Main "HOL-Library.Sublist" "HOL-Library.Word"
begin

text \<open>
  The prelude of the development: the collections the component theories add to
  (\<open>str_eval\<close> for evaluating string functions on literals, \<open>handler_defs\<close> for the
  daemon's operations), the saturating arithmetic of \<open>usize\<close>/\<open>u32\<close> that several
  components use, generic list lemmas, and the transition-system interface whose lemmas
  lift a one-step invariant to every run.
\<close>

named_theorems str_eval "definitions unfolded to evaluate string functions on literals"
named_theorems handler_defs "definitions of the daemon's operations"
named_theorems handler_frame "what an operation of the daemon leaves unchanged"

section \<open>Saturating machine arithmetic\<close>

text \<open>
  \<open>usize\<close> is 64 bits wide on the supported targets (macOS on Apple Silicon), so a
  \<open>saturating_add\<close> stops at \<open>2 ^ 64 - 1\<close>; a \<open>saturating_sub\<close> stops at 0, as \<open>nat\<close> does.
\<close>

definition usize_max :: nat where
  "usize_max = 2 ^ 64 - 1"

definition usize_sat_add :: "nat \<Rightarrow> nat \<Rightarrow> nat" where
  "usize_sat_add a b = min (a + b) usize_max"

definition usize_sat_mul :: "nat \<Rightarrow> nat \<Rightarrow> nat" where
  "usize_sat_mul a b = min (a * b) usize_max"

definition u32_max :: nat where
  "u32_max = 2 ^ 32 - 1"

definition u32_sat_add :: "nat \<Rightarrow> nat \<Rightarrow> nat" where
  "u32_sat_add a b = min (a + b) u32_max"

lemma usize_sat_add_le: "usize_sat_add a b \<le> usize_max"
  by (simp add: usize_sat_add_def)

lemma usize_sat_add_pos [simp]: "0 < usize_sat_add a (Suc b)"
  by (simp add: usize_sat_add_def usize_max_def)

lemma usize_sat_add_mono: "a \<le> a' \<Longrightarrow> usize_sat_add a b \<le> usize_sat_add a' b"
  by (simp add: usize_sat_add_def)

section \<open>Lists\<close>

lemma dropWhile_eq_Nil: "dropWhile P xs = [] \<longleftrightarrow> (\<forall>x \<in> set xs. P x)"
  by (induction xs) auto

lemma dropWhile_suffix: "suffix (dropWhile P xs) xs"
  by (simp add: suffix_dropWhile)

lemma takeWhile_dropWhile_rev_split:
  "xs = rev (dropWhile P (rev xs)) @ rev (takeWhile P (rev xs))"
proof -
  have "xs = rev (takeWhile P (rev xs) @ dropWhile P (rev xs))" by simp
  also have "\<dots> = rev (dropWhile P (rev xs)) @ rev (takeWhile P (rev xs))"
    by (rule rev_append)
  finally show ?thesis .
qed

lemma hd_dropWhile_not: "dropWhile P xs \<noteq> [] \<Longrightarrow> \<not> P (hd (dropWhile P xs))"
  by (rule hd_dropWhile)

definition trim_list :: "('a \<Rightarrow> bool) \<Rightarrow> 'a list \<Rightarrow> 'a list" where
  "trim_list P xs = rev (dropWhile P (rev (dropWhile P xs)))"

lemma trim_list_Nil [simp]: "trim_list P [] = []"
  by (simp add: trim_list_def)

lemma trim_list_eq_Nil: "trim_list P xs = [] \<longleftrightarrow> (\<forall>x \<in> set xs. P x)"
proof -
  let ?ys = "dropWhile P xs"
  have "(\<forall>x \<in> set ?ys. P x) \<longleftrightarrow> ?ys = []"
    by (metis hd_dropWhile hd_in_set empty_iff set_empty)
  moreover have "trim_list P xs = [] \<longleftrightarrow> (\<forall>x \<in> set ?ys. P x)"
    by (simp only: trim_list_def rev_is_Nil_conv dropWhile_eq_Nil set_rev)
  moreover have "?ys = [] \<longleftrightarrow> (\<forall>x \<in> set xs. P x)"
    by (rule dropWhile_eq_Nil)
  ultimately show ?thesis by blast
qed

lemma trim_list_split:
  obtains l r where "xs = l @ trim_list P xs @ r"
    "\<forall>x \<in> set l. P x" "\<forall>x \<in> set r. P x"
proof
  let ?ys = "dropWhile P xs"
  have "?ys = trim_list P xs @ rev (takeWhile P (rev ?ys))"
    unfolding trim_list_def by (rule takeWhile_dropWhile_rev_split)
  then show "xs = takeWhile P xs @ trim_list P xs @ rev (takeWhile P (rev ?ys))"
    by (metis takeWhile_dropWhile_id)
  show "\<forall>x \<in> set (takeWhile P xs). P x"
    by (auto dest: set_takeWhileD)
  show "\<forall>x \<in> set (rev (takeWhile P (rev ?ys))). P x"
    by (auto dest: set_takeWhileD)
qed

lemma trim_list_hd: "trim_list P xs \<noteq> [] \<Longrightarrow> \<not> P (hd (trim_list P xs))"
proof -
  assume a: "trim_list P xs \<noteq> []"
  let ?ys = "dropWhile P xs"
  have "?ys = trim_list P xs @ rev (takeWhile P (rev ?ys))"
    unfolding trim_list_def by (rule takeWhile_dropWhile_rev_split)
  with a have "hd ?ys = hd (trim_list P xs)"
    by (metis hd_append2)
  moreover from a have "?ys \<noteq> []"
    by (metis dropWhile.simps(1) rev.simps(1) trim_list_def)
  ultimately show ?thesis using hd_dropWhile [of P xs] by simp
qed

lemma trim_list_last: "trim_list P xs \<noteq> [] \<Longrightarrow> \<not> P (last (trim_list P xs))"
  using hd_dropWhile [of P "rev (dropWhile P xs)"] by (simp add: trim_list_def last_rev)

lemma trim_list_id:
  "xs = [] \<or> (\<not> P (hd xs) \<and> \<not> P (last xs)) \<Longrightarrow> trim_list P xs = xs"
proof -
  assume a: "xs = [] \<or> (\<not> P (hd xs) \<and> \<not> P (last xs))"
  then have "dropWhile P xs = xs"
    by (auto simp: dropWhile_eq_self_iff)
  moreover from a have "dropWhile P (rev xs) = rev xs"
    by (auto simp: dropWhile_eq_self_iff hd_rev)
  ultimately show ?thesis by (simp add: trim_list_def)
qed

lemma trim_list_idem [simp]: "trim_list P (trim_list P xs) = trim_list P xs"
  by (rule trim_list_id) (use trim_list_hd trim_list_last in blast)

lemma trim_list_Cons [simp]: "P x \<Longrightarrow> trim_list P (x # xs) = trim_list P xs"
  by (simp add: trim_list_def)

section \<open>Transition systems: from one step to every run\<close>

text \<open>
  A run over a list of events stops (\<open>None\<close>) at the first event whose step blocks.
\<close>

fun run_events :: "('e \<Rightarrow> 's \<Rightarrow> 's option) \<Rightarrow> 'e list \<Rightarrow> 's \<Rightarrow> 's option" where
  "run_events step [] s = Some s"
| "run_events step (e # es) s =
     (case step e s of None \<Rightarrow> None | Some t \<Rightarrow> run_events step es t)"

lemma run_events_append:
  "run_events step (xs @ ys) s =
     (case run_events step xs s of None \<Rightarrow> None | Some t \<Rightarrow> run_events step ys t)"
  by (induction xs arbitrary: s) (auto split: option.splits)

text \<open>
  The contract between a machine and the invariants stated of it: \<open>step\<close> takes one event
  and either blocks (\<open>None\<close>) or moves to a new state, and every step keeps \<open>inv\<close>.
\<close>

locale transition_system =
  fixes step :: "'e \<Rightarrow> 's \<Rightarrow> 's option"
    and inv :: "'s \<Rightarrow> bool"
  assumes step_inv: "inv s \<Longrightarrow> step e s = Some t \<Longrightarrow> inv t"
begin

lemma run_inv: "inv s \<Longrightarrow> run_events step es s = Some t \<Longrightarrow> inv t"
proof (induction es arbitrary: s)
  case Nil
  then show ?case by simp
next
  case (Cons e es)
  then show ?case by (auto split: option.splits intro: step_inv)
qed

end

end
