(* ===== verification/Rust_Str.thy ===== *)
theory Rust_Str
  imports Termlm_Prelude
begin

text \<open>
  The parts of Rust's \<open>str\<close> that the program uses. A Rust string is its UTF-8 bytes, and
  so is a \<open>string\<close> here: \<open>length\<close> is \<open>str::len\<close>, and searching, prefixes, suffixes and
  ASCII case mapping work on the bytes, as they do in Rust. A Rust \<open>char\<close> (one Unicode
  scalar value) is the byte sequence that encodes it, of type \<open>rchar\<close>; \<open>chars\<close> splits
  a string into them, so that iterating, counting, trimming and splitting at white space
  treat non-ASCII text as the code does.
\<close>

section \<open>Scalar values\<close>

type_synonym rchar = string

text \<open>A continuation byte is \<open>10xxxxxx\<close>; every other byte starts a scalar value.\<close>

definition is_cont :: "char \<Rightarrow> bool" where
  "is_cont b \<longleftrightarrow> digit7 b \<and> \<not> digit6 b"

definition push_byte :: "char \<Rightarrow> rchar list \<Rightarrow> rchar list" where
  "push_byte b cs =
     (case cs of
        (c # d) # ds \<Rightarrow> if is_cont c then (b # c # d) # ds else [b] # (c # d) # ds
      | _ \<Rightarrow> [b] # cs)"

text \<open>\<open>str::chars\<close>.\<close>

fun chars :: "string \<Rightarrow> rchar list" where
  "chars [] = []"
| "chars (b # bs) = push_byte b (chars bs)"

text \<open>The byte sequences that \<open>chars\<close> can yield: all pieces are non-empty, and no piece
  but the first starts with a continuation byte.\<close>

definition scalar_piece :: "rchar \<Rightarrow> bool" where
  "scalar_piece c \<longleftrightarrow> c \<noteq> [] \<and> \<not> is_cont (hd c) \<and> (\<forall>b \<in> set (tl c). is_cont b)"

fun pieces :: "rchar list \<Rightarrow> bool" where
  "pieces [] = True"
| "pieces (c # cs) =
     (c \<noteq> [] \<and> (\<forall>b \<in> set (tl c). is_cont b) \<and> (\<forall>d \<in> set cs. scalar_piece d))"

text \<open>Every Rust \<open>str\<close> is well-formed UTF-8; the part of that the proofs use is that no scalar
  value starts with a continuation byte and an ASCII byte is a scalar value of its own.\<close>

definition valid_scalar :: "rchar \<Rightarrow> bool" where
  "valid_scalar c \<longleftrightarrow> scalar_piece c \<and> (digit7 (hd c) \<or> tl c = [])"

definition valid_str :: "string \<Rightarrow> bool" where
  "valid_str s \<longleftrightarrow> (\<forall>c \<in> set (chars s). valid_scalar c)"

lemma concat_push_byte [simp]: "concat (push_byte b cs) = b # concat cs"
  by (auto simp: push_byte_def split: list.splits)

lemma concat_chars [simp]: "concat (chars s) = s"
  by (induction s) auto

lemma pieces_push_byte: "pieces cs \<Longrightarrow> pieces (push_byte b cs)"
  by (cases cs) (auto simp: push_byte_def scalar_piece_def split: list.splits)

lemma pieces_chars [simp]: "pieces (chars s)"
  by (induction s) (auto simp: pieces_push_byte)

lemma chars_piece_append:
  assumes "\<forall>b \<in> set bs. is_cont b" and "\<forall>d \<in> set cs. scalar_piece d"
    and "chars s = cs"
  shows "chars (b # bs @ s) = (b # bs) # cs"
  using assms
proof (induction bs arbitrary: b)
  case Nil
  then show ?case
    by (cases cs) (auto simp: push_byte_def scalar_piece_def split: list.splits)
next
  case (Cons a bs)
  then have "chars (a # bs @ s) = (a # bs) # cs" by simp
  with Cons.prems show ?case by (simp add: push_byte_def)
qed

text \<open>Any piece list re-reads as itself: \<open>chars\<close> and \<open>concat\<close> are inverse.\<close>

lemma chars_concat: "pieces cs \<Longrightarrow> chars (concat cs) = cs"
proof (induction cs)
  case Nil
  then show ?case by simp
next
  case (Cons c cs)
  then obtain b bs where c: "c = b # bs" and bs: "\<forall>x \<in> set bs. is_cont x"
    and cs: "\<forall>d \<in> set cs. scalar_piece d"
    by (cases c) auto
  from cs have "pieces cs"
    by (cases cs) (auto simp: scalar_piece_def)
  then have "chars (concat cs) = cs" by (rule Cons.IH)
  with chars_piece_append [OF bs cs] show ?case by (simp add: c)
qed

lemma pieces_prefix: "pieces (xs @ ys) \<Longrightarrow> pieces xs"
  by (cases xs) auto

lemma pieces_suffix: "pieces (xs @ ys) \<Longrightarrow> pieces ys"
  by (cases xs; cases ys) (auto simp: scalar_piece_def)

lemma pieces_infix: "pieces (xs @ ys @ zs) \<Longrightarrow> pieces ys"
  using pieces_prefix pieces_suffix by blast

lemma scalar_pieces: "\<forall>c \<in> set cs. scalar_piece c \<Longrightarrow> pieces cs"
  by (cases cs) (auto simp: scalar_piece_def)

lemma pieces_nonempty: "pieces cs \<Longrightarrow> c \<in> set cs \<Longrightarrow> c \<noteq> []"
  by (cases cs) (auto simp: scalar_piece_def)

lemma chars_ascii: "\<forall>b \<in> set s. \<not> is_cont b \<Longrightarrow> chars s = map (\<lambda>b. [b]) s"
proof (induction s)
  case Nil
  then show ?case by simp
next
  case (Cons b s)
  then show ?case by (cases s) (auto simp: push_byte_def)
qed

lemma chars_append:
  "\<forall>c \<in> set (chars t). scalar_piece c \<Longrightarrow> chars (s @ t) = chars s @ chars t"
proof -
  assume t: "\<forall>c \<in> set (chars t). scalar_piece c"
  have "pieces (chars s @ chars t)"
    using t pieces_chars [of s] by (cases "chars s") (auto simp: scalar_pieces)
  from chars_concat [OF this] show ?thesis by simp
qed

lemma chars_eq_Nil [simp]: "chars s = [] \<longleftrightarrow> s = []"
  by (metis chars.simps(1) concat.simps(1) concat_chars)

lemma push_byte_hd: "\<exists>ds es. push_byte b cs = (b # ds) # es"
  by (simp add: push_byte_def split: list.split)

lemma chars_append_start:
  "t = [] \<or> \<not> is_cont (hd t) \<Longrightarrow> chars (s @ t) = chars s @ chars t"
proof (induction s)
  case Nil
  then show ?case by simp
next
  case (Cons b s)
  show ?case
  proof (cases s)
    case Nil
    show ?thesis
    proof (cases t)
      case (Cons c t')
      obtain ds es where "chars t = (c # ds) # es"
        using Cons push_byte_hd [of c "chars t'"] by auto
      with Cons.prems Nil Cons show ?thesis by (simp add: push_byte_def)
    qed (use Nil in simp)
  next
    case (Cons c s')
    then have "chars s \<noteq> []" by (metis chars_eq_Nil list.distinct(1))
    then show ?thesis using Cons.IH [OF Cons.prems]
      by (auto simp: push_byte_def split: list.splits)
  qed
qed

section \<open>Character classes\<close>

text \<open>\<open>char::is_whitespace\<close>: the Unicode property White_Space, each code point above
  U+007F as its UTF-8 bytes.\<close>

definition wide_spaces :: "rchar list" where
  "wide_spaces =
     [[CHR 0xC2, CHR 0x85], [CHR 0xC2, CHR 0xA0], [CHR 0xE1, CHR 0x9A, CHR 0x80],
      [CHR 0xE2, CHR 0x80, CHR 0x80], [CHR 0xE2, CHR 0x80, CHR 0x81],
      [CHR 0xE2, CHR 0x80, CHR 0x82], [CHR 0xE2, CHR 0x80, CHR 0x83],
      [CHR 0xE2, CHR 0x80, CHR 0x84], [CHR 0xE2, CHR 0x80, CHR 0x85],
      [CHR 0xE2, CHR 0x80, CHR 0x86], [CHR 0xE2, CHR 0x80, CHR 0x87],
      [CHR 0xE2, CHR 0x80, CHR 0x88], [CHR 0xE2, CHR 0x80, CHR 0x89],
      [CHR 0xE2, CHR 0x80, CHR 0x8A], [CHR 0xE2, CHR 0x80, CHR 0xA8],
      [CHR 0xE2, CHR 0x80, CHR 0xA9], [CHR 0xE2, CHR 0x80, CHR 0xAF],
      [CHR 0xE2, CHR 0x81, CHR 0x9F], [CHR 0xE3, CHR 0x80, CHR 0x80]]"

definition ascii_space :: "char \<Rightarrow> bool" where
  "ascii_space b \<longleftrightarrow>
     b \<in> {CHR 0x20, CHR 0x09, CHR 0x0A, CHR 0x0B, CHR 0x0C, CHR 0x0D}"

fun is_whitespace :: "rchar \<Rightarrow> bool" where
  "is_whitespace [b] = ascii_space b"
| "is_whitespace c = (c \<in> set wide_spaces)"

definition byte_in :: "nat \<Rightarrow> nat \<Rightarrow> char \<Rightarrow> bool" where
  "byte_in lo hi b \<longleftrightarrow> lo \<le> of_char b \<and> of_char b \<le> hi"

definition byte_upper :: "char \<Rightarrow> bool" where "byte_upper b = byte_in 65 90 b"
definition byte_lower :: "char \<Rightarrow> bool" where "byte_lower b = byte_in 97 122 b"
definition byte_digit :: "char \<Rightarrow> bool" where "byte_digit b = byte_in 48 57 b"

definition byte_alpha :: "char \<Rightarrow> bool" where
  "byte_alpha b \<longleftrightarrow> byte_upper b \<or> byte_lower b"

definition byte_alnum :: "char \<Rightarrow> bool" where
  "byte_alnum b \<longleftrightarrow> byte_alpha b \<or> byte_digit b"

definition byte_punct :: "char \<Rightarrow> bool" where
  "byte_punct b \<longleftrightarrow>
     byte_in 33 47 b \<or> byte_in 58 64 b \<or> byte_in 91 96 b \<or> byte_in 123 126 b"

fun on_ascii :: "(char \<Rightarrow> bool) \<Rightarrow> rchar \<Rightarrow> bool" where
  "on_ascii P [b] = (P b \<and> \<not> digit7 b)"
| "on_ascii P c = False"

definition is_ascii_alphabetic :: "rchar \<Rightarrow> bool" where
  "is_ascii_alphabetic = on_ascii byte_alpha"

definition is_ascii_alphanumeric :: "rchar \<Rightarrow> bool" where
  "is_ascii_alphanumeric = on_ascii byte_alnum"

definition is_ascii_punctuation :: "rchar \<Rightarrow> bool" where
  "is_ascii_punctuation = on_ascii byte_punct"

definition lower_byte :: "char \<Rightarrow> char" where
  "lower_byte b =
     (if byte_upper b
      then Char (digit0 b) (digit1 b) (digit2 b) (digit3 b) (digit4 b) True (digit6 b) (digit7 b)
      else b)"

definition to_ascii_lowercase :: "string \<Rightarrow> string" where
  "to_ascii_lowercase = map lower_byte"

section \<open>Searching, prefixes and suffixes\<close>

fun starts_with :: "string \<Rightarrow> string \<Rightarrow> bool" where
  "starts_with s [] = True"
| "starts_with [] (p # ps) = False"
| "starts_with (b # bs) (p # ps) = (b = p \<and> starts_with bs ps)"

fun contains :: "string \<Rightarrow> string \<Rightarrow> bool" where
  "contains [] p = (p = [])"
| "contains (b # bs) p = (starts_with (b # bs) p \<or> contains bs p)"

definition contains_any :: "string \<Rightarrow> string list \<Rightarrow> bool" where
  "contains_any s ps \<longleftrightarrow> list_ex (contains s) ps"

definition ends_with :: "string \<Rightarrow> string \<Rightarrow> bool" where
  "ends_with s p \<longleftrightarrow> starts_with (rev s) (rev p)"

definition strip_prefix :: "string \<Rightarrow> string \<Rightarrow> string option" where
  "strip_prefix s p = (if starts_with s p then Some (drop (length p) s) else None)"

definition strip_suffix :: "string \<Rightarrow> string \<Rightarrow> string option" where
  "strip_suffix s p = (if ends_with s p then Some (take (length s - length p) s) else None)"

lemma starts_with_iff: "starts_with s p \<longleftrightarrow> prefix p s"
  by (induction s p rule: starts_with.induct) auto

lemma ends_with_iff: "ends_with s p \<longleftrightarrow> suffix p s"
  by (simp add: ends_with_def starts_with_iff suffix_to_prefix)

lemma contains_iff: "contains s p \<longleftrightarrow> sublist p s"
proof (induction s)
  case Nil
  then show ?case by simp
next
  case (Cons b s)
  then show ?case by (auto simp: starts_with_iff sublist_Cons_right)
qed

lemma contains_append_mid: "contains (xs @ p @ ys) p"
  by (auto simp: contains_iff sublist_def)

lemma strip_suffix_Some: "strip_suffix s p = Some r \<Longrightarrow> s = r @ p"
  by (auto simp: strip_suffix_def ends_with_iff suffix_def split: if_splits)

lemma strip_prefix_Some: "strip_prefix s p = Some r \<Longrightarrow> s = p @ r"
  by (auto simp: strip_prefix_def starts_with_iff prefix_def split: if_splits)

section \<open>Trimming and splitting\<close>

definition trim_matches :: "(rchar \<Rightarrow> bool) \<Rightarrow> string \<Rightarrow> string" where
  "trim_matches P s = concat (trim_list P (chars s))"

definition trim :: "string \<Rightarrow> string" where
  "trim = trim_matches is_whitespace"

definition trim_end :: "string \<Rightarrow> string" where
  "trim_end s = concat (rev (dropWhile is_whitespace (rev (chars s))))"

lemma pieces_trim_list: "pieces cs \<Longrightarrow> pieces (trim_list P cs)"
  by (metis pieces_infix trim_list_split)

lemma chars_trim_matches: "chars (trim_matches P s) = trim_list P (chars s)"
  by (simp add: trim_matches_def chars_concat pieces_trim_list)

lemma chars_trim: "chars (trim s) = trim_list is_whitespace (chars s)"
  by (simp add: trim_def chars_trim_matches)

lemma trim_idem [simp]: "trim (trim s) = trim s"
  by (simp add: trim_def trim_matches_def chars_trim_matches [unfolded trim_matches_def])

lemma trim_Nil [simp]: "trim [] = []"
  by (simp add: trim_def trim_matches_def)

lemma trim_eq_Nil: "trim s = [] \<longleftrightarrow> (\<forall>c \<in> set (chars s). is_whitespace c)"
  by (metis chars_eq_Nil chars_trim trim_list_eq_Nil)

lemma trim_infix:
  obtains l r where "chars s = l @ chars (trim s) @ r"
    "\<forall>c \<in> set l. is_whitespace c" "\<forall>c \<in> set r. is_whitespace c"
  by (metis chars_trim trim_list_split)

fun split_at_sep :: "('a \<Rightarrow> bool) \<Rightarrow> 'a list \<Rightarrow> 'a list list" where
  "split_at_sep P [] = [[]]"
| "split_at_sep P (x # xs) =
     (if P x then [] # split_at_sep P xs
      else case split_at_sep P xs of [] \<Rightarrow> [[x]] | y # ys \<Rightarrow> (x # y) # ys)"

lemma split_at_sep_nonempty: "split_at_sep P xs \<noteq> []"
  by (cases xs) (simp_all split: list.split)

lemma split_at_sep_elems:
  "c \<in> set (split_at_sep P cs) \<Longrightarrow> set c \<subseteq> set cs \<and> (\<forall>x \<in> set c. \<not> P x)"
  by (induction cs arbitrary: c) (force split: if_splits list.splits)+

text \<open>\<open>str::split\<close> with a closure on \<open>char\<close>.\<close>

definition split_chars :: "(rchar \<Rightarrow> bool) \<Rightarrow> string \<Rightarrow> string list" where
  "split_chars P s = map concat (split_at_sep P (chars s))"

definition split_whitespace :: "string \<Rightarrow> string list" where
  "split_whitespace s = map concat (filter (\<lambda>c. c \<noteq> []) (split_at_sep is_whitespace (chars s)))"

text \<open>\<open>str::split\<close> with an ASCII character.\<close>

definition split_on :: "char \<Rightarrow> string \<Rightarrow> string list" where
  "split_on b s = split_at_sep (\<lambda>x. x = b) s"

text \<open>\<open>str::lines\<close>: split at line feeds, drop one carriage return before each, and no
  empty piece after a final line feed.\<close>

definition strip_cr :: "string \<Rightarrow> string" where
  "strip_cr l = (if l \<noteq> [] \<and> last l = CHR 0x0D then butlast l else l)"

definition lines :: "string \<Rightarrow> string list" where
  "lines s =
     (let ls = split_on (CHR 0x0A) s;
          body = map strip_cr (butlast ls)
      in if last ls = [] then body else body @ [last ls])"

text \<open>\<open>slice::join\<close>.\<close>

fun join :: "'a list \<Rightarrow> 'a list list \<Rightarrow> 'a list" where
  "join sep [] = []"
| "join sep [x] = x"
| "join sep (x # y # xs) = x @ sep @ join sep (y # xs)"

text \<open>\<open>str::replace\<close> for a non-empty pattern: leftmost, non-overlapping.\<close>

function replace_all :: "string \<Rightarrow> string \<Rightarrow> string \<Rightarrow> string" where
  "replace_all [] from to = []"
| "replace_all (b # bs) from to =
     (if from \<noteq> [] \<and> starts_with (b # bs) from
      then to @ replace_all (drop (length from) (b # bs)) from to
      else b # replace_all bs from to)"
  by pat_completeness auto
termination
  by (relation "measure (\<lambda>(s, _, _). length s)")
    (auto simp: neq_Nil_conv)

text \<open>\<open>str::find\<close> with a string: the byte offset of the first occurrence.\<close>

fun find_str :: "string \<Rightarrow> string \<Rightarrow> nat option" where
  "find_str [] p = (if p = [] then Some 0 else None)"
| "find_str (b # bs) p =
     (if starts_with (b # bs) p then Some 0 else map_option Suc (find_str bs p))"

definition char_count :: "string \<Rightarrow> nat" where
  "char_count s = length (chars s)"

definition take_chars :: "nat \<Rightarrow> string \<Rightarrow> string" where
  "take_chars n s = concat (take n (chars s))"

text \<open>The character U+2026, horizontal ellipsis.\<close>

definition ellipsis :: string where
  "ellipsis = [CHR 0xE2, CHR 0x80, CHR 0xA6]"

text \<open>Decimal rendering of a natural number, as \<open>format!\<close> writes an unsigned integer.\<close>

fun show_nat :: "nat \<Rightarrow> string" where
  "show_nat n =
     (if n < 10 then [char_of (48 + n)] else show_nat (n div 10) @ [char_of (48 + n mod 10)])"

declare show_nat.simps [simp del]

definition show_int :: "int \<Rightarrow> string" where
  "show_int i = (if i < 0 then ''-'' @ show_nat (nat (- i)) else show_nat (nat i))"

end
