(* ===== verification/Shell_Parse.thy ===== *)
theory Shell_Parse
  imports Rust_Str
begin

text \<open>
  The shell parser of the safety crate (\<open>termlm-safety/src/parse.rs\<close>): a one-pass scanner
  that splits a command line into tokens and records which shell constructs it met, and the
  summary \<open>parse_command\<close> that validation and the read-only probe rely on. The scanner is
  a step function over the machine state \<open>scanner\<close>; \<open>scan_loop\<close> is the source's \<open>while
  let\<close>, and the Boolean a step returns says that it took the peeked character too.
\<close>

section \<open>Data\<close>

record parsed_command =
  pc_first_token :: "string option"
  pc_tokens :: "string list"
  pc_has_pipeline :: bool
  pc_has_control_operators :: bool
  pc_has_redirection :: bool
  pc_has_command_substitution :: bool
  pc_has_grouping :: bool
  pc_trailing_operator :: bool
  pc_unbalanced_quotes :: bool
  pc_unbalanced_grouping :: bool
  pc_ambiguous :: bool
  pc_warnings :: "string list"

definition has_risky_constructs :: "parsed_command \<Rightarrow> bool" where
  "has_risky_constructs p \<longleftrightarrow>
     pc_has_pipeline p \<or> pc_has_control_operators p \<or> pc_has_redirection p
       \<or> pc_has_command_substitution p"

record scan_result =
  sr_tokens :: "string list"
  sr_has_pipeline :: bool
  sr_has_control_operators :: bool
  sr_has_redirection :: bool
  sr_has_command_substitution :: bool
  sr_has_grouping :: bool
  sr_trailing_operator :: bool
  sr_unbalanced_quotes :: bool
  sr_unbalanced_grouping :: bool
  sr_warnings :: "string list"

definition scan_result_default :: scan_result where
  "scan_result_default =
     \<lparr>sr_tokens = [], sr_has_pipeline = False, sr_has_control_operators = False,
      sr_has_redirection = False, sr_has_command_substitution = False,
      sr_has_grouping = False, sr_trailing_operator = False,
      sr_unbalanced_quotes = False, sr_unbalanced_grouping = False, sr_warnings = []\<rparr>"

text \<open>The local variables of \<open>scan_shell\<close>.\<close>

record scanner =
  sc_out :: scan_result
  sc_token :: string
  sc_single :: bool
  sc_double :: bool
  sc_escaped :: bool
  sc_depth :: nat
  sc_last_op :: bool

definition scanner_init :: scanner where
  "scanner_init =
     \<lparr>sc_out = scan_result_default, sc_token = [], sc_single = False, sc_double = False,
      sc_escaped = False, sc_depth = 0, sc_last_op = False\<rparr>"

section \<open>The scanner\<close>

text \<open>\<open>flush_token\<close>: the trimmed token is kept when it is not empty; the buffer is
  cleared either way.\<close>

definition flush_token :: "string \<Rightarrow> string list \<Rightarrow> string list" where
  "flush_token token out = (let t = trim token in if t \<noteq> [] then out @ [t] else out)"

definition flush :: "scanner \<Rightarrow> scanner" where
  "flush s =
     s\<lparr>sc_out := (sc_out s)\<lparr>sr_tokens := flush_token (sc_token s) (sr_tokens (sc_out s))\<rparr>,
       sc_token := []\<rparr>"

definition push_tok :: "string \<Rightarrow> scanner \<Rightarrow> scanner" where
  "push_tok c s = s\<lparr>sc_token := sc_token s @ c\<rparr>"

definition push_warning :: "string \<Rightarrow> scan_result \<Rightarrow> scan_result" where
  "push_warning w o1 = o1\<lparr>sr_warnings := sr_warnings o1 @ [w]\<rparr>"

fun peek :: "'a list \<Rightarrow> 'a option" where
  "peek [] = None"
| "peek (x # xs) = Some x"

text \<open>The arms of the \<open>match ch\<close> outside quotes.\<close>

definition scan_dollar :: "rchar option \<Rightarrow> scanner \<Rightarrow> scanner \<times> bool" where
  "scan_dollar nxt s =
     (if nxt = Some ''(''
      then (push_tok ''$('' s\<lparr>sc_out := (sc_out s)\<lparr>sr_has_command_substitution := True,
                                             sr_has_grouping := True\<rparr>,
                              sc_depth := usize_sat_add (sc_depth s) 1,
                              sc_last_op := False\<rparr>, True)
      else (push_tok ''$'' s\<lparr>sc_last_op := False\<rparr>, False))"

definition scan_open :: "scanner \<Rightarrow> scanner" where
  "scan_open s =
     (let s1 = s\<lparr>sc_out := (sc_out s)\<lparr>sr_has_grouping := True\<rparr>,
                 sc_depth := usize_sat_add (sc_depth s) 1,
                 sc_last_op := False\<rparr>
      in if sc_token s \<noteq> [] then push_tok ''('' s1 else s1)"

definition scan_close :: "scanner \<Rightarrow> scanner" where
  "scan_close s =
     (let o1 = (sc_out s)\<lparr>sr_has_grouping := True\<rparr>;
          s1 = (if sc_depth s = 0
                then s\<lparr>sc_out := push_warning ''unbalanced closing parenthesis''
                                   (o1\<lparr>sr_unbalanced_grouping := True\<rparr>)\<rparr>
                else s\<lparr>sc_out := o1, sc_depth := sc_depth s - 1\<rparr>);
          s2 = s1\<lparr>sc_last_op := False\<rparr>
      in if sc_token s \<noteq> [] then push_tok '')'' s2 else s2)"

definition scan_pipe :: "rchar option \<Rightarrow> scanner \<Rightarrow> scanner \<times> bool" where
  "scan_pipe nxt s =
     (let s1 = flush s in
      if nxt = Some ''|''
      then (s1\<lparr>sc_out := (sc_out s1)\<lparr>sr_has_control_operators := True\<rparr>, sc_last_op := True\<rparr>, True)
      else (s1\<lparr>sc_out := (sc_out s1)\<lparr>sr_has_pipeline := True\<rparr>, sc_last_op := True\<rparr>, False))"

definition scan_amp :: "rchar option \<Rightarrow> scanner \<Rightarrow> scanner \<times> bool" where
  "scan_amp nxt s =
     (let s1 = flush s in
      (s1\<lparr>sc_out := (sc_out s1)\<lparr>sr_has_control_operators := True\<rparr>, sc_last_op := True\<rparr>,
       nxt = Some ''&''))"

definition scan_semi :: "scanner \<Rightarrow> scanner" where
  "scan_semi s =
     (let s1 = flush s in
      s1\<lparr>sc_out := (sc_out s1)\<lparr>sr_has_control_operators := True\<rparr>, sc_last_op := True\<rparr>)"

definition scan_redirect :: "rchar option \<Rightarrow> scanner \<Rightarrow> scanner \<times> bool" where
  "scan_redirect nxt s =
     (let s1 = flush s in
      (s1\<lparr>sc_out := (sc_out s1)\<lparr>sr_has_redirection := True\<rparr>, sc_last_op := True\<rparr>,
       nxt = Some ''>'' \<or> nxt = Some ''<''))"

definition scan_space :: "scanner \<Rightarrow> scanner" where
  "scan_space s =
     (let s1 = flush s in
      if sr_tokens (sc_out s1) \<noteq> [] then s1\<lparr>sc_last_op := False\<rparr> else s1)"

definition scan_unquoted :: "rchar \<Rightarrow> rchar option \<Rightarrow> scanner \<Rightarrow> scanner \<times> bool" where
  "scan_unquoted ch nxt s =
     (if ch = [CHR 0x5C] then (s\<lparr>sc_escaped := True, sc_last_op := False\<rparr>, False)
      else if ch = [CHR 0x27] then (s\<lparr>sc_single := True, sc_last_op := False\<rparr>, False)
      else if ch = [CHR 0x22] then (s\<lparr>sc_double := True, sc_last_op := False\<rparr>, False)
      else if ch = ''$'' then scan_dollar nxt s
      else if ch = ''('' then (scan_open s, False)
      else if ch = '')'' then (scan_close s, False)
      else if ch = ''|'' then scan_pipe nxt s
      else if ch = ''&'' then scan_amp nxt s
      else if ch = '';'' then (scan_semi s, False)
      else if ch = ''>'' \<or> ch = ''<'' then scan_redirect nxt s
      else if is_whitespace ch then (scan_space s, False)
      else (push_tok ch s\<lparr>sc_last_op := False\<rparr>, False))"

text \<open>One iteration: the escape and quote cases come first, each ending in \<open>continue\<close>.\<close>

definition scan_step :: "rchar \<Rightarrow> rchar option \<Rightarrow> scanner \<Rightarrow> scanner \<times> bool" where
  "scan_step ch nxt s =
     (if sc_escaped s
      then (push_tok ch s\<lparr>sc_escaped := False, sc_last_op := False\<rparr>, False)
      else if sc_single s
      then (if ch = [CHR 0x27] then (s\<lparr>sc_single := False\<rparr>, False) else (push_tok ch s, False))
      else if sc_double s
      then (if ch = [CHR 0x22] then (s\<lparr>sc_double := False\<rparr>, False)
            else if ch = [CHR 0x5C] then (s\<lparr>sc_escaped := True\<rparr>, False)
            else (push_tok ch s, False))
      else scan_unquoted ch nxt s)"

function scan_loop :: "rchar list \<Rightarrow> scanner \<Rightarrow> scanner" where
  "scan_loop [] s = s"
| "scan_loop (ch # rest) s =
     (case scan_step ch (peek rest) s of
        (s', took) \<Rightarrow> scan_loop (if took then tl rest else rest) s')"
  by pat_completeness auto
termination
  by (relation "measure (\<lambda>(cs, _). length cs)") auto

text \<open>What \<open>scan_shell\<close> does after the loop.\<close>

definition scan_finish :: "scanner \<Rightarrow> scan_result" where
  "scan_finish s =
     (let s1 = flush s;
          o1 = sc_out s1;
          o2 = (if sc_single s1 \<or> sc_double s1 \<or> sc_escaped s1
                then push_warning ''unbalanced or unterminated quoting''
                       (o1\<lparr>sr_unbalanced_quotes := True\<rparr>)
                else o1);
          o3 = (if 0 < sc_depth s1
                then push_warning ''unbalanced grouping parentheses''
                       (o2\<lparr>sr_unbalanced_grouping := True\<rparr>)
                else o2)
      in if sc_last_op s1
         then push_warning ''command ends with a shell operator''
                (o3\<lparr>sr_trailing_operator := True\<rparr>)
         else o3)"

definition scan_shell :: "string \<Rightarrow> scan_result" where
  "scan_shell input = scan_finish (scan_loop (chars input) scanner_init)"

section \<open>The first significant token\<close>

definition is_env_assignment :: "string \<Rightarrow> bool" where
  "is_env_assignment token =
     (let lhs = takeWhile (\<lambda>b. b \<noteq> CHR ''='') token in
      if length lhs = length token then False
      else case chars lhs of
        [] \<Rightarrow> False
      | first # rest \<Rightarrow>
          (is_ascii_alphabetic first \<or> first = ''_'')
          \<and> list_all (\<lambda>c. is_ascii_alphanumeric c \<or> c = ''_'') rest)"

fun first_significant :: "bool \<Rightarrow> string list \<Rightarrow> string option" where
  "first_significant skipping [] = None"
| "first_significant skipping (t # ts) =
     (if t = ''sudo'' then first_significant True ts
      else if skipping \<and> starts_with t ''-'' then first_significant skipping ts
      else if t = ''env'' then first_significant False ts
      else if is_env_assignment t then first_significant False ts
      else Some t)"

definition extract_first_significant_token :: "string list \<Rightarrow> string option" where
  "extract_first_significant_token ts = first_significant False ts"

definition parse_command :: "string \<Rightarrow> parsed_command" where
  "parse_command cmd =
     (let scan = scan_shell cmd;
          first = extract_first_significant_token (sr_tokens scan);
          ambiguous = sr_unbalanced_grouping scan \<or> sr_unbalanced_quotes scan
                        \<or> sr_trailing_operator scan \<or> first = None
      in \<lparr>pc_first_token = first, pc_tokens = sr_tokens scan,
          pc_has_pipeline = sr_has_pipeline scan,
          pc_has_control_operators = sr_has_control_operators scan,
          pc_has_redirection = sr_has_redirection scan,
          pc_has_command_substitution = sr_has_command_substitution scan,
          pc_has_grouping = sr_has_grouping scan,
          pc_trailing_operator = sr_trailing_operator scan,
          pc_unbalanced_quotes = sr_unbalanced_quotes scan,
          pc_unbalanced_grouping = sr_unbalanced_grouping scan,
          pc_ambiguous = ambiguous, pc_warnings = sr_warnings scan\<rparr>)"

definition first_significant_token :: "string \<Rightarrow> string option" where
  "first_significant_token cmd = pc_first_token (parse_command cmd)"

section \<open>Lemma library for the scanner\<close>

lemmas scan_arm_defs =
  scan_dollar_def scan_open_def scan_close_def scan_pipe_def scan_amp_def scan_semi_def
  scan_redirect_def scan_space_def

lemmas scan_step_defs = scan_step_def scan_unquoted_def scan_arm_defs

lemma flush_simps [simp]:
  "sc_token (flush s) = []" "sc_single (flush s) = sc_single s"
  "sc_double (flush s) = sc_double s" "sc_escaped (flush s) = sc_escaped s"
  "sc_depth (flush s) = sc_depth s" "sc_last_op (flush s) = sc_last_op s"
  "sc_out (flush s) =
     (sc_out s)\<lparr>sr_tokens := flush_token (sc_token s) (sr_tokens (sc_out s))\<rparr>"
  by (simp_all add: flush_def)

lemma push_tok_simps [simp]:
  "sc_token (push_tok c s) = sc_token s @ c" "sc_single (push_tok c s) = sc_single s"
  "sc_double (push_tok c s) = sc_double s" "sc_escaped (push_tok c s) = sc_escaped s"
  "sc_depth (push_tok c s) = sc_depth s" "sc_last_op (push_tok c s) = sc_last_op s"
  "sc_out (push_tok c s) = sc_out s"
  by (simp_all add: push_tok_def)

lemma push_warning_simps [simp]:
  "sr_tokens (push_warning w o1) = sr_tokens o1"
  "sr_has_pipeline (push_warning w o1) = sr_has_pipeline o1"
  "sr_has_control_operators (push_warning w o1) = sr_has_control_operators o1"
  "sr_has_redirection (push_warning w o1) = sr_has_redirection o1"
  "sr_has_command_substitution (push_warning w o1) = sr_has_command_substitution o1"
  "sr_has_grouping (push_warning w o1) = sr_has_grouping o1"
  "sr_trailing_operator (push_warning w o1) = sr_trailing_operator o1"
  "sr_unbalanced_quotes (push_warning w o1) = sr_unbalanced_quotes o1"
  "sr_unbalanced_grouping (push_warning w o1) = sr_unbalanced_grouping o1"
  "sr_warnings (push_warning w o1) = sr_warnings o1 @ [w]"
  by (simp_all add: push_warning_def)

text \<open>Unfolding one iteration without a case split on the pair.\<close>

lemma scan_loop_Cons:
  "scan_loop (ch # rest) s =
     scan_loop (if snd (scan_step ch (peek rest) s) then tl rest else rest)
       (fst (scan_step ch (peek rest) s))"
  by (simp add: case_prod_beta)

declare scan_loop.simps(2) [simp del]

text \<open>Every state of the loop satisfies what each step keeps.\<close>

lemma scan_loop_invariant:
  assumes step: "\<And>ch n s. I s \<Longrightarrow> I (fst (scan_step ch n s))" and "I s"
  shows "I (scan_loop cs s)"
  using assms(2)
proof (induction cs s rule: scan_loop.induct)
  case (1 s)
  then show ?case by simp
next
  case (2 ch rest s)
  obtain s' took where st: "scan_step ch (peek rest) s = (s', took)" by force
  with step [OF 2(2)] have "I s'" by (metis fst_conv)
  with 2(1) [OF st [symmetric]] st show ?case by (simp add: scan_loop_Cons)
qed

subsection \<open>Tokens are trimmed and not empty\<close>

definition good_tokens :: "string list \<Rightarrow> bool" where
  "good_tokens ts \<longleftrightarrow> (\<forall>t \<in> set ts. t \<noteq> [] \<and> trim t = t)"

lemma good_tokens_flush: "good_tokens ts \<Longrightarrow> good_tokens (flush_token tok ts)"
  by (auto simp: good_tokens_def flush_token_def Let_def)

lemma scan_step_tokens:
  "sr_tokens (sc_out (fst (scan_step ch n s)))
     \<in> {sr_tokens (sc_out s), flush_token (sc_token s) (sr_tokens (sc_out s))}"
  by (simp add: scan_step_defs Let_def)

lemma scan_loop_good_tokens:
  "good_tokens (sr_tokens (sc_out s)) \<Longrightarrow> good_tokens (sr_tokens (sc_out (scan_loop cs s)))"
proof (rule scan_loop_invariant [where I = "\<lambda>s. good_tokens (sr_tokens (sc_out s))"])
  fix ch n and s :: scanner
  assume "good_tokens (sr_tokens (sc_out s))"
  with scan_step_tokens [of ch n s] good_tokens_flush
  show "good_tokens (sr_tokens (sc_out (fst (scan_step ch n s))))" by auto
qed

lemma scan_finish_tokens:
  "sr_tokens (scan_finish s) = flush_token (sc_token s) (sr_tokens (sc_out s))"
  by (simp add: scan_finish_def Let_def)

lemma scan_shell_good_tokens: "good_tokens (sr_tokens (scan_shell cmd))"
  unfolding scan_shell_def scan_finish_tokens
  by (rule good_tokens_flush, rule scan_loop_good_tokens)
    (simp add: scanner_init_def scan_result_default_def good_tokens_def)

subsection \<open>Clean scans\<close>

text \<open>A scan is clean while it has met no pipeline, control operator, redirection,
  substitution or grouping. The flags never go back, so a clean result means that every
  step before it was clean; and a clean step neither takes nor depends on the peeked
  character, except for the parenthesis of a substitution.\<close>

definition clean :: "scan_result \<Rightarrow> bool" where
  "clean r \<longleftrightarrow> \<not> sr_has_pipeline r \<and> \<not> sr_has_control_operators r \<and> \<not> sr_has_redirection r
     \<and> \<not> sr_has_command_substitution r \<and> \<not> sr_has_grouping r"

lemma clean_step_back: "clean (sc_out (fst (scan_step ch n s))) \<Longrightarrow> clean (sc_out s)"
  by (auto simp: scan_step_defs Let_def clean_def split: if_splits)

lemma clean_not_took: "clean (sc_out (fst (scan_step ch n s))) \<Longrightarrow> \<not> snd (scan_step ch n s)"
  by (auto simp: scan_step_defs Let_def clean_def split: if_splits)

lemma clean_peek_unquoted:
  "clean (sc_out (fst (scan_unquoted ch None s))) \<Longrightarrow> n \<noteq> Some ''('' \<Longrightarrow>
     scan_unquoted ch n s = scan_unquoted ch None s"
  by (simp add: scan_unquoted_def scan_arm_defs Let_def clean_def split: if_splits)

lemma clean_peek:
  "clean (sc_out (fst (scan_step ch None s))) \<Longrightarrow> n \<noteq> Some ''('' \<Longrightarrow>
     scan_step ch n s = scan_step ch None s"
  unfolding scan_step_def by (auto intro: clean_peek_unquoted split: if_splits)

lemma clean_loop_back: "clean (sc_out (scan_loop cs s)) \<Longrightarrow> clean (sc_out s)"
proof (induction cs s rule: scan_loop.induct)
  case (1 s)
  then show ?case by simp
next
  case (2 ch rest s)
  obtain s' took where st: "scan_step ch (peek rest) s = (s', took)" by force
  from 2(2) st have "clean (sc_out (scan_loop (if took then tl rest else rest) s'))"
    by (simp add: scan_loop_Cons)
  with 2(1) [OF st [symmetric]] have "clean (sc_out s')" by auto
  with st clean_step_back [of ch "peek rest" s] show ?case by simp
qed

lemma clean_loop_Cons:
  assumes "clean (sc_out (scan_loop (ch # rest) s))"
  shows "scan_loop (ch # rest) s = scan_loop rest (fst (scan_step ch (peek rest) s))"
proof -
  have "clean (sc_out (fst (scan_step ch (peek rest) s)))"
    using assms clean_loop_back by (metis scan_loop_Cons)
  then have "\<not> snd (scan_step ch (peek rest) s)" by (rule clean_not_took)
  then show ?thesis by (simp add: scan_loop_Cons)
qed

lemma scan_loop_append:
  "clean (sc_out (scan_loop xs s)) \<Longrightarrow> peek ys \<noteq> Some ''('' \<Longrightarrow>
     scan_loop (xs @ ys) s = scan_loop ys (scan_loop xs s)"
proof (induction xs arbitrary: s)
  case Nil
  then show ?case by simp
next
  case (Cons ch xs)
  let ?n = "peek xs"
  have step: "scan_loop (ch # xs) s = scan_loop xs (fst (scan_step ch ?n s))"
    using Cons.prems(1) by (rule clean_loop_Cons)
  with Cons.prems(1) have cl: "clean (sc_out (scan_loop xs (fst (scan_step ch ?n s))))"
    by simp
  then have cl1: "clean (sc_out (fst (scan_step ch ?n s)))" by (rule clean_loop_back)
  have same: "scan_step ch (peek (xs @ ys)) s = scan_step ch ?n s"
    using cl1 Cons.prems(2) by (cases xs) (auto intro: clean_peek)
  have "scan_loop ((ch # xs) @ ys) s = scan_loop (xs @ ys) (fst (scan_step ch ?n s))"
    using clean_not_took [OF cl1] by (simp add: scan_loop_Cons same)
  also have "\<dots> = scan_loop ys (scan_loop xs (fst (scan_step ch ?n s)))"
    using cl Cons.prems(2) by (rule Cons.IH)
  finally show ?case by (simp add: step)
qed

end
