(* ===== verification/Shell_Stages.thy ===== *)
theory Shell_Stages
  imports Shell_Parse
begin

text \<open>
  What a pipeline is: the specification the read-only probe is checked against. A stage is
  the list of tokens between two pipe characters that the scanner itself reads as
  pipeline operators, so quoting and escapes are honoured exactly as in \<open>scan_shell\<close>. The
  lemmas decompose the stages of a command along any way of cutting it at pipe characters,
  as long as every piece scans clean on its own.
\<close>

definition neutral :: "scanner \<Rightarrow> bool" where
  "neutral s \<longleftrightarrow> \<not> sc_single s \<and> \<not> sc_double s \<and> \<not> sc_escaped s"

definition set_tokens :: "string list \<Rightarrow> scanner \<Rightarrow> scanner" where
  "set_tokens ts s = s\<lparr>sc_out := (sc_out s)\<lparr>sr_tokens := ts\<rparr>\<rparr>"

definition final_tokens :: "scanner \<Rightarrow> string list" where
  "final_tokens s = flush_token (sc_token s) (sr_tokens (sc_out s))"

function scan_stages :: "rchar list \<Rightarrow> scanner \<Rightarrow> string list list" where
  "scan_stages [] s = [final_tokens s]"
| "scan_stages (ch # rest) s =
     (case scan_step ch (peek rest) s of
        (s', took) \<Rightarrow>
          if neutral s \<and> ch = ''|'' \<and> \<not> took
          then sr_tokens (sc_out s') # scan_stages rest (set_tokens [] s')
          else scan_stages (if took then tl rest else rest) s')"
  by pat_completeness auto
termination
  by (relation "measure (\<lambda>(cs, _). length cs)") auto

declare scan_stages.simps(2) [simp del]

definition pipeline_stages :: "string \<Rightarrow> string list list" where
  "pipeline_stages cmd = scan_stages (chars cmd) scanner_init"

section \<open>What the scanner's control depends on\<close>

text \<open>Two states that differ in the tokens collected so far, in the flags and in
  \<open>last_was_operator\<close> run in lockstep.\<close>

definition shift :: "string list \<Rightarrow> scanner \<Rightarrow> scanner \<Rightarrow> bool" where
  "shift T s s' \<longleftrightarrow>
     sc_token s' = sc_token s \<and> sc_single s' = sc_single s \<and> sc_double s' = sc_double s
     \<and> sc_escaped s' = sc_escaped s \<and> sc_depth s' = sc_depth s
     \<and> sr_tokens (sc_out s') = T @ sr_tokens (sc_out s)"

lemma flush_token_append: "flush_token t (T @ ts) = T @ flush_token t ts"
  by (simp add: flush_token_def Let_def)

lemma shift_unquoted:
  assumes "shift T s s'"
  shows "shift T (fst (scan_unquoted ch n s)) (fst (scan_unquoted ch n s'))"
    and "snd (scan_unquoted ch n s) = snd (scan_unquoted ch n s')"
  using assms
  by (simp_all add: shift_def scan_unquoted_def scan_arm_defs Let_def flush_token_append)

lemma shift_step:
  assumes "shift T s s'"
  shows "shift T (fst (scan_step ch n s)) (fst (scan_step ch n s'))"
    and "snd (scan_step ch n s) = snd (scan_step ch n s')"
  using assms shift_unquoted [OF assms]
  by (simp_all add: scan_step_def) (simp_all add: shift_def)

lemma shift_neutral: "shift T s s' \<Longrightarrow> neutral s' = neutral s"
  by (simp add: shift_def neutral_def)

lemma shift_final: "shift T s s' \<Longrightarrow> final_tokens s' = T @ final_tokens s"
  by (simp add: shift_def final_tokens_def flush_token_append)

lemma shift_loop: "shift T s s' \<Longrightarrow> shift T (scan_loop cs s) (scan_loop cs s')"
proof (induction cs s arbitrary: s' rule: scan_loop.induct)
  case (1 s)
  then show ?case by simp
next
  case (2 ch rest s)
  obtain t took where st: "scan_step ch (peek rest) s = (t, took)" by force
  note sh = shift_step [OF 2(2), of ch "peek rest"]
  from 2(1) [OF st [symmetric], of "fst (scan_step ch (peek rest) s')"] sh st
  show ?case by (simp add: scan_loop_Cons [of ch rest s] scan_loop_Cons [of ch rest s'])
qed

lemma scan_stages_pipe:
  "scan_step ch (peek rest) s = (t, took) \<Longrightarrow> neutral s \<and> ch = ''|'' \<and> \<not> took \<Longrightarrow>
     scan_stages (ch # rest) s = sr_tokens (sc_out t) # scan_stages rest (set_tokens [] t)"
  by (simp add: scan_stages.simps(2))

lemma scan_stages_other:
  "scan_step ch (peek rest) s = (t, took) \<Longrightarrow> \<not> (neutral s \<and> ch = ''|'' \<and> \<not> took) \<Longrightarrow>
     scan_stages (ch # rest) s = scan_stages (if took then tl rest else rest) t"
  by (subst scan_stages.simps(2)) (simp only: prod.case if_not_P if_False)

lemma scan_loop_step:
  "scan_step ch (peek rest) s = (t, took) \<Longrightarrow>
     scan_loop (ch # rest) s = scan_loop (if took then tl rest else rest) t"
  by (simp add: scan_loop_Cons)

lemma shift_set_tokens: "shift T s s' \<Longrightarrow> shift [] (set_tokens [] s) (set_tokens [] s')"
  by (simp add: shift_def set_tokens_def)

lemma shift_stages: "shift [] s s' \<Longrightarrow> scan_stages cs s' = scan_stages cs s"
proof (induction cs s arbitrary: s' rule: scan_stages.induct)
  case (1 s)
  then show ?case by (simp add: shift_final)
next
  case (2 ch rest s)
  obtain t took where st: "scan_step ch (peek rest) s = (t, took)" by force
  obtain t' took' where st1: "scan_step ch (peek rest) s' = (t', took')" by force
  from shift_step [OF 2(3), of ch "peek rest"] st st1
  have st': "scan_step ch (peek rest) s' = (t', took)" and sh: "shift [] t t'"
    by simp_all
  have toks: "sr_tokens (sc_out t') = sr_tokens (sc_out t)" using sh by (simp add: shift_def)
  show ?case
  proof (cases "neutral s \<and> ch = ''|'' \<and> \<not> took")
    case True
    then have "scan_stages rest (set_tokens [] t') = scan_stages rest (set_tokens [] t)"
      by (intro 2(1) [OF st [symmetric]] shift_set_tokens [OF sh])
    moreover have "neutral s' \<and> ch = ''|'' \<and> \<not> took"
      using True shift_neutral [OF 2(3)] by simp
    ultimately show ?thesis
      using scan_stages_pipe [OF st True] scan_stages_pipe [OF st'] toks by metis
  next
    case False
    then have "scan_stages (if took then tl rest else rest) t'
                 = scan_stages (if took then tl rest else rest) t"
      by (intro 2(2) [OF st [symmetric]] sh)
    moreover have "\<not> (neutral s' \<and> ch = ''|'' \<and> \<not> took)"
      using False shift_neutral [OF 2(3)] by simp
    ultimately show ?thesis
      using scan_stages_other [OF st False] scan_stages_other [OF st'] by metis
  qed
qed

text \<open>The stages are a partition of the scanner's tokens, in order.\<close>

lemma concat_scan_stages: "concat (scan_stages cs s) = final_tokens (scan_loop cs s)"
proof (induction cs s rule: scan_stages.induct)
  case (1 s)
  then show ?case by simp
next
  case (2 ch rest s)
  obtain t took where st: "scan_step ch (peek rest) s = (t, took)" by force
  show ?case
  proof (cases "neutral s \<and> ch = ''|'' \<and> \<not> took")
    case True
    have "shift (sr_tokens (sc_out t)) (set_tokens [] t) t"
      by (simp add: shift_def set_tokens_def)
    then have "final_tokens (scan_loop rest t)
                 = sr_tokens (sc_out t) @ final_tokens (scan_loop rest (set_tokens [] t))"
      by (intro shift_final shift_loop)
    with 2(1) [OF st [symmetric] True] True scan_stages_pipe [OF st True] scan_loop_step [OF st]
    show ?thesis by simp
  next
    case False
    with 2(2) [OF st [symmetric] False] scan_stages_other [OF st False] scan_loop_step [OF st]
    show ?thesis by simp
  qed
qed

section \<open>Decomposition along pipe characters\<close>

lemma scan_stages_append:
  "clean (sc_out (scan_loop xs s)) \<Longrightarrow> peek ys \<noteq> Some ''('' \<Longrightarrow>
     scan_stages (xs @ ys) s = scan_stages ys (scan_loop xs s)"
proof (induction xs arbitrary: s)
  case Nil
  then show ?case by simp
next
  case (Cons ch xs)
  let ?t = "fst (scan_step ch (peek xs) s)"
  have step: "scan_loop (ch # xs) s = scan_loop xs ?t"
    using Cons.prems(1) by (rule clean_loop_Cons)
  with Cons.prems(1) have cl: "clean (sc_out (scan_loop xs ?t))" by simp
  then have cl1: "clean (sc_out ?t)" by (rule clean_loop_back)
  have same: "scan_step ch (peek (xs @ ys)) s = scan_step ch (peek xs) s"
    using cl1 Cons.prems(2) by (cases xs) (auto intro: clean_peek)
  have nt: "\<not> snd (scan_step ch (peek xs) s)" using cl1 by (rule clean_not_took)
  have no: "\<not> (neutral s \<and> ch = ''|'')"
  proof
    assume "neutral s \<and> ch = ''|''"
    then have "\<not> clean (sc_out ?t)"
      by (simp add: neutral_def scan_step_def scan_unquoted_def scan_pipe_def clean_def Let_def)
    with cl1 show False by simp
  qed
  have "scan_step ch (peek (xs @ ys)) s = (?t, False)"
    using nt same by (simp add: prod_eq_iff)
  with no have "scan_stages ((ch # xs) @ ys) s = scan_stages (xs @ ys) ?t"
    using scan_stages_other [of ch "xs @ ys" s ?t False] by simp
  also have "\<dots> = scan_stages ys (scan_loop xs ?t)"
    using cl Cons.prems(2) by (rule Cons.IH)
  finally show ?case by (simp add: step)
qed

lemma clean_step_depth:
  "clean (sc_out (fst (scan_step ch n s))) \<Longrightarrow> sc_depth (fst (scan_step ch n s)) = sc_depth s"
  by (auto simp: scan_step_defs Let_def clean_def split: if_splits)

lemma clean_loop_depth:
  "clean (sc_out (scan_loop cs s)) \<Longrightarrow> sc_depth (scan_loop cs s) = sc_depth s"
proof (induction cs arbitrary: s)
  case Nil
  then show ?case by simp
next
  case (Cons ch cs)
  let ?t = "fst (scan_step ch (peek cs) s)"
  have step: "scan_loop (ch # cs) s = scan_loop cs ?t"
    using Cons.prems by (rule clean_loop_Cons)
  with Cons.prems have cl: "clean (sc_out (scan_loop cs ?t))" by simp
  from Cons.IH [OF cl] clean_step_depth [OF clean_loop_back [OF cl]] step show ?case by simp
qed

text \<open>A piece that scans clean from the start and ends outside quotes is one stage.\<close>

definition clean_piece :: "rchar list \<Rightarrow> bool" where
  "clean_piece r \<longleftrightarrow>
     clean (sc_out (scan_loop r scanner_init)) \<and> neutral (scan_loop r scanner_init)"

definition piece_tokens :: "rchar list \<Rightarrow> string list" where
  "piece_tokens r = final_tokens (scan_loop r scanner_init)"

lemma scanner_init_simps [simp]:
  "sc_token scanner_init = []" "sc_single scanner_init = False" "sc_double scanner_init = False"
  "sc_escaped scanner_init = False" "sc_depth scanner_init = 0"
  "sc_out scanner_init = scan_result_default" "sc_last_op scanner_init = False"
  "sr_tokens scan_result_default = []" "neutral scanner_init"
  by (simp_all add: scanner_init_def scan_result_default_def neutral_def)

lemma scan_step_pipe:
  assumes "neutral s" and "n \<noteq> Some ''|''"
  shows "scan_step ''|'' n s = (let s1 = flush s in
           (s1\<lparr>sc_out := (sc_out s1)\<lparr>sr_has_pipeline := True\<rparr>, sc_last_op := True\<rparr>, False))"
  using assms by (simp add: neutral_def scan_step_def scan_unquoted_def scan_pipe_def)

lemma scan_step_pipe_unclean: "neutral s \<Longrightarrow> \<not> clean (sc_out (fst (scan_step ''|'' n s)))"
  by (simp add: neutral_def scan_step_def scan_unquoted_def scan_pipe_def clean_def Let_def)

lemma clean_piece_hd_not_pipe: "clean_piece r \<Longrightarrow> peek r \<noteq> Some ''|''"
proof
  assume cp: "clean_piece r" and "peek r = Some ''|''"
  then obtain rs where r: "r = ''|'' # rs" by (cases r) auto
  from cp have "clean (sc_out (scan_loop r scanner_init))" by (simp add: clean_piece_def)
  then have "clean (sc_out (fst (scan_step ''|'' (peek rs) scanner_init)))"
    using clean_loop_back clean_loop_Cons r by metis
  then show False by (simp add: scan_step_pipe_unclean)
qed

lemma stages_piece_Cons:
  assumes "clean_piece r" and "peek ys \<noteq> Some ''|''"
  shows "scan_stages (r @ ''|'' # ys) scanner_init = piece_tokens r # scan_stages ys scanner_init"
proof -
  let ?f = "scan_loop r scanner_init"
  from assms(1) have cl: "clean (sc_out ?f)" and ne: "neutral ?f"
    by (simp_all add: clean_piece_def)
  have d: "sc_depth ?f = 0" using clean_loop_depth [OF cl] by simp
  have "scan_stages (r @ ''|'' # ys) scanner_init = scan_stages (''|'' # ys) ?f"
    using cl by (rule scan_stages_append) simp
  also have "\<dots> = piece_tokens r
      # scan_stages ys (set_tokens [] (fst (scan_step ''|'' (peek ys) ?f)))"
    using scan_stages_pipe [of "''|''" ys ?f "fst (scan_step ''|'' (peek ys) ?f)" False]
      scan_step_pipe [OF ne assms(2)] ne
    by (simp add: piece_tokens_def final_tokens_def Let_def)
  also have "shift [] scanner_init (set_tokens [] (fst (scan_step ''|'' (peek ys) ?f)))"
    using ne d scan_step_pipe [OF ne assms(2)]
    by (simp add: shift_def set_tokens_def neutral_def Let_def)
  then have "scan_stages ys (set_tokens [] (fst (scan_step ''|'' (peek ys) ?f)))
      = scan_stages ys scanner_init"
    by (rule shift_stages)
  finally show ?thesis .
qed

fun join_pipes :: "rchar list list \<Rightarrow> rchar list" where
  "join_pipes [] = []"
| "join_pipes [r] = r"
| "join_pipes (r # q # rs) = r @ ''|'' # join_pipes (q # rs)"

lemma peek_join_pipes:
  "clean_piece q \<Longrightarrow> q \<noteq> [] \<Longrightarrow> peek (join_pipes (q # rs)) \<noteq> Some ''|''"
  using clean_piece_hd_not_pipe [of q] by (cases rs; cases q) auto

lemma stages_join_pipes:
  assumes "rs \<noteq> []" and "\<forall>r \<in> set rs. clean_piece r \<and> r \<noteq> []"
  shows "scan_stages (join_pipes rs) scanner_init = map piece_tokens rs"
  using assms
proof (induction rs rule: join_pipes.induct)
  case 1
  then show ?case by simp
next
  case (2 r)
  then show ?case
    using scan_stages_append [of r scanner_init "[]"]
    by (simp add: piece_tokens_def clean_piece_def)
next
  case (3 r q rs)
  then show ?case by (simp add: stages_piece_Cons peek_join_pipes)
qed

section \<open>White space around a piece\<close>

lemma whitespace_ordinary:
  assumes "is_whitespace ch"
  shows "ch \<noteq> [CHR 0x5C]" "ch \<noteq> [CHR 0x27]" "ch \<noteq> [CHR 0x22]" "ch \<noteq> ''$''" "ch \<noteq> ''(''"
    "ch \<noteq> '')''" "ch \<noteq> ''|''" "ch \<noteq> ''&''" "ch \<noteq> '';''" "ch \<noteq> ''>''" "ch \<noteq> ''<''"
  using assms by (auto simp: ascii_space_def)

lemma scan_step_space:
  "is_whitespace ch \<Longrightarrow> neutral s \<Longrightarrow> scan_step ch n s = (scan_space s, False)"
  by (simp add: scan_step_def neutral_def scan_unquoted_def whitespace_ordinary)

lemma flush_token_Nil [simp]: "flush_token [] ts = ts"
  by (simp add: flush_token_def)

lemma scan_loop_leading_space:
  "\<forall>c \<in> set l. is_whitespace c \<Longrightarrow> scan_loop (l @ cs) scanner_init = scan_loop cs scanner_init"
proof (induction l)
  case Nil
  then show ?case by simp
next
  case (Cons c l)
  have "flush scanner_init = scanner_init"
    by (simp add: flush_def scanner_init_def scan_result_default_def)
  then have "scan_space scanner_init = scanner_init"
    by (simp add: scan_space_def Let_def)
  with Cons show ?case by (simp add: scan_loop_Cons scan_step_space)
qed

lemma scan_loop_trailing_space:
  "\<forall>c \<in> set r. is_whitespace c \<Longrightarrow> neutral s \<Longrightarrow> clean (sc_out s) \<Longrightarrow>
     neutral (scan_loop r s) \<and> clean (sc_out (scan_loop r s))
     \<and> final_tokens (scan_loop r s) = final_tokens s"
proof (induction r arbitrary: s)
  case Nil
  then show ?case by simp
next
  case (Cons c r)
  then have "scan_loop (c # r) s = scan_loop r (scan_space s)"
    by (simp add: scan_loop_Cons scan_step_space)
  moreover have "neutral (scan_space s)" "clean (sc_out (scan_space s))"
    "final_tokens (scan_space s) = final_tokens s"
    using Cons.prems
    by (simp_all add: scan_space_def neutral_def clean_def final_tokens_def Let_def)
  ultimately show ?case using Cons.IH [of "scan_space s"] Cons.prems by simp
qed

lemma clean_piece_trim:
  assumes "clean_piece (trim_list is_whitespace r)"
  shows "clean_piece r" and "piece_tokens r = piece_tokens (trim_list is_whitespace r)"
proof -
  let ?c = "trim_list is_whitespace r"
  obtain p q where r: "r = p @ ?c @ q" and p: "\<forall>x \<in> set p. is_whitespace x"
    and q: "\<forall>x \<in> set q. is_whitespace x"
    by (rule trim_list_split)
  let ?f = "scan_loop ?c scanner_init"
  from assms have cl: "clean (sc_out ?f)" and ne: "neutral ?f"
    by (simp_all add: clean_piece_def)
  have "peek q \<noteq> Some ''(''"
    using q by (cases q) (auto simp: ascii_space_def)
  then have "scan_loop r scanner_init = scan_loop q ?f"
    using scan_loop_leading_space [OF p, of "?c @ q"] scan_loop_append [OF cl] r by metis
  with scan_loop_trailing_space [OF q ne cl]
  show "clean_piece r" and "piece_tokens r = piece_tokens ?c"
    by (simp_all add: clean_piece_def piece_tokens_def)
qed

section \<open>Reading the parser's verdict\<close>

lemma scan_finish_flags:
  "sr_has_pipeline (scan_finish s) = sr_has_pipeline (sc_out s)"
  "sr_has_control_operators (scan_finish s) = sr_has_control_operators (sc_out s)"
  "sr_has_redirection (scan_finish s) = sr_has_redirection (sc_out s)"
  "sr_has_command_substitution (scan_finish s) = sr_has_command_substitution (sc_out s)"
  "sr_has_grouping (scan_finish s) = sr_has_grouping (sc_out s)"
  by (simp_all add: scan_finish_def Let_def)

lemma scan_finish_quotes:
  "sr_unbalanced_quotes (sc_out s) \<or> \<not> neutral s \<longleftrightarrow> sr_unbalanced_quotes (scan_finish s)"
  by (auto simp: scan_finish_def neutral_def Let_def)

lemma parse_command_flags:
  "pc_tokens (parse_command cmd) = piece_tokens (chars cmd)"
  "pc_has_pipeline (parse_command cmd)
     = sr_has_pipeline (sc_out (scan_loop (chars cmd) scanner_init))"
  "pc_has_control_operators (parse_command cmd)
     = sr_has_control_operators (sc_out (scan_loop (chars cmd) scanner_init))"
  "pc_has_redirection (parse_command cmd)
     = sr_has_redirection (sc_out (scan_loop (chars cmd) scanner_init))"
  "pc_has_command_substitution (parse_command cmd)
     = sr_has_command_substitution (sc_out (scan_loop (chars cmd) scanner_init))"
  "pc_has_grouping (parse_command cmd)
     = sr_has_grouping (sc_out (scan_loop (chars cmd) scanner_init))"
  by (simp_all add: parse_command_def scan_shell_def Let_def scan_finish_flags
      scan_finish_tokens piece_tokens_def final_tokens_def)

lemma unambiguous_neutral:
  "\<not> pc_ambiguous (parse_command cmd) \<Longrightarrow> neutral (scan_loop (chars cmd) scanner_init)"
  using scan_finish_quotes [of "scan_loop (chars cmd) scanner_init"]
  by (auto simp: parse_command_def scan_shell_def Let_def)

lemma parse_clean_piece:
  assumes "\<not> pc_ambiguous (parse_command cmd)" and "\<not> pc_has_pipeline (parse_command cmd)"
    and "\<not> pc_has_control_operators (parse_command cmd)"
    and "\<not> pc_has_redirection (parse_command cmd)"
    and "\<not> pc_has_command_substitution (parse_command cmd)"
    and "\<not> pc_has_grouping (parse_command cmd)"
  shows "clean_piece (chars cmd)"
  using assms unambiguous_neutral [OF assms(1)]
  by (simp add: clean_piece_def clean_def parse_command_flags)

lemma parse_tokens_stages: "concat (pipeline_stages cmd) = pc_tokens (parse_command cmd)"
  by (simp add: pipeline_stages_def concat_scan_stages parse_command_flags piece_tokens_def)

end
