(* ===== verification/Shell_Quote.thy ===== *)
theory Shell_Quote
  imports Shell_Stages
begin

text \<open>
  Quoting and plain words. \<open>shell_quote_word\<close> is the daemon's quoting helper
  (\<open>termlm-core/src/main.rs\<close>); the parser of the safety crate reads what it writes back as
  one inert word. A command line without special characters is read as its white-space
  separated words. The last section states which token the parser takes for the program.
\<close>

section \<open>The quoting helper\<close>

definition quote_safe :: "rchar \<Rightarrow> bool" where
  "quote_safe ch \<longleftrightarrow>
     is_ascii_alphanumeric ch \<or> ch = ''/'' \<or> ch = ''.'' \<or> ch = ''_'' \<or> ch = ''-'' \<or> ch = ''+''"

definition shell_quote_word :: "string \<Rightarrow> string" where
  "shell_quote_word v =
     (if list_all quote_safe (chars v) then v
      else [CHR 0x27] @ replace_all v [CHR 0x27] [CHR 0x27, CHR 0x5C, CHR 0x27, CHR 0x27]
             @ [CHR 0x27])"

section \<open>Plain text\<close>

definition special :: "rchar \<Rightarrow> bool" where
  "special ch \<longleftrightarrow>
     ch \<in> {[CHR 0x5C], [CHR 0x27], [CHR 0x22], ''$'', ''('', '')'', ''|'', ''&'', '';'', ''>'', ''<''}"

lemma scan_step_plain:
  "\<not> special ch \<Longrightarrow> neutral s \<Longrightarrow>
     scan_step ch n s =
       (if is_whitespace ch then scan_space s else (push_tok ch s)\<lparr>sc_last_op := False\<rparr>, False)"
  by (simp add: special_def scan_step_def neutral_def scan_unquoted_def)

lemma split_at_sep_append:
  "\<forall>x \<in> set acc. \<not> P x \<Longrightarrow> P c \<Longrightarrow>
     split_at_sep P (acc @ c # cs) = acc # split_at_sep P cs"
  by (induction acc) auto

lemma split_at_sep_none: "\<forall>x \<in> set acc. \<not> P x \<Longrightarrow> split_at_sep P acc = [acc]"
  by (induction acc) auto

lemma flush_token_word:
  assumes "\<forall>c \<in> set acc. \<not> is_whitespace c" and "pieces acc"
  shows "flush_token (concat acc) T = T @ map concat (filter (\<lambda>c. c \<noteq> []) [acc])"
proof (cases "acc = []")
  case True
  then show ?thesis by simp
next
  case False
  then have "trim_list is_whitespace acc = acc"
    using assms(1) by (intro trim_list_id) auto
  then have "trim (concat acc) = concat acc"
    by (simp add: trim_def trim_matches_def chars_concat [OF assms(2)])
  moreover have "concat acc \<noteq> []"
    using False chars_concat [OF assms(2)] by (metis chars.simps(1))
  ultimately show ?thesis using False by (simp add: flush_token_def)
qed

lemma scan_loop_plain:
  assumes "\<forall>c \<in> set cs. \<not> special c" and "neutral s" and "\<not> sc_last_op s"
    and "sc_token s = concat acc" and "\<forall>c \<in> set acc. \<not> is_whitespace c" and "pieces (acc @ cs)"
  shows "final_tokens (scan_loop cs s)
           = sr_tokens (sc_out s)
             @ map concat (filter (\<lambda>c. c \<noteq> []) (split_at_sep is_whitespace (acc @ cs)))
         \<and> neutral (scan_loop cs s) \<and> \<not> sc_last_op (scan_loop cs s)
         \<and> sc_depth (scan_loop cs s) = sc_depth s
         \<and> (sc_out (scan_loop cs s))\<lparr>sr_tokens := []\<rparr> = (sc_out s)\<lparr>sr_tokens := []\<rparr>"
  using assms
proof (induction cs arbitrary: s acc)
  case Nil
  then show ?case
    by (simp add: final_tokens_def flush_token_word split_at_sep_none)
next
  case (Cons c cs)
  have step: "scan_loop (c # cs) s
      = scan_loop cs (if is_whitespace c then scan_space s
                      else (push_tok c s)\<lparr>sc_last_op := False\<rparr>)"
    using Cons.prems by (simp add: scan_loop_Cons scan_step_plain)
  show ?case
  proof (cases "is_whitespace c")
    case True
    have "pieces acc" using Cons.prems(6) pieces_prefix by blast
    then have fl: "flush_token (sc_token s) (sr_tokens (sc_out s))
        = sr_tokens (sc_out s) @ map concat (filter (\<lambda>c. c \<noteq> []) [acc])"
      using Cons.prems(4,5) by (simp only: flush_token_word)
    have "pieces cs" using Cons.prems(6) pieces_suffix [of "acc @ [c]" cs] by simp
    with Cons.IH [of "scan_space s" "[]"] Cons.prems True fl step
    show ?thesis
      by (simp add: scan_space_def neutral_def Let_def split_at_sep_append)
  next
    case False
    with Cons.IH [of "(push_tok c s)\<lparr>sc_last_op := False\<rparr>" "acc @ [c]"] Cons.prems step
    show ?thesis by (simp add: neutral_def push_tok_def)
  qed
qed

lemma scan_finish_quiet:
  assumes "neutral s" and "\<not> sc_last_op s" and "sc_depth s = 0"
    and "(sc_out s)\<lparr>sr_tokens := []\<rparr> = scan_result_default"
  shows "scan_finish s = scan_result_default\<lparr>sr_tokens := final_tokens s\<rparr>"
proof -
  obtain ts where "sc_out s = scan_result_default\<lparr>sr_tokens := ts\<rparr>"
    using assms(4) by (metis scan_result.surjective scan_result.update_convs(1))
  with assms(1-3) show ?thesis
    by (simp add: scan_finish_def neutral_def final_tokens_def Let_def)
qed

lemma scan_shell_plain:
  assumes "\<forall>c \<in> set (chars cmd). \<not> special c"
  shows "scan_shell cmd = scan_result_default\<lparr>sr_tokens := split_whitespace cmd\<rparr>"
proof -
  have "(scan_result_default)\<lparr>sr_tokens := []\<rparr> = scan_result_default"
    by (simp add: scan_result_default_def)
  with scan_loop_plain [OF assms, of scanner_init "[]"]
  show ?thesis
    unfolding scan_shell_def
    by (subst scan_finish_quiet) (simp_all add: split_whitespace_def)
qed

section \<open>Quoted text\<close>

text \<open>What \<open>replace_all\<close> does to one character of the quoted word.\<close>

definition quote_char :: "rchar \<Rightarrow> rchar list" where
  "quote_char c = (if c = [CHR 0x27] then [[CHR 0x27], [CHR 0x5C], [CHR 0x27], [CHR 0x27]] else [c])"

definition quote_bytes :: "string \<Rightarrow> string" where
  "quote_bytes s =
     concat (map (\<lambda>b. if b = CHR 0x27 then [CHR 0x27, CHR 0x5C, CHR 0x27, CHR 0x27] else [b]) s)"

lemma replace_all_quote:
  "replace_all s [CHR 0x27] [CHR 0x27, CHR 0x5C, CHR 0x27, CHR 0x27] = quote_bytes s"
  by (induction s) (auto simp: quote_bytes_def)

lemma quote_bytes_append: "quote_bytes (s @ t) = quote_bytes s @ quote_bytes t"
  by (simp add: quote_bytes_def)

lemma quote_bytes_id: "CHR 0x27 \<notin> set s \<Longrightarrow> quote_bytes s = s"
  by (induction s) (auto simp: quote_bytes_def)

lemma scalar_quote: "valid_scalar c \<Longrightarrow> CHR 0x27 \<in> set c \<Longrightarrow> c = [CHR 0x27]"
  by (cases c) (auto simp: valid_scalar_def scalar_piece_def is_cont_def)

lemma quote_piece:
  assumes "valid_scalar c"
  shows "quote_bytes c = concat (quote_char c)"
proof (cases "c = [CHR 0x27]")
  case True
  then show ?thesis by (simp add: quote_char_def quote_bytes_def)
next
  case False
  with scalar_quote [OF assms] have "CHR 0x27 \<notin> set c" by blast
  with False show ?thesis by (simp add: quote_char_def quote_bytes_id)
qed

lemma quote_pieces:
  "\<forall>c \<in> set cs. valid_scalar c \<Longrightarrow> quote_bytes (concat cs) = concat (concat (map quote_char cs))"
proof (induction cs)
  case Nil
  then show ?case by (simp add: quote_bytes_def)
next
  case (Cons c cs)
  then show ?case by (simp add: quote_bytes_append quote_piece)
qed

lemma scalar_quote_char: "valid_scalar c \<Longrightarrow> \<forall>d \<in> set (quote_char c). scalar_piece d"
  by (auto simp: quote_char_def valid_scalar_def scalar_piece_def is_cont_def)

lemma chars_quoted:
  assumes "valid_str v"
  shows "chars ([CHR 0x27] @ quote_bytes v @ [CHR 0x27])
           = [[CHR 0x27]] @ concat (map quote_char (chars v)) @ [[CHR 0x27]]"
proof -
  let ?qs = "[[CHR 0x27]] @ concat (map quote_char (chars v)) @ [[CHR 0x27]]"
  have q: "scalar_piece [CHR 0x27]" by (simp add: scalar_piece_def is_cont_def)
  have "\<forall>c \<in> set ?qs. scalar_piece c"
    using assms scalar_quote_char q by (auto simp: valid_str_def)
  then have "chars (concat ?qs) = ?qs" by (intro chars_concat scalar_pieces)
  moreover have "concat ?qs = [CHR 0x27] @ quote_bytes v @ [CHR 0x27]"
    using quote_pieces [of "chars v"] assms by (simp add: valid_str_def)
  ultimately show ?thesis by simp
qed

text \<open>Scanning the inside of the quotes adds the word's own characters and nothing else.\<close>

lemma scan_loop_quoted:
  assumes "sc_single s" and "\<not> sc_double s" and "\<not> sc_escaped s" and "\<not> sc_last_op s"
  shows "scan_loop (concat (map quote_char cs) @ [[CHR 0x27]]) s
           = s\<lparr>sc_token := sc_token s @ concat cs, sc_single := False\<rparr>"
  using assms
proof (induction cs arbitrary: s)
  case Nil
  then show ?case by (simp add: scan_loop_Cons scan_step_def)
next
  case (Cons c cs)
  show ?case
  proof (cases "c = [CHR 0x27]")
    case True
    let ?t = "s\<lparr>sc_token := sc_token s @ [CHR 0x27], sc_escaped := False, sc_single := True,
      sc_last_op := False\<rparr>"
    from True Cons.prems have "scan_loop (concat (map quote_char (c # cs)) @ [[CHR 0x27]]) s
        = scan_loop (concat (map quote_char cs) @ [[CHR 0x27]]) ?t"
      by (simp add: quote_char_def scan_loop_Cons scan_step_def scan_unquoted_def push_tok_def)
    also have "\<dots> = ?t\<lparr>sc_token := sc_token ?t @ concat cs, sc_single := False\<rparr>"
      using Cons.prems by (intro Cons.IH) simp_all
    finally show ?thesis using True Cons.prems by simp
  next
    case False
    with Cons.prems Cons.IH [of "s\<lparr>sc_token := sc_token s @ c\<rparr>"] show ?thesis
      by (simp add: quote_char_def scan_loop_Cons scan_step_def push_tok_def)
  qed
qed

lemma quote_safe_not_special: "quote_safe ch \<Longrightarrow> \<not> special ch"
  by (auto simp: special_def quote_safe_def is_ascii_alphanumeric_def byte_alnum_def
      byte_alpha_def byte_upper_def byte_lower_def byte_digit_def byte_in_def)

lemma quote_safe_not_space: "quote_safe ch \<Longrightarrow> \<not> is_whitespace ch"
  by (cases ch rule: is_whitespace.cases)
    (auto simp: quote_safe_def is_ascii_alphanumeric_def byte_alnum_def ascii_space_def
      byte_alpha_def byte_upper_def byte_lower_def byte_digit_def byte_in_def)

lemma scan_shell_quoted:
  assumes "valid_str v"
  shows "scan_shell (shell_quote_word v) = scan_result_default\<lparr>sr_tokens := flush_token v []\<rparr>"
proof (cases "list_all quote_safe (chars v)")
  case True
  then have safe: "\<forall>c \<in> set (chars v). \<not> special c \<and> \<not> is_whitespace c"
    using quote_safe_not_special quote_safe_not_space by (auto simp: list_all_iff)
  then have "split_whitespace v = flush_token v []"
    using flush_token_word [of "chars v" "[]"]
    by (simp add: split_whitespace_def split_at_sep_none)
  with True safe scan_shell_plain [of v] show ?thesis by (simp add: shell_quote_word_def)
next
  case False
  let ?s = "scanner_init\<lparr>sc_single := True\<rparr>"
  have "chars (shell_quote_word v)
      = [CHR 0x27] # concat (map quote_char (chars v)) @ [[CHR 0x27]]"
    using False chars_quoted [OF assms] replace_all_quote by (simp add: shell_quote_word_def)
  moreover have "fst (scan_step [CHR 0x27] n scanner_init) = ?s"
    and "\<not> snd (scan_step [CHR 0x27] n scanner_init)" for n
    by (simp_all add: scan_step_def scan_unquoted_def scanner_init_def)
  ultimately have "scan_loop (chars (shell_quote_word v)) scanner_init
      = ?s\<lparr>sc_token := v, sc_single := False\<rparr>"
    using scan_loop_quoted [of ?s "chars v"] by (simp add: scan_loop_Cons)
  then show ?thesis
    unfolding scan_shell_def
    by (subst scan_finish_quiet)
      (simp_all add: neutral_def final_tokens_def scan_result_default_def)
qed

section \<open>The program token\<close>

lemma first_significant_Some:
  "first_significant sk ts = Some t \<Longrightarrow>
     t \<in> set ts \<and> t \<noteq> ''sudo'' \<and> t \<noteq> ''env'' \<and> \<not> is_env_assignment t"
  by (induction sk ts rule: first_significant.induct) (auto split: if_splits)

lemma first_significant_sudo:
  "\<forall>t \<in> set opts. starts_with t ''-'' \<Longrightarrow>
     first_significant True (opts @ t # ts) = first_significant True (t # ts)"
  by (induction opts) auto

end
