(* ===== verification/Readonly_Probe.thy ===== *)
theory Readonly_Probe
  imports Shell_Quote
begin

text \<open>
  The allowlist of read-only shell probes (\<open>termlm-core/src/main.rs\<close>): the commands the
  model may run without the user's approval. \<open>validate_readonly_command_tokens\<close> either
  refuses a command line with a message (\<open>Inl\<close>) or returns the argument vector that the
  daemon then executes (\<open>Inr\<close>).
\<close>

section \<open>The allowlist\<close>

text \<open>A \<open>;\<close> that ended an \<open>-exec\<close> may reach the loop as the token \<open>\;\<close>.\<close>

definition find_exec_terminator :: "string \<Rightarrow> bool" where
  "find_exec_terminator t \<longleftrightarrow> t = ''+'' \<or> t = '';'' \<or> t = [CHR 0x5C] @ '';''"

definition has_expansion :: "string \<Rightarrow> bool" where
  "has_expansion t \<longleftrightarrow> CHR ''$'' \<in> set t \<or> starts_with t ''~''"

text \<open>The inner loop of \<open>readonly_find_probe_allowed\<close>, from the word after \<open>stat\<close>: what
  follows the terminator, or \<open>None\<close> where the source returns false.\<close>

fun find_exec_rest :: "string list \<Rightarrow> string list option" where
  "find_exec_rest [] = None"
| "find_exec_rest (t # ts) =
     (if find_exec_terminator t then Some ts
      else if has_expansion t \<or> CHR 0x60 \<in> set t then None
      else find_exec_rest ts)"

lemma find_exec_rest_length: "find_exec_rest ts = Some r \<Longrightarrow> length r < length ts"
  by (induction ts) (auto split: if_splits)

definition find_denied :: "string list" where
  "find_denied = [''-delete'', ''-execdir'', ''-ok'', ''-okdir'', ''-fls'', ''-fprint'', ''-fprintf'']"

function readonly_find_probe_allowed :: "string list \<Rightarrow> bool" where
  "readonly_find_probe_allowed [] = True"
| "readonly_find_probe_allowed (t # ts) =
     (if t \<in> set find_denied then False
      else if t = ''-exec''
      then (case ts of
              [] \<Rightarrow> False
            | program # rest \<Rightarrow>
                if program \<noteq> ''stat'' then False
                else case find_exec_rest rest of
                       None \<Rightarrow> False
                     | Some rest' \<Rightarrow> readonly_find_probe_allowed rest')
      else readonly_find_probe_allowed ts)"
  by pat_completeness auto
termination
  by (relation "measure length") (auto dest: find_exec_rest_length)

definition git_readonly_branch_flags :: "string list" where
  "git_readonly_branch_flags =
     [''--show-current'', ''--list'', ''--all'', ''-a'', ''-r'', ''-v'', ''-vv'']"

definition readonly_git_probe_allowed :: "string list \<Rightarrow> bool" where
  "readonly_git_probe_allowed args =
     (case args of
        [] \<Rightarrow> False
      | sub # rest \<Rightarrow>
          if sub \<in> {''--version'', ''version''} then length args = 1
          else if sub \<in> {''status'', ''rev-parse'', ''log'', ''diff'', ''show'', ''ls-files'', ''describe''}
          then True
          else if sub = ''branch'' then list_all (\<lambda>a. a \<in> set git_readonly_branch_flags) rest
          else False)"

definition readonly_probe_program_allowed :: "string \<Rightarrow> string list \<Rightarrow> bool" where
  "readonly_probe_program_allowed program args =
     (if program = ''pwd'' then list_all (\<lambda>a. a \<in> {''-L'', ''-P''}) args
      else if program \<in> {''ls'', ''stat'', ''df'', ''head'', ''tail'', ''wc'', ''du'', ''sort'', ''cut''}
      then True
      else if program = ''find'' then readonly_find_probe_allowed args
      else if program \<in> {''which'', ''whereis'', ''uname'', ''date'', ''whoami'', ''id'', ''sw_vers'',
                         ''ps'', ''pgrep'', ''uptime''}
      then True
      else if program = ''sysctl''
      then \<not> list_ex (\<lambda>a. a = ''-w'' \<or> CHR ''='' \<in> set a) args
      else if program = ''git'' then readonly_git_probe_allowed args
      else False)"

section \<open>The validator\<close>

type_synonym 'a outcome = "string + 'a"

definition not_allowlisted :: "string \<Rightarrow> string" where
  "not_allowlisted program =
     [CHR 0x60] @ program @ [CHR 0x60] @ '' is not allowlisted as a read-only probe''"

definition msg_constructs :: string where
  "msg_constructs =
     ''control operators, redirection, grouping, and command substitution are not allowed''"

definition reject_readonly_shell_expansions :: "string list \<Rightarrow> unit outcome" where
  "reject_readonly_shell_expansions tokens =
     (if list_ex has_expansion tokens
      then Inl ''shell expansions are not available; use absolute or relative paths''
      else Inr ())"

text \<open>The loop of \<open>split_simple_readonly_pipeline\<close>: the segments so far, the current one, the
  quote flags and the escape flag.\<close>

fun split_pipe_loop ::
  "rchar list \<Rightarrow> string list \<Rightarrow> string \<Rightarrow> bool \<Rightarrow> bool \<Rightarrow> bool \<Rightarrow> (string list) outcome" where
  "split_pipe_loop [] segs cur sq dq esc =
     (let segment = trim cur in
      if segment = [] then Inl ''empty pipeline segment'' else Inr (segs @ [segment]))"
| "split_pipe_loop (ch # cs) segs cur sq dq esc =
     (if esc then split_pipe_loop cs segs (cur @ ch) sq dq False
      else if ch = [CHR 0x5C] then split_pipe_loop cs segs (cur @ ch) sq dq True
      else if ch = [CHR 0x27] \<and> \<not> dq then split_pipe_loop cs segs (cur @ ch) (\<not> sq) dq False
      else if ch = [CHR 0x22] \<and> \<not> sq then split_pipe_loop cs segs (cur @ ch) sq (\<not> dq) False
      else if ch = ''|'' \<and> \<not> sq \<and> \<not> dq
      then (let segment = trim cur in
            if segment = [] then Inl ''empty pipeline segment''
            else split_pipe_loop cs (segs @ [segment]) [] sq dq False)
      else split_pipe_loop cs segs (cur @ ch) sq dq False)"

definition split_simple_readonly_pipeline :: "string \<Rightarrow> (string list) outcome" where
  "split_simple_readonly_pipeline cmd = split_pipe_loop (chars cmd) [] [] False False False"

definition check_readonly_segment :: "string \<Rightarrow> unit outcome" where
  "check_readonly_segment segment =
     (let parsed = parse_command segment in
      if pc_ambiguous parsed \<or> pc_has_pipeline parsed \<or> pc_has_control_operators parsed
         \<or> pc_has_redirection parsed \<or> pc_has_command_substitution parsed \<or> pc_has_grouping parsed
      then Inl ''pipeline segment contains unsupported shell syntax''
      else case reject_readonly_shell_expansions (pc_tokens parsed) of
             Inl e \<Rightarrow> Inl e
           | Inr _ \<Rightarrow>
               (case pc_tokens parsed of
                  [] \<Rightarrow> Inl ''empty pipeline segment''
                | program # args \<Rightarrow>
                    if \<not> readonly_probe_program_allowed program args
                    then Inl (not_allowlisted program)
                    else Inr ()))"

fun check_readonly_segments :: "string list \<Rightarrow> unit outcome" where
  "check_readonly_segments [] = Inr ()"
| "check_readonly_segments (s # ss) =
     (case check_readonly_segment s of Inl e \<Rightarrow> Inl e | Inr _ \<Rightarrow> check_readonly_segments ss)"

definition validate_readonly_pipeline_segments :: "string \<Rightarrow> unit outcome" where
  "validate_readonly_pipeline_segments cmd =
     (case split_simple_readonly_pipeline cmd of
        Inl e \<Rightarrow> Inl e
      | Inr segments \<Rightarrow>
          if length segments < 2 then Inl ''pipeline must have at least two commands''
          else if 4 < length segments then Inl ''read-only pipelines may have at most four commands''
          else check_readonly_segments segments)"

text \<open>The two halves of \<open>validate_readonly_command_tokens\<close>: a command with a pipeline, and
  one without.\<close>

definition validate_readonly_pipeline :: "string \<Rightarrow> parsed_command \<Rightarrow> (string list) outcome" where
  "validate_readonly_pipeline trimmed parsed =
     (if pc_has_control_operators parsed \<or> pc_has_redirection parsed
         \<or> pc_has_command_substitution parsed \<or> pc_has_grouping parsed
      then Inl msg_constructs
      else if 80 < length (pc_tokens parsed) then Inl ''too many arguments for a read-only probe''
      else case reject_readonly_shell_expansions (pc_tokens parsed) of
             Inl e \<Rightarrow> Inl e
           | Inr _ \<Rightarrow>
               (case validate_readonly_pipeline_segments trimmed of
                  Inl e \<Rightarrow> Inl e
                | Inr _ \<Rightarrow> Inr [''/bin/sh'', ''-c'', trimmed]))"

definition validate_readonly_simple :: "parsed_command \<Rightarrow> (string list) outcome" where
  "validate_readonly_simple parsed =
     (if pc_has_control_operators parsed \<or> pc_has_redirection parsed
         \<or> pc_has_command_substitution parsed \<or> pc_has_grouping parsed
      then Inl msg_constructs
      else if 40 < length (pc_tokens parsed) then Inl ''too many arguments for a read-only probe''
      else case reject_readonly_shell_expansions (pc_tokens parsed) of
             Inl e \<Rightarrow> Inl e
           | Inr _ \<Rightarrow>
               (case pc_tokens parsed of
                  [] \<Rightarrow> Inl ''empty command''
                | program # args \<Rightarrow>
                    if \<not> readonly_probe_program_allowed program args
                    then Inl (not_allowlisted program)
                    else Inr (pc_tokens parsed)))"

definition validate_readonly_command_tokens :: "string \<Rightarrow> (string list) outcome" where
  "validate_readonly_command_tokens cmd =
     (let trimmed = trim cmd in
      if trimmed = [] then Inl ''empty command''
      else if CHR 0x0A \<in> set trimmed \<or> CHR 0x0D \<in> set trimmed \<or> CHR 0x60 \<in> set trimmed
      then Inl ''shell newlines and backtick substitution are not allowed''
      else let parsed = parse_command trimmed in
        if pc_ambiguous parsed then Inl ''ambiguous shell syntax is not allowed''
        else if pc_has_pipeline parsed then validate_readonly_pipeline trimmed parsed
        else validate_readonly_simple parsed)"

section \<open>The splitter cuts the command at pipe characters\<close>

lemma split_pipe_loop_raws:
  "split_pipe_loop cs segs (concat acc) sq dq esc = Inr out \<Longrightarrow>
     \<exists>raws. raws \<noteq> [] \<and> join_pipes raws = acc @ cs
       \<and> out = segs @ map (\<lambda>r. trim (concat r)) raws
       \<and> (\<forall>r \<in> set raws. trim (concat r) \<noteq> [])"
proof (induction cs arbitrary: segs acc sq dq esc)
  case Nil
  then show ?case by (intro exI [of _ "[acc]"]) (auto simp: Let_def split: if_splits)
next
  case (Cons ch cs)
  show ?case
  proof (cases "\<not> esc \<and> ch = ''|'' \<and> \<not> sq \<and> \<not> dq")
    case True
    with Cons.prems have ne: "trim (concat acc) \<noteq> []"
      and rest: "split_pipe_loop cs (segs @ [trim (concat acc)]) (concat []) sq dq False = Inr out"
      by (auto simp: Let_def split: if_splits)
    from Cons.IH [OF rest] obtain raws where raws: "raws \<noteq> []" "join_pipes raws = cs"
      "out = (segs @ [trim (concat acc)]) @ map (\<lambda>r. trim (concat r)) raws"
      "\<forall>r \<in> set raws. trim (concat r) \<noteq> []"
      by auto
    then obtain q qs where "raws = q # qs" by (cases raws) auto
    with raws True ne show ?thesis by (intro exI [of _ "acc # raws"]) auto
  next
    case False
    with Cons.prems obtain sq' dq' esc'
      where "split_pipe_loop cs segs (concat (acc @ [ch])) sq' dq' esc' = Inr out"
      by (auto simp: Let_def split: if_splits)
    from Cons.IH [OF this] show ?thesis by simp
  qed
qed

lemma join_pipes_pieces: "pieces (join_pipes rs) \<Longrightarrow> r \<in> set rs \<Longrightarrow> pieces r"
proof (induction rs rule: join_pipes.induct)
  case 1
  then show ?case by simp
next
  case (2 r)
  then show ?case by simp
next
  case (3 p q rs)
  have "pieces p" using 3(2) pieces_prefix by simp
  moreover have "pieces (join_pipes (q # rs))"
    using 3(2) pieces_suffix [of "p @ [''|'']"] by simp
  ultimately show ?case using 3(1) 3(3) by auto
qed

lemma split_readonly_raws:
  assumes "split_simple_readonly_pipeline cmd = Inr segs"
  obtains raws where "raws \<noteq> []" "join_pipes raws = chars cmd"
    "segs = map (\<lambda>r. trim (concat r)) raws"
    "\<forall>r \<in> set raws. r \<noteq> [] \<and> chars (trim (concat r)) = trim_list is_whitespace r"
proof -
  from assms have "split_pipe_loop (chars cmd) [] (concat []) False False False = Inr segs"
    by (simp add: split_simple_readonly_pipeline_def)
  from split_pipe_loop_raws [OF this] obtain raws where raws: "raws \<noteq> []"
    "join_pipes raws = chars cmd" "segs = map (\<lambda>r. trim (concat r)) raws"
    "\<forall>r \<in> set raws. trim (concat r) \<noteq> []"
    by auto
  have "r \<noteq> [] \<and> chars (trim (concat r)) = trim_list is_whitespace r" if "r \<in> set raws" for r
  proof -
    from raws(2) have "pieces (join_pipes raws)" by simp
    then have "pieces r" using that by (rule join_pipes_pieces)
    then show ?thesis using raws(4) that by (auto simp: chars_trim chars_concat)
  qed
  with raws show thesis by (intro that) auto
qed

section \<open>What an accepted command runs\<close>

definition readonly_stage :: "string list \<Rightarrow> bool" where
  "readonly_stage st =
     (case st of
        [] \<Rightarrow> False
      | program # args \<Rightarrow>
          readonly_probe_program_allowed program args \<and> \<not> list_ex has_expansion st)"

lemma check_readonly_segment_ok:
  assumes "check_readonly_segment s = Inr u"
  shows "clean_piece (chars s)" and "readonly_stage (piece_tokens (chars s))"
proof -
  from assms have p: "\<not> pc_ambiguous (parse_command s)" "\<not> pc_has_pipeline (parse_command s)"
    "\<not> pc_has_control_operators (parse_command s)" "\<not> pc_has_redirection (parse_command s)"
    "\<not> pc_has_command_substitution (parse_command s)" "\<not> pc_has_grouping (parse_command s)"
    by (auto simp: check_readonly_segment_def Let_def split: if_splits)
  then show "clean_piece (chars s)" by (rule parse_clean_piece)
  from assms have "readonly_stage (pc_tokens (parse_command s))"
    by (auto simp: check_readonly_segment_def readonly_stage_def
        reject_readonly_shell_expansions_def Let_def split: if_splits list.splits)
  then show "readonly_stage (piece_tokens (chars s))" by (simp add: parse_command_flags)
qed

lemma check_readonly_segments_ok:
  "check_readonly_segments ss = Inr u \<Longrightarrow> s \<in> set ss \<Longrightarrow> \<exists>u. check_readonly_segment s = Inr u"
  by (induction ss) (auto split: sum.splits)

lemma pipeline_segments_stages:
  assumes "validate_readonly_pipeline_segments cmd = Inr u"
  shows "2 \<le> length (pipeline_stages cmd)" and "length (pipeline_stages cmd) \<le> 4"
    and "\<forall>st \<in> set (pipeline_stages cmd). readonly_stage st"
proof -
  from assms obtain segs where segs: "split_simple_readonly_pipeline cmd = Inr segs"
    and len: "2 \<le> length segs" "length segs \<le> 4" and ok: "check_readonly_segments segs = Inr u"
    by (auto simp: validate_readonly_pipeline_segments_def split: sum.splits if_splits)
  from segs obtain raws where raws: "raws \<noteq> []" "join_pipes raws = chars cmd"
    "segs = map (\<lambda>r. trim (concat r)) raws"
    and tr: "\<forall>r \<in> set raws. r \<noteq> [] \<and> chars (trim (concat r)) = trim_list is_whitespace r"
    by (rule split_readonly_raws)
  have piece: "clean_piece r \<and> r \<noteq> [] \<and> readonly_stage (piece_tokens r)" if r: "r \<in> set raws" for r
  proof -
    obtain v where v: "check_readonly_segment (trim (concat r)) = Inr v"
      using check_readonly_segments_ok [OF ok] raws(3) r by auto
    have "clean_piece (trim_list is_whitespace r)"
      and "readonly_stage (piece_tokens (trim_list is_whitespace r))"
      using check_readonly_segment_ok [OF v] tr r by simp_all
    with clean_piece_trim [of r] tr r show ?thesis by simp
  qed
  then have "pipeline_stages cmd = map piece_tokens raws"
    unfolding pipeline_stages_def raws(2) [symmetric] using raws(1)
    by (intro stages_join_pipes) blast+
  with len raws(3) piece show "2 \<le> length (pipeline_stages cmd)"
    and "length (pipeline_stages cmd) \<le> 4"
    and "\<forall>st \<in> set (pipeline_stages cmd). readonly_stage st"
    by auto
qed

lemma simple_command_stages:
  assumes "clean_piece (chars cmd)" and "cmd \<noteq> []"
  shows "pipeline_stages cmd = [pc_tokens (parse_command cmd)]"
  using stages_join_pipes [of "[chars cmd]"] assms
  by (simp add: pipeline_stages_def parse_command_flags)

section \<open>Properties\<close>

text \<open>What it means for a command line to be a probe: it is cut into at most four stages, each a
  program of the allowlist with no shell expansion in its words.\<close>

definition readonly_command :: "string \<Rightarrow> bool" where
  "readonly_command cmd \<longleftrightarrow>
     pipeline_stages cmd \<noteq> [] \<and> length (pipeline_stages cmd) \<le> 4
     \<and> (\<forall>st \<in> set (pipeline_stages cmd). readonly_stage st)
     \<and> CHR 0x0A \<notin> set cmd \<and> CHR 0x0D \<notin> set cmd \<and> CHR 0x60 \<notin> set cmd"

lemma validate_simple_Inr:
  assumes "validate_readonly_simple p = Inr argv"
  shows "argv = pc_tokens p" "readonly_stage argv" "length argv \<le> 40"
    "\<not> pc_has_control_operators p" "\<not> pc_has_redirection p"
    "\<not> pc_has_command_substitution p" "\<not> pc_has_grouping p"
proof -
  from assms have ok: "\<not> pc_has_control_operators p" "\<not> pc_has_redirection p"
    "\<not> pc_has_command_substitution p" "\<not> pc_has_grouping p" "\<not> 40 < length (pc_tokens p)"
    by (auto simp: validate_readonly_simple_def split: if_splits)
  moreover from assms ok have a: "argv = pc_tokens p" "readonly_stage argv"
    by (auto simp: validate_readonly_simple_def readonly_stage_def
        reject_readonly_shell_expansions_def split: if_splits sum.splits list.splits)
  ultimately show "argv = pc_tokens p" "readonly_stage argv" "length argv \<le> 40"
    "\<not> pc_has_control_operators p" "\<not> pc_has_redirection p"
    "\<not> pc_has_command_substitution p" "\<not> pc_has_grouping p" by auto
qed

lemma validate_pipeline_Inr:
  assumes "validate_readonly_pipeline t p = Inr argv"
  shows "argv = [''/bin/sh'', ''-c'', t]" "validate_readonly_pipeline_segments t = Inr ()"
  using assms by (auto simp: validate_readonly_pipeline_def split: if_splits sum.splits)

lemma validate_readonly_Inr:
  assumes "validate_readonly_command_tokens cmd = Inr argv"
  shows "trim cmd \<noteq> []"
    and "CHR 0x0A \<notin> set (trim cmd) \<and> CHR 0x0D \<notin> set (trim cmd) \<and> CHR 0x60 \<notin> set (trim cmd)"
    and "\<not> pc_ambiguous (parse_command (trim cmd))"
    and "pc_has_pipeline (parse_command (trim cmd))
      \<Longrightarrow> validate_readonly_pipeline (trim cmd) (parse_command (trim cmd)) = Inr argv"
    and "\<not> pc_has_pipeline (parse_command (trim cmd))
      \<Longrightarrow> validate_readonly_simple (parse_command (trim cmd)) = Inr argv"
  using assms by (auto simp: validate_readonly_command_tokens_def Let_def split: if_splits)

text \<open>C6: A command the validator accepts is a read-only probe: every stage of the pipeline that
  the shell scanner finds in it is an allowlisted program with allowlisted arguments and no
  \<open>$\<close> or leading \<open>~\<close>, and there are no more than four; the argument vector executed is those very
  words when there is one stage, and \<open>/bin/sh -c\<close> on the trimmed line when there are several.\<close>

theorem readonly_probe_sound:
  assumes "validate_readonly_command_tokens cmd = Inr argv"
  shows "readonly_command (trim cmd)
    \<and> (if length (pipeline_stages (trim cmd)) = 1
       then argv = hd (pipeline_stages (trim cmd)) \<and> length argv \<le> 40
       else argv = [''/bin/sh'', ''-c'', trim cmd])"
proof (cases "pc_has_pipeline (parse_command (trim cmd))")
  case True
  from validate_pipeline_Inr [OF validate_readonly_Inr(4) [OF assms True]]
  have "argv = [''/bin/sh'', ''-c'', trim cmd]"
    and v: "validate_readonly_pipeline_segments (trim cmd) = Inr ()" by auto
  then show ?thesis
    using pipeline_segments_stages [OF v] validate_readonly_Inr(2) [OF assms]
    by (auto simp: readonly_command_def)
next
  case False
  note simple = validate_simple_Inr [OF validate_readonly_Inr(5) [OF assms False]]
  have "clean_piece (chars (trim cmd))"
    using validate_readonly_Inr(3) [OF assms] False simple(4-7) by (rule parse_clean_piece)
  then have "pipeline_stages (trim cmd) = [pc_tokens (parse_command (trim cmd))]"
    using validate_readonly_Inr(1) [OF assms] by (rule simple_command_stages)
  then show ?thesis
    using simple(1-3) validate_readonly_Inr(2) [OF assms] by (auto simp: readonly_command_def)
qed

theorem readonly_probe_sound_witness:
  "readonly_command (trim '' ls -la | head -5 '')
    \<and> (if length (pipeline_stages (trim '' ls -la | head -5 '')) = 1
       then [''/bin/sh'', ''-c'', ''ls -la | head -5''] = hd (pipeline_stages (trim '' ls -la | head -5 ''))
         \<and> length [''/bin/sh'', ''-c'', ''ls -la | head -5''] \<le> 40
       else [''/bin/sh'', ''-c'', ''ls -la | head -5''] = [''/bin/sh'', ''-c'', trim '' ls -la | head -5 ''])"
  by (rule readonly_probe_sound) code_simp

text \<open>The grammar of the \<open>find\<close> expressions that are accepted.\<close>

inductive find_expression :: "string list \<Rightarrow> bool" where
  fe_Nil: "find_expression []"
| fe_word: "t \<notin> set find_denied \<Longrightarrow> t \<noteq> ''-exec'' \<Longrightarrow> find_expression ts \<Longrightarrow> find_expression (t # ts)"
| fe_stat:
    "\<forall>b \<in> set body. \<not> find_exec_terminator b \<and> \<not> has_expansion b \<and> CHR 0x60 \<notin> set b \<Longrightarrow>
     find_exec_terminator e \<Longrightarrow> find_expression ts \<Longrightarrow>
     find_expression (''-exec'' # ''stat'' # body @ e # ts)"

lemma find_exec_rest_iff:
  "find_exec_rest xs = Some ts \<longleftrightarrow>
     (\<exists>body e. xs = body @ e # ts \<and> find_exec_terminator e
       \<and> (\<forall>b \<in> set body. \<not> find_exec_terminator b \<and> \<not> has_expansion b \<and> CHR 0x60 \<notin> set b))"
  (is "_ \<longleftrightarrow> (\<exists>body e. ?P xs body e)")
proof (induction xs)
  case Nil
  then show ?case by simp
next
  case (Cons x xs)
  show ?case
  proof (cases "find_exec_terminator x")
    case True
    then have "(\<exists>body e. ?P (x # xs) body e) \<longleftrightarrow> xs = ts"
      by (metis (no_types, lifting) append_Cons append_Nil list.inject list.set_intros(1)
          neq_Nil_conv empty_iff list.set(1))
    with True show ?thesis by simp
  next
    case False
    have "(\<exists>body e. ?P (x # xs) body e) \<longleftrightarrow>
        \<not> has_expansion x \<and> CHR 0x60 \<notin> set x \<and> (\<exists>body e. ?P xs body e)"
      using False by (fastforce simp: Cons_eq_append_conv)
    with Cons False show ?thesis by simp
  qed
qed

text \<open>C34: The \<open>find\<close> arguments that are accepted are exactly those of a grammar without the
  denied actions, in which every \<open>-exec\<close> runs \<open>stat\<close>, its words are free of expansions, and it
  is closed by \<open>;\<close> or \<open>+\<close>.\<close>

theorem readonly_find_grammar: "readonly_find_probe_allowed args \<longleftrightarrow> find_expression args"
proof
  show "readonly_find_probe_allowed args \<Longrightarrow> find_expression args"
    by (induction args rule: readonly_find_probe_allowed.induct)
      (auto split: if_splits list.splits option.splits simp: find_exec_rest_iff
        intro: find_expression.intros)
  show "find_expression args \<Longrightarrow> readonly_find_probe_allowed args"
  proof (induction rule: find_expression.induct)
    case (fe_stat body e ts)
    then have "find_exec_rest (body @ e # ts) = Some ts" unfolding find_exec_rest_iff by blast
    with fe_stat show ?case by (simp add: find_denied_def)
  qed simp_all
qed

text \<open>The allowlist is not a proof of being read-only: it accepts commands that write files,
  since \<open>-fprint0\<close> is not among the denied \<open>find\<close> actions and the arguments of \<open>sort\<close> and of
  \<open>git diff\<close> are not looked at.\<close>

theorem readonly_probe_admits_writes:
  "validate_readonly_command_tokens ''find . -fprint0 out'' = Inr [''find'', ''.'', ''-fprint0'', ''out'']
   \<and> validate_readonly_command_tokens ''sort -o out in'' = Inr [''sort'', ''-o'', ''out'', ''in'']
   \<and> validate_readonly_command_tokens ''git diff --output=out'' = Inr [''git'', ''diff'', ''--output=out'']"
  by code_simp

end
