(* ===== verification/Regex_Lang.thy ===== *)
theory Regex_Lang
  imports Rust_Str
begin

text \<open>
  The fragment of the \<open>regex\<close> crate's pattern language that the built-in patterns of the
  safety crate use, as an abstract syntax with its documented meaning: literals, the
  classes \<open>\s\<close>, \<open>\S\<close>, \<open>\w\<close>, \<open>.\<close> and \<open>[a-zA-Z]\<close>, sequence, alternation, repetition, the
  anchors \<open>^\<close>, \<open>$\<close> and the word boundary \<open>\b\<close>. The crate itself is not part of the
  repository: it stays a parameter (\<open>regex_engine\<close>), and what the code relies on is the
  hypothesis \<open>speaks\<close>, that on ASCII text the engine decides \<open>is_match\<close> of a pattern as the
  syntax tree that prints as this pattern says.
\<close>

section \<open>Syntax\<close>

datatype cclass = Space | NonSpace | Word | Dot | Letters

datatype regex =
    Eps
  | Chr char
  | Cls cclass
  | Seq regex regex
  | Alt regex regex
  | Group regex
  | Star regex
  | Plus regex
  | Opt regex
  | Bol
  | Eol
  | WordB

fun lit :: "string \<Rightarrow> regex" where
  "lit [] = Eps"
| "lit [c] = Chr c"
| "lit (c # d # cs) = Seq (Chr c) (lit (d # cs))"

fun seqs :: "regex list \<Rightarrow> regex" where
  "seqs [] = Eps"
| "seqs [r] = r"
| "seqs (r # q # rs) = Seq r (seqs (q # rs))"

fun alts :: "regex list \<Rightarrow> regex" where
  "alts [] = Eps"
| "alts [r] = r"
| "alts (r # q # rs) = Alt r (alts (q # rs))"

text \<open>The concrete syntax. \<open>\\<close> is code 0x5C.\<close>

definition escaped_chars :: string where
  "escaped_chars = ''$(){}|*.+?^[]'' @ [CHR 0x5C]"

fun show_class :: "cclass \<Rightarrow> string" where
  "show_class Space = [CHR 0x5C, CHR ''s'']"
| "show_class NonSpace = [CHR 0x5C, CHR ''S'']"
| "show_class Word = [CHR 0x5C, CHR ''w'']"
| "show_class Dot = ''.''"
| "show_class Letters = ''[a-zA-Z]''"

fun show_regex :: "regex \<Rightarrow> string" where
  "show_regex Eps = []"
| "show_regex (Chr c) = (if c \<in> set escaped_chars then [CHR 0x5C, c] else [c])"
| "show_regex (Cls k) = show_class k"
| "show_regex (Seq a b) = show_regex a @ show_regex b"
| "show_regex (Alt a b) = show_regex a @ ''|'' @ show_regex b"
| "show_regex (Group r) = ''('' @ show_regex r @ '')''"
| "show_regex (Star r) = show_regex r @ ''*''"
| "show_regex (Plus r) = show_regex r @ ''+''"
| "show_regex (Opt r) = show_regex r @ ''?''"
| "show_regex Bol = ''^''"
| "show_regex Eol = ''$''"
| "show_regex WordB = [CHR 0x5C, CHR ''b'']"

section \<open>Meaning\<close>

text \<open>A configuration is the byte before the position, if any, and the text after it. The
  text is ASCII, so bytes are characters.\<close>

type_synonym config = "char option \<times> string"

definition word_byte :: "char \<Rightarrow> bool" where
  "word_byte b \<longleftrightarrow> byte_alnum b \<or> b = CHR ''_''"

fun in_class :: "cclass \<Rightarrow> char \<Rightarrow> bool" where
  "in_class Space b = ascii_space b"
| "in_class NonSpace b = (\<not> ascii_space b)"
| "in_class Word b = word_byte b"
| "in_class Dot b = (b \<noteq> CHR 0x0A)"
| "in_class Letters b = byte_alpha b"

definition at_word :: "char option \<Rightarrow> bool" where
  "at_word p = (case p of None \<Rightarrow> False | Some b \<Rightarrow> word_byte b)"

fun first_byte :: "string \<Rightarrow> char option" where
  "first_byte [] = None"
| "first_byte (b # bs) = Some b"

text \<open>The relation the documentation describes: from which configuration to which an
  expression matches. \<open>ci\<close> is case-insensitive matching.\<close>

definition same_char :: "bool \<Rightarrow> char \<Rightarrow> char \<Rightarrow> bool" where
  "same_char ci a b \<longleftrightarrow> (if ci then lower_byte a = lower_byte b else a = b)"

inductive matches :: "bool \<Rightarrow> regex \<Rightarrow> config \<Rightarrow> config \<Rightarrow> bool" for ci where
  m_eps: "matches ci Eps p p"
| m_chr: "same_char ci c b \<Longrightarrow> matches ci (Chr c) (p, b # bs) (Some b, bs)"
| m_cls: "in_class k b \<Longrightarrow> matches ci (Cls k) (p, b # bs) (Some b, bs)"
| m_seq: "matches ci r p q \<Longrightarrow> matches ci s q t \<Longrightarrow> matches ci (Seq r s) p t"
| m_alt1: "matches ci r p q \<Longrightarrow> matches ci (Alt r s) p q"
| m_alt2: "matches ci s p q \<Longrightarrow> matches ci (Alt r s) p q"
| m_group: "matches ci r p q \<Longrightarrow> matches ci (Group r) p q"
| m_star0: "matches ci (Star r) p p"
| m_star: "matches ci r p q \<Longrightarrow> matches ci (Star r) q t \<Longrightarrow> matches ci (Star r) p t"
| m_plus: "matches ci r p q \<Longrightarrow> matches ci (Star r) q t \<Longrightarrow> matches ci (Plus r) p t"
| m_opt0: "matches ci (Opt r) p p"
| m_opt1: "matches ci r p q \<Longrightarrow> matches ci (Opt r) p q"
| m_bol: "matches ci Bol (None, bs) (None, bs)"
| m_eol: "matches ci Eol (p, []) (p, [])"
| m_wordb: "at_word p \<noteq> at_word (first_byte bs) \<Longrightarrow> matches ci WordB (p, bs) (p, bs)"

inductive_cases m_EpsE [elim!]: "matches ci Eps p q"
inductive_cases m_ChrE [elim!]: "matches ci (Chr c) p q"
inductive_cases m_ClsE [elim!]: "matches ci (Cls k) p q"
inductive_cases m_SeqE [elim!]: "matches ci (Seq r s) p q"
inductive_cases m_AltE [elim!]: "matches ci (Alt r s) p q"
inductive_cases m_GroupE [elim!]: "matches ci (Group r) p q"
inductive_cases m_PlusE [elim!]: "matches ci (Plus r) p q"
inductive_cases m_OptE [elim!]: "matches ci (Opt r) p q"
inductive_cases m_BolE [elim!]: "matches ci Bol p q"
inductive_cases m_EolE [elim!]: "matches ci Eol p q"
inductive_cases m_WordBE [elim!]: "matches ci WordB p q"

section \<open>A decision procedure\<close>

text \<open>All configurations an expression can end in. The fuel of a repetition is the length
  of the remaining text: an iteration that consumes nothing adds no configuration.\<close>

fun star_ends :: "(config \<Rightarrow> config list) \<Rightarrow> nat \<Rightarrow> config \<Rightarrow> config list" where
  "star_ends f 0 p = [p]"
| "star_ends f (Suc n) p =
     p # concat (map (star_ends f n) (filter (\<lambda>q. length (snd q) < length (snd p)) (f p)))"

fun ends :: "bool \<Rightarrow> regex \<Rightarrow> config \<Rightarrow> config list" where
  "ends ci Eps p = [p]"
| "ends ci (Chr c) p =
     (case snd p of [] \<Rightarrow> [] | b # bs \<Rightarrow> if same_char ci c b then [(Some b, bs)] else [])"
| "ends ci (Cls k) p =
     (case snd p of [] \<Rightarrow> [] | b # bs \<Rightarrow> if in_class k b then [(Some b, bs)] else [])"
| "ends ci (Seq r s) p = concat (map (ends ci s) (ends ci r p))"
| "ends ci (Alt r s) p = ends ci r p @ ends ci s p"
| "ends ci (Group r) p = ends ci r p"
| "ends ci (Star r) p = star_ends (ends ci r) (length (snd p)) p"
| "ends ci (Plus r) p =
     concat (map (\<lambda>q. star_ends (ends ci r) (length (snd q)) q) (ends ci r p))"
| "ends ci (Opt r) p = p # ends ci r p"
| "ends ci Bol p = (if fst p = None then [p] else [])"
| "ends ci Eol p = (if snd p = [] then [p] else [])"
| "ends ci WordB p = (if at_word (fst p) \<noteq> at_word (first_byte (snd p)) then [p] else [])"

fun starts :: "char option \<Rightarrow> string \<Rightarrow> config list" where
  "starts p [] = [(p, [])]"
| "starts p (b # bs) = (p, b # bs) # starts (Some b) bs"

text \<open>\<open>Regex::is_match\<close>: the expression matches from some position of the text.\<close>

definition is_match :: "bool \<Rightarrow> regex \<Rightarrow> string \<Rightarrow> bool" where
  "is_match ci r s \<longleftrightarrow> list_ex (\<lambda>p. ends ci r p \<noteq> []) (starts None s)"

section \<open>The procedure decides the relation\<close>

lemma matches_length: "matches ci r p q \<Longrightarrow> length (snd q) \<le> length (snd p)"
  by (induction rule: matches.induct) auto

lemma star_ends_sound:
  assumes f: "\<And>p q. q \<in> set (f p) \<Longrightarrow> matches ci r p q"
  shows "q \<in> set (star_ends f n p) \<Longrightarrow> matches ci (Star r) p q"
proof (induction n arbitrary: p)
  case 0
  then show ?case by (simp add: m_star0)
next
  case (Suc n)
  then show ?case by (auto intro: m_star0 m_star f)
qed

lemma ends_sound: "q \<in> set (ends ci r p) \<Longrightarrow> matches ci r p q"
proof (induction r arbitrary: p q)
  case (Star r)
  then show ?case using star_ends_sound [of "ends ci r" ci r] by simp
next
  case (Plus r)
  then obtain t where t: "t \<in> set (ends ci r p)"
    and q: "q \<in> set (star_ends (ends ci r) (length (snd t)) t)"
    by auto
  have "matches ci (Star r) t q"
    by (rule star_ends_sound [OF _ q]) (rule Plus.IH)
  with Plus.IH [OF t] show ?case by (rule m_plus)
next
  case (Chr c)
  then show ?case by (cases p; cases "snd p") (auto intro: matches.intros split: if_splits)
next
  case (Cls k)
  then show ?case by (cases p; cases "snd p") (auto intro: matches.intros split: if_splits)
next
  case (Seq r s)
  from Seq.prems obtain t where "t \<in> set (ends ci r p)" "q \<in> set (ends ci s t)" by auto
  then show ?case by (metis Seq.IH m_seq)
next
  case Bol
  then show ?case by (cases p) (auto intro: m_bol split: if_splits)
next
  case Eol
  then show ?case by (cases p) (auto intro: m_eol split: if_splits)
next
  case WordB
  then show ?case by (cases p) (auto intro: m_wordb split: if_splits)
qed (auto intro: matches.intros)

text \<open>A step of \<open>r\<close> that consumes nothing leaves the configuration as it is.\<close>

definition advances :: "config \<Rightarrow> config \<Rightarrow> bool" where
  "advances p q \<longleftrightarrow>
     (\<exists>u. snd p = u @ snd q \<and> fst q = (if u = [] then fst p else Some (last u)))"

lemma advances_refl: "advances p p"
  unfolding advances_def by (intro exI [of _ "[]"]) simp

lemma advances_byte: "advances (p, b # bs) (Some b, bs)"
  unfolding advances_def by (intro exI [of _ "[b]"]) simp

lemma advances_trans: "advances p q \<Longrightarrow> advances q t \<Longrightarrow> advances p t"
proof -
  assume "advances p q" "advances q t"
  then obtain u v where "snd p = u @ snd q" "fst q = (if u = [] then fst p else Some (last u))"
    "snd q = v @ snd t" "fst t = (if v = [] then fst q else Some (last v))"
    unfolding advances_def by blast
  then show ?thesis unfolding advances_def by (intro exI [of _ "u @ v"]) simp
qed

lemma matches_suffix: "matches ci r p q \<Longrightarrow> advances p q"
  by (induction rule: matches.induct)
    (assumption | rule advances_refl advances_byte | erule (1) advances_trans)+

lemma matches_no_progress:
  "matches ci r p q \<Longrightarrow> length (snd p) \<le> length (snd q) \<Longrightarrow> q = p"
proof -
  assume m: "matches ci r p q" and l: "length (snd p) \<le> length (snd q)"
  obtain u where u: "snd p = u @ snd q" "fst q = (if u = [] then fst p else Some (last u))"
    using matches_suffix [OF m] unfolding advances_def by blast
  then have "u = []" using l by simp
  with u show ?thesis by (simp add: prod_eq_iff)
qed

lemma star_ends_complete:
  assumes f: "\<And>p q. matches ci r p q \<Longrightarrow> q \<in> set (f p)"
  shows "matches ci s p q \<Longrightarrow> s = Star r \<Longrightarrow> length (snd p) \<le> n \<Longrightarrow> q \<in> set (star_ends f n p)"
proof (induction arbitrary: n rule: matches.induct)
  case (m_star0 r' p)
  then show ?case by (cases n) auto
next
  case (m_star r' p q t)
  then have m: "matches ci r p q" by simp
  show ?case
  proof (cases "length (snd q) < length (snd p)")
    case True
    with m_star.prems obtain k where k: "n = Suc k" "length (snd q) \<le> k" by (cases n) auto
    then have "t \<in> set (star_ends f k q)" using m_star.IH(2) m_star.prems by simp
    moreover have "q \<in> set (filter (\<lambda>q. length (snd q) < length (snd p)) (f p))"
      using True f [OF m] by simp
    ultimately show ?thesis unfolding k(1) star_ends.simps set_simps set_concat set_map by blast
  next
    case False
    then have "q = p" using matches_no_progress [OF m] by simp
    then show ?thesis using m_star.IH(2) m_star.prems by simp
  qed
qed simp_all

lemma ends_complete: "matches ci r p q \<Longrightarrow> q \<in> set (ends ci r p)"
proof (induction r arbitrary: p q)
  case (Star r)
  then show ?case using star_ends_complete [of ci r "ends ci r"] by simp
next
  case (Plus r)
  then obtain t where t: "matches ci r p t" "matches ci (Star r) t q" by auto
  then have "q \<in> set (star_ends (ends ci r) (length (snd t)) t)"
    using star_ends_complete [of ci r "ends ci r"] Plus.IH by simp
  with Plus.IH [OF t(1)] show ?case by auto
qed (auto, blast)

lemma ends_iff: "q \<in> set (ends ci r p) \<longleftrightarrow> matches ci r p q"
  using ends_sound ends_complete by blast

lemma starts_iff:
  "p \<in> set (starts c s) \<longleftrightarrow>
     (\<exists>u. s = u @ snd p \<and> fst p = (if u = [] then c else Some (last u)))"
proof (induction s arbitrary: c)
  case Nil
  then show ?case by (cases p) auto
next
  case (Cons b s)
  then show ?case
    by (cases p) (auto simp: append_eq_Cons_conv Cons_eq_append_conv split: if_splits)
qed

lemma is_match_iff:
  "is_match ci r s \<longleftrightarrow>
     (\<exists>u v q. s = u @ v \<and> matches ci r (if u = [] then None else Some (last u), v) q)"
proof
  assume "is_match ci r s"
  then obtain p q where p: "p \<in> set (starts None s)" and q: "q \<in> set (ends ci r p)"
    unfolding is_match_def list_ex_iff by (metis list.set_intros(1) neq_Nil_conv)
  obtain u where "s = u @ snd p" "fst p = (if u = [] then None else Some (last u))"
    using p unfolding starts_iff by blast
  moreover have "matches ci r (fst p, snd p) q" using q ends_iff by simp
  ultimately show "\<exists>u v q. s = u @ v \<and> matches ci r (if u = [] then None else Some (last u), v) q"
    by metis
next
  assume "\<exists>u v q. s = u @ v \<and> matches ci r (if u = [] then None else Some (last u), v) q"
  then obtain u v q where s: "s = u @ v"
    and m: "matches ci r (if u = [] then None else Some (last u), v) q" by blast
  let ?p = "(if u = [] then None else Some (last u), v)"
  have "?p \<in> set (starts None s)"
    unfolding starts_iff s by (intro exI [of _ u]) simp
  moreover have "ends ci r ?p \<noteq> []"
    using m ends_iff [of q ci r ?p] by auto
  ultimately show "is_match ci r s"
    unfolding is_match_def list_ex_iff by blast
qed

section \<open>The engine\<close>

record regex_engine =
  re_compiles :: "bool \<Rightarrow> string \<Rightarrow> bool"
  re_is_match :: "bool \<Rightarrow> string \<Rightarrow> string \<Rightarrow> bool"

definition ascii_text :: "string \<Rightarrow> bool" where
  "ascii_text s \<longleftrightarrow> list_all (\<lambda>b. \<not> digit7 b) s"

definition speaks :: "regex_engine \<Rightarrow> bool \<Rightarrow> regex \<Rightarrow> bool" where
  "speaks eng ci r \<longleftrightarrow>
     re_compiles eng ci (show_regex r)
     \<and> (\<forall>s. ascii_text s \<longrightarrow> re_is_match eng ci (show_regex r) s = is_match ci r s)"

end
