(* ===== verification/Safety_Floor.thy ===== *)
theory Safety_Floor
  imports Regex_Lang
begin

text \<open>
  \<open>crates/termlm-safety/src/floor.rs\<close> and \<open>critical.rs\<close>: the hard-coded floor of refused
  commands and the matcher of critical commands. The patterns are the source's strings;
  \<open>floor_asts\<close> and \<open>critical_asts\<close> are their syntax trees, which print as exactly these
  strings (\<open>floor_asts_print\<close>, \<open>critical_asts_print\<close>).
\<close>

section \<open>Patterns\<close>

text \<open>A raw string literal of the source, with \<open>%\<close> for the backslash (no pattern has a \<open>%\<close>).\<close>

definition raw :: "string \<Rightarrow> string" where
  "raw s = map (\<lambda>c. if c = CHR ''%'' then CHR 0x5C else c) s"

definition FLOOR_PATTERNS :: "string list" where
  "FLOOR_PATTERNS =
    [raw ''^%s*rm%s+-[a-zA-Z]*r[a-zA-Z]*%s+/(%s|$)'',
     raw ''^%s*rm%s+-[a-zA-Z]*r[a-zA-Z]*%s+(%$HOME|~)(/|%s|$)'',
     raw ''^%s*rm%s+-[a-zA-Z]*r[a-zA-Z]*%s+/%*'',
     raw ''^%s*:%(%)%s*%{%s*:%s*%|%s*:%s*&%s*%}%s*;%s*:'',
     raw ''%bdd%s+.*of=/dev/(disk|rdisk|sd|nvme)'',
     raw ''>%s*/dev/(disk|rdisk|sd|nvme)'',
     raw ''%bmkfs(%.%w+)?%s+/dev/'',
     raw ''^%s*sudo%s+rm%s+-[a-zA-Z]*r'',
     raw ''%brm%s+-[a-zA-Z]*r[a-zA-Z]*%s+/(System|Library|usr|bin|sbin|etc|var)(/|%s|$)'',
     raw ''%b(chmod|chown)%s+-R%s+%S+%s+/(%s|$)'',
     raw ''>%s*/(System|Library|usr|bin|sbin|etc)/'',
     raw ''%bdiskutil%s+(eraseDisk|eraseVolume|secureErase)'',
     raw ''%bcsrutil%s+disable'',
     raw ''%bspctl%s+--master-disable'',
     raw ''%bnvram%s+-c'']"

definition DEFAULT_PATTERNS :: "string list" where
  "DEFAULT_PATTERNS =
    [raw ''^%s*sudo%b'',
     raw ''%brm%s+-[a-zA-Z]*r'',
     raw ''%bgit%s+(push%s+--force|push%s+-f|reset%s+--hard|clean%s+-fdx)'',
     raw ''%b(curl|wget)%b.*%|%s*(sh|bash|zsh)'',
     raw ''>%s*/dev/(disk|sd|nvme|rdisk)'',
     raw ''%bchmod%s+(-R%s+)?777%b'',
     raw ''%bchown%s+-R%b'',
     raw ''%bmv%s+.*%s+/dev/null%b'',
     raw ''%bdrop%s+(table|database)%b'',
     raw ''%bkillall?%b'',
     raw ''%bdocker%s+system%s+prune'',
     raw ''%bbrew%s+uninstall%s+--force'']"

definition floor_asts :: "regex list" where
  "floor_asts =
    [seqs [Bol, Star (Cls Space), lit ''rm'', Plus (Cls Space), lit ''-'', Star (Cls
        Letters), lit ''r'', Star (Cls Letters), Plus (Cls Space), lit ''/'', Group
        (alts [Cls Space, Eol])],
     seqs [Bol, Star (Cls Space), lit ''rm'', Plus (Cls Space), lit ''-'', Star (Cls
        Letters), lit ''r'', Star (Cls Letters), Plus (Cls Space), Group (alts [lit
        ''$HOME'', lit ''~'']), Group (alts [lit ''/'', Cls Space, Eol])],
     seqs [Bol, Star (Cls Space), lit ''rm'', Plus (Cls Space), lit ''-'', Star (Cls
        Letters), lit ''r'', Star (Cls Letters), Plus (Cls Space), lit ''/*''],
     seqs [Bol, Star (Cls Space), lit '':()'', Star (Cls Space), lit ''{'', Star (Cls Space),
        lit '':'', Star (Cls Space), lit ''|'', Star (Cls Space), lit '':'', Star (Cls
        Space), lit ''&'', Star (Cls Space), lit ''}'', Star (Cls Space), lit '';'',
        Star (Cls Space), lit '':''],
     seqs [WordB, lit ''dd'', Plus (Cls Space), Star (Cls Dot), lit ''of=/dev/'', Group (alts
        [lit ''disk'', lit ''rdisk'', lit ''sd'', lit ''nvme''])],
     seqs [lit ''>'', Star (Cls Space), lit ''/dev/'', Group (alts [lit ''disk'', lit
        ''rdisk'', lit ''sd'', lit ''nvme''])],
     seqs [WordB, lit ''mkfs'', Opt (Group (seqs [lit ''.'', Plus (Cls Word)])), Plus (Cls
        Space), lit ''/dev/''],
     seqs [Bol, Star (Cls Space), lit ''sudo'', Plus (Cls Space), lit ''rm'', Plus (Cls
        Space), lit ''-'', Star (Cls Letters), lit ''r''],
     seqs [WordB, lit ''rm'', Plus (Cls Space), lit ''-'', Star (Cls Letters), lit ''r'',
        Star (Cls Letters), Plus (Cls Space), lit ''/'', Group (alts [lit ''System'',
        lit ''Library'', lit ''usr'', lit ''bin'', lit ''sbin'', lit ''etc'', lit
        ''var'']), Group (alts [lit ''/'', Cls Space, Eol])],
     seqs [WordB, Group (alts [lit ''chmod'', lit ''chown'']), Plus (Cls Space), lit ''-R'',
        Plus (Cls Space), Plus (Cls NonSpace), Plus (Cls Space), lit ''/'', Group (alts
        [Cls Space, Eol])],
     seqs [lit ''>'', Star (Cls Space), lit ''/'', Group (alts [lit ''System'', lit
        ''Library'', lit ''usr'', lit ''bin'', lit ''sbin'', lit ''etc'']), lit ''/''],
     seqs [WordB, lit ''diskutil'', Plus (Cls Space), Group (alts [lit ''eraseDisk'', lit
        ''eraseVolume'', lit ''secureErase''])],
     seqs [WordB, lit ''csrutil'', Plus (Cls Space), lit ''disable''],
     seqs [WordB, lit ''spctl'', Plus (Cls Space), lit ''--master-disable''],
     seqs [WordB, lit ''nvram'', Plus (Cls Space), lit ''-c'']]"

definition critical_asts :: "regex list" where
  "critical_asts =
    [seqs [Bol, Star (Cls Space), lit ''sudo'', WordB],
     seqs [WordB, lit ''rm'', Plus (Cls Space), lit ''-'', Star (Cls Letters), lit ''r''],
     seqs [WordB, lit ''git'', Plus (Cls Space), Group (alts [seqs [lit ''push'', Plus (Cls
        Space), lit ''--force''], seqs [lit ''push'', Plus (Cls Space), lit ''-f''],
        seqs [lit ''reset'', Plus (Cls Space), lit ''--hard''], seqs [lit ''clean'',
        Plus (Cls Space), lit ''-fdx'']])],
     seqs [WordB, Group (alts [lit ''curl'', lit ''wget'']), WordB, Star (Cls Dot), lit
        ''|'', Star (Cls Space), Group (alts [lit ''sh'', lit ''bash'', lit ''zsh''])],
     seqs [lit ''>'', Star (Cls Space), lit ''/dev/'', Group (alts [lit ''disk'', lit ''sd'',
        lit ''nvme'', lit ''rdisk''])],
     seqs [WordB, lit ''chmod'', Plus (Cls Space), Opt (Group (seqs [lit ''-R'', Plus (Cls
        Space)])), lit ''777'', WordB],
     seqs [WordB, lit ''chown'', Plus (Cls Space), lit ''-R'', WordB],
     seqs [WordB, lit ''mv'', Plus (Cls Space), Star (Cls Dot), Plus (Cls Space), lit
        ''/dev/null'', WordB],
     seqs [WordB, lit ''drop'', Plus (Cls Space), Group (alts [lit ''table'', lit
        ''database'']), WordB],
     seqs [WordB, lit ''killal'', Opt (Chr (CHR ''l'')), WordB],
     seqs [WordB, lit ''docker'', Plus (Cls Space), lit ''system'', Plus (Cls Space), lit
        ''prune''],
     seqs [WordB, lit ''brew'', Plus (Cls Space), lit ''uninstall'', Plus (Cls Space), lit
        ''--force'']]"

lemma floor_asts_print: "map show_regex floor_asts = FLOOR_PATTERNS"
  by code_simp

lemma critical_asts_print: "map show_regex critical_asts = DEFAULT_PATTERNS"
  by code_simp

section \<open>floor.rs\<close>

record safety_floor_match =
  sfm_pattern :: string
  sfm_command :: string

text \<open>\<open>FLOOR_REGEXES\<close>: the lazily built static; \<open>None\<close> is the panic of
  \<open>expect("invalid floor regex")\<close>.\<close>

definition FLOOR_REGEXES :: "regex_engine \<Rightarrow> string list option" where
  "FLOOR_REGEXES eng =
     (if list_all (re_compiles eng False) FLOOR_PATTERNS then Some FLOOR_PATTERNS else None)"

definition matches_safety_floor :: "regex_engine \<Rightarrow> string \<Rightarrow> safety_floor_match option" where
  "matches_safety_floor eng cmd =
     map_option (\<lambda>pat. \<lparr>sfm_pattern = pat, sfm_command = cmd\<rparr>)
       (find (\<lambda>pat. re_is_match eng False pat cmd) FLOOR_PATTERNS)"

section \<open>critical.rs\<close>

text \<open>A matcher is its compiled patterns. \<open>from_patterns\<close> drops what does not compile.\<close>

type_synonym critical_matcher = "string list"

definition critical_default :: critical_matcher where
  "critical_default = DEFAULT_PATTERNS"

definition from_patterns :: "regex_engine \<Rightarrow> string list \<Rightarrow> critical_matcher" where
  "from_patterns eng patterns = filter (re_compiles eng True) patterns"

definition is_critical :: "regex_engine \<Rightarrow> critical_matcher \<Rightarrow> string \<Rightarrow> bool" where
  "is_critical eng matcher cmd = list_ex (\<lambda>re. re_is_match eng True re cmd) matcher"

definition is_critical_command :: "regex_engine \<Rightarrow> string \<Rightarrow> bool" where
  "is_critical_command eng cmd = list_ex (\<lambda>re. re_is_match eng True re cmd) DEFAULT_PATTERNS"

section \<open>An engine that speaks the built-in patterns\<close>

text \<open>What the code relies on: the engine compiles every built-in pattern and decides it as
  its syntax tree says.\<close>

definition engine_ok :: "regex_engine \<Rightarrow> bool" where
  "engine_ok eng \<longleftrightarrow> list_all (speaks eng False) floor_asts \<and> list_all (speaks eng True) critical_asts"

text \<open>The engine that only knows these patterns.\<close>

definition known_asts :: "regex list" where
  "known_asts = floor_asts @ critical_asts"

definition table_engine :: regex_engine where
  "table_engine =
     \<lparr>re_compiles = (\<lambda>ci p. list_ex (\<lambda>r. show_regex r = p) known_asts),
      re_is_match = (\<lambda>ci p s.
        case find (\<lambda>r. show_regex r = p) known_asts of
          None \<Rightarrow> False
        | Some r \<Rightarrow> is_match ci r s)\<rparr>"

lemma known_asts_distinct: "distinct (map show_regex known_asts)"
  by code_simp

lemma find_show_regex:
  "distinct (map show_regex rs) \<Longrightarrow> r \<in> set rs \<Longrightarrow> find (\<lambda>q. show_regex q = show_regex r) rs = Some r"
  by (induction rs) (auto simp: rev_image_eqI)

lemma table_engine_speaks: "r \<in> set known_asts \<Longrightarrow> speaks table_engine ci r"
  using find_show_regex [OF known_asts_distinct, of r]
  by (auto simp: speaks_def table_engine_def list_ex_iff)

lemma table_engine_ok: "engine_ok table_engine"
  by (auto simp: engine_ok_def list_all_iff known_asts_def intro!: table_engine_speaks)

lemma matches_safety_floor_Some:
  assumes "matches_safety_floor eng cmd = Some m"
  shows "sfm_command m = cmd" and "sfm_pattern m \<in> set FLOOR_PATTERNS"
    and "re_is_match eng False (sfm_pattern m) cmd"
  using assms by (auto simp: matches_safety_floor_def find_Some_iff)

text \<open>On ASCII text the floor and the default critical matcher are what the trees say.\<close>

lemma engine_is_match:
  "speaks eng ci r \<Longrightarrow> ascii_text s \<Longrightarrow> re_is_match eng ci (show_regex r) s = is_match ci r s"
  by (simp add: speaks_def)

lemma floor_iff:
  assumes "engine_ok eng" and "ascii_text cmd"
  shows "matches_safety_floor eng cmd \<noteq> None \<longleftrightarrow> list_ex (\<lambda>r. is_match False r cmd) floor_asts"
proof -
  have "matches_safety_floor eng cmd \<noteq> None
      \<longleftrightarrow> (\<exists>p \<in> set (map show_regex floor_asts). re_is_match eng False p cmd)"
    by (auto simp: matches_safety_floor_def floor_asts_print find_None_iff)
  also have "\<dots> \<longleftrightarrow> (\<exists>r \<in> set floor_asts. is_match False r cmd)"
    using assms by (auto simp: engine_ok_def list_all_iff engine_is_match)
  finally show ?thesis by (simp add: list_ex_iff)
qed

lemma critical_iff:
  assumes "engine_ok eng" and "ascii_text cmd"
  shows "is_critical_command eng cmd \<longleftrightarrow> list_ex (\<lambda>r. is_match True r cmd) critical_asts"
proof -
  have "is_critical_command eng cmd
      \<longleftrightarrow> (\<exists>p \<in> set (map show_regex critical_asts). re_is_match eng True p cmd)"
    by (simp add: is_critical_command_def critical_asts_print list_ex_iff)
  also have "\<dots> \<longleftrightarrow> (\<exists>r \<in> set critical_asts. is_match True r cmd)"
    using assms by (auto simp: engine_ok_def list_all_iff engine_is_match)
  finally show ?thesis by (simp add: list_ex_iff)
qed

section \<open>What the patterns match\<close>

definition after :: "string \<Rightarrow> char option \<Rightarrow> char option" where
  "after u p = (if u = [] then p else Some (last u))"

lemma after_simps [simp]:
  "after [] p = p" "after (b # u) p = after u (Some b)" "after (u @ v) p = after v (after u p)"
  by (auto simp: after_def)

lemma matches_lit:
  "matches ci (lit cs) (p, s) q \<longleftrightarrow>
     (\<exists>u v. s = u @ v \<and> list_all2 (same_char ci) cs u \<and> q = (after u p, v))"
proof (induction cs arbitrary: p s rule: lit.induct)
  case 1
  then show ?case by (auto intro: m_eps)
next
  case (2 c)
  show ?case
    by (auto simp: list_all2_Cons1 intro: m_chr)
next
  case (3 c d cs)
  have "matches ci (lit (c # d # cs)) (p, s) q \<longleftrightarrow>
      (\<exists>b bs. s = b # bs \<and> same_char ci c b \<and> matches ci (lit (d # cs)) (Some b, bs) q)"
    by (auto intro: m_seq m_chr)
  then show ?case unfolding 3 by (auto simp: list_all2_Cons1)
qed
lemma matches_star_cls:
  "matches ci (Star (Cls k)) (p, s) q \<longleftrightarrow>
     (\<exists>u v. s = u @ v \<and> list_all (in_class k) u \<and> q = (after u p, v))"
proof
  assume "matches ci (Star (Cls k)) (p, s) q"
  then show "\<exists>u v. s = u @ v \<and> list_all (in_class k) u \<and> q = (after u p, v)"
  proof (induction "Star (Cls k)" "(p, s)" q arbitrary: p s rule: matches.induct)
    case m_star0
    show ?case by (rule exI [of _ "[]"]) simp
  next
    case (m_star q t)
    from m_star(1) obtain b bs where b: "s = b # bs" "in_class k b" "q = (Some b, bs)" by auto
    with m_star(3) [of "Some b" bs] obtain u v where "bs = u @ v" "list_all (in_class k) u" "t = (after u (Some b), v)"
      by blast
    with b show ?case by (intro exI [of _ "b # u"] exI [of _ v]) auto
  qed
next
  assume "\<exists>u v. s = u @ v \<and> list_all (in_class k) u \<and> q = (after u p, v)"
  then obtain u v where "s = u @ v" "list_all (in_class k) u" "q = (after u p, v)" by blast
  then show "matches ci (Star (Cls k)) (p, s) q"
    by (induction u arbitrary: p s) (auto intro: m_star0 m_star [OF m_cls])
qed
lemma matches_plus_cls:
  "matches ci (Plus (Cls k)) (p, s) q \<longleftrightarrow>
     (\<exists>u v. s = u @ v \<and> u \<noteq> [] \<and> list_all (in_class k) u \<and> q = (after u p, v))"
proof -
  have "matches ci (Plus (Cls k)) (p, s) q \<longleftrightarrow>
      (\<exists>b bs. s = b # bs \<and> in_class k b \<and> matches ci (Star (Cls k)) (Some b, bs) q)"
    by (auto intro: m_plus m_cls)
  also have "\<dots> \<longleftrightarrow> (\<exists>u v. s = u @ v \<and> u \<noteq> [] \<and> list_all (in_class k) u \<and> q = (after u p, v))"
    unfolding matches_star_cls
    by (rule iffI) (force, auto simp: neq_Nil_conv)
  finally show ?thesis .
qed

lemma matches_seqs_Cons:
  "rs \<noteq> [] \<Longrightarrow> matches ci (seqs (r # rs)) p q \<longleftrightarrow> (\<exists>t. matches ci r p t \<and> matches ci (seqs rs) t q)"
  by (cases rs) (auto intro: m_seq)

lemma matches_alts_Cons:
  "rs \<noteq> [] \<Longrightarrow> matches ci (alts (r # rs)) p q \<longleftrightarrow> matches ci r p q \<or> matches ci (alts rs) p q"
  by (cases rs) (auto intro: m_alt1 m_alt2)

lemma matches_alt: "matches ci (Alt r s) p q \<longleftrightarrow> matches ci r p q \<or> matches ci s p q"
  by (auto intro: m_alt1 m_alt2)

lemma matches_group: "matches ci (Group r) p q \<longleftrightarrow> matches ci r p q"
  by (auto intro: m_group)

lemma matches_anchors:
  "matches ci Bol (p, s) q \<longleftrightarrow> p = None \<and> q = (p, s)"
  "matches ci Eol (p, s) q \<longleftrightarrow> s = [] \<and> q = (p, s)"
  "matches ci WordB (p, s) q \<longleftrightarrow> at_word p \<noteq> at_word (first_byte s) \<and> q = (p, s)"
  "matches ci (Cls k) (p, s) q \<longleftrightarrow> (\<exists>b bs. s = b # bs \<and> in_class k b \<and> q = (Some b, bs))"
  by (auto intro: m_bol m_eol m_wordb m_cls)

lemmas matches_iffs =
  matches_lit matches_star_cls matches_plus_cls matches_group matches_anchors

lemma same_char_exact: "list_all2 (same_char False) cs u \<longleftrightarrow> u = cs"
  by (simp add: same_char_def fun_eq_iff list_all2_eq [symmetric] eq_commute cong: list.rel_cong)
 

text \<open>\<open>rm\<close> with a bundle of short options that has an \<open>r\<close>, applied to the root directory.\<close>

definition rm_root_command :: "string \<Rightarrow> bool" where
  "rm_root_command cmd \<longleftrightarrow>
     (\<exists>w0 w1 a b w2 rest.
        cmd = w0 @ ''rm'' @ w1 @ ''-'' @ a @ ''r'' @ b @ w2 @ ''/'' @ rest
        \<and> list_all ascii_space w0 \<and> w1 \<noteq> [] \<and> list_all ascii_space w1
        \<and> list_all byte_alpha a \<and> list_all byte_alpha b
        \<and> w2 \<noteq> [] \<and> list_all ascii_space w2
        \<and> (rest = [] \<or> ascii_space (hd rest)))"

lemma in_class_fun: "in_class Space = ascii_space" "in_class Letters = byte_alpha"
  by auto

text \<open>Whether a sequence matches from a position, read left to right.\<close>

definition runs :: "regex list \<Rightarrow> config \<Rightarrow> bool" where
  "runs rs p \<longleftrightarrow> (\<exists>q. matches False (seqs rs) p q)"

lemma runs_Nil: "runs [] p"
  unfolding runs_def seqs.simps by (rule exI) (rule m_eps)

lemma runs_Cons: "runs (r # rs) p \<longleftrightarrow> (\<exists>t. matches False r p t \<and> runs rs t)"
proof (cases "rs = []")
  case True
  then show ?thesis by (auto simp: runs_Nil) (auto simp: runs_def)
next
  case False
  then show ?thesis by (auto simp: runs_def matches_seqs_Cons)
qed

lemma runs_lit: "runs (lit cs # rs) (p, s) \<longleftrightarrow> (\<exists>v. s = cs @ v \<and> runs rs (after cs p, v))"
  by (auto simp: runs_Cons matches_lit same_char_exact)

lemma runs_star:
  "runs (Star (Cls k) # rs) (p, s) \<longleftrightarrow>
     (\<exists>u v. s = u @ v \<and> list_all (in_class k) u \<and> runs rs (after u p, v))"
  by (auto simp: runs_Cons matches_star_cls)

lemma runs_plus:
  "runs (Plus (Cls k) # rs) (p, s) \<longleftrightarrow>
     (\<exists>u v. s = u @ v \<and> u \<noteq> [] \<and> list_all (in_class k) u \<and> runs rs (after u p, v))"
  by (auto simp: runs_Cons matches_plus_cls)

lemma runs_bol: "runs (Bol # rs) (p, s) \<longleftrightarrow> p = None \<and> runs rs (p, s)"
  by (auto simp: runs_Cons matches_anchors)

lemma runs_space_or_end:
  "runs [Group (alts [Cls Space, Eol])] (p, s) \<longleftrightarrow> s = [] \<or> ascii_space (hd s)"
  by (cases s) (auto simp: runs_def matches_group matches_alt matches_anchors)

lemmas runs_iffs = runs_lit runs_star runs_plus runs_bol runs_space_or_end

definition rm_root_seq :: "regex list" where
  "rm_root_seq =
     [Bol, Star (Cls Space), lit ''rm'', Plus (Cls Space), lit ''-'', Star (Cls Letters),
      lit ''r'', Star (Cls Letters), Plus (Cls Space), lit ''/'', Group (alts [Cls Space, Eol])]"

lemma floor_asts_hd: "hd floor_asts = seqs rm_root_seq"
  by (simp only: floor_asts_def rm_root_seq_def list.sel)

lemma runs_rm_root: "runs rm_root_seq (c, s) \<longleftrightarrow> c = None \<and> rm_root_command s"
proof
  assume "runs rm_root_seq (c, s)"
  then have "c = None \<and> (\<exists>w0 w1 a b w2 rest.
      s = w0 @ ''rm'' @ w1 @ ''-'' @ a @ ''r'' @ b @ w2 @ ''/'' @ rest
      \<and> list_all ascii_space w0 \<and> w1 \<noteq> [] \<and> list_all ascii_space w1
      \<and> list_all byte_alpha a \<and> list_all byte_alpha b \<and> w2 \<noteq> [] \<and> list_all ascii_space w2
      \<and> (rest = [] \<or> ascii_space (hd rest)))"
    unfolding rm_root_seq_def runs_iffs in_class_fun by (elim exE conjE) blast
  then show "c = None \<and> rm_root_command s" by (simp only: rm_root_command_def)
next
  assume "c = None \<and> rm_root_command s"
  then show "runs rm_root_seq (c, s)"
    unfolding rm_root_seq_def runs_iffs in_class_fun rm_root_command_def
    by (elim exE conjE) (intro conjI exI; (assumption | rule refl))
qed

lemma rm_root_runs: "(\<exists>q. matches False (hd floor_asts) (c, s) q) \<longleftrightarrow> c = None \<and> rm_root_command s"
  unfolding floor_asts_hd runs_def [symmetric] runs_rm_root ..

lemma rm_root_is_match: "is_match False (hd floor_asts) s \<longleftrightarrow> rm_root_command s"
proof -
  have "is_match False (hd floor_asts) s \<longleftrightarrow>
      (\<exists>u v. s = u @ v \<and> (if u = [] then None else Some (last u)) = None \<and> rm_root_command v)"
    unfolding is_match_iff rm_root_runs [symmetric] by blast
  then show ?thesis by (auto split: if_splits)
qed

lemma rm_root_first:
  assumes "engine_ok eng" and "ascii_text cmd"
  shows "matches_safety_floor eng cmd = Some \<lparr>sfm_pattern = hd FLOOR_PATTERNS, sfm_command = cmd\<rparr>
    \<longleftrightarrow> rm_root_command cmd"
proof -
  have hd: "hd FLOOR_PATTERNS = show_regex (hd floor_asts)"
    unfolding floor_asts_print [symmetric] by (simp add: floor_asts_def)
  have sp: "speaks eng False (hd floor_asts)"
    using assms(1) by (simp add: engine_ok_def floor_asts_def)
  have cons: "FLOOR_PATTERNS = hd FLOOR_PATTERNS # tl FLOOR_PATTERNS"
    by (simp add: FLOOR_PATTERNS_def)
  have "matches_safety_floor eng cmd = Some \<lparr>sfm_pattern = hd FLOOR_PATTERNS, sfm_command = cmd\<rparr>
      \<longleftrightarrow> re_is_match eng False (hd FLOOR_PATTERNS) cmd"
    unfolding matches_safety_floor_def
    by (subst cons) (auto simp: find_Some_iff)
  also have "\<dots> \<longleftrightarrow> rm_root_command cmd"
    unfolding hd engine_is_match [OF sp assms(2)] rm_root_is_match ..
  finally show ?thesis .
qed


section \<open>Samples\<close>

text \<open>The commands \<open>docs/requirements.md\<close>, section 7.1, requires the floor to match, each
  with the index of a pattern that does.\<close>

definition floor_required :: "(nat \<times> string) list" where
  "floor_required =
    [(0, ''rm -rf /''), (0, ''rm -rf  /''), (7, ''sudo rm -rf /''), (0, ''rm -rfv /''),
     (8, ''rm -rf /System/Library''), (1, ''rm -rf $HOME''), (1, ''rm -rf ~''),
     (1, ''rm -rf ~/''), (1, ''rm -rf $HOME/projects''), (2, ''rm -rf /*''),
     (3, '':(){ :|:& };:''), (3, '':(){:|:&};:''), (4, ''dd if=/dev/zero of=/dev/disk0''),
     (4, ''dd of=/dev/rdisk1 if=foo''), (4, ''dd if=foo of=/dev/sda''),
     (5, ''> /dev/disk2''), (6, ''mkfs.ext4 /dev/sdb1''), (9, ''chmod -R 777 /''),
     (9, ''chown -R user /''), (10, ''> /System/foo''),
     (11, ''diskutil eraseDisk JHFS+ X disk2''), (12, ''csrutil disable''),
     (13, ''spctl --master-disable''), (14, ''nvram -c'')]"

lemma floor_required_match:
  "list_all (\<lambda>(i, cmd). ascii_text cmd \<and> i < length floor_asts \<and> is_match False (floor_asts ! i) cmd)
    floor_required"
  by code_simp

text \<open>Commands of the same effect, and the quoted home directory that the same section
  expects to be blocked.\<close>

definition floor_missed :: "string list" where
  "floor_missed =
    [''rm -Rf /'', ''rm -r -f /'', ''rm -rf '' @ [CHR 0x22] @ ''$HOME/Downloads/temp'' @ [CHR 0x22]]"

lemma floor_missed_match:
  "list_all (\<lambda>cmd. ascii_text cmd \<and> \<not> list_ex (\<lambda>r. is_match False r cmd) floor_asts) floor_missed"
  by code_simp

definition critical_samples :: "(nat \<times> string) list" where
  "critical_samples =
    [(0, ''sudo ls''), (2, ''git reset --hard HEAD~1''), (3, ''curl https://x | sh''),
     (8, ''DROP TABLE users''), (1, ''rm -Rf /''), (9, ''killall node''), (5, ''chmod 777 f'')]"

lemma critical_samples_match:
  "list_all (\<lambda>(i, cmd). ascii_text cmd \<and> i < length critical_asts
      \<and> is_match True (critical_asts ! i) cmd) critical_samples"
  by code_simp

definition uncritical_samples :: "string list" where
  "uncritical_samples = [''git status'', ''kill -9 1'']"

lemma uncritical_samples_match:
  "list_all (\<lambda>cmd. ascii_text cmd \<and> \<not> list_ex (\<lambda>r. is_match True r cmd) critical_asts)
    uncritical_samples"
  by code_simp

section \<open>Properties\<close>

text \<open>The first floor pattern refuses exactly the recursive removals of the root directory:
  with an engine that decides the built-in patterns as documented, an ASCII command is refused
  by it if and only if it is, after white space, \<open>rm\<close>, one bundle of short options with an
  \<open>r\<close> in it, and \<open>/\<close> as the next whole argument; whatever white space and whatever other
  option letters it uses.\<close>

theorem floor_refuses_rm_root:
  assumes "engine_ok eng" and "ascii_text cmd"
  shows "matches_safety_floor eng cmd = Some \<lparr>sfm_pattern = hd FLOOR_PATTERNS, sfm_command = cmd\<rparr>
    \<longleftrightarrow> rm_root_command cmd"
  using assms by (rule rm_root_first)

theorem floor_refuses_rm_root_witness:
  "matches_safety_floor table_engine ''rm -rf /'' =
     Some \<lparr>sfm_pattern = hd FLOOR_PATTERNS, sfm_command = ''rm -rf /''\<rparr> \<longleftrightarrow>
   rm_root_command ''rm -rf /''"
  by (rule floor_refuses_rm_root [OF table_engine_ok]) code_simp

text \<open>Every command the requirements document demands the floor to match is refused, and
  the refusal carries the command and one of the built-in patterns, which is found in it.\<close>

theorem floor_refuses_required:
  assumes "engine_ok eng" and "cmd \<in> snd ` set floor_required"
  shows "\<exists>m. matches_safety_floor eng cmd = Some m \<and> sfm_command m = cmd
    \<and> sfm_pattern m \<in> set FLOOR_PATTERNS \<and> re_is_match eng False (sfm_pattern m) cmd"
proof -
  from assms(2) floor_required_match have "ascii_text cmd"
    "list_ex (\<lambda>r. is_match False r cmd) floor_asts"
    by (fastforce simp: list_all_iff list_ex_iff)+
  then obtain m where "matches_safety_floor eng cmd = Some m"
    using floor_iff [OF assms(1)] by blast
  then show ?thesis using matches_safety_floor_Some by blast
qed

theorem floor_refuses_required_witness:
  "\<exists>m. matches_safety_floor table_engine ''nvram -c'' = Some m \<and> sfm_command m = ''nvram -c''
    \<and> sfm_pattern m \<in> set FLOOR_PATTERNS \<and> re_is_match table_engine False (sfm_pattern m) ''nvram -c''"
  by (rule floor_refuses_required [OF table_engine_ok]) (simp add: floor_required_def)

text \<open>The floor does not see other spellings of the same removals: \<open>-R\<close>, split options,
  long options, and the quoted home directory that the requirements document expects it to
  refuse.\<close>

theorem floor_gaps:
  assumes "engine_ok eng" and "cmd \<in> set floor_missed"
  shows "matches_safety_floor eng cmd = None"
  using assms floor_missed_match floor_iff [OF assms(1), of cmd] by (auto simp: list_all_iff)

theorem floor_gaps_witness:
  "matches_safety_floor table_engine ''rm -Rf /'' = None"
  by (rule floor_gaps [OF table_engine_ok]) (simp add: floor_missed_def)

text \<open>The default critical matcher classifies the sample commands as its tests expect, the
  case variants included; \<open>kill\<close> itself is not critical, since \<open>killall?\<close> makes only the last
  letter optional.\<close>

theorem critical_classifies:
  assumes "engine_ok eng"
  shows "list_all (\<lambda>(i, cmd). is_critical_command eng cmd) critical_samples
    \<and> list_all (\<lambda>cmd. \<not> is_critical_command eng cmd) uncritical_samples
    \<and> is_critical eng critical_default = is_critical_command eng"
proof (intro conjI)
  show "list_all (\<lambda>(i, cmd). is_critical_command eng cmd) critical_samples"
    using critical_samples_match critical_iff [OF assms]
    by (fastforce simp: list_all_iff list_ex_iff)
  show "list_all (\<lambda>cmd. \<not> is_critical_command eng cmd) uncritical_samples"
    using uncritical_samples_match critical_iff [OF assms] by (simp add: list_all_iff)
  show "is_critical eng critical_default = is_critical_command eng"
    by (simp add: is_critical_def is_critical_command_def critical_default_def fun_eq_iff)
qed

theorem critical_classifies_witness:
  "list_all (\<lambda>(i, cmd). is_critical_command table_engine cmd) critical_samples
    \<and> list_all (\<lambda>cmd. \<not> is_critical_command table_engine cmd) uncritical_samples
    \<and> is_critical table_engine critical_default = is_critical_command table_engine"
  by (rule critical_classifies [OF table_engine_ok])

end
