(* ===== verification/Shell_Props.thy ===== *)
theory Shell_Props
  imports Shell_Quote
begin

text \<open>
  What the shell parser and the word quoting promise together: a command line assembled
  from quoted words is read back as these words, the scanner's tokens are well formed, the
  stages of a pipeline partition them, and the program token is the one the wrappers
  \<open>sudo\<close> and \<open>env\<close> and leading assignments lead to.
\<close>

section \<open>Concatenated text\<close>

lemma valid_scalar_piece: "valid_scalar c \<Longrightarrow> scalar_piece c"
  by (simp add: valid_scalar_def)

lemma ascii_piece: "\<not> is_cont b \<Longrightarrow> scalar_piece [b]"
  by (simp add: scalar_piece_def)

lemma chars_quote_word_pieces:
  assumes "valid_str v"
  shows "\<forall>c \<in> set (chars (shell_quote_word v)). scalar_piece c"
proof (cases "list_all quote_safe (chars v)")
  case True
  with assms show ?thesis by (simp add: shell_quote_word_def valid_str_def valid_scalar_piece)
next
  case False
  then have "chars (shell_quote_word v) = [CHR 0x27] # concat (map quote_char (chars v)) @ [[CHR 0x27]]"
    using chars_quoted [OF assms] replace_all_quote by (simp add: shell_quote_word_def)
  moreover have "\<forall>c \<in> set (concat (map quote_char (chars v))). scalar_piece c"
    using assms scalar_quote_char by (auto simp: valid_str_def)
  ultimately show ?thesis by (auto simp: ascii_piece is_cont_def)
qed

fun quoted_words :: "string list \<Rightarrow> string" where
  "quoted_words [] = []"
| "quoted_words [v] = shell_quote_word v"
| "quoted_words (v # w # vs) = shell_quote_word v @ '' '' @ quoted_words (w # vs)"

lemma quoted_words_join: "quoted_words vs = join '' '' (map shell_quote_word vs)"
  by (induction vs rule: quoted_words.induct) auto

lemma chars_quoted_words:
  "\<forall>v \<in> set vs. valid_str v \<Longrightarrow> \<forall>c \<in> set (chars (quoted_words vs)). scalar_piece c"
proof (induction vs rule: quoted_words.induct)
  case (3 v w vs)
  let ?r = "quoted_words (w # vs)"
  have r: "\<forall>c \<in> set (chars ?r). scalar_piece c" using 3 by simp
  moreover have sp: "chars ('' '' @ ?r) = '' '' # chars ?r"
    using chars_append [OF r, of "'' ''"] by (simp add: push_byte_def)
  ultimately have "\<forall>c \<in> set (chars ('' '' @ ?r)). scalar_piece c"
    by (simp add: ascii_piece is_cont_def)
  with chars_append [OF this, of "shell_quote_word v"] chars_quote_word_pieces [of v] 3(2)
  show ?case by auto
qed (use chars_quote_word_pieces in auto)

lemma chars_quoted_words_Cons:
  assumes "\<forall>v \<in> set (w # vs). valid_str v"
  shows "chars (shell_quote_word v @ '' '' @ quoted_words (w # vs))
    = chars (shell_quote_word v) @ '' '' # chars (quoted_words (w # vs))"
proof -
  let ?r = "quoted_words (w # vs)"
  have r: "\<forall>c \<in> set (chars ?r). scalar_piece c" using assms by (rule chars_quoted_words)
  have sp: "chars ('' '' @ ?r) = '' '' # chars ?r"
    using chars_append [OF r, of "'' ''"] by (simp add: push_byte_def)
  with r have "\<forall>c \<in> set (chars ('' '' @ ?r)). scalar_piece c"
    by (simp add: ascii_piece is_cont_def)
  from chars_append [OF this] sp show ?thesis by simp
qed

section \<open>Scanning quoted words\<close>

text \<open>A state between words.\<close>

definition quiet :: "scanner \<Rightarrow> bool" where
  "quiet s \<longleftrightarrow> neutral s \<and> \<not> sc_last_op s \<and> sc_token s = [] \<and> clean (sc_out s)"

lemma scan_loop_safe:
  "\<forall>c \<in> set cs. \<not> special c \<and> \<not> is_whitespace c \<Longrightarrow> neutral s \<Longrightarrow> \<not> sc_last_op s \<Longrightarrow>
     scan_loop cs s = s\<lparr>sc_token := sc_token s @ concat cs\<rparr>"
proof (induction cs arbitrary: s)
  case Nil
  then show ?case by simp
next
  case (Cons c cs)
  let ?t = "s\<lparr>sc_token := sc_token s @ c\<rparr>"
  have "scan_loop (c # cs) s = scan_loop cs ?t"
    using Cons.prems by (cases s) (simp add: scan_loop_Cons scan_step_plain push_tok_def neutral_def)
  also have "\<dots> = ?t\<lparr>sc_token := sc_token ?t @ concat cs\<rparr>"
    using Cons.prems by (intro Cons.IH) (simp_all add: neutral_def)
  finally show ?case by simp
qed

lemma scan_loop_word:
  assumes "valid_str v" and "quiet s"
  shows "scan_loop (chars (shell_quote_word v)) s = s\<lparr>sc_token := v\<rparr>"
proof (cases "list_all quote_safe (chars v)")
  case True
  then have "\<forall>c \<in> set (chars v). \<not> special c \<and> \<not> is_whitespace c"
    using quote_safe_not_special quote_safe_not_space by (auto simp: list_all_iff)
  with True assms(2) show ?thesis
    by (simp add: shell_quote_word_def scan_loop_safe quiet_def)
next
  case False
  let ?s = "s\<lparr>sc_single := True, sc_last_op := False\<rparr>"
  have "chars (shell_quote_word v)
      = [CHR 0x27] # concat (map quote_char (chars v)) @ [[CHR 0x27]]"
    using False chars_quoted [OF assms(1)] replace_all_quote by (simp add: shell_quote_word_def)
  moreover have "scan_step [CHR 0x27] n s = (?s, False)" for n
    using assms(2) by (simp add: scan_step_def scan_unquoted_def quiet_def neutral_def)
  ultimately have "scan_loop (chars (shell_quote_word v)) s
      = ?s\<lparr>sc_token := sc_token ?s @ v, sc_single := False\<rparr>"
    using scan_loop_quoted [of ?s "chars v"] assms(2)
    by (simp add: scan_loop_Cons quiet_def neutral_def)
  also have "\<dots> = s\<lparr>sc_token := v\<rparr>"
    using assms(2) by (cases s) (simp add: quiet_def neutral_def)
  finally show ?thesis .
qed

definition add_word :: "string \<Rightarrow> scanner \<Rightarrow> scanner" where
  "add_word v s = s\<lparr>sc_out := (sc_out s)\<lparr>sr_tokens := sr_tokens (sc_out s) @ [v]\<rparr>\<rparr>"

lemma scan_space_word:
  assumes "quiet s" and "v \<noteq> []" and "trim v = v"
  shows "scan_step '' '' n (s\<lparr>sc_token := v\<rparr>) = (add_word v s, False)"
  using assms
  by (cases s) (simp add: scan_step_defs quiet_def neutral_def Let_def flush_def flush_token_def
      ascii_space_def add_word_def)

lemma quiet_add_word: "quiet s \<Longrightarrow> quiet (add_word v s)"
  by (simp add: quiet_def add_word_def neutral_def clean_def)

definition shell_word :: "string \<Rightarrow> bool" where
  "shell_word v \<longleftrightarrow> valid_str v \<and> v \<noteq> [] \<and> trim v = v"

lemma scan_loop_words:
  "vs \<noteq> [] \<Longrightarrow> \<forall>v \<in> set vs. shell_word v \<Longrightarrow> quiet s \<Longrightarrow>
     scan_loop (chars (quoted_words vs)) s
       = (fold add_word (butlast vs) s)\<lparr>sc_token := last vs\<rparr>"
proof (induction vs arbitrary: s rule: quoted_words.induct)
  case 1
  then show ?case by simp
next
  case (2 v)
  then show ?case by (simp add: scan_loop_word shell_word_def)
next
  case (3 v w vs)
  let ?r = "chars (quoted_words (w # vs))"
  have v: "shell_word v" and vs: "\<forall>v \<in> set (w # vs). shell_word v" using 3(3) by auto
  have w: "scan_loop (chars (shell_quote_word v)) s = s\<lparr>sc_token := v\<rparr>"
    using v 3(4) by (intro scan_loop_word) (simp_all add: shell_word_def)
  have "scan_loop (chars (quoted_words (v # w # vs))) s
      = scan_loop (chars (shell_quote_word v) @ '' '' # ?r) s"
    using chars_quoted_words_Cons [of w vs v] vs by (simp add: shell_word_def)
  also have "\<dots> = scan_loop ('' '' # ?r) (s\<lparr>sc_token := v\<rparr>)"
    using 3(4) w by (subst scan_loop_append) (simp_all add: quiet_def)
  also have "\<dots> = scan_loop ?r (add_word v s)"
    using scan_space_word [OF 3(4), of v] v by (simp add: scan_loop_Cons shell_word_def)
  also have "\<dots> = (fold add_word (butlast (w # vs)) (add_word v s))\<lparr>sc_token := last (w # vs)\<rparr>"
    using vs quiet_add_word [OF 3(4)] by (intro 3(1)) simp_all
  finally show ?case by simp
qed

lemma fold_add_word: "fold add_word vs s =
  s\<lparr>sc_out := (sc_out s)\<lparr>sr_tokens := sr_tokens (sc_out s) @ vs\<rparr>\<rparr>"
  by (induction vs arbitrary: s) (simp_all add: add_word_def)

lemma scan_shell_words:
  assumes "vs \<noteq> []" and "\<forall>v \<in> set vs. shell_word v"
  shows "scan_shell (join '' '' (map shell_quote_word vs)) = scan_result_default\<lparr>sr_tokens := vs\<rparr>"
proof -
  have q: "quiet scanner_init"
    by (simp add: quiet_def clean_def scan_result_default_def)
  let ?s = "(fold add_word (butlast vs) scanner_init)\<lparr>sc_token := last vs\<rparr>"
  have l: "last vs \<noteq> []" "trim (last vs) = last vs"
    using assms by (auto simp: shell_word_def)
  have "scan_shell (join '' '' (map shell_quote_word vs)) = scan_finish ?s"
    unfolding scan_shell_def quoted_words_join [symmetric] scan_loop_words [OF assms q] ..
  also have "\<dots> = scan_result_default\<lparr>sr_tokens := final_tokens ?s\<rparr>"
    by (intro scan_finish_quiet) (simp_all add: fold_add_word neutral_def scan_result_default_def)
  also have "final_tokens ?s = vs"
    using l assms(1) by (simp add: final_tokens_def fold_add_word flush_token_def)
  finally show ?thesis .
qed

section \<open>The pipeline flag and the stages\<close>

lemma pipeline_flag_unquoted:
  "sr_has_pipeline (sc_out (fst (scan_unquoted ch n s))) \<longleftrightarrow>
     sr_has_pipeline (sc_out s) \<or> (ch = ''|'' \<and> \<not> snd (scan_unquoted ch n s))"
  by (simp add: scan_unquoted_def scan_arm_defs Let_def)

lemma pipeline_flag_step:
  assumes "scan_step ch n s = (t, took)"
  shows "sr_has_pipeline (sc_out t) \<longleftrightarrow>
    sr_has_pipeline (sc_out s) \<or> (neutral s \<and> ch = ''|'' \<and> \<not> took)"
proof -
  have "sr_has_pipeline (sc_out (fst (scan_step ch n s))) \<longleftrightarrow>
      sr_has_pipeline (sc_out s) \<or> (neutral s \<and> ch = ''|'' \<and> \<not> snd (scan_step ch n s))"
    by (simp add: scan_step_def neutral_def pipeline_flag_unquoted)
  with assms show ?thesis by simp
qed

lemma scan_stages_nonempty: "scan_stages cs s \<noteq> []"
proof (induction cs s rule: scan_stages.induct)
  case (2 ch rest s)
  obtain t took where st: "scan_step ch (peek rest) s = (t, took)" by force
  show ?case
  proof (cases "neutral s \<and> ch = ''|'' \<and> \<not> took")
    case True
    show ?thesis unfolding scan_stages_pipe [OF st True] by (rule list.distinct(2))
  next
    case False
    with 2(2) [OF st [symmetric]] scan_stages_other [OF st False] show ?thesis by simp
  qed
qed simp

lemma pipeline_flag_loop:
  "sr_has_pipeline (sc_out (scan_loop cs s)) \<longleftrightarrow>
     sr_has_pipeline (sc_out s) \<or> 1 < length (scan_stages cs s)"
proof (induction cs s rule: scan_loop.induct)
  case (1 s)
  then show ?case by simp
next
  case (2 ch rest s)
  obtain t took where st: "scan_step ch (peek rest) s = (t, took)" by force
  note IH = 2 [OF st [symmetric]]
  note loop = scan_loop_step [OF st] and flag = pipeline_flag_step [OF st]
  show ?case
  proof (cases "neutral s \<and> ch = ''|'' \<and> \<not> took")
    case True
    have "0 < length (scan_stages rest (set_tokens [] t))" using scan_stages_nonempty by blast
    moreover have "sr_has_pipeline (sc_out t)" using True flag by blast
    ultimately show ?thesis using True IH loop scan_stages_pipe [OF st True] by simp
  next
    case False
    with IH loop flag scan_stages_other [OF st False] show ?thesis by (simp del: scan_stages.simps)
  qed
qed

section \<open>Wrappers\<close>

lemma first_significant_env:
  "\<forall>e \<in> set envs. is_env_assignment e \<and> e \<noteq> ''sudo'' \<and> \<not> starts_with e ''-'' \<Longrightarrow>
     first_significant False (envs @ ts) = first_significant False ts"
  by (induction envs) auto

definition program_word :: "string \<Rightarrow> bool" where
  "program_word t \<longleftrightarrow>
     t \<noteq> ''sudo'' \<and> t \<noteq> ''env'' \<and> \<not> is_env_assignment t \<and> \<not> starts_with t ''-''"

definition assignment_word :: "string \<Rightarrow> bool" where
  "assignment_word e \<longleftrightarrow> is_env_assignment e \<and> e \<noteq> ''sudo'' \<and> \<not> starts_with e ''-''"

lemma first_significant_sudo_env:
  assumes "\<forall>t \<in> set opts. starts_with t ''-''" and "\<forall>e \<in> set envs. assignment_word e"
    and "program_word t"
  shows "first_significant sk (''sudo'' # opts @ ''env'' # envs @ t # ts) = Some t"
    and "first_significant sk (''sudo'' # opts @ t # ts) = Some t"
  using assms first_significant_sudo [OF assms(1)] first_significant_env [of envs "t # ts"]
  by (auto simp: program_word_def assignment_word_def)

section \<open>Properties\<close>

text \<open>C33: Quoting and parsing are inverse: a command line of one or more words, each quoted with
  \<open>shell_quote_word\<close> and joined by spaces, is parsed into exactly these words, and whatever
  characters they contain the parser reports no pipeline, operator, redirection,
  substitution, grouping or warning. The words are non-empty valid UTF-8 without white space at
  either end.\<close>

theorem quoted_words_roundtrip:
  assumes "vs \<noteq> []" and "\<forall>v \<in> set vs. shell_word v"
    and "p = parse_command (join '' '' (map shell_quote_word vs))"
  shows "pc_tokens p = vs \<and> \<not> has_risky_constructs p \<and> \<not> pc_has_grouping p
    \<and> pc_warnings p = [] \<and> pc_first_token p = extract_first_significant_token vs
    \<and> (pc_ambiguous p \<longleftrightarrow> extract_first_significant_token vs = None)"
  unfolding assms(3) parse_command_def scan_shell_words [OF assms(1,2)]
  by (simp add: scan_result_default_def has_risky_constructs_def Let_def)

theorem quoted_words_roundtrip_witness:
  "\<exists>vs p. vs = [''grep'', ''-n'', ''a|b $(c) it'' @ [CHR 0x27] @ ''s'', ''src/x.rs'']
     \<and> p = parse_command (join '' '' (map shell_quote_word vs))
     \<and> pc_tokens p = vs \<and> \<not> has_risky_constructs p"
proof -
  let ?vs = "[''grep'', ''-n'', ''a|b $(c) it'' @ [CHR 0x27] @ ''s'', ''src/x.rs'']"
  have "\<forall>v \<in> set ?vs. shell_word v" by code_simp
  from quoted_words_roundtrip [OF _ this refl] show ?thesis by blast
qed

text \<open>Every token the parser yields is non-empty and has no white space at its ends; the first
  significant token, when there is one, is one of them and is neither \<open>sudo\<close> nor \<open>env\<close> nor an
  assignment; a parse is ambiguous exactly when quoting or grouping is unbalanced, the command
  ends in an operator, or there is no such token.\<close>

theorem parse_command_tokens:
  "(\<forall>t \<in> set (pc_tokens (parse_command cmd)). t \<noteq> [] \<and> trim t = t)
   \<and> (\<forall>t. pc_first_token (parse_command cmd) = Some t \<longrightarrow>
        t \<in> set (pc_tokens (parse_command cmd)) \<and> t \<noteq> ''sudo'' \<and> t \<noteq> ''env''
        \<and> \<not> is_env_assignment t)
   \<and> (pc_ambiguous (parse_command cmd) \<longleftrightarrow>
        pc_unbalanced_grouping (parse_command cmd) \<or> pc_unbalanced_quotes (parse_command cmd)
        \<or> pc_trailing_operator (parse_command cmd) \<or> pc_first_token (parse_command cmd) = None)"
  using scan_shell_good_tokens [of cmd] first_significant_Some
  by (auto simp: parse_command_def Let_def good_tokens_def extract_first_significant_token_def)

theorem parse_command_tokens_witness:
  "pc_first_token (parse_command ''sudo -E FOO=1 rm -rf x'') = Some ''rm''
   \<and> ''rm'' \<in> set (pc_tokens (parse_command ''sudo -E FOO=1 rm -rf x'')) \<and> ''rm'' \<noteq> ''sudo''"
proof (rule conjI)
  show f: "pc_first_token (parse_command ''sudo -E FOO=1 rm -rf x'') = Some ''rm''" by code_simp
  from parse_command_tokens [of "''sudo -E FOO=1 rm -rf x''"] f
  show "''rm'' \<in> set (pc_tokens (parse_command ''sudo -E FOO=1 rm -rf x'')) \<and> ''rm'' \<noteq> ''sudo''"
    by blast
qed

text \<open>The stages between the unquoted single pipe characters of a command partition the
  tokens the parser yields, in order, and the pipeline flag is set exactly when there are at
  least two.\<close>

theorem pipeline_stages_partition:
  "concat (pipeline_stages cmd) = pc_tokens (parse_command cmd)
   \<and> (pc_has_pipeline (parse_command cmd) \<longleftrightarrow> 2 \<le> length (pipeline_stages cmd))"
proof -
  have "pc_has_pipeline (parse_command cmd)
      = sr_has_pipeline (sc_out (scan_loop (chars cmd) scanner_init))"
    by (simp add: parse_command_def scan_shell_def scan_finish_def Let_def)
  also have "\<dots> \<longleftrightarrow> 2 \<le> length (pipeline_stages cmd)"
    unfolding pipeline_flag_loop pipeline_stages_def by (auto simp: scan_result_default_def)
  finally have "pc_has_pipeline (parse_command cmd) \<longleftrightarrow> 2 \<le> length (pipeline_stages cmd)" .
  moreover have "concat (pipeline_stages cmd) = pc_tokens (parse_command cmd)"
    unfolding pipeline_stages_def concat_scan_stages
    by (simp add: parse_command_def scan_shell_def scan_finish_tokens final_tokens_def Let_def)
  ultimately show ?thesis by simp
qed

text \<open>Wrappers are looked through: for quoted words \<open>sudo\<close>, options, \<open>env\<close>, assignments and a
  program, the first significant token is the program, whatever arguments follow it.\<close>

theorem wrappers_skipped:
  assumes "\<forall>o1 \<in> set opts. starts_with o1 ''-''" and "\<forall>e \<in> set envs. assignment_word e"
    and "program_word t"
    and "\<forall>v \<in> set (''sudo'' # opts @ ''env'' # envs @ t # args). shell_word v"
  shows "first_significant_token
      (join '' '' (map shell_quote_word (''sudo'' # opts @ ''env'' # envs @ t # args))) = Some t"
proof -
  have "first_significant_token
      (join '' '' (map shell_quote_word (''sudo'' # opts @ ''env'' # envs @ t # args)))
    = extract_first_significant_token (''sudo'' # opts @ ''env'' # envs @ t # args)"
    unfolding first_significant_token_def parse_command_def
    by (subst scan_shell_words [OF _ assms(4)]) (simp_all add: Let_def)
  then show ?thesis
    unfolding extract_first_significant_token_def first_significant_sudo_env(1) [OF assms(1-3)] .
qed

theorem wrappers_skipped_witness:
  "first_significant_token
     (join '' '' (map shell_quote_word (''sudo'' # [''-E''] @ ''env'' # [''A=1''] @ ''rm'' # [''-rf'', ''a b'']))) = Some ''rm''"
  by (rule wrappers_skipped) code_simp+

text \<open>What the parser does not see: a substitution inside double quotes and backticks set no
  flag although a shell runs them, a newline does not count as a control operator, and white
  space after a final operator hides it.\<close>

theorem parser_blind_spots:
  "\<not> has_risky_constructs (parse_command (''echo '' @ [CHR 0x22] @ ''$(rm -rf x)'' @ [CHR 0x22]))
   \<and> \<not> has_risky_constructs (parse_command (''echo '' @ [CHR 0x60] @ ''rm -rf x'' @ [CHR 0x60]))
   \<and> \<not> has_risky_constructs (parse_command (''ls'' @ [CHR 0x0A] @ ''rm -rf x''))
   \<and> pc_ambiguous (parse_command ''ls -la |'') \<and> \<not> pc_ambiguous (parse_command ''ls -la | '')"
  by code_simp

end
