(* ===== verification/Plan_Effects.thy ===== *)
theory Plan_Effects
  imports Shell_Parse
begin

text \<open>
  \<open>crates/termlm-core/src/planning/mod.rs\<close>, the predicates: what a prompt asks for and what a
  drafted command does, each decided by substrings, words and flags of the lower-cased
  text. The needles and their order are the source's.
\<close>

section \<open>Words and flags\<close>

definition prompt_contains_word :: "string \<Rightarrow> string \<Rightarrow> bool" where
  "prompt_contains_word prompt word \<longleftrightarrow>
     list_ex (\<lambda>token. token = word) (split_chars (\<lambda>ch. \<not> is_ascii_alphanumeric ch) prompt)"

definition command_contains_word :: "string \<Rightarrow> string \<Rightarrow> bool" where
  "command_contains_word command word \<longleftrightarrow>
     list_ex (\<lambda>token. token = word)
       (split_chars (\<lambda>ch. \<not> (is_ascii_alphanumeric ch \<or> ch = ''_'' \<or> ch = ''-'')) command)"

definition is_single_dash_word_option :: "string \<Rightarrow> bool" where
  "is_single_dash_word_option token \<longleftrightarrow>
     token \<in> set
       [''-maxdepth'', ''-mindepth'', ''-type'', ''-name'', ''-iname'', ''-regex'',
        ''-iregex'', ''-exec'', ''-path'', ''-prune'', ''-print'', ''-print0'', ''-mtime'',
        ''-mmin'', ''-size'', ''-empty'', ''-newer'', ''-perm'', ''-user'', ''-group'',
        ''-delete'']"

text \<open>\<open>extract_flags\<close>: the flags one token contributes (\<open>None\<close> is the \<open>break\<close> at \<open>--\<close>), and the
  loop over the tokens.\<close>

definition token_flags :: "string \<Rightarrow> (string list) option" where
  "token_flags token =
     (if token = ''--'' then None
      else if starts_with token ''--'' \<and> 2 < length token
      then Some [hd (split_on (CHR ''='') token)]
      else if starts_with token ''-'' \<and> 1 < length token
      then (if 1 < length (chars token) \<and> chars token ! 1 = ''-'' then Some []
            else if is_single_dash_word_option token then Some [token]
            else if 2 < length token \<and> CHR ''='' \<notin> set token
            then Some (map (\<lambda>ch. ''-'' @ ch) (chars (tl token)))
            else Some [token])
      else Some [])"

fun flags_of_tokens :: "string list \<Rightarrow> string list" where
  "flags_of_tokens [] = []"
| "flags_of_tokens (t # ts) =
     (case token_flags t of None \<Rightarrow> [] | Some fs \<Rightarrow> fs @ flags_of_tokens ts)"

definition extract_flags :: "string \<Rightarrow> string list" where
  "extract_flags command = flags_of_tokens (split_whitespace command)"

definition command_has_flag :: "string \<Rightarrow> char \<Rightarrow> string \<Rightarrow> bool" where
  "command_has_flag command short long \<longleftrightarrow>
     list_ex (\<lambda>flag. flag = [CHR ''-'', short] \<or> flag = long) (extract_flags command)"

section \<open>What the prompt asks for\<close>

definition prompt_requests_recursive_scope :: "string \<Rightarrow> bool" where
  "prompt_requests_recursive_scope prompt \<longleftrightarrow>
     contains prompt ''recursive'' \<or> contains prompt ''recursively''
      \<or> contains prompt ''subfolder'' \<or> contains prompt ''subdirectories''
      \<or> contains prompt ''subdirector'' \<or> contains prompt ''under''"

definition prompt_requests_destination_creation :: "string \<Rightarrow> bool" where
  "prompt_requests_destination_creation prompt =
     (let mentions_folder = prompt_contains_word prompt ''folder'' \<or> prompt_contains_word prompt ''folders''
         \<or> prompt_contains_word prompt ''directory''
         \<or> prompt_contains_word prompt ''directories''
      in if \<not> mentions_folder then False
         else contains_any prompt
           [''new folder'', ''new directory'', ''folder named'', ''folder called'',
            ''directory named'', ''directory called'', ''folder on'', ''directory on'',
            ''into a folder'', ''into the folder'', ''into a directory'',
            ''into the directory'']
         \<or> (prompt_contains_word prompt ''create'' \<or> prompt_contains_word prompt ''make'') \<and> (contains prompt '' named '' \<or> contains prompt '' called ''))"

definition prompt_requests_compound_file_transfer :: "string \<Rightarrow> bool" where
  "prompt_requests_compound_file_transfer prompt \<longleftrightarrow>
     (prompt_contains_word prompt ''copy'' \<or> prompt_contains_word prompt ''duplicate''
      \<or> prompt_contains_word prompt ''move'' \<or> prompt_contains_word prompt ''rename'')
      \<and> (prompt_requests_destination_creation prompt \<or> prompt_requests_recursive_scope prompt
      \<or> contains prompt ''subfolder'' \<or> contains prompt ''subdirector'')"

definition prompt_requests_file_listing_or_transfer :: "string \<Rightarrow> bool" where
  "prompt_requests_file_listing_or_transfer prompt \<longleftrightarrow>
     contains prompt ''list'' \<or> contains prompt ''show'' \<or> contains prompt ''find''
      \<or> contains prompt ''search'' \<or> contains prompt ''copy'' \<or> contains prompt ''move''
      \<or> contains prompt ''open''"

definition prompt_requests_content_search :: "string \<Rightarrow> bool" where
  "prompt_requests_content_search prompt =
     (if contains prompt ''search web'' \<or> contains prompt ''search the web''
       \<or> contains prompt ''web search'' \<or> contains prompt ''internet''
       \<or> contains prompt ''online''
      then False
      else if (prompt_contains_word prompt ''directory''
       \<or> prompt_contains_word prompt ''directories''
       \<or> prompt_contains_word prompt ''folder'' \<or> prompt_contains_word prompt ''folders'')
       \<and> contains prompt ''containing'' \<and> \<not> (contains prompt ''content''
       \<or> contains prompt ''contents'' \<or> contains prompt ''text''
       \<or> contains prompt ''todo'')
      then False
      else if \<not> (contains prompt ''search'' \<or> contains prompt ''grep''
       \<or> contains prompt ''matches'' \<or> contains prompt ''containing''
       \<or> contains prompt ''contains'')
      then False
      else if contains prompt ''file named'' \<or> contains prompt ''files named''
       \<or> contains prompt ''filename'' \<or> contains prompt ''file name''
       \<or> contains prompt ''named '' \<or> contains prompt ''called ''
      then False
      else contains prompt '' for '' \<or> contains prompt ''todo'' \<or> contains prompt ''text''
       \<or> contains prompt ''phrase'' \<or> contains prompt ''contents''
       \<or> contains prompt ''content'' \<or> contains prompt ''case insensitive''
       \<or> contains prompt ''case-insensitive'')"

definition prompt_requests_case_insensitive_search :: "string \<Rightarrow> bool" where
  "prompt_requests_case_insensitive_search prompt \<longleftrightarrow>
     contains prompt ''case insensitive'' \<or> contains prompt ''case-insensitive''"

definition prompt_requests_largest_files :: "string \<Rightarrow> bool" where
  "prompt_requests_largest_files prompt \<longleftrightarrow>
     contains prompt ''largest'' \<and> contains prompt ''file''"

definition prompt_requests_ranked_single_file :: "string \<Rightarrow> bool" where
  "prompt_requests_ranked_single_file prompt \<longleftrightarrow>
     (contains prompt ''oldest'' \<or> contains prompt ''newest'' \<or> contains prompt ''most recent'')
      \<and> prompt_contains_word prompt ''file'' \<and> \<not> contains prompt ''subdirectories''
      \<and> \<not> contains prompt ''subdirectory''"

definition prompt_requests_directories_only :: "string \<Rightarrow> bool" where
  "prompt_requests_directories_only prompt \<longleftrightarrow>
     (contains prompt ''only directories'' \<or> contains prompt ''directories, not files''
      \<or> contains prompt ''directories not files'' \<or> contains prompt ''folders, not files''
      \<or> contains prompt ''folders not files'') \<and> (contains prompt ''show''
      \<or> contains prompt ''list'' \<or> contains prompt ''find'')"

definition prompt_requests_delete_empty_directories :: "string \<Rightarrow> bool" where
  "prompt_requests_delete_empty_directories prompt \<longleftrightarrow>
     (contains prompt ''empty directory'' \<or> contains prompt ''empty directories'')
      \<and> (prompt_contains_word prompt ''delete'' \<or> prompt_contains_word prompt ''remove''
      \<or> prompt_contains_word prompt ''rmdir'')"

definition prompt_requests_recent_file_per_subdir :: "string \<Rightarrow> bool" where
  "prompt_requests_recent_file_per_subdir prompt \<longleftrightarrow>
     contains prompt ''most recently modified file'' \<and> (contains prompt ''subdirectory''
      \<or> contains prompt ''subdirectories'')"

definition prompt_requests_git_changed_files :: "string \<Rightarrow> bool" where
  "prompt_requests_git_changed_files prompt \<longleftrightarrow>
     contains prompt ''file'' \<and> (contains prompt ''changed since the last commit''
      \<or> contains prompt ''since the last commit'' \<or> contains prompt ''changed files''
      \<or> contains prompt (''what files i'' @ [CHR 0x27] @ ''ve changed'')
      \<or> contains prompt ''what files i have changed'')"

definition prompt_requests_filesystem_disk_usage :: "string \<Rightarrow> bool" where
  "prompt_requests_filesystem_disk_usage prompt \<longleftrightarrow>
     contains prompt ''disk usage by filesystem'' \<or> contains prompt ''disk space free''"

definition prompt_requests_dated_backup :: "string \<Rightarrow> bool" where
  "prompt_requests_dated_backup prompt \<longleftrightarrow>
     contains prompt ''backup'' \<and> (contains prompt ''folder'' \<or> contains prompt ''directory'')
      \<and> (contains prompt ''today'' \<or> contains prompt ''date'')"

definition prompt_requests_create_and_cd :: "string \<Rightarrow> bool" where
  "prompt_requests_create_and_cd prompt \<longleftrightarrow>
     (contains prompt ''cd into'' \<or> contains prompt ''change into''
      \<or> contains prompt ''enter it'' \<or> contains prompt ''go into'')
      \<and> (contains prompt ''directory'' \<or> contains prompt ''folder'')"

definition prompt_mentions_image_files :: "string \<Rightarrow> bool" where
  "prompt_mentions_image_files prompt \<longleftrightarrow>
     contains prompt ''image'' \<or> contains prompt ''photo'' \<or> contains prompt ''picture''"

definition prompt_mentions_markdown_files :: "string \<Rightarrow> bool" where
  "prompt_mentions_markdown_files prompt \<longleftrightarrow>
     contains prompt ''markdown'' \<or> contains prompt ''.md''"

definition prompt_requests_plain_listing :: "string \<Rightarrow> bool" where
  "prompt_requests_plain_listing prompt =
     (if \<not> (contains prompt ''list'' \<or> contains prompt ''show'') then False
      else if \<not> (contains prompt ''files'' \<or> contains prompt ''contents''
       \<or> contains prompt ''everything'' \<or> contains prompt ''entries'') then False
      else \<not> contains_any prompt
         [''not directories'', ''not files'', ''no directories'', ''no files'',
          ''exclude directories'', ''exclude files'', ''without directories'',
          ''without files'', ''only directories'', ''directories only'', ''directory only'',
          ''files only'', ''only files'', ''recursive'', ''subfolder'', ''subdirectories'',
          ''image'', ''photo'', ''picture'', ''markdown'', ''.md'', ''count'', ''how many'',
          ''oldest'', ''newest'', ''recent'', ''open'', ''copy'', ''move'', ''largest'',
          ''biggest'', ''larger'', ''smaller'', ''modified'', ''created'', ''sort'',
          ''by size''])"

definition prompt_mentions_standard_home_dir :: "string \<Rightarrow> bool" where
  "prompt_mentions_standard_home_dir prompt \<longleftrightarrow>
     contains prompt ''download'' \<or> contains prompt ''desktop'' \<or> contains prompt ''document''
      \<or> contains prompt ''picture'' \<or> contains prompt ''movie'' \<or> contains prompt ''music''"

section \<open>What the command does\<close>

text \<open>A short-option token (one dash) that contains one of the letters.\<close>

definition short_option_with :: "string list \<Rightarrow> string \<Rightarrow> bool" where
  "short_option_with letters token \<longleftrightarrow>
     starts_with token ''-'' \<and> \<not> starts_with token ''--'' \<and> contains_any (tl token) letters"

definition command_has_case_insensitive_search :: "string \<Rightarrow> bool" where
  "command_has_case_insensitive_search command \<longleftrightarrow>
     list_ex (\<lambda>token. token = ''--ignore-case'' \<or> short_option_with [''i''] token)
       (split_whitespace command)"

definition command_has_recursive_grep_flag :: "string \<Rightarrow> bool" where
  "command_has_recursive_grep_flag command \<longleftrightarrow>
     list_ex (\<lambda>token. token = ''-R'' \<or> token = ''-r'' \<or> token = ''--recursive''
         \<or> short_option_with [''R'', ''r''] token)
       (split_whitespace command)"

definition requested_home_path :: "string \<Rightarrow> string option" where
  "requested_home_path prompt =
     (if contains prompt ''download'' then Some ''$home/downloads''
      else if contains prompt ''desktop'' then Some ''$home/desktop''
      else if contains prompt ''document'' then Some ''$home/documents''
      else if contains prompt ''picture'' then Some ''$home/pictures''
      else if contains prompt ''movie'' then Some ''$home/movies''
      else if contains prompt ''music'' then Some ''$home/music''
      else None)"

definition command_mentions_requested_home_path :: "string \<Rightarrow> string \<Rightarrow> bool" where
  "command_mentions_requested_home_path command prompt =
     (case requested_home_path prompt of
        None \<Rightarrow> True
      | Some target \<Rightarrow>
          contains command target \<or> contains command (replace_all target ''$home'' ''~''))"

definition command_satisfies_largest_files :: "string \<Rightarrow> string \<Rightarrow> bool" where
  "command_satisfies_largest_files command prompt =
     (let wants_files = contains prompt ''file'';
          file_only = \<not> wants_files \<or> contains command ''-type f'' \<or> contains command ''*(.)''
             \<or> contains command ''grep -v /''
             \<or> contains command (''grep -v '' @ [CHR 0x27] @ ''/'' @ [CHR 0x27]);
          ls_ranks_files = command_contains_word command ''ls'' \<and> command_has_flag command (CHR ''S'') []
             \<and> file_only;
          du_ranks_files = command_contains_word command ''du'' \<and> command_contains_word command ''sort''
             \<and> file_only;
          has_size_sort = ls_ranks_files \<or> du_ranks_files \<and> (\<not> wants_files
             \<or> contains command ''-type f'') \<or> command_contains_word command ''find''
             \<and> contains command ''-size'' \<or> command_contains_word command ''find''
             \<and> contains command ''stat'' \<and> contains command ''%z''
             \<and> command_contains_word command ''sort''
      in if \<not> has_size_sort then False
         else if contains prompt '' 3 largest'' \<or> contains prompt '' three largest''
             \<or> contains prompt '' 10 largest'' \<or> contains prompt '' ten largest''
             \<or> contains prompt ''top ''
         then command_contains_word command ''head'' \<or> contains command ''-n 3''
             \<or> contains command ''-n 10''
         else True)"

definition command_selects_ranked_single_file :: "string \<Rightarrow> string \<Rightarrow> bool" where
  "command_selects_ranked_single_file command prompt =
     (let srt = (if contains prompt ''oldest'' then ''sort -n'' else ''sort -nr'')
      in command_contains_word command ''find'' \<and> contains command ''-type f''
          \<and> contains command ''stat -f'' \<and> contains command ''%m'' \<and> contains command srt
          \<and> contains command ''head -n 1'' \<and> contains command ''cut ''
          \<and> contains command ''-f2-'')"

definition command_has_content_search :: "string \<Rightarrow> bool" where
  "command_has_content_search command \<longleftrightarrow>
     command_contains_word command ''grep'' \<or> command_contains_word command ''rg''
      \<or> command_contains_word command ''ag'' \<or> command_contains_word command ''ack''
      \<or> contains command ''git grep''"

definition command_lists_directories_only :: "string \<Rightarrow> bool" where
  "command_lists_directories_only command \<longleftrightarrow>
     command_contains_word command ''find'' \<and> contains command ''-type d''
      \<or> command_contains_word command ''ls'' \<and> command_has_flag command (CHR ''d'') []
      \<and> contains command ''*/''"

definition command_deletes_empty_directories :: "string \<Rightarrow> bool" where
  "command_deletes_empty_directories command \<longleftrightarrow>
     command_contains_word command ''find'' \<and> contains command ''-type d''
      \<and> contains command ''-empty'' \<and> (contains command ''-delete''
      \<or> command_contains_word command ''rmdir'' \<or> command_contains_word command ''rm'')"

definition command_checks_recent_file_per_subdir :: "string \<Rightarrow> bool" where
  "command_checks_recent_file_per_subdir command \<longleftrightarrow>
     command_contains_word command ''for'' \<and> command_contains_word command ''head''
      \<or> command_contains_word command ''find'' \<and> (command_contains_word command ''sort''
      \<or> command_contains_word command ''stat'') \<or> command_contains_word command ''ls''
      \<and> command_has_flag command (CHR ''t'') [] \<and> command_contains_word command ''head''"

definition command_checks_git_changes :: "string \<Rightarrow> bool" where
  "command_checks_git_changes command \<longleftrightarrow>
     command_contains_word command ''git'' \<and> (command_contains_word command ''status''
      \<or> command_contains_word command ''diff'')"

definition command_checks_filesystem_disk_usage :: "string \<Rightarrow> bool" where
  "command_checks_filesystem_disk_usage command \<longleftrightarrow>
     command_contains_word command ''df''"

definition command_creates_dated_backup :: "string \<Rightarrow> bool" where
  "command_creates_dated_backup command \<longleftrightarrow>
     (command_contains_word command ''tar'' \<or> command_contains_word command ''cp''
      \<or> command_contains_word command ''ditto'') \<and> (contains command ''date''
      \<or> contains command ''$(date'')"

definition command_creates_and_enters_directory :: "string \<Rightarrow> bool" where
  "command_creates_and_enters_directory command \<longleftrightarrow>
     command_contains_word command ''mkdir'' \<and> command_contains_word command ''cd''
      \<or> command_contains_word command ''mkcd''"

definition command_has_image_filter :: "string \<Rightarrow> bool" where
  "command_has_image_filter command \<longleftrightarrow>
     contains_any command [''jpg'', ''jpeg'', ''png'', ''gif'', ''webp'', ''heic'', ''tif'', ''tiff'', ''bmp'']"

definition command_has_markdown_filter :: "string \<Rightarrow> bool" where
  "command_has_markdown_filter command \<longleftrightarrow>
     contains command ''.md'' \<or> contains command ''.markdown''"

definition command_has_copy_operation :: "string \<Rightarrow> bool" where
  "command_has_copy_operation command \<longleftrightarrow>
     command_contains_word command ''cp'' \<or> command_contains_word command ''rsync''
      \<or> command_contains_word command ''ditto''"

definition command_has_move_operation :: "string \<Rightarrow> bool" where
  "command_has_move_operation command \<longleftrightarrow>
     command_contains_word command ''mv'' \<or> contains command ''--remove-source-files''"

definition command_has_recursive_selection :: "string \<Rightarrow> bool" where
  "command_has_recursive_selection command \<longleftrightarrow>
     command_contains_word command ''find'' \<and> \<not> contains command ''-maxdepth 1''
      \<or> contains command ''**'' \<or> command_contains_word command ''rsync''
      \<or> command_contains_word command ''rg'' \<or> command_contains_word command ''grep''
      \<and> command_has_recursive_grep_flag command \<or> contains command '' -R ''
      \<or> contains command '' -r ''"

end
