(* ===== verification/Planning.thy ===== *)
theory Planning
  imports Plan_Effects "HOL-Library.Char_ord" "HOL-Library.List_Lexorder"
begin

text \<open>
  \<open>crates/termlm-core/src/planning/mod.rs\<close>, the planner: \<open>validate_round\<close> collects the findings
  against a drafted command and \<open>revise_command\<close> repairs the draft from them.
\<close>

section \<open>Data\<close>

record validation_finding =
  vf_kind :: string
  vf_detail :: string

record grounded_proposal =
  gp_command :: string
  gp_intent :: string
  gp_expected_effect :: string
  gp_commands_used :: "string list"
  gp_risk_level :: string
  gp_destructive :: bool
  gp_requires_approval :: bool
  gp_grounding :: "string list"
  gp_validation :: "validation_finding list"

record validation_context =
  vc_prompt :: string
  vc_command_exists :: bool
  vc_docs_excerpt :: string
  vc_validate_command_flags :: bool
  vc_parse_ambiguous :: bool
  vc_parse_warnings :: "string list"
  vc_parse_risky_constructs :: bool

definition finding :: "string \<Rightarrow> string \<Rightarrow> validation_finding" where
  "finding kind detail = \<lparr>vf_kind = kind, vf_detail = detail\<rparr>"

definition push_if :: "bool \<Rightarrow> string \<Rightarrow> string \<Rightarrow> validation_finding list" where
  "push_if b kind detail = (if b then [finding kind detail] else [])"

definition insufficient_if :: "bool \<Rightarrow> string \<Rightarrow> validation_finding list" where
  "insufficient_if b detail = push_if b ''insufficient_for_prompt'' detail"

section \<open>Findings against the prompt's intent\<close>

definition validate_compound_file_transfer_effects ::
  "string \<Rightarrow> string \<Rightarrow> validation_finding list" where
  "validate_compound_file_transfer_effects command prompt =
     (let wants_copy = prompt_contains_word prompt ''copy'' \<or> prompt_contains_word prompt ''duplicate'';
          wants_move = prompt_contains_word prompt ''move'' \<or> prompt_contains_word prompt ''rename'';
          wants_created_destination = prompt_requests_destination_creation prompt;
          wants_recursive = prompt_requests_recursive_scope prompt;
          null_safe = contains command ''-print0'' \<and> contains command ''xargs -0''
      in insufficient_if (wants_created_destination \<and> \<not> command_contains_word command ''mkdir'')
           ''compound request creates a destination folder but draft has no mkdir step''
       @ insufficient_if
           (wants_created_destination \<and> command_contains_word command ''mkdir''
            \<and> (wants_copy \<or> wants_move) \<and> \<not> contains command ''&&'')
           ''destination creation should be chained before the transfer with &&''
       @ insufficient_if (wants_copy \<and> \<not> command_has_copy_operation command)
           ''compound copy request has no copy operation''
       @ insufficient_if (wants_move \<and> \<not> command_has_move_operation command)
           ''compound move request has no move operation''
       @ insufficient_if (wants_recursive \<and> \<not> command_has_recursive_selection command)
           ''recursive request has no recursive traversal or selection step''
       @ insufficient_if
           (contains prompt ''file'' \<and> contains command ''find '' \<and> \<not> contains command ''-type f'')
           ''file transfer should select regular files, not directories''
       @ insufficient_if
           (contains command ''find '' \<and> contains command ''xargs'' \<and> \<not> null_safe
            \<and> \<not> contains command ''-exec '')
           ''find-to-xargs transfer should be null-delimited or use -exec''
       @ insufficient_if
           (prompt_mentions_standard_home_dir prompt
            \<and> \<not> command_mentions_requested_home_path command prompt)
           ''draft does not mention the requested standard home folder'')"

text \<open>\<open>validate_prompt_effects\<close> in three stretches of the source; \<open>command\<close> is the draft as
  written, \<open>c\<close> and \<open>p\<close> the lower-cased draft and prompt.\<close>

definition effects_of_request :: "string \<Rightarrow> string \<Rightarrow> string \<Rightarrow> validation_finding list" where
  "effects_of_request command c p =
     (let overfiltered =
            contains c '' | grep '' \<or> contains c '' | awk '' \<or> contains c '' | sed ''
            \<or> contains c '' | xargs '' \<or> (starts_with c ''find '' \<and> contains c ''-type f'')
      in insufficient_if (prompt_requests_plain_listing p \<and> overfiltered)
           ''plain listing request should not add filtering, recursion, or transformation''
       @ insufficient_if
           (prompt_requests_largest_files p \<and> \<not> command_satisfies_largest_files command p)
           ''largest-file request needs size sorting or filtering and should limit results when a count is requested''
       @ insufficient_if
           (prompt_requests_ranked_single_file p \<and> \<not> command_selects_ranked_single_file c p)
           ''oldest/newest-file request should select one regular file path using mtime sorting, not dump a directory listing''
       @ insufficient_if
           (prompt_requests_directories_only p \<and> \<not> command_lists_directories_only c)
           ''directories-only request must select directories rather than all entries''
       @ insufficient_if
           (prompt_requests_delete_empty_directories p \<and> \<not> command_deletes_empty_directories c)
           ''empty-directory deletion request must find empty directories and delete/rmdir them''
       @ insufficient_if
           (prompt_requests_recent_file_per_subdir p \<and> \<not> command_checks_recent_file_per_subdir c)
           ''per-subdirectory newest-file request needs per-directory traversal and modification-time sorting''
       @ insufficient_if
           (prompt_requests_git_changed_files p \<and> \<not> command_checks_git_changes c)
           ''git changed-files request should use git status or git diff''
       @ insufficient_if
           (prompt_requests_filesystem_disk_usage p \<and> \<not> command_checks_filesystem_disk_usage c)
           ''filesystem disk-usage request should use df, not a directory listing''
       @ insufficient_if
           (prompt_requests_dated_backup p \<and> \<not> command_creates_dated_backup c)
           (''dated backup request should create a backup/archive and include today'' @ [CHR 0x27]
              @ ''s date'')
       @ insufficient_if
           (prompt_requests_create_and_cd p \<and> \<not> command_creates_and_enters_directory c)
           ''create-and-cd request must both create the directory and cd into it'')"

definition prompt_requests_file_count :: "string \<Rightarrow> bool" where
  "prompt_requests_file_count p \<longleftrightarrow>
     (contains p ''how many'' \<or> contains p ''count'') \<and> contains p ''file''"

definition effects_of_counting :: "string \<Rightarrow> string \<Rightarrow> validation_finding list" where
  "effects_of_counting c p =
     (let counts_regular_files = starts_with c ''find '' \<and> contains c ''-type f'';
          counts_regular_files_with_listing =
            contains c '' | grep ''
            \<and> (contains c (''grep -v '' @ [CHR 0x27] @ ''/$'' @ [CHR 0x27])
               \<or> contains c (''grep -v '' @ [CHR 0x22] @ ''/$'' @ [CHR 0x22]))
      in insufficient_if (prompt_requests_file_count p \<and> \<not> contains c ''wc -l'')
           ''file-count request needs a count-producing command such as wc -l''
       @ insufficient_if
           (prompt_requests_file_count p \<and> \<not> counts_regular_files
            \<and> \<not> counts_regular_files_with_listing)
           ''file-count request must count regular files, not directories or all entries'')"

definition effects_of_selection :: "string \<Rightarrow> string \<Rightarrow> validation_finding list" where
  "effects_of_selection c p =
     (let lists = prompt_requests_file_listing_or_transfer p;
          unrestricted = starts_with c ''find '' \<and> \<not> contains c ''-type f''
      in insufficient_if (prompt_requests_content_search p \<and> \<not> command_has_content_search c)
           ''text-search request needs a content-search command such as grep or rg''
       @ insufficient_if
           (prompt_requests_content_search p \<and> prompt_requests_case_insensitive_search p
            \<and> \<not> command_has_case_insensitive_search c)
           ''case-insensitive text search needs an ignore-case flag''
       @ insufficient_if (prompt_mentions_image_files p \<and> lists \<and> \<not> command_has_image_filter c)
           ''image-file request needs an image extension filter''
       @ insufficient_if (prompt_mentions_image_files p \<and> lists \<and> unrestricted)
           ''image-file request must restrict results to regular files''
       @ insufficient_if
           (prompt_mentions_markdown_files p \<and> lists \<and> \<not> command_has_markdown_filter c)
           ''Markdown-file request needs a .md or .markdown filter''
       @ insufficient_if (prompt_mentions_markdown_files p \<and> lists \<and> unrestricted)
           ''Markdown-file request must restrict results to regular files''
       @ insufficient_if
           (prompt_requests_recursive_scope p \<and> lists \<and> \<not> command_has_recursive_selection c)
           ''recursive request has no recursive traversal or selection step''
       @ (if prompt_requests_compound_file_transfer p
          then validate_compound_file_transfer_effects c p else []))"

definition validate_prompt_effects :: "string \<Rightarrow> string \<Rightarrow> validation_finding list" where
  "validate_prompt_effects command prompt =
     (let p = to_ascii_lowercase prompt; c = to_ascii_lowercase command
      in effects_of_request command c p @ effects_of_counting c p @ effects_of_selection c p)"

section \<open>validate\_round\<close>

text \<open>A \<open>BTreeSet<String>\<close> as its sorted list of elements; strings are ordered by their bytes.\<close>

definition btree_insert :: "'a::linorder \<Rightarrow> 'a list \<Rightarrow> 'a list" where
  "btree_insert x xs = (if x \<in> set xs then xs else insort x xs)"

definition collect_missing_flags :: "string \<Rightarrow> string \<Rightarrow> string list" where
  "collect_missing_flags docs cmd =
     foldl (\<lambda>missing flag.
         if flag = ''-'' \<or> flag = ''--'' then missing
         else if \<not> contains docs (to_ascii_lowercase flag) then btree_insert flag missing
         else missing)
       [] (extract_flags cmd)"

definition flags_detail :: "string list \<Rightarrow> string" where
  "flags_detail missing = ''flags missing from local docs: '' @ join '', '' missing"

definition validate_flags :: "validation_context \<Rightarrow> string \<Rightarrow> validation_finding list" where
  "validate_flags ctx cmd =
     (if vc_validate_command_flags ctx \<and> vc_docs_excerpt ctx \<noteq> []
      then (let missing = collect_missing_flags (to_ascii_lowercase (vc_docs_excerpt ctx)) cmd
            in if missing \<noteq> [] then [finding ''unsupported_flag'' (flags_detail missing)] else [])
      else [])"

definition prompt_asks_sorted :: "string \<Rightarrow> bool" where
  "prompt_asks_sorted p \<longleftrightarrow> contains p ''modified'' \<or> contains p ''mtime'' \<or> contains p ''sorted''"

definition validate_round ::
  "grounded_proposal \<Rightarrow> validation_context \<Rightarrow> validation_finding list" where
  "validate_round proposal ctx =
     (let cmd = trim (gp_command proposal)
      in if cmd = [] then [finding ''insufficient_draft'' ''draft command is empty'']
         else let p = to_ascii_lowercase (vc_prompt ctx); c = to_ascii_lowercase cmd
           in push_if (\<not> vc_command_exists ctx) ''unknown_command''
                ''first significant token is not installed in this shell context''
            @ push_if (vc_parse_ambiguous ctx) ''parse_ambiguous''
                (if vc_parse_warnings ctx = [] then ''shell parse was ambiguous''
                 else join ''; '' (vc_parse_warnings ctx))
            @ push_if (vc_parse_ambiguous ctx \<and> vc_parse_risky_constructs ctx)
                ''parse_ambiguous_risky''
                ''ambiguous parse intersects pipelines/redirections/control operators''
            @ push_if (gp_grounding proposal = []) ''missing_grounding''
                ''proposal has no local grounding evidence''
            @ validate_flags ctx cmd
            @ insufficient_if
                (prompt_asks_sorted p \<and> starts_with c ''ls '' \<and> \<not> command_has_flag cmd (CHR ''t'') ''--sort'')
                ''request asked for sorted/mtime behavior but draft lacks sort flags''
            @ validate_prompt_effects cmd (vc_prompt ctx))"

section \<open>revise\_command\<close>

definition replace_first_token :: "string \<Rightarrow> string \<Rightarrow> string" where
  "replace_first_token command replacement =
     (case split_whitespace command of
        [] \<Rightarrow> command
      | _ # parts \<Rightarrow> join '' '' (replacement # parts))"

text \<open>The flags a detail text names: the pieces between commas of what follows its first colon.\<close>

definition flags_of_detail :: "string \<Rightarrow> string list" where
  "flags_of_detail detail =
     (let fields = split_on (CHR '':'') detail;
          list = (if 1 < length fields then fields ! 1 else [])
      in filter (\<lambda>f. starts_with f ''-'') (map trim (split_on (CHR '','') list)))"

definition strip_flags_from_detail :: "string \<Rightarrow> string \<Rightarrow> string" where
  "strip_flags_from_detail command detail =
     (let remove = flags_of_detail detail
      in if remove = [] then command
         else join '' '' (filter (\<lambda>tok. tok \<notin> set remove) (split_whitespace command)))"

definition ensure_compound_short_flag :: "string \<Rightarrow> char \<Rightarrow> string" where
  "ensure_compound_short_flag command flag =
     (case split_whitespace command of
        prog # tok # rest \<Rightarrow>
          if starts_with tok ''-'' \<and> \<not> starts_with tok ''--''
          then (if flag \<notin> set tok then join '' '' (prog # (tok @ [flag]) # rest)
                else join '' '' (prog # tok # rest))
          else join '' '' (prog # [CHR ''-'', flag] # tok # rest)
      | _ \<Rightarrow> command)"

definition or_else :: "'a option \<Rightarrow> 'a option \<Rightarrow> 'a option" where
  "or_else a b = (case a of None \<Rightarrow> b | Some x \<Rightarrow> Some x)"

definition drop_operator :: "string \<Rightarrow> string option" where
  "drop_operator trimmed =
     or_else (strip_suffix trimmed ''&&'')
       (or_else (strip_suffix trimmed ''||'')
         (or_else (strip_suffix trimmed ''|'')
           (or_else (strip_suffix trimmed '';'') (strip_suffix trimmed ''&''))))"

lemma drop_operator_suffix:
  assumes "drop_operator s = Some r"
  shows "\<exists>op. op \<in> {''&&'', ''||'', ''|'', '';'', ''&''} \<and> s = r @ op"
  using assms
  by (auto simp: drop_operator_def or_else_def split: option.splits dest!: strip_suffix_Some)

lemma trim_end_prefix: "prefix (trim_end s) s"
proof -
  let ?cs = "chars s"
  have "?cs = rev (dropWhile is_whitespace (rev ?cs)) @ rev (takeWhile is_whitespace (rev ?cs))"
    by (rule takeWhile_dropWhile_rev_split)
  then have "concat ?cs = trim_end s @ concat (rev (takeWhile is_whitespace (rev ?cs)))"
    unfolding trim_end_def by (metis concat_append)
  then have "s = trim_end s @ concat (rev (takeWhile is_whitespace (rev ?cs)))"
    by (simp only: concat_chars)
  then show ?thesis by (rule prefixI)
qed

lemma trim_end_length: "length (trim_end s) \<le> length s"
  by (rule prefix_length_le) (rule trim_end_prefix)

lemma drop_operator_shorter:
  "drop_operator (trim_end out) = Some next \<Longrightarrow> length (trim_end next) < length out"
  using drop_operator_suffix [of "trim_end out" "next"] trim_end_length [of out]
    trim_end_length [of "next"] by auto

function drop_operators :: "string \<Rightarrow> string" where
  "drop_operators out =
     (case drop_operator (trim_end out) of
        Some next \<Rightarrow> drop_operators (trim_end next)
      | None \<Rightarrow> out)"
  by pat_completeness auto
termination
  by (relation "measure length") (auto dest: drop_operator_shorter)

declare drop_operators.simps [simp del]

definition simplify_ambiguous_command :: "string \<Rightarrow> string option" where
  "simplify_ambiguous_command command =
     (let original = trim command
      in if original = [] then None
         else let out = drop_operators original
           in if out = original \<or> out = [] then None else Some out)"

definition revise_listing :: "string \<Rightarrow> string \<Rightarrow> string" where
  "revise_listing p revised =
     (if starts_with revised ''ls ''
      then (let r1 = (if prompt_asks_sorted p \<and> \<not> command_has_flag revised (CHR ''t'') ''--sort''
                      then ensure_compound_short_flag revised (CHR ''t'') else revised)
            in if contains p ''all'' \<and> \<not> command_has_flag r1 (CHR ''a'') ''--all''
               then ensure_compound_short_flag r1 (CHR ''a'') else r1)
      else revised)"

text \<open>The loop over the findings; \<open>None\<close> is the early return on a risky ambiguity.\<close>

fun revise_findings ::
  "string \<Rightarrow> string option \<Rightarrow> validation_finding list \<Rightarrow> string \<Rightarrow> string option" where
  "revise_findings prompt suggestion [] revised = Some revised"
| "revise_findings prompt suggestion (f # fs) revised =
     (if vf_kind f = ''unknown_command''
      then revise_findings prompt suggestion fs
             (case suggestion of Some s \<Rightarrow> replace_first_token revised s | None \<Rightarrow> revised)
      else if vf_kind f = ''unsupported_flag''
      then revise_findings prompt suggestion fs (strip_flags_from_detail revised (vf_detail f))
      else if vf_kind f = ''insufficient_for_prompt''
      then revise_findings prompt suggestion fs (revise_listing (to_ascii_lowercase prompt) revised)
      else if vf_kind f = ''parse_ambiguous''
      then revise_findings prompt suggestion fs
             (case simplify_ambiguous_command revised of Some s \<Rightarrow> s | None \<Rightarrow> revised)
      else if vf_kind f = ''parse_ambiguous_risky'' then None
      else revise_findings prompt suggestion fs revised)"

definition revise_command ::
  "string \<Rightarrow> string \<Rightarrow> validation_finding list \<Rightarrow> string option \<Rightarrow> string option" where
  "revise_command command prompt findings suggestion =
     (if trim command = [] then None
      else case revise_findings prompt suggestion findings (trim command) of
             None \<Rightarrow> None
           | Some revised \<Rightarrow> if revised = trim command then None else Some revised)"

end
