(* ===== verification/Plan_Props.thy ===== *)
theory Plan_Props
  imports Planning Shell_Props
begin

text \<open>
  What validation and revision promise: when a round has no findings, which flags are
  reported missing and that the report is read back, and what the repaired command has.
\<close>

section \<open>Words\<close>

definition plain_word :: "string \<Rightarrow> bool" where
  "plain_word w \<longleftrightarrow> w \<noteq> [] \<and> (\<forall>c \<in> set (chars w). valid_scalar c \<and> \<not> is_whitespace c)"

lemma space_piece: "scalar_piece '' ''" "is_whitespace '' ''" "chars '' '' = ['' '']"
  by (simp_all add: scalar_piece_def is_cont_def ascii_space_def push_byte_def)

lemma chars_join_words:
  "\<forall>w \<in> set ws. plain_word w \<Longrightarrow>
     chars (join '' '' ws) = join ['' ''] (map chars ws)
     \<and> (\<forall>c \<in> set (chars (join '' '' ws)). scalar_piece c)"
proof (induction ws rule: induct_list012)
  case 1
  then show ?case by simp
next
  case (2 w)
  then show ?case by (simp add: plain_word_def valid_scalar_piece)
next
  case (3 v w ws)
  let ?r = "join '' '' (w # ws)"
  have r: "chars ?r = join ['' ''] (map chars (w # ws))" "\<forall>c \<in> set (chars ?r). scalar_piece c"
    using 3 by simp_all
  have sp: "chars ('' '' @ ?r) = '' '' # chars ?r"
    using chars_append [OF r(2), of "'' ''"] space_piece(3) by simp
  then have "\<forall>c \<in> set (chars ('' '' @ ?r)). scalar_piece c" using r(2) space_piece(1) by simp
  then have "chars (v @ '' '' @ ?r) = chars v @ '' '' # chars ?r"
    using chars_append sp by metis
  with r space_piece(1) 3(3) show ?case by (auto simp: plain_word_def valid_scalar_piece)
qed

lemma split_join_spaces:
  "\<forall>w \<in> set ws. w \<noteq> [] \<and> (\<forall>c \<in> set w. \<not> is_whitespace c) \<Longrightarrow>
     filter (\<lambda>c. c \<noteq> []) (split_at_sep is_whitespace (join ['' ''] ws)) = ws"
proof (induction ws rule: induct_list012)
  case (3 v w ws)
  have "split_at_sep is_whitespace (v @ '' '' # join ['' ''] (w # ws))
      = v # split_at_sep is_whitespace (join ['' ''] (w # ws))"
    using 3(3) space_piece(2) by (intro split_at_sep_append) simp_all
  then show ?case using 3 by simp
qed (simp_all add: split_at_sep_none)

lemma split_whitespace_join:
  assumes "\<forall>w \<in> set ws. plain_word w"
  shows "split_whitespace (join '' '' ws) = ws"
proof -
  have "\<forall>w \<in> set (map chars ws). w \<noteq> [] \<and> (\<forall>c \<in> set w. \<not> is_whitespace c)"
    using assms by (auto simp: plain_word_def)
  from split_join_spaces [OF this] show ?thesis
    using chars_join_words [OF assms] by (simp add: split_whitespace_def comp_def)
qed

lemma split_whitespace_plain:
  assumes "valid_str cmd" and "w \<in> set (split_whitespace cmd)"
  shows "plain_word w"
proof -
  from assms(2) obtain c where c: "c \<in> set (split_at_sep is_whitespace (chars cmd))" "c \<noteq> []"
    "w = concat c" by (auto simp: split_whitespace_def)
  have cs: "\<forall>x \<in> set c. valid_scalar x \<and> \<not> is_whitespace x"
    using split_at_sep_elems [OF c(1)] assms(1) by (auto simp: valid_str_def)
  then have "chars w = c" using chars_concat scalar_pieces valid_scalar_piece c(3) by simp
  with cs c(2) show ?thesis using chars_eq_Nil [of w] by (auto simp: plain_word_def)
qed

section \<open>Missing flags\<close>

lemma btree_insert:
  "set (btree_insert x xs) = insert x (set xs)"
  "sorted xs \<and> distinct xs \<Longrightarrow> sorted (btree_insert x xs) \<and> distinct (btree_insert x xs)"
  by (auto simp: btree_insert_def set_insort_key sorted_insort distinct_insort)

definition flag_undocumented :: "string \<Rightarrow> string \<Rightarrow> bool" where
  "flag_undocumented docs flag \<longleftrightarrow>
     flag \<noteq> ''-'' \<and> flag \<noteq> ''--'' \<and> \<not> contains docs (to_ascii_lowercase flag)"

lemma collect_missing_flags_eq:
  "set (collect_missing_flags docs cmd) = {f \<in> set (extract_flags cmd). flag_undocumented docs f}"
  "sorted (collect_missing_flags docs cmd)" "distinct (collect_missing_flags docs cmd)"
proof -
  let ?f = "\<lambda>missing flag. if flag = ''-'' \<or> flag = ''--'' then missing
      else if \<not> contains docs (to_ascii_lowercase flag) then btree_insert flag missing
      else missing"
  have "sorted acc \<and> distinct acc \<Longrightarrow>
      set (foldl ?f acc fs) = set acc \<union> {f \<in> set fs. flag_undocumented docs f}
      \<and> sorted (foldl ?f acc fs) \<and> distinct (foldl ?f acc fs)" for acc fs
    by (induction fs arbitrary: acc) (auto simp: btree_insert flag_undocumented_def)
  from this [of "[]" "extract_flags cmd"]
  show "set (collect_missing_flags docs cmd) = {f \<in> set (extract_flags cmd). flag_undocumented docs f}"
    "sorted (collect_missing_flags docs cmd)" "distinct (collect_missing_flags docs cmd)"
    by (simp_all add: collect_missing_flags_def)
qed

text \<open>Flags without commas and colons survive being written into a finding's detail.\<close>

definition detail_safe :: "string \<Rightarrow> bool" where
  "detail_safe f \<longleftrightarrow> starts_with f ''-'' \<and> CHR '','' \<notin> set f \<and> CHR '':'' \<notin> set f
     \<and> trim f = f \<and> (\<forall>c \<in> set (chars f). scalar_piece c)"

lemma split_on_none: "b \<notin> set s \<Longrightarrow> split_on b s = [s]"
  unfolding split_on_def by (rule split_at_sep_none) auto

lemma split_on_cons: "b \<notin> set s \<Longrightarrow> split_on b (s @ b # t) = s # split_on b t"
  unfolding split_on_def by (rule split_at_sep_append) auto

lemma trim_space_Cons: "(\<forall>c \<in> set (chars s). scalar_piece c) \<Longrightarrow> trim (CHR '' '' # s) = trim s"
  using chars_append [of s "'' ''"] space_piece
  by (simp add: trim_def trim_matches_def)

lemma split_detail_list:
  "fs \<noteq> [] \<Longrightarrow> \<forall>f \<in> set fs. CHR '','' \<notin> set f \<Longrightarrow>
     split_on (CHR '','') (CHR '' '' # join '', '' fs) = map (\<lambda>f. CHR '' '' # f) fs"
proof (induction fs rule: induct_list012)
  case (3 f g fs)
  have "split_on (CHR '','') ((CHR '' '' # f) @ CHR '','' # (CHR '' '' # join '', '' (g # fs)))
      = (CHR '' '' # f) # split_on (CHR '','') (CHR '' '' # join '', '' (g # fs))"
    using 3 by (intro split_on_cons) simp
  then show ?case using 3 by simp
qed (simp_all add: split_on_none)

lemma colon_join: "\<forall>f \<in> set fs. CHR '':'' \<notin> set f \<Longrightarrow> CHR '':'' \<notin> set (join '', '' fs)"
  by (induction fs rule: induct_list012) auto

lemma flags_of_flags_detail:
  assumes "fs \<noteq> []" and "\<forall>f \<in> set fs. detail_safe f"
  shows "flags_of_detail (flags_detail fs) = fs"
proof -
  let ?l = "CHR '' '' # join '', '' fs"
  have "CHR '':'' \<notin> set ?l" using colon_join [of fs] assms(2) by (auto simp: detail_safe_def)
  then have "split_on (CHR '':'') (''flags missing from local docs'' @ CHR '':'' # ?l)
      = [''flags missing from local docs'', ?l]"
    by (subst split_on_cons) (simp_all add: split_on_none)
  then have fields: "split_on (CHR '':'') (flags_detail fs) = [''flags missing from local docs'', ?l]"
    by (simp add: flags_detail_def)
  have "map trim (split_on (CHR '','') ?l) = map (\<lambda>f. trim (CHR '' '' # f)) fs"
    using assms by (subst split_detail_list) (simp_all add: detail_safe_def)
  also have "\<dots> = fs"
    using assms(2) by (intro map_idI) (simp add: detail_safe_def trim_space_Cons)
  finally have tr: "map trim (split_on (CHR '','') ?l) = fs" .
  show ?thesis
    unfolding flags_of_detail_def Let_def fields using tr assms(2)
    by (simp add: filter_id_conv detail_safe_def)
qed

lemma trim_plain_word: "plain_word w \<Longrightarrow> trim w = w"
proof -
  assume w: "plain_word w"
  then have "trim_list is_whitespace (chars w) = chars w"
    by (intro trim_list_id) (auto simp: plain_word_def)
  then show ?thesis by (simp add: trim_def trim_matches_def)
qed

text \<open>Every flag is a piece of one of the command's words.\<close>

definition word_char :: "rchar \<Rightarrow> bool" where
  "word_char c \<longleftrightarrow> valid_scalar c \<and> \<not> is_whitespace c"

lemma valid_scalar_comma: "valid_scalar c \<Longrightarrow> \<not> digit7 b \<Longrightarrow> b \<in> set c \<Longrightarrow> c = [b]"
  by (cases c) (auto simp: valid_scalar_def scalar_piece_def is_cont_def)

lemma hd_split_on:
  obtains rest where "s = hd (split_on b s) @ rest" "rest = [] \<or> hd rest = b"
proof -
  have "\<exists>rest. s = hd (split_on b s) @ rest \<and> (rest = [] \<or> hd rest = b)"
    unfolding split_on_def
  proof (induction s)
    case (Cons x s)
    then obtain rest where r: "s = hd (split_at_sep (\<lambda>x. x = b) s) @ rest" "rest = [] \<or> hd rest = b"
      by blast
    show ?case
    proof (cases "x = b")
      case True
      then show ?thesis by simp
    next
      case False
      obtain y ys where "split_at_sep (\<lambda>x. x = b) s = y # ys"
        using split_at_sep_nonempty by (metis neq_Nil_conv)
      with False r show ?thesis by auto
    qed
  qed simp
  with that show thesis by blast
qed

definition plain_text :: "string \<Rightarrow> bool" where
  "plain_text s \<longleftrightarrow> (\<forall>c \<in> set (chars s). word_char c)"

lemma plain_word_iff: "plain_word w \<longleftrightarrow> w \<noteq> [] \<and> plain_text w"
  by (simp add: plain_word_def plain_text_def word_char_def)

lemma token_flags_plain:
  assumes "plain_word t" and "token_flags t = Some fs" and "f \<in> set fs"
  shows "starts_with f ''-'' \<and> plain_word f \<and> set f \<subseteq> set t"
proof -
  from assms(2,3) have cases: "(starts_with t ''--'' \<and> 2 < length t \<and> f = hd (split_on (CHR ''='') t))
      \<or> (starts_with t ''-'' \<and> f = t) \<or> (starts_with t ''-'' \<and> (\<exists>ch \<in> set (chars (tl t)). f = ''-'' @ ch))"
    by (auto simp: token_flags_def split: if_splits)
  then show ?thesis
  proof (elim disjE conjE)
    assume t: "starts_with t ''--''" "2 < length t" "f = hd (split_on (CHR ''='') t)"
    obtain rest where r: "t = f @ rest" "rest = [] \<or> hd rest = CHR ''=''"
      using hd_split_on [of t "CHR ''=''"] t(3) by metis
    have "chars t = chars f @ chars rest"
      unfolding r(1) using r(2) by (intro chars_append_start) (auto simp: is_cont_def)
    then have "plain_text f" using assms(1) by (auto simp: plain_word_iff plain_text_def)
    moreover have "starts_with f ''-''"
      using t(1,2) r by (cases f; cases rest) (auto simp: starts_with_iff)
    ultimately show ?thesis using r(1) by (auto simp: plain_word_iff)
  next
    assume "starts_with t ''-''" "f = t"
    then show ?thesis using assms(1) by simp
  next
    assume t: "starts_with t ''-''" and "\<exists>ch \<in> set (chars (tl t)). f = ''-'' @ ch"
    then obtain ch where ch: "ch \<in> set (chars (tl t))" "f = ''-'' @ ch" by blast
    obtain u where u: "t = CHR ''-'' # u" using t by (cases t) (auto simp: starts_with_iff)
    have "\<not> is_cont (hd u) \<or> u = []"
    proof (rule ccontr)
      assume "\<not> (\<not> is_cont (hd u) \<or> u = [])"
      then obtain b u' where b: "u = b # u'" "is_cont b" by (cases u) auto
      then obtain d ds where "chars u = (b # d) # ds" using push_byte_hd [of b "chars u'"] by auto
      then have "chars t = (CHR ''-'' # b # d) # ds" using u b by (simp add: push_byte_def)
      then have "valid_scalar (CHR ''-'' # b # d)"
        using assms(1) by (simp add: plain_word_iff plain_text_def word_char_def)
      then show False by (simp add: valid_scalar_def)
    qed
    then have "chars t = ''-'' # chars u"
      using chars_append_start [of u "''-''"] u by (auto simp: push_byte_def)
    then have w: "word_char ch" "word_char ''-''"
      using assms(1) ch(1) u by (auto simp: plain_word_iff plain_text_def)
    have "chars (''-'' @ ch) = [''-'', ch]"
      using chars_concat [of "[''-'', ch]"] w scalar_pieces [of "[''-'', ch]"]
      by (simp add: word_char_def valid_scalar_def)
    moreover have "set ch \<subseteq> set t"
      using ch(1) u concat_chars [of u] by (metis UN_upper set_concat set_subset_Cons subset_trans list.sel(3))
    ultimately show ?thesis using w ch(2) u by (auto simp: plain_word_iff plain_text_def)
  qed
qed

lemma flags_of_tokens_elem:
  "f \<in> set (flags_of_tokens ts) \<Longrightarrow> \<exists>t \<in> set ts. \<exists>fs. token_flags t = Some fs \<and> f \<in> set fs"
  by (induction ts) (auto split: option.splits)

lemma concat_split_sub: "t \<in> set (split_whitespace cmd) \<Longrightarrow> set t \<subseteq> set cmd"
proof -
  assume "t \<in> set (split_whitespace cmd)"
  then obtain c where c: "c \<in> set (split_at_sep is_whitespace (chars cmd))" "t = concat c"
    by (auto simp: split_whitespace_def)
  have "set (concat c) \<subseteq> set (concat (chars cmd))"
    using split_at_sep_elems [OF c(1)] by (auto simp only: set_concat)
  then show ?thesis using c(2) by simp
qed

lemma extract_flags_safe:
  assumes "valid_str cmd" and "CHR '','' \<notin> set cmd" and "CHR '':'' \<notin> set cmd"
    and "f \<in> set (extract_flags cmd)"
  shows "detail_safe f"
proof -
  from assms(4) obtain t fs where t: "t \<in> set (split_whitespace cmd)" "token_flags t = Some fs"
    "f \<in> set fs" using flags_of_tokens_elem unfolding extract_flags_def by blast
  note f = token_flags_plain [OF split_whitespace_plain [OF assms(1) t(1)] t(2,3)]
  have "set f \<subseteq> set cmd" using f concat_split_sub [OF t(1)] by blast
  then show ?thesis
    using f assms(2,3) trim_plain_word [of f]
    by (auto simp: detail_safe_def plain_word_def valid_scalar_def)
qed

section \<open>Adding a short option\<close>

definition ascii_letter :: "char \<Rightarrow> bool" where
  "ascii_letter b \<longleftrightarrow> byte_alpha b \<and> \<not> digit7 b"

definition letter_bundle :: "string \<Rightarrow> bool" where
  "letter_bundle tok \<longleftrightarrow> starts_with tok ''-'' \<and> tl tok \<noteq> [] \<and> list_all ascii_letter (tl tok)"

lemma ascii_letter_not: "ascii_letter b \<Longrightarrow> b \<noteq> CHR ''-'' \<and> b \<noteq> CHR ''='' \<and> \<not> is_cont b
    \<and> \<not> ascii_space b"
  by (auto simp: ascii_letter_def byte_alpha_def byte_upper_def byte_lower_def byte_in_def is_cont_def
      ascii_space_def)

lemma not_ascii_letter [simp]:
  "\<not> ascii_letter (CHR ''-'')" "\<not> ascii_letter (CHR ''='')" "\<not> ascii_letter (CHR 0x20)"
  "\<not> ascii_letter (CHR 0x09)" "\<not> ascii_letter (CHR 0x0A)" "\<not> ascii_letter (CHR 0x0B)"
  "\<not> ascii_letter (CHR 0x0C)" "\<not> ascii_letter (CHR 0x0D)"
  by (simp_all add: ascii_letter_def byte_alpha_def byte_upper_def byte_lower_def byte_in_def)

lemma dash_no_space: "\<not> ascii_space (CHR ''-'')"
  by (simp add: ascii_space_def)

lemma ascii_letter_digit7: "ascii_letter b \<Longrightarrow> \<not> digit7 b"
  by (simp add: ascii_letter_def)

lemma bundle_Cons: "letter_bundle tok \<longleftrightarrow> (\<exists>ls. tok = CHR ''-'' # ls \<and> ls \<noteq> [] \<and> list_all ascii_letter ls)"
  by (cases tok) (auto simp: letter_bundle_def starts_with_iff)

lemma bundle_chars: "letter_bundle tok \<Longrightarrow> chars tok = map (\<lambda>b. [b]) tok"
  by (intro chars_ascii) (auto simp: bundle_Cons list_all_iff is_cont_def dest: ascii_letter_digit7)

lemma option_byte_scalar:
  "ascii_letter b \<or> b = CHR ''-'' \<Longrightarrow> valid_scalar [b] \<and> \<not> is_whitespace [b]"
  using ascii_letter_not [of b] dash_no_space
  by (auto simp: valid_scalar_def scalar_piece_def is_cont_def)

lemma bundle_plain_word: "letter_bundle tok \<Longrightarrow> plain_word tok"
proof -
  assume b: "letter_bundle tok"
  then have "\<forall>b \<in> set tok. ascii_letter b \<or> b = CHR ''-''" and "tok \<noteq> []"
    by (auto simp: bundle_Cons list_all_iff)
  then show ?thesis using option_byte_scalar by (simp add: plain_word_def bundle_chars [OF b])
qed

lemma token_flags_bundle:
  assumes "letter_bundle tok" and "\<not> is_single_dash_word_option tok"
  shows "token_flags tok = Some (map (\<lambda>b. [CHR ''-'', b]) (tl tok))"
proof -
  from assms(1) obtain b ls where t: "tok = CHR ''-'' # b # ls" and l: "list_all ascii_letter (b # ls)"
    by (auto simp: bundle_Cons neq_Nil_conv)
  have "chars tok = map (\<lambda>b. [b]) tok" using assms(1) by (rule bundle_chars)
  moreover have "chars (b # ls) = map (\<lambda>b. [b]) (b # ls)"
    using l by (intro chars_ascii) (auto simp: list_all_iff ascii_letter_not)
  moreover have "CHR ''='' \<notin> set tok" "b \<noteq> CHR ''-''"
    using l t ascii_letter_not by (auto simp: list_all_iff)
  ultimately show ?thesis
    using assms(2) t by (cases ls) (auto simp: token_flags_def)
qed

lemma token_flags_no_dash: "\<not> starts_with t ''-'' \<Longrightarrow> token_flags t = Some []"
  by (cases t) (auto simp: token_flags_def starts_with_iff)

text \<open>What \<open>ensure_compound_short_flag\<close> needs of the word after the program: that it is no short
  option at all, or a letter_bundle of letters that is not one of the single-dash word options, also
  after a letter is added.\<close>

definition option_slot :: "string list \<Rightarrow> string \<Rightarrow> bool" where
  "option_slot exts tok \<longleftrightarrow>
     \<not> starts_with tok ''-'' \<or> starts_with tok ''--''
     \<or> (letter_bundle tok \<and> list_all (\<lambda>x. \<not> is_single_dash_word_option (tok @ x)) ([] # exts))"

lemma bundle_not_long: "letter_bundle tok \<Longrightarrow> starts_with tok ''-'' \<and> \<not> starts_with tok ''--''"
  by (auto simp: bundle_Cons neq_Nil_conv starts_with_iff)

lemma bundle_snoc: "letter_bundle tok \<Longrightarrow> ascii_letter f \<Longrightarrow> letter_bundle (tok @ [f])"
  by (auto simp: bundle_Cons)

lemma bundle_single: "ascii_letter f \<Longrightarrow> letter_bundle [CHR ''-'', f]"
  by (simp add: bundle_Cons)

lemma ensure_tokens:
  assumes "split_whitespace cmd = prog # tok # rest" and "valid_str cmd"
    and "\<not> starts_with prog ''-''" and "option_slot [[f]] tok" and "ascii_letter f"
    and "\<not> is_single_dash_word_option [CHR ''-'', f]"
  obtains tok' rest' where
    "split_whitespace (ensure_compound_short_flag cmd f) = prog # tok' # rest'"
    "letter_bundle tok'" "f \<in> set (tl tok')" "tok' = [CHR ''-'', f] \<or> (letter_bundle tok \<and> tok' \<in> {tok, tok @ [f]})"
    "\<not> is_single_dash_word_option tok'" "set (flags_of_tokens (tok # rest)) \<subseteq> set (flags_of_tokens (tok' # rest'))"
    "\<forall>w \<in> set (prog # tok' # rest'). plain_word w"
    "ensure_compound_short_flag cmd f = join '' '' (prog # tok' # rest')"
proof -
  have plain: "\<forall>w \<in> set (prog # tok # rest). plain_word w"
    using split_whitespace_plain [OF assms(2)] assms(1) by simp
  show thesis
  proof (cases "letter_bundle tok")
    case False
    then have "ensure_compound_short_flag cmd f = join '' '' (prog # [CHR ''-'', f] # tok # rest)"
      using assms(1,4) by (auto simp: ensure_compound_short_flag_def option_slot_def)
    note eq = this
    have w: "\<forall>w \<in> set (prog # [CHR ''-'', f] # tok # rest). plain_word w"
      using plain bundle_plain_word [OF bundle_single [OF assms(5)]] by simp
    have "split_whitespace (ensure_compound_short_flag cmd f)
        = prog # [CHR ''-'', f] # tok # rest"
      unfolding eq using split_whitespace_join [OF w] by simp
    moreover have "set (flags_of_tokens (tok # rest))
        \<subseteq> set (flags_of_tokens ([CHR ''-'', f] # tok # rest))"
      using token_flags_bundle [OF bundle_single [OF assms(5)] assms(6)]
      by (simp only: flags_of_tokens.simps(2) [of "[CHR ''-'', f]"] option.case set_append) blast
    ultimately show thesis
      using w assms(5,6) bundle_single eq
      by (intro that [of "[CHR ''-'', f]" "tok # rest"]) (simp_all del: flags_of_tokens.simps)
  next
    case True
    note nl = bundle_not_long [OF True]
    have nw: "\<not> is_single_dash_word_option tok" "\<not> is_single_dash_word_option (tok @ [f])"
      using assms(4) nl by (auto simp: option_slot_def)
    have ne: "CHR ''-'' \<noteq> f" using ascii_letter_not [OF assms(5)] by auto
    show thesis
    proof (cases "f \<in> set tok")
      case f: True
      then have "f \<in> set (tl tok)" using True ne by (auto simp: bundle_Cons)
      moreover have "split_whitespace (ensure_compound_short_flag cmd f) = prog # tok # rest"
        using assms(1) nl f split_whitespace_join [OF plain] by (simp add: ensure_compound_short_flag_def)
      moreover have "ensure_compound_short_flag cmd f = join '' '' (prog # tok # rest)"
        using assms(1) nl f by (simp add: ensure_compound_short_flag_def)
      ultimately show thesis using True nw plain by (intro that [of tok rest]) auto
    next
      case f: False
      have b: "letter_bundle (tok @ [f])" using True assms(5) by (rule bundle_snoc)
      have w: "\<forall>w \<in> set (prog # (tok @ [f]) # rest). plain_word w"
        using plain bundle_plain_word [OF b] by simp
      have "split_whitespace (ensure_compound_short_flag cmd f) = prog # (tok @ [f]) # rest"
        using assms(1) nl f split_whitespace_join [OF w] by (simp add: ensure_compound_short_flag_def)
      moreover have "ensure_compound_short_flag cmd f = join '' '' (prog # (tok @ [f]) # rest)"
        using assms(1) nl f by (simp add: ensure_compound_short_flag_def)
      moreover have "f \<in> set (tl (tok @ [f]))" using True by (auto simp: bundle_Cons)
      moreover have "set (flags_of_tokens (tok # rest)) \<subseteq> set (flags_of_tokens ((tok @ [f]) # rest))"
        using token_flags_bundle [OF True nw(1)] token_flags_bundle [OF b nw(2)] True
        by (auto simp: bundle_Cons)
      ultimately show thesis using b nw w True by (intro that [of "tok @ [f]" rest]) auto
    qed
  qed
qed

lemma has_flag_bundle:
  assumes "split_whitespace cmd = prog # tok # rest" and "\<not> starts_with prog ''-''"
    and "letter_bundle tok" and "\<not> is_single_dash_word_option tok" and "f \<in> set (tl tok)"
  shows "command_has_flag cmd f long"
  using assms token_flags_bundle [OF assms(3,4)] token_flags_no_dash [OF assms(2)]
  by (auto simp: command_has_flag_def extract_flags_def list_ex_iff)

lemma has_flag_mono:
  "set (extract_flags a) \<subseteq> set (extract_flags b) \<Longrightarrow> command_has_flag a f long \<Longrightarrow> command_has_flag b f long"
  by (auto simp: command_has_flag_def list_ex_iff)

lemma ensure_has_flag:
  assumes "split_whitespace cmd = prog # tok # rest" and "valid_str cmd"
    and "\<not> starts_with prog ''-''" and "option_slot [[f]] tok" and "ascii_letter f"
    and "\<not> is_single_dash_word_option [CHR ''-'', f]"
  shows "command_has_flag (ensure_compound_short_flag cmd f) f long"
    and "set (extract_flags cmd) \<subseteq> set (extract_flags (ensure_compound_short_flag cmd f))"
proof -
  obtain tok' rest' where r: "split_whitespace (ensure_compound_short_flag cmd f) = prog # tok' # rest'"
    "letter_bundle tok'" "f \<in> set (tl tok')" "\<not> is_single_dash_word_option tok'"
    "set (flags_of_tokens (tok # rest)) \<subseteq> set (flags_of_tokens (tok' # rest'))"
    by (rule ensure_tokens [OF assms]) blast
  show "command_has_flag (ensure_compound_short_flag cmd f) f long"
    using r(1) assms(3) r(2,4,3) by (rule has_flag_bundle)
  show "set (extract_flags cmd) \<subseteq> set (extract_flags (ensure_compound_short_flag cmd f))"
    using r(5) token_flags_no_dash [OF assms(3)] by (simp add: extract_flags_def r(1) assms(1))
qed

lemma set_join: "set (join sep xss) \<subseteq> set sep \<union> \<Union> (set ` set xss)"
  by (induction xss rule: induct_list012) auto

lemma valid_str_join:
  assumes "\<forall>w \<in> set ws. plain_word w"
  shows "valid_str (join '' '' ws)"
proof -
  have "valid_scalar '' ''" by (simp add: valid_scalar_def scalar_piece_def is_cont_def)
  moreover have "\<forall>w \<in> set ws. \<forall>c \<in> set (chars w). valid_scalar c"
    using assms by (simp add: plain_word_def)
  ultimately have "\<forall>c \<in> set (join ['' ''] (map chars ws)). valid_scalar c"
    using set_join [of "['' '']" "map chars ws"] by auto
  then show ?thesis using chars_join_words [OF assms] by (simp add: valid_str_def)
qed

section \<open>Repairing a listing\<close>

definition listing_slot :: "string \<Rightarrow> bool" where
  "listing_slot tok \<longleftrightarrow> option_slot [''t'', ''a'', ''ta''] tok"

lemma t_a_letters: "ascii_letter (CHR ''t'')" "ascii_letter (CHR ''a'')"
  "\<not> is_single_dash_word_option ''-t''" "\<not> is_single_dash_word_option ''-a''"
  "\<not> is_single_dash_word_option ''-ta''"
  by (simp_all add: ascii_letter_def byte_alpha_def byte_lower_def byte_in_def
      is_single_dash_word_option_def)

lemma revise_listing_flags:
  assumes "split_whitespace cmd = prog # tok # rest" and "valid_str cmd"
    and "\<not> starts_with prog ''-''" and "listing_slot tok" and "starts_with cmd ''ls ''"
  shows "prompt_asks_sorted p \<Longrightarrow> command_has_flag (revise_listing p cmd) (CHR ''t'') ''--sort''"
    and "contains p ''all'' \<Longrightarrow> command_has_flag (revise_listing p cmd) (CHR ''a'') ''--all''"
proof -
  let ?r1 = "if prompt_asks_sorted p \<and> \<not> command_has_flag cmd (CHR ''t'') ''--sort''
    then ensure_compound_short_flag cmd (CHR ''t'') else cmd"
  have slot: "option_slot [[CHR ''t'']] tok" "option_slot [[CHR ''a'']] tok"
    using assms(4) by (auto simp: listing_slot_def option_slot_def)
  have t1: "command_has_flag ?r1 (CHR ''t'') ''--sort''" if "prompt_asks_sorted p"
    using that ensure_has_flag(1) [OF assms(1-3) slot(1) t_a_letters(1,3)] by simp
  have "\<exists>tok1 rest1. split_whitespace ?r1 = prog # tok1 # rest1 \<and> valid_str ?r1
      \<and> option_slot [[CHR ''a'']] tok1"
  proof (cases "prompt_asks_sorted p \<and> \<not> command_has_flag cmd (CHR ''t'') ''--sort''")
    case False
    with assms(1,2) slot(2) show ?thesis by auto
  next
    case True
    obtain tok1 rest1 where r: "ensure_compound_short_flag cmd (CHR ''t'') = join '' '' (prog # tok1 # rest1)"
      "split_whitespace (ensure_compound_short_flag cmd (CHR ''t'')) = prog # tok1 # rest1"
      "letter_bundle tok1" "tok1 = [CHR ''-'', CHR ''t''] \<or> (letter_bundle tok \<and> tok1 \<in> {tok, tok @ [CHR ''t'']})"
      "\<forall>w \<in> set (prog # tok1 # rest1). plain_word w"
      by (rule ensure_tokens [OF assms(1-3) slot(1) t_a_letters(1,3)]) blast
    have "option_slot [[CHR ''a'']] tok1"
      using r(3,4) assms(4) t_a_letters bundle_not_long [of tok]
      by (auto simp: option_slot_def listing_slot_def)
    with True r(2) valid_str_join [OF r(5)] show ?thesis unfolding r(1) [symmetric] by auto
  qed
  then obtain tok1 rest1 where r1: "split_whitespace ?r1 = prog # tok1 # rest1" "valid_str ?r1"
    "option_slot [[CHR ''a'']] tok1" by blast
  note ens = ensure_has_flag [OF r1(1,2) assms(3) r1(3) t_a_letters(2,4)]
  have eq: "revise_listing p cmd = (if contains p ''all'' \<and> \<not> command_has_flag ?r1 (CHR ''a'') ''--all''
      then ensure_compound_short_flag ?r1 (CHR ''a'') else ?r1)"
    using assms(5) by (simp only: revise_listing_def Let_def if_True)
  show "contains p ''all'' \<Longrightarrow> command_has_flag (revise_listing p cmd) (CHR ''a'') ''--all''"
    unfolding eq using ens(1) by simp
  show "command_has_flag (revise_listing p cmd) (CHR ''t'') ''--sort''" if s: "prompt_asks_sorted p"
    unfolding eq using t1 [OF s] has_flag_mono [OF ens(2)] by (simp split: if_split)
qed

section \<open>Dropping operators\<close>

lemma drop_operators_prefix:
  "\<exists>rest. out = drop_operators out @ rest \<and> drop_operator (trim_end (drop_operators out)) = None"
proof (induction out rule: drop_operators.induct)
  case (1 out)
  show ?case
  proof (cases "drop_operator (trim_end out)")
    case None
    then show ?thesis by (subst drop_operators.simps, subst (2) drop_operators.simps) simp
  next
    case (Some next')
    with 1 [OF Some] obtain rest where r: "trim_end next' = drop_operators (trim_end next') @ rest"
      "drop_operator (trim_end (drop_operators (trim_end next'))) = None" by blast
    obtain a b op where "next' = trim_end next' @ a" "out = trim_end out @ b" "trim_end out = next' @ op"
      using trim_end_prefix [of next'] trim_end_prefix [of out] drop_operator_suffix [OF Some]
      unfolding prefix_def by metis
    then have "out = drop_operators (trim_end next') @ rest @ a @ op @ b"
      using r(1) by (metis append.assoc)
    then show ?thesis using Some r(2) by (subst (1 2) drop_operators.simps) auto
  qed
qed

lemma revise_findings_risky:
  "finding_kind \<in> vf_kind ` set fs \<Longrightarrow> finding_kind = ''parse_ambiguous_risky'' \<Longrightarrow>
     revise_findings prompt sug fs r = None"
  by (induction fs arbitrary: r) auto

section \<open>Properties\<close>



text \<open>The missing-flag report is exact and is read back exactly: for a draft without commas and
  colons, the finding of \<open>validate_round\<close> names, in order and once each, the flags of the draft
  that the documentation excerpt does not contain, \<open>revise_command\<close> parses the same list out of
  the finding's text, and removes exactly the words that are such a flag.\<close>

theorem missing_flags_roundtrip:
  assumes "valid_str cmd" and "CHR '','' \<notin> set cmd" and "CHR '':'' \<notin> set cmd"
    and "missing = collect_missing_flags docs cmd" and "missing \<noteq> []"
  shows "sorted missing \<and> distinct missing
    \<and> set missing = {f \<in> set (extract_flags cmd).
        f \<noteq> ''-'' \<and> f \<noteq> ''--'' \<and> \<not> contains docs (to_ascii_lowercase f)}
    \<and> flags_of_detail (flags_detail missing) = missing
    \<and> strip_flags_from_detail cmd (flags_detail missing)
        = join '' '' (filter (\<lambda>tok. tok \<notin> set missing) (split_whitespace cmd))"
proof -
  have "set missing \<subseteq> set (extract_flags cmd)"
    unfolding assms(4) collect_missing_flags_eq(1) by blast
  then have "\<forall>f \<in> set missing. detail_safe f"
    using extract_flags_safe [OF assms(1-3)] by blast
  with assms(5) have "flags_of_detail (flags_detail missing) = missing"
    by (rule flags_of_flags_detail)
  then show ?thesis
    using collect_missing_flags_eq [of docs cmd] assms(4,5)
    by (simp add: strip_flags_from_detail_def flag_undocumented_def)
qed

theorem missing_flags_roundtrip_witness:
  "\<exists>missing. missing = collect_missing_flags ''-l long'' ''ls -l --zap -Q''
     \<and> strip_flags_from_detail ''ls -l --zap -Q'' (flags_detail missing)
         = join '' '' (filter (\<lambda>tok. tok \<notin> set missing) (split_whitespace ''ls -l --zap -Q''))"
proof -
  have "valid_str ''ls -l --zap -Q''" "CHR '','' \<notin> set ''ls -l --zap -Q''"
    "CHR '':'' \<notin> set ''ls -l --zap -Q''" "collect_missing_flags ''-l long'' ''ls -l --zap -Q'' \<noteq> []"
    by code_simp+
  from missing_flags_roundtrip [OF this(1-3) refl this(4)] show ?thesis by blast
qed

text \<open>Repairing a listing gives it the flags the prompt asks for: for a draft \<open>ls\<close> whose next
  word is an operand, a long option or a bundle of letters, the revised command has \<open>-t\<close> (or
  \<open>--sort\<close>) when the prompt asks for a sorted or modification-time listing and \<open>-a\<close> (or
  \<open>--all\<close>) when it asks for all, both at once if need be; so the finding that caused the revision is
  gone.\<close>

theorem revise_listing_satisfies:
  assumes "split_whitespace cmd = ''ls'' # tok # rest" and "valid_str cmd"
    and "listing_slot tok" and "starts_with cmd ''ls ''"
  shows "(prompt_asks_sorted p \<longrightarrow> command_has_flag (revise_listing p cmd) (CHR ''t'') ''--sort'')
    \<and> (contains p ''all'' \<longrightarrow> command_has_flag (revise_listing p cmd) (CHR ''a'') ''--all'')"
  using revise_listing_flags [OF assms(1,2) _ assms(3,4)] by simp

theorem revise_listing_satisfies_witness:
  "command_has_flag (revise_listing ''all files sorted'' ''ls -l src'') (CHR ''t'') ''--sort''
   \<and> command_has_flag (revise_listing ''all files sorted'' ''ls -l src'') (CHR ''a'') ''--all''"
proof -
  have "split_whitespace ''ls -l src'' = ''ls'' # ''-l'' # [''src'']" "valid_str ''ls -l src''"
    "listing_slot ''-l''" "starts_with ''ls -l src'' ''ls ''" "prompt_asks_sorted ''all files sorted''"
    "contains ''all files sorted'' ''all''"
    by code_simp+
  with revise_listing_satisfies [OF this(1-4), of "''all files sorted''"] show ?thesis by blast
qed

text \<open>Simplifying an ambiguous command terminates and only cuts it short: the result is a
  non-empty proper prefix of the trimmed command that no longer ends in a shell operator (\<open>&&\<close>,
  \<open>||\<close>, \<open>|\<close>, \<open>;\<close>, \<open>&\<close>), white space after it aside.\<close>

theorem simplify_ambiguous_prefix:
  assumes "simplify_ambiguous_command cmd = Some out"
  shows "out \<noteq> [] \<and> (\<exists>rest. trim cmd = out @ rest \<and> rest \<noteq> [])
    \<and> (\<forall>op \<in> {''&&'', ''||'', ''|'', '';'', ''&''}. \<not> ends_with (trim_end out) op)"
proof -
  from assms have o1: "out = drop_operators (trim cmd)" "out \<noteq> trim cmd" "out \<noteq> []"
    by (auto simp: simplify_ambiguous_command_def Let_def split: if_splits)
  obtain rest where r: "trim cmd = out @ rest" "drop_operator (trim_end out) = None"
    using drop_operators_prefix [of "trim cmd"] o1(1) by blast
  have "\<forall>op \<in> {''&&'', ''||'', ''|'', '';'', ''&''}. strip_suffix (trim_end out) op = None"
    using r(2) by (auto simp: drop_operator_def or_else_def split: option.splits)
  then have "\<forall>op \<in> {''&&'', ''||'', ''|'', '';'', ''&''}. \<not> ends_with (trim_end out) op"
    by (auto simp: strip_suffix_def split: if_splits)
  with o1 r(1) show ?thesis by (metis append_Nil2)
qed

theorem simplify_ambiguous_prefix_witness:
  "''ls -la'' \<noteq> [] \<and> (\<exists>rest. trim ''ls -la | && '' = ''ls -la'' @ rest \<and> rest \<noteq> [])
    \<and> \<not> ends_with (trim_end ''ls -la'') ''&&'' \<and> \<not> ends_with (trim_end ''ls -la'') ''|''"
proof -
  have "simplify_ambiguous_command ''ls -la | && '' = Some ''ls -la''" by code_simp
  from simplify_ambiguous_prefix [OF this] show ?thesis by blast
qed

text \<open>A revision is real progress or nothing: \<open>revise_command\<close> never returns the command it was
  given, never revises an empty command, and never revises a draft with a risky ambiguity, whatever
  else was found.\<close>

theorem revise_command_progress:
  "(\<forall>r. revise_command command prompt findings suggestion = Some r \<longrightarrow>
      r \<noteq> trim command \<and> trim command \<noteq> []
      \<and> ''parse_ambiguous_risky'' \<notin> vf_kind ` set findings)"
  using revise_findings_risky [of "''parse_ambiguous_risky''" findings prompt suggestion "trim command"]
  by (auto simp: revise_command_def split: if_splits option.splits)

theorem revise_command_progress_witness:
  "''lsd -l'' \<noteq> trim '' lss -l '' \<and> ''parse_ambiguous_risky'' \<notin> vf_kind ` set [finding ''unknown_command'' []]"
proof -
  have "revise_command '' lss -l '' [] [finding ''unknown_command'' []] (Some ''lsd'') = Some ''lsd -l''"
    by code_simp
  with revise_command_progress [of "'' lss -l ''" "[]" "[finding ''unknown_command'' []]" "Some ''lsd''"]
  show ?thesis by blast
qed

end
