(* ===== verification/Protocol.thy ===== *)
theory Protocol
  imports Rust_Str
begin

text \<open>
  The messages between a shell adapter and the daemon (\<open>crates/termlm-protocol/src/lib.rs\<close>) and the
  shell registry (\<open>termlm-core/src/shell_registry.rs\<close>). A \<open>Uuid\<close> is its 128-bit value as a
  number, a time stamp a number, an \<open>i32\<close> an integer and a \<open>BTreeMap\<close> an association list
  that is only read by key. \<open>ServerMessage\<close> has the messages the modelled handlers send; the
  status, index and retrieval reports are left out.
\<close>

type_synonym uuid = nat
type_synonym env_map = "(string \<times> string) list"

section \<open>Client messages\<close>

datatype shell_kind = Zsh | Bash | Fish | OtherShell string

record shell_capabilities =
  cap_prompt_mode :: bool
  cap_session_mode :: bool
  cap_single_key_approval :: bool
  cap_edit_approval :: bool
  cap_execute_in_real_shell :: bool
  cap_command_completion_ack :: bool
  cap_stdout_stderr_capture :: bool
  cap_all_interactive_command_observation :: bool
  cap_terminal_context_capture :: bool
  cap_alias_capture :: bool
  cap_function_capture :: bool
  cap_builtin_inventory :: bool
  cap_shell_native_history :: bool

record register_shell =
  rs_shell_pid :: nat
  rs_tty :: string
  rs_client_version :: string
  rs_shell_kind :: shell_kind
  rs_shell_version :: string
  rs_adapter_version :: string
  rs_capabilities :: shell_capabilities
  rs_env_subset :: env_map

record start_task =
  st_task_id :: uuid
  st_shell_id :: uuid
  st_shell_kind :: shell_kind
  st_shell_version :: string
  st_mode :: string
  st_prompt :: string
  st_cwd :: string
  st_env_subset :: env_map

datatype user_decision = Approved | Rejected | Edited | ApproveAllInTask | Abort | Clarification

record user_response =
  ur_task_id :: uuid
  ur_decision :: user_decision
  ur_edited_command :: "string option"
  ur_text :: "string option"

record ack =
  ak_task_id :: uuid
  ak_command_seq :: nat
  ak_executed_command :: string
  ak_cwd_before :: string
  ak_cwd_after :: string
  ak_started_at :: nat
  ak_exit_status :: int
  ak_stdout_b64 :: "string option"
  ak_stdout_truncated :: bool
  ak_stderr_b64 :: "string option"
  ak_stderr_truncated :: bool
  ak_redactions_applied :: "string list"
  ak_elapsed_ms :: nat

record observed_command =
  oc_shell_id :: uuid
  oc_command_seq :: nat
  oc_raw_command :: string
  oc_expanded_command :: string
  oc_cwd_before :: string
  oc_cwd_after :: string
  oc_started_at :: nat
  oc_exit_status :: int
  oc_duration_ms :: nat
  oc_stdout_b64 :: "string option"
  oc_stdout_truncated :: bool
  oc_stderr_b64 :: "string option"
  oc_stderr_truncated :: bool
  oc_output_capture_status :: string

record alias_def =
  al_name :: string
  al_expansion :: string

record function_def =
  fd_name :: string
  fd_body_prefix :: string

record shell_context =
  sx_shell_id :: uuid
  sx_shell_kind :: shell_kind
  sx_context_hash :: string
  sx_aliases :: "alias_def list"
  sx_functions :: "function_def list"
  sx_builtins :: "string list"

datatype reindex_mode = Delta | FullIndex | Compact

record retrieve_request =
  rr_prompt :: string
  rr_top_k :: "nat option"

datatype client_message =
    RegisterShell register_shell
  | StartTask start_task
  | UserResponse user_response
  | Ack ack
  | ObservedCommand observed_command
  | UnregisterShell uuid
  | Shutdown
  | Status
  | ShellContext shell_context
  | Reindex reindex_mode
  | Retrieve retrieve_request
  | ProviderHealth
  | Ping

section \<open>Server messages\<close>

record grounding_ref =
  gr_command :: string
  gr_source :: string
  gr_sections :: "string list"
  gr_extraction_method :: "string option"
  gr_doc_hash :: "string option"
  gr_extracted_at :: "nat option"
  gr_index_version :: "nat option"

record validation_summary =
  vs_status :: string
  vs_planning_rounds :: nat

record proposed_command =
  pr_task_id :: uuid
  pr_cmd :: string
  pr_rationale :: string
  pr_intent :: string
  pr_expected_effect :: string
  pr_commands_used :: "string list"
  pr_risk_level :: string
  pr_requires_approval :: bool
  pr_critical_match :: "string option"
  pr_grounding :: "grounding_ref list"
  pr_validation :: validation_summary
  pr_round :: nat

datatype task_complete_reason = ModelDone | Aborted | ToolRoundLimit | SafetyFloorReason | Timeout

datatype error_kind =
    SafetyFloorError
  | ModelStalled
  | ModelLoadFailed
  | InferenceProviderUnavailable
  | BadToolCall
  | UnknownCommand
  | BadProtocol
  | ConfigInvalid
  | Internal

datatype server_message =
    ShellRegistered uuid "string list"
  | ModelText uuid string
  | ProposedCommand proposed_command
  | NeedsClarification uuid string
  | TaskComplete uuid task_complete_reason string
  | ErrorMsg "uuid option" error_kind string "string option"
  | Pong

section \<open>Chat messages of the inference provider\<close>

record chat_message =
  cm_role :: string
  cm_content :: string
  cm_tool_name :: "string option"

definition chat_system :: "string \<Rightarrow> chat_message" where
  "chat_system content = \<lparr>cm_role = ''system'', cm_content = content, cm_tool_name = None\<rparr>"

definition chat_user :: "string \<Rightarrow> chat_message" where
  "chat_user content = \<lparr>cm_role = ''user'', cm_content = content, cm_tool_name = None\<rparr>"

definition chat_assistant :: "string \<Rightarrow> chat_message" where
  "chat_assistant content = \<lparr>cm_role = ''assistant'', cm_content = content, cm_tool_name = None\<rparr>"

definition chat_tool :: "string \<Rightarrow> string \<Rightarrow> chat_message" where
  "chat_tool name content = \<lparr>cm_role = ''tool'', cm_content = content, cm_tool_name = Some name\<rparr>"

section \<open>Keyed stores\<close>

text \<open>The daemon's maps, as association lists with at most one entry per key.\<close>

fun kv_insert :: "'k \<Rightarrow> 'v \<Rightarrow> ('k \<times> 'v) list \<Rightarrow> ('k \<times> 'v) list" where
  "kv_insert k v [] = [(k, v)]"
| "kv_insert k v ((k', v') # kvs) =
     (if k' = k then (k, v) # kvs else (k', v') # kv_insert k v kvs)"

definition kv_remove :: "'k \<Rightarrow> ('k \<times> 'v) list \<Rightarrow> ('k \<times> 'v) list" where
  "kv_remove k kvs = filter (\<lambda>kv. fst kv \<noteq> k) kvs"

definition kv_remove_all :: "'k list \<Rightarrow> ('k \<times> 'v) list \<Rightarrow> ('k \<times> 'v) list" where
  "kv_remove_all ks kvs = filter (\<lambda>kv. fst kv \<notin> set ks) kvs"

text \<open>\<open>get_mut\<close>: the entry is changed when there is one.\<close>

definition kv_modify :: "'k \<Rightarrow> ('v \<Rightarrow> 'v) \<Rightarrow> ('k \<times> 'v) list \<Rightarrow> ('k \<times> 'v) list" where
  "kv_modify k f kvs = map (\<lambda>kv. if fst kv = k then (fst kv, f (snd kv)) else kv) kvs"

text \<open>\<open>entry(k).or_insert_with(d)\<close> followed by a change of the entry.\<close>

definition kv_update_or :: "'k \<Rightarrow> 'v \<Rightarrow> ('v \<Rightarrow> 'v) \<Rightarrow> ('k \<times> 'v) list \<Rightarrow> ('k \<times> 'v) list" where
  "kv_update_or k d f kvs =
     kv_insert k (f (case map_of kvs k of None \<Rightarrow> d | Some v \<Rightarrow> v)) kvs"

text \<open>The contract of a keyed store.\<close>

locale keyed_store =
  fixes lookup :: "'s \<Rightarrow> 'k \<Rightarrow> 'v option"
    and insert :: "'k \<Rightarrow> 'v \<Rightarrow> 's \<Rightarrow> 's"
    and remove :: "'k \<Rightarrow> 's \<Rightarrow> 's"
    and wf :: "'s \<Rightarrow> bool"
  assumes lookup_insert: "wf s \<Longrightarrow> lookup (insert k v s) k' = (if k' = k then Some v else lookup s k')"
    and lookup_remove: "wf s \<Longrightarrow> lookup (remove k s) k' = (if k' = k then None else lookup s k')"
    and wf_insert: "wf s \<Longrightarrow> wf (insert k v s)"
    and wf_remove: "wf s \<Longrightarrow> wf (remove k s)"
begin

lemma remove_insert: "wf s \<Longrightarrow> lookup (remove k (insert k v s)) k' = (if k' = k then None else lookup s k')"
  by (simp add: lookup_remove lookup_insert wf_insert)

lemma insert_insert:
  "wf s \<Longrightarrow> lookup (insert k v (insert k w s)) k' = lookup (insert k v s) k'"
  by (simp add: lookup_insert wf_insert)

lemma fold_remove:
  "wf s \<Longrightarrow> lookup (fold remove ks s) k' = (if k' \<in> set ks then None else lookup s k') \<and> wf (fold remove ks s)"
  by (induction ks arbitrary: s) (auto simp: lookup_remove wf_remove)

end

abbreviation kv_wf :: "('k \<times> 'v) list \<Rightarrow> bool" where
  "kv_wf kvs \<equiv> distinct (map fst kvs)"

lemma map_of_kv_insert: "map_of (kv_insert k v kvs) k' = (if k' = k then Some v else map_of kvs k')"
  by (induction kvs) auto

lemma map_of_filter_fst: "map_of (filter (\<lambda>kv. P (fst kv)) kvs) k = (if P k then map_of kvs k else None)"
  by (induction kvs) auto

lemma map_of_kv_remove: "map_of (kv_remove k kvs) k' = (if k' = k then None else map_of kvs k')"
  unfolding kv_remove_def using map_of_filter_fst [of "\<lambda>x. x \<noteq> k" kvs k'] by simp

lemma map_of_kv_remove_all:
  "map_of (kv_remove_all ks kvs) k = (if k \<in> set ks then None else map_of kvs k)"
  unfolding kv_remove_all_def using map_of_filter_fst [of "\<lambda>x. x \<notin> set ks" kvs k] by simp

lemma map_of_kv_modify: "map_of (kv_modify k f kvs) k' = (if k' = k then map_option f (map_of kvs k) else map_of kvs k')"
  by (induction kvs) (auto simp: kv_modify_def)

lemma keys_kv_insert: "set (map fst (kv_insert k v kvs)) = insert k (set (map fst kvs))"
  by (induction k v kvs rule: kv_insert.induct) auto

lemma kv_wf_insert: "kv_wf kvs \<Longrightarrow> kv_wf (kv_insert k v kvs)"
proof (induction k v kvs rule: kv_insert.induct)
  case (2 k v k' v' kvs)
  then show ?case using keys_kv_insert [of k v kvs] by (cases "k' = k") (simp_all del: set_map)
qed simp

lemma kv_wf_filter: "kv_wf kvs \<Longrightarrow> kv_wf (filter P kvs)"
  by (rule distinct_map_filter)

lemma kv_wf_remove: "kv_wf kvs \<Longrightarrow> kv_wf (kv_remove k kvs)"
  unfolding kv_remove_def by (rule kv_wf_filter)

lemma fst_kv_modify: "map fst (kv_modify k f kvs) = map fst kvs"
  by (simp add: kv_modify_def)

interpretation kv: keyed_store map_of kv_insert kv_remove kv_wf
  by unfold_locales (simp_all add: map_of_kv_insert map_of_kv_remove kv_wf_insert kv_wf_remove)

text \<open>The facts about the stores that the handlers' proofs use together.\<close>

lemmas kv_lookup = map_of_kv_insert map_of_kv_remove map_of_kv_remove_all map_of_kv_modify

section \<open>The shell registry\<close>

record shell_session =
  ss_shell_pid :: nat
  ss_tty :: string
  ss_shell_kind :: shell_kind
  ss_shell_version :: string
  ss_env_subset :: env_map
  ss_context :: "shell_context option"

type_synonym shell_registry = "(uuid \<times> shell_session) list"

definition registry_insert :: "uuid \<Rightarrow> shell_session \<Rightarrow> shell_registry \<Rightarrow> shell_registry" where
  "registry_insert shell_id session reg = kv_insert shell_id session reg"

definition registry_remove :: "uuid \<Rightarrow> shell_registry \<Rightarrow> shell_registry" where
  "registry_remove shell_id reg = kv_remove shell_id reg"

definition registry_set_context :: "uuid \<Rightarrow> shell_context \<Rightarrow> shell_registry \<Rightarrow> shell_registry" where
  "registry_set_context shell_id context1 reg =
     kv_modify shell_id (\<lambda>session. session\<lparr>ss_context := Some context1\<rparr>) reg"

definition registry_get :: "shell_registry \<Rightarrow> uuid \<Rightarrow> shell_session option" where
  "registry_get reg shell_id = map_of reg shell_id"

definition registry_len :: "shell_registry \<Rightarrow> nat" where
  "registry_len reg = length reg"

interpretation registry: keyed_store registry_get registry_insert registry_remove kv_wf
  by unfold_locales
    (simp_all add: registry_get_def registry_insert_def registry_remove_def map_of_kv_insert
      map_of_kv_remove kv_wf_insert kv_wf_remove)

end
