(* ===== verification/Task_Classify.thy ===== *)
theory Task_Classify
  imports Complex_Main Rust_Str
begin

text \<open>
  \<open>crates/termlm-core/src/tasks/mod.rs\<close>: the ambiguity check of a prompt, its classification and
  whether it wants an answer instead of a command. Scores are kept in tenths (2.0 is 20), which
  orders them as the source's \<open>f32\<close> sums do; the confidence is the exact quotient, without the
  \<open>f32\<close> rounding.
\<close>

datatype task_classification =
    FreshCommandRequest
  | ReferentialFollowup
  | DiagnosticDebugging
  | DocumentationQuestion
  | WebCurrentInfoQuestion
  | ExploratoryShellQuestion

record classification_result =
  cr_classification :: task_classification
  cr_confidence :: rat

definition DEFAULT_WEB_FRESHNESS_TERMS :: "string list" where
  "DEFAULT_WEB_FRESHNESS_TERMS =
    [''latest'', ''current'', ''today'', ''recent'', ''release'', ''version'', ''new'',
     ''now'']"

definition EXPLICIT_WEB_HINT_TERMS :: "string list" where
  "EXPLICIT_WEB_HINT_TERMS =
    [''lookup'', ''look up'', ''search web'', ''search the web'', ''web search'',
     ''web lookup'', ''browse'', ''online'', ''internet'', ''upstream'']"

section \<open>Ambiguous prompts\<close>

text \<open>\<open>has_unbalanced_quote\<close>: the loop carries the escape flag and the count.\<close>

fun quote_count :: "rchar list \<Rightarrow> rchar \<Rightarrow> bool \<Rightarrow> nat \<Rightarrow> nat" where
  "quote_count [] quote escaped count = count"
| "quote_count (ch # cs) quote escaped count =
     (if escaped then quote_count cs quote False count
      else if ch = [CHR 0x5C] then quote_count cs quote True count
      else if ch = quote then quote_count cs quote False (count + 1)
      else quote_count cs quote False count)"

definition has_unbalanced_quote :: "string \<Rightarrow> rchar \<Rightarrow> bool" where
  "has_unbalanced_quote t quote \<longleftrightarrow> quote_count (chars t) quote False 0 mod 2 = 1"

definition incomplete_snippet_line :: "string \<Rightarrow> bool" where
  "incomplete_snippet_line line =
     (case strip_prefix (trim line) ''$'' of
        None \<Rightarrow> False
      | Some rest \<Rightarrow>
          (let cmd = trim rest
           in ends_with cmd ''|'' \<or> ends_with cmd ''&&'' \<or> ends_with cmd ''||''
              \<or> has_unbalanced_quote cmd [CHR 0x27] \<or> has_unbalanced_quote cmd [CHR 0x22]))"

definition prompt_contains_incomplete_shell_snippet :: "string \<Rightarrow> bool" where
  "prompt_contains_incomplete_shell_snippet prompt \<longleftrightarrow> list_ex incomplete_snippet_line (lines prompt)"

definition clarification_question_for_ambiguous_prompt :: "string \<Rightarrow> string option" where
  "clarification_question_for_ambiguous_prompt prompt =
     (let trimmed = trim prompt;
          p = to_ascii_lowercase trimmed;
          normalized = trim_matches (\<lambda>c. is_ascii_punctuation c \<or> is_whitespace c) p
      in if normalized = [] then Some ''What exact command behavior should run?''
         else if prompt_contains_incomplete_shell_snippet trimmed
         then Some ''The command snippet looks incomplete. What exact complete command should I run?''
         else if normalized = ''do the usual'' \<or> normalized = ''usual''
         then Some ''What usual action should I run here?''
         else if normalized = ''fix it'' \<or> normalized = ''fix this''
         then Some ''What should I fix, and what outcome should the command produce?''
         else if normalized = ''clean this up'' \<or> normalized = ''clean up this''
         then Some ''What should I clean up, and which files or directories are in scope?''
         else if normalized = ''make this faster'' \<or> normalized = ''speed this up''
         then Some ''What should I measure or change to make this faster?''
         else if normalized = ''rename my files'' \<or> normalized = ''rename files''
         then Some ''Which files should I rename, and what naming pattern should I use?''
         else if normalized = ''delete the old ones'' \<or> normalized = ''remove the old ones''
         then Some ''Which files should I delete, and how should I identify the old ones?''
         else if contains p ''hyperdrive command''
         then Some ''I do not know a real macOS hyperdrive command. What real tool or outcome should I use?''
         else if contains_any p [''delete'', ''remove'', ''move'', ''rename'']
                 \<and> contains_any p ['' old ones'', '' these '', '' those '']
         then Some ''Which exact files should I operate on, and what rule should select them?''
         else None)"

section \<open>Classification\<close>

definition debug_terms :: "string list" where
  "debug_terms =
    [''why did'', ''debug'', (''that didn'' @ [CHR 0x27] @ ''t work''), ''what happened'',
     ''fix the error'', ''try again'', ''failed'', ''error'', ''traceback'', ''stderr'',
     ''stack trace'']"

definition docs_terms :: "string list" where
  "docs_terms =
    [''what does'', ''explain'', ''what is'', ''what are'', ''why is'', ''why does'',
     ''why did'', ''should i'', ''is it safe'', ''best way'', ''recommend'',
     ''documentation'', ''docs'', ''man page'', ''--help'', ''syntax'', ''flag'',
     ''option'', ''difference between'', ''how do i tell'', ''what command'',
     ''which command'']"

definition just_run_terms :: "string list" where
  "just_run_terms =
    [''did i just run'', ''what command did i just run'', ''what did i just run'',
     ''last command'', ''previous command'', ''recent command'', ''just ran'']"

definition referential_terms :: "string list" where
  "referential_terms =
    [''that'', ''those'', ''it'', ''again'', ''previous'', ''before'', ''just run'',
     ''last thing'']"

definition explore_terms :: "string list" where
  "explore_terms =
    [''how do i'', ''how to'', ''explore'', ''options'', ''which command'',
     ''what command'', ''what version'', ''where am i'', ''what directory'', ''how many'',
     ''how much'']"

definition score_debug :: "string \<Rightarrow> int" where
  "score_debug p =
     (if contains_any p debug_terms then 20 else 0)
     + (if starts_with p ''why '' \<or> starts_with p ''debug '' then 5 else 0)"

definition freshness_hit :: "string \<Rightarrow> string list \<Rightarrow> bool" where
  "freshness_hit p freshness_terms \<longleftrightarrow>
     (if freshness_terms = [] then contains_any p DEFAULT_WEB_FRESHNESS_TERMS
      else list_ex (\<lambda>k. k \<noteq> [] \<and> contains p k)
             (map (\<lambda>s. to_ascii_lowercase (trim s)) freshness_terms))"

definition explicit_web_hit :: "string \<Rightarrow> bool" where
  "explicit_web_hit p \<longleftrightarrow>
     contains_any p EXPLICIT_WEB_HINT_TERMS \<or> contains p ''https://'' \<or> contains p ''http://''"

definition score_web :: "string \<Rightarrow> string list \<Rightarrow> int" where
  "score_web p freshness_terms =
     (if freshness_hit p freshness_terms \<or> explicit_web_hit p then 18 else 0)
     + (if starts_with p ''latest '' \<or> starts_with p ''current '' then 6 else 0)"

definition score_docs :: "string \<Rightarrow> int" where
  "score_docs p =
     (if contains_any p docs_terms then 16 else 0)
     + (if starts_with p ''what does '' \<or> starts_with p ''docs for '' then 6 else 0)"

definition score_referential :: "string \<Rightarrow> int" where
  "score_referential p =
     (if contains_any p just_run_terms then 22 else 0)
     + (if contains_any p referential_terms then 14 else 0)"

definition score_explore :: "string \<Rightarrow> int" where
  "score_explore p = (if contains_any p explore_terms then 12 else 0)"

text \<open>The scores in the key order of the \<open>BTreeMap\<close>, and the stable sort by descending score.\<close>

definition task_scores :: "string \<Rightarrow> string list \<Rightarrow> (task_classification \<times> int) list" where
  "task_scores p freshness_terms =
     [(DiagnosticDebugging, score_debug p), (DocumentationQuestion, score_docs p),
      (ExploratoryShellQuestion, score_explore p), (FreshCommandRequest, 0),
      (ReferentialFollowup, score_referential p),
      (WebCurrentInfoQuestion, score_web p freshness_terms)]"

definition rank_scores :: "(task_classification \<times> int) list \<Rightarrow> (task_classification \<times> int) list" where
  "rank_scores scores = sort_key (\<lambda>s. - snd s) scores"

definition confidence_of :: "int \<Rightarrow> int \<Rightarrow> rat" where
  "confidence_of top1 second =
     (if top1 \<le> 0 then 55 / 100
      else min (99 / 100) (max (51 / 100)
             ((of_int top1 / 10) / max (of_int (top1 + second) / 10) (1 / 100))))"

definition classify_prompt_with_freshness_terms ::
  "string \<Rightarrow> string list \<Rightarrow> classification_result" where
  "classify_prompt_with_freshness_terms prompt freshness_terms =
     (let ranked = rank_scores (task_scores (to_ascii_lowercase prompt) freshness_terms);
          first = ranked ! 0; second = ranked ! 1
      in \<lparr>cr_classification = fst first, cr_confidence = confidence_of (snd first) (snd second)\<rparr>)"

section \<open>Questions and actions\<close>

definition action_verbs :: "string list" where
  "action_verbs =
    [''list'', ''show'', ''print'', ''find'', ''search'', ''create'', ''make'', ''delete'',
     ''remove'', ''copy'', ''move'', ''rename'', ''open'', ''run'', ''execute'',
     ''install'', ''uninstall'', ''upgrade'', ''compress'', ''archive'', ''extract'',
     ''replace'', ''change'', ''edit'']"

definition prompt_requests_shell_action :: "string \<Rightarrow> bool" where
  "prompt_requests_shell_action p \<longleftrightarrow>
     list_ex (\<lambda>verb. p = verb \<or> starts_with p (verb @ '' '')) action_verbs
     \<or> list_ex (\<lambda>verb. starts_with p (''please '' @ verb @ '' '')
          \<or> starts_with p (''can you '' @ verb @ '' '')
          \<or> starts_with p (''could you '' @ verb @ '' '')
          \<or> starts_with p (''i want you to '' @ verb @ '' '')) action_verbs"

definition question_prefixes :: "string list" where
  "question_prefixes =
    [''what '', (''what'' @ [CHR 0x27] @ ''s ''), ''whats '', ''why '', ''how '',
     ''where '', ''which '', ''should '', ''can i '', ''is '', ''are '', ''does '', ''do '']"

definition answer_needles :: "string list" where
  "answer_needles =
    [''what command'', ''which command'', ''best way'', ''recommend'', ''what version'',
     ''where am i'', ''what directory'', ''how many'', ''how much'']"

definition prompt_prefers_direct_answer :: "string \<Rightarrow> task_classification \<Rightarrow> bool" where
  "prompt_prefers_direct_answer prompt classification =
     (let trimmed = trim prompt; p = to_ascii_lowercase trimmed
      in if p = [] then False
         else if prompt_requests_shell_action p then False
         else if classification \<in> {DocumentationQuestion, WebCurrentInfoQuestion, DiagnosticDebugging}
         then True
         else list_ex (starts_with p) question_prefixes \<or> ends_with trimmed ''?''
              \<or> contains_any p answer_needles)"

section \<open>The command a documentation prompt is about\<close>

definition sanitize_command_token :: "string \<Rightarrow> string option" where
  "sanitize_command_token token =
     (let cleaned = trim_matches
            (\<lambda>c. \<not> is_ascii_alphanumeric c \<and> c \<noteq> ''-'' \<and> c \<noteq> ''_'' \<and> c \<noteq> ''.'') token
      in if cleaned = [] then None else Some cleaned)"

definition KNOWN_COMMANDS :: "string list" where
  "KNOWN_COMMANDS =
    [''ls'', ''find'', ''mkdir'', ''grep'', ''sed'', ''tar'', ''git'', ''rm'', ''cp'',
     ''mv'', ''du'', ''awk'', ''cut'', ''tr'', ''wc'', ''head'', ''tail'', ''chmod'',
     ''ln'', ''touch'', ''cat'']"

definition is_likely_command_token :: "string \<Rightarrow> bool" where
  "is_likely_command_token token \<longleftrightarrow> token \<in> set KNOWN_COMMANDS"

definition likely_command :: "string \<Rightarrow> string option" where
  "likely_command token =
     (case sanitize_command_token token of
        Some cmd \<Rightarrow> if is_likely_command_token cmd then Some cmd else None
      | None \<Rightarrow> None)"

fun first_likely :: "string list \<Rightarrow> string option" where
  "first_likely [] = None"
| "first_likely (t # ts) = (case likely_command t of Some cmd \<Rightarrow> Some cmd | None \<Rightarrow> first_likely ts)"

text \<open>The three prefixed forms in turn; an empty rest makes the function return \<open>None\<close>
  (\<open>split_whitespace().next()?\<close>).\<close>

fun prefixed_command :: "string list \<Rightarrow> string \<Rightarrow> string option" where
  "prefixed_command [] lower = first_likely (split_whitespace lower)"
| "prefixed_command (pre # pres) lower =
     (case strip_prefix lower pre of
        None \<Rightarrow> prefixed_command pres lower
      | Some rest \<Rightarrow>
          (case split_whitespace rest of
             [] \<Rightarrow> None
           | token # _ \<Rightarrow>
               (case likely_command token of
                  Some cmd \<Rightarrow> Some cmd
                | None \<Rightarrow> prefixed_command pres lower)))"

definition extract_command_name_from_doc_prompt :: "string \<Rightarrow> string option" where
  "extract_command_name_from_doc_prompt prompt =
     prefixed_command [''what does '', ''explain '', ''docs for ''] (to_ascii_lowercase (trim prompt))"

section \<open>Lemmas\<close>

lemma scores_nonneg: "s \<in> set (task_scores p ts) \<Longrightarrow> 0 \<le> snd s"
  by (auto simp: task_scores_def score_debug_def score_docs_def score_explore_def
      score_referential_def score_web_def)

lemma rank_scores_sorted:
  "length (rank_scores ss) = length ss" "set (rank_scores ss) = set ss"
  "i \<le> j \<Longrightarrow> j < length ss \<Longrightarrow> snd (rank_scores ss ! j) \<le> snd (rank_scores ss ! i)"
proof -
  show l: "length (rank_scores ss) = length ss" "set (rank_scores ss) = set ss"
    by (simp_all add: rank_scores_def)
  assume "i \<le> j" "j < length ss"
  moreover have "sorted (map (\<lambda>s. - snd s) (rank_scores ss))"
    by (simp add: rank_scores_def)
  ultimately have "map (\<lambda>s. - snd s) (rank_scores ss) ! i \<le> map (\<lambda>s. - snd s) (rank_scores ss) ! j"
    using l by (intro sorted_nth_mono) simp_all
  with \<open>i \<le> j\<close> \<open>j < length ss\<close> l show "snd (rank_scores ss ! j) \<le> snd (rank_scores ss ! i)"
    by simp
qed

lemma rank_scores_hd:
  assumes "ss \<noteq> []"
  shows "rank_scores ss ! 0 \<in> set ss" and "s \<in> set ss \<Longrightarrow> snd s \<le> snd (rank_scores ss ! 0)"
proof -
  show "rank_scores ss ! 0 \<in> set ss"
    using rank_scores_sorted(1,2) [of ss] assms nth_mem [of 0 "rank_scores ss"] by simp
  assume "s \<in> set ss"
  then obtain j where "j < length ss" "s = rank_scores ss ! j"
    using rank_scores_sorted(1,2) [of ss] by (metis in_set_conv_nth)
  then show "snd s \<le> snd (rank_scores ss ! 0)" using rank_scores_sorted(3) [of 0 j ss] by simp
qed

lemma clamp_bounds: "l \<le> h \<Longrightarrow> l \<le> min h (max l x) \<and> min h (max l x) \<le> h"
  for l h x :: rat
  by simp

lemma confidence_bounds: "51 / 100 \<le> confidence_of t s \<and> confidence_of t s \<le> 99 / 100"
proof (cases "t \<le> 0")
  case True
  then show ?thesis by (simp add: confidence_of_def)
next
  case False
  show ?thesis
    unfolding confidence_of_def if_not_P [OF False] by (rule clamp_bounds) simp
qed

section \<open>Properties\<close>

text \<open>The classifier picks a class of maximal score and reports a confidence between 0.51 and
  0.99; but it never yields a fresh command request: when no term of any class occurs, all scores
  are zero and the stable sort leaves \<open>debug\<close>, the first key of the map, on top.\<close>

theorem classify_maximal:
  "(let r = classify_prompt_with_freshness_terms prompt ts;
        scores = task_scores (to_ascii_lowercase prompt) ts
    in (\<exists>n. (cr_classification r, n) \<in> set scores \<and> (\<forall>s \<in> set scores. snd s \<le> n))
       \<and> 51 / 100 \<le> cr_confidence r \<and> cr_confidence r \<le> 99 / 100
       \<and> cr_classification r \<noteq> FreshCommandRequest
       \<and> ((\<forall>s \<in> set scores. snd s = 0) \<longrightarrow> cr_classification r = DiagnosticDebugging))"
proof -
  let ?ss = "task_scores (to_ascii_lowercase prompt) ts"
  let ?f = "rank_scores ?ss ! 0"
  have ne: "?ss \<noteq> []" by (simp add: task_scores_def)
  note hd = rank_scores_hd [OF ne]
  have zero: "fst ?f = DiagnosticDebugging" if z: "\<forall>s \<in> set ?ss. snd s = 0"
  proof -
    have "filter (\<lambda>s. - snd s = 0) (rank_scores ?ss) = filter (\<lambda>s. - snd s = 0) ?ss"
      unfolding rank_scores_def by (rule sort_key_stable)
    moreover have "filter (\<lambda>s. - snd s = 0) (rank_scores ?ss) = rank_scores ?ss"
      using z rank_scores_sorted(2) [of ?ss] by (simp add: filter_id_conv)
    moreover have "filter (\<lambda>s. - snd s = 0) ?ss = ?ss" using z by (simp add: filter_id_conv)
    ultimately show ?thesis by (simp add: task_scores_def)
  qed
  have "fst ?f \<noteq> FreshCommandRequest"
  proof
    assume f: "fst ?f = FreshCommandRequest"
    then have "snd ?f = 0" using hd(1) by (auto simp: task_scores_def)
    then have "\<forall>s \<in> set ?ss. snd s = 0" using hd(2) scores_nonneg by (metis order_antisym)
    with zero f show False by simp
  qed
  moreover have "\<exists>n. (fst ?f, n) \<in> set ?ss \<and> (\<forall>s \<in> set ?ss. snd s \<le> n)"
    using hd by (intro exI [of _ "snd ?f"]) simp
  ultimately show ?thesis
    unfolding classify_prompt_with_freshness_terms_def Let_def classification_result.simps
    using confidence_bounds zero by blast
qed

theorem classify_maximal_witness:
  "cr_classification (classify_prompt_with_freshness_terms ''mkdir foo'' []) = DiagnosticDebugging"
proof -
  have "\<forall>s \<in> set (task_scores (to_ascii_lowercase ''mkdir foo'') []). snd s = 0" by code_simp
  with classify_maximal [of "''mkdir foo''" "[]"] show ?thesis by (simp only: Let_def)
qed

text \<open>Terms match inside words: a plain request that mentions \<open>git\<close>, \<open>with\<close> or \<open>commit\<close> is
  classified as a follow-up to earlier output, since it contains \<open>it\<close>.\<close>

theorem classify_matches_inside_words:
  "cr_classification (classify_prompt_with_freshness_terms ''git push'' []) = ReferentialFollowup"
  by code_simp

end
