(* ===== verification/Daemon_State.thy ===== *)
theory Daemon_State
  imports Protocol Task_Classify Safety_Floor
begin

text \<open>
  The daemon's task state (\<open>termlm-core/src/main.rs\<close>): in-flight tasks, tasks that timed out,
  provider conversations, approval overrides, session conversations, and the operations on them
  that the message handlers share. The state is one record that every operation takes and
  returns; the maps behind its mutexes are keyed stores. \<open>ds_now\<close> is the monotonic clock in
  milliseconds, \<open>ds_sent\<close> what was written to the client, \<open>ds_cancelled\<close> the tasks whose provider
  request was cancelled. Logging, stage timings, provider usage and the source ledger are
  diagnostics that no operation reads back; they are left out.
\<close>

section \<open>Configuration\<close>

text \<open>The fields of the configuration that the modelled operations read.\<close>

record approval_config =
  ap_mode :: string
  ap_critical_patterns :: "string list"
  ap_approve_all_resets_per_task :: bool

record behavior_config =
  bh_allow_clarifications :: bool
  bh_max_tool_rounds :: nat
  bh_max_planning_rounds :: nat
  bh_context_classifier_enabled :: bool
  bh_clarification_timeout_secs :: nat
  bh_command_timeout_secs :: nat

record web_config =
  wb_enabled :: bool
  wb_expose_tools :: bool
  wb_freshness_required_terms :: "string list"

record terminal_context_config =
  tc_enabled :: bool
  tc_capture_all_interactive_commands :: bool
  tc_redact_secrets :: bool

record tool_routing_config =
  tr_dynamic_exposure_enabled :: bool
  tr_always_expose_execute :: bool
  tr_always_expose_lookup_docs :: bool
  tr_expose_terminal_context_only_when_needed :: bool
  tr_expose_file_tools_for_local_questions :: bool
  tr_expose_web_only_when_needed :: bool

record app_config =
  cf_approval :: approval_config
  cf_behavior :: behavior_config
  cf_web :: web_config
  cf_terminal_context :: terminal_context_config
  cf_tool_routing :: tool_routing_config
  cf_local_tools_enabled :: bool
  cf_capture_enabled :: bool
  cf_capture_redact_env :: "string list"
  cf_validate_command_flags :: bool
  cf_session_context_window_tokens :: nat

section \<open>Tasks, time-outs and sessions\<close>

record in_flight_task =
  ift_task_id :: uuid
  ift_shell_id :: uuid
  ift_mode :: string
  ift_original_prompt :: string
  ift_proposed_command :: string
  ift_classification :: task_classification
  ift_classification_confidence :: rat
  ift_approval_override :: bool
  ift_awaiting_clarification :: bool
  ift_provider_continuation :: bool
  ift_tool_round :: nat
  ift_created_at :: nat

datatype task_timeout_kind = ClarificationTimeout | CommandTimeout

fun timeout_summary :: "task_timeout_kind \<Rightarrow> string" where
  "timeout_summary ClarificationTimeout = ''Task ended: clarification timeout elapsed.''"
| "timeout_summary CommandTimeout = ''Task ended: command timeout elapsed.''"

record timed_out_task =
  tt_at :: nat
  tt_kind :: task_timeout_kind

record session_turn =
  sn_user :: string
  sn_assistant :: string

record session_conversation =
  sv_system_prompt :: string
  sv_turns :: "session_turn list"

definition session_default :: session_conversation where
  "session_default = \<lparr>sv_system_prompt = [], sv_turns = []\<rparr>"

record daemon =
  ds_config :: app_config
  ds_now :: nat
  ds_tasks :: "(uuid \<times> in_flight_task) list"
  ds_timed_out :: "(uuid \<times> timed_out_task) list"
  ds_conversations :: "(uuid \<times> chat_message list) list"
  ds_overrides :: "(uuid \<times> bool) list"
  ds_sessions :: "(uuid \<times> session_conversation) list"
  ds_registry :: shell_registry
  ds_detached :: "(uuid \<times> shell_context) list"
  ds_observed :: "observed_command list"
  ds_sent :: "server_message list"
  ds_cancelled :: "uuid list"
  ds_link :: "nat option"

abbreviation behavior :: "daemon \<Rightarrow> behavior_config" where
  "behavior s \<equiv> cf_behavior (ds_config s)"

abbreviation approval :: "daemon \<Rightarrow> approval_config" where
  "approval s \<equiv> cf_approval (ds_config s)"

section \<open>Outcomes\<close>

text \<open>A handler ends \<open>Done\<close> (\<open>Ok(())\<close>), \<open>Failed\<close> (an error the caller propagates), \<open>Blocked\<close> (it
  waits forever for a mutex its own task holds) or \<open>Unfinished\<close> (a loop has not ended within the
  fuel). A \<open>send\<close> fails once the connection is gone: \<open>ds_link\<close> counts the messages that still go
  through, \<open>None\<close> for a connection that stays.\<close>

datatype handler_result = Done | Failed | Blocked | Unfinished

type_synonym outcome = "daemon \<times> handler_result"

definition send_then :: "server_message \<Rightarrow> (daemon \<Rightarrow> outcome) \<Rightarrow> daemon \<Rightarrow> outcome" where
  "send_then m k s =
     (case ds_link s of
        None \<Rightarrow> k (s\<lparr>ds_sent := ds_sent s @ [m]\<rparr>)
      | Some 0 \<Rightarrow> (s, Failed)
      | Some (Suc n) \<Rightarrow> k (s\<lparr>ds_sent := ds_sent s @ [m], ds_link := Some n\<rparr>))"

definition done1 :: "daemon \<Rightarrow> outcome" where
  "done1 s = (s, Done)"

section \<open>Session conversations\<close>

definition estimate_tokens :: "string \<Rightarrow> nat" where
  "estimate_tokens t = max (char_count t div 4) 1"

definition turn_tokens :: "session_turn \<Rightarrow> nat" where
  "turn_tokens t = estimate_tokens (sn_user t) + estimate_tokens (sn_assistant t)"

definition session_tokens :: "session_conversation \<Rightarrow> nat" where
  "session_tokens conv =
     foldl (\<lambda>tot t. usize_sat_add (usize_sat_add tot (estimate_tokens (sn_user t)))
                        (estimate_tokens (sn_assistant t)))
       (estimate_tokens (sv_system_prompt conv)) (sv_turns conv)"

fun drop_old_turns :: "nat \<Rightarrow> nat \<Rightarrow> session_turn list \<Rightarrow> session_turn list" where
  "drop_old_turns budget tot [] = []"
| "drop_old_turns budget tot (t # ts) =
     (if budget < tot
      then drop_old_turns budget
             (tot - estimate_tokens (sn_user t) - estimate_tokens (sn_assistant t)) ts
      else t # ts)"

definition trim_session_conversation :: "nat \<Rightarrow> session_conversation \<Rightarrow> session_conversation" where
  "trim_session_conversation budget conv =
     conv\<lparr>sv_turns := drop_old_turns budget (session_tokens conv) (sv_turns conv)\<rparr>"

definition session_turn_lines :: "session_conversation \<Rightarrow> string list" where
  "session_turn_lines conv =
     map (\<lambda>t. ''User: '' @ sn_user t @ [CHR 0x0A] @ ''Assistant: '' @ sn_assistant t) (sv_turns conv)"

definition session_turn_messages :: "session_conversation \<Rightarrow> chat_message list" where
  "session_turn_messages conv =
     concat (map (\<lambda>t. [chat_user (sn_user t), chat_assistant (sn_assistant t)]) (sv_turns conv))"

definition session_budget :: "daemon \<Rightarrow> nat" where
  "session_budget s = max (cf_session_context_window_tokens (ds_config s)) 256"

definition append_session_turn :: "uuid \<Rightarrow> string \<Rightarrow> string \<Rightarrow> daemon \<Rightarrow> daemon" where
  "append_session_turn shell_id user assistant s =
     (if trim user = [] \<and> trim assistant = [] then s
      else s\<lparr>ds_sessions :=
             kv_update_or shell_id session_default
               (\<lambda>conv. trim_session_conversation (session_budget s)
                  (conv\<lparr>sv_turns := sv_turns conv @ [\<lparr>sn_user = user, sn_assistant = assistant\<rparr>]\<rparr>))
               (ds_sessions s)\<rparr>)"

definition append_session_turn_if_session_mode ::
  "string \<Rightarrow> uuid \<Rightarrow> string \<Rightarrow> string \<Rightarrow> daemon \<Rightarrow> daemon" where
  "append_session_turn_if_session_mode mode shell_id user assistant s =
     (if mode = ''/p'' then append_session_turn shell_id user assistant s else s)"

definition session_messages_for_shell :: "uuid \<Rightarrow> string \<Rightarrow> daemon \<Rightarrow> daemon \<times> chat_message list" where
  "session_messages_for_shell shell_id system_prompt s =
     (let sessions = kv_update_or shell_id session_default
            (\<lambda>conv. trim_session_conversation (session_budget s)
               (conv\<lparr>sv_system_prompt := system_prompt\<rparr>)) (ds_sessions s)
      in (s\<lparr>ds_sessions := sessions\<rparr>,
          case map_of sessions shell_id of None \<Rightarrow> [] | Some conv \<Rightarrow> session_turn_messages conv))"

section \<open>Operations on tasks\<close>

definition approval_override_for_shell :: "daemon \<Rightarrow> uuid \<Rightarrow> bool" where
  "approval_override_for_shell s shell_id =
     (if ap_approve_all_resets_per_task (approval s) then False
      else case map_of (ds_overrides s) shell_id of None \<Rightarrow> False | Some b \<Rightarrow> b)"

definition cancel_provider_task :: "uuid \<Rightarrow> daemon \<Rightarrow> daemon" where
  "cancel_provider_task task_id s = s\<lparr>ds_cancelled := ds_cancelled s @ [task_id]\<rparr>"

definition clear_task_state :: "uuid \<Rightarrow> daemon \<Rightarrow> daemon" where
  "clear_task_state task_id s =
     (let removed = map_of (ds_tasks s) task_id;
          s1 = s\<lparr>ds_tasks := kv_remove task_id (ds_tasks s)\<rparr>;
          s2 = (case removed of
                  Some task \<Rightarrow>
                    if ap_approve_all_resets_per_task (approval s)
                    then s1\<lparr>ds_overrides := kv_remove (ift_shell_id task) (ds_overrides s1)\<rparr>
                    else s1
                | None \<Rightarrow> s1)
      in s2\<lparr>ds_timed_out := kv_remove task_id (ds_timed_out s2),
            ds_conversations := kv_remove task_id (ds_conversations s2)\<rparr>)"

definition cancel_and_clear_task :: "uuid \<Rightarrow> daemon \<Rightarrow> daemon" where
  "cancel_and_clear_task task_id s = clear_task_state task_id (cancel_provider_task task_id s)"

definition shell_task_ids :: "daemon \<Rightarrow> uuid \<Rightarrow> uuid list" where
  "shell_task_ids s shell_id =
     map ift_task_id (filter (\<lambda>t. ift_shell_id t = shell_id) (map snd (ds_tasks s)))"

definition cancel_and_clear_shell_tasks :: "uuid \<Rightarrow> daemon \<Rightarrow> daemon" where
  "cancel_and_clear_shell_tasks shell_id s =
     (let task_ids = shell_task_ids s shell_id
      in if task_ids = [] then s
         else let s1 = fold cancel_provider_task task_ids s
           in s1\<lparr>ds_tasks := kv_remove_all task_ids (ds_tasks s1),
                 ds_conversations := kv_remove_all task_ids (ds_conversations s1),
                 ds_timed_out := kv_remove_all task_ids (ds_timed_out s1),
                 ds_overrides := kv_remove shell_id (ds_overrides s1)\<rparr>)"

section \<open>Time-outs\<close>

definition clarification_timeout_ms :: "daemon \<Rightarrow> nat" where
  "clarification_timeout_ms s = max (bh_clarification_timeout_secs (behavior s)) 1 * 1000"

definition command_timeout_ms :: "daemon \<Rightarrow> nat" where
  "command_timeout_ms s = max (bh_command_timeout_secs (behavior s)) 1 * 1000"

definition retention_ms :: "daemon \<Rightarrow> nat" where
  "retention_ms s =
     max (max (max (bh_clarification_timeout_secs (behavior s)) 1)
              (max (bh_command_timeout_secs (behavior s)) 1)) 30 * 1000"

definition timeout_kind :: "daemon \<Rightarrow> in_flight_task \<Rightarrow> task_timeout_kind option" where
  "timeout_kind s task =
     (let elapsed = ds_now s - ift_created_at task
      in if ift_awaiting_clarification task \<and> clarification_timeout_ms s \<le> elapsed
         then Some ClarificationTimeout
         else if \<not> ift_awaiting_clarification task \<and> command_timeout_ms s \<le> elapsed
         then Some CommandTimeout
         else None)"

definition expired_tasks :: "daemon \<Rightarrow> (uuid \<times> task_timeout_kind) list" where
  "expired_tasks s =
     concat (map (\<lambda>(task_id, task).
         case timeout_kind s task of Some kind \<Rightarrow> [(task_id, kind)] | None \<Rightarrow> [])
       (ds_tasks s))"

definition retain_timed_out :: "daemon \<Rightarrow> (uuid \<times> timed_out_task) list \<Rightarrow> (uuid \<times> timed_out_task) list" where
  "retain_timed_out s entries = filter (\<lambda>kv. ds_now s - tt_at (snd kv) \<le> retention_ms s) entries"

definition expire_timed_out_tasks :: "daemon \<Rightarrow> daemon" where
  "expire_timed_out_tasks s =
     (let expired = expired_tasks s;
          s1 = s\<lparr>ds_tasks := kv_remove_all (map fst expired) (ds_tasks s)\<rparr>
      in if expired \<noteq> []
         then s1\<lparr>ds_conversations := kv_remove_all (map fst expired) (ds_conversations s1),
                 ds_timed_out := retain_timed_out s1
                   (fold (\<lambda>(task_id, kind). kv_insert task_id \<lparr>tt_at = ds_now s, tt_kind = kind\<rparr>)
                      expired (ds_timed_out s1))\<rparr>
         else s1\<lparr>ds_timed_out := retain_timed_out s1 (ds_timed_out s1)\<rparr>)"

definition consume_timed_out_task :: "uuid \<Rightarrow> daemon \<Rightarrow> daemon \<times> task_timeout_kind option" where
  "consume_timed_out_task task_id s =
     (s\<lparr>ds_timed_out := kv_remove task_id (ds_timed_out s)\<rparr>,
      map_option tt_kind (map_of (ds_timed_out s) task_id))"

definition active_task_timeout_kind :: "daemon \<Rightarrow> in_flight_task \<Rightarrow> task_timeout_kind option" where
  "active_task_timeout_kind s task =
     (let elapsed = ds_now s - ift_created_at task
      in if ift_awaiting_clarification task
         then (if clarification_timeout_ms s \<le> elapsed then Some ClarificationTimeout else None)
         else if command_timeout_ms s \<le> elapsed then Some CommandTimeout else None)"

section \<open>Prompts and sessions\<close>

definition classify_prompt_for_task :: "app_config \<Rightarrow> string \<Rightarrow> classification_result" where
  "classify_prompt_for_task cfg prompt =
     (if bh_context_classifier_enabled (cf_behavior cfg)
      then classify_prompt_with_freshness_terms prompt (wb_freshness_required_terms (cf_web cfg))
      else \<lparr>cr_classification = FreshCommandRequest, cr_confidence = 1\<rparr>)"

definition lookup_task_session :: "daemon \<Rightarrow> in_flight_task \<Rightarrow> shell_session" where
  "lookup_task_session s task =
     (case registry_get (ds_registry s) (ift_shell_id task) of
        Some found \<Rightarrow> found
      | None \<Rightarrow>
          \<lparr>ss_shell_pid = 0, ss_tty = ''unknown'', ss_shell_kind = Zsh, ss_shell_version = ''unknown'',
           ss_env_subset = [], ss_context = map_of (ds_detached s) (ift_shell_id task)\<rparr>)"

end
