(* ===== verification/Tool_Exposure.thy ===== *)
theory Tool_Exposure
  imports Daemon_State
begin

text \<open>
  Which tools a task may use (\<open>termlm-core/src/context/mod.rs\<close>): the default exposure of a class
  of task and the configuration switches applied to it in order.
\<close>

record tool_exposure_profile =
  te_execute_shell_command :: bool
  te_lookup_command_docs :: bool
  te_local_file_tools :: bool
  te_terminal_context_tool :: bool
  te_web_tools :: bool

fun exposure_for :: "task_classification \<Rightarrow> tool_exposure_profile" where
  "exposure_for FreshCommandRequest =
     \<lparr>te_execute_shell_command = True, te_lookup_command_docs = True, te_local_file_tools = True,
      te_terminal_context_tool = False, te_web_tools = True\<rparr>"
| "exposure_for DiagnosticDebugging =
     \<lparr>te_execute_shell_command = True, te_lookup_command_docs = True, te_local_file_tools = True,
      te_terminal_context_tool = True, te_web_tools = True\<rparr>"
| "exposure_for WebCurrentInfoQuestion =
     \<lparr>te_execute_shell_command = False, te_lookup_command_docs = True, te_local_file_tools = False,
      te_terminal_context_tool = False, te_web_tools = True\<rparr>"
| "exposure_for DocumentationQuestion =
     \<lparr>te_execute_shell_command = False, te_lookup_command_docs = True, te_local_file_tools = False,
      te_terminal_context_tool = False, te_web_tools = False\<rparr>"
| "exposure_for ReferentialFollowup =
     \<lparr>te_execute_shell_command = True, te_lookup_command_docs = True, te_local_file_tools = True,
      te_terminal_context_tool = True, te_web_tools = True\<rparr>"
| "exposure_for ExploratoryShellQuestion =
     \<lparr>te_execute_shell_command = True, te_lookup_command_docs = True, te_local_file_tools = True,
      te_terminal_context_tool = True, te_web_tools = True\<rparr>"

definition initial_exposure :: "task_classification \<Rightarrow> app_config \<Rightarrow> tool_exposure_profile" where
  "initial_exposure classification cfg =
     (if tr_dynamic_exposure_enabled (cf_tool_routing cfg) then exposure_for classification
      else \<lparr>te_execute_shell_command = True, te_lookup_command_docs = True, te_local_file_tools = True,
        te_terminal_context_tool = True, te_web_tools = True\<rparr>)"

definition determine_tool_exposure :: "task_classification \<Rightarrow> app_config \<Rightarrow> tool_exposure_profile" where
  "determine_tool_exposure classification cfg =
     (let routing = cf_tool_routing cfg;
          p0 = initial_exposure classification cfg;
          p1 = (if tr_always_expose_execute routing then p0\<lparr>te_execute_shell_command := True\<rparr> else p0);
          p2 = (if tr_always_expose_lookup_docs routing then p1\<lparr>te_lookup_command_docs := True\<rparr> else p1);
          p3 = (if cf_local_tools_enabled cfg then p2
                else p2\<lparr>te_local_file_tools := False, te_terminal_context_tool := False\<rparr>);
          p4 = (if tr_expose_file_tools_for_local_questions routing then p3
                else p3\<lparr>te_local_file_tools := False\<rparr>);
          p5 = (if tr_expose_terminal_context_only_when_needed routing then p4
                else p4\<lparr>te_terminal_context_tool := cf_local_tools_enabled cfg\<rparr>);
          p6 = (if \<not> wb_enabled (cf_web cfg) \<or> \<not> wb_expose_tools (cf_web cfg)
                then p5\<lparr>te_web_tools := False\<rparr> else p5);
          p7 = (if tr_expose_web_only_when_needed routing
                   \<and> classification \<noteq> WebCurrentInfoQuestion
                   \<and> \<not> te_execute_shell_command p6
                then p6\<lparr>te_web_tools := False\<rparr> else p6)
      in p7)"

text \<open>What a task is allowed to use, switch by switch: every disabled subsystem is off whatever
  the class of the task, and an execution tool is offered exactly when the class allows it or the
  configuration forces it.\<close>

theorem tool_exposure_exact:
  "let p = determine_tool_exposure c cfg; routing = cf_tool_routing cfg; p0 = initial_exposure c cfg;
       exec = (te_execute_shell_command p0 \<or> tr_always_expose_execute routing)
   in te_execute_shell_command p = exec
      \<and> te_lookup_command_docs p
      \<and> te_local_file_tools p = (te_local_file_tools p0 \<and> cf_local_tools_enabled cfg
           \<and> tr_expose_file_tools_for_local_questions routing)
      \<and> te_terminal_context_tool p = (cf_local_tools_enabled cfg
           \<and> (if tr_expose_terminal_context_only_when_needed routing then te_terminal_context_tool p0 else True))
      \<and> te_web_tools p = (te_web_tools p0 \<and> wb_enabled (cf_web cfg) \<and> wb_expose_tools (cf_web cfg)
           \<and> (if tr_expose_web_only_when_needed routing then c = WebCurrentInfoQuestion \<or> exec else True))"
  unfolding determine_tool_exposure_def Let_def
  by (cases c) (auto simp: initial_exposure_def)

end
