(* ===== verification/Draft_Checks.thy ===== *)
theory Draft_Checks
  imports Tool_Exposure Planning
begin

text \<open>
  The helpers of the command proposal (\<open>termlm-core/src/main.rs\<close>): the segments and program names
  of a command line, the filters on validation findings, their summaries and the tool message fed
  back to the model, and the counters read off a task's provider conversation.
\<close>

section \<open>Commands of a command line\<close>

text \<open>\<open>split_shell_command_segments\<close>: the loop over the characters. \<open>cur\<close> is the text since
  \<open>start\<close>, which the source slices out of the command.\<close>

fun split_segments_loop ::
  "rchar list \<Rightarrow> rchar list \<Rightarrow> rchar option \<Rightarrow> bool \<Rightarrow> bool \<Rightarrow> string list" where
  "split_segments_loop [] cur quote escaped skip_next = [trim (concat cur)]"
| "split_segments_loop (ch # cs) cur quote escaped skip_next =
     (if skip_next then split_segments_loop cs cur quote escaped False
      else if escaped then split_segments_loop cs (cur @ [ch]) quote False False
      else if ch = [CHR 0x5C] then split_segments_loop cs (cur @ [ch]) quote True False
      else case quote of
        Some active \<Rightarrow>
          split_segments_loop cs (cur @ [ch]) (if ch = active then None else Some active) False False
      | None \<Rightarrow>
          if ch = [CHR 0x27] \<or> ch = [CHR 0x22]
          then split_segments_loop cs (cur @ [ch]) (Some ch) False False
          else if ch = ''|'' \<or> ch = '';''
          then trim (concat cur) # split_segments_loop cs [] None False False
          else if ch = ''&'' \<and> cs \<noteq> [] \<and> hd cs = ''&''
          then trim (concat cur) # split_segments_loop cs [] None False True
          else split_segments_loop cs (cur @ [ch]) None False False)"

definition split_shell_command_segments :: "string \<Rightarrow> string list" where
  "split_shell_command_segments command =
     filter (\<lambda>s. s \<noteq> []) (split_segments_loop (chars command) [] None False False)"

fun collect_names :: "nat \<Rightarrow> string list \<Rightarrow> string list \<Rightarrow> string list" where
  "collect_names max_commands out [] = out"
| "collect_names max_commands out (segment # segments) =
     (case pc_first_token (parse_command segment) of
        None \<Rightarrow> collect_names max_commands out segments
      | Some token \<Rightarrow>
          if token \<in> set out then collect_names max_commands out segments
          else if max_commands \<le> length (out @ [token]) then out @ [token]
          else collect_names max_commands (out @ [token]) segments)"

definition extract_command_names :: "string \<Rightarrow> nat \<Rightarrow> string list" where
  "extract_command_names command max_commands =
     collect_names max_commands [] (split_shell_command_segments command)"

definition command_has_destructive_file_action :: "string \<Rightarrow> bool" where
  "command_has_destructive_file_action command =
     (let trimmed = trim command
      in starts_with trimmed ''rm '' \<or> contains trimmed '' rm '' \<or> contains trimmed '' -delete''
         \<or> ends_with trimmed '' -delete'')"

section \<open>Findings\<close>

definition summarize_validation_findings :: "validation_finding list \<Rightarrow> string" where
  "summarize_validation_findings findings =
     join ''; '' (map (\<lambda>f. vf_kind f @ '': '' @ vf_detail f) findings)"

definition validation_findings_need_web_fallback :: "validation_finding list \<Rightarrow> bool" where
  "validation_findings_need_web_fallback findings \<longleftrightarrow>
     list_ex (\<lambda>f. vf_kind f \<in> {''missing_grounding'', ''insufficient_draft'',
       ''insufficient_for_prompt'', ''unknown_command'', ''unsupported_flag''}) findings"

definition path_grounded_commands :: "string list" where
  "path_grounded_commands =
     [''pwd'', ''ls'', ''find'', ''grep'', ''rg'', ''du'', ''head'', ''tail'', ''cat'', ''wc'',
      ''mkdir'', ''date'', ''tar'', ''sort'', ''cut'', ''stat'', ''xargs'', ''cp'', ''mv'',
      ''echo'', ''printf'', ''git'', ''lsof'', ''curl'']"

definition command_can_use_path_grounding :: "string \<Rightarrow> bool" where
  "command_can_use_path_grounding command \<longleftrightarrow> command \<in> set path_grounded_commands"

definition common_flags :: "(string \<times> string) list" where
  "common_flags =
     [(''grep'', ''-R''), (''grep'', ''-r''), (''grep'', ''-i''), (''grep'', ''-l''),
      (''grep'', ''-n''), (''grep'', ''-E''), (''rg'', ''-i''), (''rg'', ''-l''), (''rg'', ''-n''),
      (''ls'', ''-A''), (''ls'', ''-a''), (''ls'', ''-l''), (''ls'', ''-t''), (''du'', ''-s''),
      (''du'', ''-h''), (''head'', ''-n''), (''tail'', ''-n''), (''tar'', ''-c''), (''tar'', ''-z''),
      (''tar'', ''-f''), (''git'', ''--show-current''), (''lsof'', ''-i''), (''curl'', ''-L'')]"

definition unsupported_flags_are_common :: "string \<Rightarrow> string \<Rightarrow> bool" where
  "unsupported_flags_are_common command detail =
     (let parts = split_on (CHR '':'') detail;
          listed = (if 1 < length parts then parts ! 1 else []);
          flags = filter (\<lambda>flag. flag \<noteq> []) (map trim (split_on (CHR '','') listed))
      in flags \<noteq> [] \<and> list_all (\<lambda>flag. (command, flag) \<in> set common_flags) flags)"

text \<open>The JSON object of the tool message, whose text \<open>serde_json\<close> renders.\<close>

record validation_feedback =
  fb_error :: string
  fb_command :: "string option"
  fb_suggestions :: "string list option"
  fb_findings :: "validation_finding list"
  fb_draft :: string
  fb_planning_round :: nat
  fb_max_planning_rounds :: nat

definition has_kind :: "string \<Rightarrow> validation_finding list \<Rightarrow> bool" where
  "has_kind kind findings \<longleftrightarrow> list_ex (\<lambda>f. vf_kind f = kind) findings"

definition validation_findings_tool_response ::
  "string \<Rightarrow> string \<Rightarrow> validation_finding list \<Rightarrow> string list \<Rightarrow> nat \<Rightarrow> nat \<Rightarrow> validation_feedback" where
  "validation_findings_tool_response command first_token findings suggestions planning_round max_rounds =
     (let fb = (\<lambda>err cmd sugg. \<lparr>fb_error = err, fb_command = cmd, fb_suggestions = sugg,
            fb_findings = findings, fb_draft = command, fb_planning_round = planning_round,
            fb_max_planning_rounds = max_rounds\<rparr>)
      in if has_kind ''unknown_command'' findings
         then fb ''unknown_command'' (Some first_token) (Some (take 5 suggestions))
         else if has_kind ''unsupported_flag'' findings
         then fb ''unsupported_flag'' (Some first_token) None
         else if has_kind ''insufficient_draft'' findings then fb ''insufficient_draft'' None None
         else fb ''validation_failed'' None None)"

section \<open>Counters of a conversation\<close>

definition task_history :: "daemon \<Rightarrow> uuid \<Rightarrow> chat_message list" where
  "task_history s task_id =
     (case map_of (ds_conversations s) task_id of None \<Rightarrow> [] | Some history \<Rightarrow> history)"

definition readonly_tool_round_count :: "daemon \<Rightarrow> uuid \<Rightarrow> nat" where
  "readonly_tool_round_count s task_id =
     length (filter (\<lambda>m. cm_role m = ''tool''
         \<and> cm_tool_name m \<noteq> Some ''execute_shell_command'' \<and> cm_tool_name m \<noteq> None)
       (task_history s task_id))"

definition validation_web_fallback_attempt_count :: "daemon \<Rightarrow> uuid \<Rightarrow> nat" where
  "validation_web_fallback_attempt_count s task_id =
     length (filter (\<lambda>m. cm_role m = ''user''
         \<and> starts_with (cm_content m) ''Local validation found missing or insufficient command grounding.'')
       (task_history s task_id))"

definition truncate_string :: "string \<Rightarrow> nat \<Rightarrow> string" where
  "truncate_string input max_chars =
     take_chars max_chars input @ (if max_chars < char_count input then ellipsis else [])"

definition conversation_push :: "uuid \<Rightarrow> chat_message \<Rightarrow> daemon \<Rightarrow> daemon" where
  "conversation_push task_id m s =
     s\<lparr>ds_conversations := kv_update_or task_id [] (\<lambda>history. history @ [m]) (ds_conversations s)\<rparr>"

definition conversation_push_if_present :: "uuid \<Rightarrow> chat_message \<Rightarrow> daemon \<Rightarrow> daemon" where
  "conversation_push_if_present task_id m s =
     s\<lparr>ds_conversations := kv_modify task_id (\<lambda>history. history @ [m]) (ds_conversations s)\<rparr>"

definition drop_conversation :: "uuid \<Rightarrow> daemon \<Rightarrow> daemon" where
  "drop_conversation task_id s = s\<lparr>ds_conversations := kv_remove task_id (ds_conversations s)\<rparr>"

definition task_insert :: "in_flight_task \<Rightarrow> daemon \<Rightarrow> daemon" where
  "task_insert task s = s\<lparr>ds_tasks := kv_insert (ift_task_id task) task (ds_tasks s)\<rparr>"

end
