(* ===== verification/Proposal.thy ===== *)
theory Proposal
  imports Draft_Checks
begin

text \<open>
  \<open>propose_command_for_execution\<close> (\<open>termlm-core/src/main.rs\<close>): the planning loop that checks a
  drafted command against the safety floor, validates it, lets the provider redraft it or revises
  it, and in the end proposes a command, asks for clarification or gives up. Each exit of the
  function is a definition; the loop runs on fuel, and \<open>Unfinished\<close> says that it ran out.
  What lies outside of the modelled code is a field of \<open>propose_env\<close>: the regex engine, the
  command sanitiser, the command index, the retrieval, the provider's reply. The queries take the
  planning round, since the index may change between rounds.
\<close>

section \<open>Plans, the environment and the call\<close>

record command_plan =
  cp_cmd :: string
  cp_rationale :: string
  cp_intent :: string
  cp_expected_effect :: string
  cp_commands_used :: "string list"
  cp_continue_after_execution :: bool

record tool_call =
  tl_name :: string
  tl_cmd :: "string option"

text \<open>A reply of the provider to a redraft request: its text, the tool calls found in it and
  whether the request was cancelled early. No reply stands for a failed or stalled request.\<close>

record redraft_reply =
  rp_text :: string
  rp_calls :: "tool_call list"
  rp_cancelled :: bool

record propose_env =
  pe_engine :: regex_engine
  pe_sanitize :: "string \<Rightarrow> string \<Rightarrow> string"
  pe_exists :: "nat \<Rightarrow> shell_session \<Rightarrow> string \<Rightarrow> bool"
  pe_suggest :: "nat \<Rightarrow> string \<Rightarrow> string list"
  pe_docs :: "nat \<Rightarrow> string \<Rightarrow> string"
  pe_grounding :: "nat \<Rightarrow> string \<Rightarrow> string \<Rightarrow> string \<Rightarrow> grounding_ref list"
  pe_render :: "validation_feedback \<Rightarrow> string"
  pe_stub :: bool
  pe_redraft :: "nat \<Rightarrow> chat_message list \<Rightarrow> redraft_reply option"

text \<open>The local variables that stay fixed during the loop.\<close>

record propose_call =
  px_payload :: start_task
  px_session :: shell_session
  px_classification :: classification_result
  px_plan :: command_plan
  px_max_rounds :: nat
  px_matcher :: critical_matcher
  px_prior_override :: bool
  px_prior_tool_round :: nat
  px_task_continuation :: bool

abbreviation px_task_id :: "propose_call \<Rightarrow> uuid" where
  "px_task_id c \<equiv> st_task_id (px_payload c)"

text \<open>The result of \<open>try_provider_orchestration\<close>: \<open>Ok(handled)\<close>, or the way it did not return.\<close>

datatype orchestration_result = Handled bool | Stopped handler_result

type_synonym orchestrator =
  "start_task \<Rightarrow> shell_session \<Rightarrow> classification_result \<Rightarrow> string \<Rightarrow> bool \<Rightarrow> daemon
     \<Rightarrow> daemon \<times> orchestration_result"

section \<open>Tasks that wait for the user\<close>

definition waiting_task ::
  "start_task \<Rightarrow> classification_result \<Rightarrow> bool \<Rightarrow> bool \<Rightarrow> nat \<Rightarrow> nat \<Rightarrow> in_flight_task" where
  "waiting_task payload cls override continuation tool_round now =
     \<lparr>ift_task_id = st_task_id payload, ift_shell_id = st_shell_id payload, ift_mode = st_mode payload,
      ift_original_prompt = st_prompt payload, ift_proposed_command = [],
      ift_classification = cr_classification cls, ift_classification_confidence = cr_confidence cls,
      ift_approval_override = override, ift_awaiting_clarification = True,
      ift_provider_continuation = continuation, ift_tool_round = tool_round, ift_created_at = now\<rparr>"

definition ask_user ::
  "start_task \<Rightarrow> classification_result \<Rightarrow> bool \<Rightarrow> bool \<Rightarrow> nat \<Rightarrow> string \<Rightarrow> daemon \<Rightarrow> outcome" where
  "ask_user payload cls override continuation tool_round question s =
     send_then (NeedsClarification (st_task_id payload) question) done1
       (task_insert (waiting_task payload cls override continuation tool_round (ds_now s)) s)"

section \<open>The safety floor\<close>

definition floor_refusal :: "string \<Rightarrow> string" where
  "floor_refusal pattern =
     ''Refused: command matched the immutable safety floor pattern `'' @ pattern
     @ ''`. Propose a safer alternative.''"

definition refuse_floor :: "propose_call \<Rightarrow> safety_floor_match \<Rightarrow> daemon \<Rightarrow> outcome" where
  "refuse_floor c matched s =
     (let payload = px_payload c; task_id = st_task_id payload
      in send_then
           (ErrorMsg (Some task_id) SafetyFloorError ''Refused: command matched immutable safety floor''
              (Some (sfm_pattern matched)))
           (\<lambda>s. let s = conversation_push task_id
                     (chat_tool ''execute_shell_command'' (floor_refusal (sfm_pattern matched))) s
                in if bh_allow_clarifications (behavior s)
                   then ask_user payload (px_classification c) (px_prior_override c) True
                          (px_prior_tool_round c)
                          ''That command is blocked by the immutable safety floor. What safer outcome should I achieve?''
                          s
                   else send_then
                          (TaskComplete task_id SafetyFloorReason ''Command blocked by immutable safety floor.'')
                          (\<lambda>s. done1 (clear_task_state task_id
                             (append_session_turn_if_session_mode (st_mode payload) (st_shell_id payload)
                                (st_prompt payload) ''Command blocked by immutable safety floor.'' s))) s)
           s)"

section \<open>Inspecting a draft\<close>

record draft_check =
  dk_names :: "string list"
  dk_first :: string
  dk_exists :: bool
  dk_validation_token :: string
  dk_suggestions :: "string list"
  dk_grounding :: "grounding_ref list"
  dk_parsed :: parsed_command
  dk_findings :: "validation_finding list"

definition command_names :: "string \<Rightarrow> string list" where
  "command_names cmd =
     (let names = extract_command_names cmd 8
      in if names = [] then (case pc_first_token (parse_command cmd) of None \<Rightarrow> [] | Some t \<Rightarrow> [t])
         else names)"

definition first_or_empty :: "string list \<Rightarrow> string" where
  "first_or_empty names = (case names of [] \<Rightarrow> [] | n # _ \<Rightarrow> n)"

definition draft_context ::
  "app_config \<Rightarrow> start_task \<Rightarrow> string \<Rightarrow> parsed_command \<Rightarrow> string \<Rightarrow> bool \<Rightarrow> string \<Rightarrow> validation_context" where
  "draft_context cfg payload cmd parsed first exists docs =
     \<lparr>vc_prompt = st_prompt payload, vc_command_exists = exists, vc_docs_excerpt = docs,
      vc_validate_command_flags =
        cf_validate_command_flags cfg \<and> \<not> pc_has_pipeline parsed \<and> \<not> pc_has_control_operators parsed
        \<and> \<not> contains cmd ''|'' \<and> \<not> contains cmd ''&&'' \<and> \<not> contains cmd '';''
        \<and> first \<noteq> ''find'' \<and> first \<noteq> ''stat'',
      vc_parse_ambiguous = pc_ambiguous parsed, vc_parse_warnings = pc_warnings parsed,
      vc_parse_risky_constructs = has_risky_constructs parsed\<rparr>"

definition grounded_draft ::
  "command_plan \<Rightarrow> string \<Rightarrow> string list \<Rightarrow> grounding_ref list \<Rightarrow> grounded_proposal" where
  "grounded_draft plan cmd names refs =
     \<lparr>gp_command = cmd, gp_intent = cp_intent plan, gp_expected_effect = cp_expected_effect plan,
      gp_commands_used = names,
      gp_risk_level = (if command_has_destructive_file_action cmd then ''elevated'' else ''read_only''),
      gp_destructive = command_has_destructive_file_action cmd, gp_requires_approval = True,
      gp_grounding = map (\<lambda>g. gr_source g @ ''#'' @ gr_command g) refs, gp_validation = []\<rparr>"

definition drop_kind :: "bool \<Rightarrow> string \<Rightarrow> validation_finding list \<Rightarrow> validation_finding list" where
  "drop_kind cond kind findings = (if cond then filter (\<lambda>f. vf_kind f \<noteq> kind) findings else findings)"

definition waive_findings ::
  "propose_env \<Rightarrow> propose_call \<Rightarrow> string \<Rightarrow> string \<Rightarrow> bool \<Rightarrow> validation_finding list
     \<Rightarrow> validation_finding list" where
  "waive_findings env c cmd first exists findings =
     (let f1 = drop_kind (exists \<and> command_can_use_path_grounding first) ''missing_grounding'' findings;
          f2 = filter (\<lambda>f. \<not> (vf_kind f = ''unsupported_flag''
                 \<and> unsupported_flags_are_common first (vf_detail f))) f1;
          f3 = drop_kind (cp_rationale (px_plan c) \<noteq> ''provider_tool_call'') ''unsupported_flag'' f2
      in drop_kind (is_critical (pe_engine env) (px_matcher c) cmd) ''unsupported_flag'' f3)"

definition inspect_draft ::
  "propose_env \<Rightarrow> propose_call \<Rightarrow> string \<Rightarrow> nat \<Rightarrow> daemon \<Rightarrow> draft_check" where
  "inspect_draft env c cmd rnd s =
     (let parsed = parse_command cmd;
          names = command_names cmd;
          first = first_or_empty names;
          missing = filter (\<lambda>n. \<not> pe_exists env rnd (px_session c) n) names;
          exists = (names \<noteq> [] \<and> missing = []);
          token = (case missing of [] \<Rightarrow> first | n # _ \<Rightarrow> n);
          suggestions = (if exists then [] else pe_suggest env rnd token);
          docs = (if first = [] then [] else pe_docs env rnd first);
          refs = pe_grounding env rnd (st_prompt (px_payload c)) first cmd;
          findings = validate_round (grounded_draft (px_plan c) cmd names refs)
            (draft_context (ds_config s) (px_payload c) cmd parsed first exists docs)
      in \<lparr>dk_names = names, dk_first = first, dk_exists = exists, dk_validation_token = token,
          dk_suggestions = suggestions, dk_grounding = refs, dk_parsed = parsed,
          dk_findings = waive_findings env c cmd first exists findings\<rparr>)"

section \<open>The provider's redraft\<close>

definition redraft_prompt :: string where
  "redraft_prompt = ''Validation feedback was provided via tool results. Retry by emitting one corrected execute_shell_command tool call only.''"

fun first_execute_call :: "tool_call list \<Rightarrow> string option" where
  "first_execute_call [] = None"
| "first_execute_call (call # calls) =
     (let cmd = trim (case tl_cmd call of None \<Rightarrow> [] | Some c \<Rightarrow> c)
      in if tl_name call \<noteq> ''execute_shell_command'' then first_execute_call calls
         else if cmd \<noteq> [] then Some cmd else first_execute_call calls)"

definition provider_redraft_from_validation ::
  "propose_env \<Rightarrow> nat \<Rightarrow> uuid \<Rightarrow> daemon \<Rightarrow> daemon \<times> string option" where
  "provider_redraft_from_validation env rnd task_id s =
     (let s1 = conversation_push task_id (chat_user redraft_prompt) s
      in case pe_redraft env rnd (task_history s1 task_id) of
           None \<Rightarrow> (s1, None)
         | Some reply \<Rightarrow>
             (let s2 = (if rp_cancelled reply then cancel_provider_task task_id s1 else s1);
                  s3 = (if trim (rp_text reply) \<noteq> [] \<or> rp_calls reply \<noteq> []
                        then conversation_push_if_present task_id (chat_assistant (rp_text reply)) s2
                        else s2)
              in (s3, first_execute_call (rp_calls reply))))"

section \<open>A rejected draft\<close>

definition unknown_command_message :: "draft_check \<Rightarrow> string" where
  "unknown_command_message d =
     (if dk_validation_token d = [] then ''validation blocked: unknown command token''
      else if dk_suggestions d = []
      then ''validation blocked: unknown command `'' @ dk_validation_token d @ ''`''
      else ''validation blocked: unknown command `'' @ dk_validation_token d @ ''`; suggestions: ''
        @ join '', '' (take 5 (dk_suggestions d)))"

definition report_unknown :: "propose_call \<Rightarrow> draft_check \<Rightarrow> (daemon \<Rightarrow> outcome) \<Rightarrow> daemon \<Rightarrow> outcome" where
  "report_unknown c d k s =
     (if has_kind ''unknown_command'' (dk_findings d)
      then send_then (ErrorMsg (Some (px_task_id c)) UnknownCommand (unknown_command_message d) None) k s
      else k s)"

definition web_fallback_prompt :: string where
  "web_fallback_prompt = ''Local validation found missing or insufficient command grounding. Use local lookup results if they are enough; otherwise use web_search/web_read to find reliable command documentation, then emit one corrected execute_shell_command tool call. Ask one focused clarification question only if no grounded command is possible.''"

definition web_fallback_allowed :: "propose_call \<Rightarrow> draft_check \<Rightarrow> daemon \<Rightarrow> bool" where
  "web_fallback_allowed c d s \<longleftrightarrow>
     te_web_tools (determine_tool_exposure (cr_classification (px_classification c)) (ds_config s))
     \<and> wb_enabled (cf_web (ds_config s)) \<and> wb_expose_tools (cf_web (ds_config s))
     \<and> validation_findings_need_web_fallback (dk_findings d)
     \<and> readonly_tool_round_count s (px_task_id c) < max (bh_max_tool_rounds (behavior s)) 1
     \<and> validation_web_fallback_attempt_count s (px_task_id c) < max (bh_max_planning_rounds (behavior s)) 1"

definition after_orchestration ::
  "(daemon \<Rightarrow> outcome) \<Rightarrow> (daemon \<Rightarrow> outcome) \<Rightarrow> daemon \<times> orchestration_result \<Rightarrow> outcome" where
  "after_orchestration handled unhandled r =
     (case r of (s, Handled True) \<Rightarrow> handled s
      | (s, Handled False) \<Rightarrow> unhandled s
      | (s, Stopped h) \<Rightarrow> (s, h))"

definition web_fallback ::
  "orchestrator \<Rightarrow> propose_call \<Rightarrow> draft_check \<Rightarrow> (daemon \<Rightarrow> outcome) \<Rightarrow> daemon \<Rightarrow> outcome" where
  "web_fallback orch c d k s =
     (if web_fallback_allowed c d s
      then after_orchestration done1 k
        (orch (px_payload c) (px_session c) (px_classification c) web_fallback_prompt True s)
      else k s)"

definition try_redraft ::
  "propose_env \<Rightarrow> propose_call \<Rightarrow> string \<Rightarrow> nat \<Rightarrow> (string \<Rightarrow> daemon \<Rightarrow> outcome) \<Rightarrow> (daemon \<Rightarrow> outcome)
     \<Rightarrow> daemon \<Rightarrow> outcome" where
  "try_redraft env c cmd rnd again k s =
     (if pe_stub env then k s
      else case provider_redraft_from_validation env rnd (px_task_id c) s of
        (s1, None) \<Rightarrow> k s1
      | (s1, Some redraft) \<Rightarrow>
          if trim redraft \<noteq> trim cmd
          then again (pe_sanitize env (trim redraft) (st_prompt (px_payload c))) s1 else k s1)"

text \<open>The two ways the function gives up: after the last round, and without a revision.\<close>

definition rounds_exhausted :: "propose_call \<Rightarrow> draft_check \<Rightarrow> daemon \<Rightarrow> outcome" where
  "rounds_exhausted c d s =
     (let payload = px_payload c; task_id = st_task_id payload;
          message = summarize_validation_findings (dk_findings d); rounds = show_nat (px_max_rounds c)
      in if bh_allow_clarifications (behavior s)
         then ask_user payload (px_classification c) (px_prior_override c) (px_task_continuation c)
                (px_prior_tool_round c)
                (''validation_incomplete: I could not validate a safe command within '' @ rounds
                 @ '' planning rounds ('' @ message @ ''). What exact behavior should I run?'') s
         else send_then (ErrorMsg (Some task_id) BadToolCall
                (''planning validation failed: '' @ message
                 @ ''; no hard-coded fallback command was substituted'') None)
                (send_then (TaskComplete task_id ModelDone
                   (''validation_incomplete: no validated command after '' @ rounds @ '' planning rounds.''))
                   (\<lambda>s. done1 (append_session_turn_if_session_mode (st_mode payload) (st_shell_id payload)
                      (st_prompt payload)
                      (''validation_incomplete: no validated command after '' @ rounds
                       @ '' planning rounds ('' @ message @ '')'') s))) s)"

definition no_revision :: "propose_call \<Rightarrow> draft_check \<Rightarrow> daemon \<Rightarrow> outcome" where
  "no_revision c d s =
     (let payload = px_payload c; task_id = st_task_id payload;
          message = summarize_validation_findings (dk_findings d)
      in if bh_allow_clarifications (behavior s)
         then ask_user payload (px_classification c) (px_prior_override c) (px_task_continuation c)
                (px_prior_tool_round c)
                (''I couldn'' @ [CHR 0x27] @ ''t validate a safe command ('' @ message
                 @ ''). What exact behavior do you want?'') s
         else send_then (ErrorMsg (Some task_id) BadToolCall
                (''planning validation failed: '' @ message) None)
                (send_then (TaskComplete task_id ModelDone
                   ''Planning validation failed and no safe revision was found.'')
                   (\<lambda>s. done1 (append_session_turn_if_session_mode (st_mode payload) (st_shell_id payload)
                      (st_prompt payload)
                      (''Planning validation failed and no safe revision was found: '' @ message) s))) s)"

definition revise_or_stop ::
  "propose_env \<Rightarrow> propose_call \<Rightarrow> string \<Rightarrow> nat \<Rightarrow> draft_check \<Rightarrow> (string \<Rightarrow> daemon \<Rightarrow> outcome)
     \<Rightarrow> daemon \<Rightarrow> outcome" where
  "revise_or_stop env c cmd rnd d again s =
     (if px_max_rounds c \<le> rnd then rounds_exhausted c d s
      else case revise_command cmd (st_prompt (px_payload c)) (dk_findings d)
                  (case dk_suggestions d of [] \<Rightarrow> None | n # _ \<Rightarrow> Some n) of
        None \<Rightarrow> no_revision c d s
      | Some next_cmd \<Rightarrow>
          if next_cmd = cmd then again cmd s
          else again (pe_sanitize env next_cmd (st_prompt (px_payload c))) s)"

definition reject_draft ::
  "propose_env \<Rightarrow> orchestrator \<Rightarrow> propose_call \<Rightarrow> string \<Rightarrow> nat \<Rightarrow> draft_check
     \<Rightarrow> (string \<Rightarrow> daemon \<Rightarrow> outcome) \<Rightarrow> daemon \<Rightarrow> outcome" where
  "reject_draft env orch c cmd rnd d again s =
     (let feedback = pe_render env (validation_findings_tool_response cmd (dk_validation_token d)
            (dk_findings d) (dk_suggestions d) rnd (px_max_rounds c))
      in report_unknown c d
           (web_fallback orch c d
              (try_redraft env c cmd rnd again (revise_or_stop env c cmd rnd d again)))
           (conversation_push (px_task_id c) (chat_tool ''execute_shell_command'' feedback) s))"

section \<open>An accepted draft\<close>

definition approval_required :: "string \<Rightarrow> bool \<Rightarrow> bool \<Rightarrow> bool" where
  "approval_required mode critical prior_override =
     (let required = (if mode = ''auto'' then False else if mode = ''manual_critical'' then critical else True)
      in if prior_override \<and> \<not> critical then False else required)"

definition build_proposal ::
  "propose_env \<Rightarrow> propose_call \<Rightarrow> string \<Rightarrow> nat \<Rightarrow> validation_finding list \<Rightarrow> draft_check \<Rightarrow> daemon
     \<Rightarrow> proposed_command" where
  "build_proposal env c cmd rnd last_findings d s =
     (let plan = px_plan c; parsed = dk_parsed d;
          matched = is_critical (pe_engine env) (px_matcher c) cmd;
          parser_critical = (pc_ambiguous parsed \<and> has_risky_constructs parsed);
          critical = (matched \<or> parser_critical)
      in \<lparr>pr_task_id = px_task_id c, pr_cmd = cmd, pr_rationale = cp_rationale plan,
          pr_intent = cp_intent plan, pr_expected_effect = cp_expected_effect plan,
          pr_commands_used =
            (if cp_commands_used plan \<noteq> [] then cp_commands_used plan
             else if dk_first d = [] then [] else dk_names d),
          pr_risk_level =
            (if critical then ''critical''
             else if has_risky_constructs parsed \<or> command_has_destructive_file_action cmd
             then ''elevated'' else ''read_only''),
          pr_requires_approval =
            approval_required (ap_mode (approval s)) critical (px_prior_override c),
          pr_critical_match =
            (if critical then Some (if parser_critical \<and> \<not> matched then ''parser_ambiguity_risk''
                                    else ''critical_pattern'')
             else None),
          pr_grounding = dk_grounding d,
          pr_validation = \<lparr>vs_status = (if last_findings = [] then ''passed'' else ''revised''),
                           vs_planning_rounds = rnd\<rparr>,
          pr_round = rnd\<rparr>)"

definition proposed_task :: "propose_call \<Rightarrow> string \<Rightarrow> nat \<Rightarrow> in_flight_task" where
  "proposed_task c cmd now =
     (waiting_task (px_payload c) (px_classification c) (px_prior_override c) (px_task_continuation c)
        (px_prior_tool_round c) now)
       \<lparr>ift_proposed_command := cmd, ift_awaiting_clarification := False\<rparr>"

definition finish_proposal ::
  "propose_env \<Rightarrow> propose_call \<Rightarrow> string \<Rightarrow> nat \<Rightarrow> validation_finding list \<Rightarrow> draft_check \<Rightarrow> daemon
     \<Rightarrow> outcome" where
  "finish_proposal env c cmd rnd last_findings d s =
     send_then (ProposedCommand (build_proposal env c cmd rnd last_findings d s))
       (\<lambda>s. done1 (task_insert (proposed_task c cmd (ds_now s)) s)) s"

section \<open>One round, and the start of the function\<close>

definition propose_round ::
  "propose_env \<Rightarrow> orchestrator \<Rightarrow> propose_call \<Rightarrow> string \<Rightarrow> nat \<Rightarrow> validation_finding list
     \<Rightarrow> (string \<Rightarrow> validation_finding list \<Rightarrow> daemon \<Rightarrow> outcome) \<Rightarrow> daemon \<Rightarrow> outcome" where
  "propose_round env orch c cmd rnd last_findings again s =
     (case matches_safety_floor (pe_engine env) cmd of
        Some matched \<Rightarrow> refuse_floor c matched s
      | None \<Rightarrow>
          (let d = inspect_draft env c cmd rnd s
           in if dk_findings d = [] then finish_proposal env c cmd rnd last_findings d s
              else reject_draft env orch c cmd rnd d (\<lambda>cmd'. again cmd' (dk_findings d)) s))"

definition propose_setup ::
  "propose_env \<Rightarrow> start_task \<Rightarrow> shell_session \<Rightarrow> bool \<Rightarrow> classification_result \<Rightarrow> command_plan
     \<Rightarrow> daemon \<Rightarrow> propose_call" where
  "propose_setup env payload session continuation cls plan s =
     (let shell_override = approval_override_for_shell s (st_shell_id payload);
          (override, prior_cont, tool_round) =
            (case map_of (ds_tasks s) (st_task_id payload) of
               Some t \<Rightarrow> (ift_approval_override t, ift_provider_continuation t, ift_tool_round t)
             | None \<Rightarrow> (shell_override, False, 0))
      in \<lparr>px_payload = payload, px_session = session, px_classification = cls, px_plan = plan,
          px_max_rounds = max (bh_max_planning_rounds (behavior s)) 1,
          px_matcher = from_patterns (pe_engine env) (ap_critical_patterns (approval s)),
          px_prior_override = override, px_prior_tool_round = tool_round,
          px_task_continuation = (continuation \<or> prior_cont) \<and> cp_continue_after_execution plan\<rparr>)"

definition first_draft :: "propose_env \<Rightarrow> start_task \<Rightarrow> command_plan \<Rightarrow> string" where
  "first_draft env payload plan = trim (pe_sanitize env (cp_cmd plan) (trim (st_prompt payload)))"

section \<open>The orchestrator's actions\<close>

text \<open>
  \<open>try_provider_orchestration\<close> runs the model with its tools. Seen from the daemon's state, a run is
  a list of the actions below for the task it was called for, and then \<open>Ok(handled)\<close> or an error
  (\<open>None\<close>). Which actions a run takes is up to the model, so the script is a parameter; what each
  action does is not.
\<close>

datatype orchestration_action =
    SayText string
  | Complete task_complete_reason string
  | ReportError error_kind string "string option"
  | AskUser bool nat string
  | SessionTurn string
  | SessionSystem string
  | SeedConversation "chat_message list"
  | PushConversation chat_message
  | DropConversation
  | CancelRequest
  | Propose bool command_plan

type_synonym script =
  "start_task \<Rightarrow> shell_session \<Rightarrow> classification_result \<Rightarrow> string \<Rightarrow> bool \<Rightarrow> daemon
     \<Rightarrow> orchestration_action list \<times> bool option"

type_synonym proposer =
  "start_task \<Rightarrow> shell_session \<Rightarrow> bool \<Rightarrow> classification_result \<Rightarrow> command_plan \<Rightarrow> daemon \<Rightarrow> outcome"

fun perform_action ::
  "proposer \<Rightarrow> start_task \<Rightarrow> shell_session \<Rightarrow> classification_result \<Rightarrow> orchestration_action \<Rightarrow> daemon
     \<Rightarrow> outcome" where
  "perform_action propose payload session cls (SayText chunk) s =
     send_then (ModelText (st_task_id payload) chunk) done1 s"
| "perform_action propose payload session cls (Complete reason summary) s =
     send_then (TaskComplete (st_task_id payload) reason summary) done1 s"
| "perform_action propose payload session cls (ReportError kind message pattern) s =
     send_then (ErrorMsg (Some (st_task_id payload)) kind message pattern) done1 s"
| "perform_action propose payload session cls (AskUser continuation tool_round question) s =
     ask_user payload cls (approval_override_for_shell s (st_shell_id payload)) continuation tool_round
       question s"
| "perform_action propose payload session cls (SessionTurn assistant) s =
     done1 (append_session_turn_if_session_mode (st_mode payload) (st_shell_id payload)
       (st_prompt payload) assistant s)"
| "perform_action propose payload session cls (SessionSystem system) s =
     done1 (fst (session_messages_for_shell (st_shell_id payload) system s))"
| "perform_action propose payload session cls (SeedConversation messages) s =
     done1 (s\<lparr>ds_conversations := kv_insert (st_task_id payload) messages (ds_conversations s)\<rparr>)"
| "perform_action propose payload session cls (PushConversation m) s =
     done1 (conversation_push_if_present (st_task_id payload) m s)"
| "perform_action propose payload session cls DropConversation s =
     done1 (drop_conversation (st_task_id payload) s)"
| "perform_action propose payload session cls CancelRequest s =
     done1 (cancel_provider_task (st_task_id payload) s)"
| "perform_action propose payload session cls (Propose continuation plan) s =
     propose payload session continuation cls plan s"

text \<open>The actions that need the lock of the conversations. A proposal needs it when it refuses or
  rejects a draft, and is only reached after the conversation was seeded.\<close>

fun needs_conversations :: "orchestration_action \<Rightarrow> bool" where
  "needs_conversations (SeedConversation messages) = True"
| "needs_conversations (PushConversation m) = True"
| "needs_conversations DropConversation = True"
| "needs_conversations (Propose continuation plan) = True"
| "needs_conversations action = False"

fun run_actions ::
  "proposer \<Rightarrow> bool \<Rightarrow> start_task \<Rightarrow> shell_session \<Rightarrow> classification_result
     \<Rightarrow> orchestration_action list \<Rightarrow> bool option \<Rightarrow> daemon \<Rightarrow> daemon \<times> orchestration_result" where
  "run_actions propose held payload session cls [] result s =
     (s, case result of Some handled \<Rightarrow> Handled handled | None \<Rightarrow> Stopped Failed)"
| "run_actions propose held payload session cls (a # as) result s =
     (if held \<and> needs_conversations a then (s, Stopped Blocked)
      else case perform_action propose payload session cls a s of
        (s1, Done) \<Rightarrow> run_actions propose held payload session cls as result s1
      | (s1, h) \<Rightarrow> (s1, Stopped h))"

definition orchestrate :: "proposer \<Rightarrow> script \<Rightarrow> bool \<Rightarrow> orchestrator" where
  "orchestrate propose script held payload session cls prompt continuation s =
     (case script payload session cls prompt continuation s of
        (actions, result) \<Rightarrow> run_actions propose held payload session cls actions result s)"

section \<open>The loop and the function\<close>

definition propose_with ::
  "(propose_call \<Rightarrow> string \<Rightarrow> nat \<Rightarrow> validation_finding list \<Rightarrow> daemon \<Rightarrow> outcome) \<Rightarrow> propose_env \<Rightarrow> proposer" where
  "propose_with loop env payload session continuation cls plan s =
     loop (propose_setup env payload session continuation cls plan s) (first_draft env payload plan) 1 [] s"

fun propose_loop ::
  "nat \<Rightarrow> propose_env \<Rightarrow> script \<Rightarrow> propose_call \<Rightarrow> string \<Rightarrow> nat \<Rightarrow> validation_finding list \<Rightarrow> daemon
     \<Rightarrow> outcome" where
  "propose_loop 0 env script c cmd rnd last_findings s = (s, Unfinished)"
| "propose_loop (Suc n) env script c cmd rnd last_findings s =
     propose_round env (orchestrate (propose_with (propose_loop n env script) env) script False)
       c cmd rnd last_findings
       (\<lambda>cmd' findings s'. propose_loop n env script c cmd' (rnd + 1) findings s') s"

definition propose_command_for_execution :: "nat \<Rightarrow> propose_env \<Rightarrow> script \<Rightarrow> proposer" where
  "propose_command_for_execution n env script = propose_with (propose_loop n env script) env"

definition try_provider_orchestration :: "nat \<Rightarrow> propose_env \<Rightarrow> script \<Rightarrow> bool \<Rightarrow> orchestrator" where
  "try_provider_orchestration n env script = orchestrate (propose_command_for_execution n env script) script"

end
