(* ===== verification/Sandbox_Paths.thy ===== *)
theory Sandbox_Paths
  imports Rust_Str Termlm_Prelude
begin

text \<open>
  Paths in \<open>termlm-core/src/main.rs\<close>: lexical normalisation, confinement of a task's working
  directory and of file requests to a root, and the test for sensitive files. A path is the list of
  its components, as \<open>Path::components\<close> gives them on Unix. The file system is a parameter:
  \<open>canonicalize\<close>, the home directory and the current directory.
\<close>

datatype component = RootDir | CurDir | ParentDir | Normal string

type_synonym path = "component list"

record path_env =
  fe_canonicalize :: "path \<Rightarrow> path option"
  fe_home :: "string option"
  fe_cwd :: "path option"

definition component_of :: "string \<Rightarrow> component" where
  "component_of part = (if part = ''..'' then ParentDir else Normal part)"

text \<open>Empty segments vanish, and so do dots except a leading one.\<close>

definition path_of :: "string \<Rightarrow> path" where
  "path_of raw =
     (let segments = split_on (CHR ''/'') raw;
          parts = map component_of (filter (\<lambda>p. p \<noteq> [] \<and> p \<noteq> ''.'') segments)
      in if starts_with raw ''/'' then RootDir # parts
         else if segments \<noteq> [] \<and> hd segments = ''.'' then CurDir # parts else parts)"

definition is_absolute :: "path \<Rightarrow> bool" where
  "is_absolute p \<longleftrightarrow> p \<noteq> [] \<and> hd p = RootDir"

definition join_path :: "path \<Rightarrow> path \<Rightarrow> path" where
  "join_path base p = (if is_absolute p then p else base @ p)"

definition path_starts_with :: "path \<Rightarrow> path \<Rightarrow> bool" where
  "path_starts_with p root \<longleftrightarrow> prefix root p"

fun show_component :: "component \<Rightarrow> string" where
  "show_component RootDir = []"
| "show_component CurDir = ''.''"
| "show_component ParentDir = ''..''"
| "show_component (Normal part) = part"

definition display :: "path \<Rightarrow> string" where
  "display p = (if p = [RootDir] then ''/'' else join ''/'' (map show_component p))"

section \<open>Normalisation\<close>

definition pop_component :: "path \<Rightarrow> path" where
  "pop_component out = (if out = [RootDir] then out else butlast out)"

fun push_component :: "path \<Rightarrow> component \<Rightarrow> path" where
  "push_component out RootDir = [RootDir]"
| "push_component out CurDir = out"
| "push_component out ParentDir = pop_component out"
| "push_component out (Normal part) = out @ [Normal part]"

definition normalize_lexical_path :: "path \<Rightarrow> path" where
  "normalize_lexical_path p =
     (let out = foldl push_component [] p
      in if out = [] then (if is_absolute p then [RootDir] else [CurDir]) else out)"

definition canonical_or_normalized :: "path_env \<Rightarrow> path \<Rightarrow> path" where
  "canonical_or_normalized fs p =
     (let normalized = normalize_lexical_path p
      in case fe_canonicalize fs normalized of Some canon \<Rightarrow> canon | None \<Rightarrow> normalized)"

section \<open>Confinement\<close>

definition resolve_path_within_root :: "path_env \<Rightarrow> path \<Rightarrow> path \<Rightarrow> path option" where
  "resolve_path_within_root fs root requested =
     (let root_path = canonical_or_normalized fs root;
          candidate = (if is_absolute requested then requested else join_path root_path requested);
          candidate_path = canonical_or_normalized fs candidate
      in if path_starts_with candidate_path root_path then Some candidate_path else None)"

definition confined_cwd :: "path_env \<Rightarrow> path \<Rightarrow> string \<Rightarrow> path" where
  "confined_cwd fs root requested =
     (let req = path_of requested;
          joined = (if is_absolute req then req else join_path root req);
          candidate = canonical_or_normalized fs joined
      in if path_starts_with candidate root then candidate else root)"

definition task_cwd_for_sandbox :: "path_env \<Rightarrow> path option \<Rightarrow> string \<Rightarrow> string" where
  "task_cwd_for_sandbox fs sandbox requested =
     (case sandbox of None \<Rightarrow> requested | Some root \<Rightarrow> display (confined_cwd fs root requested))"

section \<open>Sensitive files\<close>

definition expand_home_path_buf :: "path_env \<Rightarrow> string \<Rightarrow> path" where
  "expand_home_path_buf fs raw =
     (case (strip_prefix raw ''~/'', fe_home fs) of
        (Some rest, Some home) \<Rightarrow> join_path (path_of home) (path_of rest)
      | _ \<Rightarrow> path_of raw)"

definition allowed_entry :: "path_env \<Rightarrow> string \<Rightarrow> path option" where
  "allowed_entry fs entry =
     (let trimmed = trim entry
      in if trimmed = [] then None
         else (let expanded = expand_home_path_buf fs trimmed;
                   allowed = (case fe_cwd fs of
                      Some cwd \<Rightarrow> if is_absolute expanded then expanded else join_path cwd expanded
                    | None \<Rightarrow> expanded)
               in Some (canonical_or_normalized fs allowed)))"

definition path_allowed_by_local_sensitive_allowlist :: "path_env \<Rightarrow> string list \<Rightarrow> path \<Rightarrow> bool" where
  "path_allowed_by_local_sensitive_allowlist fs allowlist p =
     (let candidate = canonical_or_normalized fs p
      in list_ex (\<lambda>entry. case allowed_entry fs entry of
             None \<Rightarrow> False | Some allowed \<Rightarrow> path_starts_with candidate allowed) allowlist)"

fun normal_part :: "component \<Rightarrow> string option" where
  "normal_part (Normal part) = Some part"
| "normal_part c = None"

definition lower_components :: "path \<Rightarrow> string list" where
  "lower_components p = map to_ascii_lowercase (concat (map (\<lambda>c. case normal_part c of None \<Rightarrow> [] | Some s \<Rightarrow> [s]) p))"

definition has_component_pair :: "string list \<Rightarrow> string \<Rightarrow> string \<Rightarrow> bool" where
  "has_component_pair components a b \<longleftrightarrow> (a, b) \<in> set (zip components (tl components))"

definition sensitive_directories :: "string list" where
  "sensitive_directories =
     [''.ssh'', ''.gnupg'', ''.aws'', ''.azure'', ''.kube'', ''keychains'', ''.password-store'',
      ''.bitwarden'', ''.1password'']"

definition exact_sensitive_names :: "string list" where
  "exact_sensitive_names =
     [''id_rsa'', ''id_dsa'', ''id_ecdsa'', ''id_ed25519'', ''id_xmss'', ''.netrc'',
      ''.git-credentials'', ''credentials'', ''credentials.db'', ''tokens.json'', ''auth.json'',
      ''access_tokens.db'']"

definition lower_file_name :: "path \<Rightarrow> string" where
  "lower_file_name p =
     (if p = [] then [] else case normal_part (last p) of None \<Rightarrow> [] | Some s \<Rightarrow> to_ascii_lowercase s)"

definition sensitive_name :: "string \<Rightarrow> bool" where
  "sensitive_name name \<longleftrightarrow>
     starts_with name ''.env'' \<and> \<not> contains name ''example'' \<and> \<not> contains name ''sample''
       \<and> \<not> contains name ''template''
     \<or> name \<in> set exact_sensitive_names
     \<or> ends_with name ''.pem'' \<or> ends_with name ''.p12'' \<or> ends_with name ''.pfx''
     \<or> ends_with name ''.key''"

definition is_sensitive_local_path :: "path_env \<Rightarrow> string list \<Rightarrow> path \<Rightarrow> bool" where
  "is_sensitive_local_path fs allowlist p =
     (if path_allowed_by_local_sensitive_allowlist fs allowlist p then False
      else (let normalized = canonical_or_normalized fs p;
                components = lower_components normalized
            in list_ex (\<lambda>d. d \<in> set components) sensitive_directories
               \<or> has_component_pair components ''.config'' ''gcloud''
               \<or> has_component_pair components ''library'' ''keychains''
               \<or> sensitive_name (lower_file_name normalized)))"

section \<open>Lemmas\<close>

definition plain_path :: "path \<Rightarrow> bool" where
  "plain_path out \<longleftrightarrow>
     (\<exists>names. out = map Normal names \<or> out = RootDir # map Normal names)"

lemma plain_path_push: "plain_path out \<Longrightarrow> plain_path (push_component out c)"
proof (cases c)
  case ParentDir
  assume "plain_path out"
  then obtain names where "out = map Normal names \<or> out = RootDir # map Normal names"
    by (auto simp: plain_path_def)
  then show ?thesis
    unfolding ParentDir plain_path_def push_component.simps pop_component_def
    by (cases "names = []") (auto simp flip: map_butlast)
next
  case (Normal part)
  assume "plain_path out"
  then obtain names where "out = map Normal names \<or> out = RootDir # map Normal names"
    by (auto simp: plain_path_def)
  then have "out @ [Normal part] = map Normal (names @ [part])
      \<or> out @ [Normal part] = RootDir # map Normal (names @ [part])" by auto
  then show ?thesis unfolding Normal plain_path_def push_component.simps by blast
qed (auto simp: plain_path_def)

lemma plain_path_fold: "plain_path out \<Longrightarrow> plain_path (foldl push_component out p)"
  by (induction p arbitrary: out) (auto intro: plain_path_push)

lemma fold_plain:
  "foldl push_component out (map Normal names) = out @ map Normal names"
  by (induction names arbitrary: out) simp_all

lemma fold_absolute:
  assumes "out \<noteq> []" "hd out = RootDir" "RootDir \<notin> set p"
  shows "foldl push_component out p \<noteq> [] \<and> hd (foldl push_component out p) = RootDir"
  using assms
proof (induction p arbitrary: out)
  case (Cons c p)
  have "push_component out c \<noteq> [] \<and> hd (push_component out c) = RootDir"
    using Cons.prems by (cases c; cases out rule: rev_cases) (auto simp: pop_component_def hd_append split: if_splits)
  with Cons show ?case by simp
qed simp

section \<open>Properties\<close>

text \<open>Lexical normalisation leaves only names behind an optional root, or the single dot for an
  empty relative path: no dot and no parent component survives, and normalising again changes
  nothing.\<close>

theorem normalize_lexical_plain:
  "let q = normalize_lexical_path p
   in q \<noteq> [] \<and> ParentDir \<notin> set q \<and> (CurDir \<in> set q \<longrightarrow> q = [CurDir])
      \<and> RootDir \<notin> set (tl q) \<and> normalize_lexical_path q = q"
proof -
  let ?out = "foldl push_component [] p"
  have "plain_path []" by (auto simp: plain_path_def)
  then have "plain_path ?out" by (rule plain_path_fold)
  then obtain names where out: "?out = map Normal names \<or> ?out = RootDir # map Normal names"
    by (auto simp: plain_path_def)
  have again: "foldl push_component [] (map Normal names) = map Normal names"
    "foldl push_component [] (RootDir # map Normal names) = RootDir # map Normal names"
    using fold_plain [of "[]" names] fold_plain [of "[RootDir]" names] by simp_all
  show ?thesis
  proof (cases "?out = []")
    case True
    then show ?thesis by (auto simp: normalize_lexical_path_def Let_def is_absolute_def)
  next
    case False
    then have q: "normalize_lexical_path p = ?out" by (simp add: normalize_lexical_path_def Let_def)
    have "normalize_lexical_path ?out = ?out"
      using out again False by (auto simp: normalize_lexical_path_def Let_def)
    then show ?thesis unfolding q Let_def using out False by (cases names) auto
  qed
qed

theorem normalize_lexical_plain_witness:
  "normalize_lexical_path (path_of ''/srv/box/./a/../../../../etc'') = [RootDir, Normal ''etc'']
   \<and> normalize_lexical_path [RootDir, Normal ''etc''] = [RootDir, Normal ''etc'']"
proof -
  have "normalize_lexical_path (path_of ''/srv/box/./a/../../../../etc'') = [RootDir, Normal ''etc'']"
    by code_simp
  with normalize_lexical_plain [of "path_of ''/srv/box/./a/../../../../etc''"] show ?thesis
    by (simp add: Let_def)
qed


theorem sandbox_confines_examples:
  "let fs = \<lparr>fe_canonicalize = \<lambda>p. None, fe_home = None, fe_cwd = None\<rparr>; root = path_of ''/srv/box''
   in task_cwd_for_sandbox fs (Some root) ''../../etc'' = ''/srv/box''
      \<and> task_cwd_for_sandbox fs (Some root) ''/srv/boxes'' = ''/srv/box''
      \<and> task_cwd_for_sandbox fs (Some root) ''src/../doc'' = ''/srv/box/doc''"
  by code_simp

text \<open>A requested path is granted only inside the canonical root, and a granted path is what the
  file system resolves the request to.\<close>

theorem resolve_within_root:
  "resolve_path_within_root fs root requested = Some p \<longleftrightarrow>
     p = canonical_or_normalized fs
           (if is_absolute requested then requested
            else canonical_or_normalized fs root @ requested)
     \<and> prefix (canonical_or_normalized fs root) p"
  by (auto simp: resolve_path_within_root_def Let_def path_starts_with_def join_path_def)

lemma lower_components_mem: "Normal n \<in> set p \<Longrightarrow> to_ascii_lowercase n \<in> set (lower_components p)"
  by (induction p) (auto simp: lower_components_def)

text \<open>Anything below a credential directory is sensitive in whatever case its name is written,
  and so is a key file by its ending, unless the allowlist names it or a directory above it.\<close>

theorem sensitive_paths_denied:
  assumes "\<not> path_allowed_by_local_sensitive_allowlist fs allowlist p"
    and "Normal n \<in> set (canonical_or_normalized fs p) \<and> to_ascii_lowercase n \<in> set sensitive_directories
       \<or> (\<exists>q n. canonical_or_normalized fs p = q @ [Normal n] \<and> sensitive_name (to_ascii_lowercase n))"
  shows "is_sensitive_local_path fs allowlist p"
  using assms lower_components_mem [of n "canonical_or_normalized fs p"]
  by (auto simp: is_sensitive_local_path_def Let_def list_ex_iff lower_file_name_def)

theorem sensitive_paths_denied_witness:
  "is_sensitive_local_path \<lparr>fe_canonicalize = \<lambda>p. None, fe_home = Some ''/home/u'', fe_cwd = None\<rparr>
     [''~/work''] (path_of ''/home/u/.SSH/known_hosts'')"
proof -
  let ?fs = "\<lparr>fe_canonicalize = \<lambda>p. None, fe_home = Some ''/home/u'', fe_cwd = None\<rparr>"
  let ?p = "path_of ''/home/u/.SSH/known_hosts''"
  have "\<not> path_allowed_by_local_sensitive_allowlist ?fs [''~/work''] ?p" by code_simp
  moreover have "canonical_or_normalized ?fs ?p
      = [RootDir, Normal ''home'', Normal ''u'', Normal ''.SSH'', Normal ''known_hosts'']" by code_simp
  moreover have "to_ascii_lowercase ''.SSH'' \<in> set sensitive_directories" by code_simp
  ultimately show ?thesis by (intro sensitive_paths_denied [where n = "''.SSH''"]) simp_all
qed

end
