(* ===== verification/Task_Handlers.thy ===== *)
theory Task_Handlers
  imports Proposal Sandbox_Paths "HOL-Library.List_Lexorder"
begin

text \<open>
  The handlers of a task's messages (\<open>termlm-core/src/main.rs\<close>): \<open>process_start_task\<close>,
  \<open>process_user_response\<close> and \<open>process_ack\<close>, every branch with every change of state. The paths
  that answer a prompt without the planning loop (documentation, web, local tools, the stub provider)
  are scripts of orchestration actions like the orchestrator itself.
\<close>

datatype shortcut = DocumentationAnswer | WebAnswer | LocalTool | RuntimeStub

record ack_result =
  ar_command :: string
  ar_cwd_before :: string
  ar_cwd_after :: string
  ar_exit_status :: int
  ar_stdout :: string
  ar_stdout_truncated :: bool
  ar_stderr :: string
  ar_stderr_truncated :: bool
  ar_redactions_applied :: "string list"
  ar_elapsed_ms :: nat

text \<open>What the handlers use from outside: the proposal's environment and fuel, the scripts, the
  sandbox and file system, the prompt assembly, the terminal context store, the secret redaction,
  base64 with lossy decoding, environment variables and JSON rendering.\<close>

record handler_env =
  he_propose :: propose_env
  he_fuel :: nat
  he_script :: script
  he_shortcut :: "shortcut \<Rightarrow> start_task \<Rightarrow> shell_session \<Rightarrow> classification_result \<Rightarrow> daemon
     \<Rightarrow> orchestration_action list \<times> bool option"
  he_sandbox :: "path option"
  he_fs :: path_env
  he_drafting_prompt :: "daemon \<Rightarrow> start_task \<Rightarrow> classification_result \<Rightarrow> string"
  he_observe :: "observed_command \<Rightarrow> observed_command list \<Rightarrow> observed_command list"
  he_redact_secrets :: "string \<Rightarrow> string"
  he_decode :: "string \<Rightarrow> string"
  he_env_var :: "string \<Rightarrow> string option"
  he_render_ack :: "ack_result \<Rightarrow> string"

abbreviation he_engine :: "handler_env \<Rightarrow> regex_engine" where
  "he_engine he \<equiv> pe_engine (he_propose he)"

section \<open>Shared steps\<close>

definition apply_task_sandbox :: "handler_env \<Rightarrow> start_task \<Rightarrow> start_task" where
  "apply_task_sandbox he payload =
     (case he_sandbox he of
        None \<Rightarrow> payload
      | Some dir \<Rightarrow>
          (let confined = task_cwd_for_sandbox (he_fs he) (Some dir) (st_cwd payload)
           in payload\<lparr>st_cwd := confined,
                      st_env_subset := kv_insert ''PWD'' confined (st_env_subset payload)\<rparr>))"

definition run_shortcut ::
  "handler_env \<Rightarrow> shortcut \<Rightarrow> start_task \<Rightarrow> shell_session \<Rightarrow> classification_result \<Rightarrow> daemon
     \<Rightarrow> daemon \<times> orchestration_result" where
  "run_shortcut he kind payload session cls s =
     (case he_shortcut he kind payload session cls s of
        (actions, result) \<Rightarrow>
          run_actions (propose_command_for_execution (he_fuel he) (he_propose he) (he_script he))
            False payload session cls actions result s)"

text \<open>A call of the orchestrator whose error clears the task. When the caller holds the lock of the
  conversations, clearing stops at that lock.\<close>

definition clear_failed_task :: "bool \<Rightarrow> uuid \<Rightarrow> daemon \<Rightarrow> outcome" where
  "clear_failed_task held task_id s =
     (if held then ((cancel_and_clear_task task_id s)\<lparr>ds_conversations := ds_conversations s\<rparr>, Blocked)
      else (cancel_and_clear_task task_id s, Failed))"

definition orchestrate_task ::
  "handler_env \<Rightarrow> bool \<Rightarrow> start_task \<Rightarrow> shell_session \<Rightarrow> classification_result \<Rightarrow> string
     \<Rightarrow> (daemon \<Rightarrow> outcome) \<Rightarrow> (daemon \<Rightarrow> outcome) \<Rightarrow> daemon \<Rightarrow> outcome" where
  "orchestrate_task he held payload session cls prompt handled unhandled s =
     (case try_provider_orchestration (he_fuel he) (he_propose he) (he_script he) held payload session
             cls prompt True s of
        (s1, Handled True) \<Rightarrow> handled s1
      | (s1, Handled False) \<Rightarrow> unhandled s1
      | (s1, Stopped Failed) \<Rightarrow> clear_failed_task held (st_task_id payload) s1
      | (s1, Stopped h) \<Rightarrow> (s1, h))"

text \<open>The request a handler synthesises to go on with a task.\<close>

definition continuation_request ::
  "handler_env \<Rightarrow> uuid \<Rightarrow> in_flight_task \<Rightarrow> shell_session \<Rightarrow> string \<Rightarrow> string \<Rightarrow> start_task" where
  "continuation_request he task_id task session prompt cwd =
     \<lparr>st_task_id = task_id, st_shell_id = ift_shell_id task,
      st_shell_kind = ss_shell_kind session, st_shell_version = ss_shell_version session,
      st_mode = ift_mode task, st_prompt = prompt,
      st_cwd = task_cwd_for_sandbox (he_fs he) (he_sandbox he) cwd,
      st_env_subset = ss_env_subset session\<rparr>"

definition session_pwd :: "shell_session \<Rightarrow> string" where
  "session_pwd session = (case map_of (ss_env_subset session) ''PWD'' of None \<Rightarrow> ''.'' | Some d \<Rightarrow> d)"

definition touch_task :: "uuid \<Rightarrow> (in_flight_task \<Rightarrow> in_flight_task) \<Rightarrow> daemon \<Rightarrow> daemon" where
  "touch_task task_id f s =
     s\<lparr>ds_tasks := kv_modify task_id (\<lambda>t. (f t)\<lparr>ift_created_at := ds_now s\<rparr>) (ds_tasks s)\<rparr>"

section \<open>Starting a task\<close>

definition refuse_prompt :: "start_task \<Rightarrow> safety_floor_match \<Rightarrow> daemon \<Rightarrow> outcome" where
  "refuse_prompt payload matched =
     send_then (ErrorMsg (Some (st_task_id payload)) SafetyFloorError
         ''Refused: prompt requested an immutable safety-floor command'' (Some (sfm_pattern matched)))
       (send_then (TaskComplete (st_task_id payload) SafetyFloorReason
            ''Prompt matched immutable safety floor.'')
          (\<lambda>s. done1 (append_session_turn_if_session_mode (st_mode payload) (st_shell_id payload)
             (st_prompt payload) ''Prompt blocked by immutable safety floor.'' s)))"

definition start_session :: "daemon \<Rightarrow> start_task \<Rightarrow> shell_session" where
  "start_session s payload =
     (case registry_get (ds_registry s) (st_shell_id payload) of
        Some session \<Rightarrow> session
      | None \<Rightarrow>
          \<lparr>ss_shell_pid = 0, ss_tty = ''unknown'', ss_shell_kind = st_shell_kind payload,
           ss_shell_version = st_shell_version payload, ss_env_subset = st_env_subset payload,
           ss_context = map_of (ds_detached s) (st_shell_id payload)\<rparr>)"

definition no_command_question :: string where
  "no_command_question = ''I couldn'' @ [CHR 0x27] @ ''t produce a grounded command from the available context yet. What exact command behavior should run, and which path or target should it use?''"

text \<open>The model path: the stub provider if it is enabled, the orchestrator, the stub as a fallback,
  and a question to the user at last.\<close>

definition start_provider ::
  "handler_env \<Rightarrow> start_task \<Rightarrow> shell_session \<Rightarrow> classification_result \<Rightarrow> daemon \<Rightarrow> outcome" where
  "start_provider he payload session cls s0 =
     (let stub = (\<lambda>k s. after_orchestration done1 k (run_shortcut he RuntimeStub payload session cls s));
          ask = (\<lambda>s. ask_user payload cls (approval_override_for_shell s (st_shell_id payload)) True 0
                        no_command_question s);
          provider = (\<lambda>s. orchestrate_task he False payload session cls
                             (he_drafting_prompt he s0 payload cls) done1 (stub ask) s)
      in if pe_stub (he_propose he) then stub provider s0 else provider s0)"

definition start_answer ::
  "handler_env \<Rightarrow> start_task \<Rightarrow> shell_session \<Rightarrow> classification_result \<Rightarrow> daemon \<Rightarrow> outcome" where
  "start_answer he payload session cls s =
     (let c = cr_classification cls; shortcuts = (st_mode payload \<noteq> ''?'');
          answered = (\<lambda>kind. after_orchestration done1 done1 (run_shortcut he kind payload session cls s))
      in if shortcuts \<and> c = DocumentationQuestion then answered DocumentationAnswer
         else if (shortcuts \<or> prompt_prefers_direct_answer (st_prompt payload) c)
                 \<and> c = WebCurrentInfoQuestion \<and> wb_enabled (cf_web (ds_config s))
         then answered WebAnswer
         else if shortcuts
         then after_orchestration done1 (start_provider he payload session cls)
                (run_shortcut he LocalTool payload session cls s)
         else start_provider he payload session cls s)"

definition process_start_task :: "handler_env \<Rightarrow> start_task \<Rightarrow> daemon \<Rightarrow> outcome" where
  "process_start_task he request s =
     (let payload = apply_task_sandbox he request
      in case matches_safety_floor (he_engine he) (trim (st_prompt payload)) of
           Some matched \<Rightarrow> refuse_prompt payload matched s
         | None \<Rightarrow>
             (let session = start_session s payload;
                  cls = classify_prompt_for_task (ds_config s) (st_prompt payload)
              in case (if bh_allow_clarifications (behavior s)
                       then clarification_question_for_ambiguous_prompt (st_prompt payload) else None) of
                   Some question \<Rightarrow>
                     ask_user payload cls (approval_override_for_shell s (st_shell_id payload)) False 0
                       question s
                 | None \<Rightarrow> start_answer he payload session cls s))"

section \<open>A response of the user\<close>

definition report_timeout :: "uuid \<Rightarrow> task_timeout_kind \<Rightarrow> (daemon \<Rightarrow> outcome) \<Rightarrow> daemon \<Rightarrow> outcome" where
  "report_timeout task_id kind = send_then (TaskComplete task_id Timeout (timeout_summary kind))"

definition protocol_error :: "uuid \<Rightarrow> string \<Rightarrow> daemon \<Rightarrow> outcome" where
  "protocol_error task_id message =
     send_then (ErrorMsg (Some task_id) BadProtocol message None) done1"

definition record_turn :: "in_flight_task \<Rightarrow> string \<Rightarrow> daemon \<Rightarrow> daemon" where
  "record_turn task assistant =
     append_session_turn_if_session_mode (ift_mode task) (ift_shell_id task) (ift_original_prompt task) assistant"

definition respond_approved :: "uuid \<Rightarrow> daemon \<Rightarrow> outcome" where
  "respond_approved task_id s =
     send_then (ModelText task_id ''Command approved. Execute in shell and send Ack.'') done1
       (touch_task task_id (\<lambda>t. t\<lparr>ift_awaiting_clarification := False\<rparr>) s)"

definition respond_approve_all :: "uuid \<Rightarrow> daemon \<Rightarrow> outcome" where
  "respond_approve_all task_id s =
     (let s1 = touch_task task_id
                 (\<lambda>t. t\<lparr>ift_approval_override := True, ift_awaiting_clarification := False\<rparr>) s;
          s2 = (case map_of (ds_tasks s) task_id of
                  Some t \<Rightarrow>
                    if ap_approve_all_resets_per_task (approval s) then s1
                    else s1\<lparr>ds_overrides := kv_insert (ift_shell_id t) True (ds_overrides s1)\<rparr>
                | None \<Rightarrow> s1)
      in send_then (ModelText task_id ''Approve-all enabled for this task. Execute in shell and send Ack.'')
           done1 s2)"

definition respond_edited :: "handler_env \<Rightarrow> in_flight_task \<Rightarrow> uuid \<Rightarrow> string option \<Rightarrow> daemon \<Rightarrow> outcome" where
  "respond_edited he task task_id edited_command s =
     (let edited = trim (case edited_command of None \<Rightarrow> [] | Some c \<Rightarrow> c)
      in if edited = [] then protocol_error task_id ''edited command is empty'' s
         else case matches_safety_floor (he_engine he) edited of
           Some matched \<Rightarrow>
             send_then (ErrorMsg (Some task_id) SafetyFloorError
                 ''edited command blocked by immutable safety floor'' (Some (sfm_pattern matched)))
               (send_then (TaskComplete task_id SafetyFloorReason ''Edited command blocked by safety floor.'')
                  (\<lambda>s. done1 (clear_task_state task_id
                     (record_turn task ''Edited command blocked by immutable safety floor.'' s)))) s
         | None \<Rightarrow>
             send_then (ModelText task_id ''Edited command accepted. Execute in shell and send Ack.'') done1
               (touch_task task_id
                  (\<lambda>t. t\<lparr>ift_proposed_command := edited, ift_awaiting_clarification := False\<rparr>) s))"

definition decline_task :: "in_flight_task \<Rightarrow> uuid \<Rightarrow> daemon \<Rightarrow> outcome" where
  "decline_task task task_id =
     send_then (ModelText task_id ''User declined to run this command.'')
       (send_then (TaskComplete task_id ModelDone ''Command rejected by user.'')
          (\<lambda>s. done1 (record_turn task ''Task rejected by user.'' (clear_task_state task_id s))))"

definition retry_prompt :: "in_flight_task \<Rightarrow> string" where
  "retry_prompt task =
     ift_original_prompt task @ [CHR 0x0A, CHR 0x0A]
     @ ''The user declined the prior command. Propose a safer or alternate command that still satisfies the request.''"

text \<open>The lock of the conversations is taken for the push and lives until the end of the block, so
  the orchestrator runs under it.\<close>

definition respond_rejected ::
  "handler_env \<Rightarrow> in_flight_task \<Rightarrow> uuid \<Rightarrow> string option \<Rightarrow> daemon \<Rightarrow> outcome" where
  "respond_rejected he task task_id reason_text s =
     (let reason = (case reason_text of None \<Rightarrow> [] | Some r \<Rightarrow> r)
      in if ift_provider_continuation task \<and> trim reason \<noteq> []
         then (let s1 = conversation_push task_id (chat_tool ''execute_shell_command''
                      (''User declined to run this command. Reason: '' @ trim reason)) s;
                   session = lookup_task_session s1 task;
                   request = continuation_request he task_id task session (retry_prompt task) (session_pwd session)
               in orchestrate_task he True request session
                    (classify_prompt_for_task (ds_config s1) (ift_original_prompt task)) (retry_prompt task)
                    (\<lambda>s. done1 (s\<lparr>ds_tasks := kv_modify task_id (\<lambda>t. t\<lparr>ift_provider_continuation := True,
                        ift_original_prompt := ift_original_prompt task\<rparr>) (ds_tasks s)\<rparr>))
                    (decline_task task task_id) s1)
         else decline_task task task_id s)"

definition respond_abort :: "in_flight_task \<Rightarrow> uuid \<Rightarrow> daemon \<Rightarrow> outcome" where
  "respond_abort task task_id =
     send_then (TaskComplete task_id Aborted ''Task aborted by user.'')
       (\<lambda>s. done1 (record_turn task ''Task aborted by user.'' (cancel_and_clear_task task_id s)))"

definition refined_prompt :: "in_flight_task \<Rightarrow> string \<Rightarrow> string" where
  "refined_prompt task detail =
     ift_original_prompt task @ [CHR 0x0A] @ ''Clarification: '' @ detail"

text \<open>The task after a clarification: the refined prompt, the waiting flag, and in command mode the
  new classification.\<close>

definition refine_task ::
  "uuid \<Rightarrow> bool \<Rightarrow> string \<Rightarrow> classification_result option \<Rightarrow> daemon \<Rightarrow> daemon" where
  "refine_task task_id awaiting prompt reclassified =
     touch_task task_id (\<lambda>t.
       let t1 = t\<lparr>ift_awaiting_clarification := awaiting, ift_provider_continuation := True,
                   ift_original_prompt := prompt\<rparr>
       in case reclassified of
            None \<Rightarrow> t1
          | Some cls \<Rightarrow> t1\<lparr>ift_classification := cr_classification cls,
                          ift_classification_confidence := cr_confidence cls\<rparr>)"

definition ask_again :: "uuid \<Rightarrow> string \<Rightarrow> classification_result option \<Rightarrow> string \<Rightarrow> daemon \<Rightarrow> outcome" where
  "ask_again task_id prompt reclassified question s =
     send_then (NeedsClarification task_id question) done1 (refine_task task_id True prompt reclassified s)"

definition clarify_session_mode ::
  "handler_env \<Rightarrow> in_flight_task \<Rightarrow> uuid \<Rightarrow> string \<Rightarrow> daemon \<Rightarrow> outcome" where
  "clarify_session_mode he task task_id prompt s =
     (let session = lookup_task_session s task;
          cls = \<lparr>cr_classification = ift_classification task,
                 cr_confidence = ift_classification_confidence task\<rparr>
      in orchestrate_task he False (continuation_request he task_id task session prompt (session_pwd session))
           session cls prompt
           (\<lambda>s. done1 (refine_task task_id False prompt None s))
           (ask_again task_id prompt None
              ''I still need a more specific request. Include the exact outcome, target path/repo, and any constraints.'')
           s)"

definition clarify_command_mode ::
  "handler_env \<Rightarrow> in_flight_task \<Rightarrow> uuid \<Rightarrow> string \<Rightarrow> string \<Rightarrow> daemon \<Rightarrow> outcome" where
  "clarify_command_mode he task task_id detail prompt s =
     (let session = lookup_task_session s task;
          cls = classify_prompt_for_task (ds_config s) prompt
      in case clarification_question_for_ambiguous_prompt detail of
           Some question \<Rightarrow> ask_again task_id prompt (Some cls) question s
         | None \<Rightarrow>
             orchestrate_task he False (continuation_request he task_id task session prompt (session_pwd session))
               session cls prompt
               (\<lambda>s. done1 (refine_task task_id False prompt (Some cls) s))
               (ask_again task_id prompt (Some cls)
                  ''I still need a more specific request. Include the exact command outcome and target path or tool.'')
               s)"

definition respond_clarification ::
  "handler_env \<Rightarrow> in_flight_task \<Rightarrow> uuid \<Rightarrow> string option \<Rightarrow> daemon \<Rightarrow> outcome" where
  "respond_clarification he task task_id detail_text s =
     (if \<not> ift_awaiting_clarification task
      then protocol_error task_id ''task is not waiting for clarification'' s
      else (let detail = (case detail_text of None \<Rightarrow> [] | Some d \<Rightarrow> d);
                prompt = refined_prompt task detail
            in if ift_mode task \<noteq> ''?'' then clarify_session_mode he task task_id prompt s
               else clarify_command_mode he task task_id detail prompt s))"

fun respond :: "handler_env \<Rightarrow> in_flight_task \<Rightarrow> user_response \<Rightarrow> user_decision \<Rightarrow> daemon \<Rightarrow> outcome" where
  "respond he task r Approved = respond_approved (ur_task_id r)"
| "respond he task r ApproveAllInTask = respond_approve_all (ur_task_id r)"
| "respond he task r Edited = respond_edited he task (ur_task_id r) (ur_edited_command r)"
| "respond he task r Rejected = respond_rejected he task (ur_task_id r) (ur_text r)"
| "respond he task r Abort = respond_abort task (ur_task_id r)"
| "respond he task r Clarification = respond_clarification he task (ur_task_id r) (ur_text r)"

definition process_user_response :: "handler_env \<Rightarrow> user_response \<Rightarrow> daemon \<Rightarrow> outcome" where
  "process_user_response he r s =
     (let task_id = ur_task_id r
      in case consume_timed_out_task task_id s of
           (s1, Some kind) \<Rightarrow> report_timeout task_id kind done1 s1
         | (s1, None) \<Rightarrow>
             (case map_of (ds_tasks s1) task_id of
                None \<Rightarrow> protocol_error task_id ''task_id not active'' s1
              | Some task \<Rightarrow>
                  (case active_task_timeout_kind s1 task of
                     Some kind \<Rightarrow>
                       report_timeout task_id kind
                         (\<lambda>s. done1 (record_turn task (timeout_summary kind) s))
                         (clear_task_state task_id s1)
                   | None \<Rightarrow> respond he task r (ur_decision r) s1)))"

section \<open>An acknowledged command\<close>

definition observed_from_ack :: "uuid \<Rightarrow> ack \<Rightarrow> app_config \<Rightarrow> observed_command" where
  "observed_from_ack shell_id payload cfg =
     \<lparr>oc_shell_id = shell_id, oc_command_seq = ak_command_seq payload,
      oc_raw_command = ak_executed_command payload, oc_expanded_command = ak_executed_command payload,
      oc_cwd_before = ak_cwd_before payload, oc_cwd_after = ak_cwd_after payload,
      oc_started_at = ak_started_at payload, oc_exit_status = ak_exit_status payload,
      oc_duration_ms = ak_elapsed_ms payload, oc_stdout_b64 = ak_stdout_b64 payload,
      oc_stdout_truncated = ak_stdout_truncated payload, oc_stderr_b64 = ak_stderr_b64 payload,
      oc_stderr_truncated = ak_stderr_truncated payload,
      oc_output_capture_status =
        (if cf_capture_enabled cfg then ''captured'' else ''skipped_not_captured'')\<rparr>"

definition process_observed_command :: "handler_env \<Rightarrow> observed_command \<Rightarrow> daemon \<Rightarrow> daemon" where
  "process_observed_command he payload s =
     (if \<not> tc_enabled (cf_terminal_context (ds_config s))
         \<or> \<not> tc_capture_all_interactive_commands (cf_terminal_context (ds_config s)) then s
      else s\<lparr>ds_observed := he_observe he payload (ds_observed s)\<rparr>)"

text \<open>\<open>redact_capture_env_values\<close>: each configured variable in turn, its value replaced everywhere.\<close>

fun redact_keys :: "(string \<Rightarrow> string option) \<Rightarrow> string list \<Rightarrow> string \<Rightarrow> string list \<Rightarrow> string \<times> string list" where
  "redact_keys env_var [] text applied = (text, applied)"
| "redact_keys env_var (key # keys) text applied =
     (case env_var key of
        None \<Rightarrow> redact_keys env_var keys text applied
      | Some secret \<Rightarrow>
          if secret \<noteq> [] \<and> contains text secret
          then redact_keys env_var keys (replace_all text secret (''[REDACTED:'' @ key @ '']''))
                 (applied @ [key])
          else redact_keys env_var keys text applied)"

definition redact_capture_env_values ::
  "(string \<Rightarrow> string option) \<Rightarrow> string \<Rightarrow> string list \<Rightarrow> string \<times> string list" where
  "redact_capture_env_values env_var input keys =
     (if input = [] \<or> keys = [] then (input, []) else redact_keys env_var keys input [])"

definition decode_output :: "handler_env \<Rightarrow> string option \<Rightarrow> string" where
  "decode_output he encoded = (case encoded of None \<Rightarrow> [] | Some b64 \<Rightarrow> he_decode he b64)"

record ack_output =
  ao_stdout :: string
  ao_stderr :: string
  ao_redactions :: "string list"

definition ack_outputs :: "handler_env \<Rightarrow> app_config \<Rightarrow> ack \<Rightarrow> ack_output" where
  "ack_outputs he cfg payload =
     (let out0 = decode_output he (ak_stdout_b64 payload); err0 = decode_output he (ak_stderr_b64 payload);
          secrets = tc_redact_secrets (cf_terminal_context cfg);
          out1 = (if secrets then he_redact_secrets he out0 else out0);
          err1 = (if secrets then he_redact_secrets he err0 else err0);
          applied = ak_redactions_applied payload
             @ (if secrets \<and> (out1 \<noteq> out0 \<or> err1 \<noteq> err0) then [''secret''] else []);
          (out2, out_env) = redact_capture_env_values (he_env_var he) out1 (cf_capture_redact_env cfg);
          (err2, err_env) = redact_capture_env_values (he_env_var he) err1 (cf_capture_redact_env cfg)
      in \<lparr>ao_stdout = out2, ao_stderr = err2,
          ao_redactions = remdups_adj (sort (applied @ out_env @ err_env))\<rparr>)"

definition ack_tool_result :: "ack \<Rightarrow> ack_output \<Rightarrow> ack_result" where
  "ack_tool_result payload out =
     \<lparr>ar_command = ak_executed_command payload, ar_cwd_before = ak_cwd_before payload,
      ar_cwd_after = ak_cwd_after payload, ar_exit_status = ak_exit_status payload,
      ar_stdout = truncate_string (ao_stdout out) 3000, ar_stdout_truncated = ak_stdout_truncated payload,
      ar_stderr = truncate_string (ao_stderr out) 2000, ar_stderr_truncated = ak_stderr_truncated payload,
      ar_redactions_applied = ao_redactions out, ar_elapsed_ms = ak_elapsed_ms payload\<rparr>"

abbreviation newline :: string where
  "newline \<equiv> [CHR 0x0A]"

definition followup_prompt :: "in_flight_task \<Rightarrow> ack \<Rightarrow> ack_output \<Rightarrow> string" where
  "followup_prompt task payload out =
     ift_original_prompt task @ newline @ newline @ ''Previous command result:'' @ newline
     @ ''- command: '' @ ak_executed_command payload @ newline
     @ ''- exit_status: '' @ show_int (ak_exit_status payload) @ newline
     @ (if trim (ao_stdout out) \<noteq> []
        then ''- stdout:'' @ newline @ truncate_string (ao_stdout out) 1600 @ newline else [])
     @ (if trim (ao_stderr out) \<noteq> []
        then ''- stderr:'' @ newline @ truncate_string (ao_stderr out) 1200 @ newline else [])
     @ ''Continue the same task. Propose the next shell command only if needed; otherwise finish.''"

definition tool_rounds_message :: "nat \<Rightarrow> string" where
  "tool_rounds_message rounds = ''Stopped after '' @ show_nat rounds @ '' tool rounds.''"

definition stop_at_round_limit :: "in_flight_task \<Rightarrow> uuid \<Rightarrow> daemon \<Rightarrow> outcome" where
  "stop_at_round_limit task task_id s =
     (let message = tool_rounds_message (bh_max_tool_rounds (behavior s))
      in send_then (TaskComplete task_id ToolRoundLimit message)
           (\<lambda>s. done1 (record_turn task message (drop_conversation task_id s))) s)"

definition send_if :: "bool \<Rightarrow> server_message \<Rightarrow> (daemon \<Rightarrow> outcome) \<Rightarrow> daemon \<Rightarrow> outcome" where
  "send_if cond m k = (if cond then send_then m k else k)"

definition finish_ack :: "in_flight_task \<Rightarrow> ack \<Rightarrow> ack_output \<Rightarrow> daemon \<Rightarrow> outcome" where
  "finish_ack task payload out =
     (let task_id = ak_task_id payload;
          has_out = (trim (ao_stdout out) \<noteq> []); has_err = (trim (ao_stderr out) \<noteq> []);
          summary = ''Command exited with status '' @ show_int (ak_exit_status payload)
            @ (if has_out then ''; stdout captured''
                 @ (if ak_stdout_truncated payload then '' (truncated)'' else []) else [])
            @ (if has_err \<and> ak_stderr_truncated payload then ''; stderr truncated'' else [])
      in send_if has_out (ModelText task_id (truncate_string (ao_stdout out) 400))
           (send_if has_err (ModelText task_id (truncate_string (ao_stderr out) 240))
              (send_then (TaskComplete task_id ModelDone summary)
                 (\<lambda>s. done1 (drop_conversation task_id
                    (record_turn task
                       (if ak_exit_status payload = 0 then ''Command completed successfully.''
                        else ''Command failed with exit status ''
                          @ show_int (ak_exit_status payload) @ ''.'') s))))))"

definition continue_after_ack ::
  "handler_env \<Rightarrow> in_flight_task \<Rightarrow> ack \<Rightarrow> ack_output \<Rightarrow> daemon \<Rightarrow> outcome" where
  "continue_after_ack he task payload out s =
     (let task_id = ak_task_id payload;
          s1 = conversation_push task_id
                 (chat_tool ''execute_shell_command'' (he_render_ack he (ack_tool_result payload out))) s;
          next_round = u32_sat_add (ift_tool_round task) 1
      in if bh_max_tool_rounds (behavior s1) \<le> next_round then stop_at_round_limit task task_id s1
         else (let session = lookup_task_session s1 task; prompt = followup_prompt task payload out
               in orchestrate_task he False
                    (continuation_request he task_id task session prompt (ak_cwd_after payload)) session
                    \<lparr>cr_classification = DiagnosticDebugging, cr_confidence = 4 / 5\<rparr> prompt
                    (\<lambda>s. done1 (s\<lparr>ds_tasks := kv_modify task_id (\<lambda>t. t\<lparr>ift_tool_round := next_round,
                        ift_provider_continuation := True,
                        ift_original_prompt := ift_original_prompt task\<rparr>) (ds_tasks s)\<rparr>))
                    (finish_ack task payload out) s1))"

definition process_ack :: "handler_env \<Rightarrow> ack \<Rightarrow> daemon \<Rightarrow> outcome" where
  "process_ack he payload s =
     (let task_id = ak_task_id payload
      in case consume_timed_out_task task_id s of
           (s1, Some kind) \<Rightarrow> report_timeout task_id kind done1 s1
         | (s1, None) \<Rightarrow>
             (let s2 = s1\<lparr>ds_tasks := kv_remove task_id (ds_tasks s1)\<rparr>
              in case map_of (ds_tasks s1) task_id of
                   None \<Rightarrow> protocol_error task_id ''Ack received for unknown task_id'' s2
                 | Some task \<Rightarrow>
                     (case active_task_timeout_kind s2 task of
                        Some kind \<Rightarrow>
                          report_timeout task_id kind
                            (\<lambda>s. done1 (record_turn task (timeout_summary kind) s))
                            (drop_conversation task_id s2)
                      | None \<Rightarrow>
                          (let cfg = ds_config s2;
                               s3 = process_observed_command he
                                      (observed_from_ack (ift_shell_id task) payload cfg) s2;
                               out = ack_outputs he cfg payload
                           in if ift_provider_continuation task
                              then continue_after_ack he task payload out s3
                              else finish_ack task payload out s3))))"

end
