(* ===== verification/Connections.thy ===== *)
theory Connections
  imports Task_Handlers
begin

text \<open>
  The daemon's connections (\<open>handle_connection\<close> in \<open>termlm-core/src/main.rs\<close>): the dispatch of a
  client message, the clean-up when a connection ends, and the system of all connections with the
  time-out sweeper and the clock as a transition system. A message is handled in one step;
  reports that leave the modelled state alone (status, provider health, index, retrieval) only
  succeed or fail.
\<close>

section \<open>Capabilities of an adapter\<close>

definition required_capability_names :: "string list" where
  "required_capability_names =
     [''prompt_mode'', ''session_mode'', ''single_key_approval'', ''edit_approval'',
      ''execute_in_real_shell'', ''command_completion_ack'', ''stdout_stderr_capture'',
      ''all_interactive_command_observation'', ''terminal_context_capture'', ''alias_capture'',
      ''function_capture'', ''builtin_inventory'', ''shell_native_history'']"

definition missing_if :: "bool \<Rightarrow> string \<Rightarrow> string list" where
  "missing_if present name = (if present then [] else [name])"

definition missing_required_capabilities :: "shell_capabilities \<Rightarrow> string list" where
  "missing_required_capabilities cap =
     missing_if (cap_prompt_mode cap) ''prompt_mode''
     @ missing_if (cap_session_mode cap) ''session_mode''
     @ missing_if (cap_single_key_approval cap) ''single_key_approval''
     @ missing_if (cap_edit_approval cap) ''edit_approval''
     @ missing_if (cap_execute_in_real_shell cap) ''execute_in_real_shell''
     @ missing_if (cap_command_completion_ack cap) ''command_completion_ack''
     @ missing_if (cap_stdout_stderr_capture cap) ''stdout_stderr_capture''
     @ missing_if (cap_all_interactive_command_observation cap) ''all_interactive_command_observation''
     @ missing_if (cap_terminal_context_capture cap) ''terminal_context_capture''
     @ missing_if (cap_alias_capture cap) ''alias_capture''
     @ missing_if (cap_function_capture cap) ''function_capture''
     @ missing_if (cap_builtin_inventory cap) ''builtin_inventory''
     @ missing_if (cap_shell_native_history cap) ''shell_native_history''"

section \<open>Dispatch\<close>

text \<open>How the loop of a connection goes on after a message: with the next one, by leaving the loop
  (the clean-up follows), by returning at once through \<open>?\<close> (no clean-up), or not at all.\<close>

datatype loop_next = Continue | BreakLoop | ReturnEarly | Hang

record connection =
  cn_bound :: "uuid option"

definition send_or_return :: "server_message \<Rightarrow> daemon \<Rightarrow> daemon \<times> loop_next" where
  "send_or_return m s =
     (case send_then m done1 s of (s1, Done) \<Rightarrow> (s1, Continue) | (s1, _) \<Rightarrow> (s1, ReturnEarly))"

definition register_shell_message ::
  "uuid \<Rightarrow> register_shell \<Rightarrow> connection \<Rightarrow> daemon \<Rightarrow> daemon \<times> connection \<times> loop_next" where
  "register_shell_message fresh payload conn s =
     (let missing = missing_required_capabilities (rs_capabilities payload)
      in if missing \<noteq> []
         then (case send_or_return (ErrorMsg None BadProtocol
                      (''adapter missing required capabilities: '' @ join '', '' missing) None) s of
                 (s1, nx) \<Rightarrow> (s1, conn, nx))
         else (let session = \<lparr>ss_shell_pid = rs_shell_pid payload, ss_tty = rs_tty payload,
                     ss_shell_kind = rs_shell_kind payload, ss_shell_version = rs_shell_version payload,
                     ss_env_subset = rs_env_subset payload, ss_context = None\<rparr>;
                   s1 = s\<lparr>ds_registry := registry_insert fresh session (ds_registry s)\<rparr>
               in case send_or_return (ShellRegistered fresh required_capability_names) s1 of
                    (s2, nx) \<Rightarrow> (s2, conn\<lparr>cn_bound := Some fresh\<rparr>, nx)))"

definition after_handler :: "uuid \<Rightarrow> outcome \<Rightarrow> daemon \<times> loop_next" where
  "after_handler task_id r =
     (case r of (s, Done) \<Rightarrow> (s, Continue)
      | (s, Failed) \<Rightarrow> (cancel_and_clear_task task_id s, BreakLoop)
      | (s, _) \<Rightarrow> (s, Hang))"

definition on_connection :: "connection \<Rightarrow> daemon \<times> loop_next \<Rightarrow> daemon \<times> connection \<times> loop_next" where
  "on_connection conn r = (fst r, conn, snd r)"

definition after_report :: "bool \<Rightarrow> daemon \<Rightarrow> daemon \<times> loop_next" where
  "after_report ok s = (s, if ok then Continue else BreakLoop)"

text \<open>\<open>fresh\<close> is the identifier a registration draws, \<open>report_ok\<close> whether a report was delivered.\<close>

fun handle_message ::
  "handler_env \<Rightarrow> uuid \<Rightarrow> bool \<Rightarrow> client_message \<Rightarrow> connection \<Rightarrow> daemon
     \<Rightarrow> daemon \<times> connection \<times> loop_next" where
  "handle_message he fresh report_ok (RegisterShell payload) conn s =
     register_shell_message fresh payload conn s"
| "handle_message he fresh report_ok (ShellContext payload) conn s =
     (s\<lparr>ds_registry := registry_set_context (sx_shell_id payload) payload (ds_registry s),
        ds_detached := kv_insert (sx_shell_id payload) payload (ds_detached s)\<rparr>, conn, Continue)"
| "handle_message he fresh report_ok (StartTask payload) conn s =
     on_connection conn (after_handler (st_task_id payload) (process_start_task he payload s))"
| "handle_message he fresh report_ok (UserResponse payload) conn s =
     on_connection conn (after_handler (ur_task_id payload) (process_user_response he payload s))"
| "handle_message he fresh report_ok (Ack payload) conn s =
     on_connection conn (after_handler (ak_task_id payload) (process_ack he payload s))"
| "handle_message he fresh report_ok Status conn s = on_connection conn (after_report report_ok s)"
| "handle_message he fresh report_ok ProviderHealth conn s = on_connection conn (after_report report_ok s)"
| "handle_message he fresh report_ok Shutdown conn s = (s, conn, BreakLoop)"
| "handle_message he fresh report_ok Ping conn s = on_connection conn (send_or_return Pong s)"
| "handle_message he fresh report_ok (UnregisterShell shell_id) conn s =
     (let s1 = cancel_and_clear_shell_tasks shell_id s
      in (s1\<lparr>ds_registry := registry_remove shell_id (ds_registry s1)\<rparr>,
          if cn_bound conn = Some shell_id then conn\<lparr>cn_bound := None\<rparr> else conn, Continue))"
| "handle_message he fresh report_ok (ObservedCommand payload) conn s =
     (process_observed_command he payload s, conn, Continue)"
| "handle_message he fresh report_ok (Reindex mode) conn s = on_connection conn (after_report report_ok s)"
| "handle_message he fresh report_ok (Retrieve payload) conn s = on_connection conn (after_report report_ok s)"

definition connection_cleanup :: "connection \<Rightarrow> daemon \<Rightarrow> daemon" where
  "connection_cleanup conn s =
     (case cn_bound conn of
        None \<Rightarrow> s
      | Some shell_id \<Rightarrow>
          (let s1 = cancel_and_clear_shell_tasks shell_id s
           in s1\<lparr>ds_registry := registry_remove shell_id (ds_registry s1)\<rparr>))"

section \<open>The system\<close>

text \<open>All connections of the daemon, by number.\<close>

record system =
  sy_daemon :: daemon
  sy_connections :: "(nat \<times> connection) list"

text \<open>A connection opens; a message arrives on it, with the number of replies that will still go
  through; its stream ends or breaks; the sweeper runs; time passes.\<close>

datatype event =
    Open nat
  | Receive nat "nat option" uuid bool client_message
  | EndOfStream nat
  | Sweep
  | Tick nat

definition close_connection :: "nat \<Rightarrow> daemon \<Rightarrow> system \<Rightarrow> system" where
  "close_connection c s y =
     y\<lparr>sy_daemon := s, sy_connections := kv_remove c (sy_connections y)\<rparr>"

definition receive ::
  "handler_env \<Rightarrow> nat \<Rightarrow> nat option \<Rightarrow> uuid \<Rightarrow> bool \<Rightarrow> client_message \<Rightarrow> connection \<Rightarrow> system
     \<Rightarrow> system option" where
  "receive he c link fresh report_ok m conn y =
     (case handle_message he fresh report_ok m conn ((sy_daemon y)\<lparr>ds_link := link\<rparr>) of
        (s, conn1, Continue) \<Rightarrow>
          Some (y\<lparr>sy_daemon := s, sy_connections := kv_insert c conn1 (sy_connections y)\<rparr>)
      | (s, conn1, BreakLoop) \<Rightarrow> Some (close_connection c (connection_cleanup conn1 s) y)
      | (s, conn1, ReturnEarly) \<Rightarrow> Some (close_connection c s y)
      | (s, conn1, Hang) \<Rightarrow> None)"

fun system_step :: "handler_env \<Rightarrow> event \<Rightarrow> system \<Rightarrow> system option" where
  "system_step he (Open c) y =
     (case map_of (sy_connections y) c of
        None \<Rightarrow> Some (y\<lparr>sy_connections := kv_insert c \<lparr>cn_bound = None\<rparr> (sy_connections y)\<rparr>)
      | Some conn \<Rightarrow> None)"
| "system_step he (Receive c link fresh report_ok m) y =
     (case map_of (sy_connections y) c of
        None \<Rightarrow> None
      | Some conn \<Rightarrow> receive he c link fresh report_ok m conn y)"
| "system_step he (EndOfStream c) y =
     (case map_of (sy_connections y) c of
        None \<Rightarrow> None
      | Some conn \<Rightarrow> Some (close_connection c (connection_cleanup conn (sy_daemon y)) y))"
| "system_step he Sweep y = Some (y\<lparr>sy_daemon := expire_timed_out_tasks (sy_daemon y)\<rparr>)"
| "system_step he (Tick n) y =
     Some (y\<lparr>sy_daemon := (sy_daemon y)\<lparr>ds_now := ds_now (sy_daemon y) + n\<rparr>\<rparr>)"

definition initial_daemon :: "app_config \<Rightarrow> daemon" where
  "initial_daemon cfg =
     \<lparr>ds_config = cfg, ds_now = 0, ds_tasks = [], ds_timed_out = [], ds_conversations = [],
      ds_overrides = [], ds_sessions = [], ds_registry = [], ds_detached = [], ds_observed = [],
      ds_sent = [], ds_cancelled = [], ds_link = None\<rparr>"

definition initial_system :: "app_config \<Rightarrow> system" where
  "initial_system cfg = \<lparr>sy_daemon = initial_daemon cfg, sy_connections = []\<rparr>"

end
