(* ===== verification/Daemon_Props.thy ===== *)
theory Daemon_Props
  imports Daemon_State
begin

text \<open>
  Properties of the daemon's task state: session history is trimmed to the newest turns that fit,
  clearing a task or a shell leaves nothing of it behind and touches nothing else, and a task that
  timed out is moved aside once and reported once.
\<close>

section \<open>Well-formed states\<close>

text \<open>The maps have one entry per key and a task is stored under its own id.\<close>

definition keyed_by_id :: "(uuid \<times> in_flight_task) list \<Rightarrow> bool" where
  "keyed_by_id tasks \<longleftrightarrow> list_all (\<lambda>(k, t). ift_task_id t = k) tasks"

definition daemon_wf :: "daemon \<Rightarrow> bool" where
  "daemon_wf s \<longleftrightarrow> kv_wf (ds_tasks s) \<and> keyed_by_id (ds_tasks s) \<and> kv_wf (ds_timed_out s)
     \<and> kv_wf (ds_conversations s) \<and> kv_wf (ds_registry s) \<and> kv_wf (ds_overrides s)"

lemma keyed_by_id_insert:
  "keyed_by_id tasks \<Longrightarrow> ift_task_id t = k \<Longrightarrow> keyed_by_id (kv_insert k t tasks)"
  unfolding keyed_by_id_def by (induction tasks) auto

lemma keyed_by_id_filter: "keyed_by_id tasks \<Longrightarrow> keyed_by_id (filter P tasks)"
  by (auto simp: keyed_by_id_def list_all_iff)

lemma keyed_by_id_remove: "keyed_by_id tasks \<Longrightarrow> keyed_by_id (kv_remove k tasks)"
  unfolding kv_remove_def by (rule keyed_by_id_filter)

lemma keyed_by_id_remove_all: "keyed_by_id tasks \<Longrightarrow> keyed_by_id (kv_remove_all ks tasks)"
  unfolding kv_remove_all_def by (rule keyed_by_id_filter)

lemma keyed_by_id_lookup: "keyed_by_id tasks \<Longrightarrow> map_of tasks k = Some t \<Longrightarrow> ift_task_id t = k"
  by (auto simp: keyed_by_id_def list_all_iff dest: map_of_SomeD)

lemma kv_wf_remove_all: "kv_wf kvs \<Longrightarrow> kv_wf (kv_remove_all ks kvs)"
  unfolding kv_remove_all_def by (rule kv_wf_filter)

lemma kv_wf_modify: "kv_wf kvs \<Longrightarrow> kv_wf (kv_modify k f kvs)"
  by (simp add: fst_kv_modify del: map_map)

lemma kv_wf_update_or: "kv_wf kvs \<Longrightarrow> kv_wf (kv_update_or k d f kvs)"
  unfolding kv_update_or_def by (rule kv_wf_insert)

lemmas kv_wf_intros = kv_wf_insert kv_wf_remove kv_wf_remove_all kv_wf_modify kv_wf_update_or kv_wf_filter
lemmas keyed_intros = keyed_by_id_insert keyed_by_id_remove keyed_by_id_remove_all keyed_by_id_filter

section \<open>Trimming a session\<close>

definition plain_tokens :: "session_conversation \<Rightarrow> nat" where
  "plain_tokens conv = estimate_tokens (sv_system_prompt conv) + sum_list (map turn_tokens (sv_turns conv))"

lemma session_tokens_fold:
  assumes "n + sum_list (map turn_tokens ts) \<le> usize_max"
  shows "foldl (\<lambda>tot t. usize_sat_add (usize_sat_add tot (estimate_tokens (sn_user t)))
           (estimate_tokens (sn_assistant t))) n ts = n + sum_list (map turn_tokens ts)"
  using assms by (induction ts arbitrary: n) (simp_all add: usize_sat_add_def turn_tokens_def)

lemma session_tokens_plain:
  "plain_tokens conv \<le> usize_max \<Longrightarrow> session_tokens conv = plain_tokens conv"
  using session_tokens_fold unfolding session_tokens_def plain_tokens_def by simp

lemma drop_old_turns_spec:
  assumes "tot = n + sum_list (map turn_tokens ts)"
  shows "\<exists>k \<le> length ts. drop_old_turns budget tot ts = drop k ts
    \<and> (k = length ts \<or> n + sum_list (map turn_tokens (drop k ts)) \<le> budget)
    \<and> (\<forall>j < k. budget < n + sum_list (map turn_tokens (drop j ts)))"
  using assms
proof (induction ts arbitrary: tot)
  case Nil
  then show ?case by simp
next
  case (Cons t ts)
  show ?case
  proof (cases "budget < tot")
    case False
    then show ?thesis using Cons.prems by (intro exI [of _ 0]) simp
  next
    case True
    let ?tot = "tot - estimate_tokens (sn_user t) - estimate_tokens (sn_assistant t)"
    have "?tot = n + sum_list (map turn_tokens ts)" using Cons.prems by (simp add: turn_tokens_def [of t])
    from Cons.IH [OF this] obtain k where k: "k \<le> length ts"
      "drop_old_turns budget ?tot ts = drop k ts"
      "k = length ts \<or> n + sum_list (map turn_tokens (drop k ts)) \<le> budget"
      "\<forall>j < k. budget < n + sum_list (map turn_tokens (drop j ts))" by blast
    have "budget < n + sum_list (map turn_tokens (drop j (t # ts)))" if "j < Suc k" for j
      using that k(4) True Cons.prems by (cases j) simp_all
    then show ?thesis using k True by (intro exI [of _ "Suc k"]) simp
  qed
qed

text \<open>Trimming a session keeps the system prompt and exactly the newest turns: the fewest
  oldest turns are dropped such that the conversation fits the token budget (or no turn is left),
  whenever the estimate of the whole conversation fits a machine word.\<close>

theorem trim_keeps_newest:
  assumes "plain_tokens conv \<le> usize_max"
  shows "\<exists>k \<le> length (sv_turns conv).
     trim_session_conversation budget conv = conv\<lparr>sv_turns := drop k (sv_turns conv)\<rparr>
     \<and> (k = length (sv_turns conv) \<or> session_tokens (trim_session_conversation budget conv) \<le> budget)
     \<and> (\<forall>j < k. budget < session_tokens (conv\<lparr>sv_turns := drop j (sv_turns conv)\<rparr>))"
proof -
  let ?n = "estimate_tokens (sv_system_prompt conv)"
  have tok: "session_tokens (conv\<lparr>sv_turns := drop j (sv_turns conv)\<rparr>)
      = ?n + sum_list (map turn_tokens (drop j (sv_turns conv)))" for j
  proof -
    have "sum_list (map turn_tokens (drop j (sv_turns conv))) \<le> sum_list (map turn_tokens (sv_turns conv))"
      using sum_list_append [of "map turn_tokens (take j (sv_turns conv))" "map turn_tokens (drop j (sv_turns conv))"]
      by (simp flip: map_append)
    with assms have "plain_tokens (conv\<lparr>sv_turns := drop j (sv_turns conv)\<rparr>) \<le> usize_max"
      by (simp add: plain_tokens_def)
    from session_tokens_plain [OF this] show ?thesis by (simp add: plain_tokens_def)
  qed
  have "session_tokens conv = ?n + sum_list (map turn_tokens (sv_turns conv))"
    using session_tokens_plain [OF assms] by (simp add: plain_tokens_def)
  from drop_old_turns_spec [OF this, of budget] show ?thesis
    unfolding trim_session_conversation_def by (auto simp: tok)
qed

definition sample_turn :: "string \<Rightarrow> session_turn" where
  "sample_turn t = \<lparr>sn_user = t, sn_assistant = t\<rparr>"

theorem trim_keeps_newest_witness:
  "sv_turns (trim_session_conversation 4 \<lparr>sv_system_prompt = ''s'',
     sv_turns = [sample_turn ''abcdefgh'', sample_turn ''x'']\<rparr>) = [sample_turn ''x'']
   \<and> session_tokens (trim_session_conversation 4 \<lparr>sv_system_prompt = ''s'',
     sv_turns = [sample_turn ''abcdefgh'', sample_turn ''x'']\<rparr>) \<le> 4"
proof -
  let ?ts = "[sample_turn ''abcdefgh'', sample_turn ''x'']"
  let ?c = "\<lparr>sv_system_prompt = ''s'', sv_turns = ?ts\<rparr>"
  have p: "plain_tokens ?c = 7" by code_simp
  then have le: "plain_tokens ?c \<le> usize_max" by (simp add: usize_max_def)
  have "drop_old_turns 4 7 ?ts = [sample_turn ''x'']" by code_simp
  then have "sv_turns (trim_session_conversation 4 ?c) = [sample_turn ''x'']"
    by (simp add: trim_session_conversation_def session_tokens_plain [OF le] p)
  with trim_keeps_newest [OF le, of 4] show ?thesis by auto
qed

section \<open>Clearing tasks\<close>

lemma clear_task_state_fields [simp]:
  "ds_tasks (clear_task_state k s) = kv_remove k (ds_tasks s)"
  "ds_timed_out (clear_task_state k s) = kv_remove k (ds_timed_out s)"
  "ds_conversations (clear_task_state k s) = kv_remove k (ds_conversations s)"
  "ds_sent (clear_task_state k s) = ds_sent s"
  "ds_config (clear_task_state k s) = ds_config s"
  "ds_registry (clear_task_state k s) = ds_registry s"
  "ds_sessions (clear_task_state k s) = ds_sessions s"
  "ds_now (clear_task_state k s) = ds_now s"
  "ds_cancelled (clear_task_state k s) = ds_cancelled s"
  "ds_observed (clear_task_state k s) = ds_observed s"
  "ds_link (clear_task_state k s) = ds_link s"
  by (simp_all add: clear_task_state_def Let_def split: option.split)

lemma clear_task_state_overrides:
  "ds_overrides (clear_task_state k s) =
     (case map_of (ds_tasks s) k of
        Some task \<Rightarrow>
          if ap_approve_all_resets_per_task (approval s)
          then kv_remove (ift_shell_id task) (ds_overrides s) else ds_overrides s
      | None \<Rightarrow> ds_overrides s)"
  by (simp add: clear_task_state_def Let_def split: option.split)

lemma cancel_provider_task_fields [simp]:
  "ds_tasks (cancel_provider_task k s) = ds_tasks s"
  "ds_timed_out (cancel_provider_task k s) = ds_timed_out s"
  "ds_conversations (cancel_provider_task k s) = ds_conversations s"
  "ds_overrides (cancel_provider_task k s) = ds_overrides s"
  "ds_sent (cancel_provider_task k s) = ds_sent s"
  "ds_config (cancel_provider_task k s) = ds_config s"
  "ds_registry (cancel_provider_task k s) = ds_registry s"
  "ds_sessions (cancel_provider_task k s) = ds_sessions s"
  "ds_now (cancel_provider_task k s) = ds_now s"
  "ds_observed (cancel_provider_task k s) = ds_observed s"
  "ds_link (cancel_provider_task k s) = ds_link s"
  by (simp_all add: cancel_provider_task_def)

lemma fold_cancel:
  "fold cancel_provider_task ids s = s\<lparr>ds_cancelled := ds_cancelled s @ ids\<rparr>"
  by (induction ids arbitrary: s) (simp_all add: cancel_provider_task_def)

lemma daemon_wf_clear: "daemon_wf s \<Longrightarrow> daemon_wf (clear_task_state k s)"
  by (auto simp: daemon_wf_def clear_task_state_overrides intro: kv_wf_intros keyed_intros split: option.split)

text \<open>Clearing a task removes its entry, its time-out record and its provider conversation and
  touches no other task's; the shell's approve-all override goes with it exactly when the
  configuration resets it per task, and stays otherwise.\<close>

theorem clear_task_state_exact:
  "let s' = clear_task_state k s
   in map_of (ds_tasks s') k = None \<and> map_of (ds_timed_out s') k = None
      \<and> map_of (ds_conversations s') k = None
      \<and> (\<forall>j \<in> - {k}. map_of (ds_tasks s') j = map_of (ds_tasks s) j
           \<and> map_of (ds_timed_out s') j = map_of (ds_timed_out s) j
           \<and> map_of (ds_conversations s') j = map_of (ds_conversations s) j)
      \<and> (\<forall>sh. map_of (ds_overrides s') sh =
           (if ap_approve_all_resets_per_task (approval s)
               \<and> map_option ift_shell_id (map_of (ds_tasks s) k) = Some sh
            then None else map_of (ds_overrides s) sh))
      \<and> ds_sent s' = ds_sent s \<and> ds_sessions s' = ds_sessions s"
  by (auto simp: Let_def kv_lookup clear_task_state_overrides split: option.split)

definition sample_task :: "uuid \<Rightarrow> uuid \<Rightarrow> bool \<Rightarrow> nat \<Rightarrow> in_flight_task" where
  "sample_task k sh waiting created =
     \<lparr>ift_task_id = k, ift_shell_id = sh, ift_mode = ''/p'', ift_original_prompt = ''list files'',
      ift_proposed_command = ''ls'', ift_classification = FreshCommandRequest,
      ift_classification_confidence = 1, ift_approval_override = False,
      ift_awaiting_clarification = waiting, ift_provider_continuation = False,
      ift_tool_round = 0, ift_created_at = created\<rparr>"

definition sample_config :: app_config where
  "sample_config =
     \<lparr>cf_approval = \<lparr>ap_mode = ''manual'', ap_critical_patterns = [''^rm ''], ap_approve_all_resets_per_task = True\<rparr>,
      cf_behavior = \<lparr>bh_allow_clarifications = True, bh_max_tool_rounds = 4, bh_max_planning_rounds = 2,
        bh_context_classifier_enabled = False, bh_clarification_timeout_secs = 60,
        bh_command_timeout_secs = 30\<rparr>,
      cf_web = \<lparr>wb_enabled = False, wb_expose_tools = False, wb_freshness_required_terms = []\<rparr>,
      cf_terminal_context = \<lparr>tc_enabled = True, tc_capture_all_interactive_commands = True,
        tc_redact_secrets = True\<rparr>,
      cf_tool_routing = \<lparr>tr_dynamic_exposure_enabled = True, tr_always_expose_execute = True,
        tr_always_expose_lookup_docs = True, tr_expose_terminal_context_only_when_needed = True,
        tr_expose_file_tools_for_local_questions = True, tr_expose_web_only_when_needed = True\<rparr>,
      cf_local_tools_enabled = True, cf_capture_enabled = True, cf_capture_redact_env = [],
      cf_validate_command_flags = True, cf_session_context_window_tokens = 4096\<rparr>"

definition sample_daemon :: "(uuid \<times> in_flight_task) list \<Rightarrow> nat \<Rightarrow> daemon" where
  "sample_daemon tasks now =
     \<lparr>ds_config = sample_config, ds_now = now, ds_tasks = tasks, ds_timed_out = [],
      ds_conversations = map (\<lambda>kv. (fst kv, [chat_user ''list files''])) tasks, ds_overrides = [],
      ds_sessions = [], ds_registry = [], ds_detached = [], ds_observed = [], ds_sent = [],
      ds_cancelled = [], ds_link = None\<rparr>"

theorem clear_task_state_exact_witness:
  "map_of (ds_tasks (clear_task_state 1 (sample_daemon [(1, sample_task 1 7 False 0), (2, sample_task 2 7 False 0)] 5))) 2
     = Some (sample_task 2 7 False 0)"
  using clear_task_state_exact [of 1 "sample_daemon [(1, sample_task 1 7 False 0), (2, sample_task 2 7 False 0)] 5"]
  unfolding Let_def by (simp add: sample_daemon_def)

section \<open>Disconnecting a shell\<close>

lemma in_shell_task_ids:
  "k \<in> set (shell_task_ids s sh) \<longleftrightarrow> (\<exists>j t. (j, t) \<in> set (ds_tasks s) \<and> ift_shell_id t = sh \<and> ift_task_id t = k)"
  by (force simp: shell_task_ids_def)

lemma shell_task_ids_lookup:
  assumes "daemon_wf s"
  shows "k \<in> set (shell_task_ids s sh) \<longleftrightarrow> (\<exists>t. map_of (ds_tasks s) k = Some t \<and> ift_shell_id t = sh)"
proof -
  have "kv_wf (ds_tasks s)" "keyed_by_id (ds_tasks s)" using assms by (simp_all add: daemon_wf_def)
  then show ?thesis
    unfolding in_shell_task_ids by (force simp: keyed_by_id_def list_all_iff dest: map_of_SomeD)
qed

lemma cancel_and_clear_shell_tasks_cases:
  "cancel_and_clear_shell_tasks sh s =
     (let ids = shell_task_ids s sh
      in if ids = [] then s
         else s\<lparr>ds_cancelled := ds_cancelled s @ ids, ds_tasks := kv_remove_all ids (ds_tasks s),
                ds_conversations := kv_remove_all ids (ds_conversations s),
                ds_timed_out := kv_remove_all ids (ds_timed_out s),
                ds_overrides := kv_remove sh (ds_overrides s)\<rparr>)"
  by (simp add: cancel_and_clear_shell_tasks_def Let_def fold_cancel)

lemma daemon_wf_clear_shell: "daemon_wf s \<Longrightarrow> daemon_wf (cancel_and_clear_shell_tasks sh s)"
  unfolding cancel_and_clear_shell_tasks_cases Let_def
  by (auto simp: daemon_wf_def intro: kv_wf_intros keyed_intros)

lemma kv_remove_all_Nil [simp]: "kv_remove_all [] kvs = kvs"
  by (simp add: kv_remove_all_def)

text \<open>When a shell disconnects, the tasks that go are exactly its own, each of them with its
  conversation and time-out record and after its provider request was cancelled; the tasks of
  other shells stay as they are. Its approve-all override is dropped only if it had a task.\<close>

theorem disconnect_clears_shell:
  assumes "daemon_wf s"
  shows "let s' = cancel_and_clear_shell_tasks sh s;
             own = (\<lambda>k. \<exists>t. map_of (ds_tasks s) k = Some t \<and> ift_shell_id t = sh)
     in (\<forall>k. map_of (ds_tasks s') k = (if own k then None else map_of (ds_tasks s) k)
          \<and> map_of (ds_conversations s') k = (if own k then None else map_of (ds_conversations s) k)
          \<and> map_of (ds_timed_out s') k = (if own k then None else map_of (ds_timed_out s) k))
        \<and> (\<exists>ids. ds_cancelled s' = ds_cancelled s @ ids \<and> set ids = Collect own)
        \<and> ds_overrides s' = (if \<exists>k. own k then kv_remove sh (ds_overrides s) else ds_overrides s)"
proof -
  note own = shell_task_ids_lookup [OF assms]
  let ?ids = "shell_task_ids s sh"
  have ne: "?ids \<noteq> [] \<longleftrightarrow> (\<exists>k t. map_of (ds_tasks s) k = Some t \<and> ift_shell_id t = sh)"
    using own by (metis ex_in_conv set_empty)
  have "set ?ids = {k. \<exists>t. map_of (ds_tasks s) k = Some t \<and> ift_shell_id t = sh}" using own by blast
  then show ?thesis
    unfolding cancel_and_clear_shell_tasks_cases Let_def
    using ne by (cases "?ids = []") (auto simp: kv_lookup)
qed

theorem disconnect_clears_shell_witness:
  "map_of (ds_tasks (cancel_and_clear_shell_tasks 7
     (sample_daemon [(1, sample_task 1 7 False 0), (2, sample_task 2 8 False 0)] 5))) 1 = None"
proof -
  let ?s = "sample_daemon [(1, sample_task 1 7 False 0), (2, sample_task 2 8 False 0)] 5"
  have "daemon_wf ?s" by (simp add: daemon_wf_def keyed_by_id_def sample_daemon_def sample_task_def)
  from disconnect_clears_shell [OF this, of 7] show ?thesis
    by (simp add: Let_def sample_daemon_def sample_task_def)
qed

section \<open>Time-outs\<close>

lemma expired_tasks_lookup:
  assumes "daemon_wf s"
  shows "(k, kind) \<in> set (expired_tasks s) \<longleftrightarrow>
     (\<exists>t. map_of (ds_tasks s) k = Some t \<and> timeout_kind s t = Some kind)"
proof -
  have "kv_wf (ds_tasks s)" using assms by (simp add: daemon_wf_def)
  then have "map_of (ds_tasks s) k = Some t \<longleftrightarrow> (k, t) \<in> set (ds_tasks s)" for t by simp
  then show ?thesis
    by (force simp: expired_tasks_def split: option.splits)
qed

lemma kv_wf_expired:
  assumes "kv_wf (ds_tasks s)"
  shows "kv_wf (expired_tasks s)"
proof -
  have eq: "map fst (concat (map (\<lambda>(k, t). case timeout_kind s t of Some kd \<Rightarrow> [(k, kd)] | None \<Rightarrow> []) kvs))
      = map fst (filter (\<lambda>kv. timeout_kind s (snd kv) \<noteq> None) kvs)" for kvs
    by (induction kvs) (auto split: option.split)
  show ?thesis unfolding expired_tasks_def eq by (rule distinct_map_filter [OF assms])
qed

definition record_expired :: "nat \<Rightarrow> (uuid \<times> task_timeout_kind) list \<Rightarrow> (uuid \<times> timed_out_task) list \<Rightarrow> (uuid \<times> timed_out_task) list" where
  "record_expired now expired = fold (\<lambda>(k, kd). kv_insert k \<lparr>tt_at = now, tt_kind = kd\<rparr>) expired"

lemma map_of_record_expired:
  "kv_wf expired \<Longrightarrow> map_of (record_expired now expired kvs) k =
     (case map_of expired k of Some kd \<Rightarrow> Some \<lparr>tt_at = now, tt_kind = kd\<rparr> | None \<Rightarrow> map_of kvs k)"
proof (induction expired arbitrary: kvs)
  case Nil
  then show ?case by (simp add: record_expired_def)
next
  case (Cons e es)
  obtain j kd where e: "e = (j, kd)" by (cases e)
  with Cons.prems have "map_of es j = None" by (simp add: map_of_eq_None_iff)
  then show ?case using Cons.IH [of "kv_insert j \<lparr>tt_at = now, tt_kind = kd\<rparr> kvs"] Cons.prems e
    by (auto simp: record_expired_def kv_lookup split: option.split)
qed

lemma kv_wf_record_expired: "kv_wf kvs \<Longrightarrow> kv_wf (record_expired now expired kvs)"
  unfolding record_expired_def by (induction expired arbitrary: kvs) (auto simp: kv_wf_insert)

lemma expire_fields:
  "ds_tasks (expire_timed_out_tasks s) = kv_remove_all (map fst (expired_tasks s)) (ds_tasks s)"
  "ds_conversations (expire_timed_out_tasks s) =
     (if expired_tasks s = [] then ds_conversations s
      else kv_remove_all (map fst (expired_tasks s)) (ds_conversations s))"
  "ds_timed_out (expire_timed_out_tasks s) =
     retain_timed_out s (record_expired (ds_now s) (expired_tasks s) (ds_timed_out s))"
  "ds_sent (expire_timed_out_tasks s) = ds_sent s"
  "ds_overrides (expire_timed_out_tasks s) = ds_overrides s"
  "ds_registry (expire_timed_out_tasks s) = ds_registry s"
  "ds_config (expire_timed_out_tasks s) = ds_config s"
  "ds_sessions (expire_timed_out_tasks s) = ds_sessions s"
  "ds_now (expire_timed_out_tasks s) = ds_now s"
  "ds_link (expire_timed_out_tasks s) = ds_link s"
  by (simp_all add: expire_timed_out_tasks_def Let_def retain_timed_out_def retention_ms_def
      record_expired_def case_prod_beta)

lemma kv_wf_retain: "kv_wf kvs \<Longrightarrow> kv_wf (retain_timed_out s kvs)"
  unfolding retain_timed_out_def by (rule kv_wf_filter)

lemma daemon_wf_expire: "daemon_wf s \<Longrightarrow> daemon_wf (expire_timed_out_tasks s)"
  by (auto simp: daemon_wf_def expire_fields intro: kv_wf_intros keyed_intros kv_wf_retain kv_wf_record_expired)

lemma map_of_filter_val:
  "kv_wf kvs \<Longrightarrow> map_of (filter (\<lambda>kv. P (snd kv)) kvs) k =
     (case map_of kvs k of Some v \<Rightarrow> if P v then Some v else None | None \<Rightarrow> None)"
proof (induction kvs)
  case (Cons kv kvs)
  then have "fst kv = k \<Longrightarrow> map_of kvs k = None" by (auto simp: map_of_eq_None_iff)
  with Cons show ?case by (auto split: option.split)
qed simp

lemma map_of_retain:
  "kv_wf kvs \<Longrightarrow> map_of (retain_timed_out s kvs) k =
     (case map_of kvs k of
        Some t \<Rightarrow> if ds_now s - tt_at t \<le> retention_ms s then Some t else None | None \<Rightarrow> None)"
  unfolding retain_timed_out_def by (rule map_of_filter_val)

text \<open>A sweep moves exactly the tasks whose time is up: such a task leaves the table with its
  conversation and gets a time-out record of its kind, the others stay; older records stay until
  their retention ends, which is never shorter than either time-out.\<close>

theorem expire_moves_exactly:
  assumes "daemon_wf s"
  shows "let s' = expire_timed_out_tasks s;
             up = (\<lambda>k. Option.bind (map_of (ds_tasks s) k) (timeout_kind s))
     in (\<forall>k. map_of (ds_tasks s') k = (if up k = None then map_of (ds_tasks s) k else None)
          \<and> map_of (ds_conversations s') k = (if up k = None then map_of (ds_conversations s) k else None)
          \<and> map_of (ds_timed_out s') k =
             (case up k of
                Some kind \<Rightarrow> Some \<lparr>tt_at = ds_now s, tt_kind = kind\<rparr>
              | None \<Rightarrow>
                  (case map_of (ds_timed_out s) k of
                     Some t \<Rightarrow> if ds_now s - tt_at t \<le> retention_ms s then Some t else None
                   | None \<Rightarrow> None)))
        \<and> clarification_timeout_ms s \<le> retention_ms s \<and> command_timeout_ms s \<le> retention_ms s"
proof -
  let ?up = "\<lambda>k. Option.bind (map_of (ds_tasks s) k) (timeout_kind s)"
  have wf: "kv_wf (ds_tasks s)" "kv_wf (ds_timed_out s)" using assms by (simp_all add: daemon_wf_def)
  have ex: "map_of (expired_tasks s) k = ?up k" for k
  proof (cases "?up k")
    case None
    then have "(k, kd) \<notin> set (expired_tasks s)" for kd
      using expired_tasks_lookup [OF assms] by (auto simp: bind_eq_None_conv)
    then show ?thesis using None by (auto simp: map_of_eq_None_iff)
  next
    case (Some kd)
    then have "(k, kd) \<in> set (expired_tasks s)"
      using expired_tasks_lookup [OF assms] by (auto simp: bind_eq_Some_conv)
    then show ?thesis using Some kv_wf_expired [OF wf(1)] by simp
  qed
  have inx: "k \<in> fst ` set (expired_tasks s) \<longleftrightarrow> ?up k \<noteq> None" for k
    unfolding ex [symmetric] by (simp add: map_of_eq_None_iff)
  have none: "expired_tasks s = [] \<Longrightarrow> ?up k = None" for k using ex [of k] by simp
  show ?thesis
    unfolding Let_def expire_fields map_of_retain [OF kv_wf_record_expired [OF wf(2)]]
      map_of_record_expired [OF kv_wf_expired [OF wf(1)]] ex
    using none inx by (auto simp: kv_lookup retention_ms_def clarification_timeout_ms_def
        command_timeout_ms_def split: option.splits)
qed

theorem expire_moves_exactly_witness:
  "ds_timed_out (expire_timed_out_tasks (sample_daemon [(1, sample_task 1 7 True 0), (2, sample_task 2 7 False 0)] 30000))
     = [(2, \<lparr>tt_at = 30000, tt_kind = CommandTimeout\<rparr>)]
   \<and> map_of (ds_tasks (expire_timed_out_tasks
       (sample_daemon [(1, sample_task 1 7 True 0), (2, sample_task 2 7 False 0)] 30000))) 2 = None"
proof -
  let ?s = "sample_daemon [(1, sample_task 1 7 True 0), (2, sample_task 2 7 False 0)] 30000"
  note ev = sample_daemon_def sample_task_def sample_config_def timeout_kind_def
    clarification_timeout_ms_def command_timeout_ms_def
  have "daemon_wf ?s" by (simp add: daemon_wf_def keyed_by_id_def ev)
  from expire_moves_exactly [OF this] have "map_of (ds_tasks (expire_timed_out_tasks ?s)) 2 = None"
    by (simp add: Let_def ev)
  moreover have "ds_timed_out (expire_timed_out_tasks ?s) = [(2, \<lparr>tt_at = 30000, tt_kind = CommandTimeout\<rparr>)]"
    by (simp add: expire_fields expired_tasks_def record_expired_def retain_timed_out_def ev)
  ultimately show ?thesis by simp
qed

end
