(* ===== verification/Daemon_Invariant.thy ===== *)
theory Daemon_Invariant
  imports Proposal Daemon_Props
begin

text \<open>
  The interface between the daemon's handlers and the invariants stated of them. A client of the
  locale says what a property keeps under the primitive updates (a message sent, a waiting task
  stored, a conversation changed, ...); the locale lifts it through every path of the planning loop,
  the orchestrator's actions and, in the theory of the handlers, through every handler. The
  instance is \<open>daemon_safe\<close>: what was proposed or stored passed the safety floor, and critical
  commands are marked and need approval.
\<close>

definition task_modify :: "uuid \<Rightarrow> (in_flight_task \<Rightarrow> in_flight_task) \<Rightarrow> daemon \<Rightarrow> daemon" where
  "task_modify task_id f s = s\<lparr>ds_tasks := kv_modify task_id f (ds_tasks s)\<rparr>"

text \<open>An update of a task that keeps its id, stores no unchecked command and dates the task no later
  than now.\<close>

definition checked_update :: "regex_engine \<Rightarrow> nat \<Rightarrow> (in_flight_task \<Rightarrow> in_flight_task) \<Rightarrow> bool" where
  "checked_update eng now f \<longleftrightarrow>
     (\<forall>t. ift_task_id (f t) = ift_task_id t
        \<and> (ift_proposed_command (f t) = ift_proposed_command t
           \<or> matches_safety_floor eng (ift_proposed_command (f t)) = None)
        \<and> (ift_created_at (f t) = ift_created_at t \<or> ift_created_at (f t) = now))"

text \<open>A call of the planning loop that was set up under a configuration.\<close>

definition call_for :: "propose_env \<Rightarrow> app_config \<Rightarrow> propose_call \<Rightarrow> bool" where
  "call_for env cfg c \<longleftrightarrow>
     px_matcher c = from_patterns (pe_engine env) (ap_critical_patterns (cf_approval cfg))"

lemma link_unchanged: "ds_link s = l \<Longrightarrow> s\<lparr>ds_sent := x, ds_link := l\<rparr> = s\<lparr>ds_sent := x\<rparr>"
  by (cases s) simp

locale daemon_invariant =
  fixes inv :: "daemon \<Rightarrow> bool"
    and env :: propose_env
    and cfg :: app_config
  assumes config: "inv s \<Longrightarrow> ds_config s = cfg"
    and conversations_wf: "inv s \<Longrightarrow> kv_wf (ds_conversations s)"
    and quiet_send: "inv s \<Longrightarrow> \<forall>p. m \<noteq> ProposedCommand p \<Longrightarrow>
      inv (s\<lparr>ds_sent := ds_sent s @ [m], ds_link := l\<rparr>)"
    and insert_task: "inv s \<Longrightarrow> ift_proposed_command t = [] \<Longrightarrow> ift_created_at t = ds_now s \<Longrightarrow>
      inv (task_insert t s)"
    and modify_task: "inv s \<Longrightarrow> checked_update (pe_engine env) (ds_now s) f \<Longrightarrow> inv (task_modify k f s)"
    and remove_task: "inv s \<Longrightarrow> inv (s\<lparr>ds_tasks := kv_remove k (ds_tasks s)\<rparr>)"
    and conversations: "inv s \<Longrightarrow> kv_wf cs \<Longrightarrow> inv (s\<lparr>ds_conversations := cs\<rparr>)"
    and sessions: "inv s \<Longrightarrow> inv (s\<lparr>ds_sessions := ss\<rparr>)"
    and cancelled: "inv s \<Longrightarrow> inv (s\<lparr>ds_cancelled := ks\<rparr>)"
    and observed: "inv s \<Longrightarrow> inv (s\<lparr>ds_observed := os\<rparr>)"
    and overrides: "inv s \<Longrightarrow> inv (s\<lparr>ds_overrides := kv_insert sh b (ds_overrides s)\<rparr>)"
    and consumed: "inv s \<Longrightarrow> inv (fst (consume_timed_out_task k s))"
    and expired: "inv s \<Longrightarrow> inv (expire_timed_out_tasks s)"
    and cleared: "inv s \<Longrightarrow> inv (clear_task_state k s)"
    and shell_cleared: "inv s \<Longrightarrow> inv (cancel_and_clear_shell_tasks sh s)"
    and registry_change: "inv s \<Longrightarrow> kv_wf reg \<Longrightarrow> inv (s\<lparr>ds_registry := reg\<rparr>)"
    and registry_wf: "inv s \<Longrightarrow> kv_wf (ds_registry s)"
    and detached: "inv s \<Longrightarrow> inv (s\<lparr>ds_detached := det\<rparr>)"
    and clock: "inv s \<Longrightarrow> inv (s\<lparr>ds_now := ds_now s + n\<rparr>)"
    and link: "inv s \<Longrightarrow> inv (s\<lparr>ds_link := l\<rparr>)"
    and proposed: "inv s \<Longrightarrow> matches_safety_floor (pe_engine env) cmd = None \<Longrightarrow> call_for env cfg c \<Longrightarrow>
      dk_parsed d = parse_command cmd \<Longrightarrow>
      inv (task_insert (proposed_task c cmd (ds_now s))
        (s\<lparr>ds_sent := ds_sent s @ [ProposedCommand (build_proposal env c cmd rnd lf d s)], ds_link := l\<rparr>))"
begin

lemma send_keeps:
  assumes "inv s" "\<forall>p. m \<noteq> ProposedCommand p" "\<And>s. inv s \<Longrightarrow> inv (fst (k s))"
  shows "inv (fst (send_then m k s))"
proof (cases "ds_link s")
  case None
  have "inv (s\<lparr>ds_sent := ds_sent s @ [m], ds_link := None\<rparr>)" using assms(1,2) by (rule quiet_send)
  then have "inv (s\<lparr>ds_sent := ds_sent s @ [m]\<rparr>)" by (simp only: link_unchanged [OF None])
  with None assms(3) show ?thesis by (simp add: send_then_def)
next
  case (Some n)
  show ?thesis
  proof (cases n)
    case 0
    with Some assms(1) show ?thesis by (simp add: send_then_def)
  next
    case (Suc j)
    have "inv (s\<lparr>ds_sent := ds_sent s @ [m], ds_link := Some j\<rparr>)" using assms(1,2) by (rule quiet_send)
    with Some Suc assms(3) show ?thesis by (simp add: send_then_def)
  qed
qed

lemma done_keeps: "inv s \<Longrightarrow> inv (fst (done1 s))"
  by (simp add: done1_def)

lemma push_keeps: "inv s \<Longrightarrow> inv (conversation_push k m s)"
  unfolding conversation_push_def by (intro conversations kv_wf_update_or conversations_wf)

lemma push_present_keeps: "inv s \<Longrightarrow> inv (conversation_push_if_present k m s)"
  unfolding conversation_push_if_present_def by (intro conversations kv_wf_modify conversations_wf)

lemma drop_keeps: "inv s \<Longrightarrow> inv (drop_conversation k s)"
  unfolding drop_conversation_def by (intro conversations kv_wf_remove conversations_wf)

lemma cancel_keeps: "inv s \<Longrightarrow> inv (cancel_provider_task k s)"
  unfolding cancel_provider_task_def by (rule cancelled)

lemma cancel_clear_keeps: "inv s \<Longrightarrow> inv (cancel_and_clear_task k s)"
  unfolding cancel_and_clear_task_def by (intro cleared cancel_keeps)

lemma append_turn_keeps: "inv s \<Longrightarrow> inv (append_session_turn sh u a s)"
  by (simp add: append_session_turn_def sessions)

lemma append_turn_mode_keeps: "inv s \<Longrightarrow> inv (append_session_turn_if_session_mode m sh u a s)"
  by (simp add: append_session_turn_if_session_mode_def append_turn_keeps)

lemma session_messages_keeps: "inv s \<Longrightarrow> inv (fst (session_messages_for_shell sh p s))"
  by (simp add: session_messages_for_shell_def Let_def sessions)

lemma ask_user_keeps: "inv s \<Longrightarrow> inv (fst (ask_user payload cls ov cont r q s))"
  unfolding ask_user_def
  by (intro send_keeps done_keeps insert_task) (simp_all add: waiting_task_def)

lemmas keeps = send_keeps done_keeps push_keeps push_present_keeps drop_keeps cancel_keeps
  cancel_clear_keeps append_turn_keeps append_turn_mode_keeps session_messages_keeps ask_user_keeps
  cleared

lemma refuse_floor_keeps: "inv s \<Longrightarrow> inv (fst (refuse_floor c m s))"
  unfolding refuse_floor_def Let_def
  by (intro send_keeps) (auto intro!: keeps)

lemma rounds_exhausted_keeps: "inv s \<Longrightarrow> inv (fst (rounds_exhausted c d s))"
  unfolding rounds_exhausted_def Let_def by (auto intro!: keeps)

lemma no_revision_keeps: "inv s \<Longrightarrow> inv (fst (no_revision c d s))"
  unfolding no_revision_def Let_def by (auto intro!: keeps)

lemma finish_proposal_keeps:
  assumes "inv s" "matches_safety_floor (pe_engine env) cmd = None" "call_for env cfg c"
    "dk_parsed d = parse_command cmd"
  shows "inv (fst (finish_proposal env c cmd rnd lf d s))"
proof (cases "ds_link s")
  case None
  then show ?thesis
    using proposed [OF assms, where rnd = rnd and lf = lf and l = None]
    by (simp add: link_unchanged finish_proposal_def send_then_def done1_def)
next
  case (Some n)
  then show ?thesis using assms(1) proposed [OF assms, where rnd = rnd and lf = lf and l = "Some (n - 1)"]
    by (cases n) (simp_all add: finish_proposal_def send_then_def done1_def)
qed

definition keeps_orchestrator :: "orchestrator \<Rightarrow> bool" where
  "keeps_orchestrator orch \<longleftrightarrow>
     (\<forall>payload session cls prompt continuation s. inv s \<longrightarrow>
        inv (fst (orch payload session cls prompt continuation s)))"

definition keeps_proposer :: "proposer \<Rightarrow> bool" where
  "keeps_proposer propose \<longleftrightarrow>
     (\<forall>payload session continuation cls plan s. inv s \<longrightarrow>
        inv (fst (propose payload session continuation cls plan s)))"

lemma after_orchestration_keeps:
  assumes "inv (fst r)" "\<And>s. inv s \<Longrightarrow> inv (fst (h s))" "\<And>s. inv s \<Longrightarrow> inv (fst (u s))"
  shows "inv (fst (after_orchestration h u r))"
  using assms by (cases r) (auto simp: after_orchestration_def split: orchestration_result.split bool.split)

lemma web_fallback_keeps:
  assumes "inv s" "keeps_orchestrator orch" "\<And>s. inv s \<Longrightarrow> inv (fst (k s))"
  shows "inv (fst (web_fallback orch c d k s))"
  unfolding web_fallback_def using assms
  by (auto intro!: after_orchestration_keeps done_keeps simp: keeps_orchestrator_def)

lemma redraft_keeps:
  assumes "inv s"
  shows "inv (fst (provider_redraft_from_validation env rnd k s))"
  unfolding provider_redraft_from_validation_def Let_def
  using assms by (auto intro!: keeps split: option.split)

lemma try_redraft_keeps:
  assumes "inv s" "\<And>cmd' s. inv s \<Longrightarrow> inv (fst (again cmd' s))" "\<And>s. inv s \<Longrightarrow> inv (fst (k s))"
  shows "inv (fst (try_redraft env c cmd rnd again k s))"
proof -
  obtain s1 r where r: "provider_redraft_from_validation env rnd (px_task_id c) s = (s1, r)" by fastforce
  then have "inv s1" using redraft_keeps [OF assms(1), of rnd "px_task_id c"] by simp
  then show ?thesis using assms r by (auto simp: try_redraft_def split: option.split)
qed

lemma report_unknown_keeps:
  assumes "inv s" "\<And>s. inv s \<Longrightarrow> inv (fst (k s))"
  shows "inv (fst (report_unknown c d k s))"
  using assms by (auto simp: report_unknown_def intro!: send_keeps)

lemma revise_or_stop_keeps:
  assumes "inv s" "\<And>cmd' s. inv s \<Longrightarrow> inv (fst (again cmd' s))"
  shows "inv (fst (revise_or_stop env c cmd rnd d again s))"
  unfolding revise_or_stop_def
  using assms by (auto intro!: rounds_exhausted_keeps no_revision_keeps split: option.split)

lemma reject_draft_keeps:
  assumes "inv s" "keeps_orchestrator orch" "\<And>cmd' s. inv s \<Longrightarrow> inv (fst (again cmd' s))"
  shows "inv (fst (reject_draft env orch c cmd rnd d again s))"
  unfolding reject_draft_def Let_def
  by (rule report_unknown_keeps [OF push_keeps [OF assms(1)]], rule web_fallback_keeps [OF _ assms(2)], assumption,
      rule try_redraft_keeps [OF _ assms(3)]) (auto intro!: revise_or_stop_keeps assms(3))

lemma propose_round_keeps:
  assumes "inv s" "keeps_orchestrator orch" "call_for env cfg c"
    "\<And>cmd' fs s. inv s \<Longrightarrow> inv (fst (again cmd' fs s))"
  shows "inv (fst (propose_round env orch c cmd rnd lf again s))"
proof (cases "matches_safety_floor (pe_engine env) cmd")
  case None
  have "dk_parsed (inspect_draft env c cmd rnd s) = parse_command cmd"
    by (simp add: inspect_draft_def Let_def)
  with None show ?thesis
    unfolding propose_round_def
    using finish_proposal_keeps [OF assms(1) None assms(3)] reject_draft_keeps [OF assms(1,2)] assms(4)
    by (simp add: Let_def)
next
  case (Some m)
  then show ?thesis by (simp add: propose_round_def refuse_floor_keeps [OF assms(1)])
qed

lemma perform_action_keeps:
  assumes "inv s" "keeps_proposer propose"
  shows "inv (fst (perform_action propose payload session cls a s))"
  using assms by (cases a) (auto intro!: keeps conversations kv_wf_insert conversations_wf simp: keeps_proposer_def)

lemma run_actions_keeps:
  assumes "inv s" "keeps_proposer propose"
  shows "inv (fst (run_actions propose held payload session cls as result s))"
  using assms(1)
proof (induction as arbitrary: s)
  case Nil
  then show ?case by simp
next
  case (Cons a as)
  obtain s1 h where r: "perform_action propose payload session cls a s = (s1, h)" by fastforce
  then have "inv s1" using perform_action_keeps [OF Cons.prems assms(2)] by (metis fst_conv)
  with r Cons show ?case by (cases h) auto
qed

lemma orchestrate_keeps: "keeps_proposer propose \<Longrightarrow> keeps_orchestrator (orchestrate propose script held)"
  unfolding keeps_orchestrator_def orchestrate_def by (auto intro: run_actions_keeps split: prod.split)

lemma propose_loop_keeps:
  "inv s \<Longrightarrow> call_for env cfg c \<Longrightarrow> inv (fst (propose_loop n env script c cmd rnd lf s))"
proof (induction n arbitrary: c cmd rnd lf s)
  case 0
  then show ?case by simp
next
  case (Suc n)
  have "keeps_proposer (propose_with (propose_loop n env script) env)"
    unfolding keeps_proposer_def propose_with_def
    using Suc.IH by (auto simp: call_for_def propose_setup_def Let_def config split: prod.split option.split)
  then have "keeps_orchestrator (orchestrate (propose_with (propose_loop n env script) env) script False)"
    by (rule orchestrate_keeps)
  from propose_round_keeps [OF Suc.prems(1) this Suc.prems(2)] Suc.IH Suc.prems(2) show ?case by simp
qed

lemma propose_keeps: "keeps_proposer (propose_command_for_execution n env script)"
  unfolding keeps_proposer_def propose_command_for_execution_def propose_with_def
  using propose_loop_keeps
  by (auto simp: call_for_def propose_setup_def Let_def config split: prod.split option.split)

lemma orchestration_keeps: "keeps_orchestrator (try_provider_orchestration n env script held)"
  unfolding try_provider_orchestration_def by (rule orchestrate_keeps [OF propose_keeps])

end

end
