(* ===== verification/Handler_Invariant.thy ===== *)
theory Handler_Invariant
  imports Connections Daemon_Invariant
begin

text \<open>
  The interface \<open>daemon_invariant\<close> lifted through the handlers of all messages and through the
  connections: every handler keeps every invariant that the primitive updates keep.
\<close>

lemma checked_update_keep:
  "(\<And>t. ift_task_id (f t) = ift_task_id t) \<Longrightarrow> (\<And>t. ift_proposed_command (f t) = ift_proposed_command t)
     \<Longrightarrow> (\<And>t. ift_created_at (f t) = ift_created_at t \<or> ift_created_at (f t) = now)
     \<Longrightarrow> checked_update eng now f"
  by (simp add: checked_update_def)

lemma checked_update_edit:
  "(\<And>t. ift_task_id (f t) = ift_task_id t) \<Longrightarrow> (\<And>t. ift_proposed_command (f t) = cmd)
     \<Longrightarrow> (\<And>t. ift_created_at (f t) = ift_created_at t \<or> ift_created_at (f t) = now)
     \<Longrightarrow> matches_safety_floor eng cmd = None \<Longrightarrow> checked_update eng now f"
  by (simp add: checked_update_def)

lemma touch_task_modify: "touch_task k f s = task_modify k (\<lambda>t. (f t)\<lparr>ift_created_at := ds_now s\<rparr>) s"
  by (simp add: touch_task_def task_modify_def)

context daemon_invariant
begin

lemma touch_keeps:
  assumes "inv s" "\<And>t. ift_task_id (f t) = ift_task_id t"
    "\<And>t. ift_proposed_command (f t) = ift_proposed_command t"
  shows "inv (touch_task k f s)"
  unfolding touch_task_modify
  by (rule modify_task [OF assms(1)], rule checked_update_keep) (simp_all add: assms)

lemma touch_edit_keeps:
  assumes "inv s" "\<And>t. ift_task_id (f t) = ift_task_id t"
    "\<And>t. ift_proposed_command (f t) = cmd" "matches_safety_floor (pe_engine env) cmd = None"
  shows "inv (touch_task k f s)"
  unfolding touch_task_modify
  by (rule modify_task [OF assms(1)], rule checked_update_edit [where cmd = cmd]) (simp_all add: assms)

lemma modify_keeps:
  assumes "inv s" "\<And>t. ift_task_id (f t) = ift_task_id t"
    "\<And>t. ift_proposed_command (f t) = ift_proposed_command t"
    "\<And>t. ift_created_at (f t) = ift_created_at t"
  shows "inv (s\<lparr>ds_tasks := kv_modify k f (ds_tasks s)\<rparr>)"
  unfolding task_modify_def [symmetric]
  by (rule modify_task [OF assms(1)], rule checked_update_keep) (simp_all add: assms)

lemma record_turn_keeps: "inv s \<Longrightarrow> inv (record_turn task a s)"
  unfolding record_turn_def by (rule append_turn_mode_keeps)

lemma shortcut_keeps:
  "he_propose he = env \<Longrightarrow> inv s \<Longrightarrow> inv (fst (run_shortcut he kind payload session cls s))"
  unfolding run_shortcut_def using propose_keeps
  by (auto split: prod.split intro: run_actions_keeps)

lemma clear_failed_keeps:
  assumes "inv s"
  shows "inv (fst (clear_failed_task held k s))"
proof -
  have "inv ((cancel_and_clear_task k s)\<lparr>ds_conversations := ds_conversations s\<rparr>)"
    by (intro conversations cancel_clear_keeps conversations_wf assms)
  then show ?thesis by (simp add: clear_failed_task_def cancel_clear_keeps assms)
qed

lemma orchestrate_task_keeps:
  assumes "he_propose he = env" "inv s"
    "\<And>s. inv s \<Longrightarrow> inv (fst (h s))" "\<And>s. inv s \<Longrightarrow> inv (fst (u s))"
  shows "inv (fst (orchestrate_task he held payload session cls prompt h u s))"
proof -
  obtain s1 r where r: "try_provider_orchestration (he_fuel he) (he_propose he) (he_script he) held payload
      session cls prompt True s = (s1, r)" by fastforce
  then have "inv s1" using orchestration_keeps [of "he_fuel he" "he_script he" held] assms(1,2)
    by (metis fst_conv keeps_orchestrator_def)
  then show ?thesis unfolding orchestrate_task_def r
    using assms(3,4) clear_failed_keeps by (auto split: orchestration_result.split bool.split handler_result.split)
qed

lemmas handler_keeps = keeps touch_keeps modify_keeps record_turn_keeps shortcut_keeps clear_failed_keeps
  orchestrate_task_keeps after_orchestration_keeps

lemma refuse_prompt_keeps: "inv s \<Longrightarrow> inv (fst (refuse_prompt payload m s))"
  unfolding refuse_prompt_def by (auto intro!: handler_keeps)

lemma start_provider_keeps:
  assumes "he_propose he = env" "inv s"
  shows "inv (fst (start_provider he payload session cls s))"
  unfolding start_provider_def Let_def using assms by (auto intro!: handler_keeps)

lemma start_answer_keeps:
  assumes "he_propose he = env" "inv s"
  shows "inv (fst (start_answer he payload session cls s))"
  unfolding start_answer_def Let_def
  using assms start_provider_keeps [OF assms(1)] by (auto intro!: handler_keeps)

lemma start_task_keeps:
  assumes "he_propose he = env" "inv s"
  shows "inv (fst (process_start_task he payload s))"
  unfolding process_start_task_def Let_def
  using assms refuse_prompt_keeps start_answer_keeps ask_user_keeps by (auto split: option.split)

lemma report_timeout_keeps:
  "inv s \<Longrightarrow> (\<And>s. inv s \<Longrightarrow> inv (fst (k s))) \<Longrightarrow> inv (fst (report_timeout j kind k s))"
  unfolding report_timeout_def by (auto intro!: send_keeps)

lemma protocol_error_keeps: "inv s \<Longrightarrow> inv (fst (protocol_error k m s))"
  unfolding protocol_error_def by (auto intro!: handler_keeps)

lemma approved_keeps: "inv s \<Longrightarrow> inv (fst (respond_approved k s))"
  unfolding respond_approved_def by (auto intro!: handler_keeps)

lemma approve_all_keeps:
  assumes "inv s"
  shows "inv (fst (respond_approve_all k s))"
proof -
  have "inv (touch_task k (\<lambda>t. t\<lparr>ift_approval_override := True, ift_awaiting_clarification := False\<rparr>) s)"
    by (rule touch_keeps [OF assms]) simp_all
  from overrides [OF this] this show ?thesis
    unfolding respond_approve_all_def Let_def by (auto intro!: handler_keeps split: option.split)
qed

lemma edited_keeps:
  assumes "he_propose he = env" "inv s"
  shows "inv (fst (respond_edited he task k c s))"
  unfolding respond_edited_def Let_def
  using assms by (auto intro!: keeps record_turn_keeps protocol_error_keeps touch_edit_keeps split: option.split)

lemma decline_keeps: "inv s \<Longrightarrow> inv (fst (decline_task task k s))"
  unfolding decline_task_def by (auto intro!: handler_keeps)

lemma rejected_keeps:
  assumes "he_propose he = env" "inv s"
  shows "inv (fst (respond_rejected he task k r s))"
  unfolding respond_rejected_def Let_def
  using assms by (auto intro!: orchestrate_task_keeps modify_keeps done_keeps decline_keeps push_keeps)

lemma abort_keeps: "inv s \<Longrightarrow> inv (fst (respond_abort task k s))"
  unfolding respond_abort_def by (auto intro!: handler_keeps)

lemma refine_keeps: "inv s \<Longrightarrow> inv (refine_task k w p c s)"
  unfolding refine_task_def Let_def by (rule touch_keeps) (auto split: option.split)

lemma ask_again_keeps: "inv s \<Longrightarrow> inv (fst (ask_again k p c q s))"
  unfolding ask_again_def by (auto intro!: send_keeps done_keeps refine_keeps)

lemma clarification_keeps:
  assumes "he_propose he = env" "inv s"
  shows "inv (fst (respond_clarification he task k d s))"
  unfolding respond_clarification_def clarify_session_mode_def clarify_command_mode_def Let_def
  using assms
  by (auto intro!: orchestrate_task_keeps done_keeps refine_keeps ask_again_keeps protocol_error_keeps
      split: option.split)

lemma respond_keeps:
  "he_propose he = env \<Longrightarrow> inv s \<Longrightarrow> inv (fst (respond he task r d s))"
  by (cases d) (simp_all add: approved_keeps approve_all_keeps edited_keeps rejected_keeps abort_keeps
      clarification_keeps)

lemma response_keeps:
  assumes "he_propose he = env" "inv s"
  shows "inv (fst (process_user_response he r s))"
proof -
  obtain s1 kind where c: "consume_timed_out_task (ur_task_id r) s = (s1, kind)" by fastforce
  then have s1: "inv s1" using consumed [OF assms(2), of "ur_task_id r"] by simp
  show ?thesis
    unfolding process_user_response_def Let_def c
    using s1 respond_keeps [OF assms(1) s1]
    by (auto intro!: report_timeout_keeps protocol_error_keeps done_keeps cleared record_turn_keeps
        split: option.split)
qed

lemma observed_keeps: "inv s \<Longrightarrow> inv (process_observed_command he p s)"
  by (simp add: process_observed_command_def observed)

lemma send_if_keeps:
  assumes "inv s" "\<forall>p. m \<noteq> ProposedCommand p" "\<And>s. inv s \<Longrightarrow> inv (fst (k s))"
  shows "inv (fst (send_if b m k s))"
  using assms by (cases b) (auto simp: send_if_def intro!: send_keeps)

lemma finish_ack_keeps: "inv s \<Longrightarrow> inv (fst (finish_ack task p out s))"
  unfolding finish_ack_def Let_def
  by (auto intro!: send_if_keeps send_keeps done_keeps drop_keeps record_turn_keeps)

lemma stop_keeps: "inv s \<Longrightarrow> inv (fst (stop_at_round_limit task k s))"
  unfolding stop_at_round_limit_def Let_def
  by (auto intro!: send_keeps done_keeps drop_keeps record_turn_keeps)

lemma continue_keeps:
  assumes "he_propose he = env" "inv s"
  shows "inv (fst (continue_after_ack he task p out s))"
  unfolding continue_after_ack_def Let_def
  using assms by (auto intro!: stop_keeps orchestrate_task_keeps done_keeps modify_keeps finish_ack_keeps push_keeps)

lemma ack_keeps:
  assumes "he_propose he = env" "inv s"
  shows "inv (fst (process_ack he p s))"
proof -
  obtain s1 kind where c: "consume_timed_out_task (ak_task_id p) s = (s1, kind)" by fastforce
  then have "inv s1" using consumed [OF assms(2), of "ak_task_id p"] by simp
  then have "inv s1" "inv (s1\<lparr>ds_tasks := kv_remove (ak_task_id p) (ds_tasks s1)\<rparr>)"
    using remove_task by simp_all
  then show ?thesis
    unfolding process_ack_def Let_def c
    by (auto intro!: report_timeout_keeps protocol_error_keeps done_keeps drop_keeps record_turn_keeps
        observed_keeps continue_keeps [OF assms(1)] finish_ack_keeps split: option.split)
qed

lemma cancel_clear_then: "inv (fst r) \<Longrightarrow> inv (fst (after_handler k r))"
  by (auto simp: after_handler_def cancel_clear_keeps split: prod.splits handler_result.splits)

lemma send_or_return_keeps:
  assumes "inv s" "\<forall>p. m \<noteq> ProposedCommand p"
  shows "inv (fst (send_or_return m s))"
proof -
  have "inv (fst (send_then m done1 s))" using assms by (auto intro!: send_keeps done_keeps)
  then show ?thesis by (auto simp: send_or_return_def split: prod.splits handler_result.splits)
qed

lemma registry_insert_keeps: "inv s \<Longrightarrow> inv (s\<lparr>ds_registry := registry_insert k v (ds_registry s)\<rparr>)"
  by (intro registry_change registry.wf_insert registry_wf)

lemma registry_remove_keeps: "inv s \<Longrightarrow> inv (s\<lparr>ds_registry := registry_remove k (ds_registry s)\<rparr>)"
  by (intro registry_change registry.wf_remove registry_wf)

lemma shell_context_keeps:
  assumes "inv s"
  shows "inv (s\<lparr>ds_registry := registry_set_context k x (ds_registry s), ds_detached := d\<rparr>)"
proof -
  have "kv_wf (registry_set_context k x (ds_registry s))"
    unfolding registry_set_context_def by (intro kv_wf_modify registry_wf assms)
  from detached [OF registry_change [OF assms this]] show ?thesis by simp
qed

lemma cleanup_keeps: "inv s \<Longrightarrow> inv (connection_cleanup conn s)"
  unfolding connection_cleanup_def Let_def
  by (auto intro!: registry_remove_keeps shell_cleared split: option.split)

lemma message_keeps:
  assumes "he_propose he = env" "inv s"
  shows "inv (fst (handle_message he fresh ok m conn s))"
proof (cases m)
  case (RegisterShell payload)
  have "inv (fst (send_or_return (ErrorMsg None BadProtocol x None) s))" for x
    by (rule send_or_return_keeps [OF assms(2)]) simp
  moreover have "inv (fst (send_or_return (ShellRegistered fresh xs)
      (s\<lparr>ds_registry := registry_insert fresh sess (ds_registry s)\<rparr>)))" for xs sess
    by (rule send_or_return_keeps [OF registry_insert_keeps [OF assms(2)]]) simp
  ultimately show ?thesis
    unfolding RegisterShell handle_message.simps register_shell_message_def Let_def
    by (auto split: prod.split) (metis fst_conv)+
next
  case (UnregisterShell sh)
  then show ?thesis using registry_remove_keeps [OF shell_cleared [OF assms(2)], of sh sh]
    by (simp add: Let_def)
qed (simp_all add: on_connection_def after_report_def cancel_clear_then start_task_keeps response_keeps
    ack_keeps assms observed_keeps send_or_return_keeps shell_context_keeps)

lemma receive_keeps:
  assumes "he_propose he = env" "inv (sy_daemon y)" "receive he c l fresh ok m conn y = Some z"
  shows "inv (sy_daemon z)"
proof -
  obtain s conn1 nx where r: "handle_message he fresh ok m conn ((sy_daemon y)\<lparr>ds_link := l\<rparr>) = (s, conn1, nx)"
    by (metis prod_cases3)
  then have "inv s" using message_keeps [OF assms(1) link [OF assms(2)], of fresh ok m conn] by (metis fst_conv)
  with r assms(3) show ?thesis
    by (cases nx) (auto simp: receive_def close_connection_def intro: cleanup_keeps)
qed

lemma system_keeps:
  assumes "he_propose he = env" "inv (sy_daemon y)" "system_step he e y = Some z"
  shows "inv (sy_daemon z)"
  using assms receive_keeps [OF assms(1,2)]
  by (cases e) (auto simp: close_connection_def intro: cleanup_keeps expired clock split: option.splits)

end

end
