(* ===== verification/Floor_Invariant.thy ===== *)
theory Floor_Invariant
  imports Handler_Invariant
begin

text \<open>
  The instance of the handler interface: whatever the model, the provider, the user and the
  configuration do, every proposal sent to a shell passed the safety floor, is marked critical
  exactly when the critical patterns or the parser say so, and a critical one needs approval unless
  the approval mode is \<open>auto\<close>; every command stored with a task passed the floor too.
\<close>

definition critical_draft :: "propose_env \<Rightarrow> app_config \<Rightarrow> string \<Rightarrow> bool" where
  "critical_draft env cfg cmd \<longleftrightarrow>
     is_critical (pe_engine env) (from_patterns (pe_engine env) (ap_critical_patterns (cf_approval cfg))) cmd
     \<or> pc_ambiguous (parse_command cmd) \<and> has_risky_constructs (parse_command cmd)"

definition proposal_ok :: "propose_env \<Rightarrow> app_config \<Rightarrow> proposed_command \<Rightarrow> bool" where
  "proposal_ok env cfg p \<longleftrightarrow>
     matches_safety_floor (pe_engine env) (pr_cmd p) = None
     \<and> (pr_critical_match p \<noteq> None \<longleftrightarrow> critical_draft env cfg (pr_cmd p))
     \<and> (pr_risk_level p = ''critical'' \<longleftrightarrow> critical_draft env cfg (pr_cmd p))
     \<and> (critical_draft env cfg (pr_cmd p) \<and> ap_mode (cf_approval cfg) \<noteq> ''auto'' \<longrightarrow> pr_requires_approval p)"

fun message_ok :: "propose_env \<Rightarrow> app_config \<Rightarrow> server_message \<Rightarrow> bool" where
  "message_ok env cfg (ProposedCommand p) = proposal_ok env cfg p"
| "message_ok env cfg m = True"

definition task_ok :: "regex_engine \<Rightarrow> in_flight_task \<Rightarrow> bool" where
  "task_ok eng t \<longleftrightarrow> ift_proposed_command t = [] \<or> matches_safety_floor eng (ift_proposed_command t) = None"

definition tasks_ok :: "regex_engine \<Rightarrow> (uuid \<times> in_flight_task) list \<Rightarrow> bool" where
  "tasks_ok eng tasks \<longleftrightarrow> list_all (\<lambda>kv. task_ok eng (snd kv)) tasks"

definition daemon_safe :: "propose_env \<Rightarrow> app_config \<Rightarrow> daemon \<Rightarrow> bool" where
  "daemon_safe env cfg s \<longleftrightarrow>
     ds_config s = cfg \<and> daemon_wf s \<and> list_all (message_ok env cfg) (ds_sent s)
     \<and> tasks_ok (pe_engine env) (ds_tasks s)"

lemma tasks_ok_filter: "tasks_ok eng tasks \<Longrightarrow> tasks_ok eng (filter P tasks)"
  by (auto simp: tasks_ok_def list_all_iff)

lemma tasks_ok_insert: "tasks_ok eng tasks \<Longrightarrow> task_ok eng t \<Longrightarrow> tasks_ok eng (kv_insert k t tasks)"
  unfolding tasks_ok_def by (induction tasks) auto

lemma tasks_ok_removes:
  "tasks_ok eng tasks \<Longrightarrow> tasks_ok eng (kv_remove k tasks)"
  "tasks_ok eng tasks \<Longrightarrow> tasks_ok eng (kv_remove_all ks tasks)"
  unfolding kv_remove_def kv_remove_all_def by (rule tasks_ok_filter, assumption)+

lemma checked_modify:
  assumes "checked_update eng now f" "tasks_ok eng tasks" "keyed_by_id tasks"
  shows "tasks_ok eng (kv_modify k f tasks)" "keyed_by_id (kv_modify k f tasks)"
proof -
  have "task_ok eng t \<Longrightarrow> task_ok eng (f t)" "ift_task_id (f t) = ift_task_id t" for t
    using assms(1) unfolding checked_update_def task_ok_def by metis+
  with assms(2,3) show "tasks_ok eng (kv_modify k f tasks)" "keyed_by_id (kv_modify k f tasks)"
    by (auto simp: tasks_ok_def keyed_by_id_def list_all_iff kv_modify_def)
qed

lemma build_proposal_ok:
  assumes "matches_safety_floor (pe_engine env) cmd = None" "call_for env cfg c"
    "dk_parsed d = parse_command cmd" "ds_config s = cfg"
  shows "proposal_ok env cfg (build_proposal env c cmd rnd lf d s)"
  using assms
  by (auto simp: proposal_ok_def build_proposal_def Let_def critical_draft_def call_for_def approval_required_def)

lemma daemon_wf_task_insert: "daemon_wf s \<Longrightarrow> daemon_wf (task_insert t s)"
  by (auto simp: daemon_wf_def task_insert_def intro: kv_wf_intros keyed_intros)

interpretation safe: daemon_invariant "daemon_safe env cfg" env cfg for env cfg
proof (unfold_locales, goal_cases)
  case (3 s m l)
  then show ?case by (cases m) (auto simp: daemon_safe_def daemon_wf_def)
next
  case (4 s t)
  then show ?case
    using daemon_wf_task_insert [of s t]
    by (auto simp: daemon_safe_def task_insert_def task_ok_def intro: tasks_ok_insert)
next
  case (5 s f k)
  then show ?case
    using checked_modify [of "pe_engine env" "ds_now s" f "ds_tasks s" k]
    by (auto simp: daemon_safe_def daemon_wf_def task_modify_def fst_kv_modify simp del: map_map)
next
  case (6 s k)
  then show ?case
    by (auto simp: daemon_safe_def daemon_wf_def intro: tasks_ok_removes kv_wf_intros keyed_intros)
next
  case (12 s k)
  then show ?case
    by (auto simp: daemon_safe_def daemon_wf_def consume_timed_out_task_def intro: kv_wf_intros)
next
  case (13 s)
  then show ?case
    using daemon_wf_expire [of s] by (auto simp: daemon_safe_def expire_fields intro: tasks_ok_removes)
next
  case (14 s k)
  then show ?case using daemon_wf_clear [of s k] by (auto simp: daemon_safe_def intro: tasks_ok_removes)
next
  case (15 s sh)
  have eq: "ds_tasks (cancel_and_clear_shell_tasks sh s) = kv_remove_all (shell_task_ids s sh) (ds_tasks s)"
    "ds_sent (cancel_and_clear_shell_tasks sh s) = ds_sent s"
    "ds_config (cancel_and_clear_shell_tasks sh s) = ds_config s"
    by (simp_all add: cancel_and_clear_shell_tasks_cases Let_def)
  then show ?case using 15 daemon_wf_clear_shell [of s sh]
    by (auto simp: daemon_safe_def intro: tasks_ok_removes)
next
  case (21 s cmd c d l rnd lf)
  then have "proposal_ok env cfg (build_proposal env c cmd rnd lf d s)"
    by (intro build_proposal_ok) (auto simp: daemon_safe_def)
  moreover have "task_ok (pe_engine env) (proposed_task c cmd (ds_now s))"
    using 21 by (simp add: task_ok_def proposed_task_def)
  ultimately show ?case
    using 21 daemon_wf_task_insert [of "s\<lparr>ds_sent := ds_sent s @ [ProposedCommand (build_proposal env c cmd rnd lf d s)], ds_link := l\<rparr>"]
    by (auto simp: daemon_safe_def task_insert_def daemon_wf_def intro: tasks_ok_insert)
qed (auto simp: daemon_safe_def daemon_wf_def intro: kv_wf_intros)

end
