(* ===== verification/System_Safety.thy ===== *)
theory System_Safety
  imports Floor_Invariant
begin

text \<open>
  Safety of the whole daemon over every run of its connections: what was proposed to a shell and
  what is stored to be executed passed the safety floor, and critical commands are marked and need
  approval. The runs are those of \<open>system_step\<close> from the empty daemon.
\<close>

interpretation run: transition_system "system_step he"
  "\<lambda>y. daemon_safe (he_propose he) cfg (sy_daemon y)" for he cfg
  by unfold_locales (rule safe.system_keeps [OF refl])

lemma initial_safe: "daemon_safe env cfg (sy_daemon (initial_system cfg))"
  by (simp add: initial_system_def initial_daemon_def daemon_safe_def daemon_wf_def tasks_ok_def keyed_by_id_def)

lemmas reachable_safe = run.run_inv [OF initial_safe]

section \<open>A sample daemon\<close>

text \<open>An engine that refuses one command and finds one critical, an index that knows every command, and an orchestrator
  that proposes \<open>ls\<close> for every task, to evaluate the handlers on concrete messages.\<close>

definition sample_engine :: regex_engine where
  "sample_engine = \<lparr>re_compiles = \<lambda>ci re. True, re_is_match = \<lambda>ci re t. t = (if ci then ''rm notes'' else ''rm -rf /'')\<rparr>"

definition sample_plan :: "string \<Rightarrow> bool \<Rightarrow> command_plan" where
  "sample_plan cmd continue =
     \<lparr>cp_cmd = cmd, cp_rationale = ''provider_tool_call'', cp_intent = ''provider generated command'',
      cp_expected_effect = ''execute validated shell command'', cp_commands_used = [],
      cp_continue_after_execution = continue\<rparr>"

definition sample_propose_env :: propose_env where
  "sample_propose_env =
     \<lparr>pe_engine = sample_engine, pe_sanitize = \<lambda>cmd prompt. cmd, pe_exists = \<lambda>rnd session name. True,
      pe_suggest = \<lambda>rnd token. [], pe_docs = \<lambda>rnd name. [], pe_grounding = \<lambda>rnd prompt name cmd. [\<lparr>gr_command = name, gr_source = ''man'', gr_sections = [],
        gr_extraction_method = None, gr_doc_hash = None, gr_extracted_at = None, gr_index_version = None\<rparr>],
      pe_render = fb_error, pe_stub = False, pe_redraft = \<lambda>rnd history. None\<rparr>"

definition sample_script :: "command_plan \<Rightarrow> script" where
  "sample_script plan = (\<lambda>payload session cls prompt continuation s.
     ([SeedConversation [chat_user prompt], Propose True plan], Some True))"

definition sample_handler_env :: "script \<Rightarrow> handler_env" where
  "sample_handler_env script =
     \<lparr>he_propose = sample_propose_env, he_fuel = 3, he_script = script,
      he_shortcut = \<lambda>kind payload session cls s. ([], Some False), he_sandbox = None,
      he_fs = \<lparr>fe_canonicalize = \<lambda>p. None, fe_home = None, fe_cwd = None\<rparr>,
      he_drafting_prompt = \<lambda>s payload cls. st_prompt payload, he_observe = \<lambda>oc ocs. oc # ocs,
      he_redact_secrets = \<lambda>t. t, he_decode = \<lambda>t. t, he_env_var = \<lambda>k. None, he_render_ack = ar_stdout\<rparr>"

definition sample_request :: "uuid \<Rightarrow> string \<Rightarrow> string \<Rightarrow> start_task" where
  "sample_request k mode prompt =
     \<lparr>st_task_id = k, st_shell_id = 7, st_shell_kind = Zsh, st_shell_version = ''5.9'', st_mode = mode,
      st_prompt = prompt, st_cwd = ''/'', st_env_subset = []\<rparr>"

definition sample_run :: "script \<Rightarrow> client_message list \<Rightarrow> system option" where
  "sample_run script msgs =
     run_events (system_step (sample_handler_env script))
       (Open 1 # map (Receive 1 None 7 True) msgs) (initial_system sample_config)"

definition sample_sent :: "script \<Rightarrow> client_message list \<Rightarrow> server_message list" where
  "sample_sent script msgs =
     (case sample_run script msgs of None \<Rightarrow> [] | Some y \<Rightarrow> ds_sent (sy_daemon y))"

definition proposed_commands :: "server_message list \<Rightarrow> proposed_command list" where
  "proposed_commands sent = concat (map (\<lambda>m. case m of ProposedCommand p \<Rightarrow> [p] | _ \<Rightarrow> []) sent)"

lemma in_proposed_commands: "p \<in> set (proposed_commands sent) \<longleftrightarrow> ProposedCommand p \<in> set sent"
  by (auto simp: proposed_commands_def split: server_message.splits intro!: bexI [of _ "ProposedCommand p"])

lemma sample_rm_proposed:
  "map (\<lambda>p. (pr_cmd p, pr_requires_approval p, pr_critical_match p))
     (proposed_commands (sample_sent (sample_script (sample_plan ''rm notes'' True))
        [StartTask (sample_request 1 ''?'' ''go on'')])) = [(''rm notes'', True, Some ''critical_pattern'')]"
  by code_simp

lemma sample_rm_run:
  obtains y p where
    "sample_run (sample_script (sample_plan ''rm notes'' True)) [StartTask (sample_request 1 ''?'' ''go on'')] = Some y"
    "ProposedCommand p \<in> set (ds_sent (sy_daemon y))" "pr_cmd p = ''rm notes''"
proof -
  let ?r = "sample_run (sample_script (sample_plan ''rm notes'' True)) [StartTask (sample_request 1 ''?'' ''go on'')]"
  note c = sample_rm_proposed
  have "?r \<noteq> None"
    using c by (auto simp: sample_sent_def proposed_commands_def split: option.splits)
  then obtain y where y: "?r = Some y" by blast
  then have "proposed_commands (ds_sent (sy_daemon y)) \<noteq> []"
    and cm: "map pr_cmd (proposed_commands (ds_sent (sy_daemon y))) = [''rm notes'']"
    using c by (auto simp: sample_sent_def)
  then obtain p where "p \<in> set (proposed_commands (ds_sent (sy_daemon y)))" "pr_cmd p = ''rm notes''"
    by (cases "proposed_commands (ds_sent (sy_daemon y))") auto
  with y that show thesis by (simp add: in_proposed_commands)
qed

section \<open>Properties\<close>

lemma reachable_daemon:
  assumes "run_events (system_step he) es (initial_system cfg) = Some y"
  shows "daemon_safe (he_propose he) cfg (sy_daemon y)"
  by (rule reachable_safe [OF assms])

text \<open>C1: No proposal that the daemon ever sends matches the safety floor: for every model, provider,
  sanitiser, index and configuration and every sequence of messages, disconnections, time-outs and
  failing sends, the command of each proposal was checked as it was sent.\<close>

theorem proposals_pass_floor:
  assumes "run_events (system_step he) es (initial_system cfg) = Some y"
    and "ProposedCommand p \<in> set (ds_sent (sy_daemon y))"
  shows "matches_safety_floor (he_engine he) (pr_cmd p) = None"
  using reachable_daemon [OF assms(1)] assms(2)
  by (force simp: daemon_safe_def list_all_iff proposal_ok_def)

theorem proposals_pass_floor_witness:
  "\<exists>y p. sample_run (sample_script (sample_plan ''rm notes'' True)) [StartTask (sample_request 1 ''?'' ''go on'')] = Some y
     \<and> ProposedCommand p \<in> set (ds_sent (sy_daemon y)) \<and> pr_cmd p = ''rm notes''
     \<and> matches_safety_floor sample_engine (pr_cmd p) = None"
proof -
  obtain y p where r: "sample_run (sample_script (sample_plan ''rm notes'' True)) [StartTask (sample_request 1 ''?'' ''go on'')] = Some y"
    "ProposedCommand p \<in> set (ds_sent (sy_daemon y))" "pr_cmd p = ''rm notes''" by (rule sample_rm_run)
  from proposals_pass_floor [OF r(1) [unfolded sample_run_def] r(2)]
  have "matches_safety_floor sample_engine (pr_cmd p) = None"
    by (simp add: sample_handler_env_def sample_propose_env_def)
  with r show ?thesis by blast
qed

text \<open>C2: A command that the critical patterns match or whose risky construct the parser finds
  ambiguous is proposed as critical, and never without approval unless the approval mode is
  \<open>auto\<close>: no approve-all of the user or of an earlier task lets it through.\<close>

theorem critical_needs_approval:
  assumes "run_events (system_step he) es (initial_system cfg) = Some y"
    and "ProposedCommand p \<in> set (ds_sent (sy_daemon y))"
  shows "(pr_critical_match p \<noteq> None \<longleftrightarrow> critical_draft (he_propose he) cfg (pr_cmd p))
     \<and> (pr_risk_level p = ''critical'' \<longleftrightarrow> critical_draft (he_propose he) cfg (pr_cmd p))
     \<and> (critical_draft (he_propose he) cfg (pr_cmd p) \<and> ap_mode (cf_approval cfg) \<noteq> ''auto''
        \<longrightarrow> pr_requires_approval p)"
  using reachable_daemon [OF assms(1)] assms(2)
  by (force simp: daemon_safe_def list_all_iff proposal_ok_def)

theorem critical_needs_approval_witness:
  "\<exists>y p. sample_run (sample_script (sample_plan ''rm notes'' True)) [StartTask (sample_request 1 ''?'' ''go on'')] = Some y
     \<and> ProposedCommand p \<in> set (ds_sent (sy_daemon y)) \<and> pr_requires_approval p"
proof -
  obtain y p where r: "sample_run (sample_script (sample_plan ''rm notes'' True)) [StartTask (sample_request 1 ''?'' ''go on'')] = Some y"
    "ProposedCommand p \<in> set (ds_sent (sy_daemon y))" "pr_cmd p = ''rm notes''" by (rule sample_rm_run)
  have "critical_draft sample_propose_env sample_config ''rm notes''" by code_simp
  moreover have "ap_mode (cf_approval sample_config) \<noteq> ''auto''" by code_simp
  ultimately have "pr_requires_approval p"
    using critical_needs_approval [OF r(1) [unfolded sample_run_def] r(2)] r(3)
    by (simp add: sample_handler_env_def)
  with r show ?thesis by blast
qed

text \<open>C3: Every task in flight is stored under its own id, and the command it stands for, proposed or
  edited by the user, passed the safety floor.\<close>

theorem stored_commands_checked:
  assumes "run_events (system_step he) es (initial_system cfg) = Some y"
    and "map_of (ds_tasks (sy_daemon y)) k = Some t"
  shows "ift_task_id t = k
     \<and> (ift_proposed_command t = [] \<or> matches_safety_floor (he_engine he) (ift_proposed_command t) = None)"
proof -
  have s: "daemon_safe (he_propose he) cfg (sy_daemon y)" by (rule reachable_daemon [OF assms(1)])
  then have "ift_task_id t = k"
    using assms(2) keyed_by_id_lookup by (auto simp: daemon_safe_def daemon_wf_def)
  moreover have "task_ok (he_engine he) t"
    using s map_of_SomeD [OF assms(2)] by (auto simp: daemon_safe_def tasks_ok_def list_all_iff)
  ultimately show ?thesis by (simp add: task_ok_def)
qed

lemma sample_rm_task:
  "(case sample_run (sample_script (sample_plan ''rm notes'' True)) [StartTask (sample_request 1 ''?'' ''go on'')] of
      None \<Rightarrow> None | Some y \<Rightarrow> map_option ift_proposed_command (map_of (ds_tasks (sy_daemon y)) 1)) = Some ''rm notes''"
  by code_simp

theorem stored_commands_checked_witness:
  "\<exists>y t. sample_run (sample_script (sample_plan ''rm notes'' True)) [StartTask (sample_request 1 ''?'' ''go on'')] = Some y
     \<and> map_of (ds_tasks (sy_daemon y)) 1 = Some t \<and> ift_proposed_command t = ''rm notes''
     \<and> matches_safety_floor sample_engine ''rm notes'' = None"
proof -
  obtain y t where r: "sample_run (sample_script (sample_plan ''rm notes'' True)) [StartTask (sample_request 1 ''?'' ''go on'')] = Some y"
    "map_of (ds_tasks (sy_daemon y)) 1 = Some t" "ift_proposed_command t = ''rm notes''"
    using sample_rm_task by (auto split: option.splits)
  from stored_commands_checked [OF r(1) [unfolded sample_run_def] r(2)] r show ?thesis
    by (auto simp: sample_handler_env_def sample_propose_env_def)
qed

end
