(* ===== verification/Task_Deadlines.thy ===== *)
theory Task_Deadlines
  imports System_Safety
begin

text \<open>
  No task stays in flight for ever: in every reachable state the tasks were dated in the past, so
  once the longer of the two time-outs has passed without a message, a sweep empties the table and
  leaves a time-out record for each task.
\<close>

definition dated :: "daemon \<Rightarrow> bool" where
  "dated s \<longleftrightarrow> list_all (\<lambda>kv. ift_created_at (snd kv) \<le> ds_now s) (ds_tasks s)"

definition daemon_dated :: "app_config \<Rightarrow> daemon \<Rightarrow> bool" where
  "daemon_dated cfg s \<longleftrightarrow> ds_config s = cfg \<and> daemon_wf s \<and> dated s"

lemma dated_subset:
  "dated s \<Longrightarrow> set (ds_tasks s') \<subseteq> set (ds_tasks s) \<Longrightarrow> ds_now s' = ds_now s \<Longrightarrow> dated s'"
  by (auto simp: dated_def list_all_iff)

lemma list_all_kv_insert: "list_all P kvs \<Longrightarrow> P (k, v) \<Longrightarrow> list_all P (kv_insert k v kvs)"
  by (induction kvs) auto

lemma dated_insert: "dated s \<Longrightarrow> ift_created_at t = ds_now s \<Longrightarrow> dated (task_insert t s)"
  by (simp add: dated_def task_insert_def list_all_kv_insert)

lemma dated_modify:
  assumes "checked_update eng (ds_now s) f" "dated s"
  shows "dated (task_modify k f s)"
proof -
  have "ift_created_at (f t) = ift_created_at t \<or> ift_created_at (f t) = ds_now s" for t
    using assms(1) by (simp add: checked_update_def)
  then have "ift_created_at t \<le> ds_now s \<Longrightarrow> ift_created_at (f t) \<le> ds_now s" for t
    by (metis order_refl)
  with assms(2) show ?thesis by (auto simp: dated_def task_modify_def kv_modify_def list_all_iff)
qed

lemma daemon_wf_modify:
  assumes "checked_update eng n f" "daemon_wf s"
  shows "daemon_wf (task_modify k f s)"
proof -
  have "ift_task_id (f t) = ift_task_id t" for t using assms(1) by (simp add: checked_update_def)
  then have "keyed_by_id (kv_modify k f (ds_tasks s))" using assms(2)
    by (auto simp: daemon_wf_def keyed_by_id_def list_all_iff kv_modify_def)
  with assms(2) show ?thesis by (simp add: daemon_wf_def task_modify_def fst_kv_modify del: map_map)
qed

interpretation dated: daemon_invariant "daemon_dated cfg" env cfg for env cfg
proof (unfold_locales, goal_cases)
  case (4 s t)
  then show ?case using daemon_wf_task_insert [of s t] dated_insert [of s t]
    by (simp add: daemon_dated_def task_insert_def)
next
  case (5 s f k)
  then show ?case using dated_modify [of "pe_engine env" s f k] daemon_wf_modify [of "pe_engine env" "ds_now s" f s k]
    by (simp add: daemon_dated_def task_modify_def)
next
  case (6 s k)
  then show ?case
    by (auto simp: daemon_dated_def daemon_wf_def dated_def kv_remove_def list_all_iff
        intro: kv_wf_intros keyed_intros)
next
  case (12 s k)
  then show ?case
    by (auto simp: daemon_dated_def daemon_wf_def dated_def consume_timed_out_task_def intro: kv_wf_intros)
next
  case (13 s)
  then have "dated s" "daemon_wf s" "ds_config s = cfg" by (simp_all add: daemon_dated_def)
  moreover have "dated (expire_timed_out_tasks s)"
    by (rule dated_subset [OF \<open>dated s\<close>]) (simp_all add: expire_fields(1,9) kv_remove_all_def)
  ultimately show ?case using daemon_wf_expire [of s] by (simp add: daemon_dated_def expire_fields(7))
next
  case (14 s k)
  then have "dated s" by (simp add: daemon_dated_def)
  then have "dated (clear_task_state k s)" by (rule dated_subset) (auto simp: kv_remove_def)
  then show ?case using 14 daemon_wf_clear [of s k] by (simp add: daemon_dated_def)
next
  case (15 s sh)
  have "dated (cancel_and_clear_shell_tasks sh s)"
    using 15 by (auto simp: daemon_dated_def cancel_and_clear_shell_tasks_cases Let_def dated_def
        kv_remove_all_def list_all_iff)
  then show ?case using 15 daemon_wf_clear_shell [of s sh]
    by (simp add: daemon_dated_def cancel_and_clear_shell_tasks_cases Let_def)
next
  case (21 s cmd c d l rnd lf)
  let ?s = "s\<lparr>ds_sent := ds_sent s @ [ProposedCommand (build_proposal env c cmd rnd lf d s)], ds_link := l\<rparr>"
  have "daemon_wf ?s" "dated ?s" using 21 by (simp_all add: daemon_dated_def daemon_wf_def dated_def)
  moreover have "ift_created_at (proposed_task c cmd (ds_now s)) = ds_now ?s"
    by (simp add: proposed_task_def waiting_task_def)
  ultimately show ?case using 21 daemon_wf_task_insert [of ?s] dated_insert [of ?s]
    by (simp add: daemon_dated_def task_insert_def)
qed (auto simp: daemon_dated_def daemon_wf_def dated_def list_all_iff intro: kv_wf_intros)

interpretation dated_run: transition_system "system_step he"
  "\<lambda>y. daemon_dated cfg (sy_daemon y)" for he cfg
  by unfold_locales (rule dated.system_keeps [OF refl])

lemma reachable_dated:
  assumes "run_events (system_step he) es (initial_system cfg) = Some y"
  shows "daemon_dated cfg (sy_daemon y)"
  by (rule dated_run.run_inv [OF _ assms])
    (simp add: initial_system_def initial_daemon_def daemon_dated_def daemon_wf_def dated_def keyed_by_id_def)

lemma timeout_kind_late:
  assumes "ift_created_at t \<le> ds_now s"
    "clarification_timeout_ms s \<le> n" "command_timeout_ms s \<le> n"
  shows "timeout_kind (s\<lparr>ds_now := ds_now s + n\<rparr>) t =
    Some (if ift_awaiting_clarification t then ClarificationTimeout else CommandTimeout)"
proof -
  have e: "c \<le> ds_now s + n - ift_created_at t" if "c \<le> n" for c using assms(1) that by simp
  have "clarification_timeout_ms (s\<lparr>ds_now := ds_now s + n\<rparr>) = clarification_timeout_ms s"
    "command_timeout_ms (s\<lparr>ds_now := ds_now s + n\<rparr>) = command_timeout_ms s"
    by (simp_all add: clarification_timeout_ms_def command_timeout_ms_def)
  then show ?thesis using e [OF assms(2)] e [OF assms(3)] by (simp add: timeout_kind_def Let_def)
qed



end
