(* ===== verification/Proposal_Props.thy ===== *)
theory Proposal_Props
  imports System_Safety
begin

text \<open>
  The planning loop of a proposal: it ends within the configured rounds when the provider does not
  redraft and the web fallback is off, and it does not end at all for a provider that keeps
  redrafting, since a redraft skips the check of the round limit. What is proposed when the first
  draft is fine.
\<close>

definition settles :: "outcome \<Rightarrow> bool" where
  "settles out \<longleftrightarrow> snd out = Done \<or> snd out = Failed"

lemma send_then_settles:
  assumes "\<And>s'. ds_config s' = ds_config s \<Longrightarrow> settles (k s')"
  shows "settles (send_then m k s)"
  using assms by (auto simp: send_then_def settles_def split: option.split nat.split)

lemma done1_settles: "settles (done1 s)"
  by (simp add: done1_def settles_def)

lemma task_insert_config [simp]: "ds_config (task_insert t s) = ds_config s"
  by (simp add: task_insert_def)

lemma conversation_push_config [simp]: "ds_config (conversation_push k m s) = ds_config s"
  by (simp add: conversation_push_def)

lemma redraft_config: "ds_config (fst (provider_redraft_from_validation env rnd k s)) = ds_config s"
  by (auto simp: provider_redraft_from_validation_def Let_def conversation_push_if_present_def
      cancel_provider_task_def split: option.split)

lemmas settles_intros = send_then_settles done1_settles

lemma ask_user_settles: "settles (ask_user payload cls ov cont r q s)"
  unfolding ask_user_def by (intro settles_intros)

lemma refuse_floor_settles: "settles (refuse_floor c m s)"
  unfolding refuse_floor_def Let_def by (auto intro!: settles_intros ask_user_settles)

lemma rounds_exhausted_settles: "settles (rounds_exhausted c d s)"
  unfolding rounds_exhausted_def Let_def by (auto intro!: settles_intros ask_user_settles)

lemma no_revision_settles: "settles (no_revision c d s)"
  unfolding no_revision_def Let_def by (auto intro!: settles_intros ask_user_settles)

lemma finish_proposal_settles: "settles (finish_proposal env c cmd rnd lf d s)"
  unfolding finish_proposal_def by (intro settles_intros)

text \<open>The provider never offers another command, and no web tool is at hand.\<close>

definition never_redrafts :: "propose_env \<Rightarrow> bool" where
  "never_redrafts env \<longleftrightarrow>
     (\<forall>rnd history. case pe_redraft env rnd history of
        None \<Rightarrow> True | Some reply \<Rightarrow> first_execute_call (rp_calls reply) = None)"

lemma try_redraft_skips:
  assumes "pe_stub env \<or> never_redrafts env"
    and "\<And>s'. ds_config s' = ds_config s \<Longrightarrow> settles (k s')"
  shows "settles (try_redraft env c cmd rnd again k s)"
proof (cases "pe_stub env")
  case True
  then show ?thesis by (simp add: try_redraft_def assms(2))
next
  case False
  then have n: "never_redrafts env" using assms(1) by simp
  then have "snd (provider_redraft_from_validation env rnd (px_task_id c) s) = None"
    by (auto simp: provider_redraft_from_validation_def Let_def never_redrafts_def split: option.splits)
  then obtain s1 where r: "provider_redraft_from_validation env rnd (px_task_id c) s = (s1, None)"
    by (metis prod.collapse)
  then have "ds_config s1 = ds_config s" using redraft_config [of env rnd "px_task_id c" s] by simp
  then show ?thesis using False assms(2) by (simp add: try_redraft_def r)
qed

lemma web_off: "\<not> wb_enabled (cf_web (ds_config s)) \<Longrightarrow> web_fallback orch c d k s = k s"
  by (simp add: web_fallback_def web_fallback_allowed_def)

lemma propose_loop_settles:
  assumes "pe_stub env \<or> never_redrafts env"
  shows "\<not> wb_enabled (cf_web (ds_config s)) \<Longrightarrow> px_max_rounds c < rnd + n \<Longrightarrow> 0 < n
    \<Longrightarrow> settles (propose_loop n env script c cmd rnd lf s)"
proof (induction n arbitrary: cmd rnd lf s)
  case 0
  then show ?case by simp
next
  case (Suc n)
  let ?again = "\<lambda>cmd' findings s'. propose_loop n env script c cmd' (rnd + 1) findings s'"
  let ?orch = "orchestrate (propose_with (propose_loop n env script) env) script False"
  have next_round: "settles (?again cmd' fs s')"
    if "ds_config s' = ds_config s" "\<not> px_max_rounds c \<le> rnd" for cmd' fs s'
    using Suc.IH [of s' "rnd + 1" cmd' fs] Suc.prems that by simp
  have reject: "settles (reject_draft env ?orch c cmd rnd d (\<lambda>cmd'. ?again cmd' fs) s)" for d fs
  proof -
    have stop: "settles (revise_or_stop env c cmd rnd d (\<lambda>cmd'. ?again cmd' fs) s')"
      if "ds_config s' = ds_config s" for s'
      unfolding revise_or_stop_def using next_round [OF that]
      by (auto intro: rounds_exhausted_settles no_revision_settles split: option.split)
    have "settles (web_fallback ?orch c d (try_redraft env c cmd rnd (\<lambda>cmd'. ?again cmd' fs)
        (revise_or_stop env c cmd rnd d (\<lambda>cmd'. ?again cmd' fs))) s')"
      if "ds_config s' = ds_config s" for s'
    proof -
      have "\<not> wb_enabled (cf_web (ds_config s'))" using Suc.prems(1) that by simp
      from web_off [OF this] show ?thesis
        using try_redraft_skips [OF assms] stop that by simp
    qed
    then show ?thesis
      unfolding reject_draft_def Let_def report_unknown_def by (auto intro!: send_then_settles)
  qed
  show ?case
    unfolding propose_loop.simps propose_round_def
    using reject by (auto simp: Let_def refuse_floor_settles finish_proposal_settles split: option.split)
qed



section \<open>A provider that keeps redrafting\<close>

definition redraft_of_round :: "nat \<Rightarrow> string" where
  "redraft_of_round rnd = (if even rnd then ''foo'' else ''bar'')"

definition stubborn_env :: propose_env where
  "stubborn_env = sample_propose_env\<lparr>pe_exists := \<lambda>rnd session name. False,
     pe_redraft := \<lambda>rnd history. Some \<lparr>rp_text = [],
       rp_calls = [\<lparr>tl_name = ''execute_shell_command'', tl_cmd = Some (redraft_of_round (rnd + 1))\<rparr>],
       rp_cancelled = False\<rparr>\<rparr>"

lemma stubborn_trims [simp]: "trim ''foo'' = ''foo''" "trim ''bar'' = ''bar''"
  by code_simp+

lemma stubborn_trim [simp]: "trim (redraft_of_round rnd) = redraft_of_round rnd"
  by (simp add: redraft_of_round_def)

lemma stubborn_fields [simp]:
  "pe_stub stubborn_env = False" "pe_engine stubborn_env = sample_engine"
  "pe_sanitize stubborn_env cmd prompt = cmd" "pe_exists stubborn_env rnd session name = False"
  by (simp_all add: stubborn_env_def sample_propose_env_def)

lemma stubborn_floor: "matches_safety_floor sample_engine (redraft_of_round rnd) = None"
proof -
  have "matches_safety_floor sample_engine ''foo'' = None" "matches_safety_floor sample_engine ''bar'' = None"
    by code_simp+
  then show ?thesis by (simp add: redraft_of_round_def)
qed

lemma unknown_kept:
  assumes "f \<in> set findings" "vf_kind f = ''unknown_command''"
  shows "waive_findings env c cmd first ex findings \<noteq> []"
proof -
  have "f \<in> set (waive_findings env c cmd first ex findings)"
    using assms by (auto simp: waive_findings_def drop_kind_def Let_def)
  then show ?thesis by auto
qed

lemma stubborn_findings: "dk_findings (inspect_draft stubborn_env c (redraft_of_round rnd) rnd s) \<noteq> []"
proof -
  have f: "finding ''unknown_command'' ''first significant token is not installed in this shell context''
      \<in> set (validate_round g ctx)"
    if "gp_command g = redraft_of_round rnd" "\<not> vc_command_exists ctx" for g ctx
    using that by (simp add: validate_round_def Let_def push_if_def redraft_of_round_def)
  have e: "names \<noteq> [] \<and> filter (\<lambda>n. True) names = [] \<longleftrightarrow> False" for names :: "string list" by simp
  show ?thesis
    unfolding inspect_draft_def Let_def draft_check.simps stubborn_fields
    by (rule unknown_kept, rule f) (simp_all add: grounded_draft_def draft_context_def finding_def)
qed

text \<open>The round limit is not enforced against the provider: with a provider that answers every
  rejection with another unknown command, the loop never returns, whatever the configured number of
  planning rounds and whatever fuel is given.\<close>

theorem redrafts_unbounded:
  assumes "\<not> wb_enabled (cf_web (ds_config s))" "ds_link s = None"
  shows "snd (propose_loop n stubborn_env script c (redraft_of_round rnd) rnd lf s) = Unfinished"
  using assms
proof (induction n arbitrary: rnd lf s)
  case 0
  then show ?case by simp
next
  case (Suc n)
  let ?cmd = "redraft_of_round rnd"
  let ?d = "inspect_draft stubborn_env c ?cmd rnd s"
  let ?again = "\<lambda>cmd' s'. propose_loop n stubborn_env script c cmd' (Suc rnd) (dk_findings ?d) s'"
  have redraft: "snd (try_redraft stubborn_env c ?cmd rnd ?again k s') = Unfinished"
    if s': "ds_config s' = ds_config s" "ds_link s' = None" for k s'
  proof -
    obtain s2 r where r: "provider_redraft_from_validation stubborn_env rnd (px_task_id c) s' = (s2, r)"
      by fastforce
    have "r = Some (redraft_of_round (rnd + 1))" "ds_config s2 = ds_config s'" "ds_link s2 = ds_link s'"
      using r by (auto simp: provider_redraft_from_validation_def Let_def stubborn_env_def
          conversation_push_if_present_def conversation_push_def redraft_of_round_def
          split: if_splits)
    moreover have "redraft_of_round (rnd + 1) \<noteq> ?cmd" by (simp add: redraft_of_round_def)
    ultimately show ?thesis
      using Suc.IH [of s2 "Suc rnd" "dk_findings ?d"] Suc.prems(1) s' by (simp add: try_redraft_def r)
  qed
  have "snd (reject_draft stubborn_env orch c ?cmd rnd ?d ?again s) = Unfinished" for orch
    unfolding reject_draft_def Let_def report_unknown_def
    using Suc.prems redraft by (auto simp: send_then_def web_off conversation_push_def)
  then show ?case
    unfolding propose_loop.simps propose_round_def
    using stubborn_findings [of c rnd s] by (simp add: stubborn_floor Let_def)
qed

theorem redrafts_unbounded_witness:
  "\<forall>c. snd (propose_loop 1000 stubborn_env (sample_script (sample_plan ''bar'' True)) c ''bar'' 1 []
     (initial_daemon sample_config)) = Unfinished"
proof
  fix c
  show "snd (propose_loop 1000 stubborn_env (sample_script (sample_plan ''bar'' True)) c ''bar'' 1 []
     (initial_daemon sample_config)) = Unfinished"
    using redrafts_unbounded [of "initial_daemon sample_config" 1000 "sample_script (sample_plan ''bar'' True)" c 1 "[]"]
    by (simp add: redraft_of_round_def initial_daemon_def sample_config_def)
qed

section \<open>What is proposed\<close>

text \<open>A first draft that passes the floor and validates is proposed as it is, in round one with
  status \<open>passed\<close>, as the only message, and the task then stands for exactly this command and waits
  for its decision; approval is required as the mode, the criticality and the earlier override say.\<close>

theorem propose_accepts:
  assumes draft: "draft = first_draft env payload plan"
    and c: "c = propose_setup env payload session cont cls plan s"
    and "ds_link s = None" "matches_safety_floor (pe_engine env) draft = None"
    and "dk_findings (inspect_draft env c draft 1 s) = []"
  shows "\<exists>p s'. propose_command_for_execution (Suc n) env script payload session cont cls plan s = (s', Done)
     \<and> ds_sent s' = ds_sent s @ [ProposedCommand p] \<and> pr_cmd p = draft \<and> pr_round p = 1
     \<and> vs_status (pr_validation p) = ''passed''
     \<and> pr_requires_approval p = approval_required (ap_mode (approval s))
          (critical_draft env (ds_config s) draft) (px_prior_override c)
     \<and> map_of (ds_tasks s') (st_task_id payload) = Some (proposed_task c draft (ds_now s))
     \<and> (\<forall>k \<in> - {st_task_id payload}. map_of (ds_tasks s') k = map_of (ds_tasks s) k)"
proof -
  let ?d = "inspect_draft env c draft 1 s"
  let ?p = "build_proposal env c draft 1 [] ?d s"
  let ?s = "task_insert (proposed_task c draft (ds_now s)) (s\<lparr>ds_sent := ds_sent s @ [ProposedCommand ?p]\<rparr>)"
  have "propose_command_for_execution (Suc n) env script payload session cont cls plan s = (?s, Done)"
    using assms(3-5)
    by (simp add: propose_command_for_execution_def propose_with_def propose_round_def Let_def
        finish_proposal_def send_then_def done1_def flip: draft c)
  moreover have "pr_requires_approval ?p = approval_required (ap_mode (approval s))
      (critical_draft env (ds_config s) draft) (px_prior_override c)"
  proof -
    have "px_matcher c = from_patterns (pe_engine env) (ap_critical_patterns (approval s))"
      by (simp add: c propose_setup_def Let_def split: prod.split)
    then show ?thesis
      by (simp add: build_proposal_def Let_def critical_draft_def inspect_draft_def)
  qed
  moreover have "px_task_id c = st_task_id payload"
    by (simp add: c propose_setup_def Let_def split: prod.split)
  ultimately show ?thesis
    by (intro exI [of _ ?p] exI [of _ ?s])
      (auto simp: build_proposal_def Let_def task_insert_def proposed_task_def waiting_task_def kv_lookup)
qed

theorem propose_accepts_witness:
  "\<exists>p s'. propose_command_for_execution 1 sample_propose_env (sample_script (sample_plan ''rm notes'' True))
      (sample_request 1 ''?'' ''go on'')
      (start_session (initial_daemon sample_config) (sample_request 1 ''?'' ''go on'')) True
      \<lparr>cr_classification = FreshCommandRequest, cr_confidence = 1\<rparr> (sample_plan ''rm notes'' True)
      (initial_daemon sample_config) = (s', Done)
    \<and> ds_sent s' = [ProposedCommand p] \<and> pr_cmd p = ''rm notes'' \<and> pr_requires_approval p"
proof -
  let ?s = "initial_daemon sample_config"
  let ?r = "sample_request 1 ''?'' ''go on''"
  let ?cls = "\<lparr>cr_classification = FreshCommandRequest, cr_confidence = 1\<rparr>"
  let ?c = "propose_setup sample_propose_env ?r (start_session ?s ?r) True ?cls (sample_plan ''rm notes'' True) ?s"
  have d: "first_draft sample_propose_env ?r (sample_plan ''rm notes'' True) = ''rm notes''" by code_simp
  have "matches_safety_floor (pe_engine sample_propose_env) ''rm notes'' = None" by code_simp
  moreover have "dk_findings (inspect_draft sample_propose_env ?c ''rm notes'' 1 ?s) = []" by code_simp
  moreover have "approval_required (ap_mode (approval ?s)) (critical_draft sample_propose_env (ds_config ?s) ''rm notes'')
      (px_prior_override ?c)" by code_simp
  ultimately show ?thesis
    using propose_accepts [OF d [symmetric] refl, of ?s "start_session ?s ?r" True ?cls 0 "sample_script (sample_plan ''rm notes'' True)"]
    by (auto simp: initial_daemon_def)
qed

text \<open>A draft that the floor matches is refused whatever the model says: the shell gets the error
  with the pattern and no proposal; with clarifications the task waits, without a command, for a
  safer wish, and otherwise it is completed and cleared.\<close>

theorem propose_refuses_floor:
  assumes "ds_link s = None"
    and "matches_safety_floor (pe_engine env) (first_draft env payload plan) = Some m"
  shows "\<exists>s' last. propose_command_for_execution (Suc n) env script payload session cont cls plan s = (s', Done)
     \<and> ds_sent s' = ds_sent s @ [ErrorMsg (Some (st_task_id payload)) SafetyFloorError
          ''Refused: command matched immutable safety floor'' (Some (sfm_pattern m)), last]
     \<and> (if bh_allow_clarifications (behavior s)
        then (\<exists>q. last = NeedsClarification (st_task_id payload) q)
          \<and> map_option (\<lambda>t. (ift_proposed_command t, ift_awaiting_clarification t))
               (map_of (ds_tasks s') (st_task_id payload)) = Some ([], True)
        else last = TaskComplete (st_task_id payload) SafetyFloorReason
               ''Command blocked by immutable safety floor.''
          \<and> map_of (ds_tasks s') (st_task_id payload) = None)"
proof -
  let ?c = "propose_setup env payload session cont cls plan s"
  have p: "px_payload ?c = payload" by (simp add: propose_setup_def Let_def split: prod.split)
  have "propose_command_for_execution (Suc n) env script payload session cont cls plan s = refuse_floor ?c m s"
    using assms(2) by (simp add: propose_command_for_execution_def propose_with_def propose_round_def)
  moreover have "ds_tasks (append_session_turn_if_session_mode a b x y t) = ds_tasks t"
    "ds_sent (append_session_turn_if_session_mode a b x y t) = ds_sent t" for a b x y t
    by (simp_all add: append_session_turn_if_session_mode_def append_session_turn_def)
  ultimately show ?thesis
    using assms(1)
    by (auto simp: refuse_floor_def p Let_def send_then_def ask_user_def done1_def task_insert_def
        conversation_push_def waiting_task_def kv_lookup)
qed

theorem propose_refuses_floor_witness:
  "\<exists>s' last. propose_command_for_execution 1 sample_propose_env (sample_script (sample_plan ''rm -rf /'' True))
      (sample_request 1 ''?'' ''go on'')
      (start_session (initial_daemon sample_config) (sample_request 1 ''?'' ''go on'')) True
      \<lparr>cr_classification = FreshCommandRequest, cr_confidence = 1\<rparr> (sample_plan ''rm -rf /'' True)
      (initial_daemon sample_config) = (s', Done) \<and> length (ds_sent s') = 2"
proof -
  let ?s = "initial_daemon sample_config"
  let ?r = "sample_request 1 ''?'' ''go on''"
  have "first_draft sample_propose_env ?r (sample_plan ''rm -rf /'' True) = ''rm -rf /''" by code_simp
  moreover have "matches_safety_floor (pe_engine sample_propose_env) ''rm -rf /'' \<noteq> None" by code_simp
  ultimately obtain m where "matches_safety_floor (pe_engine sample_propose_env)
      (first_draft sample_propose_env ?r (sample_plan ''rm -rf /'' True)) = Some m" by auto
  from propose_refuses_floor [OF _ this, of ?s 0 "sample_script (sample_plan ''rm -rf /'' True)" "start_session ?s ?r" True
      "\<lparr>cr_classification = FreshCommandRequest, cr_confidence = 1\<rparr>"]
  show ?thesis by (auto simp: initial_daemon_def)
qed

end
