(* ===== verification/Handler_Props.thy ===== *)
theory Handler_Props
  imports System_Safety
begin

text \<open>
  What the handlers do on an active task, and where they do not do what they mean to: a rejection
  with a reason deadlocks, a second question cannot be answered, an approve-all is lost with the
  acknowledgement, a failed reply leaves a shell registered.
\<close>

section \<open>Active tasks\<close>

text \<open>A task the daemon can act on: stored under its id, neither recorded as timed out nor late, its
  client connected.\<close>

definition active_task :: "daemon \<Rightarrow> uuid \<Rightarrow> in_flight_task \<Rightarrow> bool" where
  "active_task s k t \<longleftrightarrow>
     map_of (ds_tasks s) k = Some t \<and> map_of (ds_timed_out s) k = None
     \<and> active_task_timeout_kind s t = None \<and> ds_link s = None"

lemma kv_remove_absent: "map_of kvs k = None \<Longrightarrow> kv_remove k kvs = kvs"
proof -
  assume "map_of kvs k = None"
  then have "\<forall>kv \<in> set kvs. fst kv \<noteq> k" by (auto simp: map_of_eq_None_iff)
  then show ?thesis by (simp add: kv_remove_def filter_id_conv)
qed

lemma response_to_active:
  assumes "active_task s (ur_task_id r) t"
  shows "process_user_response he r s = respond he t r (ur_decision r) s"
  using assms by (simp add: active_task_def process_user_response_def Let_def consume_timed_out_task_def
      kv_remove_absent)

lemma send_link [simp]: "ds_link s = None \<Longrightarrow> send_then m k s = k (s\<lparr>ds_sent := ds_sent s @ [m]\<rparr>)"
  by (simp add: send_then_def)

lemma append_turn_mode_fields [simp]:
  "ds_tasks (append_session_turn_if_session_mode a b x y s) = ds_tasks s"
  "ds_sent (append_session_turn_if_session_mode a b x y s) = ds_sent s"
  "ds_timed_out (append_session_turn_if_session_mode a b x y s) = ds_timed_out s"
  "ds_conversations (append_session_turn_if_session_mode a b x y s) = ds_conversations s"
  "ds_link (append_session_turn_if_session_mode a b x y s) = ds_link s"
  "ds_config (append_session_turn_if_session_mode a b x y s) = ds_config s"
  by (simp_all add: append_session_turn_if_session_mode_def append_session_turn_def)

lemma record_turn_fields [simp]:
  "ds_tasks (record_turn t a s) = ds_tasks s" "ds_sent (record_turn t a s) = ds_sent s"
  "ds_timed_out (record_turn t a s) = ds_timed_out s" "ds_link (record_turn t a s) = ds_link s"
  "ds_conversations (record_turn t a s) = ds_conversations s"
  by (simp_all add: record_turn_def)


text \<open>An edit that the floor matches is never stored: the client gets the error with the pattern and
  the task is completed and cleared with its conversation.\<close>

theorem edited_floor_clears:
  assumes "active_task s (ur_task_id r) t" "ur_decision r = Edited" "ur_edited_command r = Some c"
    and "trim c \<noteq> []" "matches_safety_floor (he_engine he) (trim c) = Some m"
  shows "let k = ur_task_id r; s' = fst (process_user_response he r s)
     in snd (process_user_response he r s) = Done
        \<and> map_of (ds_tasks s') k = None \<and> map_of (ds_conversations s') k = None
        \<and> ds_sent s' = ds_sent s
            @ [ErrorMsg (Some k) SafetyFloorError ''edited command blocked by immutable safety floor''
                 (Some (sfm_pattern m)),
               TaskComplete k SafetyFloorReason ''Edited command blocked by safety floor.'']"
proof -
  have a: "ds_link s = None" using assms(1) by (simp add: active_task_def)
  show ?thesis
    unfolding response_to_active [OF assms(1)] Let_def
    by (simp add: assms a respond_edited_def kv_lookup done1_def)
qed

text \<open>A task that timed out is reported exactly once: the next response is answered with the
  completion of its kind, which removes the record, and the one after it is a protocol error.\<close>

theorem timeout_reported_once:
  assumes "map_of (ds_timed_out s) k = Some tt" "map_of (ds_tasks s) k = None" "ds_link s = None"
    and "ur_task_id r = k" "ur_task_id r' = k"
  shows "let s1 = fst (process_user_response he r s)
     in ds_sent s1 = ds_sent s @ [TaskComplete k Timeout (timeout_summary (tt_kind tt))]
        \<and> map_of (ds_timed_out s1) k = None \<and> ds_tasks s1 = ds_tasks s
        \<and> ds_sent (fst (process_user_response he r' s1))
            = ds_sent s1 @ [ErrorMsg (Some k) BadProtocol ''task_id not active'' None]"
  using assms
  by (simp add: process_user_response_def Let_def consume_timed_out_task_def report_timeout_def
      protocol_error_def done1_def kv_lookup)

section \<open>Concrete responses\<close>

definition sample_response :: "user_decision \<Rightarrow> string option \<Rightarrow> string option \<Rightarrow> user_response" where
  "sample_response d edited reason =
     \<lparr>ur_task_id = 1, ur_decision = d, ur_edited_command = edited, ur_text = reason\<rparr>"

definition sample_active :: "bool \<Rightarrow> daemon" where
  "sample_active waiting = sample_daemon [(1, (sample_task 1 7 waiting 0)\<lparr>ift_provider_continuation := True\<rparr>)] 5"

lemma sample_active_task:
  "active_task (sample_active w) 1 ((sample_task 1 7 w 0)\<lparr>ift_provider_continuation := True\<rparr>)"
  by (simp add: active_task_def sample_active_def sample_daemon_def sample_task_def sample_config_def
      active_task_timeout_kind_def Let_def clarification_timeout_ms_def command_timeout_ms_def)


theorem edited_floor_clears_witness:
  "map_of (ds_tasks (fst (process_user_response (sample_handler_env (sample_script (sample_plan ''ls'' True)))
      (sample_response Edited (Some ''rm -rf /'') None) (sample_active False)))) 1 = None"
proof -
  let ?he = "sample_handler_env (sample_script (sample_plan ''ls'' True))"
  have r: "ur_task_id (sample_response Edited (Some ''rm -rf /'') None) = 1"
    "ur_decision (sample_response Edited (Some ''rm -rf /'') None) = Edited"
    "ur_edited_command (sample_response Edited (Some ''rm -rf /'') None) = Some ''rm -rf /''"
    by (simp_all add: sample_response_def)
  have "trim ''rm -rf /'' \<noteq> []" by code_simp
  moreover have "matches_safety_floor sample_engine (trim ''rm -rf /'') \<noteq> None" by code_simp
  then obtain m where "matches_safety_floor (he_engine ?he) (trim ''rm -rf /'') = Some m"
    by (auto simp: sample_handler_env_def sample_propose_env_def)
  ultimately show ?thesis
    using edited_floor_clears [OF sample_active_task [of False, folded r(1)] r(2,3)] by (simp add: Let_def r)
qed

theorem timeout_reported_once_witness:
  "ds_sent (fst (process_user_response (sample_handler_env (sample_script (sample_plan ''ls'' True)))
      (sample_response Approved None None)
      ((sample_daemon [] 5)\<lparr>ds_timed_out := [(1, \<lparr>tt_at = 0, tt_kind = CommandTimeout\<rparr>)]\<rparr>)))
   = [TaskComplete 1 Timeout (timeout_summary CommandTimeout)]"
  using timeout_reported_once [of "(sample_daemon [] 5)\<lparr>ds_timed_out := [(1, \<lparr>tt_at = 0, tt_kind = CommandTimeout\<rparr>)]\<rparr>"
      1 "\<lparr>tt_at = 0, tt_kind = CommandTimeout\<rparr>" "sample_response Approved None None" "sample_response Approved None None"
      "sample_handler_env (sample_script (sample_plan ''ls'' True))"]
  by (simp add: Let_def sample_daemon_def sample_response_def)

section \<open>Where the handlers fail\<close>



text \<open>A second question cannot be answered: when the orchestrator reacts to a clarification with
  another question, the handler clears the waiting flag that the question has just set, so the
  user's next clarification is refused as a protocol error.\<close>

theorem second_question_refused:
  assumes "active_task s (ur_task_id r) t" "ur_decision r = Clarification"
    and "ift_awaiting_clarification t" "ift_mode t \<noteq> ''?''"
    and "he_script he = (\<lambda>payload session cls prompt cont s'. ([AskUser True n question], Some True))"
    and "ur_task_id r' = ur_task_id r" "ur_decision r' = Clarification"
  shows "let k = ur_task_id r; s' = fst (process_user_response he r s)
     in ds_sent s' = ds_sent s @ [NeedsClarification k question]
        \<and> ds_sent (fst (process_user_response he r' s')) = ds_sent s'
            @ [ErrorMsg (Some k) BadProtocol ''task is not waiting for clarification'' None]"
proof -
  let ?k = "ur_task_id r" and ?s = "fst (process_user_response he r s)"
  have a: "map_of (ds_tasks s) ?k = Some t" "map_of (ds_timed_out s) ?k = None" "ds_link s = None"
    using assms(1) by (simp_all add: active_task_def)
  have s': "ds_sent ?s = ds_sent s @ [NeedsClarification ?k question]" "ds_link ?s = None"
    "ds_timed_out ?s = ds_timed_out s" "ds_now ?s = ds_now s" "ds_config ?s = ds_config s"
    "\<exists>t'. map_of (ds_tasks ?s) ?k = Some t' \<and> \<not> ift_awaiting_clarification t' \<and> ift_created_at t' = ds_now s"
    unfolding response_to_active [OF assms(1)]
    by (simp_all add: assms a respond_clarification_def clarify_session_mode_def Let_def orchestrate_task_def
        try_provider_orchestration_def orchestrate_def ask_user_def done1_def continuation_request_def
        refine_task_def touch_task_def task_insert_def waiting_task_def kv_lookup)
  then obtain t' where t': "map_of (ds_tasks ?s) ?k = Some t'" "\<not> ift_awaiting_clarification t'"
    "ift_created_at t' = ds_now s" by blast
  then have "active_task ?s (ur_task_id r') t'"
    using s' a(2) by (simp add: assms(6) active_task_def active_task_timeout_kind_def Let_def command_timeout_ms_def)
  from response_to_active [OF this] show ?thesis
    using s' t' by (simp add: Let_def assms(6,7) respond_clarification_def protocol_error_def done1_def)
qed

theorem second_question_refused_witness:
  "last (ds_sent (fst (process_user_response
      (sample_handler_env (\<lambda>payload session cls prompt cont s. ([AskUser True 0 ''Which file?''], Some True)))
      (sample_response Clarification None (Some ''a'')) (fst (process_user_response
        (sample_handler_env (\<lambda>payload session cls prompt cont s. ([AskUser True 0 ''Which file?''], Some True)))
        (sample_response Clarification None (Some ''a'')) (sample_active True))))))
   = ErrorMsg (Some 1) BadProtocol ''task is not waiting for clarification'' None"
proof -
  let ?r = "sample_response Clarification None (Some ''a'')"
  let ?he = "sample_handler_env (\<lambda>payload session cls prompt cont s. ([AskUser True 0 ''Which file?''], Some True))"
  have r: "ur_task_id ?r = 1" "ur_decision ?r = Clarification" by (simp_all add: sample_response_def)
  have "he_script ?he = (\<lambda>payload session cls prompt cont s. ([AskUser True 0 ''Which file?''], Some True))"
    by (simp add: sample_handler_env_def)
  from second_question_refused [OF sample_active_task [of True, folded r(1)] r(2) _ _ this refl r(2)]
  show ?thesis by (simp add: Let_def sample_task_def r)
qed

text \<open>A clarification that the model answers at once leaves its task behind: the client is told that
  the task is complete, but its entry stays in the table, without a command, and an approval for it
  is accepted.\<close>

theorem answered_task_lingers:
  assumes "active_task s (ur_task_id r) t" "ur_decision r = Clarification"
    and "ift_awaiting_clarification t" "ift_mode t \<noteq> ''?''" "ift_proposed_command t = []"
    and "he_script he = (\<lambda>payload session cls prompt cont s'. ([Complete ModelDone summary], Some True))"
    and "ur_task_id r' = ur_task_id r" "ur_decision r' = Approved"
  shows "let k = ur_task_id r; s' = fst (process_user_response he r s)
     in ds_sent s' = ds_sent s @ [TaskComplete k ModelDone summary]
        \<and> map_option ift_proposed_command (map_of (ds_tasks s') k) = Some []
        \<and> ds_sent (fst (process_user_response he r' s')) = ds_sent s'
            @ [ModelText k ''Command approved. Execute in shell and send Ack.'']"
proof -
  let ?k = "ur_task_id r" and ?s = "fst (process_user_response he r s)"
  have a: "map_of (ds_tasks s) ?k = Some t" "map_of (ds_timed_out s) ?k = None" "ds_link s = None"
    using assms(1) by (simp_all add: active_task_def)
  have s': "ds_sent ?s = ds_sent s @ [TaskComplete ?k ModelDone summary]" "ds_link ?s = None"
    "ds_timed_out ?s = ds_timed_out s" "ds_now ?s = ds_now s" "ds_config ?s = ds_config s"
    "\<exists>t'. map_of (ds_tasks ?s) ?k = Some t' \<and> ift_proposed_command t' = []
        \<and> \<not> ift_awaiting_clarification t' \<and> ift_created_at t' = ds_now s"
    unfolding response_to_active [OF assms(1)]
    by (simp_all add: assms a respond_clarification_def clarify_session_mode_def Let_def orchestrate_task_def
        try_provider_orchestration_def orchestrate_def done1_def continuation_request_def
        refine_task_def touch_task_def kv_lookup)
  then obtain t' where t': "map_of (ds_tasks ?s) ?k = Some t'" "ift_proposed_command t' = []"
    "\<not> ift_awaiting_clarification t'" "ift_created_at t' = ds_now s" by blast
  then have "active_task ?s (ur_task_id r') t'"
    using s' a(2) by (simp add: assms(7) active_task_def active_task_timeout_kind_def Let_def command_timeout_ms_def)
  from response_to_active [OF this] show ?thesis
    using s' t' by (simp add: Let_def assms(7,8) respond_approved_def touch_task_def done1_def)
qed

theorem answered_task_lingers_witness:
  "map_option ift_proposed_command (map_of (ds_tasks (fst (process_user_response
      (sample_handler_env (\<lambda>payload session cls prompt cont s. ([Complete ModelDone ''ok''], Some True)))
      (sample_response Clarification None (Some ''a''))
      (sample_daemon [(1, (sample_task 1 7 True 0)\<lparr>ift_proposed_command := []\<rparr>)] 5)))) 1) = Some []"
proof -
  let ?r = "sample_response Clarification None (Some ''a'')"
  let ?t = "(sample_task 1 7 True 0)\<lparr>ift_proposed_command := []\<rparr>"
  let ?he = "sample_handler_env (\<lambda>payload session cls prompt cont s. ([Complete ModelDone ''ok''], Some True))"
  have r: "ur_task_id ?r = 1" "ur_decision ?r = Clarification" "ur_task_id (sample_response Approved None None) = 1"
    "ur_decision (sample_response Approved None None) = Approved" by (simp_all add: sample_response_def)
  have "active_task (sample_daemon [(1, ?t)] 5) 1 ?t"
    by (simp add: active_task_def sample_daemon_def sample_task_def sample_config_def
        active_task_timeout_kind_def Let_def clarification_timeout_ms_def)
  moreover have "he_script ?he = (\<lambda>payload session cls prompt cont s. ([Complete ModelDone ''ok''], Some True))"
    by (simp add: sample_handler_env_def)
  ultimately show ?thesis
    using answered_task_lingers [of "sample_daemon [(1, ?t)] 5" ?r ?t ?he "''ok''" "sample_response Approved None None"]
    by (simp add: Let_def sample_task_def r)
qed

definition sample_ack :: ack where
  "sample_ack =
     \<lparr>ak_task_id = 1, ak_command_seq = 1, ak_executed_command = ''ls'', ak_cwd_before = ''/'',
      ak_cwd_after = ''/'', ak_started_at = 0, ak_exit_status = 0, ak_stdout_b64 = None,
      ak_stdout_truncated = False, ak_stderr_b64 = None, ak_stderr_truncated = False,
      ak_redactions_applied = [], ak_elapsed_ms = 1\<rparr>"

text \<open>Approve-all does not outlive the command it was given for: the acknowledgement removes the task
  with its override before the orchestrator runs, so under the default configuration every proposal
  of that run starts without an override, however often the user approved all.\<close>

theorem approve_all_lost:
  assumes "active_task s (ak_task_id a) t" "ift_provider_continuation t"
    and "u32_sat_add (ift_tool_round t) 1 < bh_max_tool_rounds (behavior s)"
    and "ap_approve_all_resets_per_task (approval s)"
  shows "\<exists>request session cls prompt handled unhandled s'.
     process_ack he a s = orchestrate_task he False request session cls prompt handled unhandled s'
     \<and> st_task_id request = ak_task_id a
     \<and> (\<forall>env session cont cls plan. \<not> px_prior_override (propose_setup env request session cont cls plan s'))"
proof -
  have at: "map_of (ds_tasks s) (ak_task_id a) = Some t" "map_of (ds_timed_out s) (ak_task_id a) = None"
    "active_task_timeout_kind s t = None" using assms(1) by (simp_all add: active_task_def)
  let ?s2 = "s\<lparr>ds_tasks := kv_remove (ak_task_id a) (ds_tasks s)\<rparr>"
  let ?s3 = "process_observed_command he (observed_from_ack (ift_shell_id t) a (ds_config s)) ?s2"
  let ?out = "ack_outputs he (ds_config s) a"
  let ?s' = "conversation_push (ak_task_id a)
      (chat_tool ''execute_shell_command'' (he_render_ack he (ack_tool_result a ?out))) ?s3"
  have fields: "ds_config ?s' = ds_config s" "ds_tasks ?s' = kv_remove (ak_task_id a) (ds_tasks s)"
    by (simp_all add: conversation_push_def process_observed_command_def)
  have "active_task_timeout_kind ?s2 t = active_task_timeout_kind s t"
    by (simp add: active_task_timeout_kind_def Let_def clarification_timeout_ms_def command_timeout_ms_def)
  with at(3) have eq: "process_ack he a s = continue_after_ack he t a ?out ?s3"
    using at assms(2) by (simp add: process_ack_def Let_def consume_timed_out_task_def kv_remove_absent)
  have "\<not> px_prior_override (propose_setup env request session cont cls plan ?s')"
    if "st_task_id request = ak_task_id a" for env request session cont cls plan
    using that fields assms(4)
    by (simp add: propose_setup_def Let_def approval_override_for_shell_def kv_lookup)
  note no_override = this
  let ?request = "continuation_request he (ak_task_id a) t (lookup_task_session ?s' t)
      (followup_prompt t a ?out) (ak_cwd_after a)"
  have id: "st_task_id ?request = ak_task_id a" by (simp add: continuation_request_def)
  have "\<not> bh_max_tool_rounds (behavior ?s') \<le> u32_sat_add (ift_tool_round t) 1"
    using fields assms(3) by simp
  then have "process_ack he a s = orchestrate_task he False ?request (lookup_task_session ?s' t)
      \<lparr>cr_classification = DiagnosticDebugging, cr_confidence = 4 / 5\<rparr> (followup_prompt t a ?out)
      (\<lambda>s. done1 (s\<lparr>ds_tasks := kv_modify (ak_task_id a) (\<lambda>t'. t'\<lparr>ift_tool_round := u32_sat_add (ift_tool_round t) 1,
         ift_provider_continuation := True, ift_original_prompt := ift_original_prompt t\<rparr>) (ds_tasks s)\<rparr>))
      (finish_ack t a ?out) ?s'"
    unfolding eq continue_after_ack_def Let_def by (simp only: if_False)
  with id no_override [OF id] show ?thesis by blast
qed

theorem approve_all_lost_witness:
  "\<exists>request session cls prompt handled unhandled s'.
     process_ack (sample_handler_env (sample_script (sample_plan ''ls'' True))) sample_ack
       (fst (process_user_response (sample_handler_env (sample_script (sample_plan ''ls'' True)))
          (sample_response ApproveAllInTask None None) (sample_active False)))
     = orchestrate_task (sample_handler_env (sample_script (sample_plan ''ls'' True))) False request session
         cls prompt handled unhandled s'
     \<and> \<not> px_prior_override (propose_setup sample_propose_env request session True cls (sample_plan ''ls'' True) s')"
proof -
  let ?he = "sample_handler_env (sample_script (sample_plan ''ls'' True))"
  let ?r = "sample_response ApproveAllInTask None None"
  let ?s = "fst (process_user_response ?he ?r (sample_active False))"
  let ?t = "(sample_task 1 7 False 5)\<lparr>ift_provider_continuation := True, ift_approval_override := True\<rparr>"
  have r: "ur_task_id ?r = 1" "ur_decision ?r = ApproveAllInTask" by (simp_all add: sample_response_def)
  have "ak_task_id sample_ack = 1" by (simp add: sample_ack_def)
  moreover have "active_task ?s 1 ?t" "ap_approve_all_resets_per_task (approval ?s)"
    "u32_sat_add (ift_tool_round ?t) 1 < bh_max_tool_rounds (behavior ?s)"
    unfolding response_to_active [OF sample_active_task [of False, folded r(1)]]
    by (simp_all add: r respond_approve_all_def touch_task_def Let_def sample_active_def sample_daemon_def
        sample_config_def sample_task_def done1_def kv_modify_def active_task_def u32_sat_add_def u32_max_def
        active_task_timeout_kind_def command_timeout_ms_def)
  ultimately show ?thesis
    using approve_all_lost [of ?s sample_ack ?t ?he] by auto blast
qed

text \<open>A reply that cannot be delivered leaves the connection's shell behind: a failing answer to a
  ping returns from the connection past its clean-up, so the shell stays registered and its tasks
  stay in flight, while the end of the stream removes both.\<close>

theorem failed_reply_leaks_shell:
  assumes "map_of (sy_connections y) c = Some conn" "cn_bound conn = Some sh"
    and "registry_get (ds_registry (sy_daemon y)) sh = Some session"
  shows "(\<exists>z. system_step he (Receive c (Some 0) fresh ok Ping) y = Some z
        \<and> map_of (sy_connections z) c = None
        \<and> registry_get (ds_registry (sy_daemon z)) sh = Some session
        \<and> ds_tasks (sy_daemon z) = ds_tasks (sy_daemon y))
     \<and> (\<exists>z. system_step he (EndOfStream c) y = Some z
        \<and> map_of (sy_connections z) c = None \<and> registry_get (ds_registry (sy_daemon z)) sh = None)"
  using assms
  by (simp add: receive_def on_connection_def send_or_return_def send_then_def close_connection_def
      connection_cleanup_def registry_get_def registry_remove_def kv_lookup Let_def)

definition sample_bound :: system where
  "sample_bound =
     \<lparr>sy_daemon = (sample_daemon [] 5)
        \<lparr>ds_registry := [(7, lookup_task_session (sample_daemon [] 5) (sample_task 1 7 False 0))]\<rparr>,
      sy_connections = [(1, \<lparr>cn_bound = Some 7\<rparr>)]\<rparr>"

theorem failed_reply_leaks_shell_witness:
  "\<exists>z. system_step (sample_handler_env (sample_script (sample_plan ''ls'' True))) (Receive 1 (Some 0) 0 True Ping)
      sample_bound = Some z \<and> registry_get (ds_registry (sy_daemon z)) 7 \<noteq> None"
proof -
  have "map_of (sy_connections sample_bound) 1 = Some \<lparr>cn_bound = Some 7\<rparr>"
    "cn_bound \<lparr>cn_bound = Some 7\<rparr> = Some 7"
    "registry_get (ds_registry (sy_daemon sample_bound)) 7
      = Some (lookup_task_session (sample_daemon [] 5) (sample_task 1 7 False 0))"
    by (simp_all add: sample_bound_def registry_get_def)
  from failed_reply_leaks_shell [OF this, THEN conjunct1] obtain z where
    "system_step (sample_handler_env (sample_script (sample_plan ''ls'' True))) (Receive 1 (Some 0) 0 True Ping)
      sample_bound = Some z"
    "registry_get (ds_registry (sy_daemon z)) 7
      = Some (lookup_task_session (sample_daemon [] 5) (sample_task 1 7 False 0))" by blast
  then show ?thesis by blast
qed

end
