(* ===== verification/Byte_Codec.thy ===== *)
theory Byte_Codec
  imports Rust_Str
begin

text \<open>
  Binary data as the index store reads and writes it: little-endian integers
  (\<open>to_le_bytes\<close>/\<open>from_le_bytes\<close>), readers that move a cursor over a buffer, UTF-8 decoding
  (\<open>std::str::from_utf8\<close>, \<open>String::from_utf8_lossy\<close>), hexadecimal digits, and results. Bytes are
  \<open>char\<close>s, as in strings.
\<close>

section \<open>Results\<close>

text \<open>\<open>Bail\<close> is an error value; \<open>Panic\<close> is a slice or index out of range.\<close>

datatype index_error = Bail string | Panic

definition and_then :: "'e + 'a \<Rightarrow> ('a \<Rightarrow> 'e + 'b) \<Rightarrow> 'e + 'b" where
  "and_then r f = (case r of Inl e \<Rightarrow> Inl e | Inr v \<Rightarrow> f v)"

lemma and_then_simps [simp]:
  "and_then (Inl e) f = Inl e" "and_then (Inr v) f = f v"
  by (simp_all add: and_then_def)

lemma and_then_Inr_iff [simp]: "and_then r f = Inr w \<longleftrightarrow> (\<exists>v. r = Inr v \<and> f v = Inr w)"
  by (auto simp: and_then_def split: sum.splits)

lemma and_then_Inl_iff: "and_then r f = Inl e \<longleftrightarrow> r = Inl e \<or> (\<exists>v. r = Inr v \<and> f v = Inl e)"
  by (auto simp: and_then_def split: sum.splits)

definition bail_unless :: "bool \<Rightarrow> string \<Rightarrow> (index_error + 'a) \<Rightarrow> index_error + 'a" where
  "bail_unless ok message r = (if ok then r else Inl (Bail message))"

lemma bail_unless_True [simp]: "bail_unless True message r = r"
  by (simp add: bail_unless_def)

lemma bail_unless_Inr [simp]: "bail_unless ok message r = Inr v \<longleftrightarrow> ok \<and> r = Inr v"
  by (simp add: bail_unless_def)

section \<open>Little-endian integers\<close>

fun nat_bytes :: "nat \<Rightarrow> nat \<Rightarrow> string" where
  "nat_bytes 0 k = []"
| "nat_bytes (Suc n) k = char_of k # nat_bytes n (k div 256)"

fun bytes_nat :: "string \<Rightarrow> nat" where
  "bytes_nat [] = 0"
| "bytes_nat (c # cs) = of_char c + 256 * bytes_nat cs"

lemma length_nat_bytes [simp]: "length (nat_bytes n k) = n"
  by (induction n arbitrary: k) auto

lemma bytes_nat_bytes: "bytes_nat (nat_bytes n k) = k mod 256 ^ n"
proof (induction n arbitrary: k)
  case 0
  then show ?case by simp
next
  case (Suc n)
  have "bytes_nat (nat_bytes (Suc n) k) = k mod 256 + 256 * (k div 256 mod 256 ^ n)"
    by (simp add: Suc.IH)
  also have "\<dots> = k mod (256 * 256 ^ n)"
    by (simp add: mod_mult2_eq)
  finally show ?case by simp
qed

lemma bytes_nat_less: "bytes_nat cs < 256 ^ length cs"
proof (induction cs)
  case Nil
  then show ?case by simp
next
  case (Cons c cs)
  have "of_char c < (256 :: nat)" by (metis mod_less_divisor of_char_mod_256 zero_less_numeral)
  then have "of_char c + 256 * bytes_nat cs < 256 + 256 * bytes_nat cs" by (rule add_strict_right_mono)
  also have "\<dots> \<le> 256 * 256 ^ length cs" using Cons.IH by simp
  finally show ?case by simp
qed

type_synonym u32 = "32 word"
type_synonym u64 = "64 word"

definition u32_bytes :: "u32 \<Rightarrow> string" where "u32_bytes w = nat_bytes 4 (unat w)"
definition u64_bytes :: "u64 \<Rightarrow> string" where "u64_bytes w = nat_bytes 8 (unat w)"
definition u32_of_bytes :: "string \<Rightarrow> u32" where "u32_of_bytes cs = word_of_nat (bytes_nat cs)"
definition u64_of_bytes :: "string \<Rightarrow> u64" where "u64_of_bytes cs = word_of_nat (bytes_nat cs)"

lemma length_u_bytes [simp]: "length (u32_bytes w) = 4" "length (u64_bytes v) = 8"
  by (simp_all add: u32_bytes_def u64_bytes_def)

lemma u32_roundtrip [simp]: "u32_of_bytes (u32_bytes w) = w"
  using unsigned_less [of w, where 'a = nat]
  by (simp add: u32_of_bytes_def u32_bytes_def bytes_nat_bytes)

lemma u64_roundtrip [simp]: "u64_of_bytes (u64_bytes w) = w"
  using unsigned_less [of w, where 'a = nat]
  by (simp add: u64_of_bytes_def u64_bytes_def bytes_nat_bytes)

text \<open>\<open>u32::try_from\<close> and \<open>u64::try_from\<close> on a \<open>usize\<close>.\<close>

definition u32_try_from :: "nat \<Rightarrow> string \<Rightarrow> index_error + u32" where
  "u32_try_from n message = (if n < 2 ^ 32 then Inr (word_of_nat n) else Inl (Bail message))"

definition u64_try_from :: "nat \<Rightarrow> string \<Rightarrow> index_error + u64" where
  "u64_try_from n message = (if n < 2 ^ 64 then Inr (word_of_nat n) else Inl (Bail message))"

lemma unat_try_from:
  "n < 2 ^ 32 \<Longrightarrow> unat (word_of_nat n :: u32) = n" "n < 2 ^ 64 \<Longrightarrow> unat (word_of_nat n :: u64) = n"
  by (simp_all add: unsigned_of_nat take_bit_nat_eq_self)

lemma try_from_simps [simp]:
  "n < 2 ^ 32 \<Longrightarrow> u32_try_from n m = Inr (word_of_nat n)"
  "n < 2 ^ 64 \<Longrightarrow> u64_try_from n m = Inr (word_of_nat n)"
  by (simp_all add: u32_try_from_def u64_try_from_def)

section \<open>Readers\<close>

text \<open>A slice \<open>raw[a..b]\<close> panics out of range.\<close>

definition slice :: "string \<Rightarrow> nat \<Rightarrow> nat \<Rightarrow> index_error + string" where
  "slice raw a b = (if a \<le> b \<and> b \<le> length raw then Inr (take (b - a) (drop a raw)) else Inl Panic)"

definition read_bytes :: "nat \<Rightarrow> string \<Rightarrow> string \<Rightarrow> nat \<Rightarrow> index_error + string \<times> nat" where
  "read_bytes n message raw cursor =
     (if length raw - cursor < n then Inl (Bail message)
      else and_then (slice raw cursor (cursor + n)) (\<lambda>bytes. Inr (bytes, cursor + n)))"

definition read_u32 :: "string \<Rightarrow> nat \<Rightarrow> index_error + u32 \<times> nat" where
  "read_u32 raw cursor =
     and_then (read_bytes 4 ''buffer underflow reading u32'' raw cursor)
       (\<lambda>(bytes, cursor). Inr (u32_of_bytes bytes, cursor))"

definition read_u64 :: "string \<Rightarrow> nat \<Rightarrow> index_error + u64 \<times> nat" where
  "read_u64 raw cursor =
     and_then (read_bytes 8 ''buffer underflow reading u64'' raw cursor)
       (\<lambda>(bytes, cursor). Inr (u64_of_bytes bytes, cursor))"

definition read_i64 :: "string \<Rightarrow> nat \<Rightarrow> index_error + u64 \<times> nat" where
  "read_i64 raw cursor =
     and_then (read_bytes 8 ''buffer underflow reading i64'' raw cursor)
       (\<lambda>(bytes, cursor). Inr (u64_of_bytes bytes, cursor))"

definition read_u8 :: "string \<Rightarrow> nat \<Rightarrow> index_error + char \<times> nat" where
  "read_u8 raw cursor =
     (if length raw - cursor < 1 then Inl (Bail ''buffer underflow reading u8'')
      else if cursor < length raw then Inr (raw ! cursor, cursor + 1) else Inl Panic)"

definition read_fixed :: "nat \<Rightarrow> string \<Rightarrow> nat \<Rightarrow> index_error + string \<times> nat" where
  "read_fixed n raw cursor = read_bytes n ''buffer underflow reading fixed slice'' raw cursor"

text \<open>What a reader returns on a buffer that was written: the value in front of the cursor.\<close>

named_theorems reads "readers on a written buffer"

lemma slice_mid: "slice (pre @ bytes @ post) (length pre) (length pre + length bytes) = Inr bytes"
  by (simp add: slice_def)

lemma read_bytes_mid [reads]:
  assumes "drop cursor raw = bytes @ post" "cursor \<le> length raw" "length bytes = n"
  shows "read_bytes n message raw cursor = Inr (bytes, cursor + n)"
proof -
  from assms(1) have "length raw - cursor = n + length post"
    by (metis assms(3) length_append length_drop)
  then show ?thesis using assms by (simp add: read_bytes_def slice_def)
qed

lemma drop_advance: "drop cursor raw = bytes @ post \<Longrightarrow> length bytes = n \<Longrightarrow> drop (cursor + n) raw = post"
  by (metis add.commute append_eq_conv_conj drop_drop)

lemma cursor_advance:
  "drop cursor raw = bytes @ post \<Longrightarrow> cursor \<le> length raw \<Longrightarrow> length bytes = n \<Longrightarrow> cursor + n \<le> length raw"
  by (metis add_le_cancel_left append_take_drop_id length_append length_take min_absorb2 le_add1)

lemma read_u32_mid:
  "drop cursor raw = u32_bytes w @ post \<Longrightarrow> cursor \<le> length raw \<Longrightarrow> read_u32 raw cursor = Inr (w, cursor + 4)"
  by (simp add: read_u32_def read_bytes_mid)

lemma read_u64_mid:
  "drop cursor raw = u64_bytes w @ post \<Longrightarrow> cursor \<le> length raw \<Longrightarrow> read_u64 raw cursor = Inr (w, cursor + 8)"
  by (simp add: read_u64_def read_bytes_mid)

lemma read_i64_mid:
  "drop cursor raw = u64_bytes w @ post \<Longrightarrow> cursor \<le> length raw \<Longrightarrow> read_i64 raw cursor = Inr (w, cursor + 8)"
  by (simp add: read_i64_def read_bytes_mid)

lemma read_u8_mid:
  "drop cursor raw = c # post \<Longrightarrow> cursor \<le> length raw \<Longrightarrow> read_u8 raw cursor = Inr (c, cursor + 1)"
  by (metis (no_types, lifting) One_nat_def diff_is_0_eq' hd_drop_conv_nth leD length_0_conv length_drop
      less_one linorder_not_le list.discI list.sel(1) read_u8_def)

lemma read_fixed_mid:
  "drop cursor raw = bytes @ post \<Longrightarrow> cursor \<le> length raw \<Longrightarrow> length bytes = n
     \<Longrightarrow> read_fixed n raw cursor = Inr (bytes, cursor + n)"
  by (simp add: read_fixed_def read_bytes_mid)

end
