(* ===== verification/Utf8.thy ===== *)
theory Utf8
  imports Byte_Codec
begin

text \<open>
  \<open>std::str::from_utf8\<close> and \<open>String::from_utf8_lossy\<close> on bytes: the well-formed sequences of the
  Unicode standard (no overlong form, no surrogate, nothing above U+10FFFF), and the replacement of
  each maximal ill-formed part by U+FFFD.
\<close>

section \<open>One sequence\<close>

text \<open>How many continuation bytes a first byte asks for, and the range of the second byte.\<close>

definition utf8_tail :: "nat \<Rightarrow> nat" where
  "utf8_tail b = (if b < 194 then 0 else if b < 224 then 1 else if b < 240 then 2 else if b < 245 then 3 else 0)"

definition utf8_second :: "nat \<Rightarrow> char \<Rightarrow> bool" where
  "utf8_second b c \<longleftrightarrow>
     byte_in (if b = 224 then 160 else if b = 240 then 144 else 128)
       (if b = 237 then 159 else if b = 244 then 143 else 191) c"

text \<open>Whether the bytes start with a well-formed sequence, and its length or that of the part to
  replace.\<close>

fun utf8_step :: "string \<Rightarrow> bool \<times> nat" where
  "utf8_step [] = (True, 0)"
| "utf8_step (b # bs) =
     (if of_char b < (128 :: nat) then (True, 1)
      else let n = utf8_tail (of_char b)
           in if n = 0 then (False, 1)
              else case bs of
                     [] \<Rightarrow> (False, 1)
                   | c # cs \<Rightarrow>
                       if \<not> utf8_second (of_char b) c then (False, 1)
                       else let k = length (takeWhile is_cont (take (n - 1) cs))
                            in if k = n - 1 then (True, n + 1) else (False, 2 + k))"

lemma utf8_step_pos: "s \<noteq> [] \<Longrightarrow> 0 < snd (utf8_step s)"
  by (cases s) (auto simp: Let_def split: list.splits)

section \<open>Decoding\<close>

function utf8_valid :: "string \<Rightarrow> bool" where
  "utf8_valid s =
     (if s = [] then True
      else if fst (utf8_step s) then utf8_valid (drop (snd (utf8_step s)) s) else False)"
  by pat_completeness auto
termination
  by (relation "measure length") (auto simp: utf8_step_pos intro!: diff_less)

definition replacement :: string where
  "replacement = [CHR 0xEF, CHR 0xBF, CHR 0xBD]"

function from_utf8_lossy :: "string \<Rightarrow> string" where
  "from_utf8_lossy s =
     (if s = [] then []
      else (if fst (utf8_step s) then take (snd (utf8_step s)) s else replacement)
           @ from_utf8_lossy (drop (snd (utf8_step s)) s))"
  by pat_completeness auto
termination
  by (relation "measure length") (auto simp: utf8_step_pos intro!: diff_less)

declare utf8_valid.simps [simp del] from_utf8_lossy.simps [simp del]

definition from_utf8 :: "string \<Rightarrow> string option" where
  "from_utf8 s = (if utf8_valid s then Some s else None)"

lemma utf8_valid_Nil [simp]: "utf8_valid []"
  by (subst utf8_valid.simps) simp

lemma from_utf8_lossy_Nil [simp]: "from_utf8_lossy [] = []"
  by (subst from_utf8_lossy.simps) simp

lemma utf8_valid_step:
  "s \<noteq> [] \<Longrightarrow> utf8_valid s \<longleftrightarrow> fst (utf8_step s) \<and> utf8_valid (drop (snd (utf8_step s)) s)"
  by (subst utf8_valid.simps) simp

lemma from_utf8_lossy_valid [simp]: "utf8_valid s \<Longrightarrow> from_utf8_lossy s = s"
proof (induction s rule: from_utf8_lossy.induct)
  case (1 s)
  show ?case
  proof (cases "s = []")
    case True
    then show ?thesis by simp
  next
    case False
    then have v: "fst (utf8_step s)" "utf8_valid (drop (snd (utf8_step s)) s)"
      using "1.prems" utf8_valid_step by blast+
    then have "from_utf8_lossy (drop (snd (utf8_step s)) s) = drop (snd (utf8_step s)) s"
      using "1.IH" False by blast
    then show ?thesis using v(1) False by (subst from_utf8_lossy.simps) simp
  qed
qed

lemma utf8_valid_ascii: "\<forall>b \<in> set s. of_char b < (128 :: nat) \<Longrightarrow> utf8_valid s"
proof (induction s)
  case Nil
  then show ?case by simp
next
  case (Cons b s)
  then show ?case by (simp add: utf8_valid_step)
qed

section \<open>Concatenation and scalar values\<close>

text \<open>A well-formed sequence is decoded in the same way whatever follows it.\<close>

lemma full_takeWhile:
  assumes "length (takeWhile P (take m xs)) = m"
  shows "takeWhile P (take m xs) = take m xs" "m \<le> length xs"
proof -
  show "m \<le> length xs"
    by (metis assms length_take length_takeWhile_le min.cobounded1 min_def)
  then show "takeWhile P (take m xs) = take m xs"
    by (metis assms length_take min.absorb2 takeWhile_eq_take take_all order_refl)
qed

lemma utf8_step_append:
  assumes "fst (utf8_step s)" "s \<noteq> []" "snd (utf8_step s) \<le> length s"
  shows "utf8_step (s @ t) = utf8_step s"
proof -
  obtain b bs where s: "s = b # bs" using assms(2) by (cases s) auto
  show ?thesis
  proof (cases "of_char b < (128 :: nat)")
    case True
    then show ?thesis by (simp add: s)
  next
    case False
    then obtain c cs where bs: "bs = c # cs" using assms(1) s by (auto simp: Let_def split: if_splits list.splits)
    have k: "length (takeWhile is_cont (take (utf8_tail (of_char b) - 1) cs)) = utf8_tail (of_char b) - 1"
      using assms(1) False by (auto simp: s bs Let_def split: if_splits)
    have "length cs \<ge> utf8_tail (of_char b) - 1" by (rule full_takeWhile(2) [OF k])
    then have "take (utf8_tail (of_char b) - 1) (cs @ t) = take (utf8_tail (of_char b) - 1) cs" by simp
    then show ?thesis using False by (simp only: s bs utf8_step.simps append_Cons Let_def list.case)
  qed
qed

lemma utf8_step_length: "fst (utf8_step s) \<Longrightarrow> snd (utf8_step s) \<le> length s"
proof -
  assume a: "fst (utf8_step s)"
  show ?thesis
  proof (cases s)
    case Nil
    then show ?thesis by simp
  next
    case (Cons b bs)
    show ?thesis
    proof (cases "of_char b < (128 :: nat)")
      case True
      then show ?thesis by (simp add: Cons)
    next
      case False
      then obtain c cs where bs: "bs = c # cs" using a Cons by (auto simp: Let_def split: if_splits list.splits)
      have k: "length (takeWhile is_cont (take (utf8_tail (of_char b) - 1) cs)) = utf8_tail (of_char b) - 1"
        "snd (utf8_step s) = utf8_tail (of_char b) + 1" "utf8_tail (of_char b) \<noteq> 0"
        using a False by (auto simp: Cons bs Let_def split: if_splits)
      have "utf8_tail (of_char b) - 1 \<le> length cs" by (rule full_takeWhile(2) [OF k(1)])
      then show ?thesis using k by (simp add: Cons bs)
    qed
  qed
qed

lemma utf8_step_take:
  assumes "fst (utf8_step s)"
  shows "utf8_step (take (snd (utf8_step s)) s) = utf8_step s"
proof (cases s)
  case Nil
  then show ?thesis by simp
next
  case (Cons b bs)
  show ?thesis
  proof (cases "of_char b < (128 :: nat)")
    case True
    then show ?thesis by (simp add: Cons)
  next
    case False
    then obtain c cs where bs: "bs = c # cs" using assms Cons by (auto simp: Let_def split: if_splits list.splits)
    let ?n = "utf8_tail (of_char b)"
    have n: "?n \<noteq> 0" "snd (utf8_step s) = ?n + 1"
      using assms False by (auto simp: Cons bs Let_def split: if_splits)
    then have t: "take (snd (utf8_step s)) s = b # c # take (?n - 1) cs"
      by (cases ?n) (simp_all add: Cons bs)
    have "utf8_step (b # c # take (?n - 1) cs) = utf8_step s"
      by (simp only: Cons bs utf8_step.simps list.case take_take min.idem Let_def)
    then show ?thesis unfolding t .
  qed
qed

lemma utf8_valid_append: "utf8_valid s \<Longrightarrow> utf8_valid t \<Longrightarrow> utf8_valid (s @ t)"
proof (induction s rule: utf8_valid.induct)
  case (1 s)
  show ?case
  proof (cases "s = []")
    case True
    then show ?thesis using 1 by simp
  next
    case False
    then have v: "fst (utf8_step s)" "utf8_valid (drop (snd (utf8_step s)) s)"
      using "1.prems"(1) utf8_valid_step by blast+
    note l = utf8_step_length [OF v(1)]
    have "utf8_valid (drop (snd (utf8_step s)) s @ t)"
      using "1.IH" False v "1.prems"(2) by blast
    then show ?thesis
      using v(1) l False by (simp add: utf8_valid_step [of "s @ t"] utf8_step_append)
  qed
qed

text \<open>The bytes of a well-formed sequence: a start byte and its continuation bytes.\<close>

lemma is_cont_iff: "is_cont b \<longleftrightarrow> 128 \<le> (of_char b :: nat) \<and> of_char b < (192 :: nat)"
  by (cases b) (simp add: is_cont_def of_char_def of_bool_def)

lemma digit7_iff: "digit7 b \<longleftrightarrow> 128 \<le> (of_char b :: nat)"
  by (cases b) (simp add: of_char_def of_bool_def)

lemma utf8_second_cont: "utf8_second n c \<Longrightarrow> is_cont c"
  by (auto simp: utf8_second_def byte_in_def is_cont_iff split: if_splits)

lemma utf8_step_bytes:
  assumes "fst (utf8_step s)" "s \<noteq> []"
  obtains b cs where "take (snd (utf8_step s)) s = b # cs" "\<not> is_cont b" "\<forall>x \<in> set cs. is_cont x"
    "digit7 b \<or> cs = []"
proof (cases "of_char (hd s) < (128 :: nat)")
  case True
  with assms that [of "hd s" "[]"] show ?thesis by (cases s) (auto simp: is_cont_iff)
next
  case False
  obtain b bs where s: "s = b # bs" using assms(2) by (cases s) auto
  with False assms obtain c cs where bs: "bs = c # cs" by (auto simp: Let_def split: if_splits list.splits)
  let ?n = "utf8_tail (of_char b)"
  have k: "utf8_second (of_char b) c" "?n \<noteq> 0" "snd (utf8_step s) = ?n + 1"
    "length (takeWhile is_cont (take (?n - 1) cs)) = ?n - 1"
    using assms False by (auto simp: s bs Let_def split: if_splits)
  have "\<not> is_cont b" using k(2) False by (auto simp: s is_cont_iff utf8_tail_def split: if_splits)
  moreover have "\<forall>x \<in> set (take (?n - 1) cs). is_cont x"
    using full_takeWhile [OF k(4)] by (simp add: takeWhile_eq_all_conv)
  moreover have "is_cont c" using k(1) utf8_second_cont by simp
  moreover have "take (snd (utf8_step s)) s = b # c # take (?n - 1) cs"
    using k(2,3) by (cases ?n) (simp_all add: s bs)
  moreover have "digit7 b" using False by (simp add: s digit7_iff)
  ultimately show ?thesis using that [of b "c # take (?n - 1) cs"] by simp
qed

lemma utf8_valid_chars: "utf8_valid s \<Longrightarrow> c \<in> set (chars s) \<Longrightarrow> valid_scalar c \<and> utf8_valid c"
proof (induction s arbitrary: c rule: utf8_valid.induct)
  case (1 s)
  show ?case
  proof (cases "s = []")
    case True
    then show ?thesis using "1.prems" by simp
  next
    case False
    let ?n = "snd (utf8_step s)"
    have v: "fst (utf8_step s)" "utf8_valid (drop ?n s)" using "1.prems"(1) False utf8_valid_step by blast+
    note IH = "1.IH" [OF False v]
    obtain b cs where t: "take ?n s = b # cs" "\<not> is_cont b" "\<forall>x \<in> set cs. is_cont x" "digit7 b \<or> cs = []"
      using utf8_step_bytes [OF v(1) False] .
    have "\<forall>d \<in> set (chars (drop ?n s)). scalar_piece d" using IH valid_scalar_def by blast
    from chars_piece_append [OF t(3) this refl, of b] t(1)
    have chars: "chars s = (b # cs) # chars (drop ?n s)"
      by (metis append_Cons append_take_drop_id)
    have "valid_scalar (b # cs)" using t by (auto simp: valid_scalar_def scalar_piece_def)
    moreover have "utf8_valid (b # cs)"
    proof -
      have "utf8_step (b # cs) = utf8_step s" using utf8_step_take [OF v(1)] t(1) by simp
      moreover have "drop ?n (b # cs) = []" by (metis t(1) drop_take diff_self_eq_0 take0)
      ultimately show ?thesis using v(1) by (simp add: utf8_valid_step)
    qed
    ultimately show ?thesis using "1.prems"(2) IH chars by auto
  qed
qed

lemma utf8_valid_hd: "utf8_valid s \<Longrightarrow> s \<noteq> [] \<Longrightarrow> \<not> is_cont (hd s)"
  using utf8_step_bytes [of s] utf8_valid_step [of s] by (metis hd_append2 append_take_drop_id list.sel(1) list.discI)

lemma chars_append_valid: "utf8_valid t \<Longrightarrow> chars (s @ t) = chars s @ chars t"
  by (rule chars_append_start) (use utf8_valid_hd in blast)

lemma utf8_valid_concat: "\<forall>s \<in> set ss. utf8_valid s \<Longrightarrow> utf8_valid (concat ss)"
  by (induction ss) (auto simp: utf8_valid_append)

text \<open>ASCII case mapping keeps well-formedness.\<close>

lemma lower_byte_class:
  "(of_char (lower_byte b) < (128 :: nat)) = (of_char b < (128 :: nat))"
  "128 \<le> (of_char b :: nat) \<Longrightarrow> lower_byte b = b"
  by (cases b; auto simp: lower_byte_def byte_upper_def byte_in_def of_bool_def split: if_splits)+

lemma is_cont_lower [simp]: "is_cont (lower_byte b) = is_cont b"
  by (cases b) (simp add: is_cont_def lower_byte_def)

lemma utf8_step_lower: "utf8_step (map lower_byte s) = utf8_step s"
proof (cases s)
  case Nil
  then show ?thesis by simp
next
  case (Cons b bs)
  have c: "utf8_second n (lower_byte x) = utf8_second n x" for n x
    using lower_byte_class [of x] by (cases "of_char x < (128 :: nat)") (auto simp: utf8_second_def byte_in_def split: if_splits)
  have t: "length (takeWhile is_cont (map lower_byte xs)) = length (takeWhile is_cont xs)" for xs
    by (induction xs) auto
  show ?thesis
  proof (cases "of_char b < (128 :: nat)")
    case True
    then show ?thesis using lower_byte_class(1) [of b] by (simp add: Cons)
  next
    case False
    then have "lower_byte b = b" using lower_byte_class(2) by simp
    then show ?thesis by (cases bs) (simp_all add: Cons c t take_map Let_def)
  qed
qed

lemma utf8_valid_lower: "utf8_valid s \<Longrightarrow> utf8_valid (to_ascii_lowercase s)"
proof (induction s rule: utf8_valid.induct)
  case (1 s)
  show ?case
  proof (cases "s = []")
    case True
    then show ?thesis by (simp add: to_ascii_lowercase_def)
  next
    case False
    then have v: "fst (utf8_step s)" "utf8_valid (drop (snd (utf8_step s)) s)"
      using "1.prems" utf8_valid_step by blast+
    from "1.IH" [OF False v] False v(1) show ?thesis
      by (simp add: utf8_valid_step [of "map lower_byte s"] to_ascii_lowercase_def utf8_step_lower drop_map)
  qed
qed

end
