(* ===== verification/Index_Store.thy ===== *)
theory Index_Store
  imports Utf8 Protocol Sandbox_Paths "HOL-Library.Char_ord" "HOL-Library.List_Lexorder"
begin

text \<open>
  The binary layout of the command index (\<open>crates/termlm-indexer/src/store.rs\<close>): the writers as the
  byte string they put into a file, the readers on arbitrary bytes, and the directory as a map from
  file names to contents. The lexical index of \<open>lexical.rs\<close> is included as far as it is stored.
  \<open>char::is_alphanumeric\<close> is a parameter of the tokeniser, and so are chrono's range of
  time stamps and the half-precision encoding of embedding rows.
\<close>

section \<open>Data\<close>

text \<open>\<open>i64\<close> as the 64 bits of its two's complement; a time in nanoseconds since the epoch.\<close>

record binary_entry =
  be_name :: string
  be_path :: string
  be_mtime_secs :: u64
  be_size :: u64
  be_inode :: u64

record chunk =
  ck_command_name :: string
  ck_path :: string
  ck_extraction_method :: string
  ck_section_name :: string
  ck_chunk_index :: nat
  ck_total_chunks :: nat
  ck_doc_hash :: string
  ck_extracted_at :: int
  ck_text :: string

definition ENTRIES_MAGIC_V1 :: string where "ENTRIES_MAGIC_V1 = ''TLME0001''"
definition CHUNKS_MAGIC_V1 :: string where "CHUNKS_MAGIC_V1 = ''TLMC0001''"
definition LEXICON_MAGIC_V1 :: string where "LEXICON_MAGIC_V1 = ''TLML0001''"
definition POSTINGS_MAGIC_V1 :: string where "POSTINGS_MAGIC_V1 = ''TLMP0001''"
definition ENTRY_RECORD_BYTES :: nat where "ENTRY_RECORD_BYTES = 60"
definition CHUNK_RECORD_BYTES :: nat where "CHUNK_RECORD_BYTES = 72"

definition sat_add :: "'a::len word \<Rightarrow> 'a word \<Rightarrow> 'a word" where
  "sat_add a b = (if a + b < a then - 1 else a + b)"

definition usize_checked_mul :: "nat \<Rightarrow> nat \<Rightarrow> string \<Rightarrow> index_error + nat" where
  "usize_checked_mul a b message = (if a * b \<le> usize_max then Inr (a * b) else Inl (Bail message))"

definition usize_checked_add :: "nat \<Rightarrow> nat \<Rightarrow> string \<Rightarrow> index_error + nat" where
  "usize_checked_add a b message = (if a + b \<le> usize_max then Inr (a + b) else Inl (Bail message))"

section \<open>Hashes and extraction methods\<close>

definition hex_digit :: "char \<Rightarrow> nat option" where
  "hex_digit c =
     (let n = of_char c
      in if byte_digit c then Some (n - 48)
         else if byte_in 97 102 c then Some (n - 87)
         else if byte_in 65 70 c then Some (n - 55) else None)"

fun hex_digits :: "nat \<Rightarrow> string \<Rightarrow> nat option" where
  "hex_digits acc [] = Some acc"
| "hex_digits acc (c # cs) =
     (case hex_digit c of None \<Rightarrow> None | Some d \<Rightarrow> hex_digits (16 * acc + d) cs)"

text \<open>\<open>u8::from_str_radix\<close> in base 16 with \<open>unwrap_or(0)\<close>: one leading plus is allowed.\<close>

definition hex_byte :: "string \<Rightarrow> char" where
  "hex_byte s =
     (let digits = (if 2 \<le> length s \<and> hd s = CHR ''+'' then tl s else s)
      in if digits = [] then char_of (0 :: nat)
         else case hex_digits 0 digits of
                None \<Rightarrow> char_of (0 :: nat)
              | Some n \<Rightarrow> if n < 256 then char_of n else char_of (0 :: nat))"

definition char_boundary :: "string \<Rightarrow> nat \<Rightarrow> bool" where
  "char_boundary s i \<longleftrightarrow> i = 0 \<or> i = length s \<or> (i < length s \<and> \<not> is_cont (s ! i))"

fun hash_bytes_loop :: "string \<Rightarrow> nat list \<Rightarrow> index_error + string" where
  "hash_bytes_loop h [] = Inr []"
| "hash_bytes_loop h (i # is) =
     (if char_boundary h (2 * i) \<and> char_boundary h (2 * i + 2)
      then and_then (slice h (2 * i) (2 * i + 2)) (\<lambda>s.
             and_then (hash_bytes_loop h is) (\<lambda>rest. Inr (hex_byte s # rest)))
      else Inl Panic)"

definition decode_doc_hash_hex :: "string \<Rightarrow> index_error + string" where
  "decode_doc_hash_hex hash =
     (let h = trim hash
      in if length h < 64 then Inr (replicate 32 (char_of (0 :: nat))) else hash_bytes_loop h [0..<32])"

definition hex_char :: "nat \<Rightarrow> char" where
  "hex_char n = (if n < 10 then char_of (48 + n) else char_of (87 + n))"

definition hex_pair :: "char \<Rightarrow> string" where
  "hex_pair b = [hex_char (of_char b div 16), hex_char (of_char b mod 16)]"

definition encode_hash_hex :: "string \<Rightarrow> string" where
  "encode_hash_hex hash =
     (if list_all (\<lambda>b. b = char_of (0 :: nat)) hash then [] else concat (map hex_pair hash))"

definition extraction_methods :: "(nat \<times> string) list" where
  "extraction_methods =
     [(1, ''man''), (2, ''--help''), (3, ''-h''), (4, ''stub''), (5, ''heuristic''), (6, ''builtin''),
      (7, ''alias''), (8, ''function'')]"

definition encode_extraction_method :: "string \<Rightarrow> char" where
  "encode_extraction_method method =
     (case map_of (map (\<lambda>(code, m). (m, code)) extraction_methods) method of
        Some code \<Rightarrow> char_of code | None \<Rightarrow> char_of (0 :: nat))"

definition decode_extraction_method :: "char \<Rightarrow> string" where
  "decode_extraction_method code =
     (case map_of extraction_methods (of_char code) of Some name \<Rightarrow> name | None \<Rightarrow> ''unknown'')"

section \<open>Paths and entries\<close>

record path_catalog =
  pc_blob :: string
  pc_offsets :: "(string \<times> (u64 \<times> u32)) list"

fun catalog_loop :: "binary_entry list \<Rightarrow> path_catalog \<Rightarrow> index_error + path_catalog" where
  "catalog_loop [] cat = Inr cat"
| "catalog_loop (entry # entries) cat =
     (let path = from_utf8_lossy (be_path entry)
      in and_then (u64_try_from (length (pc_blob cat)) ''paths blob offset overflow'') (\<lambda>off.
           and_then (u32_try_from (length path) ''path length overflow'') (\<lambda>len.
             catalog_loop entries
               \<lparr>pc_blob = pc_blob cat @ path, pc_offsets = kv_insert path (off, len) (pc_offsets cat)\<rparr>)))"

definition build_path_catalog :: "binary_entry list \<Rightarrow> index_error + path_catalog" where
  "build_path_catalog entries = catalog_loop entries \<lparr>pc_blob = [], pc_offsets = []\<rparr>"

record entry_stats =
  es_chunk_first :: u32
  es_chunk_count :: u32
  es_doc_off :: u64
  es_doc_len :: u64

definition no_stats :: entry_stats where
  "no_stats = \<lparr>es_chunk_first = 0, es_chunk_count = 0, es_doc_off = 0, es_doc_len = 0\<rparr>"

fun stats_loop ::
  "nat \<Rightarrow> u64 \<Rightarrow> chunk list \<Rightarrow> (string \<times> entry_stats) list \<Rightarrow> (string \<times> entry_stats) list" where
  "stats_loop idx offset [] stats = stats"
| "stats_loop idx offset (c # cs) stats =
     (let byte_len = word_of_nat (length (ck_text c));
          entry = (case map_of stats (ck_path c) of
                     Some e \<Rightarrow> e | None \<Rightarrow> no_stats\<lparr>es_chunk_first := word_of_nat idx\<rparr>);
          entry1 = entry\<lparr>es_chunk_count := sat_add (es_chunk_count entry) 1\<rparr>;
          entry2 = (if es_doc_len entry1 = 0 then entry1\<lparr>es_doc_off := offset\<rparr> else entry1);
          entry3 = entry2\<lparr>es_doc_len := sat_add (es_doc_len entry2) byte_len\<rparr>
      in stats_loop (idx + 1) (sat_add offset byte_len) cs (kv_insert (ck_path c) entry3 stats))"

definition build_entry_stats :: "chunk list \<Rightarrow> (string \<times> entry_stats) list" where
  "build_entry_stats chunks = stats_loop 0 0 chunks []"

definition write_paths_bin :: "binary_entry list \<Rightarrow> index_error + string" where
  "write_paths_bin entries = and_then (build_path_catalog entries) (\<lambda>catalog. Inr (pc_blob catalog))"

definition entry_record ::
  "(string \<times> (u64 \<times> u32)) list \<Rightarrow> (string \<times> entry_stats) list \<Rightarrow> binary_entry \<Rightarrow> string" where
  "entry_record offsets stats e =
     (let path = from_utf8_lossy (be_path e);
          (path_off, path_len) = (case map_of offsets path of Some r \<Rightarrow> r | None \<Rightarrow> (0, 0));
          s = (case map_of stats path of Some s \<Rightarrow> s | None \<Rightarrow> no_stats)
      in u64_bytes path_off @ u32_bytes path_len @ u64_bytes (be_mtime_secs e) @ u64_bytes (be_size e)
         @ u64_bytes (be_inode e) @ u64_bytes (es_doc_off s) @ u64_bytes (es_doc_len s)
         @ u32_bytes (es_chunk_first s) @ u32_bytes (es_chunk_count s))"

definition write_entries_bin :: "binary_entry list \<Rightarrow> chunk list \<Rightarrow> index_error + string" where
  "write_entries_bin entries chunks =
     and_then (build_path_catalog entries) (\<lambda>catalog.
       Inr (ENTRIES_MAGIC_V1 @ u32_bytes (word_of_nat (length entries))
            @ concat (map (entry_record (pc_offsets catalog) (build_entry_stats chunks)) entries)))"

definition read_blob_bytes :: "string \<Rightarrow> u64 \<Rightarrow> u32 \<Rightarrow> string option" where
  "read_blob_bytes blob off len =
     (let start = unat off; stop = start + unat len
      in if usize_max < stop then None else if length blob < stop then None
         else Some (take (stop - start) (drop start blob)))"

definition read_blob_str :: "string \<Rightarrow> u64 \<Rightarrow> u32 \<Rightarrow> string option" where
  "read_blob_str blob off len = Option.bind (read_blob_bytes blob off len) from_utf8"

definition derive_command_name :: "string \<Rightarrow> string" where
  "derive_command_name path =
     (case rev (path_of path) of Normal name # _ \<Rightarrow> name | _ \<Rightarrow> path)"

definition read_entry :: "string \<Rightarrow> string \<Rightarrow> nat \<Rightarrow> index_error + binary_entry" where
  "read_entry raw paths_blob base =
     and_then (slice raw base (base + 8)) (\<lambda>path_off.
     and_then (slice raw (base + 8) (base + 12)) (\<lambda>path_len.
     and_then (slice raw (base + 12) (base + 20)) (\<lambda>mtime.
     and_then (slice raw (base + 20) (base + 28)) (\<lambda>size.
     and_then (slice raw (base + 28) (base + 36)) (\<lambda>inode.
       let path = (case read_blob_str paths_blob (u64_of_bytes path_off) (u32_of_bytes path_len) of
                     Some p \<Rightarrow> p | None \<Rightarrow> [])
       in Inr \<lparr>be_name = derive_command_name path, be_path = path, be_mtime_secs = u64_of_bytes mtime,
               be_size = u64_of_bytes size, be_inode = u64_of_bytes inode\<rparr>)))))"

fun read_entry_rows :: "string \<Rightarrow> string \<Rightarrow> nat list \<Rightarrow> index_error + binary_entry list" where
  "read_entry_rows raw paths_blob [] = Inr []"
| "read_entry_rows raw paths_blob (i # is) =
     and_then (read_entry raw paths_blob (12 + i * ENTRY_RECORD_BYTES)) (\<lambda>e.
       and_then (read_entry_rows raw paths_blob is) (\<lambda>es. Inr (e # es)))"

definition read_entries_v1 :: "string \<Rightarrow> string \<Rightarrow> index_error + binary_entry list" where
  "read_entries_v1 raw paths_blob =
     bail_unless (12 \<le> length raw) ''entries.bin too short'' (
     and_then (slice raw 0 8) (\<lambda>magic.
     bail_unless (magic = ENTRIES_MAGIC_V1) ''entries.bin has unsupported magic'' (
     and_then (slice raw 8 12) (\<lambda>count_bytes.
       let count = unat (u32_of_bytes count_bytes)
       in and_then (usize_checked_mul count ENTRY_RECORD_BYTES ''entries size overflow'') (\<lambda>size.
          and_then (usize_checked_add 12 size ''entries file size overflow'') (\<lambda>expected.
            bail_unless (expected \<le> length raw) ''entries.bin truncated''
              (read_entry_rows raw paths_blob [0..<count])))))))"

section \<open>Documents and chunks\<close>

definition write_docs_bin :: "chunk list \<Rightarrow> string" where
  "write_docs_bin chunks = concat (map ck_text chunks)"

fun assign_section_ids :: "chunk list \<Rightarrow> (string \<times> u32) list \<Rightarrow> index_error + (string \<times> u32) list" where
  "assign_section_ids [] ids = Inr ids"
| "assign_section_ids (c # cs) ids =
     (case map_of ids (ck_section_name c) of
        Some _ \<Rightarrow> assign_section_ids cs ids
      | None \<Rightarrow>
          and_then (u32_try_from (length ids) ''too many section names'') (\<lambda>next_id.
            assign_section_ids cs (kv_insert (ck_section_name c) next_id ids)))"

definition section_names :: "(string \<times> u32) list \<Rightarrow> string list" where
  "section_names ids = foldl (\<lambda>v (name, sid). v[unat sid := name]) (replicate (length ids) []) ids"

definition entry_index :: "binary_entry list \<Rightarrow> (string \<times> u32) list" where
  "entry_index entries =
     foldl (\<lambda>m (i, e). kv_insert (from_utf8_lossy (be_path e)) (word_of_nat i) m) [] (enumerate 0 entries)"

fun section_table :: "string list \<Rightarrow> index_error + string" where
  "section_table [] = Inr []"
| "section_table (name # names) =
     and_then (u32_try_from (length name) ''section name too long'') (\<lambda>len.
       and_then (section_table names) (\<lambda>rest. Inr (u32_bytes len @ name @ rest)))"

text \<open>\<open>DateTime::timestamp\<close>: whole seconds, rounded down.\<close>

definition timestamp :: "int \<Rightarrow> int" where
  "timestamp nanos = nanos div 1000000000"

definition chunk_row :: "u32 \<Rightarrow> u32 \<Rightarrow> u64 \<Rightarrow> u32 \<Rightarrow> u32 \<Rightarrow> u32 \<Rightarrow> nat \<Rightarrow> chunk \<Rightarrow> string \<Rightarrow> string" where
  "chunk_row idx section_id doc_offset byte_len chunk_index total_chunks tombstone c hash =
     u32_bytes idx @ u32_bytes section_id @ u64_bytes doc_offset @ u32_bytes byte_len
     @ u32_bytes chunk_index @ u32_bytes total_chunks @ [char_of tombstone]
     @ [encode_extraction_method (ck_extraction_method c), char_of (0 :: nat), char_of (0 :: nat)]
     @ u64_bytes (word_of_int (timestamp (ck_extracted_at c))) @ hash"

definition section_id_of :: "(string \<times> u32) list \<Rightarrow> chunk \<Rightarrow> u32" where
  "section_id_of ids c = (case map_of ids (ck_section_name c) of Some sid \<Rightarrow> sid | None \<Rightarrow> 0)"

definition entry_id_of :: "(string \<times> u32) list \<Rightarrow> chunk \<Rightarrow> u32" where
  "entry_id_of idx c = (case map_of idx (ck_path c) of Some i \<Rightarrow> i | None \<Rightarrow> - 1)"

fun live_rows :: "(string \<times> u32) list \<Rightarrow> (string \<times> u32) list \<Rightarrow> u64 \<Rightarrow> chunk list \<Rightarrow> index_error + string" where
  "live_rows idx ids doc_offset [] = Inr []"
| "live_rows idx ids doc_offset (c # cs) =
     and_then (u32_try_from (length (ck_text c)) ''chunk text too long'') (\<lambda>byte_len.
     and_then (u32_try_from (ck_chunk_index c) ''chunk_index overflow'') (\<lambda>chunk_index.
     and_then (u32_try_from (ck_total_chunks c) ''total_chunks overflow'') (\<lambda>total_chunks.
     and_then (decode_doc_hash_hex (ck_doc_hash c)) (\<lambda>hash.
     and_then (live_rows idx ids (sat_add doc_offset (ucast byte_len)) cs) (\<lambda>rest.
       Inr (chunk_row (entry_id_of idx c) (section_id_of ids c) doc_offset byte_len chunk_index
              total_chunks 0 c hash @ rest))))))"

fun tombstone_rows :: "(string \<times> u32) list \<Rightarrow> (string \<times> u32) list \<Rightarrow> chunk list \<Rightarrow> index_error + string" where
  "tombstone_rows idx ids [] = Inr []"
| "tombstone_rows idx ids (c # cs) =
     and_then (u32_try_from (ck_chunk_index c) ''chunk_index overflow'') (\<lambda>chunk_index.
     and_then (u32_try_from (ck_total_chunks c) ''total_chunks overflow'') (\<lambda>total_chunks.
     and_then (decode_doc_hash_hex (ck_doc_hash c)) (\<lambda>hash.
     and_then (tombstone_rows idx ids cs) (\<lambda>rest.
       Inr (chunk_row (entry_id_of idx c) (section_id_of ids c) 0 0 chunk_index total_chunks 1 c hash @ rest)))))"

definition write_chunks_bin ::
  "binary_entry list \<Rightarrow> chunk list \<Rightarrow> chunk list \<Rightarrow> index_error + string" where
  "write_chunks_bin entries chunks tombstoned =
     and_then (assign_section_ids (chunks @ tombstoned) []) (\<lambda>ids.
     and_then (section_table (section_names ids)) (\<lambda>table.
     and_then (usize_checked_add (length chunks) (length tombstoned) ''chunk row count overflow'') (\<lambda>record_count.
     and_then (live_rows (entry_index entries) ids 0 chunks) (\<lambda>live.
     and_then (tombstone_rows (entry_index entries) ids tombstoned) (\<lambda>dead.
       Inr (CHUNKS_MAGIC_V1 @ u32_bytes (word_of_nat (length (section_names ids))) @ table
            @ u32_bytes (word_of_nat record_count) @ live @ dead))))))"

text \<open>Reading the chunks: the table of section names, then the rows. \<open>from_timestamp\<close> is chrono's
  conversion, \<open>now\<close> the current time for time stamps out of its range.\<close>

fun read_sections :: "string \<Rightarrow> nat \<Rightarrow> nat \<Rightarrow> index_error + string list \<times> nat" where
  "read_sections raw 0 cursor = Inr ([], cursor)"
| "read_sections raw (Suc n) cursor =
     and_then (read_u32 raw cursor) (\<lambda>(len, cursor).
     bail_unless (cursor + unat len \<le> length raw) ''chunks.bin section table truncated'' (
     and_then (slice raw cursor (cursor + unat len)) (\<lambda>bytes.
     and_then (read_sections raw n (cursor + unat len)) (\<lambda>(names, cursor).
       Inr (from_utf8_lossy bytes # names, cursor)))))"

record row =
  rw_entry_idx :: u32
  rw_section_id :: u32
  rw_byte_offset :: u64
  rw_byte_len :: u32
  rw_chunk_index :: u32
  rw_total_chunks :: u32
  rw_tombstone :: bool
  rw_method :: char
  rw_extracted_secs :: u64
  rw_hash :: string

definition read_row :: "string \<Rightarrow> nat \<Rightarrow> index_error + row \<times> nat" where
  "read_row raw cursor0 =
     and_then (read_u32 raw cursor0) (\<lambda>(entry_idx, cursor).
     and_then (read_u32 raw cursor) (\<lambda>(section_id, cursor).
     and_then (read_u64 raw cursor) (\<lambda>(byte_offset, cursor).
     and_then (read_u32 raw cursor) (\<lambda>(byte_len, cursor).
     and_then (read_u32 raw cursor) (\<lambda>(chunk_index, cursor).
     and_then (read_u32 raw cursor) (\<lambda>(total_chunks, cursor).
     and_then (read_u8 raw cursor) (\<lambda>(tombstone, cursor).
     and_then (read_u8 raw cursor) (\<lambda>(method, cursor).
     let cursor = cursor + 2
     in bail_unless (cursor \<le> length raw) ''chunks.bin reserved bytes overflow'' (
     and_then (read_i64 raw cursor) (\<lambda>(extracted_secs, cursor).
     and_then (read_fixed 32 raw cursor) (\<lambda>(hash, cursor).
       Inr (\<lparr>rw_entry_idx = entry_idx, rw_section_id = section_id, rw_byte_offset = byte_offset,
             rw_byte_len = byte_len, rw_chunk_index = chunk_index, rw_total_chunks = total_chunks,
             rw_tombstone = (tombstone \<noteq> char_of (0 :: nat)), rw_method = method,
             rw_extracted_secs = extracted_secs, rw_hash = hash\<rparr>, cursor))))))))))))"

definition chunk_of_row ::
  "(int \<Rightarrow> int option) \<Rightarrow> int \<Rightarrow> string \<Rightarrow> binary_entry list \<Rightarrow> string list \<Rightarrow> row \<Rightarrow> index_error + chunk" where
  "chunk_of_row from_timestamp now docs entries sections r =
     (let i = unat (rw_entry_idx r); sid = unat (rw_section_id r)
      in if length entries \<le> i
         then Inl (Bail (''chunks.bin references missing entry index '' @ show_nat i))
         else Inr
           \<lparr>ck_command_name = be_name (entries ! i), ck_path = from_utf8_lossy (be_path (entries ! i)),
            ck_extraction_method = decode_extraction_method (rw_method r),
            ck_section_name = (if sid < length sections then sections ! sid else ''UNKNOWN''),
            ck_chunk_index = unat (rw_chunk_index r), ck_total_chunks = unat (rw_total_chunks r),
            ck_doc_hash = encode_hash_hex (rw_hash r),
            ck_extracted_at = (case from_timestamp (sint (rw_extracted_secs r)) of
               Some t \<Rightarrow> t | None \<Rightarrow> now),
            ck_text = (case read_blob_bytes docs (rw_byte_offset r) (rw_byte_len r) of
               Some s \<Rightarrow> from_utf8_lossy s | None \<Rightarrow> [])\<rparr>)"

fun read_rows ::
  "(int \<Rightarrow> int option) \<Rightarrow> int \<Rightarrow> string \<Rightarrow> string \<Rightarrow> binary_entry list \<Rightarrow> string list \<Rightarrow> nat \<Rightarrow> nat
     \<Rightarrow> index_error + chunk list" where
  "read_rows from_timestamp now raw docs entries sections 0 cursor = Inr []"
| "read_rows from_timestamp now raw docs entries sections (Suc n) cursor =
     and_then (read_row raw cursor) (\<lambda>(r, cursor).
       if rw_tombstone r then read_rows from_timestamp now raw docs entries sections n cursor
       else and_then (chunk_of_row from_timestamp now docs entries sections r) (\<lambda>c.
            and_then (read_rows from_timestamp now raw docs entries sections n cursor) (\<lambda>cs.
              Inr (c # cs))))"

definition read_chunks_v1 ::
  "(int \<Rightarrow> int option) \<Rightarrow> int \<Rightarrow> string \<Rightarrow> string \<Rightarrow> binary_entry list \<Rightarrow> index_error + chunk list" where
  "read_chunks_v1 from_timestamp now raw docs entries =
     bail_unless (12 \<le> length raw) ''chunks.bin too short'' (
     and_then (slice raw 0 8) (\<lambda>magic.
     bail_unless (magic = CHUNKS_MAGIC_V1) ''chunks.bin has unsupported magic'' (
     and_then (read_u32 raw 8) (\<lambda>(section_count, cursor).
     and_then (read_sections raw (unat section_count) cursor) (\<lambda>(sections, cursor).
     and_then (read_u32 raw cursor) (\<lambda>(row_count, cursor).
     and_then (usize_checked_mul (unat row_count) CHUNK_RECORD_BYTES ''chunks row byte overflow'') (\<lambda>tail_bytes.
     bail_unless (cursor + tail_bytes \<le> length raw) ''chunks.bin row table truncated''
       (read_rows from_timestamp now raw docs entries sections (unat row_count) cursor))))))))"

end
