(* ===== verification/Index_Chunks.thy ===== *)
theory Index_Chunks
  imports Index_Roundtrip
begin

text \<open>
  The chunk file survives a write: section table, rows and texts. A tombstoned chunk leaves a row
  that the reader skips.
\<close>

section \<open>The section table\<close>

text \<open>The identifiers are given out in order, one per name.\<close>

definition numbered :: "(string \<times> u32) list \<Rightarrow> bool" where
  "numbered ids \<longleftrightarrow> distinct (map fst ids) \<and> (\<forall>i < length ids. snd (ids ! i) = word_of_nat i)
     \<and> length ids \<le> 2 ^ 32"

lemma kv_insert_new: "map_of kvs k = None \<Longrightarrow> kv_insert k v kvs = kvs @ [(k, v)]"
  by (induction kvs) (auto split: if_splits)

lemma assign_section_ids_spec:
  assumes "numbered ids" "length ids + length cs \<le> 2 ^ 32"
  shows "\<exists>ids'. assign_section_ids cs ids = Inr ids' \<and> numbered ids' \<and> length ids' \<le> length ids + length cs
     \<and> fst ` set ids' = fst ` set ids \<union> ck_section_name ` set cs"
  using assms
proof (induction cs arbitrary: ids)
  case Nil
  then show ?case by simp
next
  case (Cons c cs)
  show ?case
  proof (cases "map_of ids (ck_section_name c)")
    case None
    let ?ids = "ids @ [(ck_section_name c, word_of_nat (length ids))]"
    have "ck_section_name c \<notin> fst ` set ids" using None by (simp add: map_of_eq_None_iff)
    then have "numbered ?ids" using Cons.prems by (auto simp: numbered_def nth_append less_Suc_eq)
    moreover have "length ?ids + length cs \<le> 2 ^ 32" using Cons.prems(2) by simp
    ultimately obtain ids' where i: "assign_section_ids cs ?ids = Inr ids'" "numbered ids'"
      "length ids' \<le> length ?ids + length cs" "fst ` set ids' = fst ` set ?ids \<union> ck_section_name ` set cs"
      using Cons.IH by blast
    have "assign_section_ids (c # cs) ids = Inr ids'"
      using None i(1) Cons.prems(2) by (simp add: kv_insert_new)
    then show ?thesis using i(2-4) by auto
  next
    case (Some w)
    then have "ck_section_name c \<in> fst ` set ids" by (metis map_of_eq_None_iff option.distinct(1))
    then have n: "insert (ck_section_name c) (fst ` set ids) = fst ` set ids" by (rule insert_absorb)
    have "length ids + length cs \<le> 2 ^ 32" using Cons.prems(2) by simp
    from Cons.IH [OF Cons.prems(1) this] obtain ids' where i: "assign_section_ids cs ids = Inr ids'" "numbered ids'"
      "length ids' \<le> length ids + length cs" "fst ` set ids' = fst ` set ids \<union> ck_section_name ` set cs"
      by blast
    show ?thesis by (rule exI [of _ ids']) (use Some i n in auto)
  qed
qed

lemma fill_slots:
  assumes "\<forall>i < length ids. snd (ids ! i) = word_of_nat (length pre + i)"
    and "length pre + length ids \<le> 2 ^ 32"
  shows "foldl (\<lambda>v (name, sid). v[unat (sid :: u32) := name]) (pre @ replicate (length ids) d) ids = pre @ map fst ids"
  using assms
proof (induction ids arbitrary: pre)
  case Nil
  then show ?case by simp
next
  case (Cons p ids)
  obtain name sid where p: "p = (name, sid)" by (cases p)
  have sid: "sid = word_of_nat (length pre)" using Cons.prems(1) p by force
  have "\<forall>i < length ids. snd (ids ! i) = word_of_nat (length (pre @ [name]) + i)"
    using Cons.prems(1) p by force
  note rest = this
  have "unat sid = length pre" using Cons.prems(2) sid unat_try_from(1) [of "length pre"] by simp
  then have "(pre @ replicate (length (p # ids)) d)[unat sid := name] = (pre @ [name]) @ replicate (length ids) d"
    by simp
  moreover have "length (pre @ [name]) + length ids \<le> 2 ^ 32" using Cons.prems(2) by simp
  ultimately show ?case
    using Cons.IH [OF rest] p by simp
qed

lemma section_names_numbered: "numbered ids \<Longrightarrow> section_names ids = map fst ids"
  using fill_slots [of ids "[]" "[]"] by (simp add: section_names_def numbered_def)

lemma numbered_lookup:
  assumes "numbered ids" "map_of ids name = Some w"
  shows "unat w < length ids \<and> map fst ids ! unat w = name"
proof -
  obtain i where i: "i < length ids" "ids ! i = (name, w)"
    using map_of_SomeD [OF assms(2)] by (auto simp: in_set_conv_nth)
  then have "w = word_of_nat i" using assms(1) by (auto simp: numbered_def)
  moreover have "i < 2 ^ 32" using assms(1) i(1) by (simp add: numbered_def)
  ultimately have "unat w = i" using unat_try_from(1) by blast
  then show ?thesis using i by simp
qed

lemma section_table_spec:
  assumes "\<forall>n \<in> set names. length n < 2 ^ 32 \<and> utf8_valid n"
  shows "\<exists>table. section_table names = Inr table
     \<and> (\<forall>raw cursor post. drop cursor raw = table @ post \<longrightarrow> cursor \<le> length raw \<longrightarrow>
          read_sections raw (length names) cursor = Inr (names, cursor + length table))"
  using assms
proof (induction names)
  case Nil
  then show ?case by simp
next
  case (Cons n names)
  then obtain table where t: "section_table names = Inr table"
    "\<And>raw cursor post. drop cursor raw = table @ post \<Longrightarrow> cursor \<le> length raw \<Longrightarrow>
        read_sections raw (length names) cursor = Inr (names, cursor + length table)"
    by auto
  have n: "length n < 2 ^ 32" "utf8_valid n" using Cons.prems by simp_all
  let ?len = "word_of_nat (length n) :: u32"
  have len: "unat ?len = length n" using n(1) unat_try_from(1) by blast
  have "section_table (n # names) = Inr (u32_bytes ?len @ n @ table)" using n(1) t(1) by simp
  moreover have "read_sections raw (length (n # names)) cursor
      = Inr (n # names, cursor + length (u32_bytes ?len @ n @ table))"
    if d: "drop cursor raw = (u32_bytes ?len @ n @ table) @ post" "cursor \<le> length raw" for raw cursor post
  proof -
    have d1: "drop cursor raw = u32_bytes ?len @ (n @ table @ post)" using d by simp
    note d2 = drop_advance [OF d1, of 4, simplified] and c2 = cursor_advance [OF d1 d(2), of 4, simplified]
    note d3 = drop_advance [OF d2 refl] and c3 = cursor_advance [OF d2 c2 refl]
    have s: "slice raw (cursor + 4) (cursor + 4 + length n) = Inr n"
      using slice_at_drop [of "cursor + 4" raw "[]" n "table @ post"] d2 c2 by simp
    show ?thesis
      using read_u32_mid [OF d1 d(2)] c3 t(2) [OF d3 c3] n(2) s
      by (simp add: len add.assoc)
  qed
  ultimately show ?case by blast
qed

section \<open>Rows\<close>

lemma length_chunk_row: "length hash = 32 \<Longrightarrow> length (chunk_row idx sid off len ci tot tomb c hash) = 72"
  by (simp add: chunk_row_def)

lemma read_row_mid:
  assumes "drop cursor raw = chunk_row idx sid off len ci tot tomb c hash @ post" "cursor \<le> length raw"
    and "length hash = 32"
  shows "read_row raw cursor = Inr
     (\<lparr>rw_entry_idx = idx, rw_section_id = sid, rw_byte_offset = off, rw_byte_len = len,
       rw_chunk_index = ci, rw_total_chunks = tot, rw_tombstone = (char_of tomb \<noteq> (char_of (0 :: nat) :: char)),
       rw_method = encode_extraction_method (ck_extraction_method c),
       rw_extracted_secs = word_of_int (timestamp (ck_extracted_at c)), rw_hash = hash\<rparr>, cursor + 72)"
proof -
  let ?m = "encode_extraction_method (ck_extraction_method c)"
  let ?secs = "word_of_int (timestamp (ck_extracted_at c)) :: u64"
  have d0: "drop cursor raw = u32_bytes idx @ u32_bytes sid @ u64_bytes off @ u32_bytes len @ u32_bytes ci
      @ u32_bytes tot @ char_of tomb # ?m # [char_of (0 :: nat), char_of (0 :: nat)] @ u64_bytes ?secs @ hash @ post"
    using assms(1) by (simp add: chunk_row_def)
  have skip: "drop (cursor + k) raw = drop k (drop cursor raw)" for k by (simp add: add.commute)
  have "length (drop cursor raw) = 72 + length post" unfolding d0 using assms(3) by simp
  then have fits: "cursor + k \<le> length raw" if "k \<le> 72" for k using that assms(2) by simp
  have "read_u32 raw cursor = Inr (idx, cursor + 4)" by (rule read_u32_mid [OF d0 assms(2)])
  moreover have "read_u32 raw (cursor + 4) = Inr (sid, cursor + 4 + 4)"
    by (rule read_u32_mid) (use fits [of 4] in \<open>simp_all only: skip d0, simp_all\<close>)
  moreover have "read_u64 raw (cursor + 8) = Inr (off, cursor + 8 + 8)"
    by (rule read_u64_mid) (use fits [of 8] in \<open>simp_all only: skip d0, simp_all\<close>)
  moreover have "read_u32 raw (cursor + 16) = Inr (len, cursor + 16 + 4)"
    by (rule read_u32_mid) (use fits [of 16] in \<open>simp_all only: skip d0, simp_all\<close>)
  moreover have "read_u32 raw (cursor + 20) = Inr (ci, cursor + 20 + 4)"
    by (rule read_u32_mid) (use fits [of 20] in \<open>simp_all only: skip d0, simp_all\<close>)
  moreover have "read_u32 raw (cursor + 24) = Inr (tot, cursor + 24 + 4)"
    by (rule read_u32_mid) (use fits [of 24] in \<open>simp_all only: skip d0, simp_all\<close>)
  moreover have "read_u8 raw (cursor + 28) = Inr (char_of tomb, cursor + 28 + 1)"
    by (rule read_u8_mid) (use fits [of 28] in \<open>simp_all only: skip d0, simp_all\<close>)
  moreover have "read_u8 raw (cursor + 29) = Inr (?m, cursor + 29 + 1)"
    by (rule read_u8_mid) (use fits [of 29] in \<open>simp_all only: skip d0, simp_all\<close>)
  moreover have "read_i64 raw (cursor + 32) = Inr (?secs, cursor + 32 + 8)"
    by (rule read_i64_mid) (use fits [of 32] in \<open>simp_all only: skip d0, simp_all\<close>)
  moreover have "read_fixed 32 raw (cursor + 40) = Inr (hash, cursor + 40 + 32)"
    by (rule read_fixed_mid) (use fits [of 40] assms(3) in \<open>simp_all only: skip d0, simp_all\<close>)
  moreover have "cursor + 32 \<le> length raw" by (rule fits) simp
  ultimately show ?thesis by (simp add: read_row_def ac_simps del: and_then_Inr_iff bail_unless_Inr)
qed

section \<open>Entries of the rows\<close>

lemma entry_index_spec:
  assumes "length entries \<le> 2 ^ 32" "\<forall>e \<in> set entries. utf8_valid (be_path e)"
  shows "(\<forall>p w. map_of (entry_index entries) p = Some w \<longrightarrow>
            unat w < length entries \<and> be_path (entries ! unat w) = p)
     \<and> dom (map_of (entry_index entries)) = be_path ` set entries"
  using assms
proof (induction entries rule: rev_induct)
  case Nil
  then show ?case by (simp add: entry_index_def)
next
  case (snoc e entries)
  let ?n = "length entries"
  have IH: "\<forall>p w. map_of (entry_index entries) p = Some w \<longrightarrow> unat w < ?n \<and> be_path (entries ! unat w) = p"
    "dom (map_of (entry_index entries)) = be_path ` set entries"
    using snoc by auto
  have "utf8_valid (be_path e)" using snoc.prems(2) by simp
  then have i: "entry_index (entries @ [e]) = kv_insert (be_path e) (word_of_nat ?n) (entry_index entries)"
    by (simp add: entry_index_def enumerate_append_eq)
  have n: "unat (word_of_nat ?n :: u32) = ?n" using snoc.prems(1) by (intro unat_try_from) simp
  have "unat w < length (entries @ [e]) \<and> be_path ((entries @ [e]) ! unat w) = p"
    if "map_of (entry_index (entries @ [e])) p = Some w" for p w
  proof (cases "p = be_path e")
    case True
    with that have "w = word_of_nat ?n" by (simp add: i map_of_kv_insert)
    then have "unat w = ?n" using n by simp
    then show ?thesis using True by simp
  next
    case False
    with that IH(1) have "unat w < ?n \<and> be_path (entries ! unat w) = p" by (simp add: i map_of_kv_insert)
    then show ?thesis by (simp add: nth_append)
  qed
  moreover have "dom (map_of (entry_index (entries @ [e]))) = be_path ` set (entries @ [e])"
    using IH(2) by (auto simp: i map_of_kv_insert dom_def)
  ultimately show ?case by blast
qed

definition storable_chunk :: "chunk \<Rightarrow> bool" where
  "storable_chunk c \<longleftrightarrow>
     utf8_valid (ck_text c) \<and> length (ck_text c) < 2 ^ 32
     \<and> utf8_valid (ck_section_name c) \<and> length (ck_section_name c) < 2 ^ 32
     \<and> ck_chunk_index c < 2 ^ 32 \<and> ck_total_chunks c < 2 ^ 32 \<and> is_digest (ck_doc_hash c)
     \<and> - (2 ^ 63) \<le> timestamp (ck_extracted_at c) \<and> timestamp (ck_extracted_at c) < 2 ^ 63"

definition restored_chunk :: "(int \<Rightarrow> int option) \<Rightarrow> int \<Rightarrow> chunk \<Rightarrow> chunk" where
  "restored_chunk from_timestamp now c =
     c\<lparr>ck_command_name := derive_command_name (ck_path c),
       ck_extraction_method := decode_extraction_method (encode_extraction_method (ck_extraction_method c)),
       ck_extracted_at := (case from_timestamp (timestamp (ck_extracted_at c)) of Some t \<Rightarrow> t | None \<Rightarrow> now)\<rparr>"

lemma sint_timestamp:
  "- (2 ^ 63) \<le> t \<Longrightarrow> t < 2 ^ 63 \<Longrightarrow> sint (word_of_int t :: u64) = t"
  by (simp add: signed_of_int signed_take_bit_int_eq_self)

lemma sat_add_exact:
  fixes a b :: u64
  assumes "unat a + unat b < 2 ^ 64"
  shows "unat (sat_add a b) = unat a + unat b"
proof -
  have u: "unat (a + b) = unat a + unat b" using assms by (intro unat_add_lem [THEN iffD1]) simp
  then have "\<not> a + b < a" by (simp add: word_less_nat_alt)
  then show ?thesis using u by (simp add: sat_add_def)
qed

lemma chunk_of_row_stored:
  assumes c: "storable_chunk c" and ids: "numbered ids" "ck_section_name c \<in> fst ` set ids"
    and path: "ck_path c \<in> be_path ` set entries" "length entries \<le> 2 ^ 32" "\<forall>e \<in> set entries. utf8_valid (be_path e)"
    and docs: "docs = pre @ ck_text c @ post" "unat off = length pre" "length docs < 2 ^ 64"
    and hash: "encode_hash_hex hash = ck_doc_hash c"
  shows "chunk_of_row from_timestamp now docs (map restored_entry entries) (map fst ids)
     \<lparr>rw_entry_idx = entry_id_of (entry_index entries) c, rw_section_id = section_id_of ids c,
      rw_byte_offset = off, rw_byte_len = word_of_nat (length (ck_text c)),
      rw_chunk_index = word_of_nat (ck_chunk_index c), rw_total_chunks = word_of_nat (ck_total_chunks c),
      rw_tombstone = t, rw_method = encode_extraction_method (ck_extraction_method c),
      rw_extracted_secs = word_of_int (timestamp (ck_extracted_at c)), rw_hash = hash\<rparr>
   = Inr (restored_chunk from_timestamp now c)"
proof -
  note idx = entry_index_spec [OF path(2,3)]
  from idx path(1) obtain w where "map_of (entry_index entries) (ck_path c) = Some w" by blast
  then have w: "entry_id_of (entry_index entries) c = w" "unat w < length entries" "be_path (entries ! unat w) = ck_path c"
    using idx by (auto simp: entry_id_of_def)
  then have "utf8_valid (ck_path c)" using path(3) by (metis nth_mem)
  from ids(2) obtain v where m: "map_of ids (ck_section_name c) = Some v"
    by (metis map_of_eq_None_iff option.exhaust)
  have v: "section_id_of ids c = v" "unat v < length ids" "map fst ids ! unat v = ck_section_name c"
    using numbered_lookup [OF ids(1) m] m by (simp_all add: section_id_of_def)
  have "unat (word_of_nat (length (ck_text c)) :: u32) = length (ck_text c)"
    "unat (word_of_nat (ck_chunk_index c) :: u32) = ck_chunk_index c"
    "unat (word_of_nat (ck_total_chunks c) :: u32) = ck_total_chunks c"
    using c by (auto simp: storable_chunk_def intro: unat_try_from)
  moreover from this(1) have "read_blob_bytes docs off (word_of_nat (length (ck_text c))) = Some (ck_text c)"
    using docs by (intro read_blob_mid) (auto simp: usize_max_def)
  moreover have "sint (word_of_int (timestamp (ck_extracted_at c)) :: u64) = timestamp (ck_extracted_at c)"
    using c by (intro sint_timestamp) (simp_all add: storable_chunk_def)
  ultimately show ?thesis
    using w v c hash \<open>utf8_valid (ck_path c)\<close>
    by (simp add: chunk_of_row_def Let_def restored_chunk_def restored_entry_def storable_chunk_def)
qed

section \<open>The rows and the file\<close>

lemma live_rows_read:
  assumes "\<forall>c \<in> set cs. storable_chunk c \<and> ck_section_name c \<in> fst ` set ids \<and> ck_path c \<in> be_path ` set entries"
    and ids: "numbered ids" and entries: "length entries \<le> 2 ^ 32" "\<forall>e \<in> set entries. utf8_valid (be_path e)"
    and docs: "docs = pre @ concat (map ck_text cs) @ post" "unat off = length pre" "length docs < 2 ^ 64"
  shows "\<exists>rows. live_rows (entry_index entries) ids off cs = Inr rows \<and> length rows = 72 * length cs
     \<and> (\<forall>raw cursor tail n. drop cursor raw = rows @ tail \<longrightarrow> cursor \<le> length raw \<longrightarrow>
          read_rows from_timestamp now raw docs (map restored_entry entries) (map fst ids) (length cs + n) cursor
          = and_then (read_rows from_timestamp now raw docs (map restored_entry entries) (map fst ids) n
                (cursor + 72 * length cs))
              (\<lambda>rest. Inr (map (restored_chunk from_timestamp now) cs @ rest)))"
  using assms(1) docs
proof (induction cs arbitrary: off pre)
  case Nil
  have "and_then r Inr = r" for r :: "index_error + chunk list" by (cases r) simp_all
  then show ?case by simp
next
  case (Cons c cs)
  let ?len = "word_of_nat (length (ck_text c)) :: u32"
  have c: "storable_chunk c" "ck_section_name c \<in> fst ` set ids" "ck_path c \<in> be_path ` set entries"
    using Cons.prems(1) by simp_all
  have l: "length (ck_text c) < 2 ^ 32" "ck_chunk_index c < 2 ^ 32" "ck_total_chunks c < 2 ^ 32"
    using c(1) by (simp_all add: storable_chunk_def)
  have d: "docs = pre @ ck_text c @ (concat (map ck_text cs) @ post)" using Cons.prems(2) by simp
  have u: "unat (ucast ?len :: u64) = length (ck_text c)"
    using l(1) by (simp add: unsigned_ucast_eq unsigned_of_nat take_bit_nat_eq_self)
  have "unat (sat_add off (ucast ?len)) = unat off + length (ck_text c)"
    using Cons.prems(3,4) d u by (subst sat_add_exact) simp_all
  then have off: "unat (sat_add off (ucast ?len)) = length (pre @ ck_text c)" using Cons.prems(3) by simp
  have "docs = (pre @ ck_text c) @ concat (map ck_text cs) @ post" using d by simp
  from Cons.IH [OF _ this off Cons.prems(4)] Cons.prems(1) obtain rows where
    rows: "live_rows (entry_index entries) ids (sat_add off (ucast ?len)) cs = Inr rows" "length rows = 72 * length cs"
    "\<And>raw cursor tail n. drop cursor raw = rows @ tail \<Longrightarrow> cursor \<le> length raw \<Longrightarrow>
       read_rows from_timestamp now raw docs (map restored_entry entries) (map fst ids) (length cs + n) cursor
       = and_then (read_rows from_timestamp now raw docs (map restored_entry entries) (map fst ids) n (cursor + 72 * length cs))
           (\<lambda>rest. Inr (map (restored_chunk from_timestamp now) cs @ rest))"
    by auto
  have "is_digest (ck_doc_hash c)" using c(1) by (simp add: storable_chunk_def)
  from digest_roundtrip [OF this] obtain hash where
    h: "decode_doc_hash_hex (ck_doc_hash c) = Inr hash" "length hash = 32" "encode_hash_hex hash = ck_doc_hash c"
    by blast
  let ?row = "chunk_row (entry_id_of (entry_index entries) c) (section_id_of ids c) off ?len
      (word_of_nat (ck_chunk_index c)) (word_of_nat (ck_total_chunks c)) 0 c hash"
  have w: "live_rows (entry_index entries) ids off (c # cs) = Inr (?row @ rows)"
    using l h(1) rows(1) by simp
  have row: "length ?row = 72" by (rule length_chunk_row [OF h(2)])
  note stored = chunk_of_row_stored [OF c(1) ids c(2,3) entries d Cons.prems(3,4) h(3)]
  have "read_rows from_timestamp now raw docs (map restored_entry entries) (map fst ids) (length (c # cs) + n) cursor
      = and_then (read_rows from_timestamp now raw docs (map restored_entry entries) (map fst ids) n
            (cursor + 72 * length (c # cs)))
          (\<lambda>rest. Inr (map (restored_chunk from_timestamp now) (c # cs) @ rest))"
    if raw: "drop cursor raw = (?row @ rows) @ tail" "cursor \<le> length raw" for raw cursor tail n
  proof -
    have r: "drop cursor raw = ?row @ (rows @ tail)" using raw(1) by simp
    note next_row = rows(3) [OF drop_advance [OF r row] cursor_advance [OF r raw(2) row], of n]
    show ?thesis
      using read_row_mid [OF r raw(2) h(2)] next_row stored
      by (cases "read_rows from_timestamp now raw docs (map restored_entry entries) (map fst ids) n (cursor + 72 + 72 * length cs)")
        (simp_all add: add.assoc)
  qed
  then show ?case using w row rows(2) by (intro exI [of _ "?row @ rows"]) simp
qed

lemma tombstone_rows_read:
  assumes "\<forall>c \<in> set cs. storable_chunk c"
  shows "\<exists>rows. tombstone_rows idx ids cs = Inr rows \<and> length rows = 72 * length cs
     \<and> (\<forall>raw cursor tail. drop cursor raw = rows @ tail \<longrightarrow> cursor \<le> length raw \<longrightarrow>
          read_rows from_timestamp now raw docs es secs (length cs) cursor = Inr [])"
  using assms
proof (induction cs)
  case Nil
  then show ?case by simp
next
  case (Cons c cs)
  then obtain rows where rows: "tombstone_rows idx ids cs = Inr rows" "length rows = 72 * length cs"
    "\<And>raw cursor tail. drop cursor raw = rows @ tail \<Longrightarrow> cursor \<le> length raw \<Longrightarrow>
       read_rows from_timestamp now raw docs es secs (length cs) cursor = Inr []" by auto
  have l: "ck_chunk_index c < 2 ^ 32" "ck_total_chunks c < 2 ^ 32" "is_digest (ck_doc_hash c)"
    using Cons.prems by (simp_all add: storable_chunk_def)
  obtain hash where h: "decode_doc_hash_hex (ck_doc_hash c) = Inr hash" "length hash = 32"
    using digest_roundtrip [OF l(3)] by blast
  let ?row = "chunk_row (entry_id_of idx c) (section_id_of ids c) 0 0
      (word_of_nat (ck_chunk_index c)) (word_of_nat (ck_total_chunks c)) 1 c hash"
  have row: "length ?row = 72" by (rule length_chunk_row [OF h(2)])
  have "read_rows from_timestamp now raw docs es secs (length (c # cs)) cursor = Inr []"
    if raw: "drop cursor raw = (?row @ rows) @ tail" "cursor \<le> length raw" for raw cursor tail
  proof -
    have r: "drop cursor raw = ?row @ (rows @ tail)" using raw(1) by simp
    show ?thesis
      using read_row_mid [OF r raw(2) h(2)] rows(3) [OF drop_advance [OF r row] cursor_advance [OF r raw(2) row]]
      by simp
  qed
  moreover have "tombstone_rows idx ids (c # cs) = Inr (?row @ rows)" using l h(1) rows(1) by simp
  ultimately show ?case using row rows(2) by (intro exI [of _ "?row @ rows"]) simp
qed

lemma read_chunks_file:
  fixes ns nr :: u32
  defines "raw table rows \<equiv> CHUNKS_MAGIC_V1 @ u32_bytes ns @ table @ u32_bytes nr @ rows"
  assumes "read_sections (raw table rows) (unat ns) 12 = Inr (secs, 12 + length table)"
    and "length rows = 72 * unat nr"
    and "read_rows from_timestamp now (raw table rows) docs es secs (unat nr) (16 + length table) = Inr cs"
  shows "read_chunks_v1 from_timestamp now (raw table rows) docs es = Inr cs"
proof -
  let ?raw = "raw table rows"
  have raw: "?raw = CHUNKS_MAGIC_V1 @ u32_bytes ns @ table @ u32_bytes nr @ rows" by (simp add: raw_def)
  have "read_u32 ?raw 8 = Inr (ns, 12)"
    using read_u32_mid [of 8 ?raw ns "table @ u32_bytes nr @ rows"] by (simp add: raw)
  moreover have "read_u32 ?raw (12 + length table) = Inr (nr, 16 + length table)"
    using read_u32_mid [of "12 + length table" ?raw nr rows] by (simp add: raw)
  moreover have "slice ?raw 0 8 = Inr CHUNKS_MAGIC_V1" by (simp add: raw slice_def)
  moreover have "length ?raw = 16 + length table + 72 * unat nr" using assms(3) by (simp add: raw)
  moreover have "usize_checked_mul (unat nr) CHUNK_RECORD_BYTES m = Inr (72 * unat nr)" for m
    using unsigned_less [of nr, where 'a = nat]
    by (simp add: usize_checked_mul_def CHUNK_RECORD_BYTES_def usize_max_def)
  ultimately show ?thesis using assms(2,4) by (simp add: read_chunks_v1_def)
qed

definition fitting_index :: "binary_entry list \<Rightarrow> chunk list \<Rightarrow> chunk list \<Rightarrow> bool" where
  "fitting_index entries chunks tombstoned \<longleftrightarrow>
     fitting_paths entries \<and> (\<forall>c \<in> set (chunks @ tombstoned). storable_chunk c)
     \<and> (\<forall>c \<in> set chunks. ck_path c \<in> be_path ` set entries)
     \<and> length (chunks @ tombstoned) < 2 ^ 32 \<and> length (write_docs_bin chunks) < 2 ^ 64"

text \<open>The chunks of the index survive a write: when every chunk belongs to an entry and fits the
  widths of its fields, the file is written and reading it with the documents and the restored
  entries returns exactly the live chunks in order, with section, position, digest and text, and no
  tombstoned one. The command name is the file name of the path, an unknown extraction method
  becomes unknown, and the time is cut to seconds.\<close>

theorem chunks_roundtrip:
  assumes "fitting_index entries chunks tombstoned"
  shows "\<exists>raw. write_chunks_bin entries chunks tombstoned = Inr raw
     \<and> read_chunks_v1 from_timestamp now raw (write_docs_bin chunks) (map restored_entry entries)
         = Inr (map (restored_chunk from_timestamp now) chunks)"
proof -
  let ?all = "chunks @ tombstoned" and ?docs = "write_docs_bin chunks"
  let ?es = "map restored_entry entries" and ?rc = "length chunks + length tombstoned"
  have f: "\<forall>c \<in> set ?all. storable_chunk c" "length ?all < 2 ^ 32" "length ?docs < 2 ^ 64"
    "\<forall>c \<in> set chunks. ck_path c \<in> be_path ` set entries"
    "length entries \<le> 2 ^ 32" "\<forall>e \<in> set entries. utf8_valid (be_path e)"
    using assms by (auto simp: fitting_index_def fitting_paths_def)
  obtain ids where ids: "assign_section_ids ?all [] = Inr ids" "numbered ids" "length ids \<le> length ?all"
    "fst ` set ids = ck_section_name ` set ?all"
    using assign_section_ids_spec [of "[]" ?all] f(2) by (auto simp: numbered_def)
  have names: "section_names ids = map fst ids" by (rule section_names_numbered [OF ids(2)])
  have "\<forall>n \<in> set (map fst ids). length n < 2 ^ 32 \<and> utf8_valid n"
    using f(1) ids(4) by (auto simp: storable_chunk_def)
  from section_table_spec [OF this] obtain table where table: "section_table (map fst ids) = Inr table"
    "\<And>raw cursor post. drop cursor raw = table @ post \<Longrightarrow> cursor \<le> length raw \<Longrightarrow>
       read_sections raw (length ids) cursor = Inr (map fst ids, cursor + length table)" by auto
  have "\<forall>c \<in> set chunks. storable_chunk c \<and> ck_section_name c \<in> fst ` set ids \<and> ck_path c \<in> be_path ` set entries"
    using f(1,4) ids(4) by auto
  from live_rows_read [OF this ids(2) f(5,6), of ?docs "[]" "[]" 0 from_timestamp now] f(3) obtain live where
    live: "live_rows (entry_index entries) ids 0 chunks = Inr live" "length live = 72 * length chunks"
    "\<And>raw cursor tail n. drop cursor raw = live @ tail \<Longrightarrow> cursor \<le> length raw \<Longrightarrow>
       read_rows from_timestamp now raw ?docs ?es (map fst ids) (length chunks + n) cursor
       = and_then (read_rows from_timestamp now raw ?docs ?es (map fst ids) n (cursor + 72 * length chunks))
           (\<lambda>rest. Inr (map (restored_chunk from_timestamp now) chunks @ rest))"
    by (auto simp: write_docs_bin_def)
  have "\<forall>c \<in> set tombstoned. storable_chunk c" using f(1) by simp
  from tombstone_rows_read [OF this] obtain dead where
    dead: "tombstone_rows (entry_index entries) ids tombstoned = Inr dead" "length dead = 72 * length tombstoned"
    "\<And>raw cursor tail. drop cursor raw = dead @ tail \<Longrightarrow> cursor \<le> length raw \<Longrightarrow>
       read_rows from_timestamp now raw ?docs ?es (map fst ids) (length tombstoned) cursor = Inr []" by metis
  let ?ns = "u32_bytes (word_of_nat (length ids))" and ?nr = "u32_bytes (word_of_nat ?rc)"
  let ?raw = "CHUNKS_MAGIC_V1 @ ?ns @ table @ ?nr @ live @ dead"
  have counts: "unat (word_of_nat (length ids) :: u32) = length ids" "unat (word_of_nat ?rc :: u32) = ?rc"
    by (rule unat_try_from; use ids(3) f(2) in simp)+
  have "usize_checked_add (length chunks) (length tombstoned) m = Inr ?rc" for m
    using f(2) by (simp add: usize_checked_add_def usize_max_def)
  then have w: "write_chunks_bin entries chunks tombstoned = Inr ?raw"
    by (simp add: write_chunks_bin_def ids(1) names table(1) live(1) dead(1))
  have "read_sections ?raw (length ids) 12 = Inr (map fst ids, 12 + length table)"
    by (rule table(2) [of 12 ?raw "?nr @ live @ dead"]) simp_all
  moreover have "read_rows from_timestamp now ?raw ?docs ?es (map fst ids) ?rc (16 + length table)
      = Inr (map (restored_chunk from_timestamp now) chunks)"
  proof -
    have "read_rows from_timestamp now ?raw ?docs ?es (map fst ids) (length tombstoned)
        (16 + length table + 72 * length chunks) = Inr []"
      by (rule dead(3) [of _ _ "[]"]) (use live(2) in simp_all)
    then show ?thesis using live(3) [of "16 + length table" ?raw dead "length tombstoned"] by simp
  qed
  moreover have "length (live @ dead) = 72 * ?rc" using live(2) dead(2) by simp
  ultimately have "read_chunks_v1 from_timestamp now ?raw ?docs ?es
      = Inr (map (restored_chunk from_timestamp now) chunks)"
    by (intro read_chunks_file) (simp_all only: counts)
  then show ?thesis using w by blast
qed

definition sample_chunk :: chunk where
  "sample_chunk = \<lparr>ck_command_name = ''ls'', ck_path = ''/bin/ls'', ck_extraction_method = ''man'',
     ck_section_name = ''USE'', ck_chunk_index = 0, ck_total_chunks = 1, ck_doc_hash = replicate 64 (CHR ''a''),
     ck_extracted_at = 1500000000, ck_text = ''a b''\<rparr>"

lemma fitting_index_sample: "fitting_index [sample_entry] [sample_chunk] []"
proof -
  have "utf8_valid (ck_text sample_chunk)" "utf8_valid (ck_section_name sample_chunk)"
    by (rule utf8_valid_ascii, simp add: sample_chunk_def)+
  moreover have "is_digest (ck_doc_hash sample_chunk)"
    by (simp add: is_digest_def sample_chunk_def list_all_iff lower_hex_def hex_chars_def)
  ultimately show ?thesis
    by (simp add: fitting_index_def fitting_sample storable_chunk_def timestamp_def write_docs_bin_def)
      (simp add: sample_chunk_def sample_entry_def)
qed

end
