(* ===== verification/Index_Robust.thy ===== *)
theory Index_Robust
  imports Index_Chunks
begin

text \<open>
  The readers of the index on arbitrary bytes: no slice or index is ever out of range, whatever a
  damaged or foreign file holds, and what they return is bounded by the size of the file.
\<close>

named_theorems no_panic "results that are not a panic"

definition sound_result :: "index_error + 'a \<Rightarrow> bool" where
  "sound_result r \<longleftrightarrow> r \<noteq> Inl Panic"

lemma sound_Inr [no_panic]: "sound_result (Inr v)"
  by (simp add: sound_result_def)

lemma sound_and_then [no_panic]:
  "sound_result r \<Longrightarrow> (\<And>v. r = Inr v \<Longrightarrow> sound_result (f v)) \<Longrightarrow> sound_result (and_then r f)"
  by (cases r) (auto simp: sound_result_def)

lemma sound_bail_unless [no_panic]: "(ok \<Longrightarrow> sound_result r) \<Longrightarrow> sound_result (bail_unless ok m r)"
  by (auto simp: sound_result_def bail_unless_def)

lemma sound_checked [no_panic]:
  "sound_result (usize_checked_mul a b m)" "sound_result (usize_checked_add a b m)"
  by (simp_all add: sound_result_def usize_checked_mul_def usize_checked_add_def)

lemma sound_case_prod [no_panic]:
  "(\<And>a b. p = (a, b) \<Longrightarrow> sound_result (f a b)) \<Longrightarrow> sound_result (case p of (a, b) \<Rightarrow> f a b)"
  by (cases p) simp

lemma sound_slice: "a \<le> b \<Longrightarrow> b \<le> length raw \<Longrightarrow> sound_result (slice raw a b)"
  by (simp add: slice_def sound_result_def)

lemma sound_read_bytes: "0 < n \<Longrightarrow> sound_result (read_bytes n m raw cursor)"
  by (auto simp: read_bytes_def sound_result_def slice_def and_then_def)

lemma sound_readers [no_panic]:
  "sound_result (read_u32 raw cursor)" "sound_result (read_u64 raw cursor)"
  "sound_result (read_i64 raw cursor)" "sound_result (read_fixed 32 raw cursor)"
  "sound_result (read_u8 raw cursor)"
proof -
  show "sound_result (read_u32 raw cursor)" unfolding read_u32_def
    by (rule sound_and_then [OF sound_read_bytes]) (auto simp: sound_result_def split: prod.split)
  show "sound_result (read_u64 raw cursor)" unfolding read_u64_def
    by (rule sound_and_then [OF sound_read_bytes]) (auto simp: sound_result_def split: prod.split)
  show "sound_result (read_i64 raw cursor)" unfolding read_i64_def
    by (rule sound_and_then [OF sound_read_bytes]) (auto simp: sound_result_def split: prod.split)
  show "sound_result (read_fixed 32 raw cursor)" unfolding read_fixed_def by (rule sound_read_bytes) simp
  show "sound_result (read_u8 raw cursor)" by (auto simp: read_u8_def sound_result_def)
qed

section \<open>Entries\<close>

lemma sound_read_entry:
  assumes "base + 36 \<le> length raw"
  shows "sound_result (read_entry raw blob base)"
  unfolding read_entry_def Let_def
  by (intro sound_and_then sound_slice sound_Inr) (use assms in auto)

lemma read_entry_rows_length: "read_entry_rows raw blob is = Inr es \<Longrightarrow> length es = length is"
  by (induction "is" arbitrary: es) auto

lemma sound_read_entry_rows:
  "\<forall>i \<in> set is. 12 + i * 60 + 36 \<le> length raw \<Longrightarrow> sound_result (read_entry_rows raw blob is)"
proof (induction "is")
  case Nil
  then show ?case by (simp add: sound_Inr)
next
  case (Cons i "is")
  then show ?case
    unfolding read_entry_rows.simps
    by (intro sound_and_then sound_Inr sound_read_entry) (auto simp: ENTRY_RECORD_BYTES_def)
qed

text \<open>Reading the entries of the index is total: on arbitrary bytes the reader returns or reports
  an error, never slices out of range, and returns at most one entry per 60 bytes of the file.\<close>

theorem read_entries_total:
  "read_entries_v1 raw blob \<noteq> Inl Panic
   \<and> (case read_entries_v1 raw blob of Inr es \<Rightarrow> 12 + 60 * length es \<le> length raw | Inl e \<Rightarrow> True)"
proof -
  have "sound_result (read_entries_v1 raw blob)"
    unfolding read_entries_v1_def Let_def
    by (intro no_panic sound_slice sound_read_entry_rows)
      (auto simp: usize_checked_mul_def usize_checked_add_def ENTRY_RECORD_BYTES_def split: if_splits)
  moreover have "12 + 60 * length es \<le> length raw" if "read_entries_v1 raw blob = Inr es" for es
    using that
    by (auto simp: read_entries_v1_def Let_def usize_checked_mul_def usize_checked_add_def
        ENTRY_RECORD_BYTES_def dest!: read_entry_rows_length split: if_splits)
  ultimately show ?thesis by (auto simp: sound_result_def split: sum.split)
qed

section \<open>Chunks\<close>

lemma sound_read_sections: "sound_result (read_sections raw n cursor)"
proof (induction n arbitrary: cursor)
  case 0
  then show ?case by (simp add: sound_Inr)
next
  case (Suc n)
  show ?case
    unfolding read_sections.simps by (intro no_panic sound_slice Suc) simp_all
qed

lemma sound_read_row: "sound_result (read_row raw cursor)"
  unfolding read_row_def Let_def by (intro no_panic)

lemma sound_chunk_of_row: "sound_result (chunk_of_row from_timestamp now docs es secs r)"
  by (simp add: chunk_of_row_def Let_def sound_result_def)

lemma sound_read_rows: "sound_result (read_rows from_timestamp now raw docs es secs n cursor)"
proof (induction n arbitrary: cursor)
  case 0
  then show ?case by (simp add: sound_Inr)
next
  case (Suc n)
  show ?case
    unfolding read_rows.simps
    by (intro no_panic sound_read_row) (auto intro!: no_panic sound_chunk_of_row Suc)
qed

lemma read_rows_length: "read_rows from_timestamp now raw docs es secs n cursor = Inr cs \<Longrightarrow> length cs \<le> n"
proof (induction n arbitrary: cursor cs)
  case 0
  then show ?case by simp
next
  case (Suc n)
  then show ?case by (fastforce split: if_splits prod.splits intro: le_SucI)
qed

text \<open>Reading the chunks of the index is total: on arbitrary bytes of all three files the reader
  returns or reports an error, never indexes out of range, and returns at most one chunk per 72
  bytes of the file.\<close>

theorem read_chunks_total:
  "read_chunks_v1 from_timestamp now raw docs es \<noteq> Inl Panic
   \<and> (case read_chunks_v1 from_timestamp now raw docs es of
        Inr cs \<Rightarrow> 72 * length cs \<le> length raw | Inl e \<Rightarrow> True)"
proof -
  have "sound_result (read_chunks_v1 from_timestamp now raw docs es)"
    unfolding read_chunks_v1_def
    by (intro no_panic sound_slice sound_read_sections sound_read_rows) simp_all
  moreover have "72 * length cs \<le> length raw" if "read_chunks_v1 from_timestamp now raw docs es = Inr cs" for cs
    using that
    by (auto simp: read_chunks_v1_def usize_checked_mul_def CHUNK_RECORD_BYTES_def
        dest!: read_rows_length split: if_splits prod.splits)
  ultimately show ?thesis by (auto simp: sound_result_def split: sum.split)
qed

end
