(* ===== verification/Index_Lexical.thy ===== *)
theory Index_Lexical
  imports Index_Robust
begin

text \<open>
  The lexical index (\<open>crates/termlm-indexer/src/lexical.rs\<close>, without its floating-point search) and the
  two files that hold it (\<open>store.rs\<close>). A \<open>BTreeMap\<close> is an association list that is iterated in the
  order of its keys, a \<open>BTreeSet\<close> of document numbers a sorted list.
\<close>

section \<open>Tokens and the index in memory\<close>

definition token_char :: "(rchar \<Rightarrow> bool) \<Rightarrow> rchar \<Rightarrow> bool" where
  "token_char is_alphanumeric c \<longleftrightarrow> is_alphanumeric c \<or> c = ''-'' \<or> c = ''_''"

definition tokenize :: "(rchar \<Rightarrow> bool) \<Rightarrow> string \<Rightarrow> string list" where
  "tokenize is_alphanumeric input =
     map to_ascii_lowercase
       (filter (\<lambda>s. s \<noteq> []) (split_chars (\<lambda>c. \<not> token_char is_alphanumeric c) input))"

definition btree_set_insert :: "nat \<Rightarrow> nat list \<Rightarrow> nat list" where
  "btree_set_insert x xs = (if x \<in> set xs then xs else insort x xs)"

record lexical_index =
  lx_postings :: "(string \<times> nat list) list"
  lx_doc_ids :: "nat list"

definition lexical_default :: lexical_index where
  "lexical_default = \<lparr>lx_postings = [], lx_doc_ids = []\<rparr>"

definition posting_add :: "nat \<Rightarrow> string \<Rightarrow> (string \<times> nat list) list \<Rightarrow> (string \<times> nat list) list" where
  "posting_add doc_id tok postings =
     kv_update_or tok [] (btree_set_insert doc_id) postings"

definition lexical_insert :: "(rchar \<Rightarrow> bool) \<Rightarrow> nat \<Rightarrow> string \<Rightarrow> lexical_index \<Rightarrow> lexical_index" where
  "lexical_insert alnum doc_id t idx =
     idx\<lparr>lx_doc_ids := btree_set_insert doc_id (lx_doc_ids idx),
         lx_postings := fold (posting_add doc_id) (tokenize alnum t) (lx_postings idx)\<rparr>"

definition lexical_from_postings :: "(string \<times> nat list) list \<Rightarrow> lexical_index" where
  "lexical_from_postings postings =
     \<lparr>lx_postings = postings,
      lx_doc_ids = foldl (\<lambda>ids p. fold btree_set_insert (snd p) ids) [] (sort_key fst postings)\<rparr>"

text \<open>The index of \<open>HybridRetriever::lexical_only\<close>.\<close>

definition index_chunk :: "(rchar \<Rightarrow> bool) \<Rightarrow> nat \<times> chunk \<Rightarrow> lexical_index \<Rightarrow> lexical_index" where
  "index_chunk alnum p idx =
     (case p of (i, c) \<Rightarrow>
        lexical_insert alnum i (ck_section_name c)
          (lexical_insert alnum i (ck_command_name c) (lexical_insert alnum i (ck_text c) idx)))"

definition lexical_only :: "(rchar \<Rightarrow> bool) \<Rightarrow> chunk list \<Rightarrow> lexical_index" where
  "lexical_only alnum chunks = fold (index_chunk alnum) (enumerate 0 chunks) lexical_default"

section \<open>The files\<close>

definition lexical_text :: "chunk \<Rightarrow> string" where
  "lexical_text c = ck_command_name c @ '' '' @ ck_section_name c @ '' '' @ ck_text c"

definition count_token :: "nat \<Rightarrow> string \<Rightarrow> (string \<times> nat) list \<times> (string \<times> nat list) list
    \<Rightarrow> (string \<times> nat) list \<times> (string \<times> nat list) list" where
  "count_token i tok p =
     (case p of (lexicon, postings) \<Rightarrow>
        (kv_update_or tok 0 (\<lambda>n. n + 1) lexicon, kv_update_or tok [] (\<lambda>ids. ids @ [i]) postings))"

definition collect_tokens ::
  "(rchar \<Rightarrow> bool) \<Rightarrow> chunk list \<Rightarrow> (string \<times> nat) list \<times> (string \<times> nat list) list" where
  "collect_tokens alnum chunks =
     fold (\<lambda>(i, c). fold (count_token i) (tokenize alnum (lexical_text c))) (enumerate 0 chunks) ([], [])"

fun ids_u32 :: "nat list \<Rightarrow> index_error + u32 list" where
  "ids_u32 [] = Inr []"
| "ids_u32 (i # is) =
     and_then (u32_try_from i ''posting id overflow'') (\<lambda>w. and_then (ids_u32 is) (\<lambda>ws. Inr (w # ws)))"

text \<open>The loop over the lexicon: the two payloads so far and the remaining tokens.\<close>

fun lexicon_rows ::
  "(string \<times> nat list) list \<Rightarrow> (string \<times> nat) list \<Rightarrow> string \<Rightarrow> string \<Rightarrow> index_error + string \<times> string" where
  "lexicon_rows postings [] lx post = Inr (lx, post)"
| "lexicon_rows postings ((tok, df) # rest) lx post =
     and_then (ids_u32 (case map_of postings tok of Some ids \<Rightarrow> ids | None \<Rightarrow> [])) (\<lambda>ids.
     and_then (u64_try_from (length post) ''postings offset overflow'') (\<lambda>post_off.
       let row = u32_bytes (word_of_nat (length ids)) @ concat (map u32_bytes ids)
       in and_then (u32_try_from (length row) ''postings length overflow'') (\<lambda>post_len.
          and_then (u32_try_from (length tok) ''lx token too long'') (\<lambda>tok_len.
            lexicon_rows postings rest
              (lx @ u32_bytes tok_len @ tok @ u32_bytes (if df < 2 ^ 32 then word_of_nat df else - 1)
                @ u64_bytes post_off @ u32_bytes post_len)
              (post @ row)))))"

definition write_lexical_bins :: "(rchar \<Rightarrow> bool) \<Rightarrow> chunk list \<Rightarrow> index_error + string \<times> string" where
  "write_lexical_bins alnum chunks =
     (case collect_tokens alnum chunks of
        (lexicon, postings) \<Rightarrow>
          lexicon_rows postings (sort_key fst lexicon)
            (LEXICON_MAGIC_V1 @ u32_bytes (word_of_nat (length lexicon)))
            (POSTINGS_MAGIC_V1 @ u32_bytes (word_of_nat (length postings))))"

fun read_ids :: "string \<Rightarrow> nat \<Rightarrow> nat \<Rightarrow> nat list \<Rightarrow> index_error + nat list" where
  "read_ids raw 0 cursor ids = Inr ids"
| "read_ids raw (Suc n) cursor ids =
     and_then (read_u32 raw cursor) (\<lambda>(i, cursor). read_ids raw n cursor (btree_set_insert (unat i) ids))"

definition read_posting_row :: "string \<Rightarrow> u64 \<Rightarrow> u32 \<Rightarrow> index_error + nat list" where
  "read_posting_row postings_raw postings_offset postings_len =
     (let start = unat postings_offset
      in and_then (usize_checked_add start (unat postings_len) ''postings length overflow'') (\<lambda>stop.
         bail_unless (stop \<le> length postings_raw) ''postings.bin row extends past file bounds'' (
         and_then (read_u32 postings_raw start) (\<lambda>(id_count, cursor).
         and_then (usize_checked_mul (unat id_count) 4 ''postings row id bytes overflow'') (\<lambda>id_bytes.
         and_then (usize_checked_add 4 id_bytes ''postings row length overflow'') (\<lambda>expected_len.
         bail_unless (expected_len \<le> unat postings_len) ''postings.bin row truncated for token''
           (read_ids postings_raw (unat id_count) cursor [])))))))"

fun read_lexicon ::
  "string \<Rightarrow> string \<Rightarrow> nat \<Rightarrow> nat \<Rightarrow> (string \<times> nat list) list \<Rightarrow> index_error + (string \<times> nat list) list" where
  "read_lexicon lexicon_raw postings_raw 0 cursor out = Inr out"
| "read_lexicon lexicon_raw postings_raw (Suc n) cursor out =
     and_then (read_u32 lexicon_raw cursor) (\<lambda>(token_len, cursor).
     bail_unless (cursor + unat token_len \<le> length lexicon_raw) ''lexicon.bin token table truncated'' (
     and_then (slice lexicon_raw cursor (cursor + unat token_len)) (\<lambda>bytes.
     case from_utf8 bytes of
       None \<Rightarrow> Inl (Bail ''lexicon.bin token is not valid utf-8'')
     | Some token \<Rightarrow>
         and_then (read_u32 lexicon_raw (cursor + unat token_len)) (\<lambda>(df, cursor).
         and_then (read_u64 lexicon_raw cursor) (\<lambda>(postings_offset, cursor).
         and_then (read_u32 lexicon_raw cursor) (\<lambda>(postings_len, cursor).
         and_then (read_posting_row postings_raw postings_offset postings_len) (\<lambda>ids.
           read_lexicon lexicon_raw postings_raw n cursor (kv_insert token ids out))))))))"

definition read_lexical_postings_v1 :: "string \<Rightarrow> string \<Rightarrow> index_error + (string \<times> nat list) list" where
  "read_lexical_postings_v1 lexicon_raw postings_raw =
     bail_unless (12 \<le> length lexicon_raw) ''lexicon.bin too short'' (
     bail_unless (12 \<le> length postings_raw) ''postings.bin too short'' (
     bail_unless (starts_with lexicon_raw LEXICON_MAGIC_V1) ''lexicon.bin has unsupported magic'' (
     bail_unless (starts_with postings_raw POSTINGS_MAGIC_V1) ''postings.bin has unsupported magic'' (
     and_then (read_u32 lexicon_raw 8) (\<lambda>(lex_count, cursor).
     and_then (read_u32 postings_raw 8) (\<lambda>(postings_count, _).
     and_then (read_lexicon lexicon_raw postings_raw (unat lex_count) cursor []) (\<lambda>out.
     bail_unless (unat postings_count = length out)
       (''lexicon/postings token count mismatch (lexicon='' @ show_nat (length out) @ '' postings=''
         @ show_nat (unat postings_count) @ '')'')
       (Inr out))))))))"

section \<open>Readers are total\<close>

lemma sound_read_ids: "sound_result (read_ids raw n cursor ids)"
proof (induction n arbitrary: cursor ids)
  case 0
  then show ?case by (simp add: sound_Inr)
next
  case (Suc n)
  then show ?case unfolding read_ids.simps by (intro no_panic)
qed

lemma sound_read_posting_row: "sound_result (read_posting_row raw off len)"
  unfolding read_posting_row_def Let_def by (intro no_panic sound_read_ids)

lemma sound_from_utf8 [no_panic]:
  "(\<And>t. sound_result (f t)) \<Longrightarrow> sound_result (case from_utf8 s of None \<Rightarrow> Inl (Bail m) | Some t \<Rightarrow> f t)"
  by (auto simp: sound_result_def split: option.split)

lemma sound_read_lexicon: "sound_result (read_lexicon lx post n cursor out)"
proof (induction n arbitrary: cursor out)
  case 0
  then show ?case by (simp add: sound_Inr)
next
  case (Suc n)
  then show ?case
    unfolding read_lexicon.simps by (intro no_panic sound_slice sound_read_posting_row) simp_all
qed

lemma read_lexical_sound: "sound_result (read_lexical_postings_v1 lexicon_raw postings_raw)"
  unfolding read_lexical_postings_v1_def by (intro no_panic sound_read_lexicon)

end
