(* ===== verification/Index_Lexical_Props.thy ===== *)
theory Index_Lexical_Props
  imports Index_Lexical
begin

text \<open>
  The stored lexical index implements the index in memory: both map a token to the sorted numbers of
  the chunks that contain it.
\<close>

section \<open>The specification\<close>

definition chunk_tokens :: "(rchar \<Rightarrow> bool) \<Rightarrow> chunk \<Rightarrow> string set" where
  "chunk_tokens alnum c =
     set (tokenize alnum (ck_command_name c)) \<union> set (tokenize alnum (ck_section_name c))
     \<union> set (tokenize alnum (ck_text c))"

definition docs_with :: "(rchar \<Rightarrow> bool) \<Rightarrow> chunk list \<Rightarrow> string \<Rightarrow> nat set" where
  "docs_with alnum chunks tok = {i. i < length chunks \<and> tok \<in> chunk_tokens alnum (chunks ! i)}"

definition postings_spec :: "(rchar \<Rightarrow> bool) \<Rightarrow> chunk list \<Rightarrow> string \<Rightarrow> nat list option" where
  "postings_spec alnum chunks tok =
     (if docs_with alnum chunks tok = {} then None
      else Some (sorted_list_of_set (docs_with alnum chunks tok)))"

lemma finite_docs_with [simp]: "finite (docs_with alnum chunks tok)"
  by (simp add: docs_with_def)

section \<open>Sets as sorted lists\<close>

definition list_of :: "('k \<times> 'a list) list \<Rightarrow> 'k \<Rightarrow> 'a list" where
  "list_of m k = (case map_of m k of Some xs \<Rightarrow> xs | None \<Rightarrow> [])"

lemma list_of_update: "list_of (kv_update_or k [] f m) k' = (if k' = k then f (list_of m k) else list_of m k')"
  by (simp add: list_of_def kv_update_or_def map_of_kv_insert split: option.split)

lemma dom_kv_update_or: "dom (map_of (kv_update_or k d f m)) = insert k (dom (map_of m))"
  by (auto simp: kv_update_or_def map_of_kv_insert dom_def)

lemma btree_set_insert_set [simp]: "set (btree_set_insert x xs) = insert x (set xs)"
  by (auto simp: btree_set_insert_def set_insort_key)

lemma btree_set_insert_sorted:
  "sorted xs \<Longrightarrow> distinct xs \<Longrightarrow> sorted (btree_set_insert x xs) \<and> distinct (btree_set_insert x xs)"
  by (simp add: btree_set_insert_def sorted_insort distinct_insort)

lemma fold_btree_set_insert:
  "sorted xs \<Longrightarrow> distinct xs \<Longrightarrow>
     set (fold btree_set_insert is xs) = set is \<union> set xs
     \<and> sorted (fold btree_set_insert is xs) \<and> distinct (fold btree_set_insert is xs)"
proof (induction "is" arbitrary: xs)
  case Nil
  then show ?case by simp
next
  case (Cons i "is")
  then show ?case using btree_set_insert_sorted [of xs i] by auto
qed

lemma sorted_eq_list_of_set: "sorted xs \<Longrightarrow> distinct xs \<Longrightarrow> set xs = A \<Longrightarrow> xs = sorted_list_of_set A"
  by (metis sorted_list_of_set.idem_if_sorted_distinct)

lemma collected_ids: "fold btree_set_insert is [] = sorted_list_of_set (set is)"
  using fold_btree_set_insert [of "[]" "is"] by (intro sorted_eq_list_of_set) auto

section \<open>The index in memory\<close>

definition posted :: "nat \<Rightarrow> string set \<Rightarrow> (string \<times> nat list) list \<Rightarrow> (string \<times> nat list) list \<Rightarrow> bool" where
  "posted i toks old new \<longleftrightarrow>
     (\<forall>t. set (list_of new t) = (if t \<in> toks then insert i (set (list_of old t)) else set (list_of old t)))
     \<and> dom (map_of new) = toks \<union> dom (map_of old)
     \<and> ((\<forall>t. sorted (list_of old t) \<and> distinct (list_of old t)) \<longrightarrow>
          (\<forall>t. sorted (list_of new t) \<and> distinct (list_of new t)))"

lemma posted_fold: "posted i (set toks) m (fold (posting_add i) toks m)"
proof (induction toks arbitrary: m)
  case Nil
  then show ?case by (simp add: posted_def)
next
  case (Cons tok toks)
  have "posted i {tok} m (posting_add i tok m)"
    by (auto simp: posted_def posting_add_def list_of_update dom_kv_update_or btree_set_insert_sorted)
  with Cons.IH [of "posting_add i tok m"] show ?case
    unfolding posted_def fold_simps o_apply by (auto split: if_splits)
qed

lemma lx_postings_index_chunk:
  "lx_postings (index_chunk alnum (i, c) idx)
     = fold (posting_add i) (tokenize alnum (ck_text c) @ tokenize alnum (ck_command_name c)
         @ tokenize alnum (ck_section_name c)) (lx_postings idx)"
  by (simp add: index_chunk_def lexical_insert_def)

lemma docs_with_snoc:
  "docs_with alnum (cs @ [c]) tok
     = (if tok \<in> chunk_tokens alnum c then insert (length cs) (docs_with alnum cs tok) else docs_with alnum cs tok)"
  by (auto simp: docs_with_def nth_append less_Suc_eq)

lemma lexical_only_spec:
  "(\<forall>t. set (list_of (lx_postings (lexical_only alnum chunks)) t) = docs_with alnum chunks t
      \<and> sorted (list_of (lx_postings (lexical_only alnum chunks)) t)
      \<and> distinct (list_of (lx_postings (lexical_only alnum chunks)) t))
   \<and> dom (map_of (lx_postings (lexical_only alnum chunks))) = {t. docs_with alnum chunks t \<noteq> {}}"
proof (induction chunks rule: rev_induct)
  case Nil
  then show ?case by (simp add: lexical_only_def lexical_default_def list_of_def docs_with_def)
next
  case (snoc c cs)
  let ?old = "lx_postings (lexical_only alnum cs)" and ?new = "lx_postings (lexical_only alnum (cs @ [c]))"
  have "?new = lx_postings (index_chunk alnum (length cs, c) (lexical_only alnum cs))"
    by (simp add: lexical_only_def enumerate_append_eq)
  then have "posted (length cs) (chunk_tokens alnum c) ?old ?new"
    using posted_fold [of "length cs" "tokenize alnum (ck_text c) @ tokenize alnum (ck_command_name c)
        @ tokenize alnum (ck_section_name c)" ?old]
    by (simp add: lx_postings_index_chunk chunk_tokens_def Un_ac)
  then show ?case using snoc by (auto simp: posted_def docs_with_snoc)
qed

lemma lookup_of_lists:
  assumes "\<forall>t. set (list_of m t) = A t \<and> sorted (list_of m t) \<and> distinct (list_of m t)"
    and "dom (map_of m) = {t. A t \<noteq> {}}"
  shows "map_of m t = (if A t = {} then None else Some (sorted_list_of_set (A t)))"
proof (cases "map_of m t")
  case None
  then show ?thesis using assms(2) by (auto simp: domIff)
next
  case (Some xs)
  then have "A t \<noteq> {}" using assms(2) by (auto simp: dom_def)
  moreover have "list_of m t = xs" using Some by (simp add: list_of_def)
  then have "xs = sorted_list_of_set (A t)"
    using assms(1) by (intro sorted_eq_list_of_set) auto
  ultimately show ?thesis using Some by simp
qed

lemma lexical_only_postings: "map_of (lx_postings (lexical_only alnum chunks)) t = postings_spec alnum chunks t"
  unfolding postings_spec_def by (rule lookup_of_lists) (use lexical_only_spec in blast)+

section \<open>The tokens of a stored chunk\<close>

lemma split_at_sep_mid:
  "P c \<Longrightarrow> split_at_sep P (xs @ c # ys) = split_at_sep P xs @ split_at_sep P ys"
  by (induction xs) (auto simp: split_at_sep_nonempty split: list.split)

lemma tokenize_space:
  assumes "\<not> alnum '' ''" "utf8_valid t"
  shows "tokenize alnum (s @ '' '' @ t) = tokenize alnum s @ tokenize alnum t"
proof -
  have "utf8_valid '' ''" by (rule utf8_valid_ascii) simp
  then have "utf8_valid ('' '' @ t)" using assms(2) by (rule utf8_valid_append)
  then have "chars (s @ '' '' @ t) = chars s @ chars ('' '' @ t)" by (rule chars_append_valid)
  also have "chars ('' '' @ t) = '' '' # chars t"
    using chars_append_valid [OF assms(2), of "'' ''"] by (simp add: push_byte_def)
  finally show ?thesis
    using assms(1) by (simp add: tokenize_def split_chars_def split_at_sep_mid token_char_def)
qed

definition valid_chunk_text :: "chunk \<Rightarrow> bool" where
  "valid_chunk_text c \<longleftrightarrow>
     utf8_valid (ck_command_name c) \<and> utf8_valid (ck_section_name c) \<and> utf8_valid (ck_text c)"

lemma tokens_of_lexical_text:
  assumes "\<not> alnum '' ''" "valid_chunk_text c"
  shows "set (tokenize alnum (lexical_text c)) = chunk_tokens alnum c"
proof -
  have sp: "utf8_valid '' ''" by (rule utf8_valid_ascii) simp
  then have "utf8_valid (ck_section_name c @ '' '' @ ck_text c)"
    using assms(2) by (simp add: valid_chunk_text_def utf8_valid_append del: append_Cons)
  then show ?thesis
    using assms by (simp add: lexical_text_def tokenize_space valid_chunk_text_def chunk_tokens_def Un_ac
        del: append_Cons)
qed

lemma tokenize_valid:
  assumes "utf8_valid s" "tok \<in> set (tokenize alnum s)"
  shows "utf8_valid tok"
proof -
  obtain cs where cs: "cs \<in> set (split_at_sep (\<lambda>c. \<not> token_char alnum c) (chars s))"
    "tok = to_ascii_lowercase (concat cs)"
    using assms(2) by (auto simp: tokenize_def split_chars_def)
  have "set cs \<subseteq> set (chars s)" using split_at_sep_elems [OF cs(1)] by simp
  then have "utf8_valid (concat cs)" using utf8_valid_chars [OF assms(1)] by (intro utf8_valid_concat) blast
  then show ?thesis unfolding cs(2) by (rule utf8_valid_lower)
qed

section \<open>Counting the tokens\<close>

definition occurrences :: "(rchar \<Rightarrow> bool) \<Rightarrow> chunk list \<Rightarrow> (nat \<times> string) list" where
  "occurrences alnum chunks =
     concat (map (\<lambda>(i, c). map (Pair i) (tokenize alnum (lexical_text c))) (enumerate 0 chunks))"

lemma fold_pair_map: "fold (\<lambda>(i, tok). f i tok) (map (Pair i) toks) = fold (f i) toks"
  by (induction toks) auto

lemma collect_tokens_occurrences:
  "collect_tokens alnum chunks = fold (\<lambda>(i, tok). count_token i tok) (occurrences alnum chunks) ([], [])"
proof -
  have "fold (\<lambda>(i, c). fold (count_token i) (tokenize alnum (lexical_text c))) ps s
      = fold (\<lambda>(i, tok). count_token i tok)
          (concat (map (\<lambda>(i, c). map (Pair i) (tokenize alnum (lexical_text c))) ps)) s" for ps s
    by (induction ps arbitrary: s) (auto simp: fold_pair_map)
  then show ?thesis by (simp add: collect_tokens_def occurrences_def)
qed

lemma keys_kv_update_or:
  "map fst (kv_update_or k d f m) = (if k \<in> fst ` set m then map fst m else map fst m @ [k])"
proof -
  have "map fst (kv_insert k v m) = (if k \<in> fst ` set m then map fst m else map fst m @ [k])" for v
    by (induction m) (auto simp: rev_image_eqI)
  then show ?thesis by (simp add: kv_update_or_def)
qed

lemma counted_spec:
  assumes "fold (\<lambda>(i, tok). count_token i tok) occ ([], []) = (lexicon, postings)"
  shows "map fst lexicon = map fst postings \<and> kv_wf postings \<and> fst ` set postings = snd ` set occ
     \<and> (\<forall>t. set (list_of postings t) = {i. (i, t) \<in> set occ} \<and> length (list_of postings t) \<le> length occ)
     \<and> length postings \<le> length occ"
  using assms
proof (induction occ arbitrary: lexicon postings rule: rev_induct)
  case Nil
  then show ?case by (simp add: list_of_def)
next
  case (snoc p occ)
  obtain i tok where p: "p = (i, tok)" by (cases p)
  obtain l0 p0 where l0: "fold (\<lambda>(i, tok). count_token i tok) occ ([], []) = (l0, p0)" by fastforce
  note IH = snoc.IH [OF l0]
  have "count_token i tok (l0, p0) = (lexicon, postings)" using snoc.prems by (simp add: p l0)
  then have new: "lexicon = kv_update_or tok 0 (\<lambda>n. n + 1) l0" "postings = kv_update_or tok [] (\<lambda>ids. ids @ [i]) p0"
    by (simp_all add: count_token_def)
  have keys: "fst ` set l0 = fst ` set p0" using IH by (metis list.set_map)
  have "map fst lexicon = map fst postings" using IH keys by (simp add: new keys_kv_update_or)
  moreover have "kv_wf postings" using IH by (simp add: new kv_update_or_def kv_wf_insert)
  moreover have "fst ` set postings = snd ` set (occ @ [p])"
  proof -
    have "fst ` set postings = set (map fst postings)" by simp
    also have "\<dots> = insert tok (fst ` set p0)" unfolding new(2) keys_kv_update_or by auto
    finally show ?thesis using IH by (simp add: p)
  qed
  moreover have "set (list_of postings t) = {i. (i, t) \<in> set (occ @ [p])}
      \<and> length (list_of postings t) \<le> length (occ @ [p])" for t
    using IH by (auto simp: new list_of_update p intro: le_SucI)
  moreover have "length postings \<le> length (occ @ [p])"
  proof -
    have "length postings = length (map fst postings)" by simp
    also have "\<dots> \<le> length (map fst p0) + 1" unfolding new keys_kv_update_or by simp
    finally show ?thesis using IH by simp
  qed
  ultimately show ?case by blast
qed

section \<open>Reading the rows back\<close>

lemma read_ids_back:
  "drop cursor raw = concat (map u32_bytes ws) @ tail \<Longrightarrow> cursor \<le> length raw \<Longrightarrow>
     read_ids raw (length ws) cursor ids = Inr (fold btree_set_insert (map unat ws) ids)"
proof (induction ws arbitrary: cursor ids)
  case Nil
  then show ?case by simp
next
  case (Cons w ws)
  have d: "drop cursor raw = u32_bytes w @ (concat (map u32_bytes ws) @ tail)" using Cons.prems(1) by simp
  note next_id = Cons.IH [OF drop_advance [OF d, of 4] cursor_advance [OF d Cons.prems(2), of 4]]
  show ?case using read_u32_mid [OF d Cons.prems(2)] next_id by simp
qed

definition posting_row :: "nat list \<Rightarrow> string" where
  "posting_row is = u32_bytes (word_of_nat (length is)) @ concat (map (u32_bytes \<circ> word_of_nat) is)"

lemma length_posting_row [simp]: "length (posting_row is) = 4 + 4 * length is"
  by (simp add: posting_row_def length_concat comp_def sum_list_triv)

lemma ids_u32_fit: "\<forall>i \<in> set is. i < 2 ^ 32 \<Longrightarrow> ids_u32 is = Inr (map word_of_nat is)"
  by (induction "is") auto

lemma read_posting_row_back:
  assumes "raw = pre @ posting_row is @ tail" "unat off = length pre" "unat len = 4 + 4 * length is"
    and "\<forall>i \<in> set is. i < 2 ^ 32" "4 + 4 * length is < 2 ^ 32" "length raw < 2 ^ 64"
  shows "read_posting_row raw off len = Inr (sorted_list_of_set (set is))"
proof -
  let ?n = "word_of_nat (length is) :: u32" and ?ws = "map word_of_nat is :: u32 list"
  have n: "unat ?n = length is" using assms(5) by (intro unat_try_from) simp
  have d: "drop (length pre) raw = u32_bytes ?n @ (concat (map u32_bytes ?ws) @ tail)"
    by (simp add: assms(1) posting_row_def comp_def)
  have c: "length pre \<le> length raw" by (simp add: assms(1))
  have "read_ids raw (length ?ws) (length pre + 4) [] = Inr (fold btree_set_insert (map unat ?ws) [])"
    by (rule read_ids_back [OF drop_advance [OF d] cursor_advance [OF d c]]) simp_all
  moreover have "map unat ?ws = is" using assms(4) by (auto intro!: map_idI simp: unat_try_from)
  ultimately have ids: "read_ids raw (length is) (length pre + 4) [] = Inr (sorted_list_of_set (set is))"
    by (simp only: collected_ids length_map)
  have "length pre + (4 + 4 * length is) \<le> length raw" by (simp add: assms(1))
  then show ?thesis
    using read_u32_mid [OF d c] ids n assms(5,6)
    by (simp add: read_posting_row_def Let_def assms(2,3) usize_checked_add_def usize_checked_mul_def
        usize_max_def mult.commute)
qed

text \<open>The rows of the lexicon with their posting rows.\<close>

fun lexicon_layout :: "(string \<times> nat list) list \<Rightarrow> (string \<times> nat) list \<Rightarrow> nat \<Rightarrow> string \<times> string" where
  "lexicon_layout postings [] off = ([], [])"
| "lexicon_layout postings ((tok, df) # rest) off =
     (let row = posting_row (list_of postings tok); (lx, post) = lexicon_layout postings rest (off + length row)
      in (u32_bytes (word_of_nat (length tok)) @ tok @ u32_bytes (if df < 2 ^ 32 then word_of_nat df else - 1)
            @ u64_bytes (word_of_nat off) @ u32_bytes (word_of_nat (length row)) @ lx,
          row @ post))"

definition fitting_posting :: "(string \<times> nat list) list \<Rightarrow> string \<Rightarrow> bool" where
  "fitting_posting postings tok \<longleftrightarrow>
     length tok < 2 ^ 32 \<and> utf8_valid tok \<and> (\<forall>i \<in> set (list_of postings tok). i < 2 ^ 32)
     \<and> 4 + 4 * length (list_of postings tok) < 2 ^ 32"

lemma lexicon_rows_layout:
  assumes "\<forall>(tok, df) \<in> set rows. fitting_posting postings tok"
    and "lexicon_layout postings rows (length post) = (lx', post')" "length post + length post' < 2 ^ 64"
  shows "lexicon_rows postings rows lx post = Inr (lx @ lx', post @ post')"
  using assms
proof (induction rows arbitrary: lx post lx' post')
  case Nil
  then show ?case by simp
next
  case (Cons p rows)
  obtain tok df where p: "p = (tok, df)" by (cases p)
  let ?ids = "list_of postings tok" and ?off = "length post"
  obtain lx1 post1 where l1: "lexicon_layout postings rows (?off + length (posting_row ?ids)) = (lx1, post1)"
    by fastforce
  have f: "length tok < 2 ^ 32" "\<forall>i \<in> set ?ids. i < 2 ^ 32" "4 + 4 * length ?ids < 2 ^ 32"
    using Cons.prems(1) p by (auto simp: fitting_posting_def)
  have l': "lx' = u32_bytes (word_of_nat (length tok)) @ tok @ u32_bytes (if df < 2 ^ 32 then word_of_nat df else - 1)
      @ u64_bytes (word_of_nat ?off) @ u32_bytes (word_of_nat (length (posting_row ?ids))) @ lx1"
    "post' = posting_row ?ids @ post1"
    using Cons.prems(2) l1 p by (simp_all add: Let_def del: length_posting_row)
  have row: "u32_bytes (word_of_nat (length ?ids)) @ concat (map u32_bytes (map word_of_nat ?ids)) = posting_row ?ids"
    by (simp add: posting_row_def comp_def)
  have "lexicon_rows postings rows (lx @ u32_bytes (word_of_nat (length tok)) @ tok
        @ u32_bytes (if df < 2 ^ 32 then word_of_nat df else - 1) @ u64_bytes (word_of_nat ?off)
        @ u32_bytes (word_of_nat (length (posting_row ?ids)))) (post @ posting_row ?ids)
      = Inr (lx @ lx', post @ post')"
    using Cons.IH [of "post @ posting_row ?ids" lx1 post1] Cons.prems(1,3) l1 l' by simp
  moreover have "u64_try_from ?off m = Inr (word_of_nat ?off)" for m using Cons.prems(3) by simp
  moreover have "u32_try_from (length (posting_row ?ids)) m = Inr (word_of_nat (length (posting_row ?ids)))"
    "u32_try_from (length tok) m = Inr (word_of_nat (length tok))" for m
    by (rule try_from_simps(1); use f in simp)+
  ultimately show ?case
    by (simp only: p lexicon_rows.simps list_of_def [symmetric] ids_u32_fit [OF f(2)] and_then_simps Let_def
        length_map row)
qed

lemma read_lexicon_back:
  assumes "\<forall>(tok, df) \<in> set rows. fitting_posting postings tok"
    and "lexicon_layout postings rows (length pre) = (lx, post)"
    and "drop cursor lexicon_raw = lx @ tail" "cursor \<le> length lexicon_raw"
    and "postings_raw = pre @ post @ ptail" "length postings_raw < 2 ^ 64"
  shows "read_lexicon lexicon_raw postings_raw (length rows) cursor out
     = Inr (foldl (\<lambda>out (tok, df). kv_insert tok (sorted_list_of_set (set (list_of postings tok))) out) out rows)"
  using assms
proof (induction rows arbitrary: pre lx post cursor out)
  case Nil
  then show ?case by simp
next
  case (Cons p rows)
  obtain tok df where p: "p = (tok, df)" by (cases p)
  let ?ids = "list_of postings tok" and ?off = "length pre"
  let ?row = "posting_row ?ids"
  let ?tl = "word_of_nat (length tok) :: u32" and ?po = "word_of_nat ?off :: u64"
  let ?pl = "word_of_nat (length ?row) :: u32" and ?df = "if df < 2 ^ 32 then word_of_nat df else - 1 :: u32"
  obtain lx1 post1 where l1: "lexicon_layout postings rows (?off + length ?row) = (lx1, post1)" by fastforce
  have f: "length tok < 2 ^ 32" "utf8_valid tok" "\<forall>i \<in> set ?ids. i < 2 ^ 32" "4 + 4 * length ?ids < 2 ^ 32"
    using Cons.prems(1) p by (auto simp: fitting_posting_def)
  have l': "lx = u32_bytes ?tl @ tok @ u32_bytes ?df @ u64_bytes ?po @ u32_bytes ?pl @ lx1" "post = ?row @ post1"
    using Cons.prems(2) l1 p by (simp_all add: Let_def del: length_posting_row)
  have n: "unat ?tl = length tok" "unat ?pl = 4 + 4 * length ?ids" "unat ?po = ?off"
    using f(1,4) Cons.prems(5,6) by (simp_all only: length_posting_row) (rule unat_try_from; simp)+
  have d0: "drop cursor lexicon_raw = u32_bytes ?tl @ (tok @ u32_bytes ?df @ u64_bytes ?po @ u32_bytes ?pl @ lx1 @ tail)"
    using Cons.prems(3) l' by simp
  note c0 = Cons.prems(4)
  note d1 = drop_advance [OF d0 length_u_bytes(1)] and c1 = cursor_advance [OF d0 c0 length_u_bytes(1)]
  note d2 = drop_advance [OF d1 refl] and c2 = cursor_advance [OF d1 c1 refl]
  note d3 = drop_advance [OF d2 length_u_bytes(1)] and c3 = cursor_advance [OF d2 c2 length_u_bytes(1)]
  note d4 = drop_advance [OF d3 length_u_bytes(2)] and c4 = cursor_advance [OF d3 c3 length_u_bytes(2)]
  note d5 = drop_advance [OF d4 length_u_bytes(1)] and c5 = cursor_advance [OF d4 c4 length_u_bytes(1)]
  have tok: "slice lexicon_raw (cursor + 4) (cursor + 4 + length tok) = Inr tok" "from_utf8 tok = Some tok"
    using slice_at_drop [of "cursor + 4" lexicon_raw "[]" tok] d1 c1 f(2) by (simp_all add: from_utf8_def)
  have "postings_raw = pre @ ?row @ (post1 @ ptail)" using Cons.prems(5) l' by simp
  note row = read_posting_row_back [OF this n(3,2) f(3,4) Cons.prems(6)]
  have "lexicon_layout postings rows (length (pre @ ?row)) = (lx1, post1)" using l1 by simp
  from Cons.IH [OF _ this d5 c5 _ Cons.prems(6), of "kv_insert tok (sorted_list_of_set (set ?ids)) out"]
  have rest: "read_lexicon lexicon_raw postings_raw (length rows) (cursor + 4 + length tok + 4 + 8 + 4)
       (kv_insert tok (sorted_list_of_set (set ?ids)) out)
     = Inr (foldl (\<lambda>out (tok, df). kv_insert tok (sorted_list_of_set (set (list_of postings tok))) out)
         (kv_insert tok (sorted_list_of_set (set ?ids)) out) rows)"
    using Cons.prems(1,5) l' by simp
  show ?case
    by (simp only: length_Cons read_lexicon.simps read_u32_mid [OF d0 c0] and_then_simps prod.case n(1) c2
        bail_unless_True tok option.case read_u32_mid [OF d2 c2] read_u64_mid [OF d3 c3] read_u32_mid [OF d4 c4]
        row rest foldl_Cons p)
qed

lemma layout_length:
  "\<forall>(tok, df) \<in> set rows. fitting_posting postings tok \<Longrightarrow>
     length (snd (lexicon_layout postings rows off)) \<le> length rows * 2 ^ 32"
proof (induction rows arbitrary: off)
  case Nil
  then show ?case by simp
next
  case (Cons p rows)
  obtain tok df where p: "p = (tok, df)" by (cases p)
  have "4 + 4 * length (list_of postings tok) \<le> 2 ^ 32" using Cons.prems p by (auto simp: fitting_posting_def)
  moreover have "length (snd (lexicon_layout postings rows (off + length (posting_row (list_of postings tok)))))
      \<le> length rows * 2 ^ 32" using Cons by simp
  moreover obtain x1 x2 where
    "lexicon_layout postings rows (off + length (posting_row (list_of postings tok))) = (x1, x2)" by fastforce
  ultimately show ?case by (simp add: p Let_def)
qed

lemma foldl_kv_insert_new:
  assumes "distinct (map fst rows)" "fst ` set rows \<inter> fst ` set out = {}"
  shows "foldl (\<lambda>out (tok, df). kv_insert tok (g tok) out) out rows = out @ map (\<lambda>p. (fst p, g (fst p))) rows"
  using assms
proof (induction rows arbitrary: out)
  case Nil
  then show ?case by simp
next
  case (Cons p rows)
  have "map_of out (fst p) = None" using Cons.prems(2) by (auto simp: map_of_eq_None_iff)
  then have k: "kv_insert (fst p) (g (fst p)) out = out @ [(fst p, g (fst p))]" by (rule kv_insert_new)
  have "distinct (map fst rows)" "fst ` set rows \<inter> fst ` set (out @ [(fst p, g (fst p))]) = {}"
    using Cons.prems by auto
  from Cons.IH [OF this] k show ?case by (simp add: case_prod_beta)
qed

lemma map_of_keys: "map_of (map (\<lambda>p. (fst p, g (fst p))) rows) t = (if t \<in> fst ` set rows then Some (g t) else None)"
  by (induction rows) (auto simp: image_iff)

lemma in_occurrences:
  "(i, t) \<in> set (occurrences alnum chunks)
     \<longleftrightarrow> i < length chunks \<and> t \<in> set (tokenize alnum (lexical_text (chunks ! i)))"
  by (force simp: occurrences_def in_set_enumerate_eq)

definition fitting_lexical :: "(rchar \<Rightarrow> bool) \<Rightarrow> chunk list \<Rightarrow> bool" where
  "fitting_lexical alnum chunks \<longleftrightarrow>
     (\<forall>c \<in> set chunks. valid_chunk_text c) \<and> length chunks \<le> 2 ^ 32
     \<and> length (occurrences alnum chunks) < 2 ^ 29 \<and> (\<forall>(i, t) \<in> set (occurrences alnum chunks). length t < 2 ^ 32)"

lemma occurrences_docs:
  assumes "\<not> alnum '' ''" "\<forall>c \<in> set chunks. valid_chunk_text c"
  shows "{i. (i, t) \<in> set (occurrences alnum chunks)} = docs_with alnum chunks t"
  using assms by (auto simp: in_occurrences docs_with_def tokens_of_lexical_text)

lemma valid_lexical_text: "valid_chunk_text c \<Longrightarrow> utf8_valid (lexical_text c)"
proof -
  assume c: "valid_chunk_text c"
  have "utf8_valid '' ''" by (rule utf8_valid_ascii) simp
  then show ?thesis using c unfolding lexical_text_def valid_chunk_text_def by (intro utf8_valid_append) simp_all
qed

lemma read_lexical_file:
  assumes "lexicon_raw = LEXICON_MAGIC_V1 @ u32_bytes n @ lx" "postings_raw = POSTINGS_MAGIC_V1 @ u32_bytes m @ post"
    and "read_lexicon lexicon_raw postings_raw (unat n) 12 [] = Inr out" "unat m = length out"
  shows "read_lexical_postings_v1 lexicon_raw postings_raw = Inr out"
proof -
  have "read_u32 lexicon_raw 8 = Inr (n, 12)" "read_u32 postings_raw 8 = Inr (m, 12)"
    using read_u32_mid [of 8 lexicon_raw n lx] read_u32_mid [of 8 postings_raw m post]
    by (simp_all add: assms(1,2))
  then show ?thesis
    using assms(3,4) by (simp add: read_lexical_postings_v1_def assms(1,2) starts_with_iff)
qed

text \<open>The stored lexical index refines the index in memory: for chunks whose text is UTF-8 and fits
  the layout, both files are written, and the postings read back map every token to the same
  documents as \<open>lexical_only\<close>, which builds the index from the three texts of each chunk; both are
  the sorted numbers of exactly the chunks that contain the token.\<close>

theorem lexical_index_refines:
  assumes "fitting_lexical alnum chunks" "\<not> alnum '' ''"
  shows "\<exists>lexicon_raw postings_raw out. write_lexical_bins alnum chunks = Inr (lexicon_raw, postings_raw)
     \<and> read_lexical_postings_v1 lexicon_raw postings_raw = Inr out
     \<and> map_of out = map_of (lx_postings (lexical_only alnum chunks))
     \<and> map_of out = postings_spec alnum chunks"
proof -
  let ?occ = "occurrences alnum chunks"
  have f: "\<forall>c \<in> set chunks. valid_chunk_text c" "length chunks \<le> 2 ^ 32" "length ?occ < 2 ^ 29"
    "\<forall>(i, t) \<in> set ?occ. length t < 2 ^ 32" using assms(1) by (simp_all add: fitting_lexical_def)
  obtain lexicon postings where ct: "collect_tokens alnum chunks = (lexicon, postings)" by fastforce
  have cs: "map fst lexicon = map fst postings" "kv_wf postings" "fst ` set postings = snd ` set ?occ"
    "\<And>t. set (list_of postings t) = docs_with alnum chunks t" "\<And>t. length (list_of postings t) \<le> length ?occ"
    "length postings \<le> length ?occ"
    using counted_spec [of ?occ lexicon postings] ct occurrences_docs [of alnum chunks, OF assms(2) f(1)]
    by (simp_all add: collect_tokens_occurrences)
  let ?rows = "sort_key fst lexicon" and ?n = "length lexicon"
  have n: "?n = length postings" using cs(1) by (metis length_map)
  have keys: "fst ` set ?rows = snd ` set ?occ" using cs(1,3) by (metis list.set_map set_sort)
  have "distinct (map fst lexicon)" using cs(1,2) by simp
  then have dist: "distinct (map fst ?rows)" by (simp add: distinct_map inj_on_def distinct_map [symmetric])
  have fit: "\<forall>(tok, df) \<in> set ?rows. fitting_posting postings tok"
  proof clarify
    fix tok df assume "(tok, df) \<in> set ?rows"
    then obtain i where i: "(i, tok) \<in> set ?occ" using keys by force
    then have "utf8_valid tok"
      using f(1) tokenize_valid valid_lexical_text by (metis in_occurrences nth_mem)
    moreover have "j < 2 ^ 32" if "j \<in> set (list_of postings tok)" for j
      using that f(2) cs(4) by (auto simp: docs_with_def)
    ultimately show "fitting_posting postings tok"
      using i f(3,4) cs(5) [of tok] by (auto simp: fitting_posting_def)
  qed
  let ?ph = "POSTINGS_MAGIC_V1 @ u32_bytes (word_of_nat ?n)" and ?lh = "LEXICON_MAGIC_V1 @ u32_bytes (word_of_nat ?n)"
  obtain lx post where lay: "lexicon_layout postings ?rows (length ?ph) = (lx, post)" by fastforce
  have "length post \<le> ?n * 2 ^ 32" using layout_length [OF fit] lay by (metis length_sort snd_conv)
  then have small: "length (?ph @ post) < 2 ^ 64" using n cs(6) f(3) by simp
  have w: "write_lexical_bins alnum chunks = Inr (?lh @ lx, ?ph @ post)"
    using lexicon_rows_layout [OF fit lay, of ?lh] small n
    by (simp add: write_lexical_bins_def ct del: append.assoc)
  let ?g = "\<lambda>t. sorted_list_of_set (set (list_of postings t))"
  let ?out = "map (\<lambda>p. (fst p, ?g (fst p))) ?rows"
  have cnt: "unat (word_of_nat ?n :: u32) = ?n" using n cs(6) f(3) by (intro unat_try_from) simp
  have "read_lexicon (?lh @ lx) (?ph @ post) (length ?rows) 12 [] = Inr ?out"
    using read_lexicon_back [OF fit lay, of 12 "?lh @ lx" "[]" "?ph @ post" "[]" "[]"] small
      foldl_kv_insert_new [OF dist, of "[]" ?g] by simp
  then have r: "read_lexical_postings_v1 (?lh @ lx) (?ph @ post) = Inr ?out"
    using cnt by (intro read_lexical_file [where n = "word_of_nat ?n" and m = "word_of_nat ?n"]) simp_all
  have "map_of ?out t = postings_spec alnum chunks t" for t
  proof -
    have "t \<in> snd ` set ?occ \<longleftrightarrow> docs_with alnum chunks t \<noteq> {}"
      using occurrences_docs [of alnum chunks t, OF assms(2) f(1)] by force
    then show ?thesis
      using map_of_keys [of ?g ?rows t] by (simp only: keys postings_spec_def cs(4)) simp
  qed
  then have e: "map_of ?out = postings_spec alnum chunks" by blast
  have "map_of (lx_postings (lexical_only alnum chunks)) = postings_spec alnum chunks"
    using lexical_only_postings by blast
  with e have e': "map_of ?out = map_of (lx_postings (lexical_only alnum chunks))" by (simp only:)
  show ?thesis by (intro exI conjI) (rule w r e' e)+
qed

definition ascii_letter :: "rchar \<Rightarrow> bool" where
  "ascii_letter c \<longleftrightarrow> c \<in> {''a'', ''b'', ''l'', ''s'', ''U'', ''S'', ''E''}"

lemma sample_valid: "valid_chunk_text sample_chunk"
  unfolding valid_chunk_text_def by (intro conjI utf8_valid_ascii) (simp_all add: sample_chunk_def)

lemma sample_occurrences:
  "occurrences ascii_letter [sample_chunk] = [(0, ''ls''), (0, ''use''), (0, ''a''), (0, ''b'')]"
  by code_simp

end
