(* ===== verification/Index_Files.thy ===== *)
theory Index_Files
  imports Index_Lexical_Props
begin

text \<open>
  The directory of the index: the files of \<open>IndexStore\<close> as a map from names to contents, the order in
  which \<open>write_layout_artifacts\<close> replaces them, and the loaders. Each replacement is atomic (a
  temporary file is renamed), the sequence of them is not. The half-precision rows of the embeddings
  are a parameter; an input or output error of the file system is not modelled.
\<close>

section \<open>Writing\<close>

type_synonym directory = "(string \<times> string) list"

record 'v layout =
  la_entries :: "binary_entry list"
  la_chunks :: "chunk list"
  la_tombstoned :: "chunk list"
  la_lexical :: bool
  la_embed_dim :: nat
  la_vector_storage :: string
  la_embeddings :: "'v list option"

definition atomic_write_bytes :: "string \<Rightarrow> (index_error + string) \<Rightarrow> directory \<Rightarrow> index_error + directory" where
  "atomic_write_bytes name bytes d = and_then bytes (\<lambda>b. Inr (kv_insert name b d))"

definition remove_file_if_exists :: "string \<Rightarrow> directory \<Rightarrow> index_error + directory" where
  "remove_file_if_exists name d = Inr (kv_remove name d)"

text \<open>Both payloads of the lexical index are complete before the first of its files is replaced.\<close>

definition lexical_steps ::
  "(rchar \<Rightarrow> bool) \<Rightarrow> bool \<Rightarrow> chunk list \<Rightarrow> (directory \<Rightarrow> index_error + directory) list" where
  "lexical_steps alnum enabled chunks =
     (if enabled
      then [atomic_write_bytes ''lexicon.bin'' (and_then (write_lexical_bins alnum chunks) (\<lambda>p. Inr (fst p))),
            atomic_write_bytes ''postings.bin'' (and_then (write_lexical_bins alnum chunks) (\<lambda>p. Inr (snd p)))]
      else [remove_file_if_exists ''lexicon.bin'', remove_file_if_exists ''postings.bin''])"

definition vector_steps ::
  "(bool \<Rightarrow> nat \<Rightarrow> 'v \<Rightarrow> string) \<Rightarrow> 'v layout \<Rightarrow> (directory \<Rightarrow> index_error + directory) list" where
  "vector_steps encode_row a =
     (case la_embeddings a of
        None \<Rightarrow> [remove_file_if_exists ''vectors.f16'', remove_file_if_exists ''vectors.f32'']
      | Some precomputed \<Rightarrow>
          if length precomputed \<noteq> length (la_chunks a)
          then [\<lambda>d. Inl (Bail (''embedding count mismatch: got '' @ show_nat (length precomputed) @ '' vectors for ''
                  @ show_nat (length (la_chunks a)) @ '' chunks''))]
          else let single = (la_vector_storage a = ''f32'');
                   bytes = Inr (concat (map (encode_row single (la_embed_dim a)) precomputed))
               in if single
                  then [atomic_write_bytes ''vectors.f32'' bytes, remove_file_if_exists ''vectors.f16'']
                  else [atomic_write_bytes ''vectors.f16'' bytes, remove_file_if_exists ''vectors.f32''])"

definition layout_steps ::
  "(rchar \<Rightarrow> bool) \<Rightarrow> (bool \<Rightarrow> nat \<Rightarrow> 'v \<Rightarrow> string) \<Rightarrow> 'v layout \<Rightarrow> (directory \<Rightarrow> index_error + directory) list" where
  "layout_steps alnum encode_row a =
     [atomic_write_bytes ''paths.bin'' (write_paths_bin (la_entries a)),
      atomic_write_bytes ''entries.bin'' (write_entries_bin (la_entries a) (la_chunks a)),
      atomic_write_bytes ''docs.bin'' (Inr (write_docs_bin (la_chunks a))),
      atomic_write_bytes ''chunks.bin'' (write_chunks_bin (la_entries a) (la_chunks a) (la_tombstoned a))]
     @ lexical_steps alnum (la_lexical a) (la_chunks a)
     @ vector_steps encode_row a"

text \<open>The steps in order up to the first error; what was replaced before it stays replaced.\<close>

fun run_layout ::
  "(directory \<Rightarrow> index_error + directory) list \<Rightarrow> directory \<Rightarrow> index_error option \<times> directory" where
  "run_layout [] d = (None, d)"
| "run_layout (f # fs) d = (case f d of Inl e \<Rightarrow> (Some e, d) | Inr d1 \<Rightarrow> run_layout fs d1)"

definition write_layout_artifacts ::
  "(rchar \<Rightarrow> bool) \<Rightarrow> (bool \<Rightarrow> nat \<Rightarrow> 'v \<Rightarrow> string) \<Rightarrow> 'v layout \<Rightarrow> directory \<Rightarrow> index_error option \<times> directory" where
  "write_layout_artifacts alnum encode_row a d = run_layout (layout_steps alnum encode_row a) d"

section \<open>Loading\<close>

definition read_file :: "string \<Rightarrow> directory \<Rightarrow> index_error + string" where
  "read_file name d = (case map_of d name of None \<Rightarrow> Inl (Bail (''read '' @ name)) | Some b \<Rightarrow> Inr b)"

definition load_entries :: "directory \<Rightarrow> index_error + binary_entry list" where
  "load_entries d =
     (case map_of d ''entries.bin'' of
        None \<Rightarrow> Inr []
      | Some raw \<Rightarrow>
          bail_unless (starts_with raw ENTRIES_MAGIC_V1) ''entries.bin has unsupported format''
            (and_then (read_file ''paths.bin'' d) (\<lambda>paths_blob. read_entries_v1 raw paths_blob)))"

definition load_chunks_from_binary_layout ::
  "(int \<Rightarrow> int option) \<Rightarrow> int \<Rightarrow> directory \<Rightarrow> index_error + chunk list" where
  "load_chunks_from_binary_layout from_timestamp now d =
     and_then (load_entries d) (\<lambda>entries.
     and_then (read_file ''docs.bin'' d) (\<lambda>docs.
     and_then (read_file ''chunks.bin'' d) (\<lambda>raw.
       read_chunks_v1 from_timestamp now raw docs entries)))"

definition load_chunks :: "(int \<Rightarrow> int option) \<Rightarrow> int \<Rightarrow> directory \<Rightarrow> index_error + chunk list" where
  "load_chunks from_timestamp now d =
     (if map_of d ''chunks.bin'' = None \<or> map_of d ''docs.bin'' = None then Inr []
      else load_chunks_from_binary_layout from_timestamp now d)"

definition load_lexical_index :: "directory \<Rightarrow> index_error + lexical_index option" where
  "load_lexical_index d =
     (case (map_of d ''lexicon.bin'', map_of d ''postings.bin'') of
        (Some lexicon_raw, Some postings_raw) \<Rightarrow>
          and_then (read_lexical_postings_v1 lexicon_raw postings_raw) (\<lambda>postings.
            Inr (Some (lexical_from_postings postings)))
      | _ \<Rightarrow> Inr None)"

section \<open>The files after a write\<close>

lemma run_layout_append:
  "run_layout (fs @ gs) d =
     (case run_layout fs d of (Some e, d1) \<Rightarrow> (Some e, d1) | (None, d1) \<Rightarrow> run_layout gs d1)"
  by (induction fs arbitrary: d) (auto split: sum.splits)

lemma write_step [simp]:
  "atomic_write_bytes name (Inr b) d = Inr (kv_insert name b d)"
  by (simp add: atomic_write_bytes_def)

lemma run_vector_steps:
  assumes "case la_embeddings a of None \<Rightarrow> True | Some rows \<Rightarrow> length rows = length (la_chunks a)"
  obtains d1 where "run_layout (vector_steps encode_row a) d = (None, d1)"
    "\<And>name. name \<notin> {''vectors.f16'', ''vectors.f32''} \<Longrightarrow> map_of d1 name = map_of d name"
  using assms
  by (cases "la_embeddings a"; cases "la_vector_storage a = ''f32''")
    (auto simp: vector_steps_def remove_file_if_exists_def Let_def kv_lookup intro!: that)

lemma run_lexical_steps:
  assumes "enabled \<Longrightarrow> write_lexical_bins alnum chunks = Inr (lexicon_raw, postings_raw)"
  obtains d1 where "run_layout (lexical_steps alnum enabled chunks) d = (None, d1)"
    "map_of d1 ''lexicon.bin'' = (if enabled then Some lexicon_raw else None)"
    "map_of d1 ''postings.bin'' = (if enabled then Some postings_raw else None)"
    "\<And>name. name \<notin> {''lexicon.bin'', ''postings.bin''} \<Longrightarrow> map_of d1 name = map_of d name"
proof (cases enabled)
  case True
  then show ?thesis using assms
    by (intro that [of "kv_insert ''postings.bin'' postings_raw (kv_insert ''lexicon.bin'' lexicon_raw d)"])
      (auto simp: lexical_steps_def kv_lookup)
next
  case False
  then show ?thesis
    by (intro that [of "kv_remove ''postings.bin'' (kv_remove ''lexicon.bin'' d)"])
      (auto simp: lexical_steps_def remove_file_if_exists_def kv_lookup)
qed

definition fitting_layout :: "(rchar \<Rightarrow> bool) \<Rightarrow> 'v layout \<Rightarrow> bool" where
  "fitting_layout alnum a \<longleftrightarrow>
     fitting_index (la_entries a) (la_chunks a) (la_tombstoned a)
     \<and> (if la_lexical a then fitting_lexical alnum (la_chunks a) else True)
     \<and> (case la_embeddings a of None \<Rightarrow> True | Some rows \<Rightarrow> length rows = length (la_chunks a))"

text \<open>All files of a complete write, whatever the directory held before.\<close>

lemma layout_written:
  assumes "fitting_layout alnum a" "\<not> alnum '' ''"
  obtains d1 entries_raw blob chunks_raw lexicon_raw postings_raw out where
    "write_layout_artifacts alnum encode_row a d = (None, d1)"
    "map_of d1 ''paths.bin'' = Some blob" "map_of d1 ''entries.bin'' = Some entries_raw"
    "write_entries_bin (la_entries a) (la_chunks a) = Inr entries_raw"
    "read_entries_v1 entries_raw blob = Inr (map restored_entry (la_entries a))"
    "map_of d1 ''docs.bin'' = Some (write_docs_bin (la_chunks a))" "map_of d1 ''chunks.bin'' = Some chunks_raw"
    "\<And>from_timestamp now. read_chunks_v1 from_timestamp now chunks_raw (write_docs_bin (la_chunks a))
         (map restored_entry (la_entries a)) = Inr (map (restored_chunk from_timestamp now) (la_chunks a))"
    "map_of d1 ''lexicon.bin'' = (if la_lexical a then Some lexicon_raw else None)"
    "map_of d1 ''postings.bin'' = (if la_lexical a then Some postings_raw else None)"
    "la_lexical a \<Longrightarrow> read_lexical_postings_v1 lexicon_raw postings_raw = Inr out"
    "la_lexical a \<Longrightarrow> map_of out = postings_spec alnum (la_chunks a)"
proof -
  let ?es = "la_entries a" and ?cs = "la_chunks a"
  have f: "fitting_index ?es ?cs (la_tombstoned a)" "fitting_paths ?es"
    "la_lexical a \<Longrightarrow> fitting_lexical alnum ?cs"
    "case la_embeddings a of None \<Rightarrow> True | Some rows \<Rightarrow> length rows = length ?cs"
    using assms(1) by (simp_all add: fitting_layout_def fitting_index_def)
  obtain er blob where e: "write_entries_bin ?es ?cs = Inr er" "write_paths_bin ?es = Inr blob"
    "read_entries_v1 er blob = Inr (map restored_entry ?es)"
    using entries_roundtrip [OF f(2)] by blast
  obtain cr where c: "write_chunks_bin ?es ?cs (la_tombstoned a) = Inr cr"
    "\<And>from_timestamp now. read_chunks_v1 from_timestamp now cr (write_docs_bin ?cs) (map restored_entry ?es)
       = Inr (map (restored_chunk from_timestamp now) ?cs)"
    using chunks_roundtrip [OF f(1)] by (metis Inr_inject)
  obtain lr pr out where l: "la_lexical a \<Longrightarrow> write_lexical_bins alnum ?cs = Inr (lr, pr)"
    "la_lexical a \<Longrightarrow> read_lexical_postings_v1 lr pr = Inr out"
    "la_lexical a \<Longrightarrow> map_of out = postings_spec alnum ?cs"
    using lexical_index_refines [OF f(3) assms(2)] by blast
  let ?d4 = "kv_insert ''chunks.bin'' cr (kv_insert ''docs.bin'' (write_docs_bin ?cs)
     (kv_insert ''entries.bin'' er (kv_insert ''paths.bin'' blob d)))"
  obtain d5 where d5: "run_layout (lexical_steps alnum (la_lexical a) ?cs) ?d4 = (None, d5)"
    "map_of d5 ''lexicon.bin'' = (if la_lexical a then Some lr else None)"
    "map_of d5 ''postings.bin'' = (if la_lexical a then Some pr else None)"
    "\<And>name. name \<notin> {''lexicon.bin'', ''postings.bin''} \<Longrightarrow> map_of d5 name = map_of ?d4 name"
    using run_lexical_steps [OF l(1), where d = "?d4"] by blast
  obtain d6 where d6: "run_layout (vector_steps encode_row a) d5 = (None, d6)"
    "\<And>name. name \<notin> {''vectors.f16'', ''vectors.f32''} \<Longrightarrow> map_of d6 name = map_of d5 name"
    using run_vector_steps [OF f(4)] by blast
  have "write_layout_artifacts alnum encode_row a d = (None, d6)"
    by (simp add: write_layout_artifacts_def layout_steps_def run_layout_append e c d5(1) d6(1))
  then show ?thesis
    by (rule that [of d6 blob er cr lr pr out])
      (simp_all add: d6(2) d5(2-4) kv_lookup e c l)
qed

lemma read_entries_magic: "read_entries_v1 raw blob = Inr es \<Longrightarrow> prefix ENTRIES_MAGIC_V1 raw"
  by (auto simp: read_entries_v1_def slice_def split: if_splits) (metis take_is_prefix)

text \<open>C5: The index directory survives a write: whatever the directory held before, a complete write of
  entries and chunks that fit the layout succeeds, and the loaders return every entry and every live
  chunk in order, no tombstoned chunk and no rest of the old files; without the lexical index its
  files are gone.\<close>

theorem layout_roundtrip:
  assumes "fitting_layout alnum a" "\<not> alnum '' ''"
  shows "\<exists>d1. write_layout_artifacts alnum encode_row a d = (None, d1)
     \<and> load_entries d1 = Inr (map restored_entry (la_entries a))
     \<and> load_chunks from_timestamp now d1 = Inr (map (restored_chunk from_timestamp now) (la_chunks a))
     \<and> (if la_lexical a then load_lexical_index d1 \<noteq> Inr None else load_lexical_index d1 = Inr None)"
proof -
  obtain d1 er blob cr lr pr out where w: "write_layout_artifacts alnum encode_row a d = (None, d1)"
    "map_of d1 ''paths.bin'' = Some blob" "map_of d1 ''entries.bin'' = Some er"
    "read_entries_v1 er blob = Inr (map restored_entry (la_entries a))"
    "map_of d1 ''docs.bin'' = Some (write_docs_bin (la_chunks a))" "map_of d1 ''chunks.bin'' = Some cr"
    "\<And>from_timestamp now. read_chunks_v1 from_timestamp now cr (write_docs_bin (la_chunks a))
         (map restored_entry (la_entries a)) = Inr (map (restored_chunk from_timestamp now) (la_chunks a))"
    "map_of d1 ''lexicon.bin'' = (if la_lexical a then Some lr else None)"
    "map_of d1 ''postings.bin'' = (if la_lexical a then Some pr else None)"
    "la_lexical a \<Longrightarrow> read_lexical_postings_v1 lr pr = Inr out"
    using layout_written [OF assms] by metis
  have e: "load_entries d1 = Inr (map restored_entry (la_entries a))"
    using w(4) read_entries_magic [OF w(4)] by (simp add: load_entries_def w(2,3) read_file_def starts_with_iff)
  then have "load_chunks from_timestamp now d1 = Inr (map (restored_chunk from_timestamp now) (la_chunks a))"
    by (simp add: load_chunks_def load_chunks_from_binary_layout_def read_file_def w(5-7))
  moreover have "if la_lexical a then load_lexical_index d1 \<noteq> Inr None else load_lexical_index d1 = Inr None"
    by (simp add: load_lexical_index_def w(8-10))
  ultimately show ?thesis using w(1) e by blast
qed

text \<open>C18: The stored lexical index refines the index in memory: after a complete write with the lexical
  index enabled the loader returns an index that maps every token to the same documents as
  \<open>lexical_only\<close>, which builds it from the three texts of each chunk; both are the sorted numbers
  of exactly the chunks that contain the token.\<close>

theorem stored_lexical_refines:
  assumes "fitting_layout alnum a" "\<not> alnum '' ''" "la_lexical a"
  shows "\<exists>d1 idx. write_layout_artifacts alnum encode_row a d = (None, d1)
     \<and> load_lexical_index d1 = Inr (Some idx)
     \<and> map_of (lx_postings idx) = map_of (lx_postings (lexical_only alnum (la_chunks a)))
     \<and> map_of (lx_postings idx) = postings_spec alnum (la_chunks a)"
proof -
  obtain d1 lr pr out where w: "write_layout_artifacts alnum encode_row a d = (None, d1)"
    "map_of d1 ''lexicon.bin'' = (if la_lexical a then Some lr else None)"
    "map_of d1 ''postings.bin'' = (if la_lexical a then Some pr else None)"
    "la_lexical a \<Longrightarrow> read_lexical_postings_v1 lr pr = Inr out"
    "la_lexical a \<Longrightarrow> map_of out = postings_spec alnum (la_chunks a)"
    by (rule layout_written [OF assms(1,2), of encode_row d]) blast
  have "load_lexical_index d1 = Inr (Some (lexical_from_postings out))"
    using assms(3) w(4) by (simp add: load_lexical_index_def w(2,3))
  moreover have "map_of (lx_postings (lexical_from_postings out)) = postings_spec alnum (la_chunks a)"
    using w(5) assms(3) by (simp add: lexical_from_postings_def)
  moreover have "map_of (lx_postings (lexical_only alnum (la_chunks a))) = postings_spec alnum (la_chunks a)"
    by (rule ext) (rule lexical_only_postings)
  ultimately show ?thesis using w(1) by simp
qed

definition contents :: "string \<Rightarrow> directory \<Rightarrow> string" where
  "contents name d = (case map_of d name of None \<Rightarrow> [] | Some b \<Rightarrow> b)"

definition loaded :: "index_error + 'a list \<Rightarrow> 'a list" where
  "loaded r = (case r of Inl _ \<Rightarrow> [] | Inr xs \<Rightarrow> xs)"

lemma sound_read_file: "sound_result (read_file name d)"
  by (simp add: read_file_def sound_result_def split: option.split)

lemma load_entries_sound:
  "sound_result (load_entries d) \<and> 60 * length (loaded (load_entries d)) \<le> length (contents ''entries.bin'' d)"
proof (cases "map_of d ''entries.bin''")
  case None
  then show ?thesis by (simp add: load_entries_def sound_Inr loaded_def)
next
  case (Some raw)
  have "sound_result (read_entries_v1 raw blob)" for blob using read_entries_total [of raw blob] by (simp add: sound_result_def)
  then have "sound_result (load_entries d)"
    unfolding load_entries_def Some option.case by (intro no_panic sound_read_file)
  moreover have "60 * length es \<le> length raw" if "load_entries d = Inr es" for es
    using that read_entries_total [of raw] by (auto simp: load_entries_def Some) (force split: sum.splits)
  ultimately show ?thesis by (simp add: contents_def Some loaded_def split: sum.split)
qed

lemma load_chunks_sound:
  "sound_result (load_chunks from_timestamp now d)
   \<and> 72 * length (loaded (load_chunks from_timestamp now d)) \<le> length (contents ''chunks.bin'' d)"
proof (cases "map_of d ''chunks.bin'' = None \<or> map_of d ''docs.bin'' = None")
  case True
  then show ?thesis by (simp add: load_chunks_def sound_Inr loaded_def)
next
  case False
  then obtain raw docs where f: "map_of d ''chunks.bin'' = Some raw" "map_of d ''docs.bin'' = Some docs" by auto
  have "sound_result (read_chunks_v1 from_timestamp now raw docs es)" for raw docs es
    using read_chunks_total [of from_timestamp now raw docs es] by (simp add: sound_result_def)
  then have "sound_result (load_chunks_from_binary_layout from_timestamp now d)"
    unfolding load_chunks_from_binary_layout_def
    by (intro no_panic sound_read_file conjunct1 [OF load_entries_sound])
  moreover have "72 * length cs \<le> length raw" if "load_chunks_from_binary_layout from_timestamp now d = Inr cs" for cs
    using that read_chunks_total [of from_timestamp now raw docs]
    by (auto simp: load_chunks_from_binary_layout_def read_file_def f) (force split: sum.splits)
  ultimately show ?thesis by (simp add: load_chunks_def contents_def f loaded_def split: sum.split)
qed

lemma load_lexical_sound: "sound_result (load_lexical_index d)"
proof -
  have "sound_result (and_then (read_lexical_postings_v1 lr pr) (\<lambda>postings.
       Inr (Some (lexical_from_postings postings))))" for lr pr
    by (intro no_panic read_lexical_sound)
  then show ?thesis by (auto simp: load_lexical_index_def sound_Inr split: option.split)
qed


definition sample_layout :: "bool \<Rightarrow> string layout" where
  "sample_layout lexical = \<lparr>la_entries = [sample_entry], la_chunks = [sample_chunk], la_tombstoned = [],
     la_lexical = lexical, la_embed_dim = 4, la_vector_storage = ''f16'', la_embeddings = None\<rparr>"

lemma fitting_sample_layout: "fitting_layout ascii_letter (sample_layout lexical)" "\<not> ascii_letter '' ''"
  by (simp_all add: fitting_layout_def sample_layout_def fitting_index_sample fitting_lexical_def sample_valid
      sample_occurrences ascii_letter_def)

lemma layout_roundtrip_witness:
  "\<exists>d1. write_layout_artifacts ascii_letter (\<lambda>_ _ v. v) (sample_layout False) [(''lexicon.bin'', ''old'')] = (None, d1)
     \<and> load_entries d1 = Inr (map restored_entry (la_entries (sample_layout False)))
     \<and> load_chunks Some 0 d1 = Inr (map (restored_chunk Some 0) (la_chunks (sample_layout False)))
     \<and> (if la_lexical (sample_layout False) then load_lexical_index d1 \<noteq> Inr None
        else load_lexical_index d1 = Inr None)"
  by (rule layout_roundtrip [OF fitting_sample_layout])

lemma stored_lexical_refines_witness:
  "\<exists>d1 idx. write_layout_artifacts ascii_letter (\<lambda>_ _ v. v) (sample_layout True) [] = (None, d1)
     \<and> load_lexical_index d1 = Inr (Some idx)
     \<and> map_of (lx_postings idx) = map_of (lx_postings (lexical_only ascii_letter (la_chunks (sample_layout True))))
     \<and> map_of (lx_postings idx) = postings_spec ascii_letter (la_chunks (sample_layout True))"
  by (rule stored_lexical_refines [OF fitting_sample_layout]) (simp add: sample_layout_def)

section \<open>An interrupted write\<close>

lemma stats_repath:
  assumes "\<forall>c \<in> set cs. ck_path c = p" "length st \<le> 1"
  shows "stats_loop i off (map (\<lambda>c. c\<lparr>ck_path := q\<rparr>) cs) (map (\<lambda>e. (q, e)) st)
     = map (\<lambda>e. (q, e)) (map snd (stats_loop i off cs (map (\<lambda>e. (p, e)) st)))
     \<and> fst ` set (stats_loop i off cs (map (\<lambda>e. (p, e)) st)) \<subseteq> {p}"
  using assms
proof (induction cs arbitrary: i off st)
  case Nil
  then show ?case by (auto simp: comp_def)
next
  case (Cons c cs)
  show ?case
  proof (cases st)
    case Nil
    then show ?thesis using Cons.prems Cons.IH [of "[_]"] by (simp add: Let_def)
  next
    case (Cons e es)
    then have "st = [e]" using Cons.prems(2) by (cases es) simp_all
    then show ?thesis using Cons.prems Cons.IH [of "[_]"] by (simp add: Let_def)
  qed
qed

lemma map_of_repath:
  "fst ` set st \<subseteq> {p} \<Longrightarrow> map_of (map (\<lambda>e. (q, e)) (map snd st)) q = map_of st p"
  by (induction st) auto

lemma entries_repath:
  assumes "fitting_paths [e]" "fitting_paths [e\<lparr>be_path := q\<rparr>]" "length q = length (be_path e)"
    and "\<forall>c \<in> set cs. ck_path c = be_path e"
  shows "write_entries_bin [e\<lparr>be_path := q\<rparr>] (map (\<lambda>c. c\<lparr>ck_path := q\<rparr>) cs) = write_entries_bin [e] cs"
proof -
  let ?st = "stats_loop 0 0 cs []"
  have r: "stats_loop 0 0 (map (\<lambda>c. c\<lparr>ck_path := q\<rparr>) cs) [] = map (\<lambda>e. (q, e)) (map snd ?st)"
    "fst ` set ?st \<subseteq> {be_path e}"
    using stats_repath [OF assms(4), of "[]" 0 0 q] by simp_all
  have v: "from_utf8_lossy q = q" "from_utf8_lossy (be_path e) = be_path e"
    using assms(1,2) by (simp_all add: fitting_paths_def)
  show ?thesis
    using map_of_repath [OF r(2), of q] assms(3)
    by (simp add: write_entries_bin_def build_path_catalog_def Let_def v entry_record_def build_entry_stats_def r(1)
        u32_try_from_def u64_try_from_def and_then_def)
qed

text \<open>C40: An interrupted write mixes two generations: when the new index replaced \<open>paths.bin\<close> only, the
  loader accepts the directory and returns the old entry (size, inode and time) under the new path,
  although each file was replaced atomically.\<close>

theorem interrupted_write_mixes:
  assumes "fitting_layout alnum a" "\<not> alnum '' ''" "la_entries a = [e]" "fitting_paths [e']"
    and "length (be_path e') = length (be_path e)" "\<forall>c \<in> set (la_chunks a). ck_path c = be_path e"
    and "la_entries b = [e']"
  shows "\<exists>d1. write_layout_artifacts alnum encode_row a d = (None, d1)
     \<and> load_entries (snd (run_layout (take 1 (layout_steps alnum encode_row b)) d1))
         = Inr [restored_entry (e\<lparr>be_path := be_path e'\<rparr>)]"
proof -
  let ?m = "e\<lparr>be_path := be_path e'\<rparr>"
  have f: "fitting_paths [e]" "fitting_paths [?m]"
    using assms(1,3,4) by (simp_all add: fitting_layout_def fitting_index_def fitting_paths_def)
  obtain d1 er where w: "write_layout_artifacts alnum encode_row a d = (None, d1)"
    "map_of d1 ''entries.bin'' = Some er" "write_entries_bin (la_entries a) (la_chunks a) = Inr er"
    by (rule layout_written [OF assms(1,2), of encode_row d]) blast
  let ?cs = "map (\<lambda>c. c\<lparr>ck_path := be_path e'\<rparr>) (la_chunks a)"
  have "write_entries_bin [?m] ?cs = Inr er"
    using w(3) entries_repath [OF f assms(5,6)] by (simp add: assms(3))
  then obtain blob where m: "write_paths_bin [?m] = Inr blob" "read_entries_v1 er blob = Inr [restored_entry ?m]"
    using entries_roundtrip [OF f(2), of ?cs] by auto
  have "write_paths_bin [e'] = Inr blob"
    using m(1) by (simp add: write_paths_bin_def build_path_catalog_def Let_def)
  then have "run_layout (take 1 (layout_steps alnum encode_row b)) d1 = (None, kv_insert ''paths.bin'' blob d1)"
    by (simp add: layout_steps_def assms(7))
  moreover have "load_entries (kv_insert ''paths.bin'' blob d1) = Inr [restored_entry ?m]"
    using m(2) read_entries_magic [OF m(2)]
    by (simp add: load_entries_def kv_lookup w(2) read_file_def starts_with_iff)
  ultimately show ?thesis using w(1) by simp
qed

lemma interrupted_write_mixes_witness:
  "\<exists>d1. write_layout_artifacts ascii_letter (\<lambda>_ _ v. v) (sample_layout False) [] = (None, d1)
     \<and> load_entries (snd (run_layout (take 1 (layout_steps ascii_letter (\<lambda>_ _ v. v)
           (sample_layout False\<lparr>la_entries := [sample_entry\<lparr>be_path := ''/bin/rm''\<rparr>]\<rparr>))) d1))
         = Inr [restored_entry (sample_entry\<lparr>be_path := be_path (sample_entry\<lparr>be_path := ''/bin/rm''\<rparr>)\<rparr>)]"
proof (rule interrupted_write_mixes [OF fitting_sample_layout])
  have "utf8_valid ''/bin/rm''" by (rule utf8_valid_ascii) simp
  then show "fitting_paths [sample_entry\<lparr>be_path := ''/bin/rm''\<rparr>]" by (simp add: fitting_paths_def)
qed (simp_all add: sample_layout_def sample_entry_def sample_chunk_def)

end
