(* ===== verification/Config_Data.thy ===== *)
theory Config_Data
  imports Complex_Main Safety_Floor
begin

text \<open>
  The configuration (\<open>crates/termlm-config/src/lib.rs\<close>): every section as a record with the fields of
  its struct, the tree serde renders it as, and the defaults. An \<open>f32\<close> is the decimal it is written
  as; a TOML or JSON value is the datatype \<open>json\<close>, whose objects list their keys in the order of the
  \<open>BTreeMap\<close> that holds them.
\<close>

datatype json =
    JNull
  | JBool bool
  | JInt int
  | JFloat rat
  | JStr string
  | JArr "json list"
  | JObj "(string \<times> json) list"

section \<open>Sections\<close>

record web_extract_settings =
  cfg_web_extract_strategy :: string
  cfg_web_extract_output_format :: string
  cfg_web_extract_include_images :: bool
  cfg_web_extract_include_links :: bool
  cfg_web_extract_include_tables :: bool
  cfg_web_extract_max_table_rows :: nat
  cfg_web_extract_max_table_cols :: nat
  cfg_web_extract_preserve_code_blocks :: bool
  cfg_web_extract_strip_tracking_params :: bool
  cfg_web_extract_max_html_bytes :: nat
  cfg_web_extract_max_markdown_bytes :: nat
  cfg_web_extract_min_extracted_chars :: nat
  cfg_web_extract_dedupe_boilerplate :: bool

record text_detection_settings =
  cfg_text_detection_mode :: string
  cfg_text_detection_sample_bytes :: nat
  cfg_text_detection_reject_nul_bytes :: bool
  cfg_text_detection_accepted_encodings :: "string list"
  cfg_text_detection_deny_binary_magic :: bool

record inference_settings =
  cfg_inference_provider :: string
  cfg_inference_tool_calling_required :: bool
  cfg_inference_stream :: bool
  cfg_inference_token_idle_timeout_secs :: nat
  cfg_inference_startup_failure_behavior :: string

record performance_settings =
  cfg_performance_profile :: string
  cfg_performance_warm_core_on_start :: bool
  cfg_performance_keep_embedding_warm :: bool
  cfg_performance_prewarm_common_docs :: bool
  cfg_performance_indexer_priority_mode :: string
  cfg_performance_max_background_cpu_pct :: nat

record model_settings =
  cfg_model_variant :: string
  cfg_model_auto_download :: bool
  cfg_model_download_only_selected_variant :: bool
  cfg_model_models_dir :: string
  cfg_model_e4b_filename :: string
  cfg_model_e2b_filename :: string
  cfg_model_context_tokens :: nat
  cfg_model_gpu_layers :: int
  cfg_model_threads :: int

record ollama_settings =
  cfg_ollama_endpoint :: string
  cfg_ollama_model :: string
  cfg_ollama_options :: "(string \<times> json) list"
  cfg_ollama_keep_alive :: string
  cfg_ollama_request_timeout_secs :: nat
  cfg_ollama_connect_timeout_secs :: nat
  cfg_ollama_allow_remote :: bool
  cfg_ollama_allow_plain_http_remote :: bool
  cfg_ollama_healthcheck_on_start :: bool

record web_settings =
  cfg_web_enabled :: bool
  cfg_web_expose_tools :: bool
  cfg_web_provider :: string
  cfg_web_search_endpoint :: string
  cfg_web_search_api_key_env :: string
  cfg_web_user_agent :: string
  cfg_web_request_timeout_secs :: nat
  cfg_web_connect_timeout_secs :: nat
  cfg_web_max_results :: nat
  cfg_web_max_fetch_bytes :: nat
  cfg_web_max_pages_per_task :: nat
  cfg_web_cache_ttl_secs :: nat
  cfg_web_cache_max_bytes :: nat
  cfg_web_allowed_schemes :: "string list"
  cfg_web_allow_plain_http :: bool
  cfg_web_allow_local_addresses :: bool
  cfg_web_obey_robots_txt :: bool
  cfg_web_citation_required :: bool
  cfg_web_freshness_required_terms :: "string list"
  cfg_web_min_delay_between_requests_ms :: nat
  cfg_web_search_cache_ttl_secs :: nat
  cfg_web_extract :: web_extract_settings

record approval_settings =
  cfg_approval_mode :: string
  cfg_approval_critical_patterns :: "string list"
  cfg_approval_approve_all_resets_per_task :: bool

record behavior_settings =
  cfg_behavior_thinking :: bool
  cfg_behavior_allow_clarifications :: bool
  cfg_behavior_max_tool_rounds :: nat
  cfg_behavior_max_planning_rounds :: nat
  cfg_behavior_context_classifier_enabled :: bool
  cfg_behavior_clarification_timeout_secs :: nat
  cfg_behavior_command_timeout_secs :: nat

record daemon_settings =
  cfg_daemon_socket_path :: string
  cfg_daemon_pid_file :: string
  cfg_daemon_log_file :: string
  cfg_daemon_log_level :: string
  cfg_daemon_shutdown_grace_secs :: nat
  cfg_daemon_boot_timeout_secs :: nat

record logging_settings =
  cfg_logging_redact_critical :: bool

record indexer_settings =
  cfg_indexer_enabled :: bool
  cfg_indexer_concurrency :: nat
  cfg_indexer_max_loadavg :: rat
  cfg_indexer_max_doc_bytes :: nat
  cfg_indexer_max_binaries :: nat
  cfg_indexer_max_chunks :: nat
  cfg_indexer_chunk_max_tokens :: nat
  cfg_indexer_cheatsheet_static_count :: nat
  cfg_indexer_rag_top_k :: nat
  cfg_indexer_rag_min_similarity :: rat
  cfg_indexer_rag_max_tokens :: nat
  cfg_indexer_lookup_max_bytes :: nat
  cfg_indexer_hybrid_retrieval_enabled :: bool
  cfg_indexer_lexical_index_enabled :: bool
  cfg_indexer_lexical_top_k :: nat
  cfg_indexer_exact_command_boost :: rat
  cfg_indexer_exact_flag_boost :: rat
  cfg_indexer_section_boost_options :: rat
  cfg_indexer_command_aware_retrieval :: bool
  cfg_indexer_command_aware_top_k :: nat
  cfg_indexer_validate_command_flags :: bool
  cfg_indexer_embedding_provider :: string
  cfg_indexer_query_embedding_timeout_secs :: nat
  cfg_indexer_embed_filename :: string
  cfg_indexer_embed_dim :: nat
  cfg_indexer_embed_query_prefix :: string
  cfg_indexer_embed_doc_prefix :: string
  cfg_indexer_ollama_embed_model :: string
  cfg_indexer_extra_paths :: "string list"
  cfg_indexer_ignore_paths :: "string list"
  cfg_indexer_fsevents_debounce_ms :: nat
  cfg_indexer_disk_write_coalesce_secs :: nat
  cfg_indexer_vector_storage :: string
  cfg_indexer_lexical_index_impl :: string
  cfg_indexer_priority_indexing :: bool
  cfg_indexer_priority_recent_commands :: bool
  cfg_indexer_priority_prompt_commands :: bool
  cfg_indexer_cache_retrieval_results :: bool

record capture_settings =
  cfg_capture_enabled :: bool
  cfg_capture_max_bytes :: nat
  cfg_capture_redact_env :: "string list"

record terminal_context_settings =
  cfg_terminal_context_enabled :: bool
  cfg_terminal_context_capture_all_interactive_commands :: bool
  cfg_terminal_context_capture_command_output :: bool
  cfg_terminal_context_max_entries :: nat
  cfg_terminal_context_max_output_bytes_per_command :: nat
  cfg_terminal_context_recent_context_max_tokens :: nat
  cfg_terminal_context_older_context_max_tokens :: nat
  cfg_terminal_context_redact_secrets :: bool
  cfg_terminal_context_exclude_tui_commands :: bool
  cfg_terminal_context_exclude_command_patterns :: "string list"

record local_tools_settings =
  cfg_local_tools_enabled :: bool
  cfg_local_tools_readonly_command_enabled :: bool
  cfg_local_tools_readonly_command_timeout_secs :: nat
  cfg_local_tools_readonly_command_max_output_bytes :: nat
  cfg_local_tools_redact_secrets :: bool
  cfg_local_tools_default_max_bytes :: nat
  cfg_local_tools_max_file_bytes :: nat
  cfg_local_tools_max_search_results :: nat
  cfg_local_tools_max_search_files :: nat
  cfg_local_tools_max_workspace_entries :: nat
  cfg_local_tools_respect_gitignore :: bool
  cfg_local_tools_workspace_markers :: "string list"
  cfg_local_tools_allow_home_as_workspace :: bool
  cfg_local_tools_allow_system_dirs :: bool
  cfg_local_tools_sensitive_path_allowlist :: "string list"
  cfg_local_tools_include_hidden_by_default :: bool
  cfg_local_tools_text_detection :: text_detection_settings

record git_context_settings =
  cfg_git_context_enabled :: bool
  cfg_git_context_max_changed_files :: nat
  cfg_git_context_max_recent_commits :: nat
  cfg_git_context_include_diff_summary :: bool
  cfg_git_context_max_diff_bytes :: nat

record project_metadata_settings =
  cfg_project_metadata_enabled :: bool
  cfg_project_metadata_max_files_read :: nat
  cfg_project_metadata_max_bytes_per_file :: nat
  cfg_project_metadata_detect_scripts :: bool
  cfg_project_metadata_detect_package_managers :: bool
  cfg_project_metadata_detect_ci :: bool

record tool_routing_settings =
  cfg_tool_routing_dynamic_exposure_enabled :: bool
  cfg_tool_routing_always_expose_execute :: bool
  cfg_tool_routing_always_expose_lookup_docs :: bool
  cfg_tool_routing_expose_web_only_when_needed :: bool
  cfg_tool_routing_expose_terminal_context_only_when_needed :: bool
  cfg_tool_routing_expose_file_tools_for_local_questions :: bool

record context_budget_settings =
  cfg_context_budget_enabled :: bool
  cfg_context_budget_max_total_context_tokens :: nat
  cfg_context_budget_reserve_response_tokens :: nat
  cfg_context_budget_current_question_tokens :: nat
  cfg_context_budget_recent_terminal_tokens :: nat
  cfg_context_budget_older_session_tokens :: nat
  cfg_context_budget_local_tool_result_tokens :: nat
  cfg_context_budget_project_git_metadata_tokens :: nat
  cfg_context_budget_docs_rag_tokens :: nat
  cfg_context_budget_web_result_tokens :: nat
  cfg_context_budget_cheat_sheet_tokens :: nat
  cfg_context_budget_trim_strategy :: string

record cache_settings =
  cfg_cache_enabled :: bool
  cfg_cache_retrieval_cache_ttl_secs :: nat
  cfg_cache_command_validation_cache_ttl_secs :: nat
  cfg_cache_project_metadata_cache_ttl_secs :: nat
  cfg_cache_git_context_cache_ttl_secs :: nat
  cfg_cache_file_read_cache_ttl_secs :: nat
  cfg_cache_web_cache_ttl_secs :: nat
  cfg_cache_max_total_cache_bytes :: nat

record source_ledger_settings =
  cfg_source_ledger_enabled :: bool
  cfg_source_ledger_expose_on_status :: bool
  cfg_source_ledger_include_in_debug_logs :: bool
  cfg_source_ledger_max_refs_on_status :: nat

record debug_settings =
  cfg_debug_retrieval_trace_enabled :: bool
  cfg_debug_retrieval_trace_dir :: string
  cfg_debug_retrieval_trace_max_files :: nat

record prompt_settings =
  cfg_prompt_indicator :: string
  cfg_prompt_session_indicator :: string
  cfg_prompt_use_color :: bool

record session_settings =
  cfg_session_context_window_tokens :: nat

record settings =
  cfg_inference :: inference_settings
  cfg_performance :: performance_settings
  cfg_model :: model_settings
  cfg_ollama :: ollama_settings
  cfg_web :: web_settings
  cfg_approval :: approval_settings
  cfg_behavior :: behavior_settings
  cfg_daemon :: daemon_settings
  cfg_logging :: logging_settings
  cfg_indexer :: indexer_settings
  cfg_capture :: capture_settings
  cfg_terminal_context :: terminal_context_settings
  cfg_local_tools :: local_tools_settings
  cfg_git_context :: git_context_settings
  cfg_project_metadata :: project_metadata_settings
  cfg_tool_routing :: tool_routing_settings
  cfg_context_budget :: context_budget_settings
  cfg_cache :: cache_settings
  cfg_source_ledger :: source_ledger_settings
  cfg_debug :: debug_settings
  cfg_prompt :: prompt_settings
  cfg_session :: session_settings

section \<open>Serialisation\<close>

definition web_extract_json :: "web_extract_settings \<Rightarrow> json" where
  "web_extract_json x = JObj
     [(''dedupe_boilerplate'', JBool (cfg_web_extract_dedupe_boilerplate x)),
      (''include_images'', JBool (cfg_web_extract_include_images x)),
      (''include_links'', JBool (cfg_web_extract_include_links x)),
      (''include_tables'', JBool (cfg_web_extract_include_tables x)),
      (''max_html_bytes'', JInt (int (cfg_web_extract_max_html_bytes x))),
      (''max_markdown_bytes'', JInt (int (cfg_web_extract_max_markdown_bytes x))),
      (''max_table_cols'', JInt (int (cfg_web_extract_max_table_cols x))),
      (''max_table_rows'', JInt (int (cfg_web_extract_max_table_rows x))),
      (''min_extracted_chars'', JInt (int (cfg_web_extract_min_extracted_chars x))),
      (''output_format'', JStr (cfg_web_extract_output_format x)),
      (''preserve_code_blocks'', JBool (cfg_web_extract_preserve_code_blocks x)),
      (''strategy'', JStr (cfg_web_extract_strategy x)),
      (''strip_tracking_params'', JBool (cfg_web_extract_strip_tracking_params x))]"

definition text_detection_json :: "text_detection_settings \<Rightarrow> json" where
  "text_detection_json x = JObj
     [(''accepted_encodings'', JArr (map JStr (cfg_text_detection_accepted_encodings x))),
      (''deny_binary_magic'', JBool (cfg_text_detection_deny_binary_magic x)),
      (''mode'', JStr (cfg_text_detection_mode x)),
      (''reject_nul_bytes'', JBool (cfg_text_detection_reject_nul_bytes x)),
      (''sample_bytes'', JInt (int (cfg_text_detection_sample_bytes x)))]"

definition inference_json :: "inference_settings \<Rightarrow> json" where
  "inference_json x = JObj
     [(''provider'', JStr (cfg_inference_provider x)),
      (''startup_failure_behavior'', JStr (cfg_inference_startup_failure_behavior x)),
      (''stream'', JBool (cfg_inference_stream x)),
      (''token_idle_timeout_secs'', JInt (int (cfg_inference_token_idle_timeout_secs x))),
      (''tool_calling_required'', JBool (cfg_inference_tool_calling_required x))]"

definition performance_json :: "performance_settings \<Rightarrow> json" where
  "performance_json x = JObj
     [(''indexer_priority_mode'', JStr (cfg_performance_indexer_priority_mode x)),
      (''keep_embedding_warm'', JBool (cfg_performance_keep_embedding_warm x)),
      (''max_background_cpu_pct'', JInt (int (cfg_performance_max_background_cpu_pct x))),
      (''prewarm_common_docs'', JBool (cfg_performance_prewarm_common_docs x)),
      (''profile'', JStr (cfg_performance_profile x)),
      (''warm_core_on_start'', JBool (cfg_performance_warm_core_on_start x))]"

definition model_json :: "model_settings \<Rightarrow> json" where
  "model_json x = JObj
     [(''auto_download'', JBool (cfg_model_auto_download x)),
      (''context_tokens'', JInt (int (cfg_model_context_tokens x))),
      (''download_only_selected_variant'', JBool (cfg_model_download_only_selected_variant x)),
      (''e2b_filename'', JStr (cfg_model_e2b_filename x)),
      (''e4b_filename'', JStr (cfg_model_e4b_filename x)),
      (''gpu_layers'', JInt (cfg_model_gpu_layers x)),
      (''models_dir'', JStr (cfg_model_models_dir x)),
      (''threads'', JInt (cfg_model_threads x)),
      (''variant'', JStr (cfg_model_variant x))]"

definition ollama_json :: "ollama_settings \<Rightarrow> json" where
  "ollama_json x = JObj
     [(''allow_plain_http_remote'', JBool (cfg_ollama_allow_plain_http_remote x)),
      (''allow_remote'', JBool (cfg_ollama_allow_remote x)),
      (''connect_timeout_secs'', JInt (int (cfg_ollama_connect_timeout_secs x))),
      (''endpoint'', JStr (cfg_ollama_endpoint x)),
      (''healthcheck_on_start'', JBool (cfg_ollama_healthcheck_on_start x)),
      (''keep_alive'', JStr (cfg_ollama_keep_alive x)),
      (''model'', JStr (cfg_ollama_model x)),
      (''options'', JObj (cfg_ollama_options x)),
      (''request_timeout_secs'', JInt (int (cfg_ollama_request_timeout_secs x)))]"

definition web_json :: "web_settings \<Rightarrow> json" where
  "web_json x = JObj
     [(''allow_local_addresses'', JBool (cfg_web_allow_local_addresses x)),
      (''allow_plain_http'', JBool (cfg_web_allow_plain_http x)),
      (''allowed_schemes'', JArr (map JStr (cfg_web_allowed_schemes x))),
      (''cache_max_bytes'', JInt (int (cfg_web_cache_max_bytes x))),
      (''cache_ttl_secs'', JInt (int (cfg_web_cache_ttl_secs x))),
      (''citation_required'', JBool (cfg_web_citation_required x)),
      (''connect_timeout_secs'', JInt (int (cfg_web_connect_timeout_secs x))),
      (''enabled'', JBool (cfg_web_enabled x)),
      (''expose_tools'', JBool (cfg_web_expose_tools x)),
      (''extract'', web_extract_json (cfg_web_extract x)),
      (''freshness_required_terms'', JArr (map JStr (cfg_web_freshness_required_terms x))),
      (''max_fetch_bytes'', JInt (int (cfg_web_max_fetch_bytes x))),
      (''max_pages_per_task'', JInt (int (cfg_web_max_pages_per_task x))),
      (''max_results'', JInt (int (cfg_web_max_results x))),
      (''min_delay_between_requests_ms'', JInt (int (cfg_web_min_delay_between_requests_ms x))),
      (''obey_robots_txt'', JBool (cfg_web_obey_robots_txt x)),
      (''provider'', JStr (cfg_web_provider x)),
      (''request_timeout_secs'', JInt (int (cfg_web_request_timeout_secs x))),
      (''search_api_key_env'', JStr (cfg_web_search_api_key_env x)),
      (''search_cache_ttl_secs'', JInt (int (cfg_web_search_cache_ttl_secs x))),
      (''search_endpoint'', JStr (cfg_web_search_endpoint x)),
      (''user_agent'', JStr (cfg_web_user_agent x))]"

definition approval_json :: "approval_settings \<Rightarrow> json" where
  "approval_json x = JObj
     [(''approve_all_resets_per_task'', JBool (cfg_approval_approve_all_resets_per_task x)),
      (''critical_patterns'', JArr (map JStr (cfg_approval_critical_patterns x))),
      (''mode'', JStr (cfg_approval_mode x))]"

definition behavior_json :: "behavior_settings \<Rightarrow> json" where
  "behavior_json x = JObj
     [(''allow_clarifications'', JBool (cfg_behavior_allow_clarifications x)),
      (''clarification_timeout_secs'', JInt (int (cfg_behavior_clarification_timeout_secs x))),
      (''command_timeout_secs'', JInt (int (cfg_behavior_command_timeout_secs x))),
      (''context_classifier_enabled'', JBool (cfg_behavior_context_classifier_enabled x)),
      (''max_planning_rounds'', JInt (int (cfg_behavior_max_planning_rounds x))),
      (''max_tool_rounds'', JInt (int (cfg_behavior_max_tool_rounds x))),
      (''thinking'', JBool (cfg_behavior_thinking x))]"

definition daemon_json :: "daemon_settings \<Rightarrow> json" where
  "daemon_json x = JObj
     [(''boot_timeout_secs'', JInt (int (cfg_daemon_boot_timeout_secs x))),
      (''log_file'', JStr (cfg_daemon_log_file x)),
      (''log_level'', JStr (cfg_daemon_log_level x)),
      (''pid_file'', JStr (cfg_daemon_pid_file x)),
      (''shutdown_grace_secs'', JInt (int (cfg_daemon_shutdown_grace_secs x))),
      (''socket_path'', JStr (cfg_daemon_socket_path x))]"

definition logging_json :: "logging_settings \<Rightarrow> json" where
  "logging_json x = JObj
     [(''redact_critical'', JBool (cfg_logging_redact_critical x))]"

definition indexer_json :: "indexer_settings \<Rightarrow> json" where
  "indexer_json x = JObj
     [(''cache_retrieval_results'', JBool (cfg_indexer_cache_retrieval_results x)),
      (''cheatsheet_static_count'', JInt (int (cfg_indexer_cheatsheet_static_count x))),
      (''chunk_max_tokens'', JInt (int (cfg_indexer_chunk_max_tokens x))),
      (''command_aware_retrieval'', JBool (cfg_indexer_command_aware_retrieval x)),
      (''command_aware_top_k'', JInt (int (cfg_indexer_command_aware_top_k x))),
      (''concurrency'', JInt (int (cfg_indexer_concurrency x))),
      (''disk_write_coalesce_secs'', JInt (int (cfg_indexer_disk_write_coalesce_secs x))),
      (''embed_dim'', JInt (int (cfg_indexer_embed_dim x))),
      (''embed_doc_prefix'', JStr (cfg_indexer_embed_doc_prefix x)),
      (''embed_filename'', JStr (cfg_indexer_embed_filename x)),
      (''embed_query_prefix'', JStr (cfg_indexer_embed_query_prefix x)),
      (''embedding_provider'', JStr (cfg_indexer_embedding_provider x)),
      (''enabled'', JBool (cfg_indexer_enabled x)),
      (''exact_command_boost'', JFloat (cfg_indexer_exact_command_boost x)),
      (''exact_flag_boost'', JFloat (cfg_indexer_exact_flag_boost x)),
      (''extra_paths'', JArr (map JStr (cfg_indexer_extra_paths x))),
      (''fsevents_debounce_ms'', JInt (int (cfg_indexer_fsevents_debounce_ms x))),
      (''hybrid_retrieval_enabled'', JBool (cfg_indexer_hybrid_retrieval_enabled x)),
      (''ignore_paths'', JArr (map JStr (cfg_indexer_ignore_paths x))),
      (''lexical_index_enabled'', JBool (cfg_indexer_lexical_index_enabled x)),
      (''lexical_index_impl'', JStr (cfg_indexer_lexical_index_impl x)),
      (''lexical_top_k'', JInt (int (cfg_indexer_lexical_top_k x))),
      (''lookup_max_bytes'', JInt (int (cfg_indexer_lookup_max_bytes x))),
      (''max_binaries'', JInt (int (cfg_indexer_max_binaries x))),
      (''max_chunks'', JInt (int (cfg_indexer_max_chunks x))),
      (''max_doc_bytes'', JInt (int (cfg_indexer_max_doc_bytes x))),
      (''max_loadavg'', JFloat (cfg_indexer_max_loadavg x)),
      (''ollama_embed_model'', JStr (cfg_indexer_ollama_embed_model x)),
      (''priority_indexing'', JBool (cfg_indexer_priority_indexing x)),
      (''priority_prompt_commands'', JBool (cfg_indexer_priority_prompt_commands x)),
      (''priority_recent_commands'', JBool (cfg_indexer_priority_recent_commands x)),
      (''query_embedding_timeout_secs'', JInt (int (cfg_indexer_query_embedding_timeout_secs x))),
      (''rag_max_tokens'', JInt (int (cfg_indexer_rag_max_tokens x))),
      (''rag_min_similarity'', JFloat (cfg_indexer_rag_min_similarity x)),
      (''rag_top_k'', JInt (int (cfg_indexer_rag_top_k x))),
      (''section_boost_options'', JFloat (cfg_indexer_section_boost_options x)),
      (''validate_command_flags'', JBool (cfg_indexer_validate_command_flags x)),
      (''vector_storage'', JStr (cfg_indexer_vector_storage x))]"

definition capture_json :: "capture_settings \<Rightarrow> json" where
  "capture_json x = JObj
     [(''enabled'', JBool (cfg_capture_enabled x)),
      (''max_bytes'', JInt (int (cfg_capture_max_bytes x))),
      (''redact_env'', JArr (map JStr (cfg_capture_redact_env x)))]"

definition terminal_context_json :: "terminal_context_settings \<Rightarrow> json" where
  "terminal_context_json x = JObj
     [(''capture_all_interactive_commands'', JBool (cfg_terminal_context_capture_all_interactive_commands x)),
      (''capture_command_output'', JBool (cfg_terminal_context_capture_command_output x)),
      (''enabled'', JBool (cfg_terminal_context_enabled x)),
      (''exclude_command_patterns'', JArr (map JStr (cfg_terminal_context_exclude_command_patterns x))),
      (''exclude_tui_commands'', JBool (cfg_terminal_context_exclude_tui_commands x)),
      (''max_entries'', JInt (int (cfg_terminal_context_max_entries x))),
      (''max_output_bytes_per_command'', JInt (int (cfg_terminal_context_max_output_bytes_per_command x))),
      (''older_context_max_tokens'', JInt (int (cfg_terminal_context_older_context_max_tokens x))),
      (''recent_context_max_tokens'', JInt (int (cfg_terminal_context_recent_context_max_tokens x))),
      (''redact_secrets'', JBool (cfg_terminal_context_redact_secrets x))]"

definition local_tools_json :: "local_tools_settings \<Rightarrow> json" where
  "local_tools_json x = JObj
     [(''allow_home_as_workspace'', JBool (cfg_local_tools_allow_home_as_workspace x)),
      (''allow_system_dirs'', JBool (cfg_local_tools_allow_system_dirs x)),
      (''default_max_bytes'', JInt (int (cfg_local_tools_default_max_bytes x))),
      (''enabled'', JBool (cfg_local_tools_enabled x)),
      (''include_hidden_by_default'', JBool (cfg_local_tools_include_hidden_by_default x)),
      (''max_file_bytes'', JInt (int (cfg_local_tools_max_file_bytes x))),
      (''max_search_files'', JInt (int (cfg_local_tools_max_search_files x))),
      (''max_search_results'', JInt (int (cfg_local_tools_max_search_results x))),
      (''max_workspace_entries'', JInt (int (cfg_local_tools_max_workspace_entries x))),
      (''readonly_command_enabled'', JBool (cfg_local_tools_readonly_command_enabled x)),
      (''readonly_command_max_output_bytes'', JInt (int (cfg_local_tools_readonly_command_max_output_bytes x))),
      (''readonly_command_timeout_secs'', JInt (int (cfg_local_tools_readonly_command_timeout_secs x))),
      (''redact_secrets'', JBool (cfg_local_tools_redact_secrets x)),
      (''respect_gitignore'', JBool (cfg_local_tools_respect_gitignore x)),
      (''sensitive_path_allowlist'', JArr (map JStr (cfg_local_tools_sensitive_path_allowlist x))),
      (''text_detection'', text_detection_json (cfg_local_tools_text_detection x)),
      (''workspace_markers'', JArr (map JStr (cfg_local_tools_workspace_markers x)))]"

definition git_context_json :: "git_context_settings \<Rightarrow> json" where
  "git_context_json x = JObj
     [(''enabled'', JBool (cfg_git_context_enabled x)),
      (''include_diff_summary'', JBool (cfg_git_context_include_diff_summary x)),
      (''max_changed_files'', JInt (int (cfg_git_context_max_changed_files x))),
      (''max_diff_bytes'', JInt (int (cfg_git_context_max_diff_bytes x))),
      (''max_recent_commits'', JInt (int (cfg_git_context_max_recent_commits x)))]"

definition project_metadata_json :: "project_metadata_settings \<Rightarrow> json" where
  "project_metadata_json x = JObj
     [(''detect_ci'', JBool (cfg_project_metadata_detect_ci x)),
      (''detect_package_managers'', JBool (cfg_project_metadata_detect_package_managers x)),
      (''detect_scripts'', JBool (cfg_project_metadata_detect_scripts x)),
      (''enabled'', JBool (cfg_project_metadata_enabled x)),
      (''max_bytes_per_file'', JInt (int (cfg_project_metadata_max_bytes_per_file x))),
      (''max_files_read'', JInt (int (cfg_project_metadata_max_files_read x)))]"

definition tool_routing_json :: "tool_routing_settings \<Rightarrow> json" where
  "tool_routing_json x = JObj
     [(''always_expose_execute'', JBool (cfg_tool_routing_always_expose_execute x)),
      (''always_expose_lookup_docs'', JBool (cfg_tool_routing_always_expose_lookup_docs x)),
      (''dynamic_exposure_enabled'', JBool (cfg_tool_routing_dynamic_exposure_enabled x)),
      (''expose_file_tools_for_local_questions'', JBool (cfg_tool_routing_expose_file_tools_for_local_questions x)),
      (''expose_terminal_context_only_when_needed'', JBool (cfg_tool_routing_expose_terminal_context_only_when_needed x)),
      (''expose_web_only_when_needed'', JBool (cfg_tool_routing_expose_web_only_when_needed x))]"

definition context_budget_json :: "context_budget_settings \<Rightarrow> json" where
  "context_budget_json x = JObj
     [(''cheat_sheet_tokens'', JInt (int (cfg_context_budget_cheat_sheet_tokens x))),
      (''current_question_tokens'', JInt (int (cfg_context_budget_current_question_tokens x))),
      (''docs_rag_tokens'', JInt (int (cfg_context_budget_docs_rag_tokens x))),
      (''enabled'', JBool (cfg_context_budget_enabled x)),
      (''local_tool_result_tokens'', JInt (int (cfg_context_budget_local_tool_result_tokens x))),
      (''max_total_context_tokens'', JInt (int (cfg_context_budget_max_total_context_tokens x))),
      (''older_session_tokens'', JInt (int (cfg_context_budget_older_session_tokens x))),
      (''project_git_metadata_tokens'', JInt (int (cfg_context_budget_project_git_metadata_tokens x))),
      (''recent_terminal_tokens'', JInt (int (cfg_context_budget_recent_terminal_tokens x))),
      (''reserve_response_tokens'', JInt (int (cfg_context_budget_reserve_response_tokens x))),
      (''trim_strategy'', JStr (cfg_context_budget_trim_strategy x)),
      (''web_result_tokens'', JInt (int (cfg_context_budget_web_result_tokens x)))]"

definition cache_json :: "cache_settings \<Rightarrow> json" where
  "cache_json x = JObj
     [(''command_validation_cache_ttl_secs'', JInt (int (cfg_cache_command_validation_cache_ttl_secs x))),
      (''enabled'', JBool (cfg_cache_enabled x)),
      (''file_read_cache_ttl_secs'', JInt (int (cfg_cache_file_read_cache_ttl_secs x))),
      (''git_context_cache_ttl_secs'', JInt (int (cfg_cache_git_context_cache_ttl_secs x))),
      (''max_total_cache_bytes'', JInt (int (cfg_cache_max_total_cache_bytes x))),
      (''project_metadata_cache_ttl_secs'', JInt (int (cfg_cache_project_metadata_cache_ttl_secs x))),
      (''retrieval_cache_ttl_secs'', JInt (int (cfg_cache_retrieval_cache_ttl_secs x))),
      (''web_cache_ttl_secs'', JInt (int (cfg_cache_web_cache_ttl_secs x)))]"

definition source_ledger_json :: "source_ledger_settings \<Rightarrow> json" where
  "source_ledger_json x = JObj
     [(''enabled'', JBool (cfg_source_ledger_enabled x)),
      (''expose_on_status'', JBool (cfg_source_ledger_expose_on_status x)),
      (''include_in_debug_logs'', JBool (cfg_source_ledger_include_in_debug_logs x)),
      (''max_refs_on_status'', JInt (int (cfg_source_ledger_max_refs_on_status x)))]"

definition debug_json :: "debug_settings \<Rightarrow> json" where
  "debug_json x = JObj
     [(''retrieval_trace_dir'', JStr (cfg_debug_retrieval_trace_dir x)),
      (''retrieval_trace_enabled'', JBool (cfg_debug_retrieval_trace_enabled x)),
      (''retrieval_trace_max_files'', JInt (int (cfg_debug_retrieval_trace_max_files x)))]"

definition prompt_json :: "prompt_settings \<Rightarrow> json" where
  "prompt_json x = JObj
     [(''indicator'', JStr (cfg_prompt_indicator x)),
      (''session_indicator'', JStr (cfg_prompt_session_indicator x)),
      (''use_color'', JBool (cfg_prompt_use_color x))]"

definition session_json :: "session_settings \<Rightarrow> json" where
  "session_json x = JObj
     [(''context_window_tokens'', JInt (int (cfg_session_context_window_tokens x)))]"

definition settings_json :: "settings \<Rightarrow> json" where
  "settings_json x = JObj
     [(''approval'', approval_json (cfg_approval x)),
      (''behavior'', behavior_json (cfg_behavior x)),
      (''cache'', cache_json (cfg_cache x)),
      (''capture'', capture_json (cfg_capture x)),
      (''context_budget'', context_budget_json (cfg_context_budget x)),
      (''daemon'', daemon_json (cfg_daemon x)),
      (''debug'', debug_json (cfg_debug x)),
      (''git_context'', git_context_json (cfg_git_context x)),
      (''indexer'', indexer_json (cfg_indexer x)),
      (''inference'', inference_json (cfg_inference x)),
      (''local_tools'', local_tools_json (cfg_local_tools x)),
      (''logging'', logging_json (cfg_logging x)),
      (''model'', model_json (cfg_model x)),
      (''ollama'', ollama_json (cfg_ollama x)),
      (''performance'', performance_json (cfg_performance x)),
      (''project_metadata'', project_metadata_json (cfg_project_metadata x)),
      (''prompt'', prompt_json (cfg_prompt x)),
      (''session'', session_json (cfg_session x)),
      (''source_ledger'', source_ledger_json (cfg_source_ledger x)),
      (''terminal_context'', terminal_context_json (cfg_terminal_context x)),
      (''tool_routing'', tool_routing_json (cfg_tool_routing x)),
      (''web'', web_json (cfg_web x))]"

section \<open>Defaults\<close>

definition web_extract_default :: web_extract_settings where
  "web_extract_default =
     \<lparr>cfg_web_extract_strategy = ''auto'',
      cfg_web_extract_output_format = ''markdown'',
      cfg_web_extract_include_images = False,
      cfg_web_extract_include_links = True,
      cfg_web_extract_include_tables = True,
      cfg_web_extract_max_table_rows = 20,
      cfg_web_extract_max_table_cols = 6,
      cfg_web_extract_preserve_code_blocks = True,
      cfg_web_extract_strip_tracking_params = True,
      cfg_web_extract_max_html_bytes = 1048576,
      cfg_web_extract_max_markdown_bytes = 65536,
      cfg_web_extract_min_extracted_chars = 400,
      cfg_web_extract_dedupe_boilerplate = True\<rparr>"

definition text_detection_default :: text_detection_settings where
  "text_detection_default =
     \<lparr>cfg_text_detection_mode = ''content'',
      cfg_text_detection_sample_bytes = 8192,
      cfg_text_detection_reject_nul_bytes = True,
      cfg_text_detection_accepted_encodings = [''utf-8'', ''utf-16le'', ''utf-16be''],
      cfg_text_detection_deny_binary_magic = True\<rparr>"

definition inference_default :: inference_settings where
  "inference_default =
     \<lparr>cfg_inference_provider = ''local'',
      cfg_inference_tool_calling_required = True,
      cfg_inference_stream = True,
      cfg_inference_token_idle_timeout_secs = 30,
      cfg_inference_startup_failure_behavior = ''fail''\<rparr>"

definition performance_default :: performance_settings where
  "performance_default =
     \<lparr>cfg_performance_profile = ''performance'',
      cfg_performance_warm_core_on_start = True,
      cfg_performance_keep_embedding_warm = True,
      cfg_performance_prewarm_common_docs = True,
      cfg_performance_indexer_priority_mode = ''usage'',
      cfg_performance_max_background_cpu_pct = 200\<rparr>"

definition model_default :: model_settings where
  "model_default =
     \<lparr>cfg_model_variant = ''E4B'',
      cfg_model_auto_download = True,
      cfg_model_download_only_selected_variant = True,
      cfg_model_models_dir = ''~/.local/share/termlm/models'',
      cfg_model_e4b_filename = ''gemma-4-E4B-it-Q4_K_M.gguf'',
      cfg_model_e2b_filename = ''gemma-4-E2B-it-Q4_K_M.gguf'',
      cfg_model_context_tokens = 8192,
      cfg_model_gpu_layers = - 1,
      cfg_model_threads = 0\<rparr>"

definition ollama_default :: ollama_settings where
  "ollama_default =
     \<lparr>cfg_ollama_endpoint = ''http://127.0.0.1:11434'',
      cfg_ollama_model = ''gemma4:e4b'',
      cfg_ollama_options = [],
      cfg_ollama_keep_alive = ''5m'',
      cfg_ollama_request_timeout_secs = 300,
      cfg_ollama_connect_timeout_secs = 3,
      cfg_ollama_allow_remote = False,
      cfg_ollama_allow_plain_http_remote = False,
      cfg_ollama_healthcheck_on_start = True\<rparr>"

definition web_default :: web_settings where
  "web_default =
     \<lparr>cfg_web_enabled = True,
      cfg_web_expose_tools = True,
      cfg_web_provider = ''duckduckgo_html'',
      cfg_web_search_endpoint = [],
      cfg_web_search_api_key_env = [],
      cfg_web_user_agent = ''termlm/0.1 (+https://github.com/thtmnisamnstr/termlm)'',
      cfg_web_request_timeout_secs = 10,
      cfg_web_connect_timeout_secs = 3,
      cfg_web_max_results = 8,
      cfg_web_max_fetch_bytes = 2 * 1024 * 1024,
      cfg_web_max_pages_per_task = 5,
      cfg_web_cache_ttl_secs = 900,
      cfg_web_cache_max_bytes = 50 * 1024 * 1024,
      cfg_web_allowed_schemes = [''https''],
      cfg_web_allow_plain_http = False,
      cfg_web_allow_local_addresses = False,
      cfg_web_obey_robots_txt = True,
      cfg_web_citation_required = True,
      cfg_web_freshness_required_terms = [''latest'', ''current'', ''today'', ''now'', ''recent'', ''new'', ''release'',
        ''version''],
      cfg_web_min_delay_between_requests_ms = 1500,
      cfg_web_search_cache_ttl_secs = 900,
      cfg_web_extract = web_extract_default\<rparr>"

definition approval_default :: approval_settings where
  "approval_default =
     \<lparr>cfg_approval_mode = ''manual'',
      cfg_approval_critical_patterns = [raw ''^%s*sudo%b'', raw ''%brm%s+-[a-zA-Z]*r'',
        raw ''%bgit%s+(push%s+--force|push%s+-f|reset%s+--hard|clean%s+-fdx)'',
        raw ''%b(curl|wget)%b.*%|%s*(sh|bash|zsh)'', raw ''>%s*/dev/(disk|sd|nvme|rdisk)'',
        raw ''%bchmod%s+(-R%s+)?777%b'', raw ''%bchown%s+-R%b'',
        raw ''%bmv%s+.*%s+/dev/null%b'', raw ''%bdrop%s+(table|database)%b'',
        raw ''%bkillall?%b'', raw ''%bdocker%s+system%s+prune'',
        raw ''%bbrew%s+uninstall%s+--force''],
      cfg_approval_approve_all_resets_per_task = True\<rparr>"

definition behavior_default :: behavior_settings where
  "behavior_default =
     \<lparr>cfg_behavior_thinking = False,
      cfg_behavior_allow_clarifications = True,
      cfg_behavior_max_tool_rounds = 8,
      cfg_behavior_max_planning_rounds = 3,
      cfg_behavior_context_classifier_enabled = True,
      cfg_behavior_clarification_timeout_secs = 120,
      cfg_behavior_command_timeout_secs = 300\<rparr>"

definition daemon_default :: daemon_settings where
  "daemon_default =
     \<lparr>cfg_daemon_socket_path = ''$XDG_RUNTIME_DIR/termlm.sock'',
      cfg_daemon_pid_file = ''$XDG_RUNTIME_DIR/termlm.pid'',
      cfg_daemon_log_file = ''~/.local/state/termlm/termlm.log'',
      cfg_daemon_log_level = ''info'',
      cfg_daemon_shutdown_grace_secs = 5,
      cfg_daemon_boot_timeout_secs = 60\<rparr>"

definition logging_default :: logging_settings where
  "logging_default =
     \<lparr>cfg_logging_redact_critical = True\<rparr>"

definition indexer_default :: indexer_settings where
  "indexer_default =
     \<lparr>cfg_indexer_enabled = True,
      cfg_indexer_concurrency = 8,
      cfg_indexer_max_loadavg = 4,
      cfg_indexer_max_doc_bytes = 262144,
      cfg_indexer_max_binaries = 10000,
      cfg_indexer_max_chunks = 100000,
      cfg_indexer_chunk_max_tokens = 512,
      cfg_indexer_cheatsheet_static_count = 150,
      cfg_indexer_rag_top_k = 5,
      cfg_indexer_rag_min_similarity = 3 / 10,
      cfg_indexer_rag_max_tokens = 3000,
      cfg_indexer_lookup_max_bytes = 8192,
      cfg_indexer_hybrid_retrieval_enabled = True,
      cfg_indexer_lexical_index_enabled = True,
      cfg_indexer_lexical_top_k = 50,
      cfg_indexer_exact_command_boost = 2,
      cfg_indexer_exact_flag_boost = 1,
      cfg_indexer_section_boost_options = 1 / 4,
      cfg_indexer_command_aware_retrieval = True,
      cfg_indexer_command_aware_top_k = 8,
      cfg_indexer_validate_command_flags = True,
      cfg_indexer_embedding_provider = ''local'',
      cfg_indexer_query_embedding_timeout_secs = 4,
      cfg_indexer_embed_filename = ''bge-small-en-v1.5.Q4_K_M.gguf'',
      cfg_indexer_embed_dim = 384,
      cfg_indexer_embed_query_prefix = ''Represent this sentence for searching relevant passages: '',
      cfg_indexer_embed_doc_prefix = [],
      cfg_indexer_ollama_embed_model = ''nomic-embed-text'',
      cfg_indexer_extra_paths = [],
      cfg_indexer_ignore_paths = [],
      cfg_indexer_fsevents_debounce_ms = 500,
      cfg_indexer_disk_write_coalesce_secs = 30,
      cfg_indexer_vector_storage = ''f16'',
      cfg_indexer_lexical_index_impl = ''embedded'',
      cfg_indexer_priority_indexing = True,
      cfg_indexer_priority_recent_commands = True,
      cfg_indexer_priority_prompt_commands = True,
      cfg_indexer_cache_retrieval_results = True\<rparr>"

definition capture_default :: capture_settings where
  "capture_default =
     \<lparr>cfg_capture_enabled = True,
      cfg_capture_max_bytes = 16384,
      cfg_capture_redact_env = [''AWS_SECRET_ACCESS_KEY'', ''GITHUB_TOKEN'', ''OPENAI_API_KEY'']\<rparr>"

definition terminal_context_default :: terminal_context_settings where
  "terminal_context_default =
     \<lparr>cfg_terminal_context_enabled = True,
      cfg_terminal_context_capture_all_interactive_commands = True,
      cfg_terminal_context_capture_command_output = False,
      cfg_terminal_context_max_entries = 50,
      cfg_terminal_context_max_output_bytes_per_command = 32768,
      cfg_terminal_context_recent_context_max_tokens = 6000,
      cfg_terminal_context_older_context_max_tokens = 4000,
      cfg_terminal_context_redact_secrets = True,
      cfg_terminal_context_exclude_tui_commands = True,
      cfg_terminal_context_exclude_command_patterns = [raw ''^%s*(env|printenv)(%s|$)'', raw ''^%s*security%s+find-.*password'',
        raw ''^%s*(op|pass)%s+.*(show|get)'',
        raw ''^%s*gcloud%s+auth%s+print-access-token'', raw ''^%s*aws%s+configure%s+get'']\<rparr>"

definition local_tools_default :: local_tools_settings where
  "local_tools_default =
     \<lparr>cfg_local_tools_enabled = True,
      cfg_local_tools_readonly_command_enabled = True,
      cfg_local_tools_readonly_command_timeout_secs = 3,
      cfg_local_tools_readonly_command_max_output_bytes = 32768,
      cfg_local_tools_redact_secrets = True,
      cfg_local_tools_default_max_bytes = 65536,
      cfg_local_tools_max_file_bytes = 1048576,
      cfg_local_tools_max_search_results = 100,
      cfg_local_tools_max_search_files = 20000,
      cfg_local_tools_max_workspace_entries = 500,
      cfg_local_tools_respect_gitignore = True,
      cfg_local_tools_workspace_markers = [],
      cfg_local_tools_allow_home_as_workspace = False,
      cfg_local_tools_allow_system_dirs = False,
      cfg_local_tools_sensitive_path_allowlist = [],
      cfg_local_tools_include_hidden_by_default = False,
      cfg_local_tools_text_detection = text_detection_default\<rparr>"

definition git_context_default :: git_context_settings where
  "git_context_default =
     \<lparr>cfg_git_context_enabled = True,
      cfg_git_context_max_changed_files = 200,
      cfg_git_context_max_recent_commits = 10,
      cfg_git_context_include_diff_summary = True,
      cfg_git_context_max_diff_bytes = 12000\<rparr>"

definition project_metadata_default :: project_metadata_settings where
  "project_metadata_default =
     \<lparr>cfg_project_metadata_enabled = True,
      cfg_project_metadata_max_files_read = 50,
      cfg_project_metadata_max_bytes_per_file = 65536,
      cfg_project_metadata_detect_scripts = True,
      cfg_project_metadata_detect_package_managers = True,
      cfg_project_metadata_detect_ci = True\<rparr>"

definition tool_routing_default :: tool_routing_settings where
  "tool_routing_default =
     \<lparr>cfg_tool_routing_dynamic_exposure_enabled = True,
      cfg_tool_routing_always_expose_execute = True,
      cfg_tool_routing_always_expose_lookup_docs = True,
      cfg_tool_routing_expose_web_only_when_needed = True,
      cfg_tool_routing_expose_terminal_context_only_when_needed = True,
      cfg_tool_routing_expose_file_tools_for_local_questions = True\<rparr>"

definition context_budget_default :: context_budget_settings where
  "context_budget_default =
     \<lparr>cfg_context_budget_enabled = True,
      cfg_context_budget_max_total_context_tokens = 8192,
      cfg_context_budget_reserve_response_tokens = 1024,
      cfg_context_budget_current_question_tokens = 1024,
      cfg_context_budget_recent_terminal_tokens = 5000,
      cfg_context_budget_older_session_tokens = 2500,
      cfg_context_budget_local_tool_result_tokens = 5000,
      cfg_context_budget_project_git_metadata_tokens = 2500,
      cfg_context_budget_docs_rag_tokens = 3000,
      cfg_context_budget_web_result_tokens = 3000,
      cfg_context_budget_cheat_sheet_tokens = 5500,
      cfg_context_budget_trim_strategy = ''priority_newest_first''\<rparr>"

definition cache_default :: cache_settings where
  "cache_default =
     \<lparr>cfg_cache_enabled = True,
      cfg_cache_retrieval_cache_ttl_secs = 300,
      cfg_cache_command_validation_cache_ttl_secs = 300,
      cfg_cache_project_metadata_cache_ttl_secs = 60,
      cfg_cache_git_context_cache_ttl_secs = 10,
      cfg_cache_file_read_cache_ttl_secs = 30,
      cfg_cache_web_cache_ttl_secs = 900,
      cfg_cache_max_total_cache_bytes = 100 * 1024 * 1024\<rparr>"

definition source_ledger_default :: source_ledger_settings where
  "source_ledger_default =
     \<lparr>cfg_source_ledger_enabled = True,
      cfg_source_ledger_expose_on_status = True,
      cfg_source_ledger_include_in_debug_logs = True,
      cfg_source_ledger_max_refs_on_status = 32\<rparr>"

definition debug_default :: debug_settings where
  "debug_default =
     \<lparr>cfg_debug_retrieval_trace_enabled = False,
      cfg_debug_retrieval_trace_dir = ''~/.local/state/termlm/retrieval-traces'',
      cfg_debug_retrieval_trace_max_files = 25\<rparr>"

definition prompt_default :: prompt_settings where
  "prompt_default =
     \<lparr>cfg_prompt_indicator = [CHR 0xE2, CHR 0x97, CHR 0x8F, CHR 0x20, CHR 0x3F, CHR 0x20],
      cfg_prompt_session_indicator = [CHR 0xE2, CHR 0x97, CHR 0x8F, CHR 0x20, CHR 0x2F, CHR 0x70, CHR 0x20],
      cfg_prompt_use_color = True\<rparr>"

definition session_default :: session_settings where
  "session_default =
     \<lparr>cfg_session_context_window_tokens = 32000\<rparr>"

definition settings_default :: settings where
  "settings_default =
     \<lparr>cfg_inference = inference_default,
      cfg_performance = performance_default,
      cfg_model = model_default,
      cfg_ollama = ollama_default,
      cfg_web = web_default,
      cfg_approval = approval_default,
      cfg_behavior = behavior_default,
      cfg_daemon = daemon_default,
      cfg_logging = logging_default,
      cfg_indexer = indexer_default,
      cfg_capture = capture_default,
      cfg_terminal_context = terminal_context_default,
      cfg_local_tools = local_tools_default,
      cfg_git_context = git_context_default,
      cfg_project_metadata = project_metadata_default,
      cfg_tool_routing = tool_routing_default,
      cfg_context_budget = context_budget_default,
      cfg_cache = cache_default,
      cfg_source_ledger = source_ledger_default,
      cfg_debug = debug_default,
      cfg_prompt = prompt_default,
      cfg_session = session_default\<rparr>"

end
