(* ===== verification/Config_Checks.thy ===== *)
theory Config_Checks
  imports Config_Data
begin

text \<open>
  What \<open>load_or_create\<close> does with a configuration file: the unknown keys it warns about and
  \<open>validate\<close>. The TOML reader and the scheme of a parsed URL (\<open>url::Url\<close>) are parameters.
\<close>

section \<open>Validation\<close>

datatype config_error = InvalidEnum string string | InvalidValue string string

definition plain_env_name :: "string \<Rightarrow> bool" where
  "plain_env_name s \<longleftrightarrow> list_all (\<lambda>b. byte_alnum b \<or> b = CHR ''_'') s"

definition check_search_endpoint :: "(string \<Rightarrow> string option) \<Rightarrow> web_settings \<Rightarrow> config_error option" where
  "check_search_endpoint url_scheme web =
     (if trim (cfg_web_search_endpoint web) = [] then None
      else case url_scheme (trim (cfg_web_search_endpoint web)) of
             None \<Rightarrow> Some (InvalidValue ''web.search_endpoint'' ''must be a valid absolute URL'')
           | Some scheme \<Rightarrow>
               if scheme = ''https'' then None
               else if scheme = ''http'' \<and> cfg_web_allow_plain_http web then None
               else if scheme = ''http''
               then Some (InvalidValue ''web.search_endpoint'' ''http endpoint requires web.allow_plain_http=true'')
               else Some (InvalidValue ''web.search_endpoint'' ''unsupported URL scheme''))"

definition web_checks :: "(string \<Rightarrow> string option) \<Rightarrow> web_settings \<Rightarrow> config_error option list" where
  "web_checks url_scheme web =
     (let provider = cfg_web_provider web; env = cfg_web_search_api_key_env web; ex = cfg_web_extract web
      in [if provider \<in> {''duckduckgo_html'', ''custom_json'', ''brave'', ''kagi'', ''tavily'', ''whoogle'', ''none''}
            then None else Some (InvalidEnum ''web.provider'' provider),
          if provider = ''custom_json'' \<and> trim (cfg_web_search_endpoint web) = []
            then Some (InvalidValue ''web.search_endpoint'' (''must be set when web.provider is '' @ provider)) else None,
          if provider \<in> {''brave'', ''kagi'', ''tavily''} \<and> trim env = []
            then Some (InvalidValue ''web.search_api_key_env'' (''must be set when web.provider is '' @ provider)) else None,
          if trim env \<noteq> [] \<and> \<not> plain_env_name env
            then Some (InvalidValue ''web.search_api_key_env'' ''must be a valid environment variable name'') else None,
          check_search_endpoint url_scheme web,
          if list_ex (\<lambda>s. s \<notin> {''https'', ''http''}) (cfg_web_allowed_schemes web)
            then Some (InvalidValue ''web.allowed_schemes'' ''allowed values are http/https'') else None,
          if cfg_web_extract_output_format ex = ''markdown''
            then None else Some (InvalidEnum ''web.extract.output_format'' (cfg_web_extract_output_format ex)),
          if cfg_web_extract_strategy ex \<in> {''auto'', ''semantic_selector'', ''readability'', ''clean_full_page''}
            then None else Some (InvalidEnum ''web.extract.strategy'' (cfg_web_extract_strategy ex)),
          if cfg_web_extract_include_images ex
            then Some (InvalidValue ''web.extract.include_images''
                   ''v1 supports markdown extraction only; images must remain disabled'') else None,
          if cfg_web_extract_max_table_rows ex = 0 \<or> cfg_web_extract_max_table_cols ex = 0
            then Some (InvalidValue ''web.extract.max_table_rows/max_table_cols''
                   ''table row/column limits must be >= 1'') else None,
          if cfg_web_extract_max_markdown_bytes ex = 0 \<or> cfg_web_extract_max_html_bytes ex = 0
            then Some (InvalidValue ''web.extract.max_html_bytes/max_markdown_bytes''
                   ''extraction byte caps must be >= 1'') else None])"

definition enum_check :: "string \<Rightarrow> string list \<Rightarrow> string \<Rightarrow> config_error option" where
  "enum_check field allowed value = (if value \<in> set allowed then None else Some (InvalidEnum field value))"

definition value_check :: "string \<Rightarrow> string \<Rightarrow> bool \<Rightarrow> config_error option" where
  "value_check field reason bad = (if bad then Some (InvalidValue field reason) else None)"

definition front_checks :: "settings \<Rightarrow> config_error option list" where
  "front_checks cfg =
     [enum_check ''inference.provider'' [''local'', ''ollama''] (cfg_inference_provider (cfg_inference cfg)),
      enum_check ''inference.startup_failure_behavior'' [''fail'']
        (cfg_inference_startup_failure_behavior (cfg_inference cfg)),
      enum_check ''performance.profile'' [''eco'', ''balanced'', ''performance'']
        (cfg_performance_profile (cfg_performance cfg)),
      enum_check ''performance.indexer_priority_mode'' [''usage'', ''path_order'']
        (cfg_performance_indexer_priority_mode (cfg_performance cfg)),
      enum_check ''approval.mode'' [''manual'', ''manual_critical'', ''auto''] (cfg_approval_mode (cfg_approval cfg))]"

definition back_checks :: "settings \<Rightarrow> config_error option list" where
  "back_checks cfg =
     [enum_check ''indexer.vector_storage'' [''f16'', ''f32''] (cfg_indexer_vector_storage (cfg_indexer cfg)),
      enum_check ''indexer.embedding_provider'' [''local'', ''ollama''] (cfg_indexer_embedding_provider (cfg_indexer cfg)),
      value_check ''indexer.query_embedding_timeout_secs'' ''must be >= 1''
        (cfg_indexer_query_embedding_timeout_secs (cfg_indexer cfg) = 0),
      enum_check ''indexer.lexical_index_impl'' [''embedded''] (cfg_indexer_lexical_index_impl (cfg_indexer cfg)),
      enum_check ''context_budget.trim_strategy'' [''priority_newest_first'']
        (cfg_context_budget_trim_strategy (cfg_context_budget cfg)),
      enum_check ''local_tools.text_detection.mode'' [''content'', ''binary_magic'']
        (cfg_text_detection_mode (cfg_local_tools_text_detection (cfg_local_tools cfg))),
      value_check ''model.context_tokens'' ''must be > 0'' (cfg_model_context_tokens (cfg_model cfg) = 0),
      value_check ''debug.retrieval_trace_dir'' ''must be set when retrieval tracing is enabled''
        (cfg_debug_retrieval_trace_enabled (cfg_debug cfg)
         \<and> trim (cfg_debug_retrieval_trace_dir (cfg_debug cfg)) = [])]"

text \<open>The checks return at the first error.\<close>

fun first_error :: "config_error option list \<Rightarrow> config_error + unit" where
  "first_error [] = Inr ()"
| "first_error (Some e # cs) = Inl e"
| "first_error (None # cs) = first_error cs"

definition validate_settings :: "(string \<Rightarrow> string option) \<Rightarrow> settings \<Rightarrow> config_error + unit" where
  "validate_settings url_scheme cfg =
     first_error (front_checks cfg @ web_checks url_scheme (cfg_web cfg) @ back_checks cfg)"

section \<open>Unknown keys\<close>

definition key_path :: "string \<Rightarrow> string \<Rightarrow> string" where
  "key_path pre key = (if pre = [] then key else pre @ ''.'' @ key)"

definition is_dynamic_key_path :: "string \<Rightarrow> bool" where
  "is_dynamic_key_path path \<longleftrightarrow>
     path = ''inference.options'' \<or> starts_with path ''inference.options.''
     \<or> path = ''ollama.options'' \<or> starts_with path ''ollama.options.''"

definition as_table :: "json \<Rightarrow> (string \<times> json) list option" where
  "as_table v = (case v of JObj t \<Rightarrow> Some t | _ \<Rightarrow> None)"

fun collect_unknown_keys :: "string \<Rightarrow> json \<Rightarrow> json \<Rightarrow> string list"
  and collect_unknown_table :: "string \<Rightarrow> (string \<times> json) list \<Rightarrow> json \<Rightarrow> string list" where
  "collect_unknown_keys path value schema =
     (case value of JObj table \<Rightarrow> collect_unknown_table path table schema | _ \<Rightarrow> [])"
| "collect_unknown_table path [] schema = []"
| "collect_unknown_table path ((key, nested) # table) schema =
     (let next_path = key_path path key
      in (if is_dynamic_key_path next_path then []
          else case Option.bind (as_table schema) (\<lambda>t. map_of t key) of
                 Some schema_nested \<Rightarrow> collect_unknown_keys next_path nested schema_nested
               | None \<Rightarrow> [''unknown config key: '' @ next_path])
         @ collect_unknown_table path table schema)"

definition warn_unknown_keys :: "json \<Rightarrow> string list" where
  "warn_unknown_keys value = collect_unknown_keys [] value (settings_json settings_default)"

datatype load_error = SchemaError | Invalid config_error

text \<open>\<open>load_or_create\<close> after the file is read as TOML; \<open>from_toml\<close> is serde's conversion.\<close>

definition load_settings ::
  "(string \<Rightarrow> string option) \<Rightarrow> (json \<Rightarrow> settings option) \<Rightarrow> json \<Rightarrow> load_error + settings \<times> string list" where
  "load_settings url_scheme from_toml value =
     (let warnings = warn_unknown_keys value
      in case from_toml value of
           None \<Rightarrow> Inl SchemaError
         | Some cfg \<Rightarrow>
             (case validate_settings url_scheme cfg of
                Inl e \<Rightarrow> Inl (Invalid e) | Inr _ \<Rightarrow> Inr (cfg, warnings)))"

section \<open>Reload classes\<close>

datatype reload_class = HotReload | RestartRequired

definition restart_required_prefixes :: "string list" where
  "restart_required_prefixes =
     [''model.'', ''inference.provider'', ''ollama.endpoint'', ''performance.profile'', ''indexer.embed_filename'',
      ''indexer.embed_dim'', ''indexer.vector_storage'', ''indexer.embedding_provider'',
      ''indexer.lexical_index_impl'', ''indexer.embed_query_prefix'', ''indexer.embed_doc_prefix'', ''web.provider'']"

definition reload_class_for_key :: "string \<Rightarrow> reload_class" where
  "reload_class_for_key path =
     (if list_ex (\<lambda>pre. path = pre \<or> starts_with path pre) restart_required_prefixes
      then RestartRequired else HotReload)"

end
