(* ===== verification/Config_Load.thy ===== *)
theory Config_Load
  imports Config_Checks
begin

text \<open>
  The configuration file of the first start: \<open>load_or_create\<close> writes the rendered defaults and reads
  them back.
\<close>

section \<open>The written default\<close>

declare collect_unknown_keys.simps [simp del]

lemma collect_table: "collect_unknown_keys path (JObj t) schema = collect_unknown_table path t schema"
  by (simp add: collect_unknown_keys.simps)

lemma collect_scalar [simp]:
  "collect_unknown_keys path (JBool b) schema = []" "collect_unknown_keys path (JInt i) schema = []"
  "collect_unknown_keys path (JFloat r) schema = []" "collect_unknown_keys path (JStr s) schema = []"
  "collect_unknown_keys path (JArr xs) schema = []"
  by (simp_all add: collect_unknown_keys.simps)

lemmas known_key_simps = collect_table key_path_def is_dynamic_key_path_def as_table_def

lemma known_web_extract: "collect_unknown_keys ''web.extract'' (web_extract_json x) (web_extract_json y) = []"
  unfolding web_extract_json_def by (simp add: known_key_simps)

lemma known_text_detection: "collect_unknown_keys ''local_tools.text_detection'' (text_detection_json x) (text_detection_json y) = []"
  unfolding text_detection_json_def by (simp add: known_key_simps)

lemma known_inference: "collect_unknown_keys ''inference'' (inference_json x) (inference_json y) = []"
  unfolding inference_json_def by (simp add: known_key_simps)

lemma known_performance: "collect_unknown_keys ''performance'' (performance_json x) (performance_json y) = []"
  unfolding performance_json_def by (simp add: known_key_simps)

lemma known_model: "collect_unknown_keys ''model'' (model_json x) (model_json y) = []"
  unfolding model_json_def by (simp add: known_key_simps)

lemma known_ollama: "collect_unknown_keys ''ollama'' (ollama_json x) (ollama_json y) = []"
  unfolding ollama_json_def by (simp add: known_key_simps)

lemma known_web: "collect_unknown_keys ''web'' (web_json x) (web_json y) = []"
  unfolding web_json_def by (simp add: known_key_simps known_web_extract)

lemma known_approval: "collect_unknown_keys ''approval'' (approval_json x) (approval_json y) = []"
  unfolding approval_json_def by (simp add: known_key_simps)

lemma known_behavior: "collect_unknown_keys ''behavior'' (behavior_json x) (behavior_json y) = []"
  unfolding behavior_json_def by (simp add: known_key_simps)

lemma known_daemon: "collect_unknown_keys ''daemon'' (daemon_json x) (daemon_json y) = []"
  unfolding daemon_json_def by (simp add: known_key_simps)

lemma known_logging: "collect_unknown_keys ''logging'' (logging_json x) (logging_json y) = []"
  unfolding logging_json_def by (simp add: known_key_simps)

lemma known_indexer: "collect_unknown_keys ''indexer'' (indexer_json x) (indexer_json y) = []"
  unfolding indexer_json_def by (simp add: known_key_simps)

lemma known_capture: "collect_unknown_keys ''capture'' (capture_json x) (capture_json y) = []"
  unfolding capture_json_def by (simp add: known_key_simps)

lemma known_terminal_context: "collect_unknown_keys ''terminal_context'' (terminal_context_json x) (terminal_context_json y) = []"
  unfolding terminal_context_json_def by (simp add: known_key_simps)

lemma known_local_tools: "collect_unknown_keys ''local_tools'' (local_tools_json x) (local_tools_json y) = []"
  unfolding local_tools_json_def by (simp add: known_key_simps known_text_detection)

lemma known_git_context: "collect_unknown_keys ''git_context'' (git_context_json x) (git_context_json y) = []"
  unfolding git_context_json_def by (simp add: known_key_simps)

lemma known_project_metadata: "collect_unknown_keys ''project_metadata'' (project_metadata_json x) (project_metadata_json y) = []"
  unfolding project_metadata_json_def by (simp add: known_key_simps)

lemma known_tool_routing: "collect_unknown_keys ''tool_routing'' (tool_routing_json x) (tool_routing_json y) = []"
  unfolding tool_routing_json_def by (simp add: known_key_simps)

lemma known_context_budget: "collect_unknown_keys ''context_budget'' (context_budget_json x) (context_budget_json y) = []"
  unfolding context_budget_json_def by (simp add: known_key_simps)

lemma known_cache: "collect_unknown_keys ''cache'' (cache_json x) (cache_json y) = []"
  unfolding cache_json_def by (simp add: known_key_simps)

lemma known_source_ledger: "collect_unknown_keys ''source_ledger'' (source_ledger_json x) (source_ledger_json y) = []"
  unfolding source_ledger_json_def by (simp add: known_key_simps)

lemma known_debug: "collect_unknown_keys ''debug'' (debug_json x) (debug_json y) = []"
  unfolding debug_json_def by (simp add: known_key_simps)

lemma known_prompt: "collect_unknown_keys ''prompt'' (prompt_json x) (prompt_json y) = []"
  unfolding prompt_json_def by (simp add: known_key_simps)

lemma known_session: "collect_unknown_keys ''session'' (session_json x) (session_json y) = []"
  unfolding session_json_def by (simp add: known_key_simps)

lemma known_keys_not_warned: "warn_unknown_keys (settings_json cfg) = []"
  unfolding warn_unknown_keys_def settings_json_def
  by (simp add: known_key_simps known_web known_approval known_behavior known_daemon known_logging known_indexer known_capture
      known_terminal_context known_local_tools known_git_context known_project_metadata known_tool_routing known_context_budget
      known_cache known_source_ledger known_debug known_prompt known_session known_inference known_performance known_model
      known_ollama)

lemma default_validates: "validate_settings url_scheme settings_default = Inr ()"
  by (simp add: validate_settings_def front_checks_def web_checks_def back_checks_def enum_check_def value_check_def
      settings_default_def inference_default_def performance_default_def approval_default_def web_default_def
      web_extract_default_def indexer_default_def context_budget_default_def local_tools_default_def
      text_detection_default_def model_default_def debug_default_def check_search_endpoint_def Let_def)

text \<open>The configuration file that the first start writes loads back: the defaults pass the validation
  and none of their keys is reported as unknown; more generally no key that the configuration renders
  is ever reported.\<close>

theorem written_default_loads:
  assumes "from_toml (settings_json settings_default) = Some settings_default"
  shows "load_settings url_scheme from_toml (settings_json settings_default) = Inr (settings_default, [])
     \<and> warn_unknown_keys (settings_json cfg) = []"
  using assms by (simp add: load_settings_def known_keys_not_warned default_validates Let_def)

lemma written_default_loads_witness:
  "load_settings (\<lambda>_. None) (\<lambda>_. Some settings_default) (settings_json settings_default) = Inr (settings_default, [])
     \<and> warn_unknown_keys (settings_json settings_default) = []"
  by (rule written_default_loads) simp

end
