(* ===== verification/Caches.thy ===== *)
theory Caches
  imports Protocol Byte_Codec
begin

text \<open>
  The caches of the daemon: \<open>WebCache\<close> (\<open>crates/termlm-web/src/cache.rs\<close>), which keeps the most recently
  used bodies within a byte budget, and \<open>TimedCache\<close> (\<open>crates/termlm-core/src/cache/mod.rs\<close>). Times
  are in nanoseconds. \<open>Duration::seconds\<close> panics outside the range of its milliseconds; a panic is
  \<open>None\<close>.
\<close>

section \<open>The web cache\<close>

record cache_entry =
  ce_body :: string
  ce_size_bytes :: nat
  ce_created_at :: int

record web_cache =
  wc_entries :: "(string \<times> cache_entry) list"
  wc_order :: "string list"
  wc_max_bytes :: nat
  wc_total_bytes :: nat
  wc_ttl_secs :: int

definition web_cache_new :: "nat \<Rightarrow> u64 \<Rightarrow> web_cache" where
  "web_cache_new max_bytes ttl_secs =
     \<lparr>wc_entries = [], wc_order = [], wc_max_bytes = max_bytes, wc_total_bytes = 0, wc_ttl_secs = sint ttl_secs\<rparr>"

definition duration_seconds :: "int \<Rightarrow> int option" where
  "duration_seconds secs = (if \<bar>secs\<bar> \<le> (2 ^ 63 - 1) div 1000 then Some (secs * 1000000000) else None)"

definition web_cache_remove :: "string \<Rightarrow> web_cache \<Rightarrow> web_cache" where
  "web_cache_remove key c =
     (let c1 = c\<lparr>wc_order := filter (\<lambda>k. k \<noteq> key) (wc_order c)\<rparr>
      in case map_of (wc_entries c1) key of
           None \<Rightarrow> c1
         | Some old \<Rightarrow> c1\<lparr>wc_entries := kv_remove key (wc_entries c1),
                         wc_total_bytes := wc_total_bytes c1 - ce_size_bytes old\<rparr>)"

definition web_cache_touch :: "string \<Rightarrow> web_cache \<Rightarrow> web_cache" where
  "web_cache_touch key c = c\<lparr>wc_order := filter (\<lambda>k. k \<noteq> key) (wc_order c) @ [key]\<rparr>"

definition web_cache_get :: "int \<Rightarrow> string \<Rightarrow> web_cache \<Rightarrow> (string option \<times> web_cache) option" where
  "web_cache_get now key c =
     (case map_of (wc_entries c) key of
        None \<Rightarrow> Some (None, c)
      | Some e \<Rightarrow>
          (case duration_seconds (wc_ttl_secs c) of
             None \<Rightarrow> None
           | Some ttl \<Rightarrow>
               if ttl < now - ce_created_at e then Some (None, web_cache_remove key c)
               else Some (Some (ce_body e), web_cache_touch key c)))"

lemma remove_order [simp]: "wc_order (web_cache_remove k c) = filter (\<lambda>x. x \<noteq> k) (wc_order c)"
  by (simp add: web_cache_remove_def Let_def split: option.split)

text \<open>The loop of \<open>insert\<close> that pops the least recently used keys.\<close>

function web_cache_evict :: "web_cache \<Rightarrow> web_cache" where
  "web_cache_evict c =
     (if wc_max_bytes c < wc_total_bytes c
      then (case wc_order c of
              [] \<Rightarrow> c
            | k # ks \<Rightarrow> web_cache_evict (web_cache_remove k (c\<lparr>wc_order := ks\<rparr>)))
      else c)"
  by auto

termination
  by (relation "measure (\<lambda>c. length (wc_order c))") (auto simp: le_imp_less_Suc)

declare web_cache_evict.simps [simp del]

definition web_cache_insert :: "int \<Rightarrow> string \<Rightarrow> string \<Rightarrow> web_cache \<Rightarrow> web_cache" where
  "web_cache_insert now key body c =
     (let size = length body;
          c1 = c\<lparr>wc_order := filter (\<lambda>k. k \<noteq> key) (wc_order c)\<rparr>;
          c2 = (case map_of (wc_entries c1) key of
                  None \<Rightarrow> c1
                | Some old \<Rightarrow> c1\<lparr>wc_entries := kv_remove key (wc_entries c1),
                                wc_total_bytes := wc_total_bytes c1 - ce_size_bytes old\<rparr>);
          c3 = c2\<lparr>wc_entries := kv_insert key \<lparr>ce_body = body, ce_size_bytes = size, ce_created_at = now\<rparr> (wc_entries c2),
                  wc_order := wc_order c2 @ [key], wc_total_bytes := wc_total_bytes c2 + size\<rparr>
      in web_cache_evict c3)"

section \<open>The budget\<close>

definition cached_bytes :: "(string \<times> cache_entry) list \<Rightarrow> nat" where
  "cached_bytes entries = sum_list (map (\<lambda>kv. ce_size_bytes (snd kv)) entries)"

definition web_cache_ok :: "web_cache \<Rightarrow> bool" where
  "web_cache_ok c \<longleftrightarrow>
     kv_wf (wc_entries c) \<and> distinct (wc_order c) \<and> set (wc_order c) = fst ` set (wc_entries c)
     \<and> wc_total_bytes c = cached_bytes (wc_entries c)"

lemma cached_bytes_remove:
  assumes "kv_wf entries" "map_of entries key = Some e"
  shows "cached_bytes (kv_remove key entries) + ce_size_bytes e = cached_bytes entries"
  using assms
proof (induction entries)
  case Nil
  then show ?case by simp
next
  case (Cons kv entries)
  show ?case
  proof (cases "fst kv = key")
    case True
    then have "key \<notin> fst ` set entries" using Cons.prems(1) by auto
    then have "filter (\<lambda>kv. fst kv \<noteq> key) entries = entries" by (intro filter_True) auto
    then show ?thesis using True Cons.prems(2) by (cases kv) (simp add: cached_bytes_def kv_remove_def)
  next
    case False
    then have "cached_bytes (kv_remove key entries) + ce_size_bytes e = cached_bytes entries"
      using Cons by (cases kv) simp
    then show ?thesis using False by (simp add: cached_bytes_def kv_remove_def)
  qed
qed

lemma cached_bytes_insert_new:
  "map_of entries key = None \<Longrightarrow> cached_bytes (kv_insert key e entries) = cached_bytes entries + ce_size_bytes e"
  by (induction key e entries rule: kv_insert.induct) (auto simp: cached_bytes_def split: if_splits)

lemma keys_kv_remove: "fst ` set (kv_remove k kvs) = fst ` set kvs - {k}"
  by (auto simp: kv_remove_def)

lemma keys_insert: "fst ` set (kv_insert k v kvs) = insert k (fst ` set kvs)"
  using keys_kv_insert [of k v kvs] by simp

lemma web_cache_ok_new: "web_cache_ok (web_cache_new max_bytes ttl)"
  by (simp add: web_cache_ok_def web_cache_new_def cached_bytes_def)

text \<open>\<open>remove\<close> also repairs a cache whose key has already been popped from the order.\<close>

lemma remove_ok:
  assumes "kv_wf (wc_entries c)" "distinct (wc_order c)" "wc_total_bytes c = cached_bytes (wc_entries c)"
    and "set (wc_order c) - {key} = fst ` set (wc_entries c) - {key}"
  shows "web_cache_ok (web_cache_remove key c)"
proof (cases "map_of (wc_entries c) key")
  case None
  then have "key \<notin> fst ` set (wc_entries c)" by (simp add: map_of_eq_None_iff)
  then show ?thesis using assms None by (auto simp: web_cache_ok_def web_cache_remove_def Let_def)
next
  case (Some e)
  have "cached_bytes (kv_remove key (wc_entries c)) + ce_size_bytes e = cached_bytes (wc_entries c)"
    by (rule cached_bytes_remove [OF assms(1) Some])
  then show ?thesis
    using assms Some by (auto simp: web_cache_ok_def web_cache_remove_def Let_def kv_wf_remove keys_kv_remove)
qed

lemma web_cache_get_ok:
  assumes "web_cache_ok c" "web_cache_get now key c = Some (r, c')"
  shows "web_cache_ok c'"
proof -
  have "web_cache_ok (web_cache_remove key c)"
    using assms(1) by (intro remove_ok) (simp_all add: web_cache_ok_def)
  moreover have "web_cache_ok (web_cache_touch key c)" if "map_of (wc_entries c) key = Some e" for e
    using assms(1) that by (auto simp: web_cache_ok_def web_cache_touch_def dest: map_of_SomeD intro: rev_image_eqI)
  ultimately show ?thesis
    using assms by (auto simp: web_cache_get_def split: option.splits if_splits)
qed

lemma evict_ok:
  "web_cache_ok c \<Longrightarrow> web_cache_ok (web_cache_evict c) \<and> wc_total_bytes (web_cache_evict c) \<le> wc_max_bytes c"
proof (induction c rule: web_cache_evict.induct)
  case (1 c)
  show ?case
  proof (cases "wc_max_bytes c < wc_total_bytes c")
    case False
    then show ?thesis using 1 by (simp add: web_cache_evict.simps [of c])
  next
    case True
    then obtain k ks where o: "wc_order c = k # ks"
      using 1(2) by (cases "wc_order c") (auto simp: web_cache_ok_def cached_bytes_def)
    let ?c = "web_cache_remove k (c\<lparr>wc_order := ks\<rparr>)"
    have "web_cache_ok ?c" using 1(2) o by (intro remove_ok) (auto simp: web_cache_ok_def)
    moreover have "wc_max_bytes ?c = wc_max_bytes c"
      by (simp add: web_cache_remove_def Let_def split: option.split)
    ultimately show ?thesis using 1(1) [OF True o] True o by (simp add: web_cache_evict.simps [of c])
  qed
qed

lemma web_cache_insert_ok:
  assumes "web_cache_ok c"
  shows "web_cache_ok (web_cache_insert now key body c)
     \<and> wc_total_bytes (web_cache_insert now key body c) \<le> wc_max_bytes c"
proof -
  let ?c1 = "web_cache_remove key c"
  let ?e = "\<lparr>ce_body = body, ce_size_bytes = length body, ce_created_at = now\<rparr>"
  let ?c3 = "?c1\<lparr>wc_entries := kv_insert key ?e (wc_entries ?c1), wc_order := wc_order ?c1 @ [key],
     wc_total_bytes := wc_total_bytes ?c1 + length body\<rparr>"
  have ok: "web_cache_ok ?c1" using assms by (intro remove_ok) (simp_all add: web_cache_ok_def)
  then have "key \<notin> fst ` set (wc_entries ?c1)" by (auto simp: web_cache_ok_def)
  then have "map_of (wc_entries ?c1) key = None" by (simp add: map_of_eq_None_iff)
  from cached_bytes_insert_new [OF this, of ?e] ok have "web_cache_ok ?c3"
    by (auto simp: web_cache_ok_def kv_wf_insert keys_insert)
  moreover have "web_cache_insert now key body c = web_cache_evict ?c3"
    by (simp add: web_cache_insert_def web_cache_remove_def Let_def)
  moreover have "wc_max_bytes ?c3 = wc_max_bytes c"
    by (simp add: web_cache_remove_def Let_def split: option.split)
  ultimately show ?thesis using evict_ok [of ?c3] by simp
qed

section \<open>Runs of the cache\<close>

datatype cache_op = CacheGet int string | CacheInsert int string string

definition cache_step :: "cache_op \<Rightarrow> web_cache \<Rightarrow> web_cache option" where
  "cache_step opn c =
     (case opn of
        CacheGet now key \<Rightarrow> map_option snd (web_cache_get now key c)
      | CacheInsert now key body \<Rightarrow> Some (web_cache_insert now key body c))"

definition within_budget :: "nat \<Rightarrow> web_cache \<Rightarrow> bool" where
  "within_budget budget c \<longleftrightarrow> web_cache_ok c \<and> wc_max_bytes c = budget \<and> wc_total_bytes c \<le> budget"

lemma evict_max [simp]: "wc_max_bytes (web_cache_evict c) = wc_max_bytes c"
proof (induction c rule: web_cache_evict.induct)
  case (1 c)
  have "wc_max_bytes (web_cache_remove k c) = wc_max_bytes c" for k c
    by (simp add: web_cache_remove_def Let_def split: option.split)
  then show ?case using 1 by (subst web_cache_evict.simps) (simp split: list.split)
qed

lemma insert_max [simp]: "wc_max_bytes (web_cache_insert now key body c) = wc_max_bytes c"
  by (simp add: web_cache_insert_def Let_def split: option.split)

lemma get_total:
  "web_cache_get now key c = Some (r, c') \<Longrightarrow> wc_max_bytes c' = wc_max_bytes c \<and> wc_total_bytes c' \<le> wc_total_bytes c"
  by (auto simp: web_cache_get_def web_cache_touch_def web_cache_remove_def Let_def split: option.splits if_splits)

interpretation web_cache_runs: transition_system cache_step "within_budget budget"
proof
  fix c opn c'
  assume "within_budget budget c" "cache_step opn c = Some c'"
  then show "within_budget budget c'"
    using web_cache_get_ok get_total web_cache_insert_ok
    by (cases opn) (fastforce simp: within_budget_def cache_step_def)+
qed

text \<open>In every run of lookups and insertions the web cache stays within its byte budget, its byte
  count is the sum of the sizes of its bodies, and its recency list holds exactly the stored keys,
  each once.\<close>

theorem web_cache_within_budget:
  assumes "run_events cache_step ops (web_cache_new max_bytes ttl) = Some c"
  shows "wc_total_bytes c = cached_bytes (wc_entries c) \<and> wc_total_bytes c \<le> max_bytes
     \<and> distinct (wc_order c) \<and> set (wc_order c) = fst ` set (wc_entries c)"
proof -
  have "within_budget max_bytes (web_cache_new max_bytes ttl)"
    using web_cache_ok_new by (simp add: within_budget_def web_cache_new_def)
  from web_cache_runs.run_inv [OF this assms] show ?thesis by (simp add: within_budget_def web_cache_ok_def)
qed

lemma web_cache_within_budget_witness:
  "\<exists>c. run_events cache_step [CacheInsert 0 ''a'' ''1234'', CacheGet 1 ''a'', CacheInsert 2 ''b'' ''123'']
         (web_cache_new 5 60) = Some c
     \<and> (wc_total_bytes c = cached_bytes (wc_entries c) \<and> wc_total_bytes c \<le> 5
        \<and> distinct (wc_order c) \<and> set (wc_order c) = fst ` set (wc_entries c))"
proof -
  obtain c where c: "run_events cache_step [CacheInsert 0 ''a'' ''1234'', CacheGet 1 ''a'', CacheInsert 2 ''b'' ''123'']
      (web_cache_new 5 60) = Some c"
    by (simp add: cache_step_def web_cache_get_def web_cache_insert_def web_cache_new_def web_cache_evict.simps
        duration_seconds_def web_cache_touch_def)
  then show ?thesis using web_cache_within_budget [OF c] by blast
qed

section \<open>Refinement of a recency list\<close>

text \<open>The specification: entries from the least to the most recently used.\<close>

type_synonym recency = "(string \<times> cache_entry) list"

fun lru_trim :: "nat \<Rightarrow> recency \<Rightarrow> recency" where
  "lru_trim budget [] = []"
| "lru_trim budget (x # xs) = (if cached_bytes (x # xs) \<le> budget then x # xs else lru_trim budget xs)"

definition lru_insert :: "nat \<Rightarrow> int \<Rightarrow> string \<Rightarrow> string \<Rightarrow> recency \<Rightarrow> recency" where
  "lru_insert budget now key body l =
     lru_trim budget (kv_remove key l @ [(key, \<lparr>ce_body = body, ce_size_bytes = length body, ce_created_at = now\<rparr>)])"

definition lru_get :: "int \<Rightarrow> int \<Rightarrow> string \<Rightarrow> recency \<Rightarrow> string option \<times> recency" where
  "lru_get ttl now key l =
     (case map_of l key of
        None \<Rightarrow> (None, l)
      | Some e \<Rightarrow> if ttl < now - ce_created_at e then (None, kv_remove key l)
                 else (Some (ce_body e), kv_remove key l @ [(key, e)]))"

definition recency_of :: "web_cache \<Rightarrow> recency" where
  "recency_of c = map (\<lambda>k. (k, the (map_of (wc_entries c) k))) (wc_order c)"

lemma fst_recency [simp]: "map fst (recency_of c) = wc_order c"
  by (simp add: recency_of_def comp_def)

lemma map_of_recency:
  assumes "web_cache_ok c"
  shows "map_of (recency_of c) k = map_of (wc_entries c) k"
proof (cases "k \<in> set (wc_order c)")
  case True
  then obtain e where "map_of (wc_entries c) k = Some e"
    using assms by (metis web_cache_ok_def map_of_eq_None_iff option.exhaust)
  then show ?thesis using True by (simp add: recency_of_def map_of_map_restrict)
next
  case False
  then have "map_of (recency_of c) k = None" "map_of (wc_entries c) k = None"
    using assms by (simp_all add: map_of_eq_None_iff web_cache_ok_def flip: set_map)
  then show ?thesis by simp
qed

lemma recency_of_remove: "recency_of (web_cache_remove k c) = kv_remove k (recency_of c)"
proof -
  have "kv_remove k (recency_of c)
      = map (\<lambda>x. (x, the (map_of (wc_entries c) x))) (filter (\<lambda>x. x \<noteq> k) (wc_order c))"
    by (simp add: recency_of_def kv_remove_def filter_map comp_def)
  then show ?thesis
    by (auto simp: recency_of_def web_cache_remove_def Let_def map_of_kv_remove split: option.split)
qed

lemma cached_bytes_sum:
  "kv_wf l \<Longrightarrow> cached_bytes l = (\<Sum>k \<in> fst ` set l. ce_size_bytes (the (map_of l k)))"
proof (induction l)
  case Nil
  then show ?case by (simp add: cached_bytes_def)
next
  case (Cons kv l)
  obtain k e where kv: "kv = (k, e)" by (cases kv)
  have n: "k \<notin> fst ` set l" using Cons.prems kv by simp
  then have "(\<Sum>x \<in> fst ` set l. ce_size_bytes (the (map_of (kv # l) x)))
      = (\<Sum>x \<in> fst ` set l. ce_size_bytes (the (map_of l x)))"
    by (intro sum.cong) (auto simp: kv)
  then show ?case using Cons n by (simp add: cached_bytes_def kv)
qed

lemma cached_bytes_recency: "web_cache_ok c \<Longrightarrow> cached_bytes (recency_of c) = wc_total_bytes c"
proof -
  assume ok: "web_cache_ok c"
  have "fst ` set (recency_of c) = fst ` set (wc_entries c)"
    using ok by (metis web_cache_ok_def fst_recency set_map)
  then show ?thesis
    using ok by (simp add: cached_bytes_sum [of "recency_of c"] cached_bytes_sum [of "wc_entries c"] map_of_recency
        web_cache_ok_def)
qed

lemma recency_of_evict:
  "web_cache_ok c \<Longrightarrow> recency_of (web_cache_evict c) = lru_trim (wc_max_bytes c) (recency_of c)"
proof (induction c rule: web_cache_evict.induct)
  case (1 c)
  note total = cached_bytes_recency [OF 1(2)]
  show ?case
  proof (cases "wc_max_bytes c < wc_total_bytes c")
    case False
    then show ?thesis using total by (cases "recency_of c") (simp_all add: web_cache_evict.simps [of c])
  next
    case True
    then obtain k ks where o: "wc_order c = k # ks"
      using 1(2) by (cases "wc_order c") (auto simp: web_cache_ok_def cached_bytes_def)
    let ?c = "web_cache_remove k (c\<lparr>wc_order := ks\<rparr>)"
    have ok: "web_cache_ok ?c" using 1(2) o by (intro remove_ok) (auto simp: web_cache_ok_def)
    have mx: "wc_max_bytes ?c = wc_max_bytes c"
      by (simp add: web_cache_remove_def Let_def split: option.split)
    have k: "k \<notin> set ks" using 1(2) o by (simp add: web_cache_ok_def)
    obtain e rest where r: "recency_of c = (k, e) # rest" "recency_of (c\<lparr>wc_order := ks\<rparr>) = rest"
      by (simp add: recency_of_def o)
    have "map fst rest = ks" using fst_recency [of "c\<lparr>wc_order := ks\<rparr>"] r(2) by simp
    then have "k \<notin> fst ` set rest" using k by (simp flip: set_map)
    then have "kv_remove k rest = rest" unfolding kv_remove_def by (intro filter_True) auto
    then have "recency_of ?c = rest" by (simp add: recency_of_remove r(2))
    then show ?thesis
      using 1(1) [OF True o ok] True o total mx r(1) by (simp add: web_cache_evict.simps [of c])
  qed
qed

text \<open>C20: The web cache refines a recency list: a lookup answers as the list does and moves a fresh entry
  to its end or drops a stale one, and an insertion replaces the entry of its key, puts it at the end
  and drops the fewest least recently used entries that bring the bodies within the budget.\<close>

theorem web_cache_refines_lru:
  assumes "web_cache_ok c" "duration_seconds (wc_ttl_secs c) = Some ttl"
  shows "map_option (\<lambda>(r, c'). (r, recency_of c')) (web_cache_get now key c) = Some (lru_get ttl now key (recency_of c))
     \<and> recency_of (web_cache_insert now key body c) = lru_insert (wc_max_bytes c) now key body (recency_of c)"
proof
  have "recency_of (web_cache_touch key c) = kv_remove key (recency_of c) @ [(key, e)]"
    if "map_of (wc_entries c) key = Some e" for e
    using that by (simp add: recency_of_def web_cache_touch_def kv_remove_def filter_map comp_def)
  then show "map_option (\<lambda>(r, c'). (r, recency_of c')) (web_cache_get now key c)
      = Some (lru_get ttl now key (recency_of c))"
    using assms by (simp add: web_cache_get_def lru_get_def map_of_recency recency_of_remove split: option.split)
next
  let ?c1 = "web_cache_remove key c"
  let ?e = "\<lparr>ce_body = body, ce_size_bytes = length body, ce_created_at = now\<rparr>"
  let ?c3 = "?c1\<lparr>wc_entries := kv_insert key ?e (wc_entries ?c1), wc_order := wc_order ?c1 @ [key],
     wc_total_bytes := wc_total_bytes ?c1 + length body\<rparr>"
  have ok: "web_cache_ok ?c1" using assms(1) by (intro remove_ok) (simp_all add: web_cache_ok_def)
  then have "key \<notin> fst ` set (wc_entries ?c1)" by (auto simp: web_cache_ok_def)
  then have "map_of (wc_entries ?c1) key = None" by (simp add: map_of_eq_None_iff)
  from cached_bytes_insert_new [OF this, of ?e] ok have ok3: "web_cache_ok ?c3"
    by (auto simp: web_cache_ok_def kv_wf_insert keys_insert)
  have "web_cache_insert now key body c = web_cache_evict ?c3"
    by (simp add: web_cache_insert_def web_cache_remove_def Let_def)
  moreover have "wc_max_bytes ?c3 = wc_max_bytes c"
    by (simp add: web_cache_remove_def Let_def split: option.split)
  moreover have "recency_of ?c3 = recency_of ?c1 @ [(key, ?e)]"
    by (auto simp: recency_of_def map_of_kv_insert)
  ultimately show "recency_of (web_cache_insert now key body c)
      = lru_insert (wc_max_bytes c) now key body (recency_of c)"
    using recency_of_evict [OF ok3] by (simp add: lru_insert_def recency_of_remove)
qed

lemma web_cache_refines_lru_witness:
  "map_option (\<lambda>(r, c'). (r, recency_of c')) (web_cache_get 5 ''a'' (web_cache_new 8 60))
     = Some (lru_get 60000000000 5 ''a'' (recency_of (web_cache_new 8 60)))
   \<and> recency_of (web_cache_insert 5 ''a'' ''body'' (web_cache_new 8 60))
     = lru_insert (wc_max_bytes (web_cache_new 8 60)) 5 ''a'' ''body'' (recency_of (web_cache_new 8 60))"
  by (rule web_cache_refines_lru [OF web_cache_ok_new]) (simp add: web_cache_new_def duration_seconds_def)

section \<open>The timed cache\<close>

record 'v timed_cache =
  tm_map :: "(string \<times> (int \<times> 'v)) list"
  tm_ttl :: int

definition timed_cache_new :: "int \<Rightarrow> 'v timed_cache" where
  "timed_cache_new ttl = \<lparr>tm_map = [], tm_ttl = ttl\<rparr>"

definition timed_cache_get :: "int \<Rightarrow> string \<Rightarrow> 'v timed_cache \<Rightarrow> 'v option \<times> 'v timed_cache" where
  "timed_cache_get now key c =
     (let fresh = (case map_of (tm_map c) key of
                     Some (at, v) \<Rightarrow> if now - at \<le> tm_ttl c then Some v else None | None \<Rightarrow> None)
      in case fresh of
           Some v \<Rightarrow> (Some v, c)
         | None \<Rightarrow> (None, c\<lparr>tm_map := kv_remove key (tm_map c)\<rparr>))"

definition timed_cache_insert :: "int \<Rightarrow> string \<Rightarrow> 'v \<Rightarrow> 'v timed_cache \<Rightarrow> 'v timed_cache" where
  "timed_cache_insert now key value c = c\<lparr>tm_map := kv_insert key (now, value) (tm_map c)\<rparr>"

datatype 'v timed_op = TimedGet int string | TimedInsert int string 'v

fun timed_apply :: "'v timed_op \<Rightarrow> 'v timed_cache \<Rightarrow> 'v timed_cache" where
  "timed_apply (TimedGet now key) c = snd (timed_cache_get now key c)"
| "timed_apply (TimedInsert now key v) c = timed_cache_insert now key v c"

text \<open>The specification reads the history only: the last insertion of the key, if it is fresh. Time
  never goes back, so an entry once stale stays stale.\<close>

fun last_insert :: "string \<Rightarrow> 'v timed_op list \<Rightarrow> (int \<times> 'v) option" where
  "last_insert key [] = None"
| "last_insert key (TimedGet now k # ops) = last_insert key ops"
| "last_insert key (TimedInsert now k v # ops) =
     (case last_insert key ops of Some r \<Rightarrow> Some r | None \<Rightarrow> if k = key then Some (now, v) else None)"

fun op_time :: "'v timed_op \<Rightarrow> int" where
  "op_time (TimedGet now key) = now"
| "op_time (TimedInsert now key v) = now"

definition spec_get :: "int \<Rightarrow> int \<Rightarrow> string \<Rightarrow> 'v timed_op list \<Rightarrow> 'v option" where
  "spec_get ttl now key ops =
     (case last_insert key ops of None \<Rightarrow> None | Some (at, v) \<Rightarrow> if now - at \<le> ttl then Some v else None)"

lemma last_insert_snoc:
  "last_insert key (ops @ [x]) =
     (case x of TimedInsert now k v \<Rightarrow> if k = key then Some (now, v) else last_insert key ops
      | TimedGet now k \<Rightarrow> last_insert key ops)"
proof (induction ops)
  case Nil
  then show ?case by (cases x) simp_all
next
  case (Cons y ops)
  then show ?case by (cases y) (auto split: timed_op.splits option.splits)
qed

lemma timed_ttl [simp]: "tm_ttl (timed_apply x c) = tm_ttl c"
  by (cases x) (simp_all add: timed_cache_get_def timed_cache_insert_def Let_def split: option.split)

lemma timed_run_ttl [simp]: "tm_ttl (fold timed_apply ops c) = tm_ttl c"
  by (induction ops arbitrary: c) simp_all

lemma timed_map_after:
  assumes "sorted (map op_time ops)" "\<forall>x \<in> set ops. op_time x \<le> now"
  shows "(case map_of (tm_map (fold timed_apply ops (timed_cache_new ttl))) key of
            Some (at, v) \<Rightarrow> if now - at \<le> ttl then Some v else None | None \<Rightarrow> None) = spec_get ttl now key ops"
  using assms
proof (induction ops arbitrary: now key rule: rev_induct)
  case Nil
  then show ?case by (simp add: timed_cache_new_def spec_get_def)
next
  case (snoc x ops)
  let ?c = "fold timed_apply ops (timed_cache_new ttl)"
  have ord: "sorted (map op_time ops)" "\<forall>y \<in> set ops. op_time y \<le> op_time x" "op_time x \<le> now"
    using snoc.prems by (auto simp: sorted_append)
  then have "\<forall>y \<in> set ops. op_time y \<le> now" by auto
  note IH = snoc.IH [OF ord(1) this] and IHx = snoc.IH [OF ord(1,2)]
  have t: "tm_ttl ?c = ttl" by (simp add: timed_cache_new_def)
  show ?case
  proof (cases x)
    case (TimedInsert at k v)
    then show ?thesis
      using IH [of key] by (auto simp: timed_cache_insert_def map_of_kv_insert spec_get_def last_insert_snoc)
  next
    case (TimedGet at k)
    have s: "spec_get ttl now key (ops @ [x]) = spec_get ttl now key ops"
      using TimedGet by (simp add: spec_get_def last_insert_snoc)
    have stale: "spec_get ttl now key ops = None" if "spec_get ttl at key ops = None"
      using that ord(3) TimedGet by (auto simp: spec_get_def split: option.splits if_splits)
    show ?thesis
      using IH [of key] IHx [of k] stale TimedGet t s
      by (auto simp: timed_cache_get_def Let_def map_of_kv_remove split: option.splits if_splits)
  qed
qed

text \<open>C23: The timed cache refines its history: after any run of lookups and insertions in the order of
  time, a lookup returns the value of the last insertion of its key if that is at most the time to
  live ago, and nothing otherwise.\<close>

theorem timed_cache_refines_history:
  assumes "sorted (map op_time ops)" "\<forall>x \<in> set ops. op_time x \<le> now"
  shows "fst (timed_cache_get now key (fold timed_apply ops (timed_cache_new ttl))) = spec_get ttl now key ops"
proof -
  let ?c = "fold timed_apply ops (timed_cache_new ttl)"
  have "tm_ttl ?c = ttl" by (simp add: timed_cache_new_def)
  then show ?thesis
    using timed_map_after [OF assms, of ttl key]
    by (auto simp: timed_cache_get_def Let_def split: option.splits if_splits)
qed

lemma timed_cache_refines_history_witness:
  "fst (timed_cache_get 9 ''k'' (fold timed_apply [TimedInsert 1 ''k'' True, TimedGet 3 ''k''] (timed_cache_new 5)))
     = spec_get 5 9 ''k'' [TimedInsert 1 ''k'' True, TimedGet 3 ''k'']"
  by (rule timed_cache_refines_history) simp_all

end
