(* ===== verification/Config_Reload.thy ===== *)
theory Config_Reload
  imports Config_Checks Caches "HOL-Library.Char_ord" "HOL-Library.List_Lexorder"
begin

text \<open>
  Reloading the configuration (\<open>reload_runtime_config\<close> in \<open>termlm-core/src/main.rs\<close>): the changed keys as
  paths into the two rendered trees, their reload classes, the fields kept until a restart, and the
  caches that are emptied.
\<close>

section \<open>Changed keys\<close>

definition object_keys :: "(string \<times> json) list \<Rightarrow> (string \<times> json) list \<Rightarrow> string list" where
  "object_keys a b = sort (remdups (map fst a @ map fst b))"

lemma size_map_of:
  "map_of a key = Some x \<Longrightarrow> size x < size_list (size_prod (\<lambda>_. 0) size) a"
  by (induction a) (auto split: if_splits)

function diff_json_paths :: "string \<Rightarrow> json \<Rightarrow> json \<Rightarrow> string list"
  and diff_json_keys :: "string \<Rightarrow> string list \<Rightarrow> (string \<times> json) list \<Rightarrow> (string \<times> json) list \<Rightarrow> string list" where
  "diff_json_paths pre old new =
     (case (old, new) of
        (JObj a, JObj b) \<Rightarrow> diff_json_keys pre (object_keys a b) a b
      | _ \<Rightarrow> if old \<noteq> new \<and> pre \<noteq> [] then [pre] else [])"
| "diff_json_keys pre [] a b = []"
| "diff_json_keys pre (key # keys) a b =
     (let path = key_path pre key
      in (case (map_of a key, map_of b key) of
            (Some x, Some y) \<Rightarrow> diff_json_paths path x y
          | _ \<Rightarrow> [path])
         @ diff_json_keys pre keys a b)"
  by pat_completeness auto

termination
  by (relation "measures
       [\<lambda>p. case p of Inl (_, old, _) \<Rightarrow> size old | Inr (_, _, a, _) \<Rightarrow> size (JObj a),
        \<lambda>p. case p of Inl _ \<Rightarrow> 1 | Inr _ \<Rightarrow> 0,
        \<lambda>p. case p of Inl _ \<Rightarrow> 0 | Inr (_, keys, _, _) \<Rightarrow> length keys]")
    (auto dest!: size_map_of [OF sym] intro: less_SucI)

declare diff_json_paths.simps [simp del] diff_json_keys.simps [simp del]

definition changed_config_keys :: "settings \<Rightarrow> settings \<Rightarrow> string list" where
  "changed_config_keys old new = diff_json_paths [] (settings_json old) (settings_json new)"

section \<open>Reloading\<close>

definition preserve_restart_required_fields :: "settings \<Rightarrow> settings \<Rightarrow> settings" where
  "preserve_restart_required_fields old new =
     new\<lparr>cfg_model := cfg_model old,
         cfg_inference := (cfg_inference new)\<lparr>cfg_inference_provider := cfg_inference_provider (cfg_inference old)\<rparr>,
         cfg_ollama := (cfg_ollama new)\<lparr>cfg_ollama_endpoint := cfg_ollama_endpoint (cfg_ollama old)\<rparr>,
         cfg_performance := (cfg_performance new)
           \<lparr>cfg_performance_profile := cfg_performance_profile (cfg_performance old)\<rparr>,
         cfg_indexer := (cfg_indexer new)
           \<lparr>cfg_indexer_embed_filename := cfg_indexer_embed_filename (cfg_indexer old),
            cfg_indexer_embed_dim := cfg_indexer_embed_dim (cfg_indexer old),
            cfg_indexer_vector_storage := cfg_indexer_vector_storage (cfg_indexer old),
            cfg_indexer_embedding_provider := cfg_indexer_embedding_provider (cfg_indexer old),
            cfg_indexer_lexical_index_impl := cfg_indexer_lexical_index_impl (cfg_indexer old),
            cfg_indexer_embed_query_prefix := cfg_indexer_embed_query_prefix (cfg_indexer old),
            cfg_indexer_embed_doc_prefix := cfg_indexer_embed_doc_prefix (cfg_indexer old)\<rparr>,
         cfg_web := (cfg_web new)\<lparr>cfg_web_provider := cfg_web_provider (cfg_web old)\<rparr>\<rparr>"

definition split_web_cache_bytes :: "nat \<Rightarrow> nat \<times> nat" where
  "split_web_cache_bytes total_bytes =
     (let total = max total_bytes (32 * 1024);
          search = max (total div 4) (16 * 1024);
          read = max (total - search) (16 * 1024)
      in (search, read))"

definition effective_web_cache_bytes :: "settings \<Rightarrow> nat" where
  "effective_web_cache_bytes cfg =
     (if \<not> cfg_cache_enabled (cfg_cache cfg) then 32 * 1024
      else min (cfg_web_cache_max_bytes (cfg_web cfg)) (max (cfg_cache_max_total_cache_bytes (cfg_cache cfg)) (32 * 1024)))"

definition effective_web_cache_ttls :: "settings \<Rightarrow> nat \<times> nat" where
  "effective_web_cache_ttls cfg =
     (if \<not> cfg_cache_enabled (cfg_cache cfg) then (0, 0)
      else let read_ttl = max (min (cfg_web_cache_ttl_secs (cfg_web cfg)) (cfg_cache_web_cache_ttl_secs (cfg_cache cfg))) 1;
               search_ttl = max (min (cfg_web_search_cache_ttl_secs (cfg_web cfg))
                                  (cfg_cache_web_cache_ttl_secs (cfg_cache cfg))) 1
           in (search_ttl, read_ttl))"

text \<open>The configuration and the caches of the daemon; the values of a timed cache do not matter here.
  A number of seconds is a \<open>u64\<close>.\<close>

record 'v runtime =
  rt_config :: settings
  rt_web_search_cache :: web_cache
  rt_web_read_cache :: web_cache
  rt_retrieval_cache :: "'v timed_cache"
  rt_command_validation_cache :: "'v timed_cache"
  rt_file_read_cache :: "'v timed_cache"
  rt_project_metadata_cache :: "'v timed_cache"
  rt_git_context_cache :: "'v timed_cache"

definition seconds :: "nat \<Rightarrow> int" where
  "seconds n = int n * 1000000000"

definition reset_caches :: "settings \<Rightarrow> 'v runtime \<Rightarrow> 'v runtime" where
  "reset_caches cfg rt =
     (let (search_bytes, read_bytes) = split_web_cache_bytes (effective_web_cache_bytes cfg);
          (search_ttl, read_ttl) = effective_web_cache_ttls cfg;
          timed = (\<lambda>ttl. timed_cache_new (seconds (max ttl 1)))
      in rt\<lparr>rt_web_search_cache := web_cache_new search_bytes (word_of_nat search_ttl),
            rt_web_read_cache := web_cache_new read_bytes (word_of_nat read_ttl),
            rt_retrieval_cache := timed (cfg_cache_retrieval_cache_ttl_secs (cfg_cache cfg)),
            rt_command_validation_cache := timed (cfg_cache_command_validation_cache_ttl_secs (cfg_cache cfg)),
            rt_file_read_cache := timed (cfg_cache_file_read_cache_ttl_secs (cfg_cache cfg)),
            rt_project_metadata_cache := timed (cfg_cache_project_metadata_cache_ttl_secs (cfg_cache cfg)),
            rt_git_context_cache := timed (cfg_cache_git_context_cache_ttl_secs (cfg_cache cfg))\<rparr>)"

datatype reload_result =
    LoadFailed load_error
  | Unchanged
  | ProviderFailed
  | Reloaded "string list" "string list"

text \<open>\<open>loaded\<close> is the outcome of \<open>load_or_create\<close>, \<open>apply\<close> whether the provider takes the configuration.\<close>

definition reload_runtime_config ::
  "(load_error + settings) \<Rightarrow> (settings \<Rightarrow> bool) \<Rightarrow> 'v runtime \<Rightarrow> reload_result \<times> 'v runtime" where
  "reload_runtime_config loaded apply_runtime_config rt =
     (case loaded of
        Inl e \<Rightarrow> (LoadFailed e, rt)
      | Inr next_cfg \<Rightarrow>
          let changed_keys = remdups_adj (sort (changed_config_keys (rt_config rt) next_cfg))
          in if changed_keys = [] then (Unchanged, rt)
             else let hot_keys = filter (\<lambda>k. reload_class_for_key k = HotReload) changed_keys;
                      restart_keys = filter (\<lambda>k. reload_class_for_key k = RestartRequired) changed_keys;
                      next_cfg = (if restart_keys = [] then next_cfg
                                  else preserve_restart_required_fields (rt_config rt) next_cfg)
                  in if \<not> apply_runtime_config next_cfg then (ProviderFailed, rt)
                     else (Reloaded hot_keys restart_keys, (reset_caches next_cfg rt)\<lparr>rt_config := next_cfg\<rparr>))"

section \<open>No changed key means no change\<close>

text \<open>Objects as \<open>BTreeMap\<close>s: keys strictly increasing, all the way down.\<close>

fun ordered_json :: "json \<Rightarrow> bool" where
  "ordered_json (JObj t) \<longleftrightarrow> sorted_wrt (<) (map fst t) \<and> list_all (\<lambda>kv. ordered_json (snd kv)) t"
| "ordered_json _ = True"

lemma sorted_map_eq:
  "sorted_wrt (<) (map fst a) \<Longrightarrow> sorted_wrt (<) (map fst b) \<Longrightarrow> map_of a = map_of b \<Longrightarrow> a = b"
  for a b :: "('k::linorder \<times> 'v) list"
proof -
  assume s: "sorted_wrt (<) (map fst a)" "sorted_wrt (<) (map fst b)" and e: "map_of a = map_of b"
  have d: "sorted (map fst a)" "sorted (map fst b)" "distinct (map fst a)" "distinct (map fst b)"
    using s by (simp_all add: strict_sorted_iff)
  have "set (map fst a) = set (map fst b)" using e by (metis dom_map_of_conv_image_fst set_map)
  then have k: "map fst a = map fst b" using d sorted_distinct_set_unique by blast
  have "map snd a = map (\<lambda>k. the (map_of a k)) (map fst a)" using d(3) by (auto simp: comp_def)
  also have "\<dots> = map snd b" using d(4) k e by (auto simp: comp_def)
  finally show ?thesis using k by (metis zip_map_fst_snd)
qed

lemma diff_keys_empty:
  assumes "diff_json_keys pre keys a b = []" "key \<in> set keys"
  obtains x y where "map_of a key = Some x" "map_of b key = Some y" "diff_json_paths (key_path pre key) x y = []"
  using assms
  by (induction keys) (auto simp: diff_json_keys.simps Let_def split: option.splits)

lemma key_path_ne: "pre \<noteq> [] \<or> key \<noteq> [] \<Longrightarrow> key_path pre key \<noteq> []"
  by (auto simp: key_path_def)

lemma map_of_in_set: "map_of t k = Some v \<Longrightarrow> (k, v) \<in> set t"
  by (rule map_of_SomeD)

lemma object_eqI:
  assumes "diff_json_keys pre (object_keys a b) a b = []"
    and "sorted_wrt (<) (map fst a)" "sorted_wrt (<) (map fst b)"
    and "\<And>key x y. map_of a key = Some x \<Longrightarrow> map_of b key = Some y \<Longrightarrow>
           diff_json_paths (key_path pre key) x y = [] \<Longrightarrow> x = y"
  shows "a = b"
proof (rule sorted_map_eq [OF assms(2,3)], rule ext)
  fix key
  show "map_of a key = map_of b key"
  proof (cases "key \<in> set (object_keys a b)")
    case True
    then show ?thesis using assms(4) by (rule_tac diff_keys_empty [OF assms(1)]) auto
  next
    case False
    then have "key \<notin> fst ` set a" "key \<notin> fst ` set b" by (auto simp: object_keys_def)
    then show ?thesis by (simp add: map_of_eq_None_iff [THEN iffD2])
  qed
qed

lemma ordered_lookup: "ordered_json (JObj t) \<Longrightarrow> map_of t k = Some v \<Longrightarrow> ordered_json v"
  by (auto simp: list_all_iff dest!: map_of_SomeD)

lemma diff_empty_eq:
  assumes "ordered_json old" "ordered_json new" "pre \<noteq> []" "diff_json_paths pre old new = []"
  shows "old = new"
  using assms
proof (induction old arbitrary: pre new)
  case (JObj a)
  show ?case
  proof (cases new)
    case b: (JObj b)
    have "a = b"
    proof (rule object_eqI [of pre])
      show "diff_json_keys pre (object_keys a b) a b = []"
        using JObj.prems(4) b by (simp add: diff_json_paths.simps)
      fix key x y
      assume xy: "map_of a key = Some x" "map_of b key = Some y" "diff_json_paths (key_path pre key) x y = []"
      have "ordered_json x" "ordered_json y"
        using ordered_lookup JObj.prems(1,2) b xy(1,2) by blast+
      then show "x = y"
        using JObj.IH [of "(key, x)" x y "key_path pre key"] xy JObj.prems(3) key_path_ne map_of_SomeD [OF xy(1)]
        by simp
    qed (use JObj.prems b in simp_all)
    then show ?thesis using b by simp
  qed (use JObj.prems in \<open>auto simp: diff_json_paths.simps split: if_splits\<close>)
qed (auto simp: diff_json_paths.simps split: json.splits if_splits)

lemma diff_top_eq:
  assumes "ordered_json (JObj a)" "ordered_json (JObj b)" "[] \<notin> fst ` set a" "diff_json_paths [] (JObj a) (JObj b) = []"
  shows "a = b"
proof (rule object_eqI [of "[]"])
  show "diff_json_keys [] (object_keys a b) a b = []" using assms(4) by (simp add: diff_json_paths.simps)
  fix key x y
  assume xy: "map_of a key = Some x" "map_of b key = Some y" "diff_json_paths (key_path [] key) x y = []"
  moreover have "key \<noteq> []" using assms(3) xy(1) by (force dest: map_of_SomeD)
  ultimately show "x = y" using diff_empty_eq ordered_lookup assms(1,2) key_path_ne by blast
qed (use assms in simp_all)

lemma diff_refl [simp]: "diff_json_paths pre j j = []"
proof (induction j arbitrary: pre)
  case (JObj t)
  have "diff_json_keys pre keys t t = []" if "set keys \<subseteq> fst ` set t" for keys
    using that
  proof (induction keys)
    case Nil
    then show ?case by (simp add: diff_json_keys.simps)
  next
    case (Cons key keys)
    then obtain v where v: "map_of t key = Some v" by (metis insert_subset list.simps(15) map_of_eq_None_iff option.exhaust)
    then have "diff_json_paths (key_path pre key) v v = []" using JObj map_of_SomeD [OF v] by simp
    then show ?case using Cons v by (simp add: diff_json_keys.simps)
  qed
  then show ?case by (auto simp: diff_json_paths.simps object_keys_def)
qed (simp_all add: diff_json_paths.simps)

section \<open>The rendered configuration\<close>

lemma map_JStr_eq [simp]: "map JStr xs = map JStr ys \<longleftrightarrow> xs = ys"
  by (rule inj_map_eq_map) (simp add: inj_def)

lemma web_extract_json_inj [simp]: "web_extract_json a = web_extract_json b \<longleftrightarrow> a = b"
  by (cases a; cases b) (auto simp: web_extract_json_def)

lemma text_detection_json_inj [simp]: "text_detection_json a = text_detection_json b \<longleftrightarrow> a = b"
  by (cases a; cases b) (auto simp: text_detection_json_def)

lemma inference_json_inj [simp]: "inference_json a = inference_json b \<longleftrightarrow> a = b"
  by (cases a; cases b) (auto simp: inference_json_def)

lemma performance_json_inj [simp]: "performance_json a = performance_json b \<longleftrightarrow> a = b"
  by (cases a; cases b) (auto simp: performance_json_def)

lemma model_json_inj [simp]: "model_json a = model_json b \<longleftrightarrow> a = b"
  by (cases a; cases b) (auto simp: model_json_def)

lemma ollama_json_inj [simp]: "ollama_json a = ollama_json b \<longleftrightarrow> a = b"
  by (cases a; cases b) (auto simp: ollama_json_def)

lemma web_json_inj [simp]: "web_json a = web_json b \<longleftrightarrow> a = b"
  by (cases a; cases b) (auto simp: web_json_def)

lemma approval_json_inj [simp]: "approval_json a = approval_json b \<longleftrightarrow> a = b"
  by (cases a; cases b) (auto simp: approval_json_def)

lemma behavior_json_inj [simp]: "behavior_json a = behavior_json b \<longleftrightarrow> a = b"
  by (cases a; cases b) (auto simp: behavior_json_def)

lemma daemon_json_inj [simp]: "daemon_json a = daemon_json b \<longleftrightarrow> a = b"
  by (cases a; cases b) (auto simp: daemon_json_def)

lemma logging_json_inj [simp]: "logging_json a = logging_json b \<longleftrightarrow> a = b"
  by (cases a; cases b) (auto simp: logging_json_def)

lemma indexer_json_inj [simp]: "indexer_json a = indexer_json b \<longleftrightarrow> a = b"
  by (cases a; cases b) (auto simp: indexer_json_def)

lemma capture_json_inj [simp]: "capture_json a = capture_json b \<longleftrightarrow> a = b"
  by (cases a; cases b) (auto simp: capture_json_def)

lemma terminal_context_json_inj [simp]: "terminal_context_json a = terminal_context_json b \<longleftrightarrow> a = b"
  by (cases a; cases b) (auto simp: terminal_context_json_def)

lemma local_tools_json_inj [simp]: "local_tools_json a = local_tools_json b \<longleftrightarrow> a = b"
  by (cases a; cases b) (auto simp: local_tools_json_def)

lemma git_context_json_inj [simp]: "git_context_json a = git_context_json b \<longleftrightarrow> a = b"
  by (cases a; cases b) (auto simp: git_context_json_def)

lemma project_metadata_json_inj [simp]: "project_metadata_json a = project_metadata_json b \<longleftrightarrow> a = b"
  by (cases a; cases b) (auto simp: project_metadata_json_def)

lemma tool_routing_json_inj [simp]: "tool_routing_json a = tool_routing_json b \<longleftrightarrow> a = b"
  by (cases a; cases b) (auto simp: tool_routing_json_def)

lemma context_budget_json_inj [simp]: "context_budget_json a = context_budget_json b \<longleftrightarrow> a = b"
  by (cases a; cases b) (auto simp: context_budget_json_def)

lemma cache_json_inj [simp]: "cache_json a = cache_json b \<longleftrightarrow> a = b"
  by (cases a; cases b) (auto simp: cache_json_def)

lemma source_ledger_json_inj [simp]: "source_ledger_json a = source_ledger_json b \<longleftrightarrow> a = b"
  by (cases a; cases b) (auto simp: source_ledger_json_def)

lemma debug_json_inj [simp]: "debug_json a = debug_json b \<longleftrightarrow> a = b"
  by (cases a; cases b) (auto simp: debug_json_def)

lemma prompt_json_inj [simp]: "prompt_json a = prompt_json b \<longleftrightarrow> a = b"
  by (cases a; cases b) (auto simp: prompt_json_def)

lemma session_json_inj [simp]: "session_json a = session_json b \<longleftrightarrow> a = b"
  by (cases a; cases b) (auto simp: session_json_def)

lemma settings_json_inj [simp]: "settings_json a = settings_json b \<longleftrightarrow> a = b"
  by (cases a; cases b) (auto simp: settings_json_def)

lemmas section_jsons =
  approval_json_def behavior_json_def cache_json_def capture_json_def context_budget_json_def daemon_json_def
  debug_json_def git_context_json_def indexer_json_def inference_json_def local_tools_json_def logging_json_def
  model_json_def ollama_json_def performance_json_def project_metadata_json_def prompt_json_def session_json_def
  source_ledger_json_def terminal_context_json_def tool_routing_json_def web_json_def web_extract_json_def
  text_detection_json_def

abbreviation ordered_options :: "settings \<Rightarrow> bool" where
  "ordered_options cfg \<equiv> ordered_json (JObj (cfg_ollama_options (cfg_ollama cfg)))"

lemma ordered_web_extract [simp]: "ordered_json (web_extract_json x)"
  by (simp add: web_extract_json_def sorted_wrt1 sorted_wrt2 del: sorted_wrt.simps(2))

lemma ordered_text_detection [simp]: "ordered_json (text_detection_json x)"
  by (simp add: text_detection_json_def sorted_wrt1 sorted_wrt2 del: sorted_wrt.simps(2))

lemma ordered_inference [simp]: "ordered_json (inference_json x)"
  by (simp add: inference_json_def sorted_wrt1 sorted_wrt2 del: sorted_wrt.simps(2))

lemma ordered_performance [simp]: "ordered_json (performance_json x)"
  by (simp add: performance_json_def sorted_wrt1 sorted_wrt2 del: sorted_wrt.simps(2))

lemma ordered_model [simp]: "ordered_json (model_json x)"
  by (simp add: model_json_def sorted_wrt1 sorted_wrt2 del: sorted_wrt.simps(2))

lemma ordered_ollama: "ordered_json (JObj (cfg_ollama_options x)) \<Longrightarrow> ordered_json (ollama_json x)"
  by (simp add: ollama_json_def sorted_wrt1 sorted_wrt2 del: sorted_wrt.simps(2))

lemma ordered_web [simp]: "ordered_json (web_json x)"
  by (simp add: web_json_def sorted_wrt1 sorted_wrt2 del: sorted_wrt.simps(2))

lemma ordered_approval [simp]: "ordered_json (approval_json x)"
  by (simp add: approval_json_def sorted_wrt1 sorted_wrt2 del: sorted_wrt.simps(2))

lemma ordered_behavior [simp]: "ordered_json (behavior_json x)"
  by (simp add: behavior_json_def sorted_wrt1 sorted_wrt2 del: sorted_wrt.simps(2))

lemma ordered_daemon [simp]: "ordered_json (daemon_json x)"
  by (simp add: daemon_json_def sorted_wrt1 sorted_wrt2 del: sorted_wrt.simps(2))

lemma ordered_logging [simp]: "ordered_json (logging_json x)"
  by (simp add: logging_json_def sorted_wrt1 sorted_wrt2 del: sorted_wrt.simps(2))

lemma ordered_indexer [simp]: "ordered_json (indexer_json x)"
  by (simp add: indexer_json_def sorted_wrt1 sorted_wrt2 del: sorted_wrt.simps(2))

lemma ordered_capture [simp]: "ordered_json (capture_json x)"
  by (simp add: capture_json_def sorted_wrt1 sorted_wrt2 del: sorted_wrt.simps(2))

lemma ordered_terminal_context [simp]: "ordered_json (terminal_context_json x)"
  by (simp add: terminal_context_json_def sorted_wrt1 sorted_wrt2 del: sorted_wrt.simps(2))

lemma ordered_local_tools [simp]: "ordered_json (local_tools_json x)"
  by (simp add: local_tools_json_def sorted_wrt1 sorted_wrt2 del: sorted_wrt.simps(2))

lemma ordered_git_context [simp]: "ordered_json (git_context_json x)"
  by (simp add: git_context_json_def sorted_wrt1 sorted_wrt2 del: sorted_wrt.simps(2))

lemma ordered_project_metadata [simp]: "ordered_json (project_metadata_json x)"
  by (simp add: project_metadata_json_def sorted_wrt1 sorted_wrt2 del: sorted_wrt.simps(2))

lemma ordered_tool_routing [simp]: "ordered_json (tool_routing_json x)"
  by (simp add: tool_routing_json_def sorted_wrt1 sorted_wrt2 del: sorted_wrt.simps(2))

lemma ordered_context_budget [simp]: "ordered_json (context_budget_json x)"
  by (simp add: context_budget_json_def sorted_wrt1 sorted_wrt2 del: sorted_wrt.simps(2))

lemma ordered_cache [simp]: "ordered_json (cache_json x)"
  by (simp add: cache_json_def sorted_wrt1 sorted_wrt2 del: sorted_wrt.simps(2))

lemma ordered_source_ledger [simp]: "ordered_json (source_ledger_json x)"
  by (simp add: source_ledger_json_def sorted_wrt1 sorted_wrt2 del: sorted_wrt.simps(2))

lemma ordered_debug [simp]: "ordered_json (debug_json x)"
  by (simp add: debug_json_def sorted_wrt1 sorted_wrt2 del: sorted_wrt.simps(2))

lemma ordered_prompt [simp]: "ordered_json (prompt_json x)"
  by (simp add: prompt_json_def sorted_wrt1 sorted_wrt2 del: sorted_wrt.simps(2))

lemma ordered_session [simp]: "ordered_json (session_json x)"
  by (simp add: session_json_def sorted_wrt1 sorted_wrt2 del: sorted_wrt.simps(2))

lemma ordered_settings: "ordered_options cfg \<Longrightarrow> ordered_json (settings_json cfg)"
  by (simp add: settings_json_def ordered_ollama sorted_wrt1 sorted_wrt2 del: sorted_wrt.simps(2))

text \<open>A reload reports no changed key exactly when the loaded configuration equals the running one,
  so that no edit of the file is taken for no change.\<close>

theorem no_changed_keys_iff_equal:
  assumes "ordered_options old" "ordered_options new"
  shows "changed_config_keys old new = [] \<longleftrightarrow> old = new"
proof
  assume e: "changed_config_keys old new = []"
  obtain a b where ab: "settings_json old = JObj a" "settings_json new = JObj b" "[] \<notin> fst ` set a"
    by (simp add: settings_json_def)
  then have "a = b"
    using diff_top_eq [of a b] ordered_settings [OF assms(1)] ordered_settings [OF assms(2)] e
    by (simp add: changed_config_keys_def)
  then show "old = new" using ab by (metis settings_json_inj)
qed (simp add: changed_config_keys_def)

lemma no_changed_keys_iff_equal_witness:
  "changed_config_keys settings_default settings_default = [] \<longleftrightarrow> settings_default = settings_default"
  by (rule no_changed_keys_iff_equal) (simp_all add: settings_default_def ollama_default_def)

end
