(* ===== verification/Config_Reload_Props.thy ===== *)
theory Config_Reload_Props
  imports Config_Reload
begin

text \<open>
  What a reload changes: the fields of the configuration as pairs of section and key, the fields that
  need a restart, and the state after a reload field by field.
\<close>

section \<open>Fields\<close>

definition field_at :: "json \<Rightarrow> string \<times> string \<Rightarrow> json option" where
  "field_at j p =
     Option.bind (Option.bind (as_table j) (\<lambda>t. map_of t (fst p)))
       (\<lambda>v. Option.bind (as_table v) (\<lambda>u. map_of u (snd p)))"

definition fields_of :: "json \<Rightarrow> (string \<times> string) list" where
  "fields_of j = (case j of JObj t \<Rightarrow> concat (map (\<lambda>(s, v).
     case v of JObj u \<Rightarrow> map (\<lambda>kv. (s, fst kv)) u | _ \<Rightarrow> []) t) | _ \<Rightarrow> [])"

definition setting_fields :: "(string \<times> string) list" where
  "setting_fields = fields_of (settings_json settings_default)"

definition field_path :: "string \<times> string \<Rightarrow> string" where
  "field_path p = key_path (fst p) (snd p)"

definition preserved_fields :: "(string \<times> string) list" where
  "preserved_fields =
     map (Pair ''model'') [''auto_download'', ''context_tokens'', ''download_only_selected_variant'', ''e2b_filename'',
       ''e4b_filename'', ''gpu_layers'', ''models_dir'', ''threads'', ''variant'']
     @ [(''inference'', ''provider''), (''ollama'', ''endpoint''), (''performance'', ''profile''), (''web'', ''provider'')]
     @ map (Pair ''indexer'') [''embed_doc_prefix'', ''embed_filename'', ''embed_dim'', ''vector_storage'',
       ''embedding_provider'', ''lexical_index_impl'', ''embed_query_prefix'']"

lemma fields_of_settings: "fields_of (settings_json c) = setting_fields"
  by (simp add: fields_of_def setting_fields_def settings_json_def section_jsons)

lemmas setting_fields_eval = setting_fields_def [unfolded fields_of_def settings_json_def section_jsons, simplified]

lemma preserved_are_restart:
  "list_all (\<lambda>p. reload_class_for_key (field_path p) = RestartRequired \<longleftrightarrow> p \<in> set preserved_fields) setting_fields"
  unfolding setting_fields_eval by code_simp

lemma field_at_known:
  "map_of (the (as_table (settings_json c))) s = Some v \<Longrightarrow> as_table v = Some u \<Longrightarrow>
     field_at (settings_json c) (s, f) = map_of u f"
  by (simp add: field_at_def settings_json_def as_table_def)

lemma field_at_model:
  "field_at (settings_json c) (''model'', f) = map_of (the (as_table (model_json (cfg_model c)))) f"
  by (rule field_at_known) (simp_all add: settings_json_def as_table_def, simp add: model_json_def)

lemma field_at_inference:
  "field_at (settings_json c) (''inference'', f) = map_of (the (as_table (inference_json (cfg_inference c)))) f"
  by (rule field_at_known) (simp_all add: settings_json_def as_table_def, simp add: inference_json_def)

lemma field_at_ollama:
  "field_at (settings_json c) (''ollama'', f) = map_of (the (as_table (ollama_json (cfg_ollama c)))) f"
  by (rule field_at_known) (simp_all add: settings_json_def as_table_def, simp add: ollama_json_def)

lemma field_at_performance:
  "field_at (settings_json c) (''performance'', f) = map_of (the (as_table (performance_json (cfg_performance c)))) f"
  by (rule field_at_known) (simp_all add: settings_json_def as_table_def, simp add: performance_json_def)

lemma field_at_indexer:
  "field_at (settings_json c) (''indexer'', f) = map_of (the (as_table (indexer_json (cfg_indexer c)))) f"
  by (rule field_at_known) (simp_all add: settings_json_def as_table_def, simp add: indexer_json_def)

lemma field_at_web:
  "field_at (settings_json c) (''web'', f) = map_of (the (as_table (web_json (cfg_web c)))) f"
  by (rule field_at_known) (simp_all add: settings_json_def as_table_def, simp add: web_json_def)

lemmas field_at_section = field_at_model field_at_inference field_at_ollama field_at_performance field_at_indexer field_at_web

lemma preserve_other_section:
  "s \<notin> {''model'', ''inference'', ''ollama'', ''performance'', ''indexer'', ''web''} \<Longrightarrow>
     field_at (settings_json (preserve_restart_required_fields old new)) (s, f) = field_at (settings_json new) (s, f)"
  by (simp add: field_at_def settings_json_def as_table_def preserve_restart_required_fields_def)

lemma preserve_sections:
  "field_at (settings_json (preserve_restart_required_fields old new)) (''model'', f) = field_at (settings_json old) (''model'', f)"
  "field_at (settings_json (preserve_restart_required_fields old new)) (''inference'', f) =
     field_at (settings_json (if f = ''provider'' then old else new)) (''inference'', f)"
  "field_at (settings_json (preserve_restart_required_fields old new)) (''ollama'', f) =
     field_at (settings_json (if f = ''endpoint'' then old else new)) (''ollama'', f)"
  "field_at (settings_json (preserve_restart_required_fields old new)) (''performance'', f) =
     field_at (settings_json (if f = ''profile'' then old else new)) (''performance'', f)"
  "field_at (settings_json (preserve_restart_required_fields old new)) (''web'', f) =
     field_at (settings_json (if f = ''provider'' then old else new)) (''web'', f)"
  by (simp_all add: field_at_section preserve_restart_required_fields_def inference_json_def ollama_json_def
      performance_json_def web_json_def as_table_def)

lemma map_of_except:
  assumes "filter (\<lambda>kv. fst kv \<notin> K) xs = filter (\<lambda>kv. fst kv \<notin> K) ys" "k \<notin> K"
  shows "map_of xs k = map_of ys k"
proof -
  have "map_of (filter (\<lambda>kv. fst kv \<notin> K) zs) k = map_of zs k" for zs
    using assms(2) map_of_filter_fst [of "\<lambda>x. x \<notin> K" zs k] by simp
  then show ?thesis using assms(1) by metis
qed

lemma preserve_indexer:
  "field_at (settings_json (preserve_restart_required_fields old new)) (''indexer'', f) =
     field_at (settings_json (if f \<in> set [''embed_doc_prefix'', ''embed_filename'', ''embed_dim'', ''vector_storage'',
       ''embedding_provider'', ''lexical_index_impl'', ''embed_query_prefix''] then old else new)) (''indexer'', f)"
proof (cases "f \<in> set [''embed_doc_prefix'', ''embed_filename'', ''embed_dim'', ''vector_storage'',
       ''embedding_provider'', ''lexical_index_impl'', ''embed_query_prefix'']")
  case True
  then have "f = ''embed_doc_prefix'' \<or> f = ''embed_filename'' \<or> f = ''embed_dim'' \<or> f = ''vector_storage''
     \<or> f = ''embedding_provider'' \<or> f = ''lexical_index_impl'' \<or> f = ''embed_query_prefix''" by simp
  then show ?thesis
    by (elim disjE) (simp_all add: field_at_indexer preserve_restart_required_fields_def indexer_json_def as_table_def)
next
  case False
  have "map_of (the (as_table (indexer_json (cfg_indexer (preserve_restart_required_fields old new))))) f
      = map_of (the (as_table (indexer_json (cfg_indexer new)))) f"
    by (rule map_of_except [OF _ False])
      (simp add: preserve_restart_required_fields_def indexer_json_def as_table_def)
  then show ?thesis using False by (simp only: field_at_indexer if_False)
qed

lemma model_fields: "(''model'', f) \<in> set setting_fields \<Longrightarrow> (''model'', f) \<in> set preserved_fields"
proof -
  have "list_all (\<lambda>p. if fst p = ''model'' then p \<in> set preserved_fields else True) setting_fields"
    unfolding setting_fields_eval by code_simp
  then show "(''model'', f) \<in> set setting_fields \<Longrightarrow> (''model'', f) \<in> set preserved_fields"
    by (force simp: list_all_iff)
qed

lemma preserve_fields:
  assumes "p \<in> set setting_fields"
  shows "field_at (settings_json (preserve_restart_required_fields old new)) p
      = field_at (settings_json (if p \<in> set preserved_fields then old else new)) p"
proof -
  obtain s f where p: "p = (s, f)" by (cases p)
  show ?thesis
  proof (cases "s \<in> {''model'', ''inference'', ''ollama'', ''performance'', ''indexer'', ''web''}")
    case False
    then show ?thesis using preserve_other_section p by (auto simp: preserved_fields_def)
  next
    case True
    then have "s = ''model'' \<or> s = ''inference'' \<or> s = ''ollama'' \<or> s = ''performance'' \<or> s = ''indexer''
      \<or> s = ''web''" by simp
    moreover have "s = ''model'' \<Longrightarrow> (s, f) \<in> set preserved_fields" using model_fields [of f] assms p by simp
    ultimately show ?thesis
      by (elim disjE) (simp_all add: p preserve_sections preserve_indexer, simp_all add: preserved_fields_def)
  qed
qed

lemma scalar_field:
  assumes "p \<in> set preserved_fields" "field_at (settings_json c) p = Some v"
  shows "as_table v = None"
  using assms by (auto simp: preserved_fields_def field_at_section section_jsons as_table_def)

section \<open>Paths of changed fields\<close>

lemma diff_extends:
  "p \<in> set (diff_json_paths pre old new) \<Longrightarrow> pre \<noteq> [] \<Longrightarrow> \<exists>rest. p = pre @ rest \<and> (rest = [] \<or> hd rest = CHR ''.'')"
  "p \<in> set (diff_json_keys pre keys a b) \<Longrightarrow> pre \<noteq> [] \<Longrightarrow> \<exists>rest. p = pre @ rest \<and> (rest = [] \<or> hd rest = CHR ''.'')"
proof (induction pre old new and pre keys a b rule: diff_json_paths_diff_json_keys.induct)
  case (1 pre old new)
  then show ?case by (auto simp: diff_json_paths.simps [of pre old new] split: json.splits if_splits)
next
  case (2 pre a b)
  then show ?case by (simp add: diff_json_keys.simps)
next
  case (3 pre key keys a b)
  have j: "key_path pre key = pre @ ''.'' @ key" using 3(4) by (simp add: key_path_def)
  show ?case
  proof (cases "p \<in> set (diff_json_keys pre keys a b)")
    case True
    then show ?thesis using 3(2,4) by blast
  next
    case False
    then have "p = key_path pre key \<or>
        (\<exists>x y. map_of a key = Some x \<and> map_of b key = Some y \<and> p \<in> set (diff_json_paths (key_path pre key) x y))"
      using 3(3) by (auto simp: diff_json_keys.simps Let_def split: option.splits)
    then show ?thesis
    proof
      assume "p = key_path pre key"
      then show ?thesis by (simp add: j)
    next
      assume "\<exists>x y. map_of a key = Some x \<and> map_of b key = Some y \<and> p \<in> set (diff_json_paths (key_path pre key) x y)"
      then obtain rest where "p = key_path pre key @ rest" using 3(1) j by fastforce
      then show ?thesis by (simp add: j)
    qed
  qed
qed

lemma diff_same_keys:
  assumes "p \<in> set (diff_json_paths pre (JObj a) (JObj b))" "map fst a = map fst b"
  obtains k x y where "map_of a k = Some x" "map_of b k = Some y" "p \<in> set (diff_json_paths (key_path pre k) x y)"
proof -
  have "\<exists>k x y. map_of a k = Some x \<and> map_of b k = Some y \<and> p \<in> set (diff_json_paths (key_path pre k) x y)"
    if "p \<in> set (diff_json_keys pre keys a b)" "set keys \<subseteq> fst ` set a" for keys
    using that
  proof (induction keys)
    case Nil
    then show ?case by (simp add: diff_json_keys.simps)
  next
    case (Cons k keys)
    have "fst ` set a = fst ` set b" using assms(2) by (metis set_map)
    then obtain x y where "map_of a k = Some x" "map_of b k = Some y"
      using Cons.prems(2) by (metis insert_subset list.simps(15) map_of_eq_None_iff option.exhaust)
    then show ?case using Cons by (auto simp: diff_json_keys.simps Let_def)
  qed
  moreover have "set (object_keys a b) \<subseteq> fst ` set a" using assms(2) by (auto simp: object_keys_def) (metis set_map image_eqI fst_conv)
  ultimately show ?thesis using assms(1) that by (simp add: diff_json_paths.simps) blast
qed

definition section_shape :: "(string \<times> json) list \<Rightarrow> (string \<times> string list option) list" where
  "section_shape t = map (\<lambda>(s, v). (s, map_option (map fst) (as_table v))) t"

lemma map_of_section_shape: "map_of (section_shape t) s = map_option (\<lambda>v. map_option (map fst) (as_table v)) (map_of t s)"
  unfolding section_shape_def by (induction t) auto

lemma settings_shape:
  obtains a b where "settings_json x = JObj a" "settings_json y = JObj b" "section_shape a = section_shape b"
    "list_all (\<lambda>kv. fst kv \<noteq> [] \<and> snd kv \<noteq> None) (section_shape a)"
proof -
  obtain a b where ab: "settings_json x = JObj a" "settings_json y = JObj b"
    by (simp add: settings_json_def)
  have "section_shape a = section_shape b" "list_all (\<lambda>kv. fst kv \<noteq> [] \<and> snd kv \<noteq> None) (section_shape a)"
    using ab by (auto simp: settings_json_def section_jsons section_shape_def as_table_def)
  then show ?thesis using ab that by blast
qed

lemma as_table_Some: "as_table v = Some u \<longleftrightarrow> v = JObj u"
  by (cases v) (auto simp: as_table_def)

lemma changed_field:
  assumes "p \<in> set (changed_config_keys old new)"
  obtains q rest where "q \<in> set setting_fields" "field_at (settings_json old) q \<noteq> field_at (settings_json new) q"
    "p = field_path q @ rest" "rest = [] \<or> hd rest = CHR ''.''"
proof -
  obtain a b where ab: "settings_json old = JObj a" "settings_json new = JObj b" "section_shape a = section_shape b"
    "list_all (\<lambda>kv. fst kv \<noteq> [] \<and> snd kv \<noteq> None) (section_shape a)"
    by (rule settings_shape)
  have "map fst a = map fst b"
    using arg_cong [OF ab(3), of "map fst"] by (simp add: section_shape_def comp_def case_prod_beta)
  then obtain k x y where k: "map_of a k = Some x" "map_of b k = Some y" "p \<in> set (diff_json_paths (key_path [] k) x y)"
    using diff_same_keys [of p "[]" a b] assms by (auto simp: changed_config_keys_def ab)
  have "map_of (section_shape a) k = Some (map_option (map fst) (as_table x))"
    "map_of (section_shape a) k = Some (map_option (map fst) (as_table y))"
    using k(1,2) map_of_section_shape [of a k] map_of_section_shape [of b k] ab(3) by simp_all
  moreover have "k \<noteq> [] \<and> map_option (map fst) (as_table x) \<noteq> None"
    using ab(4) map_of_SomeD [OF calculation(1)] by (fastforce simp: list_all_iff)
  moreover from this have ne: "k \<noteq> []" by simp
  ultimately have "\<exists>u w. x = JObj u \<and> y = JObj w \<and> map fst u = map fst w"
    by (cases x; cases y) (simp_all add: as_table_def)
  then obtain u w where uw: "x = JObj u" "y = JObj w" "map fst u = map fst w" by blast
  obtain f x' y' where f: "map_of u f = Some x'" "map_of w f = Some y'" "p \<in> set (diff_json_paths (key_path k f) x' y')"
    using diff_same_keys [of p k u w] k(3) uw by (auto simp: key_path_def)
  then have "x' \<noteq> y'" by auto
  then have "field_at (settings_json old) (k, f) \<noteq> field_at (settings_json new) (k, f)"
    by (simp add: field_at_def ab as_table_def k(1,2) uw f(1,2))
  moreover have "(k, f) \<in> set (fields_of (settings_json old))"
    using map_of_SomeD [OF k(1)] map_of_SomeD [OF f(1)] by (force simp: fields_of_def ab uw)
  moreover have "key_path k f \<noteq> []" using ne by (simp add: key_path_ne)
  ultimately show ?thesis
    using that [of "(k, f)"] diff_extends(1) [OF f(3)] by (auto simp: field_path_def fields_of_settings)
qed

lemma diff_contains:
  assumes "map_of a k = Some x" "map_of b k = Some y"
  shows "set (diff_json_paths (key_path pre k) x y) \<subseteq> set (diff_json_paths pre (JObj a) (JObj b))"
proof -
  have "set (diff_json_paths (key_path pre k) x y) \<subseteq> set (diff_json_keys pre keys a b)" if "k \<in> set keys" for keys
    using that assms by (induction keys) (auto simp: diff_json_keys.simps Let_def)
  moreover have "k \<in> set (object_keys a b)" using assms(1) by (force simp: object_keys_def dest: map_of_SomeD)
  ultimately show ?thesis by (simp add: diff_json_paths.simps)
qed

lemma field_at_Some:
  assumes "field_at j q = Some v"
  obtains t u where "j = JObj t" "map_of t (fst q) = Some (JObj u)" "map_of u (snd q) = Some v"
  using assms by (auto simp: field_at_def as_table_Some bind_eq_Some_conv)

lemma scalar_changed:
  assumes "q \<in> set preserved_fields" "field_at (settings_json old) q \<noteq> field_at (settings_json new) q"
  shows "field_path q \<in> set (changed_config_keys old new)"
proof -
  have some: "\<exists>v. field_at (settings_json c) q = Some v" for c
    using assms(1) by (auto simp: preserved_fields_def field_at_section section_jsons as_table_def)
  then obtain v w where vw: "field_at (settings_json old) q = Some v" "field_at (settings_json new) q = Some w" by blast
  from vw(1) obtain t u where o: "settings_json old = JObj t" "map_of t (fst q) = Some (JObj u)" "map_of u (snd q) = Some v"
    by (rule field_at_Some)
  from vw(2) obtain t' u' where n: "settings_json new = JObj t'" "map_of t' (fst q) = Some (JObj u')" "map_of u' (snd q) = Some w"
    by (rule field_at_Some)
  have "fst q \<noteq> []" using assms(1) by (auto simp: preserved_fields_def)
  then have "diff_json_paths (field_path q) v w = [field_path q]"
    using scalar_field [OF assms(1) vw(1)] assms(2) vw key_path_ne [of "fst q" "snd q"]
    by (auto simp: diff_json_paths.simps field_path_def as_table_def split: json.splits)
  then show ?thesis
    using diff_contains [OF o(2) n(2), of "[]"] diff_contains [OF o(3) n(3), of "fst q"]
    by (auto simp: changed_config_keys_def o(1) n(1) field_path_def key_path_def [of "[]"])
qed

lemma restart_prefix:
  assumes "q \<in> set setting_fields" "reload_class_for_key (field_path q @ rest) = RestartRequired"
  shows "q \<in> set preserved_fields"
proof -
  have "list_all (\<lambda>q. list_all (\<lambda>pre. if starts_with pre (field_path q) then pre = field_path q else True)
      restart_required_prefixes) setting_fields"
    unfolding setting_fields_eval by code_simp
  then have pre: "pre = field_path q" if "pre \<in> set restart_required_prefixes" "starts_with pre (field_path q)" for pre
    using assms(1) that by (fastforce simp: list_all_iff)
  obtain pre where p: "pre \<in> set restart_required_prefixes" "prefix pre (field_path q @ rest)"
    using assms(2) by (auto simp: reload_class_for_key_def list_ex_iff starts_with_iff split: if_splits)
  have "prefix (field_path q) (field_path q @ rest)" by simp
  with p(2) have "prefix pre (field_path q) \<or> prefix (field_path q) pre" by (rule prefix_same_cases)
  then have "prefix pre (field_path q)" using pre [OF p(1)] by (auto simp: starts_with_iff)
  then have "reload_class_for_key (field_path q) = RestartRequired"
    using p(1) by (auto simp: reload_class_for_key_def list_ex_iff starts_with_iff)
  then show ?thesis using preserved_are_restart assms(1) by (auto simp: list_all_iff)
qed

section \<open>After a reload\<close>

abbreviation restart_keys :: "settings \<Rightarrow> settings \<Rightarrow> string list" where
  "restart_keys old new \<equiv>
     filter (\<lambda>k. reload_class_for_key k = RestartRequired) (remdups_adj (sort (changed_config_keys old new)))"

abbreviation merged :: "settings \<Rightarrow> settings \<Rightarrow> settings" where
  "merged old new \<equiv> (if restart_keys old new = [] then new else preserve_restart_required_fields old new)"

lemma restart_field:
  "q \<in> set setting_fields \<Longrightarrow> reload_class_for_key (field_path q) = RestartRequired \<longleftrightarrow> q \<in> set preserved_fields"
  using preserved_are_restart by (auto simp: list_all_iff)

lemma merged_field:
  assumes q: "q \<in> set setting_fields"
  shows "field_at (settings_json (merged old new)) q
      = field_at (settings_json (if reload_class_for_key (field_path q) = RestartRequired then old else new)) q"
proof (cases "restart_keys old new = []")
  case False
  then show ?thesis using preserve_fields [OF q] restart_field [OF q] by simp
next
  case True
  then have "\<forall>k \<in> set (changed_config_keys old new). reload_class_for_key k \<noteq> RestartRequired"
    by (simp add: filter_empty_conv)
  then have "field_at (settings_json old) q = field_at (settings_json new) q"
    if "reload_class_for_key (field_path q) = RestartRequired"
    using that scalar_changed [of q old new] restart_field [OF q] by blast
  then show ?thesis using True by simp
qed

lemma merged_hot:
  assumes "k \<in> set (changed_config_keys old (merged old new))"
  shows "reload_class_for_key k = HotReload"
proof (rule ccontr)
  assume "reload_class_for_key k \<noteq> HotReload"
  then have k: "reload_class_for_key k = RestartRequired" by (cases "reload_class_for_key k") simp_all
  obtain q rest where q: "q \<in> set setting_fields"
    "field_at (settings_json old) q \<noteq> field_at (settings_json (merged old new)) q" "k = field_path q @ rest"
    by (rule changed_field [OF assms]) blast
  then show False using merged_field [OF q(1), of old new] restart_field [OF q(1)] restart_prefix [OF q(1), of rest] k by simp
qed


section \<open>The budget of both web caches\<close>

lemma split_web_cache_sum:
  "fst (split_web_cache_bytes n) + snd (split_web_cache_bytes n) = max n (32 * 1024)"
  by (simp add: split_web_cache_bytes_def Let_def)

lemma effective_web_cache_bound: "max (effective_web_cache_bytes cfg) (32 * 1024) \<le> max (cfg_web_cache_max_bytes (cfg_web cfg)) (32 * 1024)"
  by (simp add: effective_web_cache_bytes_def min_def max_def)

lemma reset_caches_web:
  "rt_web_search_cache (reset_caches cfg rt) = web_cache_new (fst (split_web_cache_bytes (effective_web_cache_bytes cfg)))
     (word_of_nat (fst (effective_web_cache_ttls cfg)))"
  "rt_web_read_cache (reset_caches cfg rt) = web_cache_new (snd (split_web_cache_bytes (effective_web_cache_bytes cfg)))
     (word_of_nat (snd (effective_web_cache_ttls cfg)))"
  by (simp_all add: reset_caches_def Let_def case_prod_beta)

text \<open>After a reload both web caches together never hold more than the configured number of bytes, or
  32 KiB if that is more, whatever is looked up and inserted.\<close>

theorem web_caches_bounded:
  assumes "run_events cache_step ops (rt_web_search_cache (reset_caches cfg rt)) = Some c"
    and "run_events cache_step ops' (rt_web_read_cache (reset_caches cfg rt)) = Some c'"
  shows "cached_bytes (wc_entries c) + cached_bytes (wc_entries c')
     \<le> max (cfg_web_cache_max_bytes (cfg_web cfg)) (32 * 1024)"
proof -
  let ?b = "split_web_cache_bytes (effective_web_cache_bytes cfg)"
  have start: "within_budget budget (web_cache_new budget ttl)" for budget ttl
    using web_cache_ok_new by (simp add: within_budget_def web_cache_new_def)
  have "within_budget (fst ?b) c" "within_budget (snd ?b) c'"
    using web_cache_runs.run_inv [OF start] assms by (simp_all only: reset_caches_web)
  then have "cached_bytes (wc_entries c) + cached_bytes (wc_entries c') \<le> fst ?b + snd ?b"
    by (simp add: within_budget_def web_cache_ok_def)
  also have "\<dots> = max (effective_web_cache_bytes cfg) (32 * 1024)" by (rule split_web_cache_sum)
  also note effective_web_cache_bound
  finally show ?thesis .
qed

definition sample_runtime :: "bool runtime" where
  "sample_runtime = \<lparr>rt_config = settings_default, rt_web_search_cache = web_cache_new 0 0,
     rt_web_read_cache = web_cache_new 0 0, rt_retrieval_cache = timed_cache_new 0,
     rt_command_validation_cache = timed_cache_new 0, rt_file_read_cache = timed_cache_new 0,
     rt_project_metadata_cache = timed_cache_new 0, rt_git_context_cache = timed_cache_new 0\<rparr>"

lemma web_caches_bounded_witness:
  "cached_bytes (wc_entries (rt_web_search_cache (reset_caches settings_default sample_runtime)))
     + cached_bytes (wc_entries (rt_web_read_cache (reset_caches settings_default sample_runtime)))
   \<le> max (cfg_web_cache_max_bytes (cfg_web settings_default)) (32 * 1024)"
  by (rule web_caches_bounded [of "[]" _ sample_runtime _ "[]"]) simp_all

end
