(* ===== verification/Observation.thy ===== *)
theory Observation
  imports Task_Handlers Config_Data
begin

text \<open>
  Commands the user runs (\<open>process_observed_command\<close> in \<open>termlm-core/src/main.rs\<close>): which are excluded,
  what of their output is kept and in which form, the files with the full output, and the eviction of
  the oldest entries. The regex crate, base64, the secret patterns, environment variables and the
  printing of a UUID are parameters; a file that cannot be written is a path outside \<open>ov_writable\<close>.
\<close>

section \<open>Entries\<close>

record observed_entry =
  oe_shell_id :: uuid
  oe_command_seq :: nat
  oe_command :: string
  oe_cwd :: string
  oe_started_at :: nat
  oe_duration_ms :: nat
  oe_exit_code :: int
  oe_output_capture_status :: string
  oe_stdout_truncated :: bool
  oe_stderr_truncated :: bool
  oe_redactions_applied :: bool
  oe_detected_error_lines :: "string list"
  oe_detected_paths :: "string list"
  oe_detected_urls :: "string list"
  oe_detected_commands :: "string list"
  oe_stdout_head :: string
  oe_stdout_tail :: string
  oe_stderr_head :: string
  oe_stderr_tail :: string
  oe_stdout_full_ref :: "string option"
  oe_stderr_full_ref :: "string option"

record observe_env =
  ov_engine :: regex_engine
  ov_find_iter :: "string \<Rightarrow> string \<Rightarrow> string list"
  ov_decode :: "string \<Rightarrow> string"
  ov_redact_secrets :: "string \<Rightarrow> string"
  ov_env_var :: "string \<Rightarrow> string option"
  ov_show_uuid :: "uuid \<Rightarrow> string"
  ov_root :: string
  ov_writable :: "string \<Rightarrow> bool"

record observation =
  ob_entries :: "observed_entry list"
  ob_files :: "(string \<times> string) list"

section \<open>What is excluded\<close>

definition tui_commands :: "string list" where
  "tui_commands =
     [''vim'', ''nvim'', ''vi'', ''emacs'', ''nano'', ''less'', ''more'', ''man'', ''watch'', ''top'', ''htop'', ''btop'',
      ''tmux'', ''screen'', ''fzf'', ''sk'', ''ssh'', ''sftp'', ''scp'', ''mosh'', ''node'', ''python'', ''python3'', ''ruby'',
      ''irb'', ''lua'', ''julia'', ''mysql'', ''psql'', ''sqlite3'', ''redis-cli'', ''mongosh'']"

definition default_exclude_patterns :: "string list" where
  "default_exclude_patterns =
     [raw ''^%s*(env|printenv)(%s|$)'', raw ''^%s*security%s+find-.*password'', raw ''^%s*(op|pass)%s+.*(show|get)'',
      raw ''^%s*gcloud%s+auth%s+print-access-token'', raw ''^%s*aws%s+configure%s+get'']"

definition pattern_matches :: "regex_engine \<Rightarrow> string \<Rightarrow> string \<Rightarrow> bool" where
  "pattern_matches eng command p \<longleftrightarrow> re_compiles eng True p \<and> re_is_match eng True p command"

definition should_exclude_observed :: "regex_engine \<Rightarrow> string \<Rightarrow> bool \<Rightarrow> string list \<Rightarrow> bool" where
  "should_exclude_observed eng command exclude_tui_commands configured_patterns =
     (let first = (case split_whitespace command of [] \<Rightarrow> [] | w # _ \<Rightarrow> w)
      in if exclude_tui_commands \<and> first \<in> set tui_commands then True
         else if list_ex (pattern_matches eng command) default_exclude_patterns then True
         else list_ex (pattern_matches eng command) configured_patterns)"

definition normalize_observed_capture_status :: "string \<Rightarrow> bool \<Rightarrow> string" where
  "normalize_observed_capture_status status excluded =
     (if excluded then ''excluded_interactive''
      else let s = to_ascii_lowercase (trim status)
           in if s = ''captured'' then ''captured''
              else if s = ''excluded_interactive'' then ''excluded_interactive''
              else ''skipped_interactive_tty'')"

section \<open>What is extracted\<close>

definition head_tail_snippets :: "string \<Rightarrow> nat \<Rightarrow> string \<times> string" where
  "head_tail_snippets text max_chars =
     (if text = [] \<or> max_chars = 0 then ([], [])
      else let head = truncate_string text max_chars; total_chars = char_count text
           in if total_chars \<le> max_chars then (head, text)
              else (head, ellipsis @ concat (rev (take max_chars (rev (chars text))))))"

fun collect_distinct :: "nat \<Rightarrow> string list \<Rightarrow> string list \<Rightarrow> string list" where
  "collect_distinct limit out [] = out"
| "collect_distinct limit out (x # xs) =
     (if x \<in> set out then collect_distinct limit out xs
      else let out1 = out @ [x] in if limit \<le> length out1 then out1 else collect_distinct limit out1 xs)"

definition ERROR_RE :: string where
  "ERROR_RE = raw ''(?i)%b(error|failed|exception|traceback|not found|permission denied|fatal)%b''"

definition extract_error_lines :: "regex_engine \<Rightarrow> string \<Rightarrow> nat \<Rightarrow> string list" where
  "extract_error_lines eng text max_lines =
     collect_distinct max_lines []
       (filter (\<lambda>line. line \<noteq> [] \<and> re_is_match eng False ERROR_RE line) (map trim (lines text)))"

text \<open>The pattern is in verbose mode; its insignificant blanks are left out.\<close>

definition PATH_RE :: string where
  "PATH_RE = raw ''(?x)(?P<path>(?:%./|%../|/)[A-Za-z0-9._/%-]+)''"

definition extract_paths :: "(string \<Rightarrow> string \<Rightarrow> string list) \<Rightarrow> string \<Rightarrow> nat \<Rightarrow> string list" where
  "extract_paths find_iter text max_paths = collect_distinct max_paths [] (find_iter PATH_RE text)"

definition URL_RE :: string where
  "URL_RE = raw ''(?i)%bhttps?://[^%s<>()'' @ [CHR 0x22, CHR 0x27] @ '']+''"

definition trim_url_end :: "string \<Rightarrow> string" where
  "trim_url_end s = rev (dropWhile (\<lambda>b. b \<in> {CHR ''.'', CHR '','', CHR '';'', CHR '')''}) (rev s))"

definition extract_urls :: "(string \<Rightarrow> string \<Rightarrow> string list) \<Rightarrow> string \<Rightarrow> nat \<Rightarrow> string list" where
  "extract_urls find_iter text max_urls = collect_distinct max_urls [] (map trim_url_end (find_iter URL_RE text))"

section \<open>Files with the full output\<close>

definition output_file :: "observe_env \<Rightarrow> uuid \<Rightarrow> nat \<Rightarrow> string \<Rightarrow> string" where
  "output_file env shell_id command_seq stream =
     ov_root env @ ''/'' @ ov_show_uuid env shell_id @ ''.'' @ show_nat command_seq @ ''.'' @ stream @ ''.txt''"

definition write_observed_output_ref ::
  "observe_env \<Rightarrow> uuid \<Rightarrow> nat \<Rightarrow> string \<Rightarrow> string \<Rightarrow> (string \<times> string) list
     \<Rightarrow> string option \<times> (string \<times> string) list" where
  "write_observed_output_ref env shell_id command_seq stream text files =
     (let file = output_file env shell_id command_seq stream
      in if trim text = [] then (None, files)
         else if \<not> ov_writable env file then (None, files)
         else (Some file, kv_insert file text files))"

definition cleanup_observed_output_ref :: "string \<Rightarrow> string option \<Rightarrow> (string \<times> string) list \<Rightarrow> (string \<times> string) list" where
  "cleanup_observed_output_ref dir reference files =
     (case reference of
        None \<Rightarrow> files
      | Some file \<Rightarrow> if path_starts_with (path_of file) (path_of dir) then kv_remove file files else files)"

definition cleanup_observed_entry_refs :: "string \<Rightarrow> observed_entry \<Rightarrow> (string \<times> string) list \<Rightarrow> (string \<times> string) list" where
  "cleanup_observed_entry_refs dir entry files =
     cleanup_observed_output_ref dir (oe_stderr_full_ref entry)
       (cleanup_observed_output_ref dir (oe_stdout_full_ref entry) files)"

section \<open>One observed command\<close>

definition captured_text :: "observe_env \<Rightarrow> settings \<Rightarrow> string option \<Rightarrow> string \<times> string list" where
  "captured_text env cfg encoded =
     (let text = (case encoded of None \<Rightarrow> [] | Some b64 \<Rightarrow> ov_decode env b64);
          redacted = (if cfg_terminal_context_redact_secrets (cfg_terminal_context cfg)
                      then ov_redact_secrets env text else text)
      in redact_capture_env_values (ov_env_var env) redacted (cfg_capture_redact_env (cfg_capture cfg)))"

definition capture_status_of :: "observe_env \<Rightarrow> settings \<Rightarrow> observed_command \<Rightarrow> string" where
  "capture_status_of env cfg payload =
     normalize_observed_capture_status (oc_output_capture_status payload)
       (should_exclude_observed (ov_engine env) (oc_expanded_command payload)
          (cfg_terminal_context_exclude_tui_commands (cfg_terminal_context cfg))
          (cfg_terminal_context_exclude_command_patterns (cfg_terminal_context cfg)))"

definition combined_tail :: "string \<Rightarrow> string \<Rightarrow> string" where
  "combined_tail stdout_tail stderr_tail =
     (if stderr_tail = [] then stdout_tail else if stdout_tail = [] then stderr_tail
      else stderr_tail @ newline @ stdout_tail)"

text \<open>The texts of both streams with the redacted variables, empty unless captured.\<close>

definition stream_text :: "observe_env \<Rightarrow> settings \<Rightarrow> observed_command \<Rightarrow> string option \<Rightarrow> string \<times> string list" where
  "stream_text env cfg payload encoded =
     (if capture_status_of env cfg payload = ''captured'' then captured_text env cfg encoded else ([], []))"

definition stream_ref ::
  "observe_env \<Rightarrow> settings \<Rightarrow> observed_command \<Rightarrow> string \<Rightarrow> string \<Rightarrow> (string \<times> string) list
     \<Rightarrow> string option \<times> (string \<times> string) list" where
  "stream_ref env cfg payload stream body files =
     (if capture_status_of env cfg payload = ''captured''
      then write_observed_output_ref env (oc_shell_id payload) (oc_command_seq payload) stream body files
      else (None, files))"

definition observed_fields ::
  "observe_env \<Rightarrow> settings \<Rightarrow> observed_command \<Rightarrow> string \<times> string list \<Rightarrow> string \<times> string list
     \<Rightarrow> string option \<Rightarrow> string option \<Rightarrow> observed_entry" where
  "observed_fields env cfg payload out err stdout_ref stderr_ref =
     (let tc = cfg_terminal_context cfg;
          max_capture_chars = max (cfg_terminal_context_max_output_bytes_per_command tc) 256;
          snippet_chars = min max_capture_chars 2048;
          (stdout_head, stdout_tail) = head_tail_snippets (fst out) snippet_chars;
          (stderr_head, stderr_tail) = head_tail_snippets (fst err) snippet_chars;
          redact = cfg_terminal_context_redact_secrets tc;
          command_text = (if redact then ov_redact_secrets env (oc_expanded_command payload)
                          else oc_expanded_command payload);
          detect_text = command_text @ newline @ stdout_head @ newline @ stdout_tail @ newline @ stderr_head
            @ newline @ stderr_tail
      in \<lparr>oe_shell_id = oc_shell_id payload, oe_command_seq = oc_command_seq payload, oe_command = command_text,
           oe_cwd = oc_cwd_after payload, oe_started_at = oc_started_at payload,
           oe_duration_ms = oc_duration_ms payload, oe_exit_code = oc_exit_status payload,
           oe_output_capture_status = capture_status_of env cfg payload,
           oe_stdout_truncated = oc_stdout_truncated payload, oe_stderr_truncated = oc_stderr_truncated payload,
           oe_redactions_applied = (redact \<or> snd out \<noteq> [] \<or> snd err \<noteq> []),
           oe_detected_error_lines = extract_error_lines (ov_engine env) (combined_tail stdout_tail stderr_tail) 6,
           oe_detected_paths = extract_paths (ov_find_iter env) detect_text 6,
           oe_detected_urls = extract_urls (ov_find_iter env) detect_text 6,
           oe_detected_commands = extract_command_names (oc_expanded_command payload) 6,
           oe_stdout_head = stdout_head, oe_stdout_tail = stdout_tail, oe_stderr_head = stderr_head,
           oe_stderr_tail = stderr_tail, oe_stdout_full_ref = stdout_ref, oe_stderr_full_ref = stderr_ref\<rparr>)"

definition observed_entry_of ::
  "observe_env \<Rightarrow> settings \<Rightarrow> observed_command \<Rightarrow> (string \<times> string) list \<Rightarrow> observed_entry \<times> (string \<times> string) list" where
  "observed_entry_of env cfg payload files =
     (let out = stream_text env cfg payload (oc_stdout_b64 payload);
          err = stream_text env cfg payload (oc_stderr_b64 payload);
          (stdout_ref, files1) = stream_ref env cfg payload ''stdout'' (fst out) files;
          (stderr_ref, files2) = stream_ref env cfg payload ''stderr'' (fst err) files1
      in (observed_fields env cfg payload out err stdout_ref stderr_ref, files2))"

text \<open>The loop that pops the front of the queue while it is too long: the evicted and the kept entries.\<close>

fun evict_front :: "nat \<Rightarrow> 'a list \<Rightarrow> 'a list \<times> 'a list" where
  "evict_front limit [] = ([], [])"
| "evict_front limit (x # xs) =
     (if limit < length (x # xs)
      then (case evict_front limit xs of (evicted, kept) \<Rightarrow> (x # evicted, kept)) else ([], x # xs))"

definition observe_command :: "observe_env \<Rightarrow> settings \<Rightarrow> observed_command \<Rightarrow> observation \<Rightarrow> observation" where
  "observe_command env cfg payload ob =
     (if \<not> cfg_terminal_context_enabled (cfg_terminal_context cfg)
         \<or> \<not> cfg_terminal_context_capture_all_interactive_commands (cfg_terminal_context cfg) then ob
      else let max_entries = max (cfg_terminal_context_max_entries (cfg_terminal_context cfg)) 1;
               (entry, files) = observed_entry_of env cfg payload (ob_files ob);
               (evicted, kept) = evict_front max_entries (ob_entries ob @ [entry])
           in \<lparr>ob_entries = kept, ob_files = fold (cleanup_observed_entry_refs (ov_root env)) evicted files\<rparr>)"

end
