(* ===== verification/Observation_Props.thy ===== *)
theory Observation_Props
  imports Observation
begin

text \<open>
  What the daemon keeps of the commands it observes: the files with the full output are exactly those
  its entries refer to as long as the command numbers of a shell are distinct, which they are not when
  acknowledged commands and observed commands count separately.
\<close>

section \<open>Names of files\<close>

lemma split_at_dot:
  "CHR ''.'' \<notin> set a \<Longrightarrow> CHR ''.'' \<notin> set b \<Longrightarrow> a @ CHR ''.'' # x = b @ CHR ''.'' # y \<Longrightarrow> a = b \<and> x = y"
proof (induction a arbitrary: b)
  case Nil
  then show ?case by (cases b) auto
next
  case (Cons c a)
  then show ?case by (cases b) auto
qed

definition digits_value :: "string \<Rightarrow> nat" where
  "digits_value s = foldl (\<lambda>a c. 10 * a + (of_char c - 48)) 0 s"

lemma digits_value_show [simp]: "digits_value (show_nat n) = n"
proof (induction n rule: show_nat.induct)
  case (1 n)
  then show ?case by (subst show_nat.simps) (simp add: digits_value_def)
qed

lemma show_nat_inj: "show_nat m = show_nat n \<Longrightarrow> m = n"
  by (metis digits_value_show)

lemma show_nat_no_dot: "CHR ''.'' \<notin> set (show_nat n)"
proof (induction n rule: show_nat.induct)
  case (1 n)
  have "CHR ''.'' \<noteq> char_of (48 + d)" if "d < 10" for d :: nat
  proof
    assume "CHR ''.'' = char_of (48 + d)"
    then have "of_char (CHR ''.'') = (48 + d :: nat)" using that by simp
    then show False by simp
  qed
  then show ?case using 1 by (subst show_nat.simps) auto
qed

definition names_ok :: "observe_env \<Rightarrow> bool" where
  "names_ok env \<longleftrightarrow> inj (ov_show_uuid env) \<and> (\<forall>u. CHR ''.'' \<notin> set (ov_show_uuid env u))"

lemma output_file_inj:
  assumes "names_ok env" "output_file env u m s = output_file env v n t"
  shows "u = v \<and> m = n \<and> s = t"
proof -
  have "ov_show_uuid env u @ CHR ''.'' # (show_nat m @ CHR ''.'' # (s @ ''.txt''))
      = ov_show_uuid env v @ CHR ''.'' # (show_nat n @ CHR ''.'' # (t @ ''.txt''))"
    using assms(2) by (simp add: output_file_def)
  then have "ov_show_uuid env u = ov_show_uuid env v"
    "show_nat m @ CHR ''.'' # (s @ ''.txt'') = show_nat n @ CHR ''.'' # (t @ ''.txt'')"
    using split_at_dot assms(1) unfolding names_ok_def by metis+
  moreover from this(2) have "show_nat m = show_nat n" "s = t"
    using split_at_dot [OF show_nat_no_dot show_nat_no_dot] by blast+
  ultimately show ?thesis using assms(1) show_nat_inj by (auto simp: names_ok_def dest: injD)
qed

lemma split_at_sep_cut: "P c \<Longrightarrow> split_at_sep P (xs @ c # ys) = split_at_sep P xs @ split_at_sep P ys"
  by (induction xs) (auto simp: split_at_sep_nonempty split: list.split)

lemma split_on_append: "split_on c (xs @ c # ys) = split_on c xs @ split_on c ys"
  by (simp add: split_on_def split_at_sep_cut)

lemma output_file_below_root: "path_starts_with (path_of (output_file env u n s)) (path_of (ov_root env))"
proof (cases "ov_root env = []")
  case True
  then show ?thesis by (simp add: path_starts_with_def path_of_def split_on_def)
next
  case False
  obtain name where f: "output_file env u n s = ov_root env @ CHR ''/'' # name" by (simp add: output_file_def)
  have "split_on (CHR ''/'') (ov_root env) \<noteq> []" by (simp add: split_on_def split_at_sep_nonempty)
  moreover have "starts_with (ov_root env @ CHR ''/'' # name) ''/'' = starts_with (ov_root env) ''/''"
    using False by (cases "ov_root env") simp_all
  ultimately show ?thesis by (simp add: f path_starts_with_def path_of_def split_on_append Let_def)
qed

section \<open>Entries and their files\<close>

definition observed_id :: "observed_command \<Rightarrow> uuid \<times> nat" where
  "observed_id p = (oc_shell_id p, oc_command_seq p)"

definition entry_id :: "observed_entry \<Rightarrow> uuid \<times> nat" where
  "entry_id e = (oe_shell_id e, oe_command_seq e)"

definition entry_refs :: "observed_entry \<Rightarrow> string set" where
  "entry_refs e = set_option (oe_stdout_full_ref e) \<union> set_option (oe_stderr_full_ref e)"

definition possible_refs :: "observe_env \<Rightarrow> uuid \<times> nat \<Rightarrow> string set" where
  "possible_refs env i = {output_file env (fst i) (snd i) ''stdout'', output_file env (fst i) (snd i) ''stderr''}"

abbreviation file_names :: "(string \<times> string) list \<Rightarrow> string set" where
  "file_names files \<equiv> fst ` set files"

lemma possible_refs_disjoint:
  "names_ok env \<Longrightarrow> i \<noteq> j \<Longrightarrow> possible_refs env i \<inter> possible_refs env j = {}"
  by (cases i; cases j) (auto simp: possible_refs_def dest: output_file_inj)

lemma write_ref:
  assumes "write_observed_output_ref env u n stream text files = (ref, files')"
  shows "file_names files' = file_names files \<union> set_option ref" "set_option ref \<subseteq> {output_file env u n stream}"
    "kv_wf files \<Longrightarrow> kv_wf files'"
  using assms keys_kv_insert [of "output_file env u n stream" "text" files]
  by (auto simp: write_observed_output_ref_def Let_def kv_wf_insert split: if_splits)

lemma stream_ref:
  assumes "stream_ref env cfg p stream body files = (ref, files')"
  shows "file_names files' = file_names files \<union> set_option ref"
    "set_option ref \<subseteq> {output_file env (oc_shell_id p) (oc_command_seq p) stream}" "kv_wf files \<Longrightarrow> kv_wf files'"
  using assms write_ref by (auto simp: stream_ref_def split: if_splits)

lemma observed_fields_simps [simp]:
  "oe_shell_id (observed_fields env cfg p out err r1 r2) = oc_shell_id p"
  "oe_command_seq (observed_fields env cfg p out err r1 r2) = oc_command_seq p"
  "oe_stdout_full_ref (observed_fields env cfg p out err r1 r2) = r1"
  "oe_stderr_full_ref (observed_fields env cfg p out err r1 r2) = r2"
  by (simp_all add: observed_fields_def Let_def case_prod_beta)

lemma observed_entry_parts:
  assumes "observed_entry_of env cfg p files = (e, files')"
  obtains out err files1 where
    "stream_ref env cfg p ''stdout'' out files = (oe_stdout_full_ref e, files1)"
    "stream_ref env cfg p ''stderr'' err files1 = (oe_stderr_full_ref e, files')"
    "oe_shell_id e = oc_shell_id p" "oe_command_seq e = oc_command_seq p"
proof -
  let ?out = "stream_text env cfg p (oc_stdout_b64 p)" and ?err = "stream_text env cfg p (oc_stderr_b64 p)"
  obtain r1 files1 where 1: "stream_ref env cfg p ''stdout'' (fst ?out) files = (r1, files1)" by fastforce
  obtain r2 files2 where 2: "stream_ref env cfg p ''stderr'' (fst ?err) files1 = (r2, files2)" by fastforce
  have "e = observed_fields env cfg p ?out ?err r1 r2" "files' = files2"
    using assms by (simp_all add: observed_entry_of_def Let_def 1 2)
  then show ?thesis using that [of "fst ?out" files1 "fst ?err"] 1 2 by simp
qed

lemma observed_entry:
  assumes "observed_entry_of env cfg p files = (e, files')"
  shows "entry_id e = observed_id p" "entry_refs e \<subseteq> possible_refs env (observed_id p)"
    "file_names files' = file_names files \<union> entry_refs e" "kv_wf files \<Longrightarrow> kv_wf files'"
proof -
  obtain out err files1 where w:
    "stream_ref env cfg p ''stdout'' out files = (oe_stdout_full_ref e, files1)"
    "stream_ref env cfg p ''stderr'' err files1 = (oe_stderr_full_ref e, files')"
    "oe_shell_id e = oc_shell_id p" "oe_command_seq e = oc_command_seq p"
    by (rule observed_entry_parts [OF assms])
  show "entry_id e = observed_id p" using w(3,4) by (simp add: entry_id_def observed_id_def)
  show "entry_refs e \<subseteq> possible_refs env (observed_id p)"
    using stream_ref(2) [OF w(1)] stream_ref(2) [OF w(2)] by (auto simp: entry_refs_def possible_refs_def observed_id_def)
  show "file_names files' = file_names files \<union> entry_refs e"
    using stream_ref(1) [OF w(1)] stream_ref(1) [OF w(2)] by (auto simp: entry_refs_def)
  show "kv_wf files \<Longrightarrow> kv_wf files'" using stream_ref(3) [OF w(1)] stream_ref(3) [OF w(2)] by blast
qed

lemma file_names_kv_remove: "fst ` set (kv_remove k kvs) = fst ` set kvs - {k}"
  by (auto simp: kv_remove_def)

lemma cleanup_names:
  assumes "entry_refs e \<subseteq> possible_refs env i"
  shows "file_names (cleanup_observed_entry_refs (ov_root env) e files) = file_names files - entry_refs e"
    "kv_wf files \<Longrightarrow> kv_wf (cleanup_observed_entry_refs (ov_root env) e files)"
proof -
  have r: "file_names (cleanup_observed_output_ref (ov_root env) ref fs) = file_names fs - set_option ref"
    "kv_wf fs \<Longrightarrow> kv_wf (cleanup_observed_output_ref (ov_root env) ref fs)"
    if "set_option ref \<subseteq> possible_refs env i" for ref fs
    using that output_file_below_root
    by (auto simp: cleanup_observed_output_ref_def possible_refs_def kv_wf_remove file_names_kv_remove split: option.splits)
  show "file_names (cleanup_observed_entry_refs (ov_root env) e files) = file_names files - entry_refs e"
    using assms r(1) by (auto simp: cleanup_observed_entry_refs_def entry_refs_def)
  show "kv_wf files \<Longrightarrow> kv_wf (cleanup_observed_entry_refs (ov_root env) e files)"
    using assms r(2) by (auto simp: cleanup_observed_entry_refs_def entry_refs_def)
qed

lemma evict_front_split: "evict_front limit xs = (take (length xs - limit) xs, drop (length xs - limit) xs)"
  by (induction xs) (auto simp: Suc_diff_le not_less)

definition tracked :: "observe_env \<Rightarrow> (uuid \<times> nat) set \<Rightarrow> observation \<Rightarrow> bool" where
  "tracked env seen ob \<longleftrightarrow>
     distinct (map entry_id (ob_entries ob)) \<and> entry_id ` set (ob_entries ob) \<subseteq> seen
     \<and> (\<forall>e \<in> set (ob_entries ob). entry_refs e \<subseteq> possible_refs env (entry_id e))
     \<and> file_names (ob_files ob) = \<Union> (entry_refs ` set (ob_entries ob)) \<and> kv_wf (ob_files ob)"

lemma cleanup_evicted:
  assumes "\<forall>e \<in> set evicted. entry_refs e \<subseteq> possible_refs env (entry_id e)" "kv_wf files"
  shows "file_names (fold (cleanup_observed_entry_refs (ov_root env)) evicted files)
      = file_names files - \<Union> (entry_refs ` set evicted)
     \<and> kv_wf (fold (cleanup_observed_entry_refs (ov_root env)) evicted files)"
  using assms
proof (induction evicted arbitrary: files)
  case Nil
  then show ?case by simp
next
  case (Cons e evicted)
  then have "entry_refs e \<subseteq> possible_refs env (entry_id e)" by simp
  note c = cleanup_names [OF this]
  show ?case using Cons.IH [of "cleanup_observed_entry_refs (ov_root env) e files"] Cons.prems c by auto
qed

lemma refs_apart:
  assumes "names_ok env" "distinct (map entry_id es)" "\<forall>e \<in> set es. entry_refs e \<subseteq> possible_refs env (entry_id e)"
  shows "\<Union> (entry_refs ` set es) - \<Union> (entry_refs ` set (take n es)) = \<Union> (entry_refs ` set (drop n es))"
proof -
  have s: "set es = set (take n es) \<union> set (drop n es)" by (metis append_take_drop_id set_append)
  have "distinct (map entry_id (take n es @ drop n es))" using assms(2) by simp
  then have d: "entry_id ` set (take n es) \<inter> entry_id ` set (drop n es) = {}" by (simp del: append_take_drop_id)
  have "entry_refs a \<inter> entry_refs b = {}" if "a \<in> set (take n es)" "b \<in> set (drop n es)" for a b
  proof -
    have "entry_id a \<noteq> entry_id b" using d that by blast
    from possible_refs_disjoint [OF assms(1) this] show ?thesis using assms(3) s that by blast
  qed
  then show ?thesis using s by blast
qed

lemma observe_tracked:
  assumes "names_ok env" "tracked env seen ob" "observed_id p \<notin> seen"
  shows "tracked env (insert (observed_id p) seen) (observe_command env cfg p ob)"
proof -
  let ?tc = "cfg_terminal_context cfg"
  let ?max = "max (cfg_terminal_context_max_entries ?tc) 1"
  obtain e files where e: "observed_entry_of env cfg p (ob_files ob) = (e, files)" by fastforce
  note oe = observed_entry [OF e]
  let ?es = "ob_entries ob @ [e]" and ?n = "length (ob_entries ob @ [e]) - ?max"
  have es: "distinct (map entry_id ?es)" "\<forall>e \<in> set ?es. entry_refs e \<subseteq> possible_refs env (entry_id e)"
    "file_names files = \<Union> (entry_refs ` set ?es)" "kv_wf files" "entry_id ` set ?es \<subseteq> insert (observed_id p) seen"
    using assms(2,3) oe by (auto simp: tracked_def)
  have "\<forall>e \<in> set (take ?n ?es). entry_refs e \<subseteq> possible_refs env (entry_id e)"
    using es(2) by (blast dest: in_set_takeD)
  note c = cleanup_evicted [OF this es(4)]
  have "distinct (map entry_id (drop ?n ?es))" using es(1) by (metis distinct_drop drop_map)
  moreover have "entry_id ` set (drop ?n ?es) \<subseteq> insert (observed_id p) seen" using es(5) by (blast dest: in_set_dropD)
  moreover have "\<forall>e \<in> set (drop ?n ?es). entry_refs e \<subseteq> possible_refs env (entry_id e)"
    using es(2) by (blast dest: in_set_dropD)
  ultimately have "tracked env (insert (observed_id p) seen)
      \<lparr>ob_entries = drop ?n ?es, ob_files = fold (cleanup_observed_entry_refs (ov_root env)) (take ?n ?es) files\<rparr>"
    using c es(3) refs_apart [OF assms(1) es(1,2), of ?n] by (simp add: tracked_def)
  moreover have "tracked env (insert (observed_id p) seen) ob" using assms(2) by (auto simp: tracked_def)
  ultimately show ?thesis by (simp add: observe_command_def e evict_front_split Let_def del: append_Cons)
qed

definition observe_all :: "observe_env \<Rightarrow> settings \<Rightarrow> observed_command list \<Rightarrow> observation" where
  "observe_all env cfg ps = fold (observe_command env cfg) ps \<lparr>ob_entries = [], ob_files = []\<rparr>"

lemma observe_all_tracked:
  "names_ok env \<Longrightarrow> distinct (map observed_id ps) \<Longrightarrow> tracked env (observed_id ` set ps) (observe_all env cfg ps)"
proof (induction ps rule: rev_induct)
  case Nil
  then show ?case by (simp add: observe_all_def tracked_def)
next
  case (snoc p ps)
  have "observed_id p \<notin> observed_id ` set ps" "distinct (map observed_id ps)" using snoc.prems(2) by auto
  with snoc have "tracked env (insert (observed_id p) (observed_id ` set ps)) (observe_command env cfg p (observe_all env cfg ps))"
    by (intro observe_tracked) simp_all
  then show ?case by (simp add: observe_all_def)
qed

abbreviation entry_limit :: "settings \<Rightarrow> nat" where
  "entry_limit cfg \<equiv> max (cfg_terminal_context_max_entries (cfg_terminal_context cfg)) 1"

lemma observe_all_bounded: "length (ob_entries (observe_all env cfg ps)) \<le> entry_limit cfg"
proof (induction ps rule: rev_induct)
  case Nil
  then show ?case by (simp add: observe_all_def)
next
  case (snoc p ps)
  have "length (ob_entries (observe_command env cfg p ob)) \<le> entry_limit cfg"
    if "length (ob_entries ob) \<le> entry_limit cfg" for ob
    using that by (auto simp: observe_command_def Let_def evict_front_split case_prod_beta max_def)
  with snoc show ?case by (simp add: observe_all_def)
qed

section \<open>What the daemon keeps\<close>

text \<open>An environment in which every file can be written and nothing is secret, and a command that prints.\<close>

definition sample_env :: observe_env where
  "sample_env =
     \<lparr>ov_engine = \<lparr>re_compiles = \<lambda>i p. True, re_is_match = \<lambda>i p s. False\<rparr>, ov_find_iter = \<lambda>p s. [], ov_decode = \<lambda>s. s,
      ov_redact_secrets = \<lambda>s. s, ov_env_var = \<lambda>k. None, ov_show_uuid = show_nat, ov_root = ''/run'',
      ov_writable = \<lambda>f. True\<rparr>"

definition sample_observed :: "nat \<Rightarrow> observed_command" where
  "sample_observed n =
     \<lparr>oc_shell_id = 7, oc_command_seq = n, oc_raw_command = ''ls'', oc_expanded_command = ''ls'', oc_cwd_before = ''/'',
      oc_cwd_after = ''/'', oc_started_at = 0, oc_exit_status = 0, oc_duration_ms = 1, oc_stdout_b64 = Some ''a'',
      oc_stdout_truncated = False, oc_stderr_b64 = None, oc_stderr_truncated = False,
      oc_output_capture_status = ''captured''\<rparr>"

definition two_entries :: settings where
  "two_entries = settings_default\<lparr>cfg_terminal_context := terminal_context_default\<lparr>cfg_terminal_context_max_entries := 2\<rparr>\<rparr>"

lemma sample_names_ok: "names_ok sample_env"
  using show_nat_no_dot show_nat_inj by (auto simp: names_ok_def sample_env_def inj_on_def)

text \<open>C26: As long as no two observed commands of a shell have the same number, the daemon keeps at most the
  configured number of entries, and the files with full output are exactly those that its entries refer
  to, so that nothing of an evicted command stays on the disk.\<close>

theorem observed_files_follow_entries:
  assumes "names_ok env" "distinct (map observed_id ps)"
  shows "length (ob_entries (observe_all env cfg ps)) \<le> entry_limit cfg
     \<and> file_names (ob_files (observe_all env cfg ps)) = \<Union> (entry_refs ` set (ob_entries (observe_all env cfg ps)))
     \<and> length (ob_files (observe_all env cfg ps)) \<le> 2 * entry_limit cfg"
proof -
  let ?ob = "observe_all env cfg ps"
  have t: "tracked env (observed_id ` set ps) ?ob" by (rule observe_all_tracked [OF assms])
  have b: "length (ob_entries ?ob) \<le> entry_limit cfg" by (rule observe_all_bounded)
  have r: "card (entry_refs e) \<le> 2" if "e \<in> set (ob_entries ?ob)" for e
  proof -
    have "entry_refs e \<subseteq> possible_refs env (entry_id e)" using t that by (simp add: tracked_def)
    then have "card (entry_refs e) \<le> card (possible_refs env (entry_id e))"
      by (rule card_mono [rotated]) (simp add: possible_refs_def)
    also have "\<dots> \<le> 2" by (simp add: possible_refs_def card_insert_if)
    finally show ?thesis .
  qed
  have "length (ob_files ?ob) = card (file_names (ob_files ?ob))"
    using t by (metis tracked_def distinct_card length_map set_map)
  also have "\<dots> = card (\<Union> (entry_refs ` set (ob_entries ?ob)))" using t by (simp add: tracked_def)
  also have "\<dots> \<le> (\<Sum>e \<in> set (ob_entries ?ob). card (entry_refs e))" by (rule card_UN_le) simp
  also have "\<dots> \<le> card (set (ob_entries ?ob)) * 2" using sum_bounded_above [of "set (ob_entries ?ob)" "\<lambda>e. card (entry_refs e)" 2] r by simp
  also have "\<dots> \<le> length (ob_entries ?ob) * 2" using card_length [of "ob_entries ?ob"] by simp
  finally show ?thesis using b t by (simp add: tracked_def)
qed

theorem observed_files_follow_entries_witness:
  "length (ob_entries (observe_all sample_env settings_default [sample_observed 1, sample_observed 2])) \<le> entry_limit settings_default
     \<and> length (ob_files (observe_all sample_env settings_default [sample_observed 1, sample_observed 2])) \<le> 2 * entry_limit settings_default"
  using observed_files_follow_entries [OF sample_names_ok, of "[sample_observed 1, sample_observed 2]" settings_default]
  by (simp add: observed_id_def sample_observed_def)



section \<open>Two counters\<close>

lemma write_ref_captured:
  assumes "capture_status_of env cfg p = ''captured''" "ov_writable env (output_file env (oc_shell_id p) (oc_command_seq p) stream)"
    "trim body \<noteq> []"
  shows "stream_ref env cfg p stream body files
      = (Some (output_file env (oc_shell_id p) (oc_command_seq p) stream),
         kv_insert (output_file env (oc_shell_id p) (oc_command_seq p) stream) body files)"
  using assms by (simp add: stream_ref_def write_observed_output_ref_def Let_def)

text \<open>A command whose output is kept in full.\<close>

definition keeps_output :: "observe_env \<Rightarrow> settings \<Rightarrow> observed_command \<Rightarrow> bool" where
  "keeps_output env cfg p \<longleftrightarrow>
     capture_status_of env cfg p = ''captured''
     \<and> ov_writable env (output_file env (oc_shell_id p) (oc_command_seq p) ''stdout'')
     \<and> trim (fst (captured_text env cfg (oc_stdout_b64 p))) \<noteq> []"

definition observing :: "settings \<Rightarrow> bool" where
  "observing cfg \<longleftrightarrow> cfg_terminal_context_enabled (cfg_terminal_context cfg)
     \<and> cfg_terminal_context_capture_all_interactive_commands (cfg_terminal_context cfg)"

lemma kept_entry:
  assumes "names_ok env" "keeps_output env cfg p" "observed_entry_of env cfg p files = (e, files')"
  shows "oe_stdout_full_ref e = Some (output_file env (oc_shell_id p) (oc_command_seq p) ''stdout'')"
    "map_of files' (output_file env (oc_shell_id p) (oc_command_seq p) ''stdout'')
       = Some (fst (captured_text env cfg (oc_stdout_b64 p)))"
proof -
  let ?f = "output_file env (oc_shell_id p) (oc_command_seq p) ''stdout''"
  let ?g = "output_file env (oc_shell_id p) (oc_command_seq p) ''stderr''"
  let ?out = "stream_text env cfg p (oc_stdout_b64 p)" and ?err = "stream_text env cfg p (oc_stderr_b64 p)"
  have out: "?out = captured_text env cfg (oc_stdout_b64 p)" using assms(2) by (simp add: stream_text_def keeps_output_def)
  have ne: "?g \<noteq> ?f" using output_file_inj [OF assms(1)] by fastforce
  have 1: "stream_ref env cfg p ''stdout'' (fst ?out) files = (Some ?f, kv_insert ?f (fst ?out) files)"
    using assms(2) out by (intro write_ref_captured) (simp_all add: keeps_output_def)
  obtain r2 files2 where 2: "stream_ref env cfg p ''stderr'' (fst ?err) (kv_insert ?f (fst ?out) files) = (r2, files2)" by fastforce
  have "map_of files2 ?f = Some (fst ?out)"
    using 2 ne by (auto simp: stream_ref_def write_observed_output_ref_def Let_def map_of_kv_insert split: if_splits)
  moreover have "e = observed_fields env cfg p ?out ?err (Some ?f) r2" "files' = files2"
    using assms(3) by (simp_all add: observed_entry_of_def Let_def 1 2)
  ultimately show "oe_stdout_full_ref e = Some ?f" "map_of files' ?f = Some (fst (captured_text env cfg (oc_stdout_b64 p)))"
    by (simp_all add: out)
qed

text \<open>The shell plugin numbers acknowledged and observed commands with two counters and the daemon takes both
  for one: of two commands with the same number the second overwrites the full output of the first, whose
  entry then refers to the output of another command, and when the first entry is evicted the output of
  the second is deleted while its entry stays.\<close>

theorem shared_sequence_overwrites:
  assumes "names_ok env" "observing cfg" "cfg_terminal_context_max_entries (cfg_terminal_context cfg) = 2"
    and "keeps_output env cfg p" "keeps_output env cfg q" "observed_id q = observed_id p" "observed_id r \<noteq> observed_id p"
    and f: "f = output_file env (oc_shell_id p) (oc_command_seq p) ''stdout''"
  shows "map oe_stdout_full_ref (ob_entries (observe_all env cfg [p, q])) = [Some f, Some f]
     \<and> map_of (ob_files (observe_all env cfg [p, q])) f = Some (fst (captured_text env cfg (oc_stdout_b64 q)))
     \<and> oe_stdout_full_ref (hd (ob_entries (observe_all env cfg [p, q, r]))) = Some f
     \<and> entry_id (hd (ob_entries (observe_all env cfg [p, q, r]))) = observed_id q
     \<and> map_of (ob_files (observe_all env cfg [p, q, r])) f = None"
proof -
  let ?d = "\<lambda>p ob. observe_command env cfg p ob"
  obtain e1 f1 where 1: "observed_entry_of env cfg p [] = (e1, f1)" by fastforce
  obtain e2 f2 where 2: "observed_entry_of env cfg q f1 = (e2, f2)" by fastforce
  obtain e3 f3 where 3: "observed_entry_of env cfg r f2 = (e3, f3)" by fastforce
  have fq: "f = output_file env (oc_shell_id q) (oc_command_seq q) ''stdout''"
    using assms(6) by (simp add: f observed_id_def)
  have s2: "observe_all env cfg [p, q] = \<lparr>ob_entries = [e1, e2], ob_files = f2\<rparr>"
    using assms(2,3) by (simp add: observe_all_def observe_command_def observing_def 1 2)
  then have s3: "observe_all env cfg [p, q, r]
      = \<lparr>ob_entries = [e2, e3], ob_files = cleanup_observed_entry_refs (ov_root env) e1 f3\<rparr>"
    using assms(2,3) by (simp add: observe_all_def observe_command_def observing_def 3)
  note k1 = kept_entry(1) [OF assms(1,4) 1] and k2 = kept_entry [OF assms(1,5) 2]
  have "f \<in> entry_refs e1" using k1 by (simp add: f entry_refs_def)
  moreover note cleanup_names(1) [OF observed_entry(2) [OF 1], of f3]
  ultimately have "f \<notin> file_names (cleanup_observed_entry_refs (ov_root env) e1 f3)" by blast
  then show ?thesis using s2 s3 k1 k2 observed_entry(1) [OF 2] f fq
    by (simp add: map_of_eq_None_iff)
qed

theorem shared_sequence_overwrites_witness:
  "map_of (ob_files (observe_all sample_env two_entries [sample_observed 1, sample_observed 1, sample_observed 2]))
     (output_file sample_env 7 1 ''stdout'') = None"
proof -
  have o: "observing two_entries" by (simp add: observing_def two_entries_def terminal_context_default_def)
  have "split_whitespace ''ls'' = [''ls'']" "trim ''a'' = ''a''" "normalize_observed_capture_status ''captured'' False = ''captured''"
    by code_simp+
  then have k: "keeps_output sample_env two_entries (sample_observed 1)"
    by (simp add: keeps_output_def capture_status_of_def should_exclude_observed_def pattern_matches_def list_ex_iff captured_text_def
        two_entries_def terminal_context_default_def settings_default_def capture_default_def sample_observed_def sample_env_def
        redact_capture_env_values_def tui_commands_def)
  show ?thesis
    using shared_sequence_overwrites [OF sample_names_ok o _ k k, of "sample_observed 2" "output_file sample_env 7 1 ''stdout''"]
    by (simp add: two_entries_def sample_observed_def observed_id_def)
qed

end
