(* ===== verification/Command_Text.thy ===== *)
theory Command_Text
  imports Safety_Floor
begin

text \<open>
  More of Rust's \<open>str\<close> as the clean-up of model output uses it (\<open>termlm-core/src/main.rs\<close>): one-sided
  trimming, cutting at a marker, byte slices that panic off a character boundary, and the tables and
  small tests the clean-up shares with the completeness checks.
\<close>

section \<open>Strings\<close>

definition trim_end_matches :: "(rchar \<Rightarrow> bool) \<Rightarrow> string \<Rightarrow> string" where
  "trim_end_matches P s = concat (rev (dropWhile P (rev (chars s))))"

definition trim_start :: "string \<Rightarrow> string" where
  "trim_start s = concat (dropWhile is_whitespace (chars s))"

definition upper_byte :: "char \<Rightarrow> char" where
  "upper_byte b = (if byte_lower b then char_of (of_char b - (32 :: nat)) else b)"

definition to_ascii_uppercase :: "string \<Rightarrow> string" where
  "to_ascii_uppercase = map upper_byte"

definition eq_ignore_ascii_case :: "string \<Rightarrow> string \<Rightarrow> bool" where
  "eq_ignore_ascii_case a b \<longleftrightarrow> to_ascii_lowercase a = to_ascii_lowercase b"

text \<open>\<open>String::truncate\<close> at the first occurrence of a marker.\<close>

definition cut_at :: "string \<Rightarrow> string \<Rightarrow> string" where
  "cut_at marker s = (case find_str s marker of None \<Rightarrow> s | Some pos \<Rightarrow> take pos s)"

text \<open>\<open>str::is_char_boundary\<close>, and the slice from an index to the end, which panics off a boundary.\<close>

definition is_char_boundary :: "string \<Rightarrow> nat \<Rightarrow> bool" where
  "is_char_boundary s i \<longleftrightarrow> i = length s \<or> i < length s \<and> (i = 0 \<or> \<not> is_cont (s ! i))"

definition slice_from :: "string \<Rightarrow> nat \<Rightarrow> string option" where
  "slice_from s i = (if is_char_boundary s i then Some (drop i s) else None)"

text \<open>\<open>str::rfind(char::is_whitespace)\<close>: the offset of the first byte of the last white space.\<close>

definition rfind_whitespace :: "string \<Rightarrow> nat option" where
  "rfind_whitespace s =
     (case dropWhile (\<lambda>c. \<not> is_whitespace c) (rev (chars s)) of
        [] \<Rightarrow> None
      | c # cs \<Rightarrow> Some (length (concat cs)))"

definition words_of :: "string list \<Rightarrow> string" where
  "words_of ws = join '' '' ws"

definition first_word :: "string \<Rightarrow> string" where
  "first_word s = (case split_whitespace s of [] \<Rightarrow> [] | w # _ \<Rightarrow> w)"

definition all_digits :: "string \<Rightarrow> bool" where
  "all_digits s \<longleftrightarrow> list_all (on_ascii byte_digit) (chars s)"

text \<open>Sets of characters that are trimmed.\<close>

definition any_of :: "string \<Rightarrow> rchar \<Rightarrow> bool" where
  "any_of bs c \<longleftrightarrow> c \<in> (\<lambda>b. [b]) ` set bs"

abbreviation quote_chars :: string where
  "quote_chars \<equiv> [CHR 0x22, CHR 0x27]"

abbreviation backtick :: char where
  "backtick \<equiv> CHR 0x60"

definition quote_byte :: "char \<Rightarrow> bool" where
  "quote_byte b \<longleftrightarrow> b \<in> set quote_chars"

definition leading_quote :: "string \<Rightarrow> char option" where
  "leading_quote token = (case token of [] \<Rightarrow> None | b # _ \<Rightarrow> if quote_byte b then Some b else None)"

definition trailing_quote :: "string \<Rightarrow> char option" where
  "trailing_quote token = leading_quote (rev token)"

definition requote :: "string \<Rightarrow> string \<Rightarrow> string" where
  "requote token body =
     (case leading_quote token of
        None \<Rightarrow> body
      | Some q \<Rightarrow> if trailing_quote token = Some q then [q] @ body @ [q] else body)"

section \<open>Words of the prompt\<close>

definition prompt_token :: "string \<Rightarrow> string" where
  "prompt_token token = trim_matches (any_of (quote_chars @ [backtick] @ '',:;)([]'')) token"

definition filename_like :: "string \<Rightarrow> bool" where
  "filename_like token \<longleftrightarrow>
     1 < length token \<and> (contains token ''/'' \<or> contains token ''.'' \<or> list_ex (on_ascii byte_digit) (chars token))"

definition filename_like_prompt_tokens :: "string \<Rightarrow> string list" where
  "filename_like_prompt_tokens prompt = filter filename_like (map prompt_token (split_whitespace prompt))"

definition home_dirs :: "(string \<times> string list) list" where
  "home_dirs =
     [(''Desktop'', [''desktop'']), (''Documents'', [''documents'']), (''Downloads'', [''downloads'', ''download folder'']),
      (''Pictures'', [''pictures'']), (''Movies'', [''movies'']), (''Music'', [''music'']), (''Public'', [''public''])]"

definition prompt_standard_home_dir_name :: "string \<Rightarrow> string option" where
  "prompt_standard_home_dir_name prompt =
     map_option fst (find (\<lambda>(name, needles). contains_any (to_ascii_lowercase prompt) needles) home_dirs)"

section \<open>Plain commands\<close>

definition filler_words :: "string list" where
  "filler_words =
     [''a'', ''an'', ''and'', ''command'', ''here'', ''it'', ''run'', ''the'', ''this'', ''to'', ''you'', ''your'']"

definition is_plain_command_token :: "string \<Rightarrow> bool" where
  "is_plain_command_token token =
     (if starts_with token ''./'' \<or> starts_with token ''../'' \<or> starts_with token ''/'' then 1 < length token
      else if token = [] \<or> token \<in> set filler_words then False
      else list_all (\<lambda>c. is_ascii_alphanumeric c \<or> any_of ''_-.'' c) (chars token)
        \<and> list_ex is_ascii_alphabetic (chars token))"

definition normalize_plain_command_candidate :: "string \<Rightarrow> string option" where
  "normalize_plain_command_candidate candidate =
     (let cmd0 = trim (trim_matches (any_of [backtick]) (trim candidate));
          cmd = (case strip_prefix cmd0 ''$ '' of Some stripped \<Rightarrow> trim stripped | None \<Rightarrow> cmd0)
      in if cmd = [] \<or> contains cmd [CHR 0x0A] \<or> contains cmd [CHR 0x0D] \<or> contains cmd ''?''
            \<or> starts_with cmd ''#'' \<or> starts_with cmd ''!'' then None
         else if \<not> is_plain_command_token (trim_matches (any_of ''({['') (first_word cmd)) then None
         else Some cmd)"

section \<open>The values of action lines\<close>

definition strip_wrapping_quotes :: "string \<Rightarrow> string" where
  "strip_wrapping_quotes v =
     (let trimmed = trim v
      in if 2 \<le> length trimmed \<and> quote_byte (hd trimmed) \<and> hd trimmed = last trimmed
         then butlast (tl trimmed) else trimmed)"

text \<open>\<open>None\<close> is the panic of the slice after the last white space; \<open>Some None\<close> leaves the value.\<close>

definition strip_trailing_bracket_artifact :: "string \<Rightarrow> string option option" where
  "strip_trailing_bracket_artifact v =
     (let trimmed = trim_end v
      in if \<not> ends_with trimmed '']'' then Some None
         else let token_start = (case rfind_whitespace trimmed of None \<Rightarrow> 0 | Some idx \<Rightarrow> idx + 1)
              in case slice_from trimmed token_start of
                   None \<Rightarrow> None
                 | Some token \<Rightarrow>
                     (case find_str token ''['' of
                        None \<Rightarrow> Some None
                      | Some bracket \<Rightarrow>
                          let front = take bracket token; inside = butlast (drop (bracket + 1) token);
                              artifact = inside = [] \<or> starts_with inside ''/'' \<or> contains inside '']''
                          in if front = [] \<or> \<not> artifact then Some None
                             else Some (Some (take token_start trimmed @ front))))"

definition zero_width :: "rchar list" where
  "zero_width = [[CHR 0xE2, CHR 0x80, CHR 0x8B], [CHR 0xE2, CHR 0x80, CHR 0x8C]]"

definition clean_marks :: "string \<Rightarrow> string" where
  "clean_marks v =
     (let out = cut_at (replicate 3 backtick) (cut_at ''<|'' (trim v));
          unticked = trim (trim_matches (any_of [backtick]) (trim out));
          unquoted = trim (strip_wrapping_quotes unticked);
          cleaned = trim (trim_end_matches (\<lambda>c. c \<in> set zero_width) unquoted)
      in if ends_with cleaned ''.'' \<and> \<not> ends_with cleaned '' .'' then butlast cleaned else cleaned)"

definition clean_local_action_value :: "string \<Rightarrow> string option" where
  "clean_local_action_value v =
     (let cleaned = clean_marks v
      in map_option (\<lambda>stripped. trim (case stripped of None \<Rightarrow> cleaned | Some s \<Rightarrow> s))
           (strip_trailing_bracket_artifact cleaned))"

end
