(* ===== verification/Command_Sanitize.thy ===== *)
theory Command_Sanitize
  imports Command_Text
begin

text \<open>
  \<open>sanitize_local_execute_command\<close> (\<open>termlm-core/src/main.rs\<close>): the clean-up every command line from
  the model goes through before it is checked and proposed. One definition per step, in the order
  of the code; \<open>None\<close> is the panic of a byte slice inside a character.
\<close>

section \<open>Annotations and first word\<close>

lemma find_str_bound: "find_str s p = Some i \<Longrightarrow> i + length p \<le> length s \<and> take (length p) (drop i s) = p"
proof (induction s arbitrary: i)
  case Nil
  then show ?case by (auto split: if_splits)
next
  case (Cons b s)
  show ?case
  proof (cases "starts_with (b # s) p")
    case True
    with Cons.prems show ?thesis
      by (auto simp: starts_with_iff prefix_def) (metis append_eq_conv_conj length_append le_add1 length_Cons)+
  next
    case False
    with Cons show ?thesis by auto
  qed
qed

function remove_bracketed_path_annotations :: "string \<Rightarrow> string" where
  "remove_bracketed_path_annotations s =
     (case find_str s ''.['' of
        None \<Rightarrow> s
      | Some start \<Rightarrow>
          (case find_str (drop (start + 2) s) '']'' of
             None \<Rightarrow> s
           | Some relative_end \<Rightarrow>
               remove_bracketed_path_annotations
                 (take start s @ ''.'' @ drop (start + 2 + relative_end + 1) s)))"
  by pat_completeness auto
termination
  by (relation "measure length") (auto dest!: find_str_bound)

declare remove_bracketed_path_annotations.simps [simp del]

definition strip_unbalanced_trailing_quote :: "string \<Rightarrow> string" where
  "strip_unbalanced_trailing_quote command =
     (let trimmed = trim_end command
      in case find (\<lambda>q. ends_with trimmed [q] \<and> odd (count_list trimmed q)) quote_chars of
           Some q \<Rightarrow> trim_end (butlast trimmed)
         | None \<Rightarrow> command)"

definition normalize_first_command_token_artifact :: "string \<Rightarrow> string" where
  "normalize_first_command_token_artifact command =
     (case split_whitespace command of
        [] \<Rightarrow> command
      | token # rest \<Rightarrow>
          let stripped = trim_end_matches (any_of ''.:'') token
          in if stripped \<noteq> token \<and> is_plain_command_token stripped then words_of (stripped # rest) else command)"

section \<open>Home directories\<close>

definition normalize_standard_home_dir_path :: "string \<Rightarrow> string \<Rightarrow> string option" where
  "normalize_standard_home_dir_path path home_dir_name =
     (let home_ref = ''$HOME/'' @ home_dir_name; tilde_ref = ''~/'' @ home_dir_name;
          slash_dir = ''/'' @ home_dir_name; repeated_dir = ''/'' @ home_dir_name @ ''/'' @ home_dir_name
      in if path = home_dir_name \<or> path = home_ref \<or> path = tilde_ref then Some home_ref
         else if starts_with path (home_ref @ ''/'') \<and> \<not> contains path repeated_dir then None
         else if starts_with path (tilde_ref @ ''/'') \<and> \<not> contains path repeated_dir then None
         else if contains path repeated_dir then Some home_ref
         else if \<not> (starts_with path ''/Users/'' \<or> starts_with path ''/home/'' \<or> starts_with path ''/private/var/'')
           then None
         else (case find_str path slash_dir of
                 None \<Rightarrow> None
               | Some pos \<Rightarrow>
                   let rest = drop (pos + length slash_dir) path
                   in if rest = [] \<or> rest = ''/'' then Some home_ref
                      else if starts_with rest ''/'' then Some (home_ref @ rest) else Some home_ref))"

definition normalize_standard_home_dir_token :: "string \<Rightarrow> string \<Rightarrow> string" where
  "normalize_standard_home_dir_token home_dir_name token =
     (let unquoted = trim_matches (any_of quote_chars) token
      in case normalize_standard_home_dir_path (trim_end_matches (any_of '',:;'') unquoted) home_dir_name of
           None \<Rightarrow> token
         | Some normalized \<Rightarrow> requote token normalized)"

definition normalize_standard_home_dir_artifacts :: "string \<Rightarrow> string \<Rightarrow> string" where
  "normalize_standard_home_dir_artifacts command prompt =
     (case prompt_standard_home_dir_name prompt of
        None \<Rightarrow> command
      | Some name \<Rightarrow> words_of (map (normalize_standard_home_dir_token name) (split_whitespace command)))"

section \<open>Incomplete and repeated tails\<close>

lemma replace_all_shorter:
  "length new < length pat \<Longrightarrow> length (replace_all s pat new) \<le> length s
     \<and> (contains s pat \<longrightarrow> length (replace_all s pat new) < length s)"
proof (induction s pat new rule: replace_all.induct)
  case (1 pat new)
  then show ?case by auto
next
  case (2 b bs pat new)
  show ?case
  proof (cases "starts_with (b # bs) pat")
    case True
    then have "length pat \<le> length (b # bs)" by (auto simp: starts_with_iff dest: prefix_length_le)
    moreover have "length (replace_all (drop (length pat) (b # bs)) pat new) \<le> length (b # bs) - length pat"
      using 2 True by (cases "pat = []") auto
    ultimately show ?thesis using 2(3) True by auto
  qed (use 2 in auto)
qed

function collapse_repeated_grep_v_slash :: "string \<Rightarrow> string" where
  "collapse_repeated_grep_v_slash s =
     (if contains s ''| grep -v / | grep -v /''
      then collapse_repeated_grep_v_slash (replace_all s ''| grep -v / | grep -v /'' ''| grep -v /'') else s)"
  by pat_completeness auto
termination
  by (relation "measure length") (auto simp: replace_all_shorter)

declare collapse_repeated_grep_v_slash.simps [simp del]

definition strip_first_suffix :: "string list \<Rightarrow> string \<Rightarrow> string" where
  "strip_first_suffix endings command =
     (let trimmed = trim_end command
      in case find (ends_with trimmed) endings of
           None \<Rightarrow> trimmed
         | Some s \<Rightarrow> trim_end (take (length trimmed - length s) trimmed))"

definition strip_trailing_incomplete_grep :: "string \<Rightarrow> string" where
  "strip_trailing_incomplete_grep = strip_first_suffix [''| grep -v'', ''| grep'']"

definition strip_trailing_incomplete_sed :: "string \<Rightarrow> string" where
  "strip_trailing_incomplete_sed = strip_first_suffix [''| sed'', ''| sed -E'', ''| sed -n'']"

definition strip_trailing_incomplete_xargs :: "string \<Rightarrow> string" where
  "strip_trailing_incomplete_xargs =
     strip_first_suffix [''| xargs'', ''| xargs -0'', ''| xargs -I{}'', ''| xargs -0 -I{}'']"

text \<open>Cut before the first of the markers that occurs.\<close>

definition cut_first_marker :: "string list \<Rightarrow> string \<Rightarrow> string" where
  "cut_first_marker markers command =
     (case find (contains command) markers of
        None \<Rightarrow> command
      | Some marker \<Rightarrow> trim_end (cut_at marker command))"

definition strip_repeated_echo_head_artifact :: "string \<Rightarrow> string" where
  "strip_repeated_echo_head_artifact =
     cut_first_marker ['' | xargs -I {} echo {} | head -n 1'', '' | xargs -I{} echo {} | head -n 1'']"

definition strip_grep_dot_filter_artifact :: "string \<Rightarrow> string" where
  "strip_grep_dot_filter_artifact =
     cut_first_marker
       [raw ''| grep -v '' @ [CHR 0x27] @ raw ''^%.$'' @ [CHR 0x27], raw ''| grep -v '' @ [CHR 0x27] @ raw ''^%.$'',
        raw ''| grep -v '' @ [CHR 0x22] @ raw ''^%.$'' @ [CHR 0x22], raw ''| grep -v '' @ [CHR 0x22] @ raw ''^%.$'']"

definition cut_marker :: string where
  "cut_marker = '' | cut -d'' @ [CHR 0x27] @ '' '' @ [CHR 0x27] @ '' -f2-''"

definition truncate_repeated_file_selection_artifact :: "string \<Rightarrow> string \<Rightarrow> string" where
  "truncate_repeated_file_selection_artifact command prompt =
     (let lower = to_ascii_lowercase prompt
      in if \<not> contains_any lower [''oldest'', ''newest'', ''most recent'', ''recent''] then command
         else case find_str command cut_marker of
           None \<Rightarrow> command
         | Some pos \<Rightarrow>
             let end_pos = pos + length cut_marker; after = trim_start (drop end_pos command)
             in if after \<noteq> [] \<and> \<not> contains lower ''open'' \<and> \<not> contains lower ''code'' \<and> \<not> contains lower ''vs code''
                   \<or> starts_with after ''.'' \<or> starts_with after ''-maxdepth'' \<or> contains after ''stat -f''
                then trim_end (take end_pos command) else command)"

text \<open>The loop over the markers: only a marker with such a tail ends it.\<close>

fun truncate_open_markers :: "string list \<Rightarrow> string \<Rightarrow> string" where
  "truncate_open_markers [] command = command"
| "truncate_open_markers (marker # markers) command =
     (case find_str command marker of
        None \<Rightarrow> truncate_open_markers markers command
      | Some pos \<Rightarrow>
          let end_pos = pos + length marker; after = trim_start (drop end_pos command)
          in if starts_with after ''|'' \<or> contains after ''find '' then trim_end (take end_pos command)
             else truncate_open_markers markers command)"

definition truncate_open_command_tail_artifact :: "string \<Rightarrow> string \<Rightarrow> string" where
  "truncate_open_command_tail_artifact command prompt =
     (let lower = to_ascii_lowercase prompt
      in if \<not> (contains lower ''open'' \<and> (contains lower ''code'' \<or> contains lower ''vs code'')) then command
         else truncate_open_markers
           ['' | xargs -I{} code {}'', '' | xargs -I {} code {}'', '' | xargs code''] command)"

definition normalize_xargs_placeholder_binding :: "string \<Rightarrow> string" where
  "normalize_xargs_placeholder_binding command =
     (if \<not> contains command ''{}'' \<or> contains command ''xargs -0 -I{}'' \<or> contains command ''xargs -I{}'' then command
      else replace_all (replace_all command ''| xargs -0 cp '' ''| xargs -0 -I{} cp '')
             ''| xargs cp '' ''| xargs -I{} cp '')"

section \<open>Arguments\<close>

definition looks_like_zsh_glob_qualifier_artifact :: "string \<Rightarrow> bool" where
  "looks_like_zsh_glob_qualifier_artifact token \<longleftrightarrow>
     contains token ''(.)'' \<or> contains token ''(/)'' \<or> contains token ''(*)'' \<or> ends_with token ''(.)''"

definition looks_like_grep_pattern_tail_artifact :: "string \<Rightarrow> bool" where
  "looks_like_grep_pattern_tail_artifact token =
     (let trimmed = trim_matches (any_of '',:;'') token
      in contains trimmed ''[]'' \<or> starts_with trimmed [CHR ''.'', CHR 0x22] \<or> starts_with trimmed [CHR ''.'', CHR 0x27]
         \<or> starts_with trimmed [CHR ''.'', backtick] \<or> looks_like_zsh_glob_qualifier_artifact trimmed)"

text \<open>The loop over the words: the words kept, and whether a dot was seen.\<close>

fun grep_words :: "bool \<Rightarrow> string list \<Rightarrow> string list" where
  "grep_words saw_dot [] = []"
| "grep_words saw_dot (token # tokens) =
     (if looks_like_grep_pattern_tail_artifact token
      then (if starts_with (trim_start token) ''.'' \<and> \<not> saw_dot then ''.'' # grep_words True tokens
            else grep_words saw_dot tokens)
      else token # grep_words (saw_dot \<or> token \<in> {''.'', ''./''}) tokens)"

definition normalize_grep_pattern_tail_artifacts :: "string \<Rightarrow> string" where
  "normalize_grep_pattern_tail_artifacts command =
     (let tokens = split_whitespace command
      in if first_word command \<notin> {''grep'', ''rg''} then command
         else if list_ex looks_like_grep_pattern_tail_artifact tokens then words_of (grep_words False tokens)
         else command)"

definition looks_like_embedded_command_path_artifact :: "string \<Rightarrow> bool" where
  "looks_like_embedded_command_path_artifact token =
     (case strip_prefix token ''.'' of
        None \<Rightarrow> False
      | Some rest \<Rightarrow>
          hd (split_chars (\<lambda>c. \<not> is_ascii_alphanumeric c \<and> c \<noteq> ''_'') rest)
            \<in> set [''find'', ''grep'', ''rg'', ''ls'', ''pwd'', ''date'', ''du'', ''tail'', ''mkdir''])"

definition current_dir_artifact :: "string \<Rightarrow> bool" where
  "current_dir_artifact token =
     (let unquoted = trim_matches (any_of quote_chars) token
      in starts_with unquoted ''./'' \<and> unquoted \<noteq> ''./'' \<or> starts_with unquoted ''.:''
         \<or> looks_like_embedded_command_path_artifact unquoted)"

definition normalize_unspecified_current_dir_path_args :: "string \<Rightarrow> string \<Rightarrow> string" where
  "normalize_unspecified_current_dir_path_args command prompt =
     (if filename_like_prompt_tokens prompt \<noteq> [] then command
      else case split_whitespace command of
        [] \<Rightarrow> command
      | program # args \<Rightarrow>
          if program \<notin> {''find'', ''grep'', ''rg'', ''ls'', ''du''} then command
          else if list_ex current_dir_artifact args
          then words_of (program # map (\<lambda>token. if current_dir_artifact token then requote token ''.'' else token) args)
          else command)"

definition normalize_find_print_artifacts :: "string \<Rightarrow> string" where
  "normalize_find_print_artifacts command =
     (let tokens = split_whitespace command; kept = takeWhile (\<lambda>t. \<not> starts_with t ''-print:'') tokens
      in if first_word command \<noteq> ''find'' then command
         else if kept = tokens then command else words_of (kept @ [''-print'']))"

definition wc_segment :: "string \<Rightarrow> string" where
  "wc_segment segment =
     (let trimmed = trim segment; tokens = split_whitespace trimmed
      in if first_word trimmed = ''wc'' then words_of (rev (dropWhile (\<lambda>t. t \<in> {''.'', ''./''}) (rev tokens)))
         else trimmed)"

definition normalize_pipeline_wc_artifacts :: "string \<Rightarrow> string \<Rightarrow> string" where
  "normalize_pipeline_wc_artifacts command prompt =
     (if filename_like_prompt_tokens prompt \<noteq> [] \<or> \<not> contains command ''| wc '' then command
      else join '' | '' (map wc_segment (split_on (CHR ''|'') command)))"

definition date_words :: "string list \<Rightarrow> string list" where
  "date_words args =
     (let front = takeWhile (\<lambda>t. \<not> starts_with t ''+'') args in front @ take 1 (drop (length front) args))"

definition normalize_no_arg_program_artifacts :: "string \<Rightarrow> string" where
  "normalize_no_arg_program_artifacts command =
     (case split_whitespace command of
        [] \<Rightarrow> command
      | program # args \<Rightarrow>
          if program = ''pwd'' then ''pwd''
          else if program = ''date'' then words_of (''date'' # date_words args) else command)"

definition normalize_mkdir_path_artifacts :: "string \<Rightarrow> string \<Rightarrow> string" where
  "normalize_mkdir_path_artifacts command prompt =
     (let tokens = split_whitespace command;
          kept = filter (\<lambda>t. \<not> (starts_with t ''./'' \<or> starts_with t ''.:'')) tokens
      in if filename_like_prompt_tokens prompt \<noteq> [] then command
         else if first_word command \<noteq> ''mkdir'' then command
         else if length kept \<noteq> length tokens then words_of kept else command)"

section \<open>The whole clean-up\<close>

definition cut_markers :: "string \<Rightarrow> string" where
  "cut_markers command =
     cut_at '':{}'' (cut_at ''command not found'' (cut_at ''zsh:'' (cut_at [CHR 0x5C, CHR ''n''] (trim command))))"

definition before_value :: "string \<Rightarrow> string" where
  "before_value command =
     replace_all (remove_bracketed_path_annotations (cut_markers command)) ''-type f:'' ''-type f''"

definition repair_tail :: "string \<Rightarrow> string \<Rightarrow> string" where
  "repair_tail cmd prompt =
     normalize_xargs_placeholder_binding
      (truncate_open_command_tail_artifact
       (truncate_repeated_file_selection_artifact
        (strip_repeated_echo_head_artifact
         (strip_trailing_incomplete_xargs
          (strip_trailing_incomplete_sed
           (strip_trailing_incomplete_grep
            (collapse_repeated_grep_v_slash
             (normalize_standard_home_dir_artifacts
              (normalize_first_command_token_artifact (strip_unbalanced_trailing_quote cmd)) prompt)))))) prompt) prompt)"

definition repair_arguments :: "string \<Rightarrow> string \<Rightarrow> string" where
  "repair_arguments cmd prompt =
     normalize_mkdir_path_artifacts
      (normalize_no_arg_program_artifacts
       (normalize_pipeline_wc_artifacts
        (normalize_find_print_artifacts
         (normalize_unspecified_current_dir_path_args
          (normalize_grep_pattern_tail_artifacts (strip_grep_dot_filter_artifact cmd)) prompt)) prompt)) prompt"

definition prompt_path_word :: "string \<Rightarrow> string \<Rightarrow> bool" where
  "prompt_path_word prompt token =
     (let stripped = trim_matches (any_of (quote_chars @ [backtick] @ '',:;)('')) token
      in \<not> all_digits stripped \<and> stripped \<in> set (filename_like_prompt_tokens prompt))"

definition cut_after_target :: "string \<Rightarrow> string \<Rightarrow> string" where
  "cut_after_target cmd prompt =
     (let tokens = split_whitespace cmd; program = first_word cmd;
          up_to = (\<lambda>P. takeWhile (\<lambda>t. \<not> P t) tokens); is_dot = (\<lambda>t. t \<in> {''.'', ''./'', ''./.''})
      in if tokens = [] then cmd
         else if program = ''ls'' \<and> list_ex is_dot tokens then words_of (up_to is_dot @ [''.''])
         else if program \<in> {''tail'', ''head'', ''cat'', ''less'', ''more'', ''wc''} \<and> list_ex (prompt_path_word prompt) tokens
         then words_of (take (Suc (length (up_to (prompt_path_word prompt)))) tokens)
         else cmd)"

definition sanitize_local_execute_command :: "string \<Rightarrow> string \<Rightarrow> string option" where
  "sanitize_local_execute_command command prompt =
     map_option (\<lambda>cmd. cut_after_target (repair_arguments (repair_tail cmd prompt) prompt) prompt)
       (clean_local_action_value (before_value command))"

end
