(* ===== verification/Action_Complete.thy ===== *)
theory Action_Complete
  imports Command_Sanitize Planning Readonly_Probe
begin

text \<open>
  When a command line from the model is complete (\<open>local_execute_action_looks_complete\<close>,
  \<open>readonly_command_candidate_is_complete\<close> and their tests in \<open>termlm-core/src/main.rs\<close>). The needles
  and their order are the source's. Functions of the same name in the planning module have other
  bodies; those here end in \<open>_act\<close>. The regex crate's captures are a parameter.
\<close>

section \<open>Regular expressions and numbers\<close>

text \<open>\<open>captures pattern text\<close>: the text of each group of the first match.\<close>

type_synonym captures = "string \<Rightarrow> string \<Rightarrow> (string option) list option"

definition capture_group :: "captures \<Rightarrow> string \<Rightarrow> nat \<Rightarrow> string \<Rightarrow> string option" where
  "capture_group caps pat i s =
     (case caps pat s of None \<Rightarrow> None | Some groups \<Rightarrow> if i < length groups then groups ! i else None)"

definition parse_u32 :: "string \<Rightarrow> nat option" where
  "parse_u32 s =
     (if s = [] \<or> \<not> list_all byte_digit s then None
      else let n = foldl (\<lambda>a c. 10 * a + (of_char c - 48)) 0 s in if n \<le> u32_max then Some n else None)"

definition NUMBER_RE :: string where
  "NUMBER_RE = raw ''%b(%d{1,5})%b''"

definition first_decimal_number :: "captures \<Rightarrow> string \<Rightarrow> nat option" where
  "first_decimal_number caps s = Option.bind (capture_group caps NUMBER_RE 1 s) parse_u32"

section \<open>Words and flags\<close>

definition prompt_contains_word_ascii :: "string \<Rightarrow> string \<Rightarrow> bool" where
  "prompt_contains_word_ascii lower_prompt word \<longleftrightarrow>
     word \<in> set (split_chars (\<lambda>ch. \<not> is_ascii_alphanumeric ch) lower_prompt)"

definition command_contains_word_act :: "string \<Rightarrow> string \<Rightarrow> bool" where
  "command_contains_word_act command word \<longleftrightarrow>
     word \<in> set (split_chars (\<lambda>ch. \<not> is_ascii_alphanumeric ch \<and> ch \<noteq> ''_'') command)"

definition trim_punct :: "string \<Rightarrow> string" where
  "trim_punct = trim_matches (any_of (quote_chars @ [backtick] @ '',;''))"

definition command_has_flag_act :: "string \<Rightarrow> string \<Rightarrow> string \<Rightarrow> bool" where
  "command_has_flag_act command short long \<longleftrightarrow>
     list_ex (\<lambda>w. let token = trim_punct w
                  in long \<noteq> [] \<and> token = long
                     \<or> starts_with token ''-'' \<and> \<not> starts_with token ''--'' \<and> short \<in> set (drop 1 (chars token)))
       (split_whitespace command)"

definition command_token_looks_like_path :: "string \<Rightarrow> bool" where
  "command_token_looks_like_path token =
     (let stripped = trim_punct token
      in stripped \<in> {''.'', ''./'', ''..'', ''../'', ''$HOME'', ''~'', ''/''}
         \<or> starts_with stripped ''./'' \<or> starts_with stripped ''../'' \<or> starts_with stripped ''/''
         \<or> starts_with stripped ''$HOME/'' \<or> starts_with stripped ''~/''
         \<or> contains stripped ''/'' \<or> contains stripped ''.'')"

section \<open>What the prompt asks for\<close>

definition prompt_requests_plain_listing_act :: "string \<Rightarrow> bool" where
  "prompt_requests_plain_listing_act prompt =
     (let lower = to_ascii_lowercase prompt
      in contains_any lower [''list'', ''show''] \<and> contains_any lower [''files'', ''contents'', ''everything'', ''entries'']
         \<and> \<not> contains_any lower
             [''not directories'', ''not files'', ''no directories'', ''no files'', ''exclude directories'',
              ''exclude files'', ''without directories'', ''without files'', ''only directories'', ''directories only'',
              ''directory only'', ''files only'', ''only files'', ''recursive'', ''subfolder'', ''subdirectories'', ''image'',
              ''photo'', ''markdown'', ''.md'', ''count'', ''how many'', ''oldest'', ''newest'', ''recent'', ''open'', ''copy'',
              ''move'', ''largest'', ''biggest'', ''larger'', ''smaller'', ''modified'', ''created'', ''sort'', ''by size''])"

definition prompt_mentions_standard_home_dir_act :: "string \<Rightarrow> bool" where
  "prompt_mentions_standard_home_dir_act prompt \<longleftrightarrow>
     contains_any (to_ascii_lowercase prompt) [''download'', ''desktop'', ''document'', ''picture'', ''movie'', ''music'']"

definition prompt_requests_recursive_scope_act :: "string \<Rightarrow> bool" where
  "prompt_requests_recursive_scope_act lower \<longleftrightarrow>
     contains_any lower [''recursive'', ''recursively'', ''subfolder'', ''subfolders'', ''subdirector'', ''under'']"

definition prompt_requests_directories_only_act :: "string \<Rightarrow> bool" where
  "prompt_requests_directories_only_act lower \<longleftrightarrow>
     contains_any lower [''directory'', ''directories''] \<and> contains_any lower [''only'', ''not files'', ''without files'']"

definition prompt_requests_delete_empty_directories_act :: "string \<Rightarrow> bool" where
  "prompt_requests_delete_empty_directories_act lower \<longleftrightarrow>
     contains lower ''empty'' \<and> contains lower ''director''
     \<and> (prompt_contains_word_ascii lower ''delete'' \<or> prompt_contains_word_ascii lower ''remove''
        \<or> prompt_contains_word_ascii lower ''rmdir'')"

definition prompt_requests_delete_action :: "string \<Rightarrow> bool" where
  "prompt_requests_delete_action lower =
     (if contains_any lower [''decide what to delete'', ''decide which'', ''before deleting'', ''before i delete''] then False
      else prompt_contains_word_ascii lower ''delete'' \<or> prompt_contains_word_ascii lower ''remove''
         \<or> prompt_contains_word_ascii lower ''rm'')"

definition prompt_requests_largest_files_act :: "string \<Rightarrow> bool" where
  "prompt_requests_largest_files_act lower \<longleftrightarrow>
     contains_any lower [''largest'', ''biggest''] \<and> contains_any lower [''file'', ''files'']"

definition count_words :: "(string \<times> nat) list" where
  "count_words =
     [(''one'', 1), (''two'', 2), (''three'', 3), (''four'', 4), (''five'', 5), (''six'', 6), (''seven'', 7), (''eight'', 8),
      (''nine'', 9), (''ten'', 10)]"

definition spelled_result_count :: "string \<Rightarrow> nat option" where
  "spelled_result_count prompt =
     map_option snd (find (\<lambda>(word, _). prompt_contains_word_ascii (to_ascii_lowercase prompt) word) count_words)"

definition prompt_requested_result_count :: "captures \<Rightarrow> string \<Rightarrow> nat \<Rightarrow> nat" where
  "prompt_requested_result_count caps prompt fallback =
     (let n = (case first_decimal_number caps prompt of
                 Some n \<Rightarrow> n
               | None \<Rightarrow> (case spelled_result_count prompt of Some n \<Rightarrow> n | None \<Rightarrow> fallback))
      in min (max n 1) 1000)"

definition requested_newest_file_count :: "captures \<Rightarrow> string \<Rightarrow> nat option" where
  "requested_newest_file_count caps prompt =
     (let lower = to_ascii_lowercase prompt
      in if \<not> contains_any lower [''newest'', ''most recent''] \<or> \<not> contains lower ''files'' then None
         else case first_decimal_number caps prompt of
                Some count \<Rightarrow> if 1 < count then Some count else None
              | None \<Rightarrow> None)"

section \<open>Incomplete fragments\<close>

text \<open>The loop over the characters; the last three are the quotes that are open and a pending escape.\<close>

fun shell_quote_state :: "rchar list \<Rightarrow> bool \<Rightarrow> bool \<Rightarrow> bool \<Rightarrow> bool \<times> bool \<times> bool" where
  "shell_quote_state [] single double escaped = (single, double, escaped)"
| "shell_quote_state (ch # cs) single double escaped =
     (if escaped then shell_quote_state cs single double False
      else if ch = [CHR 0x5C] \<and> \<not> single then shell_quote_state cs single double True
      else if ch = [CHR 0x27] \<and> \<not> double then shell_quote_state cs (\<not> single) double False
      else if ch = [CHR 0x22] \<and> \<not> single then shell_quote_state cs single (\<not> double) False
      else shell_quote_state cs single double False)"

definition has_unbalanced_shell_quotes :: "string \<Rightarrow> bool" where
  "has_unbalanced_shell_quotes command =
     (case shell_quote_state (chars command) False False False of (single, double, escaped) \<Rightarrow> single \<or> double \<or> escaped)"

definition command_trailing_token_requires_argument :: "string \<Rightarrow> bool" where
  "command_trailing_token_requires_argument token \<longleftrightarrow>
     token \<in> set
       [''-n'', ''-c'', ''-f'', ''-o'', ''-name'', ''-iname'', ''-path'', ''-maxdepth'', ''-mindepth'', ''-mtime'', ''-mmin'',
        ''-size'', ''-type'', ''-exec'', ''-regex'', ''-iregex'', ''--lines'', ''--bytes'', ''--output'', ''--file'']"

definition incomplete_endings :: "string list" where
  "incomplete_endings =
     [[CHR 0x5C], ''$'', ''|'', ''&&'', ''||'', '';'', ''-o'', ''-exec'', ''-name'', ''-iname'', ''-regex'', ''-iregex'']"

definition command_fragment_is_obviously_incomplete :: "string \<Rightarrow> bool" where
  "command_fragment_is_obviously_incomplete command =
     (let trimmed = trim_end command; tokens = split_whitespace trimmed; first = first_word trimmed;
          arg = (if 1 < length tokens then tokens ! 1 else [])
      in if trimmed = [] then True
         else if first \<in> {''for'', ''while''} \<and> \<not> contains trimmed '' done'' then True
         else if first = ''if'' \<and> \<not> contains trimmed '' fi'' then True
         else if first = ''mkdir'' \<and> length tokens = 1 then True
         else if first = ''mkdir'' \<and> length tokens \<le> 2 \<and> ''-p'' \<in> set tokens then True
         else if first = ''curl'' \<and> length tokens \<le> 2 \<and> (arg = [] \<or> arg \<in> {''if'', ''http'', ''https''}) then True
         else if list_ex (ends_with trimmed) incomplete_endings then True
         else if tokens \<noteq> [] \<and> last tokens = ''-'' then True
         else if tokens \<noteq> [] \<and> command_trailing_token_requires_argument (last tokens) then True
         else has_unbalanced_shell_quotes trimmed)"

section \<open>Single programs\<close>

definition requested_path_target :: "string \<Rightarrow> string option" where
  "requested_path_target prompt =
     map_option snd (find (\<lambda>(needle, _). contains (to_ascii_lowercase prompt) needle)
       [(''download'', ''$HOME/Downloads''), (''desktop'', ''$HOME/Desktop''), (''document'', ''$HOME/Documents''),
        (''picture'', ''$HOME/Pictures''), (''movie'', ''$HOME/Movies''), (''music'', ''$HOME/Music'')])"

definition path_like_word :: "string \<Rightarrow> bool" where
  "path_like_word token \<longleftrightarrow>
     token \<in> {''.'', ''./'', ''$PWD'', ''$HOME'', ''~'', ''/'', ''..'', ''../''}
     \<or> starts_with token ''./'' \<or> starts_with token ''../'' \<or> starts_with token ''/'' \<or> starts_with token ''$HOME/''
     \<or> starts_with token ''~/''"

definition command_mentions_requested_path :: "string \<Rightarrow> string \<Rightarrow> bool" where
  "command_mentions_requested_path command prompt =
     (case requested_path_target prompt of
        Some target \<Rightarrow> contains command target
      | None \<Rightarrow> 2 \<le> length (split_whitespace command) \<and> list_ex path_like_word (split_whitespace command))"

definition mkdir_action_looks_complete :: "string \<Rightarrow> string \<Rightarrow> bool" where
  "mkdir_action_looks_complete command prompt =
     (let tokens = split_whitespace command;
          has_target = list_ex (\<lambda>token. \<not> starts_with token ''-''
            \<and> trim_matches (any_of [CHR 0x27]) (trim_matches (any_of [CHR 0x22]) token) \<noteq> []) (drop 1 tokens)
      in if command_fragment_is_obviously_incomplete command then False
         else if length tokens < 2 then False
         else has_target
           \<and> (\<not> prompt_mentions_standard_home_dir_act prompt \<or> command_mentions_requested_path command prompt))"

definition lsof_action_looks_complete :: "captures \<Rightarrow> string \<Rightarrow> string \<Rightarrow> bool" where
  "lsof_action_looks_complete caps command prompt =
     (if \<not> contains (to_ascii_lowercase prompt) ''port'' then 2 \<le> length (split_whitespace command)
      else case first_decimal_number caps prompt of
             None \<Rightarrow> False
           | Some port \<Rightarrow> contains command ('':'' @ show_nat port) \<or> contains command (''-iTCP:'' @ show_nat port))"

definition du_action_looks_complete :: "string \<Rightarrow> string \<Rightarrow> bool" where
  "du_action_looks_complete command prompt =
     (if contains_any (to_ascii_lowercase prompt) [''each'', ''top-level'', ''top level'']
      then contains command ''$HOME/Documents''
        \<and> (starts_with command ''find '' \<and> contains command ''-mindepth 1'' \<and> contains command ''-maxdepth 1''
             \<and> contains command ''-exec du -sh'' \<or> contains command ''$HOME/Documents/*'')
      else starts_with command ''du '' \<and> (contains command '' -sh'' \<or> contains command '' -hs'')
        \<and> command_mentions_requested_path command prompt)"

definition command_mentions_image_extension_filter :: "string \<Rightarrow> bool" where
  "command_mentions_image_extension_filter command \<longleftrightarrow>
     contains_any (to_ascii_lowercase command)
       [''jpg'', ''jpeg'', ''png'', ''gif'', ''webp'', ''heic'', ''tif'', ''tiff'', ''bmp'']"

definition command_mentions_markdown_extension_filter :: "string \<Rightarrow> bool" where
  "command_mentions_markdown_extension_filter command \<longleftrightarrow>
     contains_any (to_ascii_lowercase command) [''.md'', ''.markdown'']"

definition ranks_by_cut :: "string \<Rightarrow> bool" where
  "ranks_by_cut command \<longleftrightarrow> contains command ''cut '' \<and> contains command ''-f2-''"

definition head_count :: "nat \<Rightarrow> string" where
  "head_count n = ''head -n '' @ show_nat n"

definition largest_looks_complete :: "captures \<Rightarrow> string \<Rightarrow> string \<Rightarrow> bool" where
  "largest_looks_complete caps command prompt =
     (let requested_count = prompt_requested_result_count caps prompt 1;
          has_requested_head = contains command (head_count requested_count)
            \<or> first_decimal_number caps prompt = None \<and> contains command ''head -n '';
          ranks_with_stat = contains command ''stat -f'' \<and> contains command ''%z'' \<and> contains command ''sort -nr''
            \<and> has_requested_head \<and> ranks_by_cut command;
          ranks_with_ls = contains command ''-type f'' \<and> contains command ''xargs''
            \<and> command_contains_word_act command ''ls'' \<and> command_has_flag_act command ''S'' [] \<and> has_requested_head
      in ranks_with_stat \<or> ranks_with_ls)"

text \<open>The requests for which a find command must do something particular, in the order of the code.\<close>

definition find_request_complete :: "captures \<Rightarrow> string \<Rightarrow> string \<Rightarrow> bool \<Rightarrow> bool" where
  "find_request_complete caps command prompt prints =
     (let lower = to_ascii_lowercase prompt
      in if contains_any lower [''directories'', ''directory''] \<and> contains lower ''only''
         then contains command ''-type d'' \<and> prints
         else if contains lower ''sort'' \<and> contains lower ''size''
         then contains command ''stat -f'' \<and> contains command ''%z'' \<and> contains command ''sort -nr''
           \<and> \<not> contains command ''head -n 1''
         else case requested_newest_file_count caps prompt of
           Some count \<Rightarrow>
             contains command ''stat -f'' \<and> contains command ''%m'' \<and> contains command ''sort -nr''
             \<and> contains command (head_count count) \<and> ranks_by_cut command
         | None \<Rightarrow>
             if contains lower ''empty'' \<and> contains lower ''director''
             then contains command ''-type d'' \<and> contains command ''-empty'' \<and> prints
             else if contains_any lower [''modified'', ''last 7'', ''last seven'']
             then contains command ''-mtime'' \<and> prints
             else if prompt_requests_largest_files_act lower then largest_looks_complete caps command prompt
             else if contains lower ''oldest''
             then contains command ''stat -f'' \<and> contains command ''sort -n'' \<and> contains command ''head -n 1''
               \<and> ranks_by_cut command
             else if contains_any lower [''newest'', ''most recent'']
             then contains command ''stat -f'' \<and> contains command ''sort -nr'' \<and> contains command ''head -n 1''
               \<and> ranks_by_cut command
             else prints)"

definition find_exec_unterminated :: "string \<Rightarrow> bool" where
  "find_exec_unterminated command \<longleftrightarrow>
     contains command '' -exec ''
     \<and> \<not> (contains command '' {} +'' \<or> contains command [CHR '' '', CHR 0x5C, CHR '';'']
           \<or> contains command [CHR '' '', CHR 0x27, CHR '';'', CHR 0x27])"

definition find_action_looks_complete :: "captures \<Rightarrow> string \<Rightarrow> string \<Rightarrow> bool" where
  "find_action_looks_complete caps command prompt =
     (let lower = to_ascii_lowercase prompt; tokens = split_whitespace command;
          has_path = list_ex command_token_looks_like_path (drop 1 tokens);
          prints = contains_any command ['' -print'', '' -print0'', '' -exec '', '' | '']
      in if prompt_requests_plain_listing_act prompt then False
         else if command_fragment_is_obviously_incomplete command then False
         else if length tokens < 4 then False
         else if \<not> has_path then False
         else if find_exec_unterminated command then False
         else if contains lower ''search'' \<and> contains_any lower [''phrase'', ''content'', ''contain'']
           \<and> \<not> contains command ''grep'' \<and> \<not> contains command ''rg '' then False
         else if prompt_requests_delete_empty_directories_act lower
         then contains command ''-type d'' \<and> contains command ''-empty'' \<and> contains command ''-delete''
         else if prompt_requests_delete_action lower
         then contains command ''-delete'' \<and> has_path \<and> (contains command ''-name'' \<or> contains command ''-iname'')
         else if contains_any lower [''image'', ''photo'', ''picture''] \<and> \<not> command_mentions_image_extension_filter command
         then False
         else if contains_any lower [''markdown'', ''.md''] \<and> \<not> command_mentions_markdown_extension_filter command
         then False
         else if \<not> prompt_requests_directories_only_act lower
           \<and> contains_any lower [''files'', ''file'', ''not directories''] \<and> \<not> contains command ''-type f''
         then False
         else find_request_complete caps command prompt prints)"

text \<open>The loop over the words of a head or tail command: the first operand, or \<open>None\<close> when an option
  lacks its value or no operand is left.\<close>

function head_tail_target :: "string list \<Rightarrow> string option" where
  "head_tail_target [] = None"
| "head_tail_target (token # rest) =
     (if token \<in> {''-n'', ''-c'', ''--lines'', ''--bytes''}
      then (if length rest < 2 \<or> \<not> list_ex (on_ascii byte_digit) (chars (rest ! 0)) then None
            else head_tail_target (drop 1 rest))
      else if starts_with token ''-n'' \<and> 2 < length token then head_tail_target rest
      else if starts_with token ''-'' then head_tail_target rest
      else Some (trim_punct token))"
  by pat_completeness auto
termination
  by (relation "measure length") auto

definition head_tail_action_looks_complete :: "string \<Rightarrow> string \<Rightarrow> bool" where
  "head_tail_action_looks_complete command prompt =
     (let tokens = split_whitespace command;
          prompt_paths = filter (\<lambda>token. \<not> all_digits token) (filename_like_prompt_tokens prompt)
      in if length tokens < 2 then False
         else case head_tail_target (drop 1 tokens) of
                None \<Rightarrow> False
              | Some target \<Rightarrow>
                  prompt_paths = [] \<or> list_ex (\<lambda>p. target = p \<or> contains command p) prompt_paths)"

definition text_search_action_looks_complete :: "string \<Rightarrow> string \<Rightarrow> bool" where
  "text_search_action_looks_complete command prompt =
     (let lower = to_ascii_lowercase prompt; tokens = split_whitespace command;
          recursive = contains_any command ['' -R'', '' -r'', '' --recursive''] \<or> first_word command = ''rg'';
          has_path = list_ex command_token_looks_like_path (drop 2 tokens)
      in if command_fragment_is_obviously_incomplete command then False
         else if length tokens < 3 then False
         else if contains lower ''recursive'' \<and> \<not> recursive then False
         else if recursive \<and> \<not> has_path then False
         else if contains_any lower [''markdown'', ''.md''] \<and> \<not> contains_any command [''.md'', ''*.md'', ''-iname''] then False
         else has_path \<or> \<not> contains lower ''directory'')"

definition archive_option :: "string \<Rightarrow> bool" where
  "archive_option token \<longleftrightarrow> token = ''-f'' \<or> starts_with token ''-'' \<and> contains token ''f''"

definition tar_action_looks_complete :: "string \<Rightarrow> bool" where
  "tar_action_looks_complete command =
     (let tokens = split_whitespace command
      in if command_fragment_is_obviously_incomplete command then False
         else if length tokens < 4 then False
         else case dropWhile (\<lambda>t. \<not> archive_option t) (drop 1 tokens) of
                option # archive # operands \<Rightarrow> contains archive ''.tar'' \<and> list_ex (\<lambda>t. \<not> starts_with t ''-'') operands
              | _ \<Rightarrow> False)"

section \<open>Complete actions\<close>

text \<open>The tests by program and request on the cleaned command, in the order of the code.\<close>

definition ranked_looks_complete :: "captures \<Rightarrow> string \<Rightarrow> string \<Rightarrow> bool" where
  "ranked_looks_complete caps cmd prompt =
     (let lower = to_ascii_lowercase prompt
      in if contains lower ''oldest''
         then contains cmd ''sort -n'' \<and> contains cmd ''head -n 1'' \<and> ranks_by_cut cmd
         else case requested_newest_file_count caps prompt of
           Some count \<Rightarrow> contains cmd ''sort -nr'' \<and> contains cmd (head_count count) \<and> ranks_by_cut cmd
         | None \<Rightarrow>
             if contains_any lower [''newest'', ''most recent'']
             then contains cmd ''sort -nr'' \<and> contains cmd ''head -n 1'' \<and> ranks_by_cut cmd
             else if contains_any lower [''storage'', ''disk usage'', ''usage''] then du_action_looks_complete cmd prompt
             else 2 \<le> length (split_whitespace cmd) \<and> \<not> pc_ambiguous (parse_command cmd))"

definition program_looks_complete :: "captures \<Rightarrow> string \<Rightarrow> string \<Rightarrow> bool" where
  "program_looks_complete caps cmd prompt =
     (let lower = to_ascii_lowercase prompt; first = first_word cmd
      in if first = ''find'' then find_action_looks_complete caps cmd prompt
         else if first = ''mkdir'' then mkdir_action_looks_complete cmd prompt
         else if first = ''lsof'' then lsof_action_looks_complete caps cmd prompt
         else if first = ''git'' \<and> contains lower ''current'' \<and> contains lower ''branch''
         then cmd = ''git branch --show-current''
         else if first = ''curl'' \<and> contains lower ''ip''
         then contains_any cmd [''ifconfig.me'', ''icanhazip.com'', ''api.ipify.org'']
         else if first \<in> {''head'', ''tail''} then head_tail_action_looks_complete cmd prompt
         else if first \<in> {''grep'', ''rg''} then text_search_action_looks_complete cmd prompt
         else if first = ''tar'' then tar_action_looks_complete cmd
         else if contains lower ''open'' \<and> contains_any lower [''code'', ''vs code'']
         then contains cmd '' code '' \<or> ends_with cmd '' code {}'' \<or> contains cmd '' code {}''
         else ranked_looks_complete caps cmd prompt)"

definition cleaned_looks_complete :: "captures \<Rightarrow> string \<Rightarrow> string \<Rightarrow> bool" where
  "cleaned_looks_complete caps cmd prompt =
     (let lower = to_ascii_lowercase prompt; first = first_word cmd
      in if cmd = [] \<or> command_fragment_is_obviously_incomplete cmd then False
         else if validate_prompt_effects cmd prompt \<noteq> [] then False
         else if cmd = ''pwd'' \<or> starts_with cmd ''pwd '' then True
         else if first \<in> {''echo'', ''printf''}
         then (if prompt_mentions_standard_home_dir_act prompt then command_mentions_requested_path cmd prompt
               else \<not> ends_with cmd ''$'' \<and> 2 \<le> length (split_whitespace cmd))
         else if starts_with cmd ''ls '' \<and> prompt_requests_plain_listing_act prompt
         then command_mentions_requested_path cmd prompt
         else if contains_any lower [''how many'', ''count''] \<and> contains lower ''file'' then contains cmd ''wc -l''
         else program_looks_complete caps cmd prompt)"

text \<open>\<open>None\<close> is the panic of the clean-up.\<close>

definition local_execute_action_looks_complete :: "captures \<Rightarrow> string \<Rightarrow> string \<Rightarrow> bool option" where
  "local_execute_action_looks_complete caps v prompt =
     (let line = trim v
      in if line = [] then Some False
         else if command_fragment_is_obviously_incomplete line then Some False
         else map_option (\<lambda>cmd. cleaned_looks_complete caps cmd prompt) (sanitize_local_execute_command line prompt))"

definition prompt_asks_directory :: "string \<Rightarrow> bool" where
  "prompt_asks_directory lower \<longleftrightarrow>
     contains_any lower [''what directory'', ''which directory'', ''where am i'', ''current directory''] \<or> trim lower = ''pwd''"

definition prompt_asks_ranked_file :: "string \<Rightarrow> bool" where
  "prompt_asks_ranked_file lower \<longleftrightarrow>
     contains_any lower [''oldest'', ''newest'', ''most recent''] \<and> contains lower ''file''"

definition readonly_command_candidate_is_complete :: "string \<Rightarrow> string \<Rightarrow> bool" where
  "readonly_command_candidate_is_complete line prompt =
     (let command = trim line; tokens = pc_tokens (parse_command command);
          first = (case tokens of [] \<Rightarrow> [] | t # _ \<Rightarrow> t);
          p = to_ascii_lowercase prompt; c = to_ascii_lowercase command
      in if command = [] \<or> command_fragment_is_obviously_incomplete command then False
         else if (case validate_readonly_command_tokens command of Inl _ \<Rightarrow> True | Inr _ \<Rightarrow> False) then False
         else if tokens = [] then False
         else if length tokens = 1
           \<and> first \<notin> {''pwd'', ''date'', ''whoami'', ''id'', ''uname'', ''sw_vers'', ''uptime''} then False
         else if prompt_asks_directory p then first = ''pwd''
         else if prompt_requests_file_count p then contains c ''wc -l'' \<and> contains c ''-type f''
         else if contains_any p [''storage'', ''disk usage'', ''how much'']
         then first = ''du'' \<and> (contains c '' -sh'' \<or> contains c '' -hs'')
         else if prompt_asks_ranked_file p
         then contains c ''find '' \<and> contains c ''-type f'' \<and> contains c ''stat -f''
           \<and> contains c (if contains p ''oldest'' then ''sort -n'' else ''sort -nr'')
           \<and> contains c ''head -n 1'' \<and> ranks_by_cut c
         else True)"

end
