(* ===== verification/Action_Templates.thy ===== *)
theory Action_Templates
  imports Action_Complete Config_Data Draft_Checks Protocol
begin

text \<open>
  Commands the daemon builds itself, from retrieved documentation and from the prompt
  (\<open>materialize_*\<close> in \<open>termlm-core/src/main.rs\<close>). The variable \<open>HOME\<close> and the regex crate are parameters.
\<close>

section \<open>Tool calls and their environment\<close>

record local_call =
  lc_name :: string
  lc_arguments :: json

record retrieved_chunk =
  rc_command_name :: string
  rc_text :: string

record action_env =
  ac_captures :: captures
  ac_env_var :: "string \<Rightarrow> string option"

definition json_get :: "string \<Rightarrow> json \<Rightarrow> json option" where
  "json_get k v = (case v of JObj kvs \<Rightarrow> map_of kvs k | _ \<Rightarrow> None)"

definition json_str :: "json \<Rightarrow> string option" where
  "json_str v = (case v of JStr s \<Rightarrow> Some s | _ \<Rightarrow> None)"

text \<open>The command of a call: \<open>cmd\<close>, or else \<open>command\<close>, when it is a string.\<close>

definition call_command :: "local_call \<Rightarrow> string option" where
  "call_command call =
     (case json_get ''cmd'' (lc_arguments call) of
        Some v \<Rightarrow> json_str v
      | None \<Rightarrow> Option.bind (json_get ''command'' (lc_arguments call)) json_str)"

definition execute_call :: "string \<Rightarrow> string \<Rightarrow> string list \<Rightarrow> local_call" where
  "execute_call cmd intent names =
     \<lparr>lc_name = ''execute_shell_command'',
      lc_arguments = JObj [(''cmd'', JStr cmd), (''commands_used'', JArr (map JStr names)),
        (''expected_effect'', JStr ''execute validated shell command''), (''intent'', JStr intent)]\<rparr>"

definition readonly_call :: "string \<Rightarrow> string \<Rightarrow> local_call" where
  "readonly_call cmd reason =
     \<lparr>lc_name = ''run_readonly_command'', lc_arguments = JObj [(''cmd'', JStr cmd), (''reason'', JStr reason)]\<rparr>"

section \<open>Arguments taken from the prompt\<close>

definition prompt_scope_path_argument :: "string \<Rightarrow> string" where
  "prompt_scope_path_argument prompt =
     (let lower = to_ascii_lowercase prompt
      in if contains lower ''desktop'' then ''$HOME/Desktop''
         else if contains lower ''downloads'' then ''$HOME/Downloads''
         else if contains lower ''documents'' then ''$HOME/Documents'' else ''.'')"

definition readonly_prompt_scope_path_argument :: "action_env \<Rightarrow> string \<Rightarrow> string" where
  "readonly_prompt_scope_path_argument env prompt =
     (case (prompt_standard_home_dir_name prompt, ac_env_var env ''HOME'') of
        (Some dir_name, Some home) \<Rightarrow>
          if trim home \<noteq> [] then shell_quote_word (home @ ''/'' @ dir_name) else ''.''
      | _ \<Rightarrow> ''.'')"

definition quoted :: "string \<Rightarrow> string" where
  "quoted s = [CHR 0x27] @ s @ [CHR 0x27]"

definition md_filter :: string where
  "md_filter = raw ''%( -iname '' @ quoted ''*.md'' @ '' -o -iname '' @ quoted ''*.markdown'' @ raw '' %)''"

definition image_filter :: string where
  "image_filter =
     raw ''%( -iname '' @ join '' -o -iname '' (map (\<lambda>ext. quoted (''*.'' @ ext))
       [''jpg'', ''jpeg'', ''png'', ''gif'', ''webp'', ''heic'', ''tif'', ''tiff'', ''bmp'']) @ raw '' %)''"

definition prompt_file_extension_filter :: "string \<Rightarrow> string option" where
  "prompt_file_extension_filter lower =
     (if contains_any lower [''markdown'', ''.md''] then Some md_filter
      else if contains_any lower [''image'', ''images'', ''photo'', ''picture''] then Some image_filter else None)"

definition prompt_filename_match_pattern :: "string \<Rightarrow> string option" where
  "prompt_filename_match_pattern prompt =
     find (\<lambda>t. contains t ''.'' \<and> \<not> starts_with t ''-'' \<and> \<not> contains t ''/'') (filename_like_prompt_tokens prompt)"

definition prompt_file_path_argument :: "string \<Rightarrow> string option" where
  "prompt_file_path_argument prompt = find (\<lambda>t. \<not> starts_with t ''-'') (filename_like_prompt_tokens prompt)"

definition NAMED_RE :: string where
  "NAMED_RE =
     raw ''(?i)%bnamed%s+(?:'' @ [CHR 0x22] @ ''([^'' @ [CHR 0x22] @ '']+)'' @ [CHR 0x22, CHR ''|'', CHR 0x27]
     @ ''([^'' @ [CHR 0x27] @ '']+)'' @ [CHR 0x27]
     @ raw ''|([A-Za-z0-9._ -]+?))(?:,|%s+and%b|%s+folder%b|%s+directory%b|$)''"

definition prompt_destination_leaf :: "captures \<Rightarrow> string \<Rightarrow> string option" where
  "prompt_destination_leaf caps prompt =
     (case caps NAMED_RE prompt of
        None \<Rightarrow> None
      | Some groups \<Rightarrow>
          (case find (\<lambda>g. g \<noteq> None) (take 3 (drop 1 groups)) of
             Some (Some g) \<Rightarrow>
               let cleaned = trim (trim_matches (any_of (quote_chars @ [backtick] @ '',;:'')) (trim g))
               in if cleaned = [] \<or> contains cleaned ''/'' \<or> contains cleaned [CHR 0x5C] \<or> starts_with cleaned ''.''
                  then None else Some cleaned
           | _ \<Rightarrow> None))"

definition prompt_destination_dir_argument :: "captures \<Rightarrow> string \<Rightarrow> string \<Rightarrow> string option" where
  "prompt_destination_dir_argument caps prompt source_path =
     map_option (\<lambda>leaf.
         let base = (if contains (to_ascii_lowercase prompt) ''desktop'' then ''$HOME/Desktop''
                     else if source_path = ''.'' then ''.'' else source_path)
         in if base = ''.'' then ''./'' @ leaf else base @ ''/'' @ leaf)
       (prompt_destination_leaf caps prompt)"

definition QUOTED_RE :: string where
  "QUOTED_RE = [CHR 0x22] @ ''([^'' @ [CHR 0x22] @ '']+)'' @ [CHR 0x22, CHR ''|'', CHR 0x27] @ ''([^'' @ [CHR 0x27] @ '']+)''
     @ [CHR 0x27]"

definition search_stop_words :: "string list" where
  "search_stop_words =
     [''case'', ''case-insensitive'', ''insensitive'', ''insensitively'', ''in'', ''inside'', ''under'', ''from'', ''within'',
      ''this'', ''current'', ''directory'', ''folder'']"

definition after_marker :: "string list \<Rightarrow> string \<Rightarrow> string option" where
  "after_marker tokens marker =
     find (\<lambda>t. t \<noteq> [] \<and> \<not> list_ex (eq_ignore_ascii_case t) search_stop_words)
       (drop 1 (dropWhile (\<lambda>t. \<not> eq_ignore_ascii_case t marker) tokens))"

definition shouted :: "string \<Rightarrow> bool" where
  "shouted token \<longleftrightarrow>
     1 < length token \<and> list_ex is_ascii_alphabetic (chars token)
     \<and> list_all (on_ascii (\<lambda>b. byte_upper b \<or> byte_digit b \<or> b = CHR ''_'' \<or> b = CHR ''-'')) (chars token)"

definition some_of :: "('a \<Rightarrow> 'b option) \<Rightarrow> 'a list \<Rightarrow> 'b option" where
  "some_of f xs = (case filter (\<lambda>x. f x \<noteq> None) xs of [] \<Rightarrow> None | x # _ \<Rightarrow> f x)"

definition prompt_content_search_pattern :: "captures \<Rightarrow> string \<Rightarrow> string option" where
  "prompt_content_search_pattern caps prompt =
     (let quoted_value = (case caps QUOTED_RE prompt of
            None \<Rightarrow> None
          | Some groups \<Rightarrow>
              (case find (\<lambda>g. g \<noteq> None) (take 2 (drop 1 groups)) of Some (Some g) \<Rightarrow> Some (trim g) | _ \<Rightarrow> None));
          tokens = map prompt_token (split_whitespace prompt)
      in case quoted_value of
           Some (b # bs) \<Rightarrow> Some (b # bs)
         | _ \<Rightarrow>
             (case some_of (after_marker tokens)
                     [''for'', ''containing'', ''contains'', ''matching'', ''matches'', ''grep''] of
                Some token \<Rightarrow> Some token
              | None \<Rightarrow> find shouted tokens))"

section \<open>Requests\<close>

definition prompt_requests_hidden_entries :: "string \<Rightarrow> bool" where
  "prompt_requests_hidden_entries lower \<longleftrightarrow> contains_any lower [''hidden'', ''dotfile'', ''dot file'', ''dot-file'']"

definition prompt_requests_file_transfer :: "string \<Rightarrow> bool" where
  "prompt_requests_file_transfer lower \<longleftrightarrow>
     list_ex (prompt_contains_word_ascii lower) [''copy'', ''move'', ''duplicate'', ''transfer'']"

definition prompt_requests_extension_filtered_listing :: "string \<Rightarrow> bool" where
  "prompt_requests_extension_filtered_listing lower \<longleftrightarrow>
     contains_any lower [''list'', ''show'', ''find''] \<and> contains_any lower [''file'', ''files'']
     \<and> prompt_file_extension_filter lower \<noteq> None"

definition prompt_requests_open_most_recent_in_code :: "string \<Rightarrow> bool" where
  "prompt_requests_open_most_recent_in_code lower \<longleftrightarrow>
     contains_any lower [''open'', ''launch''] \<and> contains_any lower [''code'', ''vs code'']
     \<and> contains_any lower [''most recent'', ''newest'', ''latest'']"

definition prompt_requests_content_search_act :: "string \<Rightarrow> bool" where
  "prompt_requests_content_search_act lower \<longleftrightarrow>
     contains_any lower [''search'', ''grep'', ''containing'', ''contains'', ''matches'']"

definition prompt_requests_case_insensitive_match :: "string \<Rightarrow> bool" where
  "prompt_requests_case_insensitive_match lower \<longleftrightarrow>
     contains_any lower [''case insensitive'', ''case-insensitive'', ''ignore case'']"

definition wants_files_only :: "string \<Rightarrow> bool" where
  "wants_files_only lower \<longleftrightarrow>
     contains_any lower [''file'', ''files'']
     \<and> contains_any lower [''not directories'', ''not directory'', ''files only'', ''regular files'']"

section \<open>Templates\<close>

text \<open>The loop over the backticks of the documentation.\<close>

function backticked_command_templates :: "string \<Rightarrow> string list" where
  "backticked_command_templates s =
     (case find_str s [backtick] of
        None \<Rightarrow> []
      | Some start \<Rightarrow>
          let rest = drop (start + 1) s
          in case find_str rest [backtick] of
               None \<Rightarrow> []
             | Some end_pos \<Rightarrow>
                 let candidate = trim (take end_pos rest); more = backticked_command_templates (drop (end_pos + 1) rest)
                 in if candidate \<noteq> [] then candidate # more else more)"
  by pat_completeness auto
termination
  by (relation "measure length") (auto dest!: find_str_bound)

declare backticked_command_templates.simps [simp del]

definition depth_option :: "string \<Rightarrow> string" where
  "depth_option lower = (if prompt_requests_recursive_scope_act lower then [] else '' -maxdepth 1'')"

definition stat_sort_tail :: "string \<Rightarrow> string \<Rightarrow> string \<Rightarrow> string" where
  "stat_sort_tail fmt sorter n =
     '' -exec stat -f '' @ quoted fmt @ '' {} + | '' @ sorter @ '' | head -n '' @ n @ '' | cut -d'' @ quoted '' '' @ '' -f2-''"

definition transfer_command :: "string \<Rightarrow> string \<Rightarrow> string \<Rightarrow> string" where
  "transfer_command dest src filter_text =
     ''mkdir -p '' @ dest @ '' && find '' @ src @ '' -path '' @ dest @ '' -prune -o -type f '' @ filter_text
     @ '' -print0 | xargs -0 -I{} cp -p {} '' @ dest @ ''/''"

definition materialize_recursive_file_transfer_command :: "captures \<Rightarrow> string \<Rightarrow> string option" where
  "materialize_recursive_file_transfer_command caps prompt =
     (let lower = to_ascii_lowercase prompt; src = prompt_scope_path_argument prompt
      in if \<not> contains_any lower [''copy'', ''duplicate''] then None
         else case (prompt_file_extension_filter lower, prompt_destination_dir_argument caps prompt src) of
                (Some f, Some dest) \<Rightarrow> Some (transfer_command dest src f)
              | _ \<Rightarrow> None)"

text \<open>One template of find: the tests in the order of the code.\<close>

definition find_by_name :: "string \<Rightarrow> string \<Rightarrow> string \<Rightarrow> string \<Rightarrow> string" where
  "find_by_name path depth lower pat =
     ''find '' @ path @ depth @ '' -type f '' @ (if prompt_requests_case_insensitive_match lower then ''-iname'' else ''-name'')
     @ '' '' @ shell_quote_word pat @ '' -print''"

definition find_template_files_only :: "string \<Rightarrow> string \<Rightarrow> string \<Rightarrow> string" where
  "find_template_files_only lower path template =
     (let cmd = replace_all template ''PATH'' path
      in if prompt_requests_recursive_scope_act lower then replace_all cmd '' -maxdepth N'' []
         else replace_all cmd ''N'' ''1'')"

definition find_template_selections :: "captures \<Rightarrow> string \<Rightarrow> string \<Rightarrow> string option" where
  "find_template_selections caps template prompt =
     (let lower = to_ascii_lowercase prompt; path = prompt_scope_path_argument prompt; depth = depth_option lower;
          has = contains template;
          named = (if has ''PATTERN'' \<and> (has ''-name'' \<or> has ''-iname'') then prompt_filename_match_pattern prompt else None);
          opened = (if has ''FILTER'' \<and> has ''code'' \<and> prompt_requests_open_most_recent_in_code lower
                    then prompt_file_extension_filter lower else None);
          listed = (if has ''FILTER'' \<and> prompt_requests_extension_filtered_listing lower
                      \<and> \<not> prompt_requests_open_most_recent_in_code lower
                    then prompt_file_extension_filter lower else None)
      in case named of
           Some pat \<Rightarrow> Some (find_by_name path depth lower pat)
         | None \<Rightarrow>
             (case opened of
                Some f \<Rightarrow>
                  Some (''find '' @ path @ depth @ '' -type f '' @ f @ stat_sort_tail ''%m %N'' ''sort -nr'' ''1''
                        @ '' | xargs -I{} code {}'')
              | None \<Rightarrow>
                  map_option (\<lambda>f. ''find '' @ path @ depth @ '' -type f '' @ f @ '' -print'') listed))"

definition materialize_find_template :: "captures \<Rightarrow> string \<Rightarrow> string \<Rightarrow> string option" where
  "materialize_find_template caps template prompt =
     (let lower = to_ascii_lowercase prompt; path = prompt_scope_path_argument prompt; depth = depth_option lower;
          has = contains template;
          count = prompt_requested_result_count caps prompt (if contains lower ''files'' then 10 else 1)
      in if \<not> has ''PATH'' then None
         else if has ''-type d'' \<and> prompt_requests_directories_only_act lower
         then Some (''find '' @ path @ depth @ '' -type d -print'')
         else if has ''-type d'' \<and> has ''-empty'' \<and> prompt_requests_delete_empty_directories_act lower
         then Some (''find '' @ path @ depth @ '' -type d -empty -delete'')
         else if has ''-type f'' \<and> prompt_requests_largest_files_act lower
         then Some (''find '' @ path @ depth @ '' -type f'' @ stat_sort_tail ''%z %N'' ''sort -nr'' (show_nat count))
         else if has ''-type f'' \<and> wants_files_only lower then Some (find_template_files_only lower path template)
         else find_template_selections caps template prompt)"

definition materialize_search_template :: "captures \<Rightarrow> string \<Rightarrow> string \<Rightarrow> string \<Rightarrow> string option" where
  "materialize_search_template caps name template prompt =
     (let lower = to_ascii_lowercase prompt;
          case_flag = (if prompt_requests_case_insensitive_match lower then ''-i '' else []);
          recursive_flag = (if prompt_requests_recursive_scope_act lower then ''-R '' else [])
      in if \<not> (contains template ''PATTERN'' \<and> contains template ''PATH'' \<and> prompt_requests_content_search_act lower) then None
         else map_option (\<lambda>pat.
             (if name = ''rg'' then ''rg '' @ case_flag else ''grep '' @ recursive_flag @ case_flag)
             @ shell_quote_word pat @ '' '' @ prompt_scope_path_argument prompt)
           (prompt_content_search_pattern caps prompt))"

definition materialize_tail_template :: "captures \<Rightarrow> string \<Rightarrow> string \<Rightarrow> string option" where
  "materialize_tail_template caps template prompt =
     (let lower = to_ascii_lowercase prompt
      in if \<not> (contains template ''N'' \<and> contains template ''FILE'' \<and> contains_any lower [''last'', ''tail'']) then None
         else map_option (\<lambda>path.
             ''tail -n '' @ show_nat (case first_decimal_number caps prompt of None \<Rightarrow> 10 | Some n \<Rightarrow> n) @ '' ''
             @ shell_quote_word path)
           (prompt_file_path_argument prompt))"

definition materialize_one_template :: "captures \<Rightarrow> string \<Rightarrow> string \<Rightarrow> string \<Rightarrow> string option" where
  "materialize_one_template caps name prompt template =
     (if \<not> starts_with template name then None
      else if name = ''find'' then materialize_find_template caps template prompt
      else if name = ''tail'' then materialize_tail_template caps template prompt
      else if name \<in> {''grep'', ''rg''} then materialize_search_template caps name template prompt
      else None)"

definition materialize_ls_listing :: "captures \<Rightarrow> string \<Rightarrow> string \<Rightarrow> string option" where
  "materialize_ls_listing caps docs prompt =
     (let lower = to_ascii_lowercase prompt; lower_docs = to_ascii_lowercase docs; path = prompt_scope_path_argument prompt;
          all = contains docs ''-a'' \<or> contains_any lower_docs [''--all'', ''-a,''];
          almost = contains docs ''-A'' \<or> contains_any lower_docs [''--almost-all'', ''almost all''];
          count = prompt_requested_result_count caps prompt (if contains lower ''files'' then 10 else 1)
      in if prompt_requests_hidden_entries lower \<and> (all \<or> almost)
         then Some (''ls '' @ (if almost then ''-A'' else ''-a'') @ '' '' @ path)
         else if prompt_requests_largest_files_act lower \<and> (contains docs ''-S'' \<or> contains lower_docs ''sort by size'')
         then Some (''find '' @ path @ depth_option lower @ '' -type f -print0 | xargs -0 ls -lS | '' @ head_count count)
         else None)"

definition materialize_retrieved_command_template :: "captures \<Rightarrow> string \<Rightarrow> string \<Rightarrow> string \<Rightarrow> string option" where
  "materialize_retrieved_command_template caps name docs prompt =
     (let lower = to_ascii_lowercase prompt;
          transfer = (if name = ''find'' \<and> contains docs ''find'' \<and> contains docs ''FILTER'' \<and> prompt_requests_file_transfer lower
                      then materialize_recursive_file_transfer_command caps prompt else None)
      in case transfer of
           Some cmd \<Rightarrow> Some cmd
         | None \<Rightarrow>
             (case some_of (materialize_one_template caps name prompt) (backticked_command_templates docs) of
                Some cmd \<Rightarrow> Some cmd
              | None \<Rightarrow> if name = ''ls'' then materialize_ls_listing caps docs prompt else None))"

section \<open>Calls built from chunks and prompts\<close>

definition materialize_from_chunks :: "captures \<Rightarrow> string \<Rightarrow> retrieved_chunk list \<Rightarrow> string option" where
  "materialize_from_chunks caps prompt chunks =
     some_of (\<lambda>chunk. materialize_retrieved_command_template caps (rc_command_name chunk) (rc_text chunk) prompt) chunks"

definition materialize_retrieved_command_from_prompt ::
  "captures \<Rightarrow> retrieved_chunk list \<Rightarrow> string \<Rightarrow> local_call option" where
  "materialize_retrieved_command_from_prompt caps chunks prompt =
     map_option (\<lambda>cmd. execute_call cmd
         ''retrieval-backed command template selected after model produced no usable command'' (extract_command_names cmd 8))
       (materialize_from_chunks caps prompt chunks)"

definition simple_command_name_candidate :: "string \<Rightarrow> string option" where
  "simple_command_name_candidate line =
     (let trimmed = trim (trim_matches (any_of [backtick]) (trim line))
      in if trimmed = [] \<or> length (split_whitespace trimmed) \<noteq> 1 then None
         else if list_all (\<lambda>ch. is_ascii_alphanumeric ch \<or> any_of ''_-.'' ch) (chars trimmed)
         then Some (to_ascii_lowercase trimmed) else None)"

text \<open>Removal of the zero-width characters U+200B, U+200C and U+FEFF, and the first line that is not blank.\<close>

definition drop_invisible :: "string \<Rightarrow> string" where
  "drop_invisible s = concat (filter (\<lambda>c. c \<notin> set (zero_width @ [[CHR 0xEF, CHR 0xBB, CHR 0xBF]])) (chars s))"

definition first_line :: "string \<Rightarrow> string option" where
  "first_line s = find (\<lambda>l. l \<noteq> []) (map trim (lines (drop_invisible s)))"

definition materialize_retrieved_command_from_bare_model_output ::
  "captures \<Rightarrow> string \<Rightarrow> retrieved_chunk list \<Rightarrow> string \<Rightarrow> local_call option" where
  "materialize_retrieved_command_from_bare_model_output caps s chunks prompt =
     (case Option.bind (first_line s)
             (\<lambda>l. simple_command_name_candidate (trim (trim_matches (any_of [backtick]) l))) of
        None \<Rightarrow> None
      | Some name \<Rightarrow>
          let same = (\<lambda>chunk. eq_ignore_ascii_case (rc_command_name chunk) name)
          in map_option (\<lambda>cmd. execute_call cmd ''retrieval-backed command template selected by local model''
                 (extract_command_names cmd 8))
               (materialize_from_chunks caps prompt (filter same chunks @ filter (\<lambda>c. \<not> same c) chunks)))"

definition ranked_file_probe :: "string \<Rightarrow> string \<Rightarrow> string" where
  "ranked_file_probe path lower =
     ''find '' @ path @ depth_option lower @ '' -type f''
     @ stat_sort_tail ''%m %N'' (if contains lower ''oldest'' then ''sort -n'' else ''sort -nr'') ''1''"

definition materialize_retrieved_readonly_command_template ::
  "action_env \<Rightarrow> string \<Rightarrow> string \<Rightarrow> string \<Rightarrow> string option" where
  "materialize_retrieved_readonly_command_template env name docs prompt =
     (let lower = to_ascii_lowercase prompt
      in if name \<noteq> ''find'' then None
         else if \<not> prompt_asks_ranked_file lower then None
         else if \<not> contains docs ''PATH'' \<or> \<not> contains docs ''stat -f'' \<or> \<not> contains docs ''cut -d'' then None
         else Some (ranked_file_probe (readonly_prompt_scope_path_argument env prompt) lower))"

definition materialize_retrieved_readonly_command_from_prompt ::
  "action_env \<Rightarrow> retrieved_chunk list \<Rightarrow> string \<Rightarrow> local_call option" where
  "materialize_retrieved_readonly_command_from_prompt env chunks prompt =
     (case some_of (\<lambda>chunk.
              materialize_retrieved_readonly_command_template env (rc_command_name chunk) (rc_text chunk) prompt) chunks of
        None \<Rightarrow> None
      | Some cmd \<Rightarrow>
          if \<not> readonly_command_candidate_is_complete cmd prompt \<or> validate_prompt_effects cmd prompt \<noteq> [] then None
          else Some (readonly_call cmd
            ''read-only command materialized from retrieved command docs after local model produced an incomplete probe''))"

definition readonly_command_for :: "action_env \<Rightarrow> string \<Rightarrow> string option" where
  "readonly_command_for env prompt =
     (let lower = to_ascii_lowercase prompt; path = readonly_prompt_scope_path_argument env prompt
      in if prompt_requests_file_count lower
         then Some (''find '' @ path @ depth_option lower @ '' -type f -print | wc -l'')
         else if contains_any lower [''storage'', ''disk usage'', ''how much''] then Some (''du -sh '' @ path)
         else if prompt_asks_directory lower then Some ''pwd''
         else if prompt_asks_ranked_file lower then Some (ranked_file_probe path lower)
         else None)"

definition materialize_readonly_command_from_prompt :: "action_env \<Rightarrow> string \<Rightarrow> local_call option" where
  "materialize_readonly_command_from_prompt env prompt =
     (case readonly_command_for env prompt of
        None \<Rightarrow> None
      | Some cmd \<Rightarrow>
          if (case validate_readonly_command_tokens cmd of Inl _ \<Rightarrow> True | Inr _ \<Rightarrow> False)
             \<or> validate_prompt_effects cmd prompt \<noteq> [] then None
          else Some (readonly_call cmd
            ''read-only command materialized from prompt, filesystem context, and command-effect validation''))"

end
