(* ===== verification/Action_Parse.thy ===== *)
theory Action_Parse
  imports Action_Templates
begin

text \<open>
  From the text of the model to a tool call (\<open>termlm-core/src/main.rs\<close>): action lines, fenced and inline
  commands, partial tagged calls, the clean-up of a call and the tests a call must pass.
\<close>

section \<open>Action lines\<close>

definition ACTIONS :: "(string \<times> string) list" where
  "ACTIONS =
     [(''WEB_SEARCH:'', ''WEB_SEARCH''), (''WEB_SEARCH '', ''WEB_SEARCH''), (''WEB READ:'', ''WEB_READ''),
      (''WEB READ '', ''WEB_READ''), (''WEB_READ:'', ''WEB_READ''), (''WEB_READ '', ''WEB_READ''), (''EXECUTE:'', ''EXECUTE''),
      (''EXECUTE '', ''EXECUTE''), (''RETRIEVE:'', ''RETRIEVE''), (''RETRIEVE '', ''RETRIEVE''), (''LOOKUP:'', ''LOOKUP''),
      (''LOOKUP '', ''LOOKUP''), (''READONLY:'', ''READONLY''), (''READONLY '', ''READONLY''), (''ASK:'', ''ASK''),
      (''ASK '', ''ASK'')]"

lemma length_trim: "length (trim s) \<le> length s"
proof -
  obtain l r where "chars s = l @ chars (trim s) @ r" using trim_infix by metis
  then have "s = concat l @ trim s @ concat r" by (metis concat_append concat_chars)
  then show ?thesis by (metis le_add1 le_add2 le_trans length_append)
qed

lemma starts_upper_nonempty: "starts_with (to_ascii_uppercase s) (c # cs) \<Longrightarrow> s \<noteq> []"
  by (cases s) (simp_all add: to_ascii_uppercase_def)

function split_local_action_line :: "string \<Rightarrow> (string \<times> string) option" where
  "split_local_action_line line =
     (let trimmed = trim line; upper = to_ascii_uppercase trimmed
      in if starts_with upper ''ACTION:'' then split_local_action_line (trim (drop 7 trimmed))
         else map_option (\<lambda>(pre, action). (action, trim (drop (length pre) trimmed)))
                (find (\<lambda>(pre, _). starts_with upper pre) ACTIONS))"
  by pat_completeness auto
termination
proof (relation "measure length")
  fix line trimmed upper
  assume t: "trimmed = trim line" "upper = to_ascii_uppercase trimmed" "starts_with upper ''ACTION:''"
  then have "trimmed \<noteq> []" using starts_upper_nonempty by blast
  then have "length (trim (drop 7 trimmed)) < length trimmed"
    using length_trim [of "drop 7 trimmed"] by (cases trimmed) auto
  then show "(trim (drop 7 trimmed), line) \<in> measure length" using length_trim [of line] t(1) by simp
qed simp

declare split_local_action_line.simps [simp del]

definition line_is_bare_local_action :: "string \<Rightarrow> bool" where
  "line_is_bare_local_action line \<longleftrightarrow>
     to_ascii_uppercase (trim_end_matches (any_of '':'') (trim line))
       \<in> {''EXECUTE'', ''RETRIEVE'', ''LOOKUP'', ''READONLY'', ''WEB_SEARCH'', ''WEB READ'', ''WEB_READ'', ''ASK''}"

definition call_of :: "string \<Rightarrow> (string \<times> json) list \<Rightarrow> local_call" where
  "call_of name args = \<lparr>lc_name = name, lc_arguments = JObj args\<rparr>"

definition lookup_name :: "string \<Rightarrow> string" where
  "lookup_name v =
     trim_matches (any_of (backtick # quote_chars)) (case split_whitespace v of [] \<Rightarrow> v | w # _ \<Rightarrow> w)"

text \<open>The call for an action with a cleaned value that is not empty.\<close>

definition action_call :: "string set \<Rightarrow> string \<Rightarrow> string \<Rightarrow> local_call option" where
  "action_call allowed action v =
     (if action = ''EXECUTE'' \<and> ''execute_shell_command'' \<in> allowed
      then Some (execute_call v ''local action planner'' (extract_command_names v 8))
      else if action = ''RETRIEVE'' \<and> ''retrieve_command_docs'' \<in> allowed
      then Some (call_of ''retrieve_command_docs'' [(''query'', JStr v), (''top_k'', JInt 5)])
      else if action = ''LOOKUP'' \<and> ''lookup_command_docs'' \<in> allowed
      then (if lookup_name v = [] then None
            else Some (call_of ''lookup_command_docs'' [(''name'', JStr (lookup_name v))]))
      else if action = ''READONLY'' \<and> ''run_readonly_command'' \<in> allowed
      then Some (readonly_call v ''local action planner requested a safe factual probe'')
      else if action = ''WEB_SEARCH'' \<and> ''web_search'' \<in> allowed
      then Some (call_of ''web_search'' [(''max_results'', JInt 5), (''query'', JStr v)])
      else if action = ''WEB_READ'' \<and> ''web_read'' \<in> allowed then Some (call_of ''web_read'' [(''url'', JStr v)])
      else if action = ''ASK'' \<and> ''ask_clarification'' \<in> allowed
      then Some (call_of ''ask_clarification'' [(''question'', JStr (if ends_with v ''?'' then v else v @ ''?''))])
      else None)"

text \<open>The outer option is the panic of the clean-up.\<close>

definition parse_local_action_line :: "string \<Rightarrow> string list \<Rightarrow> local_call option option" where
  "parse_local_action_line line allowed_names =
     (if line_is_bare_local_action line then Some None
      else case split_local_action_line line of
        None \<Rightarrow>
          Some (if ''execute_shell_command'' \<in> set allowed_names
                then map_option (\<lambda>cmd. execute_call cmd ''local action planner'' (extract_command_names line 8))
                       (normalize_plain_command_candidate line)
                else None)
      | Some (action, v) \<Rightarrow>
          map_option (\<lambda>cleaned. if cleaned = [] then None else action_call (set allowed_names) action cleaned)
            (clean_local_action_value v))"

definition action_line_body :: "string \<Rightarrow> string" where
  "action_line_body line =
     (let bare = trim (trim_matches (any_of [backtick]) line)
      in if starts_with (to_ascii_uppercase bare) ''ACTION:'' then trim (drop 7 bare) else bare)"

fun parse_action_lines :: "string list \<Rightarrow> string list \<Rightarrow> local_call option option" where
  "parse_action_lines [] allowed_names = Some None"
| "parse_action_lines (l # ls) allowed_names =
     (if trim l = [] then parse_action_lines ls allowed_names
      else case parse_local_action_line (action_line_body (trim l)) allowed_names of
        None \<Rightarrow> None
      | Some (Some call) \<Rightarrow> Some (Some call)
      | Some None \<Rightarrow> parse_action_lines ls allowed_names)"

definition parse_local_action_tool_call :: "string \<Rightarrow> string list \<Rightarrow> local_call option option" where
  "parse_local_action_tool_call s allowed_names =
     (let sanitized = drop_invisible s
      in case parse_action_lines (take 4 (lines sanitized)) allowed_names of
           None \<Rightarrow> None
         | Some (Some call) \<Rightarrow> Some (Some call)
         | Some None \<Rightarrow>
             parse_local_action_line (trim (trim_matches (any_of [backtick]) (trim sanitized))) allowed_names)"

section \<open>Read-only commands in plain text\<close>

definition readonly_text :: "string \<Rightarrow> string" where
  "readonly_text line =
     trim (case strip_prefix line ''readonly:'' of
             Some rest \<Rightarrow> rest
           | None \<Rightarrow> (case strip_prefix line ''READONLY:'' of Some rest \<Rightarrow> rest | None \<Rightarrow> line))"

definition read_only_command_tool_call_from_plain_text :: "string \<Rightarrow> string \<Rightarrow> local_call option" where
  "read_only_command_tool_call_from_plain_text s prompt =
     (case first_line s of
        None \<Rightarrow> None
      | Some l \<Rightarrow>
          let command = readonly_text (trim (trim_matches (any_of [backtick]) l))
          in if command = [] \<or> line_is_bare_local_action command \<or> command_fragment_is_obviously_incomplete command
                \<or> contains command ''execute_shell_command'' \<or> contains command ''run_readonly_command'' then None
             else if \<not> readonly_command_candidate_is_complete command prompt \<or> validate_prompt_effects command prompt \<noteq> []
             then None
             else Some (readonly_call command
               ''read-only command selected by local model to answer a local fact question''))"

section \<open>Commands in prose\<close>

definition single_command_line :: "(string \<Rightarrow> string option) \<Rightarrow> string \<Rightarrow> string option" where
  "single_command_line line_command block =
     (case List.map_filter line_command (map trim (lines block)) of [c] \<Rightarrow> Some c | _ \<Rightarrow> None)"

definition single_non_comment_command_line :: "string \<Rightarrow> string option" where
  "single_non_comment_command_line =
     single_command_line (\<lambda>l. if l = [] \<or> starts_with l ''#'' then None
       else Some (trim (case strip_prefix l ''$ '' of Some rest \<Rightarrow> rest | None \<Rightarrow> l)))"

definition single_prompt_prefixed_command :: "string \<Rightarrow> string option" where
  "single_prompt_prefixed_command = single_command_line (\<lambda>l. map_option trim (strip_prefix l ''$ ''))"

abbreviation fence :: string where
  "fence \<equiv> replicate 3 backtick"

text \<open>The loop over the fences; the text is what is left from \<open>search_from\<close> on.\<close>

function single_fenced_command :: "string \<Rightarrow> string option" where
  "single_fenced_command s =
     (case find_str s fence of
        None \<Rightarrow> None
      | Some start \<Rightarrow>
          let remaining = drop (start + 3) s
          in case find_str remaining [CHR 0x0A] of
               None \<Rightarrow> None
             | Some nl \<Rightarrow>
                 let language = to_ascii_lowercase (trim (take nl remaining)); body = drop (nl + 1) remaining
                 in case find_str body fence of
                      None \<Rightarrow> None
                    | Some body_end \<Rightarrow>
                        let command = (if language \<in> {[], ''sh'', ''bash'', ''zsh'', ''shell'', ''console'', ''terminal''}
                                       then single_non_comment_command_line (take body_end body) else None)
                        in case command of
                             Some c \<Rightarrow> Some c
                           | None \<Rightarrow> single_fenced_command (drop (body_end + 3) body))"
  by pat_completeness auto
termination
  by (relation "measure length") (auto dest!: find_str_bound)

declare single_fenced_command.simps [simp del]

text \<open>The text before the current position since the last full stop or line end, lower-cased and trimmed.\<close>

definition cue_of :: "string \<Rightarrow> string" where
  "cue_of front =
     trim (rev (takeWhile (\<lambda>b. b \<noteq> CHR ''.'' \<and> b \<noteq> CHR 0x0A) (rev (to_ascii_lowercase front))))"

text \<open>\<open>front\<close> is the text already passed, the other argument the rest.\<close>

function inline_backtick_loop :: "string \<Rightarrow> string \<Rightarrow> string option" where
  "inline_backtick_loop front s =
     (case find_str s [backtick] of
        None \<Rightarrow> None
      | Some start \<Rightarrow>
          if starts_with (drop start s) fence
          then inline_backtick_loop (front @ take (start + 3) s) (drop (start + 3) s)
          else let rest = drop (start + 1) s
               in case find_str rest [backtick] of
                    None \<Rightarrow> None
                  | Some end_pos \<Rightarrow>
                      if contains_any (cue_of (front @ take start s)) [''command'', ''run'', ''use'', ''execute'']
                      then Some (trim (take end_pos rest))
                      else inline_backtick_loop (front @ take (start + end_pos + 2) s) (drop (end_pos + 1) rest))"
  by pat_completeness auto
termination
  by (relation "measure (\<lambda>(_, s). length s)") (auto dest!: find_str_bound)

declare inline_backtick_loop.simps [simp del]

definition inline_backtick_command :: "string \<Rightarrow> string option" where
  "inline_backtick_command s = inline_backtick_loop [] s"

definition labels :: "string list" where
  "labels = [''command:'', ''proposed command:'', ''run:'', ''execute:'', ''use this command:'']"

definition labeled_line :: "string \<Rightarrow> string option" where
  "labeled_line trimmed =
     map_option (\<lambda>label. trim_matches (any_of [backtick]) (trim (drop (length label) trimmed)))
       (find (starts_with (to_ascii_lowercase trimmed)) labels)"

definition labeled_plain_command :: "string \<Rightarrow> string option" where
  "labeled_plain_command s = some_of labeled_line (map trim (lines s))"

definition plain_execute_call :: "string \<Rightarrow> local_call" where
  "plain_execute_call cmd = call_of ''execute_shell_command'' [(''cmd'', JStr cmd)]"

definition extract_execute_shell_command_from_plain_text :: "string \<Rightarrow> local_call option" where
  "extract_execute_shell_command_from_plain_text s =
     (if ends_with (trim_end s) ''?'' then None
      else case some_of (\<lambda>f. f s)
             [single_fenced_command, single_prompt_prefixed_command, inline_backtick_command, labeled_plain_command] of
        None \<Rightarrow> None
      | Some candidate \<Rightarrow> map_option plain_execute_call (normalize_plain_command_candidate candidate))"

section \<open>Partial tagged calls\<close>

definition call_marks :: "string list" where
  "call_marks = [''<|'' @ [CHR 0x22] @ ''|>'', ''<|'' @ [CHR 0x5C, CHR 0x22] @ ''|>'']"

definition value_ends :: "string list" where
  "value_ends = ['',commands_used'', '',expected_effect'', '',intent'', ''<tool_call'', ''<|/tool_call|>'', [CHR 0x0A], ''}'', '','']"

definition partial_value :: "string \<Rightarrow> string \<Rightarrow> string option" where
  "partial_value after_cmd mark =
     (case find_str after_cmd mark of
        None \<Rightarrow> None
      | Some opening \<Rightarrow>
          let rest = drop (opening + length mark) after_cmd;
              candidate = (case find_str rest mark of
                  Some closing \<Rightarrow> trim (take closing rest)
                | None \<Rightarrow> trim (take (fold (\<lambda>d cutoff. case find_str rest d of None \<Rightarrow> cutoff | Some p \<Rightarrow> min cutoff p)
                             value_ends (length rest)) rest))
          in if candidate \<noteq> [] then Some candidate else None)"

definition extract_execute_shell_command_from_partial_tagged_call :: "string \<Rightarrow> local_call option" where
  "extract_execute_shell_command_from_partial_tagged_call s =
     (case find_str s ''call:execute_shell_command'' of
        None \<Rightarrow> None
      | Some start \<Rightarrow>
          let tail = drop start s
          in case find_str tail ''cmd:'' of
               None \<Rightarrow> None
             | Some cmd_pos \<Rightarrow> map_option plain_execute_call (some_of (partial_value (drop (cmd_pos + 4) tail)) call_marks))"

section \<open>Clean-up and tests of calls\<close>

text \<open>\<open>serde_json\<close>'s index assignment: it inserts the key into an object and panics on any other value.\<close>

definition json_set :: "string \<Rightarrow> json \<Rightarrow> json \<Rightarrow> json option" where
  "json_set k v j =
     (case j of
        JObj kvs \<Rightarrow> Some (JObj (if k \<in> fst ` set kvs then map (\<lambda>(k', w). if k' = k then (k, v) else (k', w)) kvs
                              else insort_key fst (k, v) kvs))
      | JNull \<Rightarrow> Some (JObj [(k, v)])
      | _ \<Rightarrow> None)"

definition json_remove :: "string \<Rightarrow> json \<Rightarrow> json" where
  "json_remove k j = (case j of JObj kvs \<Rightarrow> JObj (filter (\<lambda>kv. fst kv \<noteq> k) kvs) | _ \<Rightarrow> j)"

definition sanitize_local_action_tool_call :: "local_call \<Rightarrow> string \<Rightarrow> local_call option" where
  "sanitize_local_action_tool_call call prompt =
     (if lc_name call \<noteq> ''execute_shell_command'' then Some call
      else case call_command call of
        None \<Rightarrow> Some call
      | Some line \<Rightarrow>
          (case sanitize_local_execute_command line prompt of
             None \<Rightarrow> None
           | Some cmd \<Rightarrow>
               (case json_set ''cmd'' (JStr cmd) (lc_arguments call) of
                  None \<Rightarrow> None
                | Some args \<Rightarrow>
                    map_option (\<lambda>args. call\<lparr>lc_arguments := args\<rparr>)
                      (json_set ''commands_used'' (JArr (map JStr (extract_command_names cmd 8)))
                        (json_remove ''command'' args)))))"

definition local_action_tool_call_is_usable :: "captures \<Rightarrow> local_call \<Rightarrow> string \<Rightarrow> bool option" where
  "local_action_tool_call_is_usable caps call prompt =
     (if lc_name call \<noteq> ''execute_shell_command'' then Some True
      else case call_command call of
        None \<Rightarrow> Some False
      | Some cmd \<Rightarrow> local_execute_action_looks_complete caps cmd prompt)"

definition readonly_tool_call_is_usable :: "local_call \<Rightarrow> string \<Rightarrow> bool" where
  "readonly_tool_call_is_usable call prompt \<longleftrightarrow>
     lc_name call = ''run_readonly_command''
     \<and> (case call_command call of
          None \<Rightarrow> False
        | Some cmd \<Rightarrow> readonly_command_candidate_is_complete cmd prompt \<and> validate_prompt_effects cmd prompt = [])"

definition call_has :: "local_call \<Rightarrow> string \<Rightarrow> bool" where
  "call_has call k \<longleftrightarrow>
     (case Option.bind (json_get k (lc_arguments call)) json_str of None \<Rightarrow> False | Some v \<Rightarrow> trim v \<noteq> [])"

definition required_argument :: "(string \<times> string list) list" where
  "required_argument =
     [(''retrieve_command_docs'', [''query'']), (''lookup_command_docs'', [''name'']),
      (''run_readonly_command'', [''cmd'', ''command'']), (''web_search'', [''query'']), (''web_read'', [''url'']),
      (''ask_clarification'', [''question'']), (''read_file'', [''path'']), (''search_files'', [''query'']),
      (''search_terminal_context'', [''query''])]"

definition tool_call_has_minimum_arguments :: "local_call \<Rightarrow> bool" where
  "tool_call_has_minimum_arguments call =
     (case map_of required_argument (lc_name call) of None \<Rightarrow> True | Some keys \<Rightarrow> list_ex (call_has call) keys)"

end
