(* ===== verification/Tool_Parser.thy ===== *)
theory Tool_Parser
  imports Action_Parse
begin

text \<open>
  Tool calls in the text of a reply (\<open>termlm-inference/src/tool_parser.rs\<close>): tagged calls and JSON
  objects. \<open>serde_json::from_str\<close> and the replacement of the keys by the regex crate are parameters.
\<close>

record json_reader =
  jr_from_str :: "string \<Rightarrow> json option"
  jr_quote_keys :: "string \<Rightarrow> string"

section \<open>JSON objects\<close>

text \<open>The loop over the characters: the offset, the depth and the offset of the first brace.\<close>

fun json_scan :: "rchar list \<Rightarrow> nat \<Rightarrow> nat \<Rightarrow> nat option \<Rightarrow> (nat \<times> nat) option" where
  "json_scan [] i depth start = None"
| "json_scan (c # cs) i depth start =
     (if c = ''{'' then json_scan cs (i + length c) (depth + 1) (case start of None \<Rightarrow> Some i | Some s \<Rightarrow> Some s)
      else if c = ''}'' \<and> 0 < depth
      then (case start of
              Some s \<Rightarrow> if depth = 1 then Some (s, i) else json_scan cs (i + length c) (depth - 1) start
            | None \<Rightarrow> json_scan cs (i + length c) (depth - 1) start)
      else json_scan cs (i + length c) depth start)"

definition braced :: "string \<Rightarrow> bool" where
  "braced s \<longleftrightarrow> starts_with s ''{'' \<and> ends_with s ''}''"

definition fenced_json :: "string \<Rightarrow> string option" where
  "fenced_json trimmed =
     (case find_str trimmed (replicate 3 backtick) of
        None \<Rightarrow> None
      | Some start \<Rightarrow>
          let rest = drop (start + 3) trimmed
          in case find_str rest (replicate 3 backtick) of
               None \<Rightarrow> None
             | Some end_pos \<Rightarrow>
                 let block = take end_pos rest;
                     body = trim (case strip_prefix block ''json'' of Some r \<Rightarrow> trim_start r | None \<Rightarrow> block)
                 in if braced body then Some body else None)"

definition extract_best_json_candidate :: "string \<Rightarrow> string option" where
  "extract_best_json_candidate input =
     (let trimmed = trim input
      in if braced trimmed then Some trimmed
         else case fenced_json trimmed of
           Some body \<Rightarrow> Some body
         | None \<Rightarrow> map_option (\<lambda>(s, e). drop s (take (e + 1) trimmed)) (json_scan (chars trimmed) 0 0 None))"

definition repair_and_parse_json_object :: "json_reader \<Rightarrow> string \<Rightarrow> json option" where
  "repair_and_parse_json_object jr input =
     (let trimmed = trim input; object = (if starts_with trimmed ''{'' then trimmed else ''{'' @ trimmed @ ''}'')
      in jr_from_str jr
           (replace_all (replace_all (replace_all object [CHR 0x27] [CHR 0x22]) '': True'' '': true'') '': False'' '': false''))"

definition parse_json_tool_call :: "json_reader \<Rightarrow> string \<Rightarrow> local_call option" where
  "parse_json_tool_call jr input =
     (let candidate = (case extract_best_json_candidate input of Some c \<Rightarrow> c | None \<Rightarrow> trim input);
          v = (case jr_from_str jr candidate of
                 Some v \<Rightarrow> Some v
               | None \<Rightarrow>
                   (case repair_and_parse_json_object jr candidate of
                      Some v \<Rightarrow> Some v
                    | None \<Rightarrow> repair_and_parse_json_object jr input));
          either = (\<lambda>k k' v. case json_get k v of Some w \<Rightarrow> Some w | None \<Rightarrow> json_get k' v)
      in case v of
           None \<Rightarrow> None
         | Some v \<Rightarrow>
             (case Option.bind (either ''tool'' ''name'' v) json_str of
                None \<Rightarrow> None
              | Some name \<Rightarrow>
                  Some \<lparr>lc_name = name,
                        lc_arguments = (case either ''arguments'' ''args'' v of Some w \<Rightarrow> w | None \<Rightarrow> JObj [])\<rparr>))"

section \<open>Tagged calls\<close>

text \<open>\<open>char::is_control\<close>: the C0 and C1 control characters and U+007F.\<close>

definition is_control :: "rchar \<Rightarrow> bool" where
  "is_control c \<longleftrightarrow>
     (case c of
        [b] \<Rightarrow> of_char b < (32 :: nat) \<or> b = CHR 0x7F
      | [a, b] \<Rightarrow> a = CHR 0xC2 \<and> of_char b < (0xA0 :: nat)
      | _ \<Rightarrow> False)"

definition sanitize_tagged_input :: "string \<Rightarrow> string" where
  "sanitize_tagged_input input =
     concat (filter (\<lambda>c. \<not> is_control c \<or> c \<in> {[CHR 0x0A], [CHR 0x0D], [CHR 0x09]}) (chars input))"

definition TAGS :: "(string \<times> string) list" where
  "TAGS = [(''<|tool_call>'', ''<tool_call|>''), (''<tool_call>'', ''</tool_call>''), (''<|tool_call|>'', ''<|/tool_call|>'')]"

definition find_next_tag_bounds :: "string \<Rightarrow> (nat \<times> string \<times> string) option" where
  "find_next_tag_bounds input =
     fold (\<lambda>(start, stop) best.
         case find_str input start of
           None \<Rightarrow> best
         | Some idx \<Rightarrow>
             (case best of
                Some (best_idx, s, e) \<Rightarrow> if best_idx \<le> idx then best else Some (idx, start, stop)
              | None \<Rightarrow> Some (idx, start, stop)))
       TAGS None"

text \<open>The loop over the characters from the opening brace: the offset after the brace that closes it.
  The code skips as many characters as the brace's offset has bytes.\<close>

fun balanced_scan :: "rchar list \<Rightarrow> nat \<Rightarrow> nat \<Rightarrow> nat option" where
  "balanced_scan [] i depth = None"
| "balanced_scan (c # cs) i depth =
     (if c = ''{'' then balanced_scan cs (i + length c) (usize_sat_add depth 1)
      else if c = ''}'' then (if depth - 1 = 0 then Some (i + 1) else balanced_scan cs (i + length c) (depth - 1))
      else balanced_scan cs (i + length c) depth)"

definition extract_balanced_call_block :: "string \<Rightarrow> (string \<times> nat) option" where
  "extract_balanced_call_block input =
     (let block = trim_start input; start_offset = length input - length block
      in if \<not> starts_with block ''call:'' then None
         else case find_str block ''{'' of
           None \<Rightarrow> None
         | Some brace_start \<Rightarrow>
             map_option (\<lambda>stop. (take stop block, start_offset + stop))
               (balanced_scan (drop brace_start (chars block)) (length (concat (take brace_start (chars block)))) 0))"

definition normalize_body :: "string \<Rightarrow> string" where
  "normalize_body body =
     trim (replace_all (replace_all (replace_all body (''<|'' @ [CHR 0x5C, CHR 0x22] @ ''|>'') [CHR 0x22])
       (''<|'' @ [CHR 0x22] @ ''|>'') [CHR 0x22]) [CHR 0x0A] '' '')"

definition parse_tagged_tool_call_block :: "json_reader \<Rightarrow> string \<Rightarrow> local_call option" where
  "parse_tagged_tool_call_block jr line =
     (case strip_prefix line ''call:'' of
        None \<Rightarrow> None
      | Some block \<Rightarrow>
          (case find_str block ''{'' of
             None \<Rightarrow> None
           | Some brace \<Rightarrow>
               let name = trim (take brace block)
               in if name = [] then None
                  else case strip_suffix (trim (drop (brace + 1) block)) ''}'' of
                    None \<Rightarrow> None
                  | Some body \<Rightarrow>
                      let as_json = ''{'' @ jr_quote_keys jr (normalize_body body) @ ''}''
                      in map_option (\<lambda>v. \<lparr>lc_name = name, lc_arguments = v\<rparr>)
                           (case jr_from_str jr as_json of
                              Some v \<Rightarrow> Some v
                            | None \<Rightarrow> repair_and_parse_json_object jr as_json)))"

text \<open>The block after a start tag, and how many bytes it takes with what closes it.\<close>

definition tagged_block :: "string \<Rightarrow> string \<Rightarrow> (string \<times> nat) option" where
  "tagged_block after_start end_tag =
     (case find_str after_start end_tag of
        Some stop \<Rightarrow> Some (take stop after_start, stop + length end_tag)
      | None \<Rightarrow> extract_balanced_call_block after_start)"

lemma next_tag_bound:
  assumes "find_next_tag_bounds input = Some (start, tag, end_tag)"
  shows "start + length tag \<le> length input \<and> 0 < length tag"
proof -
  have P: "P best'" if "fold f xs best = best'" "P best" "\<And>x b. x \<in> set xs \<Longrightarrow> P b \<Longrightarrow> P (f x b)"
    for P :: "(nat \<times> string \<times> string) option \<Rightarrow> bool" and f and xs :: "(string \<times> string) list" and best best'
    using that by (induction xs arbitrary: best) auto
  let ?P = "\<lambda>b. \<forall>start tag stop. b = Some (start, tag, stop) \<longrightarrow> start + length tag \<le> length input \<and> 0 < length tag"
  have "?P (find_next_tag_bounds input)"
    unfolding find_next_tag_bounds_def
    by (rule P [OF refl]) (auto simp: TAGS_def dest: find_str_bound split: option.splits if_splits)
  with assms show ?thesis by blast
qed

function tagged_calls :: "json_reader \<Rightarrow> string \<Rightarrow> local_call list" where
  "tagged_calls jr rest =
     (case find_next_tag_bounds rest of
        None \<Rightarrow> []
      | Some (start, start_tag, end_tag) \<Rightarrow>
          let after_start = drop (start + length start_tag) rest
          in case tagged_block after_start end_tag of
               None \<Rightarrow> []
             | Some (block, consumed) \<Rightarrow>
                 (case parse_tagged_tool_call_block jr block of None \<Rightarrow> [] | Some call \<Rightarrow> [call])
                 @ tagged_calls jr (drop consumed after_start))"
  by pat_completeness auto
termination
  by (relation "measure (\<lambda>(_, s). length s)") (auto dest!: next_tag_bound intro!: diff_less simp del: length_greater_0_conv)

declare tagged_calls.simps [simp del]

definition parse_tagged_tool_calls :: "json_reader \<Rightarrow> string \<Rightarrow> local_call list" where
  "parse_tagged_tool_calls jr input = tagged_calls jr (sanitize_tagged_input input)"

section \<open>Partial calls\<close>

text \<open>The inference crate has its own copy of the reader of calls that were cut off.\<close>

definition extract_partial_execute_shell_command :: "string \<Rightarrow> local_call option" where
  "extract_partial_execute_shell_command input =
     (case find_str input ''call:execute_shell_command'' of
        None \<Rightarrow> None
      | Some start \<Rightarrow>
          let tail = drop start input
          in case find_str tail ''cmd:'' of
               None \<Rightarrow> None
             | Some cmd_pos \<Rightarrow> map_option plain_execute_call (some_of (partial_value (drop (cmd_pos + 4) tail)) call_marks))"

end
