(* ===== verification/Action_Fallback.thy ===== *)
theory Action_Fallback
  imports Tool_Parser Task_Classify
begin

text \<open>
  The fallback planner (\<open>try_local_action_fallback\<close> in \<open>termlm-core/src/main.rs\<close>): which tools it may
  use, the options of its request, when its stream is stopped, and which call is made of the reply.
  The texts of the prompts are left out; retrieval, the provider's stream and the JSON reader are
  parameters. \<open>None\<close> is the panic of the clean-up.
\<close>

section \<open>What the prompt asks for\<close>

definition prompt_prefers_execute_action :: "string \<Rightarrow> bool" where
  "prompt_prefers_execute_action prompt =
     (let lower = to_ascii_lowercase prompt
      in contains_any lower
           [''list'', ''show'', ''find'', ''search'', ''grep'', ''create'', ''make'', ''copy'', ''move'', ''open'', ''tail'',
            ''head'', ''print'', ''compress'', ''archive'', ''sort'', ''delete'', ''remove'', ''rename'']
         \<and> \<not> contains_any lower
           [''how many'', ''how much'', ''what is'', ''what'' @ [CHR 0x27] @ ''s'', ''where'', ''which'', ''why'', ''when'', ''does '',
            ''do i '', ''can i '', ''?''])"

definition prompt_has_sufficient_local_action_details :: "string \<Rightarrow> bool" where
  "prompt_has_sufficient_local_action_details prompt =
     (let lower = to_ascii_lowercase prompt
      in contains_any lower
           [''list'', ''show'', ''find'', ''search'', ''grep'', ''count'', ''create'', ''make'', ''copy'', ''move'', ''open'',
            ''tail'', ''head'', ''print'', ''compress'', ''archive'', ''sort'']
         \<and> contains_any lower
           [''this directory'', ''current directory'', ''this folder'', ''current folder'', ''here'', ''desktop'', ''downloads'',
            ''documents'', ''file'', ''files'', ''folder'', ''directory'', ''.md'', ''markdown'', ''image'', ''readme'', ''.log'',
            ''package.json'']
         \<and> \<not> contains lower '' or '')"

definition prompt_is_local_text_search :: "string \<Rightarrow> bool" where
  "prompt_is_local_text_search prompt =
     (let lower = to_ascii_lowercase prompt
      in if contains_any lower
              [''search web'', ''search the web'', ''web search'', ''internet'', ''online'', ''latest'', ''current''] then False
         else contains_any lower [''search'', ''find'']
           \<and> contains_any lower [''recursive'', ''recursively'', ''in this directory'', ''under here'', ''current directory''])"

definition prompt_requires_readonly_local_fact :: "string \<Rightarrow> bool" where
  "prompt_requires_readonly_local_fact prompt =
     (let lower = to_ascii_lowercase prompt
      in if contains_any lower [''latest'', ''current release'', ''current version'', ''online'', ''internet'', ''web''] then False
         else contains_any lower [''how many'', ''count''] \<and> contains lower ''file''
           \<or> contains lower ''how much'' \<and> contains_any lower [''storage'', ''space'', ''disk'', ''used'']
           \<or> contains lower ''disk usage'' \<or> contains lower ''storage is being used''
           \<or> contains_any lower [''oldest'', ''newest'', ''most recent''] \<and> contains lower ''file''
           \<or> contains_any lower [''what directory'', ''which directory'', ''where am i'', ''current directory'']
           \<or> trim lower = ''pwd''
           \<or> contains lower ''current'' \<and> contains lower ''git'' \<and> contains lower ''branch''
           \<or> contains lower ''installed'' \<and> contains lower ''version'')"

section \<open>The request\<close>

definition local_action_allowed_names :: "string list \<Rightarrow> string \<Rightarrow> string list" where
  "local_action_allowed_names tools prompt =
     (let n1 = (if prompt_is_local_text_search prompt
                then filter (\<lambda>n. n \<in> {''execute_shell_command'', ''ask_clarification''}) tools else tools)
      in if prompt_has_sufficient_local_action_details prompt
         then (let n2 = filter (\<lambda>n. n \<noteq> ''ask_clarification'') n1
               in if prompt_prefers_execute_action prompt
                  then filter (\<lambda>n. n \<in> {''execute_shell_command'', ''retrieve_command_docs'', ''lookup_command_docs'',
                                         ''web_search'', ''web_read''}) n2
                  else n2)
         else n1)"

datatype planner_mode = DirectCommand | DirectReadonly | ActionLines

definition planner_mode_of :: "string list \<Rightarrow> string \<Rightarrow> planner_mode" where
  "planner_mode_of allowed prompt =
     (if ''execute_shell_command'' \<in> set allowed \<and> prompt_has_sufficient_local_action_details prompt
        \<and> prompt_prefers_execute_action prompt then DirectCommand
      else if ''run_readonly_command'' \<in> set allowed \<and> prompt_requires_readonly_local_fact prompt then DirectReadonly
      else ActionLines)"

definition action_token_budget :: "string \<Rightarrow> nat" where
  "action_token_budget prompt =
     (let lower = to_ascii_lowercase prompt
      in if contains_any lower [''image'', ''markdown'', ''.md''] \<and> contains_any lower [''copy'', ''move''] then 160
         else if contains lower ''replace'' \<and> contains lower ''space'' then 144
         else if contains_any lower [''image'', ''compress'', ''archive'', ''tar'', ''open'', ''oldest'', ''newest'', ''most recent'']
           \<or> contains lower ''sort'' \<and> contains lower ''size'' then 112
         else 64)"

definition action_names :: "(string \<times> string) list" where
  "action_names =
     [(''execute_shell_command'', ''execute''), (''run_readonly_command'', ''readonly''),
      (''retrieve_command_docs'', ''retrieve''), (''lookup_command_docs'', ''lookup''), (''web_search'', ''web_search''),
      (''web_read'', ''web_read''), (''ask_clarification'', ''ask'')]"

definition local_action_first_token_prefixes :: "string list \<Rightarrow> string list" where
  "local_action_first_token_prefixes allowed = map snd (filter (\<lambda>(name, _). name \<in> set allowed) action_names)"

definition action_formats :: "(string \<times> string) list" where
  "action_formats =
     [(''execute_shell_command'', ''execute: one zsh command''),
      (''retrieve_command_docs'', ''retrieve: command docs search query''),
      (''lookup_command_docs'', ''lookup: exact command name''),
      (''run_readonly_command'', ''readonly: safe read-only command''), (''web_search'', ''web_search: web search query''),
      (''web_read'', ''web_read: url''), (''ask_clarification'', ''ask: one focused question'')]"

definition local_action_list :: "string list \<Rightarrow> string" where
  "local_action_list allowed =
     join [CHR 0x0A] (map snd (filter (\<lambda>(name, _). name \<in> set allowed) action_formats))"

fun command_prefixes :: "string list \<Rightarrow> string list \<Rightarrow> string list" where
  "command_prefixes acc [] = acc"
| "command_prefixes acc (n # ns) =
     (let name = trim n; normalized = to_ascii_lowercase name
      in if name = [] \<or> \<not> list_all (\<lambda>ch. is_ascii_alphanumeric ch \<or> any_of ''_-.'' ch) (chars name)
         then command_prefixes acc ns
         else let acc1 = (if normalized \<in> set acc then acc else acc @ [normalized])
              in if 6 \<le> length acc1 then acc1 else command_prefixes acc1 ns)"

definition local_action_command_prefixes :: "retrieved_chunk list \<Rightarrow> string list" where
  "local_action_command_prefixes chunks = command_prefixes [] (map rc_command_name chunks)"

definition readonly_command_prefixes_for_prompt :: "string \<Rightarrow> string list" where
  "readonly_command_prefixes_for_prompt prompt =
     (let lower = to_ascii_lowercase prompt; push_if = (\<lambda>c name. if c then [name] else [])
      in rev (remdups (rev (
           push_if (prompt_asks_directory lower) ''pwd'' @ push_if (prompt_requests_file_count lower) ''find''
         @ push_if (contains_any lower [''storage'', ''disk usage'', ''how much'']) ''du''
         @ push_if (prompt_asks_ranked_file lower) ''find''
         @ push_if (contains lower ''git'' \<and> contains lower ''branch'') ''git''
         @ push_if (contains lower ''installed'' \<and> contains lower ''version'') ''which''))))"

definition first_token_prefixes :: "planner_mode \<Rightarrow> retrieved_chunk list \<Rightarrow> string list \<Rightarrow> string \<Rightarrow> string list" where
  "first_token_prefixes mode chunks allowed prompt =
     (case mode of
        DirectCommand \<Rightarrow> local_action_command_prefixes chunks
      | DirectReadonly \<Rightarrow> readonly_command_prefixes_for_prompt prompt
      | ActionLines \<Rightarrow> local_action_first_token_prefixes allowed)"

definition stop_sequences :: "planner_mode \<Rightarrow> string list" where
  "stop_sequences mode =
     (if mode = ActionLines then [''# '', replicate 3 backtick, ''<|turn>'', ''zsh:'', ''command not found'']
      else [[CHR 0x0A, CHR 0x0A], ''<|turn>'', ''User:'', ''Question:''])"

section \<open>The stream\<close>

text \<open>Whether the text so far holds a complete action, so that the rest of the reply is not awaited.\<close>

definition action_value_complete :: "captures \<Rightarrow> string set \<Rightarrow> string \<Rightarrow> string \<Rightarrow> string \<Rightarrow> bool option" where
  "action_value_complete caps allowed action v prompt =
     (if action = ''EXECUTE'' \<and> ''execute_shell_command'' \<in> allowed then local_execute_action_looks_complete caps v prompt
      else if action = ''READONLY'' \<and> ''run_readonly_command'' \<in> allowed
      then Some (readonly_command_candidate_is_complete (trim v) prompt)
      else if action = ''RETRIEVE'' \<and> ''retrieve_command_docs'' \<in> allowed then Some (2 \<le> length (split_whitespace v))
      else if action = ''LOOKUP'' \<and> ''lookup_command_docs'' \<in> allowed then Some (1 \<le> length (split_whitespace v))
      else if action = ''WEB_SEARCH'' \<and> ''web_search'' \<in> allowed then Some (2 \<le> length (split_whitespace v))
      else if action = ''WEB_READ'' \<and> ''web_read'' \<in> allowed
      then Some (starts_with v ''http://'' \<or> starts_with v ''https://'')
      else if action = ''ASK'' \<and> ''ask_clarification'' \<in> allowed
      then Some (ends_with (trim v) ''?'' \<or> 5 \<le> length (split_whitespace (trim v)))
      else Some False)"

definition local_action_stream_has_complete_candidate :: "captures \<Rightarrow> string \<Rightarrow> string list \<Rightarrow> string \<Rightarrow> bool option" where
  "local_action_stream_has_complete_candidate caps s allowed_names prompt =
     (case first_line s of
        None \<Rightarrow> Some False
      | Some l \<Rightarrow>
          let line = action_line_body l
          in if line_is_bare_local_action line then Some False
             else case split_local_action_line line of
               None \<Rightarrow>
                 if ''execute_shell_command'' \<notin> set allowed_names then Some False
                 else (case normalize_plain_command_candidate line of
                         None \<Rightarrow> Some False
                       | Some cmd \<Rightarrow> local_execute_action_looks_complete caps cmd prompt)
             | Some (action, v) \<Rightarrow> action_value_complete caps (set allowed_names) action v prompt)"

text \<open>Events of the provider's stream; a stream that stalls or fails ends with \<open>StreamFailed\<close>, one that is closed
  with the end of the list.\<close>

datatype stream_event =
    TextChunk string
  | ThinkingChunk
  | ToolCallEvent local_call
  | UsageEvent nat nat
  | StreamDone
  | StreamFailed

record stream_reply =
  sy_text :: string
  sy_calls :: "local_call list"
  sy_usage :: "(nat \<times> nat) option"
  sy_cancelled :: bool

text \<open>The loop over the events: a panic, no reply, or the reply.\<close>

fun fallback_stream ::
  "(string \<Rightarrow> bool option) \<Rightarrow> stream_event list \<Rightarrow> stream_reply \<Rightarrow> stream_reply option option" where
  "fallback_stream finished [] r = Some (Some r)"
| "fallback_stream finished (e # es) r =
     (case e of
        TextChunk content \<Rightarrow>
          let r1 = r\<lparr>sy_text := sy_text r @ content\<rparr>
          in (case finished (sy_text r1) of
                None \<Rightarrow> None
              | Some True \<Rightarrow> Some (Some (r1\<lparr>sy_cancelled := True\<rparr>))
              | Some False \<Rightarrow> fallback_stream finished es r1)
      | ThinkingChunk \<Rightarrow> fallback_stream finished es r
      | ToolCallEvent call \<Rightarrow> fallback_stream finished es (r\<lparr>sy_calls := sy_calls r @ [call]\<rparr>)
      | UsageEvent p c \<Rightarrow> fallback_stream finished es (r\<lparr>sy_usage := Some (p, c)\<rparr>)
      | StreamDone \<Rightarrow> Some (Some r)
      | StreamFailed \<Rightarrow> Some None)"

definition empty_reply :: stream_reply where
  "empty_reply = \<lparr>sy_text = [], sy_calls = [], sy_usage = None, sy_cancelled = False\<rparr>"

section \<open>The call made of a reply\<close>

record fallback_env =
  fb_action :: action_env
  fb_json :: json_reader
  fb_retrieve :: "string \<Rightarrow> retrieved_chunk list"
  fb_stream :: "planner_mode \<Rightarrow> retrieved_chunk list \<Rightarrow> stream_event list option"

definition docs_tools :: "string set" where
  "docs_tools = {''execute_shell_command'', ''retrieve_command_docs'', ''lookup_command_docs'', ''run_readonly_command''}"

text \<open>The read-only call from plain text, and the materialised probe when none of the calls is usable.\<close>

definition readonly_calls ::
  "fallback_env \<Rightarrow> retrieved_chunk list \<Rightarrow> string \<Rightarrow> string \<Rightarrow> local_call list \<Rightarrow> local_call list" where
  "readonly_calls env chunks s prompt calls =
     (let c1 = calls @ (case read_only_command_tool_call_from_plain_text s prompt of None \<Rightarrow> [] | Some c \<Rightarrow> [c]);
          made = (case materialize_retrieved_readonly_command_from_prompt (fb_action env) chunks prompt of
                    Some c \<Rightarrow> Some c | None \<Rightarrow> materialize_readonly_command_from_prompt (fb_action env) prompt)
      in if list_ex (\<lambda>c. readonly_tool_call_is_usable c (trim prompt)) c1 then c1
         else case made of
           None \<Rightarrow> c1
         | Some c \<Rightarrow> filter (\<lambda>c. lc_name c \<noteq> ''run_readonly_command'') c1 @ [c])"

text \<open>A call is added when it is usable.\<close>

definition add_usable :: "captures \<Rightarrow> string \<Rightarrow> local_call option \<Rightarrow> local_call list \<Rightarrow> local_call list option" where
  "add_usable caps prompt call calls =
     (case call of
        None \<Rightarrow> Some calls
      | Some c \<Rightarrow>
          map_option (\<lambda>ok. if ok then calls @ [c] else calls) (local_action_tool_call_is_usable caps c (trim prompt)))"

definition when_none :: "(unit \<Rightarrow> local_call list option) \<Rightarrow> local_call list \<Rightarrow> local_call list option" where
  "when_none f calls = (if calls = [] then f () else Some calls)"

definition parsed_action :: "captures \<Rightarrow> string \<Rightarrow> string list \<Rightarrow> string \<Rightarrow> local_call list option" where
  "parsed_action caps s allowed prompt =
     Option.bind (parse_local_action_tool_call s allowed) (\<lambda>call.
       case call of
         None \<Rightarrow> Some []
       | Some c \<Rightarrow>
           Option.bind (sanitize_local_action_tool_call c (trim prompt)) (\<lambda>c. add_usable caps prompt (Some c) []))"

definition opt_list :: "'a option \<Rightarrow> 'a list" where
  "opt_list x = (case x of None \<Rightarrow> [] | Some y \<Rightarrow> [y])"

definition fallback_calls ::
  "fallback_env \<Rightarrow> planner_mode \<Rightarrow> retrieved_chunk list \<Rightarrow> string list \<Rightarrow> string \<Rightarrow> stream_reply \<Rightarrow> local_call list option" where
  "fallback_calls env mode chunks allowed prompt reply =
     (let caps = ac_captures (fb_action env); s = sy_text reply;
          c1 = (if mode = DirectReadonly then readonly_calls env chunks s prompt (sy_calls reply) else sy_calls reply)
      in Option.bind (add_usable caps prompt (materialize_retrieved_command_from_bare_model_output caps s chunks prompt) c1) (\<lambda>c2.
         Option.bind (when_none (\<lambda>_. add_usable caps prompt (materialize_retrieved_command_from_prompt caps chunks prompt) []) c2) (\<lambda>c3.
         Option.bind (when_none (\<lambda>_. parsed_action caps s allowed prompt) c3) (\<lambda>c4.
         Option.bind (when_none (\<lambda>_. Some (opt_list (parse_json_tool_call (fb_json env) s))) c4) (\<lambda>c5.
         Option.bind (when_none (\<lambda>_. Some (parse_tagged_tool_calls (fb_json env) s)) c5) (\<lambda>c6.
         Option.bind (when_none (\<lambda>_. Some (opt_list (extract_execute_shell_command_from_partial_tagged_call s))) c6)
           (when_none (\<lambda>_. Some (opt_list (extract_execute_shell_command_from_plain_text s))))))))))"

definition try_local_action_fallback ::
  "fallback_env \<Rightarrow> string \<Rightarrow> string list \<Rightarrow> (local_call \<times> stream_reply) option option" where
  "try_local_action_fallback env prompt tools =
     (if tools = [] then Some None
      else let allowed = local_action_allowed_names tools prompt;
               chunks = (if set allowed \<inter> docs_tools \<noteq> {} then fb_retrieve env prompt else []);
               mode = planner_mode_of allowed prompt;
               finished = (\<lambda>s. local_action_stream_has_complete_candidate (ac_captures (fb_action env)) s allowed (trim prompt))
           in case fb_stream env mode chunks of
                None \<Rightarrow> Some None
              | Some events \<Rightarrow>
                  Option.bind (fallback_stream finished events empty_reply) (\<lambda>reply.
                    case reply of
                      None \<Rightarrow> Some None
                    | Some r \<Rightarrow>
                        map_option (\<lambda>calls. map_option (\<lambda>c. (c, r)) (find (\<lambda>c. lc_name c \<in> set allowed) calls))
                          (fallback_calls env mode chunks allowed prompt r)))"

section \<open>Calls of the orchestrator\<close>

text \<open>\<open>try_provider_orchestration\<close>: the calls of a reply that are kept when the user asks with a question mark.\<close>

fun keep_usable_calls :: "captures \<Rightarrow> string \<Rightarrow> local_call list \<Rightarrow> local_call list option" where
  "keep_usable_calls caps prompt [] = Some []"
| "keep_usable_calls caps prompt (c # cs) =
     (if lc_name c = ''execute_shell_command''
      then Option.bind (sanitize_local_action_tool_call c (trim prompt)) (\<lambda>c1.
             Option.bind (local_action_tool_call_is_usable caps c1 (trim prompt)) (\<lambda>ok.
               map_option (\<lambda>r. if ok then c1 # r else r) (keep_usable_calls caps prompt cs)))
      else map_option (\<lambda>r. if tool_call_has_minimum_arguments c then c # r else r) (keep_usable_calls caps prompt cs))"

text \<open>\<open>propose_retrieved_template_command_if_available\<close>: the command and the names it uses, or none.\<close>

definition str_items :: "json \<Rightarrow> string list option" where
  "str_items v =
     (case v of JArr items \<Rightarrow> Some (filter (\<lambda>s. s \<noteq> []) (map trim (List.map_filter json_str items))) | _ \<Rightarrow> None)"

definition retrieved_template_command ::
  "captures \<Rightarrow> retrieved_chunk list \<Rightarrow> string \<Rightarrow> string \<Rightarrow> (string \<times> string list) option option" where
  "retrieved_template_command caps chunks mode prompt =
     (if mode \<noteq> ''?'' \<or> \<not> prompt_has_sufficient_local_action_details prompt \<or> \<not> prompt_prefers_execute_action prompt
      then Some None
      else case materialize_retrieved_command_from_prompt caps chunks prompt of
        None \<Rightarrow> Some None
      | Some call \<Rightarrow>
          Option.bind (sanitize_local_action_tool_call call (trim prompt)) (\<lambda>call.
            map_option (\<lambda>ok.
                case call_command call of
                  Some v \<Rightarrow>
                    if ok \<and> trim v \<noteq> []
                    then Some (trim v,
                      case Option.bind (json_get ''commands_used'' (lc_arguments call)) str_items of
                        Some names \<Rightarrow> names | None \<Rightarrow> extract_command_names (trim v) 8)
                    else None
                | None \<Rightarrow> None)
              (local_action_tool_call_is_usable caps call (trim prompt))))"

end
