(* ===== verification/Sanitize_Bytes.thy ===== *)
theory Sanitize_Bytes
  imports Command_Sanitize
begin

text \<open>
  Which bytes the clean-up of a command can add: letters and the characters of \<open>$HOME/\<close>, of a dot and
  of an option, never an operator, a quote, a glob or a line end.
\<close>

section \<open>Bytes kept by the string functions\<close>

definition added_bytes :: "char set" where
  "added_bytes = {b. byte_alpha b} \<union> set ''$/.- ''"

named_theorems bytes_kept "the bytes of a result are those of the argument or added ones"

lemma set_concat_subset: "set cs \<subseteq> set (chars s) \<Longrightarrow> set (concat cs) \<subseteq> set s"
proof -
  assume "set cs \<subseteq> set (chars s)"
  then have "\<Union> (set ` set cs) \<subseteq> \<Union> (set ` set (chars s))" by blast
  then show ?thesis by (simp only: set_concat [symmetric] concat_chars)
qed

lemma set_trim_list: "set (trim_list P xs) \<subseteq> set xs"
  by (auto simp: trim_list_def dest!: set_dropWhileD)

lemma set_trim_matches: "set (trim_matches P s) \<subseteq> set s"
  unfolding trim_matches_def by (intro set_concat_subset set_trim_list)

lemma set_trim: "set (trim s) \<subseteq> set s"
  by (simp add: trim_def set_trim_matches)

lemma set_trim_end: "set (trim_end s) \<subseteq> set s"
  unfolding trim_end_def by (intro set_concat_subset) (auto dest!: set_dropWhileD)

lemma set_trim_end_matches: "set (trim_end_matches P s) \<subseteq> set s"
  unfolding trim_end_matches_def by (intro set_concat_subset) (auto dest!: set_dropWhileD)

lemma set_trim_start: "set (trim_start s) \<subseteq> set s"
  unfolding trim_start_def by (intro set_concat_subset) (auto dest!: set_dropWhileD)

lemma set_cut_at: "set (cut_at marker s) \<subseteq> set s"
  by (auto simp: cut_at_def split: option.splits dest: in_set_takeD)

lemma set_butlast: "set (butlast s) \<subseteq> set s"
  by (auto dest: in_set_butlastD)

lemma set_split_whitespace: "w \<in> set (split_whitespace s) \<Longrightarrow> set w \<subseteq> set s"
proof -
  assume "w \<in> set (split_whitespace s)"
  then obtain c where c: "c \<in> set (split_at_sep is_whitespace (chars s))" "w = concat c"
    by (auto simp: split_whitespace_def)
  then have "set c \<subseteq> set (chars s)" using split_at_sep_elems by blast
  then show ?thesis by (simp only: c(2) set_concat_subset)
qed

lemma set_join_words: "set (join sep xs) \<subseteq> set sep \<union> \<Union> (set ` set xs)"
  by (induction sep xs rule: join.induct) auto

lemma set_words_of: "set (words_of ws) \<subseteq> {CHR '' ''} \<union> \<Union> (set ` set ws)"
  using set_join_words [of "'' ''" ws] by (simp add: words_of_def)

lemma set_replace_all: "set (replace_all s pat new) \<subseteq> set s \<union> set new"
proof (induction s pat new rule: replace_all.induct)
  case (1 pat new)
  then show ?case by simp
next
  case (2 b bs pat new)
  have d: "set (drop (length pat) (b # bs)) \<subseteq> set (b # bs)" by (rule set_drop_subset)
  show ?case
  proof (cases "pat \<noteq> [] \<and> starts_with (b # bs) pat")
    case True
    then have "set (replace_all (b # bs) pat new) = set new \<union> set (replace_all (drop (length pat) (b # bs)) pat new)"
      by simp
    then show ?thesis using 2(1) [OF True] d by blast
  next
    case False
    then have "set (replace_all (b # bs) pat new) = insert b (set (replace_all bs pat new))" by auto
    then show ?thesis using 2(2) [OF False] by auto
  qed
qed

lemma contains_set: "contains s p \<Longrightarrow> set p \<subseteq> set s"
  by (simp add: contains_iff set_mono_sublist)

lemma space_added: "CHR '' '' \<in> added_bytes"
  by (simp add: added_bytes_def)

lemma words_kept:
  "(\<And>w. w \<in> set ws \<Longrightarrow> set w \<subseteq> B \<union> added_bytes) \<Longrightarrow> set (words_of ws) \<subseteq> B \<union> added_bytes"
  using set_words_of [of ws] space_added by blast

text \<open>Every step keeps the set of bytes up to the added ones.\<close>

definition keeps :: "(string \<Rightarrow> string) \<Rightarrow> bool" where
  "keeps f \<longleftrightarrow> (\<forall>s. set (f s) \<subseteq> set s \<union> added_bytes)"

lemma keepsI: "(\<And>s. set (f s) \<subseteq> set s \<union> added_bytes) \<Longrightarrow> keeps f"
  by (simp add: keeps_def)

lemma keeps_comp: "keeps f \<Longrightarrow> keeps g \<Longrightarrow> keeps (\<lambda>s. f (g s))"
  unfolding keeps_def by blast

lemma split_kept: "w \<in> set (split_whitespace s) \<Longrightarrow> set w \<subseteq> set s \<union> added_bytes"
  using set_split_whitespace by blast

lemma keeps_words:
  assumes "\<And>s. f s = s \<or> (\<exists>ws. f s = words_of ws \<and> (\<forall>w \<in> set ws. set w \<subseteq> set s \<union> added_bytes))"
  shows "keeps f"
  by (rule keepsI) (metis assms sup_ge1 words_kept)

section \<open>The steps\<close>

lemma remove_bracketed_kept: "set (remove_bracketed_path_annotations s) \<subseteq> set s \<union> {CHR ''.''}"
proof (induction s rule: remove_bracketed_path_annotations.induct)
  case (1 s)
  show ?case
  proof (cases "find_str s ''.[''")
    case None
    then show ?thesis by (subst remove_bracketed_path_annotations.simps) auto
  next
    case (Some i)
    show ?thesis
    proof (cases "find_str (drop (i + 2) s) '']''")
      case None
      then show ?thesis using Some by (subst remove_bracketed_path_annotations.simps) auto
    next
      case (Some j)
      note ih = 1 [OF \<open>find_str s ''.['' = Some i\<close> Some]
      show ?thesis
        by (subst remove_bracketed_path_annotations.simps)
          (use ih Some \<open>find_str s ''.['' = Some i\<close> in \<open>auto dest!: in_set_takeD in_set_dropD\<close>)
    qed
  qed
qed

lemma strip_unbalanced_kept: "set (strip_unbalanced_trailing_quote s) \<subseteq> set s"
  using set_trim_end set_butlast
  by (fastforce simp: strip_unbalanced_trailing_quote_def Let_def split: option.splits)

lemma requote_kept: "set (requote token body) \<subseteq> set token \<union> set body"
  by (auto simp: requote_def leading_quote_def split: option.splits list.splits if_splits)

lemma home_dir_name_letters: "prompt_standard_home_dir_name prompt = Some name \<Longrightarrow> set name \<subseteq> added_bytes"
proof -
  assume "prompt_standard_home_dir_name prompt = Some name"
  then have "name \<in> fst ` set home_dirs"
    by (auto simp: prompt_standard_home_dir_name_def find_Some_iff) (metis fst_conv image_eqI nth_mem)
  moreover have "\<forall>n \<in> fst ` set home_dirs. set n \<subseteq> added_bytes"
    by (simp add: home_dirs_def added_bytes_def byte_alpha_def byte_upper_def byte_lower_def byte_in_def)
  ultimately show ?thesis by blast
qed

lemma home_path_kept:
  assumes "set name \<subseteq> added_bytes" "normalize_standard_home_dir_path path name = Some p"
  shows "set p \<subseteq> set path \<union> added_bytes"
proof -
  have "set ''$HOME/'' \<subseteq> added_bytes"
    by (simp add: added_bytes_def byte_alpha_def byte_upper_def byte_lower_def byte_in_def)
  then show ?thesis using assms
    by (auto simp: normalize_standard_home_dir_path_def Let_def split: if_splits option.splits dest!: in_set_dropD)
qed

lemma home_dir_kept: "set (normalize_standard_home_dir_artifacts s prompt) \<subseteq> set s \<union> added_bytes"
proof (cases "prompt_standard_home_dir_name prompt")
  case None
  then show ?thesis by (simp add: normalize_standard_home_dir_artifacts_def)
next
  case (Some name)
  have "set (normalize_standard_home_dir_token name w) \<subseteq> set w \<union> added_bytes" for w
  proof -
    let ?u = "trim_end_matches (any_of '',:;'') (trim_matches (any_of quote_chars) w)"
    have u: "set ?u \<subseteq> set w" using set_trim_end_matches set_trim_matches by blast
    show ?thesis
    proof (cases "normalize_standard_home_dir_path ?u name")
      case None
      then show ?thesis by (simp add: normalize_standard_home_dir_token_def Let_def)
    next
      case (Some p)
      from home_path_kept [OF home_dir_name_letters this] \<open>prompt_standard_home_dir_name prompt = Some name\<close>
      have "set p \<subseteq> set w \<union> added_bytes" using u by blast
      then show ?thesis using Some requote_kept [of w p]
        by (auto simp: normalize_standard_home_dir_token_def Let_def)
    qed
  qed
  then show ?thesis using Some set_split_whitespace [of _ s]
    by (auto simp: normalize_standard_home_dir_artifacts_def intro!: words_kept) blast
qed

lemma literal_added [simp]:
  "set ''.'' \<subseteq> added_bytes" "set ''-print'' \<subseteq> added_bytes" "set ''pwd'' \<subseteq> added_bytes" "set ''date'' \<subseteq> added_bytes"
  by (simp_all add: added_bytes_def byte_alpha_def byte_upper_def byte_lower_def byte_in_def)

lemma words_cases:
  "f = s \<or> (\<exists>ws. f = words_of ws \<and> (\<forall>w \<in> set ws. set w \<subseteq> set s \<union> added_bytes)) \<Longrightarrow> set f \<subseteq> set s \<union> added_bytes"
  using words_kept [of _ "set s"] by auto

lemma first_command_kept: "set (normalize_first_command_token_artifact s) \<subseteq> set s \<union> added_bytes"
proof (cases "split_whitespace s")
  case Nil
  then show ?thesis by (simp add: normalize_first_command_token_artifact_def)
next
  case (Cons w ws)
  have w: "set v \<subseteq> set s \<union> added_bytes" if "v \<in> set (w # ws)" for v using split_kept [of v s] that Cons by simp
  have "set (words_of (trim_end_matches (any_of ''.:'') w # ws)) \<subseteq> set s \<union> added_bytes"
    using w set_trim_end_matches [of "any_of ''.:''" w] by (intro words_kept) fastforce
  then show ?thesis using Cons by (auto simp: normalize_first_command_token_artifact_def Let_def)
qed

lemma collapse_kept: "set (collapse_repeated_grep_v_slash s) \<subseteq> set s"
proof (induction s rule: collapse_repeated_grep_v_slash.induct)
  case (1 s)
  show ?case
  proof (cases "contains s ''| grep -v / | grep -v /''")
    case True
    have "set ''| grep -v /'' \<subseteq> set s" using contains_set [OF True] by simp
    then show ?thesis
      using 1 [OF True] set_replace_all [of s "''| grep -v / | grep -v /''" "''| grep -v /''"] True
      by (subst collapse_repeated_grep_v_slash.simps) auto
  next
    case False
    then show ?thesis by (subst collapse_repeated_grep_v_slash.simps) simp
  qed
qed

lemma strip_first_suffix_kept: "set (strip_first_suffix endings s) \<subseteq> set s"
proof -
  have "set (trim_end (take n (trim_end s))) \<subseteq> set s" for n
    using set_trim_end [of s] set_trim_end [of "take n (trim_end s)"] set_take_subset [of n "trim_end s"] by blast
  then show ?thesis using set_trim_end [of s] by (simp add: strip_first_suffix_def Let_def split: option.splits)
qed

lemma cut_first_marker_kept: "set (cut_first_marker markers s) \<subseteq> set s"
proof -
  have "set (trim_end (cut_at m s)) \<subseteq> set s" for m
    using set_trim_end [of "cut_at m s"] set_cut_at [of m s] by blast
  then show ?thesis by (simp add: cut_first_marker_def split: option.splits)
qed

lemma trim_end_take_kept: "set (trim_end (take n s)) \<subseteq> set s"
  using set_trim_end [of "take n s"] set_take_subset [of n s] by blast

lemma file_selection_kept: "set (truncate_repeated_file_selection_artifact s prompt) \<subseteq> set s"
  using trim_end_take_kept by (simp add: truncate_repeated_file_selection_artifact_def Let_def split: option.splits)

lemma open_markers_kept: "set (truncate_open_markers markers s) \<subseteq> set s"
  by (induction markers) (use trim_end_take_kept in \<open>simp_all add: Let_def split: option.splits\<close>)

lemma open_tail_kept: "set (truncate_open_command_tail_artifact s prompt) \<subseteq> set s"
  using open_markers_kept by (simp add: truncate_open_command_tail_artifact_def Let_def del: truncate_open_markers.simps)

lemma replace_all_absent: "\<not> contains s pat \<Longrightarrow> replace_all s pat new = s"
  by (induction s pat new rule: replace_all.induct) auto

lemma replace_all_kept:
  "(contains s pat \<Longrightarrow> set new \<subseteq> B) \<Longrightarrow> set s \<subseteq> B \<Longrightarrow> set (replace_all s pat new) \<subseteq> B"
  by (cases "contains s pat") (use set_replace_all [of s pat new] in \<open>auto simp: replace_all_absent\<close>)

lemma xargs_kept: "set (normalize_xargs_placeholder_binding s) \<subseteq> set s \<union> added_bytes"
proof (cases "contains s ''{}''")
  case True
  let ?B = "set s \<union> added_bytes"
  have b: "set ''{}'' \<subseteq> ?B" using contains_set [OF True] by simp
  have l: "set ''Ixrgscp- '' \<subseteq> added_bytes"
    by (simp add: added_bytes_def byte_alpha_def byte_upper_def byte_lower_def byte_in_def)
  let ?t = "replace_all s ''| xargs -0 cp '' ''| xargs -0 -I{} cp ''"
  have t: "set ?t \<subseteq> ?B"
  proof (rule replace_all_kept)
    assume "contains s ''| xargs -0 cp ''"
    from contains_set [OF this] show "set ''| xargs -0 -I{} cp '' \<subseteq> ?B" using b l by simp
  qed simp
  have "set (replace_all ?t ''| xargs cp '' ''| xargs -I{} cp '') \<subseteq> ?B"
  proof (rule replace_all_kept [OF _ t])
    assume "contains ?t ''| xargs cp ''"
    from contains_set [OF this] have "set ''| xargs cp '' \<subseteq> ?B" using t by blast
    then show "set ''| xargs -I{} cp '' \<subseteq> ?B" using b l by simp
  qed
  then show ?thesis by (auto simp: normalize_xargs_placeholder_binding_def)
next
  case False
  then show ?thesis by (simp add: normalize_xargs_placeholder_binding_def)
qed

lemma repair_tail_kept: "set (repair_tail s prompt) \<subseteq> set s \<union> added_bytes"
  unfolding repair_tail_def strip_trailing_incomplete_xargs_def strip_trailing_incomplete_sed_def
    strip_trailing_incomplete_grep_def strip_repeated_echo_head_artifact_def
  by (rule subset_trans [OF xargs_kept], rule Un_least, rule subset_trans [OF open_tail_kept],
      rule subset_trans [OF file_selection_kept], rule subset_trans [OF cut_first_marker_kept],
      rule subset_trans [OF strip_first_suffix_kept], rule subset_trans [OF strip_first_suffix_kept],
      rule subset_trans [OF strip_first_suffix_kept], rule subset_trans [OF collapse_kept],
      rule subset_trans [OF home_dir_kept], rule Un_least, rule subset_trans [OF first_command_kept], rule Un_least,
      rule subset_trans [OF strip_unbalanced_kept]) simp_all

section \<open>Arguments and the whole clean-up\<close>

lemma grep_words_kept: "w \<in> set (grep_words saw tokens) \<Longrightarrow> w \<in> set tokens \<or> w = ''.''"
  by (induction saw tokens rule: grep_words.induct) (auto split: if_splits)

lemma grep_tail_kept: "set (normalize_grep_pattern_tail_artifacts s) \<subseteq> set s \<union> added_bytes"
proof -
  have "set w \<subseteq> set s \<union> added_bytes" if "w \<in> set (grep_words False (split_whitespace s))" for w
    using grep_words_kept [OF that] split_kept [of w s] literal_added(1) by auto
  then have "set (words_of (grep_words False (split_whitespace s))) \<subseteq> set s \<union> added_bytes" by (rule words_kept)
  then show ?thesis by (auto simp: normalize_grep_pattern_tail_artifacts_def Let_def)
qed

lemma current_dir_kept: "set (normalize_unspecified_current_dir_path_args s prompt) \<subseteq> set s \<union> added_bytes"
proof (cases "split_whitespace s")
  case Nil
  then show ?thesis by (auto simp: normalize_unspecified_current_dir_path_args_def)
next
  case (Cons p args)
  let ?ws = "p # map (\<lambda>token. if current_dir_artifact token then requote token ''.'' else token) args"
  have w: "set v \<subseteq> set s \<union> added_bytes" if "v \<in> set (p # args)" for v using split_kept [of v s] that Cons by simp
  have "set v \<subseteq> set s \<union> added_bytes" if "v \<in> set ?ws" for v
  proof -
    from that consider "v \<in> set (p # args)" | t where "t \<in> set (p # args)" "v = requote t ''.''"
      by (auto split: if_splits)
    then show ?thesis
    proof cases
      case 2
      with requote_kept [of t "''.''"] w [of t] literal_added(1) show ?thesis by blast
    qed (rule w)
  qed
  then have "set (words_of ?ws) \<subseteq> set s \<union> added_bytes" by (rule words_kept)
  then show ?thesis using Cons by (auto simp: normalize_unspecified_current_dir_path_args_def)
qed

lemma find_print_kept: "set (normalize_find_print_artifacts s) \<subseteq> set s \<union> added_bytes"
proof (rule words_cases)
  have "set w \<subseteq> set s \<union> added_bytes" if "w \<in> set (takeWhile P (split_whitespace s) @ [''-print''])" for w P
    using that split_kept [of w s] literal_added(2) by (auto dest: set_takeWhileD)
  then show "normalize_find_print_artifacts s = s
      \<or> (\<exists>ws. normalize_find_print_artifacts s = words_of ws \<and> (\<forall>w \<in> set ws. set w \<subseteq> set s \<union> added_bytes))"
    unfolding normalize_find_print_artifacts_def Let_def by (metis (no_types, lifting))
qed

lemma split_on_set: "seg \<in> set (split_on c s) \<Longrightarrow> set seg \<subseteq> set s"
  unfolding split_on_def using split_at_sep_elems by blast

lemma wc_segment_kept: "set (wc_segment seg) \<subseteq> set seg \<union> added_bytes"
proof -
  have "set w \<subseteq> set seg \<union> added_bytes"
    if "w \<in> set (rev (dropWhile P (rev (split_whitespace (trim seg)))))" for w P
  proof -
    have "w \<in> set (split_whitespace (trim seg))" using that by (auto dest: set_dropWhileD)
    with split_kept [of w "trim seg"] set_trim [of seg] show ?thesis by blast
  qed
  then have "set (words_of (rev (dropWhile P (rev (split_whitespace (trim seg)))))) \<subseteq> set seg \<union> added_bytes" for P
    by (rule words_kept)
  then show ?thesis using set_trim [of seg] by (auto simp: wc_segment_def Let_def)
qed

lemma pipeline_wc_kept: "set (normalize_pipeline_wc_artifacts s prompt) \<subseteq> set s \<union> added_bytes"
proof (cases "contains s ''| wc ''")
  case True
  have bar: "set '' | '' \<subseteq> set s \<union> added_bytes" using contains_set [OF True] space_added by simp
  have "set w \<subseteq> set s \<union> added_bytes" if "w \<in> set (map wc_segment (split_on (CHR ''|'') s))" for w
    using that wc_segment_kept split_on_set [of _ "CHR ''|''" s] by fastforce
  then have "set (join '' | '' (map wc_segment (split_on (CHR ''|'') s))) \<subseteq> set s \<union> added_bytes"
    using set_join_words [of "'' | ''" "map wc_segment (split_on (CHR ''|'') s)"] bar by blast
  then show ?thesis by (auto simp: normalize_pipeline_wc_artifacts_def)
next
  case False
  then show ?thesis by (simp add: normalize_pipeline_wc_artifacts_def)
qed

lemma no_arg_kept: "set (normalize_no_arg_program_artifacts s) \<subseteq> set s \<union> added_bytes"
proof (cases "split_whitespace s")
  case Nil
  then show ?thesis by (simp add: normalize_no_arg_program_artifacts_def)
next
  case (Cons p args)
  have "set w \<subseteq> set s \<union> added_bytes" if "w \<in> set (''date'' # date_words args)" for w
  proof (cases "w = ''date''")
    case True
    then show ?thesis using literal_added(4) by blast
  next
    case False
    then have "w \<in> set args" using that
      by (auto simp: date_words_def Let_def dest!: set_takeWhileD in_set_takeD in_set_dropD)
    then show ?thesis using split_kept [of w s] Cons by simp
  qed
  then have "set (words_of (''date'' # date_words args)) \<subseteq> set s \<union> added_bytes" by (rule words_kept)
  then show ?thesis using Cons literal_added(3) by (auto simp: normalize_no_arg_program_artifacts_def)
qed

lemma mkdir_kept: "set (normalize_mkdir_path_artifacts s prompt) \<subseteq> set s \<union> added_bytes"
proof -
  have "set (words_of (filter P (split_whitespace s))) \<subseteq> set s \<union> added_bytes" for P
    by (rule words_kept) (use split_kept [of _ s] in auto)
  then show ?thesis by (auto simp: normalize_mkdir_path_artifacts_def Let_def)
qed

lemma repair_arguments_kept: "set (repair_arguments s prompt) \<subseteq> set s \<union> added_bytes"
  unfolding repair_arguments_def strip_grep_dot_filter_artifact_def
  by (rule subset_trans [OF mkdir_kept], rule Un_least, rule subset_trans [OF no_arg_kept], rule Un_least,
      rule subset_trans [OF pipeline_wc_kept], rule Un_least, rule subset_trans [OF find_print_kept], rule Un_least,
      rule subset_trans [OF current_dir_kept], rule Un_least, rule subset_trans [OF grep_tail_kept], rule Un_least,
      rule subset_trans [OF cut_first_marker_kept]) simp_all

lemma cut_after_target_kept: "set (cut_after_target s prompt) \<subseteq> set s \<union> added_bytes"
proof -
  have "set w \<subseteq> set s \<union> added_bytes" if "w \<in> set (takeWhile P (split_whitespace s) @ [''.''])" for w P
    using that split_kept [of w s] literal_added(1) by (auto dest: set_takeWhileD)
  then have 1: "set (words_of (takeWhile P (split_whitespace s) @ [''.''])) \<subseteq> set s \<union> added_bytes" for P
    by (rule words_kept)
  have 2: "set (words_of (take n (split_whitespace s))) \<subseteq> set s \<union> added_bytes" for n
    by (rule words_kept) (use split_kept [of _ s] in \<open>auto dest: in_set_takeD\<close>)
  show ?thesis using 1 2 by (simp add: cut_after_target_def Let_def)
qed

lemma bracket_artifact_kept: "strip_trailing_bracket_artifact v = Some (Some out) \<Longrightarrow> set out \<subseteq> set v"
  using set_trim_end [of v]
  by (auto simp: strip_trailing_bracket_artifact_def Let_def slice_from_def split: if_splits option.splits
      dest!: in_set_takeD in_set_dropD)

lemma strip_wrapping_kept: "set (strip_wrapping_quotes v) \<subseteq> set v"
  using set_trim [of v] by (auto simp: strip_wrapping_quotes_def Let_def dest!: in_set_butlastD list.set_sel(2) [rotated] split: if_splits)

lemma if_weak: "P a \<Longrightarrow> P b \<Longrightarrow> P (if c then a else b)"
  by simp

lemma clean_value_kept: "clean_local_action_value v = Some out \<Longrightarrow> set out \<subseteq> set v"
proof -
  assume out: "clean_local_action_value v = Some out"
  let ?o = "cut_at (replicate 3 backtick) (cut_at ''<|'' (trim v))"
  let ?u = "trim (strip_wrapping_quotes (trim (trim_matches (any_of [backtick]) (trim ?o))))"
  have "set (trim (trim_end_matches P ?u)) \<subseteq> set v" for P
    by (intro subset_trans [OF set_trim] subset_trans [OF set_trim_end_matches] subset_trans [OF strip_wrapping_kept]
        subset_trans [OF set_trim_matches] subset_trans [OF set_cut_at] set_trim)
  note t = this
  have m: "set (clean_marks v) \<subseteq> set v"
    unfolding clean_marks_def Let_def
    by (rule if_weak [of "\<lambda>x. set x \<subseteq> set v"], rule subset_trans [OF set_butlast t], rule t)
  obtain st where st: "strip_trailing_bracket_artifact (clean_marks v) = Some st"
    and o: "out = trim (case st of None \<Rightarrow> clean_marks v | Some s \<Rightarrow> s)"
    using out by (auto simp: clean_local_action_value_def Let_def)
  show ?thesis
  proof (cases st)
    case None
    with o show ?thesis using set_trim [of "clean_marks v"] m by auto
  next
    case (Some s)
    with o bracket_artifact_kept [of "clean_marks v" s] st set_trim [of s] m show ?thesis by auto
  qed
qed

lemma before_value_kept: "set (before_value s) \<subseteq> set s \<union> added_bytes"
proof -
  let ?r = "remove_bracketed_path_annotations (cut_markers s)"
  have "set (cut_markers s) \<subseteq> set s"
    unfolding cut_markers_def by (intro subset_trans [OF set_cut_at] set_trim)
  then have r: "set ?r \<subseteq> set s \<union> added_bytes"
    using remove_bracketed_kept [of "cut_markers s"] literal_added(1) by auto
  show ?thesis unfolding before_value_def
  proof (rule replace_all_kept [OF _ r])
    assume "contains ?r ''-type f:''"
    from subset_trans [OF contains_set [OF this] r] show "set ''-type f'' \<subseteq> set s \<union> added_bytes" by simp
  qed
qed


end
