(* ===== verification/Sanitize_Props.thy ===== *)
theory Sanitize_Props
  imports Sanitize_Bytes Shell_Quote
begin

text \<open>
  What the clean-up does to well-formed commands: words without special characters pass unchanged,
  but a final \<open>..\<close> becomes \<open>.\<close>, a command that begins and ends with quoted words loses the outer
  quotes, and a bracket after a wide blank makes it panic.
\<close>

section \<open>ASCII text\<close>

definition ascii_str :: "string \<Rightarrow> bool" where
  "ascii_str s \<longleftrightarrow> (\<forall>b \<in> set s. \<not> digit7 b)"

lemma ascii_chars: "ascii_str s \<Longrightarrow> chars s = map (\<lambda>b. [b]) s"
  by (intro chars_ascii) (simp add: ascii_str_def is_cont_def)

lemma concat_singletons [simp]: "concat (map (\<lambda>b. [b]) s) = s"
  by (induction s) simp_all

lemma split_at_sep_map: "split_at_sep P (map f xs) = map (map f) (split_at_sep (\<lambda>x. P (f x)) xs)"
  by (induction xs) (auto split: list.split)

lemma ascii_split: "ascii_str s \<Longrightarrow> split_whitespace s = filter (\<lambda>w. w \<noteq> []) (split_at_sep ascii_space s)"
  by (simp add: split_whitespace_def ascii_chars split_at_sep_map filter_map comp_def map_idI)

lemma split_words:
  assumes "\<forall>w \<in> set ws. w \<noteq> [] \<and> (\<forall>b \<in> set w. \<not> ascii_space b \<and> \<not> digit7 b)"
  shows "split_whitespace (words_of ws) = ws"
proof -
  have "ascii_str (words_of ws)"
    using assms set_words_of [of ws] by (fastforce simp: ascii_str_def)
  moreover have "filter (\<lambda>w. w \<noteq> []) (split_at_sep ascii_space (words_of ws)) = ws"
    using assms
  proof (induction ws rule: induct_list012)
    case 1
    then show ?case by (simp add: words_of_def)
  next
    case (2 w)
    then show ?case by (simp add: words_of_def split_at_sep_none)
  next
    case (3 w v ws)
    have "words_of (w # v # ws) = w @ CHR '' '' # words_of (v # ws)" by (simp add: words_of_def)
    moreover have "ascii_space (CHR '' '')" by (simp add: ascii_space_def)
    ultimately show ?case using 3 split_at_sep_append [of w ascii_space "CHR '' ''" "words_of (v # ws)"] by simp
  qed
  ultimately show ?thesis by (simp add: ascii_split)
qed

lemma trim_matches_id:
  "ascii_str s \<Longrightarrow> s = [] \<or> \<not> P [hd s] \<and> \<not> P [last s] \<Longrightarrow> trim_matches P s = s"
  by (cases "s = []") (simp_all add: trim_matches_def ascii_chars trim_list_id hd_map last_map)

lemma trim_end_matches_id: "ascii_str s \<Longrightarrow> s = [] \<or> \<not> P [last s] \<Longrightarrow> trim_end_matches P s = s"
  by (cases s rule: rev_cases) (simp_all add: trim_end_matches_def ascii_chars)

lemma trim_end_id: "ascii_str s \<Longrightarrow> s = [] \<or> \<not> ascii_space (last s) \<Longrightarrow> trim_end s = s"
  using trim_end_matches_id [of s is_whitespace] by (simp add: trim_end_def trim_end_matches_def)

lemma trim_id: "ascii_str s \<Longrightarrow> s = [] \<or> \<not> ascii_space (hd s) \<and> \<not> ascii_space (last s) \<Longrightarrow> trim s = s"
  by (simp add: trim_def trim_matches_id)

lemma find_str_None: "find_str s p = None \<longleftrightarrow> \<not> contains s p"
  by (induction s) auto

lemma cut_at_absent: "\<not> contains s marker \<Longrightarrow> cut_at marker s = s"
  by (simp add: cut_at_def find_str_None [symmetric])

lemma ends_contains: "ends_with s p \<Longrightarrow> contains s p"
  by (auto simp: ends_with_iff contains_iff)

section \<open>Plain commands\<close>

definition plain_byte :: "char \<Rightarrow> bool" where
  "plain_byte b \<longleftrightarrow> byte_alnum b \<or> b \<in> set ''_-/+=''"

definition bare_word :: "string \<Rightarrow> bool" where
  "bare_word w \<longleftrightarrow> w \<noteq> [] \<and> (\<forall>b \<in> set w. plain_byte b)"

definition command_byte :: "char \<Rightarrow> bool" where
  "command_byte b \<longleftrightarrow> plain_byte b \<or> b = CHR '' '' \<or> b = CHR ''.''"

lemma plain_byte_ascii: "plain_byte b \<Longrightarrow> \<not> digit7 b \<and> \<not> ascii_space b"
proof -
  assume "plain_byte b"
  then have "of_char b < (128 :: nat) \<and> 32 < (of_char b :: nat)"
    by (auto simp: plain_byte_def byte_alnum_def byte_alpha_def byte_upper_def byte_lower_def byte_digit_def byte_in_def)
  moreover have "digit7 b \<Longrightarrow> 128 \<le> (of_char b :: nat)" by (cases b) (simp add: of_char_Char)
  moreover have "ascii_space b \<Longrightarrow> of_char b \<le> (32 :: nat)" by (auto simp: ascii_space_def)
  ultimately show ?thesis by (meson linorder_not_less)
qed

text \<open>A command of plain words, the last of which may be a dot.\<close>

definition plain_command :: "string list \<Rightarrow> bool" where
  "plain_command ws \<longleftrightarrow>
     ws \<noteq> [] \<and> bare_word (hd ws) \<and> (\<forall>w \<in> set (butlast ws). bare_word w) \<and> (bare_word (last ws) \<or> last ws = ''.'')"

lemma special_not_command [simp]:
  "\<not> command_byte (CHR 0x5C)" "\<not> command_byte (CHR '':'')" "\<not> command_byte (CHR ''<'')" "\<not> command_byte (CHR 0x60)"
  "\<not> command_byte (CHR ''['')" "\<not> command_byte (CHR '']'')" "\<not> command_byte (CHR ''|'')" "\<not> command_byte (CHR 0x22)"
  "\<not> command_byte (CHR 0x27)" "\<not> command_byte (CHR ''{'')" "\<not> command_byte (CHR ''('')"
  by (simp_all add: command_byte_def plain_byte_def byte_alnum_def byte_alpha_def byte_upper_def byte_lower_def
      byte_digit_def byte_in_def)

lemma command_byte_absent: "\<forall>b \<in> set s. command_byte b \<Longrightarrow> b \<in> set p \<Longrightarrow> \<not> command_byte b \<Longrightarrow> \<not> contains s p"
  using contains_set by blast

lemma plain_words_bytes:
  assumes "\<forall>w \<in> set ws. bare_word w \<or> w = ''.'' \<or> w = ''..''"
  shows "\<forall>b \<in> set (words_of ws). command_byte b"
  using set_words_of [of ws] assms by (fastforce simp: command_byte_def bare_word_def)

lemma plain_words_split:
  assumes "\<forall>w \<in> set ws. bare_word w \<or> w = ''.'' \<or> w = ''..''"
  shows "split_whitespace (words_of ws) = ws"
proof (rule split_words)
  have "\<not> ascii_space (CHR ''.'')" by (simp add: ascii_space_def)
  then show "\<forall>w \<in> set ws. w \<noteq> [] \<and> (\<forall>b \<in> set w. \<not> ascii_space b \<and> \<not> digit7 b)"
    using assms plain_byte_ascii by (fastforce simp: bare_word_def)
qed

lemma hd_words_of: "ws \<noteq> [] \<Longrightarrow> hd ws \<noteq> [] \<Longrightarrow> words_of ws \<noteq> [] \<and> hd (words_of ws) = hd (hd ws)"
  by (cases ws rule: list.exhaust, simp, cases "tl ws") (auto simp: words_of_def)

lemma words_of_snoc: "ws \<noteq> [] \<Longrightarrow> words_of (ws @ [w]) = words_of ws @ '' '' @ w"
  by (induction ws rule: induct_list012) (simp_all add: words_of_def)

lemma last_words_of: "ws \<noteq> [] \<Longrightarrow> last ws \<noteq> [] \<Longrightarrow> last (words_of ws) = last (last ws)"
proof (induction ws rule: rev_induct)
  case (snoc w ws)
  then show ?case by (cases "ws = []") (simp_all add: words_of_snoc, simp add: words_of_def)
qed simp

lemma plain_command_words: "plain_command ws \<Longrightarrow> \<forall>w \<in> set ws. bare_word w \<or> w = ''.'' \<or> w = ''..''"
  unfolding plain_command_def by (metis Un_iff append_butlast_last_id empty_iff empty_set set_ConsD set_append)

lemmas plain_command_bytes = plain_words_bytes [OF plain_command_words]
lemmas plain_command_split = plain_words_split [OF plain_command_words]
lemmas plain_command_absent = command_byte_absent [OF plain_command_bytes]

lemma plain_command_absent_end:
  "plain_command ws \<Longrightarrow> b \<in> set p \<Longrightarrow> \<not> command_byte b \<Longrightarrow> \<not> ends_with (words_of ws) p"
  using plain_command_absent ends_contains by blast

lemma command_bytes_ascii: "\<forall>b \<in> set s. command_byte b \<Longrightarrow> ascii_str s"
  using plain_byte_ascii by (auto simp: ascii_str_def command_byte_def)

lemmas plain_command_ascii = command_bytes_ascii [OF plain_command_bytes]

lemma plain_command_ends:
  assumes "plain_command ws"
  shows "words_of ws \<noteq> []" "plain_byte (hd (words_of ws))"
    "plain_byte (last (words_of ws)) \<or> last (words_of ws) = CHR ''.''"
  using assms hd_words_of [of ws] last_words_of [of ws] by (auto simp: plain_command_def bare_word_def)

lemma plain_command_trimmed:
  assumes "plain_command ws"
  shows "trim (words_of ws) = words_of ws" "trim_end (words_of ws) = words_of ws"
proof -
  have "\<not> ascii_space (last (words_of ws))" "\<not> ascii_space (hd (words_of ws))"
    using plain_command_ends [OF assms] plain_byte_ascii by (auto simp: ascii_space_def)
  then show "trim (words_of ws) = words_of ws" "trim_end (words_of ws) = words_of ws"
    using trim_id trim_end_id plain_command_ascii [OF assms] by blast+
qed

lemma special_not_plain [simp]: "\<not> command_byte b \<Longrightarrow> \<not> plain_byte b"
  by (simp add: command_byte_def)

section \<open>The steps leave a plain command\<close>

lemma find_none: "\<forall>x \<in> set xs. \<not> P x \<Longrightarrow> find P xs = None"
  by (simp add: find_None_iff)

lemma repair_tail_plain:
  assumes "plain_command ws" "prompt_standard_home_dir_name prompt = None"
  shows "repair_tail (words_of ws) prompt = words_of ws"
proof -
  let ?c = "words_of ws"
  note no = plain_command_absent [OF assms(1)] and no_end = plain_command_absent_end [OF assms(1)]
  obtain p rest where ws: "ws = p # rest" and p: "bare_word p" using assms(1) by (cases ws) (auto simp: plain_command_def)
  have "\<not> plain_byte (CHR ''.'')"
    by (simp add: plain_byte_def byte_alnum_def byte_alpha_def byte_upper_def byte_lower_def byte_digit_def byte_in_def)
  moreover have "plain_byte (last p)" "ascii_str p"
    using p plain_byte_ascii by (auto simp: bare_word_def ascii_str_def)
  ultimately have "trim_end_matches (any_of ''.:'') p = p"
    by (intro trim_end_matches_id) (auto simp: any_of_def)
  then have 0: "normalize_first_command_token_artifact ?c = ?c"
    using plain_command_split [OF assms(1)] by (simp add: normalize_first_command_token_artifact_def ws Let_def)
  have 1: "strip_unbalanced_trailing_quote ?c = ?c"
    using no_end [of "CHR 0x22" "[CHR 0x22]"] no_end [of "CHR 0x27" "[CHR 0x27]"]
    by (simp add: strip_unbalanced_trailing_quote_def Let_def plain_command_trimmed [OF assms(1)])
  have bar: "\<not> contains ?c p" if "CHR ''|'' \<in> set p" for p using no [OF that] by simp
  then have bar_end: "\<not> ends_with ?c p" if "CHR ''|'' \<in> set p" for p using that ends_contains by blast
  have 2: "normalize_standard_home_dir_artifacts ?c prompt = ?c" using assms(2)
    by (simp add: normalize_standard_home_dir_artifacts_def)
  have 3: "collapse_repeated_grep_v_slash ?c = ?c"
    by (subst collapse_repeated_grep_v_slash.simps) (simp add: bar)
  have 4: "strip_first_suffix endings ?c = ?c" if "\<forall>e \<in> set endings. CHR ''|'' \<in> set e" for endings
    using that bar_end find_none [of endings "ends_with ?c"] by (simp add: strip_first_suffix_def plain_command_trimmed [OF assms(1)])
  have 5: "cut_first_marker markers ?c = ?c" if "\<forall>m \<in> set markers. CHR ''|'' \<in> set m" for markers
    using that bar find_none [of markers "contains ?c"] by (simp add: cut_first_marker_def)
  have "find_str ?c cut_marker = None" unfolding find_str_None by (rule bar) (simp add: cut_marker_def)
  then have 6: "truncate_repeated_file_selection_artifact ?c prompt = ?c"
    by (simp add: truncate_repeated_file_selection_artifact_def Let_def)
  have "truncate_open_markers markers ?c = ?c" if "\<forall>m \<in> set markers. CHR ''|'' \<in> set m" for markers
    using that by (induction markers) (simp_all add: bar find_str_None [THEN iffD2])
  then have 7: "truncate_open_command_tail_artifact ?c prompt = ?c"
    by (simp add: truncate_open_command_tail_artifact_def Let_def del: truncate_open_markers.simps)
  have 8: "normalize_xargs_placeholder_binding ?c = ?c"
    using no [of "CHR ''{''" "''{}''"] by (simp add: normalize_xargs_placeholder_binding_def)
  show ?thesis
    by (simp add: repair_tail_def 0 1 2 3 4 5 6 7 8 strip_trailing_incomplete_grep_def strip_trailing_incomplete_sed_def
        strip_trailing_incomplete_xargs_def strip_repeated_echo_head_artifact_def)
qed

lemma plain_not_dot: "\<not> plain_byte (CHR ''.'')"
  by (simp add: plain_byte_def byte_alnum_def byte_alpha_def byte_upper_def byte_lower_def byte_digit_def byte_in_def)

lemma word_absent: "bare_word w \<or> w = ''.'' \<Longrightarrow> b \<in> set p \<Longrightarrow> \<not> command_byte b \<Longrightarrow> \<not> contains w p"
  by (rule command_byte_absent) (auto simp: command_byte_def bare_word_def)

lemma word_trimmed:
  assumes "bare_word w \<or> w = ''.''" "\<forall>b. P [b] \<longrightarrow> \<not> command_byte b"
  shows "trim_matches P w = w"
proof (rule trim_matches_id)
  have "\<forall>b \<in> set w. command_byte b" using assms(1) by (auto simp: command_byte_def bare_word_def)
  then show "ascii_str w" "w = [] \<or> \<not> P [hd w] \<and> \<not> P [last w]"
    using command_bytes_ascii assms(2) by auto
qed

lemma starts_contains: "starts_with s p \<Longrightarrow> contains s p"
  by (simp add: starts_with_iff contains_iff)

lemma word_artifacts:
  assumes "bare_word w \<or> w = ''.''"
  shows "\<not> looks_like_grep_pattern_tail_artifact w" "\<not> current_dir_artifact w"
proof -
  have t: "trim_matches (any_of '',:;'') w = w" "trim_matches (any_of quote_chars) w = w"
    by (rule word_trimmed [OF assms], simp add: any_of_def command_byte_def plain_byte_def byte_alnum_def byte_alpha_def
        byte_upper_def byte_lower_def byte_digit_def byte_in_def)+
  note no = word_absent [OF assms]
  have st: "\<not> starts_with w p" if "b \<in> set p" "\<not> command_byte b" for b p using no [OF that] starts_contains by blast
  show "\<not> looks_like_grep_pattern_tail_artifact w"
    using no [of "CHR ''[''" "''[]''"] st [of "CHR 0x22"] st [of "CHR 0x27"] st [of "CHR 0x60"]
      no [of "CHR ''(''" "''(.)''"] no [of "CHR ''(''" "''(/)''"] no [of "CHR ''(''" "''(*)''"] ends_contains [of w "''(.)''"]
    by (auto simp: looks_like_grep_pattern_tail_artifact_def t looks_like_zsh_glob_qualifier_artifact_def)
  show "\<not> current_dir_artifact w"
  proof (cases "w = ''.''")
    case True
    show ?thesis by (simp add: True current_dir_artifact_def t [unfolded True] looks_like_embedded_command_path_artifact_def
        strip_prefix_def split_chars_def)
  next
    case False
    then have "\<not> starts_with w (CHR ''.'' # p)" for p
      using assms plain_not_dot by (cases w) (auto simp: bare_word_def)
    then show ?thesis by (simp add: current_dir_artifact_def t looks_like_embedded_command_path_artifact_def strip_prefix_def)
  qed
qed

lemma repair_arguments_plain:
  assumes "plain_command ws" "hd ws \<notin> {''pwd'', ''date''}"
  shows "repair_arguments (words_of ws) prompt = words_of ws"
proof -
  let ?c = "words_of ws"
  note no = plain_command_absent [OF assms(1)] and sp = plain_command_split [OF assms(1)]
  have w: "bare_word w \<or> w = ''.''" if "w \<in> set ws" for w
    using assms(1) that unfolding plain_command_def
    by (metis Un_iff append_butlast_last_id empty_iff empty_set set_ConsD set_append)
  obtain p rest where ws: "ws = p # rest" using assms(1) by (cases ws) (auto simp: plain_command_def)
  have bar: "\<not> contains ?c p" if "CHR ''|'' \<in> set p" for p using no [OF that] by simp
  have 1: "strip_grep_dot_filter_artifact ?c = ?c"
    unfolding strip_grep_dot_filter_artifact_def cut_first_marker_def
    by (subst find_none) (simp_all add: bar raw_def)
  have 2: "normalize_grep_pattern_tail_artifacts ?c = ?c"
    using w word_artifacts(1) by (auto simp: normalize_grep_pattern_tail_artifacts_def sp list_ex_iff)
  have "\<not> list_ex current_dir_artifact rest" using w word_artifacts(2) ws by (auto simp: list_ex_iff)
  then have 3: "normalize_unspecified_current_dir_path_args ?c prompt = ?c"
    by (simp add: normalize_unspecified_current_dir_path_args_def sp) (simp add: ws)
  have "takeWhile (\<lambda>t. \<not> starts_with t ''-print:'') ws = ws"
    using word_absent [OF w, of _ "CHR '':''" "''-print:''"] starts_contains by (intro takeWhile_eq_all_conv [THEN iffD2]) auto
  then have 4: "normalize_find_print_artifacts ?c = ?c" by (simp add: normalize_find_print_artifacts_def sp Let_def)
  have 5: "normalize_pipeline_wc_artifacts ?c prompt = ?c" by (simp add: normalize_pipeline_wc_artifacts_def bar)
  have 6: "normalize_no_arg_program_artifacts ?c = ?c"
    using assms(2) by (simp add: normalize_no_arg_program_artifacts_def sp) (simp add: ws)
  have "\<not> (starts_with t ''./'' \<or> starts_with t ''.:'')" if "t \<in> set ws" for t
    using w [OF that] plain_not_dot by (cases t) (auto simp: bare_word_def)
  then have "filter (\<lambda>t. \<not> (starts_with t ''./'' \<or> starts_with t ''.:'')) ws = ws" by (intro filter_True) blast
  then have 7: "normalize_mkdir_path_artifacts ?c prompt = ?c" by (simp add: normalize_mkdir_path_artifacts_def sp)
  show ?thesis by (simp add: repair_arguments_def 1 2 3 4 5 6 7)
qed

lemma cut_after_target_plain:
  assumes "plain_command ws" "filename_like_prompt_tokens prompt = []"
  shows "cut_after_target (words_of ws) prompt = words_of ws"
proof -
  let ?dot = "\<lambda>t. t = ''.'' \<or> t = ''./'' \<or> t = ''./.''"
  obtain front w where ws: "ws = front @ [w]" using assms(1) by (cases ws rule: rev_cases) (auto simp: plain_command_def)
  have front: "\<forall>t \<in> set front. \<not> ?dot t"
    using assms(1) plain_not_dot by (auto simp: ws plain_command_def bare_word_def)
  have w: "?dot w \<Longrightarrow> w = ''.''" using assms(1) plain_not_dot by (auto simp: ws plain_command_def bare_word_def)
  have "takeWhile (\<lambda>t. \<not> ?dot t) ws @ [''.''] = ws" if "list_ex ?dot ws"
  proof -
    have "?dot w" using that front by (auto simp: ws list_ex_iff)
    then show ?thesis using w front by (simp add: ws)
  qed
  moreover have "\<not> prompt_path_word prompt t" for t by (simp add: prompt_path_word_def assms(2))
  ultimately show ?thesis
    by (auto simp: cut_after_target_def plain_command_split [OF assms(1)] list_ex_iff Let_def)
qed

section \<open>Cutting and unquoting\<close>

lemma before_value_plain:
  assumes "\<forall>b \<in> set s. command_byte b" "trim s = s" "\<not> contains s ''command not found''"
  shows "before_value s = s"
proof -
  note no = command_byte_absent [OF assms(1)]
  have "cut_markers s = s"
    using no [of "CHR 0x5C" "[CHR 0x5C, CHR ''n'']"] no [of "CHR '':''" "''zsh:''"] no [of "CHR '':''" "'':{}''"] assms(2,3)
    by (simp add: cut_markers_def cut_at_absent)
  moreover have "remove_bracketed_path_annotations s = s"
    using no [of "CHR ''[''" "''.[''"] by (subst remove_bracketed_path_annotations.simps) (simp add: find_str_None [THEN iffD2])
  moreover have "replace_all s ''-type f:'' ''-type f'' = s"
    using no [of "CHR '':''" "''-type f:''"] by (intro replace_all_absent) simp
  ultimately show ?thesis by (simp add: before_value_def)
qed

lemma command_byte_no_space: "command_byte b \<Longrightarrow> b \<noteq> CHR '' '' \<Longrightarrow> \<not> ascii_space b"
proof -
  assume b: "command_byte b" "b \<noteq> CHR '' ''"
  have "\<not> ascii_space (CHR ''.'')" by (simp add: ascii_space_def)
  then show ?thesis using b plain_byte_ascii [of b] unfolding command_byte_def by blast
qed

lemma clean_marks_plain:
  assumes "\<forall>b \<in> set s. command_byte b" "s \<noteq> []" "hd s \<noteq> CHR '' ''" "last s \<noteq> CHR '' ''"
  shows "clean_marks s = (if ends_with s ''.'' \<and> \<not> ends_with s '' .'' then butlast s else s)"
proof -
  note no = command_byte_absent [OF assms(1)]
  have a: "ascii_str s" by (rule command_bytes_ascii [OF assms(1)])
  have cb: "command_byte (hd s)" "command_byte (last s)" using assms(1,2) by auto
  then have "\<not> ascii_space (hd s)" "\<not> ascii_space (last s)"
    using assms(3,4) command_byte_no_space by blast+
  then have t: "trim s = s" using trim_id [OF a] by blast
  have "cut_at (replicate 3 backtick) (cut_at ''<|'' s) = s"
    using no [of "CHR ''<''" "''<|''"] no [of backtick "replicate 3 backtick"] by (simp add: cut_at_absent)
  moreover have "trim_matches (any_of [backtick]) s = s"
    using cb by (intro trim_matches_id [OF a]) (auto simp: any_of_def)
  moreover have "\<not> quote_byte (hd s)" using cb(1) by (auto simp: quote_byte_def)
  then have "strip_wrapping_quotes s = s" by (simp add: strip_wrapping_quotes_def t Let_def)
  moreover have "trim_end_matches (\<lambda>c. c \<in> set zero_width) s = s"
    by (intro trim_end_matches_id [OF a]) (simp add: zero_width_def)
  ultimately show ?thesis by (simp add: clean_marks_def t Let_def)
qed

lemma no_bracket_artifact:
  assumes "\<forall>b \<in> set s. command_byte b" "trim_end s = s"
  shows "strip_trailing_bracket_artifact s = Some None"
  using command_byte_absent [OF assms(1), of "CHR '']''" "'']''"] ends_contains [of s "'']''"] assms(2)
  by (auto simp: strip_trailing_bracket_artifact_def Let_def)

lemma sanitize_cleaned:
  assumes "before_value s = s" "clean_marks s = words_of ws" "plain_command ws" "hd ws \<notin> {''pwd'', ''date''}"
    "prompt_standard_home_dir_name prompt = None" "filename_like_prompt_tokens prompt = []"
  shows "sanitize_local_execute_command s prompt = Some (words_of ws)"
  using assms no_bracket_artifact [OF plain_command_bytes plain_command_trimmed(2), of ws]
  by (simp add: sanitize_local_execute_command_def clean_local_action_value_def Let_def plain_command_trimmed
      repair_tail_plain repair_arguments_plain cut_after_target_plain)

lemma snoc_suffix: "suffix [x] s \<longleftrightarrow> s \<noteq> [] \<and> last s = x"
  by (cases s rule: rev_cases) auto

text \<open>A command of plain words (letters, digits and the characters of options, paths and assignments), the last
  of which may be a dot, is not changed by the clean-up, unless it names a program whose arguments
  are dropped or the prompt names a home directory or a file.\<close>

theorem plain_commands_unchanged:
  assumes "plain_command ws" "hd ws \<notin> {''pwd'', ''date''}"
    "\<not> contains (words_of ws) ''command not found''"
    "prompt_standard_home_dir_name prompt = None" "filename_like_prompt_tokens prompt = []"
  shows "sanitize_local_execute_command (words_of ws) prompt = Some (words_of ws)"
proof (rule sanitize_cleaned)
  note e = plain_command_ends [OF assms(1)]
  have sp: "hd (words_of ws) \<noteq> CHR '' ''" "last (words_of ws) \<noteq> CHR '' ''"
    using e plain_byte_ascii by (auto simp: ascii_space_def)
  have "ends_with (words_of ws) '' .''" if "ends_with (words_of ws) ''.''"
  proof -
    have "last (words_of ws) = CHR ''.''" using that by (simp add: ends_with_iff snoc_suffix)
    moreover obtain front w where ws: "ws = front @ [w]" using assms(1) by (cases ws rule: rev_cases) (auto simp: plain_command_def)
    ultimately have "last w = CHR ''.''" using last_words_of [of ws] assms(1) by (auto simp: plain_command_def bare_word_def)
    moreover from this have "\<not> bare_word w" using plain_not_dot unfolding bare_word_def by (metis last_in_set)
    ultimately have "w = ''.''" using assms(1) by (simp add: ws plain_command_def)
    moreover from this have "front \<noteq> []" using assms(1) plain_not_dot by (auto simp: ws plain_command_def bare_word_def)
    ultimately show ?thesis by (auto simp: ws words_of_snoc ends_with_iff suffix_def)
  qed
  then show "clean_marks (words_of ws) = words_of ws"
    using clean_marks_plain [OF plain_command_bytes [OF assms(1)] e(1) sp] by auto
  show "before_value (words_of ws) = words_of ws"
    by (rule before_value_plain [OF plain_command_bytes [OF assms(1)] plain_command_trimmed(1) [OF assms(1)] assms(3)])
qed (use assms in auto)

text \<open>C39: A plain command whose last word is the parent directory is turned into the same command on the current
  directory: the clean-up drops a final full stop unless a blank is before it.\<close>

theorem parent_directory_becomes_current:
  assumes "ws \<noteq> []" "\<forall>w \<in> set ws. bare_word w" "hd ws \<notin> {''pwd'', ''date''}"
    "\<not> contains (words_of (ws @ [''..''])) ''command not found''"
    "prompt_standard_home_dir_name prompt = None" "filename_like_prompt_tokens prompt = []"
  shows "sanitize_local_execute_command (words_of (ws @ [''..''])) prompt = Some (words_of (ws @ [''.'']))"
proof (rule sanitize_cleaned)
  let ?s = "words_of (ws @ [''..''])"
  have s: "?s = words_of ws @ '' ..''" by (simp add: words_of_snoc assms(1))
  have "hd ws \<noteq> []" using assms(1,2) by (auto simp: bare_word_def)
  then have hd: "words_of ws \<noteq> []" "hd (words_of ws) = hd (hd ws)" using hd_words_of [OF assms(1)] by auto
  have hp: "\<not> ascii_space (hd (hd ws))"
  proof -
    have "bare_word (hd ws)" using assms(1,2) by simp
    then have "plain_byte (hd (hd ws))" by (simp add: bare_word_def)
    then show ?thesis using plain_byte_ascii by blast
  qed
  have sp: "hd ?s \<noteq> CHR '' ''" "last ?s \<noteq> CHR '' ''" "?s \<noteq> []" using hd hp by (auto simp: s ascii_space_def)
  have b: "\<forall>b \<in> set ?s. command_byte b" by (rule plain_words_bytes) (use assms(2) in auto)
  have "ends_with ?s ''.''" "\<not> ends_with ?s '' .''" by (auto simp: s ends_with_iff suffix_def)
  then show "clean_marks ?s = words_of (ws @ [''.''])"
    using clean_marks_plain [OF b sp(3,1,2)] by (simp add: s words_of_snoc assms(1) butlast_append)
  have "ascii_str ?s" by (rule command_bytes_ascii [OF b])
  moreover have "\<not> ascii_space (hd ?s)" "\<not> ascii_space (last ?s)"
    using hd hp by (auto simp: s ascii_space_def)
  ultimately show "before_value ?s = ?s" using before_value_plain [OF b _ assms(4)] trim_id by blast
qed (use assms in \<open>auto simp: plain_command_def hd_append\<close>)

section \<open>The panic\<close>

text \<open>The last white space of a text.\<close>

definition last_space :: "string \<Rightarrow> rchar option" where
  "last_space s = (case dropWhile (\<lambda>c. \<not> is_whitespace c) (rev (chars s)) of [] \<Rightarrow> None | c # _ \<Rightarrow> Some c)"

lemma wide_space_second: "c \<in> set wide_spaces \<Longrightarrow> 2 \<le> length c \<and> is_cont (c ! 1)"
  by (auto simp: wide_spaces_def is_cont_def)

lemma single_space: "is_whitespace c \<Longrightarrow> c \<notin> set wide_spaces \<Longrightarrow> \<exists>b. c = [b]"
  by (cases c rule: is_whitespace.cases) auto

lemma slice_after_space:
  assumes "last_space s = Some c" "ends_with s '']''"
  obtains idx where "rfind_whitespace s = Some idx" "is_char_boundary s (idx + 1) \<longleftrightarrow> c \<notin> set wide_spaces"
proof -
  obtain cs where d: "dropWhile (\<lambda>c. \<not> is_whitespace c) (rev (chars s)) = c # cs"
    using assms(1) by (auto simp: last_space_def split: list.splits)
  have c: "is_whitespace c" using d by (metis hd_dropWhile list.discI list.sel(1))
  then have c0: "c \<noteq> []" by (auto simp: wide_spaces_def)
  obtain post where "rev (chars s) = rev post @ c # cs"
    using d by (metis rev_rev_ident takeWhile_dropWhile_id)
  then have ch: "chars s = rev cs @ c # post" by (metis append.assoc append_Cons append_Nil rev.simps(2) rev_append rev_rev_ident)
  then have s: "s = concat (rev cs) @ c @ concat post" by (metis concat.simps(2) concat_append concat_chars)
  have r: "rfind_whitespace s = Some (length (concat (rev cs)))"
    by (simp add: rfind_whitespace_def d length_concat rev_map [symmetric])
  have "post \<noteq> []"
  proof
    assume "post = []"
    then have "last s = last c" using s c0 by simp
    then have "last c = CHR '']''" using assms(2) by (auto simp: ends_with_iff suffix_def)
    then show False using c by (cases c rule: is_whitespace.cases) (auto simp: ascii_space_def wide_spaces_def)
  qed
  then obtain d ds where t: "post = d # ds" by (cases post) auto
  then have "scalar_piece d" using ch pieces_chars [of s] by (cases cs rule: rev_cases) auto
  then obtain b bs where d': "d = b # bs" "\<not> is_cont b" by (cases d) (auto simp: scalar_piece_def)
  have "is_char_boundary s (length (concat (rev cs)) + 1) \<longleftrightarrow> c \<notin> set wide_spaces"
  proof (cases "c \<in> set wide_spaces")
    case True
    from wide_space_second [OF True] True show ?thesis
      using c0 by (simp add: s is_char_boundary_def nth_append d' t)
  next
    case False
    with single_space [OF c] obtain x where "c = [x]" by blast
    with False show ?thesis by (simp add: s is_char_boundary_def nth_append t d')
  qed
  with r that show ?thesis by blast
qed

lemma bracket_panics:
  "strip_trailing_bracket_artifact v = None \<longleftrightarrow>
     ends_with (trim_end v) '']'' \<and> (\<exists>sp \<in> set wide_spaces. last_space (trim_end v) = Some sp)"
proof (cases "ends_with (trim_end v) '']''")
  case True
  show ?thesis
  proof (cases "last_space (trim_end v)")
    case None
    then have d: "dropWhile (\<lambda>c. \<not> is_whitespace c) (rev (chars (trim_end v))) = []"
      by (auto simp: last_space_def split: list.splits)
    have "rfind_whitespace (trim_end v) = None" by (simp only: rfind_whitespace_def d list.case)
    with None True show ?thesis
      by (auto simp: strip_trailing_bracket_artifact_def Let_def slice_from_def is_char_boundary_def split: option.splits)
  next
    case (Some c)
    from slice_after_space [OF Some True] obtain idx
      where "rfind_whitespace (trim_end v) = Some idx" "is_char_boundary (trim_end v) (idx + 1) \<longleftrightarrow> c \<notin> set wide_spaces" .
    with Some True show ?thesis
      by (auto simp: strip_trailing_bracket_artifact_def Let_def slice_from_def split: option.splits)
  qed
qed (simp add: strip_trailing_bracket_artifact_def Let_def)

text \<open>The clean-up of a command panics exactly when the cleaned text ends with a closing bracket and its last
  white space takes more than one byte (a no-break space, say): the slice after it starts inside a
  character.\<close>

theorem sanitizer_panics_iff:
  "sanitize_local_execute_command command prompt = None \<longleftrightarrow>
     (let v = trim_end (clean_marks (before_value command))
      in ends_with v '']'' \<and> (\<exists>sp \<in> set wide_spaces. last_space v = Some sp))"
  using bracket_panics [of "clean_marks (before_value command)"]
  by (simp add: sanitize_local_execute_command_def clean_local_action_value_def Let_def)

lemma no_break_space_panics: "sanitize_local_execute_command (''echo'' @ [CHR 0xC2, CHR 0xA0] @ ''x[]'') prompt = None"
  unfolding sanitizer_panics_iff by code_simp

text \<open>A program in a directory with a blank and an argument with an operator, both quoted, and a count of
  the matches of an alternative.\<close>

definition outer_quoted_words :: string where
  "outer_quoted_words = [CHR 0x27] @ ''/opt/my tool'' @ [CHR 0x27, CHR '' '', CHR 0x27] @ ''a; b'' @ [CHR 0x27]"

definition unquoted_words :: string where
  "unquoted_words = ''/opt/my tool'' @ [CHR 0x27, CHR '' '', CHR 0x27] @ ''a; b''"

definition grep_count :: "string \<Rightarrow> string" where
  "grep_count pat = ''grep -E '' @ [CHR 0x27] @ pat @ [CHR 0x27] @ '' notes | wc -l''"

lemma sanitize_steps:
  assumes "before_value s = s1" "clean_local_action_value s1 = Some s2" "repair_tail s2 prompt = s3"
    "repair_arguments s3 prompt = s4" "cut_after_target s4 prompt = s5"
  shows "sanitize_local_execute_command s prompt = Some s5"
  using assms by (simp add: sanitize_local_execute_command_def)

text \<open>The clean-up changes what a correct command means: the outer quotes of a command that begins and ends with
  quoted words are removed, which exposes the operator in a quoted argument, and a bar inside quotes is
  taken for a pipe when the line is counted.\<close>

theorem sanitizer_changes_quoting:
  "sanitize_local_execute_command outer_quoted_words ''run my tool'' = Some unquoted_words
   \<and> \<not> pc_has_control_operators (parse_command outer_quoted_words)
   \<and> pc_has_control_operators (parse_command unquoted_words)
   \<and> sanitize_local_execute_command (grep_count ''ab|cd'') ''count matches'' = Some (grep_count ''ab | cd'')"
proof -
  have "sanitize_local_execute_command outer_quoted_words ''run my tool'' = Some unquoted_words"
    by (rule sanitize_steps [of _ outer_quoted_words unquoted_words _ unquoted_words unquoted_words]) code_simp+
  moreover have "sanitize_local_execute_command (grep_count ''ab|cd'') ''count matches'' = Some (grep_count ''ab | cd'')"
    by (rule sanitize_steps [of _ "grep_count ''ab|cd''" "grep_count ''ab|cd''" _ "grep_count ''ab|cd''" "grep_count ''ab | cd''"])
      code_simp+
  moreover have "\<not> pc_has_control_operators (parse_command outer_quoted_words)"
    "pc_has_control_operators (parse_command unquoted_words)" by code_simp+
  ultimately show ?thesis by blast
qed


theorem plain_commands_unchanged_witness:
  "sanitize_local_execute_command (words_of [''cp'', ''-R'', ''docs'', ''.'']) ''copy docs''
     = Some (words_of [''cp'', ''-R'', ''docs'', ''.''])"
proof (rule plain_commands_unchanged)
  show "plain_command [''cp'', ''-R'', ''docs'', ''.'']" by code_simp
  show "\<not> contains (words_of [''cp'', ''-R'', ''docs'', ''.'']) ''command not found''" by code_simp
  show "prompt_standard_home_dir_name ''copy docs'' = None" "filename_like_prompt_tokens ''copy docs'' = []" by code_simp+
qed simp

theorem parent_directory_becomes_current_witness:
  "sanitize_local_execute_command (words_of ([''cp'', ''-R'', ''docs''] @ [''..''])) ''copy docs up''
     = Some (words_of ([''cp'', ''-R'', ''docs''] @ [''.'']))"
proof (rule parent_directory_becomes_current)
  show "\<forall>w \<in> set [''cp'', ''-R'', ''docs'']. bare_word w" by code_simp
  show "\<not> contains (words_of ([''cp'', ''-R'', ''docs''] @ [''..''])) ''command not found''" by code_simp
  show "prompt_standard_home_dir_name ''copy docs up'' = None" "filename_like_prompt_tokens ''copy docs up'' = []" by code_simp+
qed simp_all

end
