(* ===== verification/Action_Props.thy ===== *)
theory Action_Props
  imports Action_Fallback Sanitize_Props
begin

text \<open>
  What the parsing and completeness tests of model output guarantee: the two quote scanners agree, a
  parsed action is an allowed tool with its argument, kept calls are complete, and two requests that
  the templates and tests handle wrongly.
\<close>

section \<open>Quotes\<close>

definition quote_part :: "scanner \<Rightarrow> bool \<times> bool \<times> bool" where
  "quote_part s = (sc_single s, sc_double s, sc_escaped s)"

lemma scan_step_quotes:
  assumes "\<not> (sc_single s \<and> sc_double s)"
  shows "quote_part (fst (scan_step ch n s)) =
      shell_quote_state [ch] (sc_single s) (sc_double s) (sc_escaped s)"
    "\<not> (sc_single (fst (scan_step ch n s)) \<and> sc_double (fst (scan_step ch n s)))"
  using assms by (auto simp: quote_part_def scan_step_defs Let_def)

lemma shell_quote_state_Cons:
  "shell_quote_state (ch # cs) a b c =
     (case shell_quote_state [ch] a b c of (a', b', c') \<Rightarrow> shell_quote_state cs a' b' c')"
  by simp

text \<open>A character taken together with the one before it is no quote and no escape.\<close>

lemma scan_step_took:
  assumes "snd (scan_step ch (peek rest) s)"
  shows "\<exists>d ds. rest = d # ds \<and> shell_quote_state [d] False False False = (False, False, False)
     \<and> \<not> sc_escaped s \<and> \<not> sc_single s \<and> \<not> sc_double s
     \<and> shell_quote_state [ch] False False False = (False, False, False)"
proof -
  have "peek rest \<in> {Some ''('', Some ''|'', Some ''&'', Some ''>'', Some ''<''} \<and> \<not> sc_escaped s \<and> \<not> sc_single s
      \<and> \<not> sc_double s \<and> ch \<in> {''$'', ''|'', ''&'', ''>'', ''<''}"
    using assms by (auto simp: scan_step_defs Let_def split: if_splits)
  then show ?thesis by (cases rest) auto
qed

lemma scan_loop_quotes:
  "\<not> (sc_single s \<and> sc_double s) \<Longrightarrow>
     quote_part (scan_loop cs s) = shell_quote_state cs (sc_single s) (sc_double s) (sc_escaped s)"
proof (induction cs s rule: scan_loop.induct)
  case (1 s)
  then show ?case by (simp add: quote_part_def)
next
  case (2 ch rest s)
  let ?s' = "fst (scan_step ch (peek rest) s)" and ?took = "snd (scan_step ch (peek rest) s)"
  note q = scan_step_quotes [OF 2(2), of ch "peek rest"]
  have ih: "quote_part (scan_loop (if ?took then tl rest else rest) ?s')
      = shell_quote_state (if ?took then tl rest else rest) (sc_single ?s') (sc_double ?s') (sc_escaped ?s')"
    by (rule 2(1) [of ?s' ?took]) (use q(2) in simp_all)
  have skip: "shell_quote_state rest (sc_single ?s') (sc_double ?s') (sc_escaped ?s')
      = shell_quote_state (tl rest) (sc_single ?s') (sc_double ?s') (sc_escaped ?s')" if ?took
  proof -
    from scan_step_took [OF that] obtain d ds where d: "rest = d # ds"
      "shell_quote_state [d] False False False = (False, False, False)"
      "\<not> sc_escaped s" "\<not> sc_single s" "\<not> sc_double s" "shell_quote_state [ch] False False False = (False, False, False)"
      by blast
    then have "\<not> sc_escaped ?s'" "\<not> sc_single ?s'" "\<not> sc_double ?s'" using q(1) by (simp_all add: quote_part_def)
    moreover have "d \<noteq> [CHR 0x5C]" "d \<noteq> [CHR 0x27]" "d \<noteq> [CHR 0x22]" using d(2) by (auto split: if_splits)
    ultimately show ?thesis by (simp add: d(1))
  qed
  have "shell_quote_state (ch # rest) (sc_single s) (sc_double s) (sc_escaped s)
      = (case quote_part ?s' of (a, b, c) \<Rightarrow> shell_quote_state rest a b c)"
    unfolding q(1) by (rule shell_quote_state_Cons)
  then have "shell_quote_state (ch # rest) (sc_single s) (sc_double s) (sc_escaped s)
      = shell_quote_state rest (sc_single ?s') (sc_double ?s') (sc_escaped ?s')"
    by (simp only: quote_part_def case_prod_conv)
  then show ?case using ih skip by (simp add: scan_loop_Cons)
qed

text \<open>C8: The test for unbalanced quotes that the daemon applies to commands of the model and the shell parser of
  the safety crate give the same answer for every command, although one scans quotes only and the other
  all shell syntax.\<close>

theorem quote_scanners_agree:
  "has_unbalanced_shell_quotes command = pc_unbalanced_quotes (parse_command command)"
proof -
  let ?s = "scan_loop (chars command) scanner_init"
  have "quote_part ?s = shell_quote_state (chars command) False False False"
    using scan_loop_quotes [of scanner_init "chars command"] by (simp add: scanner_init_def)
  then have "has_unbalanced_shell_quotes command \<longleftrightarrow> sc_single ?s \<or> sc_double ?s \<or> sc_escaped ?s"
    unfolding has_unbalanced_shell_quotes_def quote_part_def by (metis (no_types, lifting) case_prod_conv)
  moreover have "\<not> sr_unbalanced_quotes (sc_out ?s)"
    by (rule scan_loop_invariant [where I = "\<lambda>s. \<not> sr_unbalanced_quotes (sc_out s)"])
      (simp_all add: scan_step_defs Let_def scanner_init_def scan_result_default_def)
  ultimately show ?thesis
    by (simp add: parse_command_def scan_shell_def scan_finish_def Let_def)
qed

section \<open>Typed calls\<close>

text \<open>The type of a call: the arguments are an object; a command to execute is a string that is not blank, and
  another tool has the argument it needs.\<close>

definition has_object_arguments :: "local_call \<Rightarrow> bool" where
  "has_object_arguments call = (case lc_arguments call of JObj _ \<Rightarrow> True | _ \<Rightarrow> False)"

definition call_typed :: "local_call \<Rightarrow> bool" where
  "call_typed call \<longleftrightarrow>
     has_object_arguments call
     \<and> (if lc_name call = ''execute_shell_command''
        then (case call_command call of None \<Rightarrow> False | Some cmd \<Rightarrow> trim cmd \<noteq> [])
        else tool_call_has_minimum_arguments call)"

lemma split_at_sep_infix:
  "(\<exists>ys. zs = hd (split_at_sep P zs) @ ys) \<and> (\<forall>c \<in> set (split_at_sep P zs). \<exists>xs ys. zs = xs @ c @ ys)"
proof (induction zs)
  case Nil
  then show ?case by simp
next
  case (Cons z zs)
  obtain y yss where y: "split_at_sep P zs = y # yss" using split_at_sep_nonempty by (metis list.exhaust)
  then obtain r where r: "zs = y @ r" and rest: "\<forall>c \<in> set (y # yss). \<exists>xs ys. zs = xs @ c @ ys"
    using Cons by (metis list.sel(1))
  have sub: "\<exists>xs ys. z # zs = xs @ c @ ys" if "c \<in> set (y # yss)" for c
    using rest that by (metis append_Cons)
  show ?case
  proof (cases "P z")
    case True
    then show ?thesis using sub y by (auto intro: exI [of _ "[]"])
  next
    case False
    have "z # zs = [] @ (z # y) @ r" using r by simp
    then show ?thesis using False sub y by (auto intro: exI [of _ r])
  qed
qed

lemma word_chars:
  assumes "w \<in> set (split_whitespace s)"
  shows "w \<noteq> []" "\<forall>c \<in> set (chars w). \<not> is_whitespace c"
proof -
  obtain c where c: "c \<in> set (split_at_sep is_whitespace (chars s))" "w = concat c" "c \<noteq> []"
    using assms by (auto simp: split_whitespace_def)
  obtain xs ys where "chars s = xs @ c @ ys" using split_at_sep_infix c(1) by blast
  then have cw: "chars w = c" by (metis c(2) pieces_infix pieces_chars chars_concat)
  then show "w \<noteq> []" using c(3) by auto
  show "\<forall>c \<in> set (chars w). \<not> is_whitespace c" using split_at_sep_elems [OF c(1)] cw by simp
qed

lemma set_chars_trim_matches: "set (chars (trim_matches P s)) \<subseteq> set (chars s)"
  by (simp add: chars_trim_matches set_trim_list)

lemma split_at_sep_all: "\<forall>c \<in> set (split_at_sep P zs). c = [] \<Longrightarrow> x \<in> set zs \<Longrightarrow> P x"
proof (induction zs)
  case (Cons z zs)
  obtain y yss where y: "split_at_sep P zs = y # yss" using split_at_sep_nonempty by (metis list.exhaust)
  with Cons show ?case by (auto split: if_splits)
qed simp

lemma split_whitespace_Nil_trim: "split_whitespace s = [] \<Longrightarrow> trim s = []"
  using split_at_sep_all [of is_whitespace "chars s"]
  by (auto simp: split_whitespace_def filter_empty_conv trim_eq_Nil)

lemma lookup_name_typed:
  assumes "trim v \<noteq> []" "lookup_name v \<noteq> []"
  shows "trim (lookup_name v) \<noteq> []"
proof -
  obtain w ws where w: "split_whitespace v = w # ws"
    using assms(1) split_whitespace_Nil_trim by (cases "split_whitespace v") auto
  then have "\<forall>c \<in> set (chars (lookup_name v)). \<not> is_whitespace c"
    using word_chars(2) [of w v] set_chars_trim_matches by (fastforce simp: lookup_name_def)
  then show ?thesis using assms(2) by (metis chars_eq_Nil list.set_sel(1) trim_eq_Nil)
qed

lemma question_mark_typed: "trim (v @ ''?'') \<noteq> []"
proof -
  have q: "chars ''?'' = [''?'']" "scalar_piece ''?''" "\<not> is_whitespace ''?''" by code_simp+
  have "chars (v @ ''?'') = chars v @ chars ''?''" by (rule chars_append) (simp only: q list.set ball_simps simp_thms)
  then have "''?'' \<in> set (chars (v @ ''?''))" unfolding q(1) by simp
  then show ?thesis using q(3) trim_eq_Nil by blast
qed

lemma execute_call_simps [simp]:
  "lc_name (execute_call cmd intent names) = ''execute_shell_command''"
  "call_command (execute_call cmd intent names) = Some cmd"
  "has_object_arguments (execute_call cmd intent names)"
  by (simp_all add: execute_call_def call_command_def json_get_def json_str_def has_object_arguments_def)

lemmas typed_defs = call_typed_def has_object_arguments_def tool_call_has_minimum_arguments_def required_argument_def
  call_has_def json_get_def json_str_def call_of_def readonly_call_def

lemma typed_calls:
  "trim v \<noteq> [] \<Longrightarrow> call_typed (execute_call v i names)"
  "trim v \<noteq> [] \<Longrightarrow> call_typed (call_of ''retrieve_command_docs'' [(''query'', JStr v), kv])"
  "trim v \<noteq> [] \<Longrightarrow> call_typed (call_of ''lookup_command_docs'' [(''name'', JStr v)])"
  "trim v \<noteq> [] \<Longrightarrow> call_typed (readonly_call v i)"
  "trim v \<noteq> [] \<Longrightarrow> fst kv \<noteq> ''query'' \<Longrightarrow> call_typed (call_of ''web_search'' [kv, (''query'', JStr v)])"
  "trim v \<noteq> [] \<Longrightarrow> call_typed (call_of ''web_read'' [(''url'', JStr v)])"
  "trim v \<noteq> [] \<Longrightarrow> call_typed (call_of ''ask_clarification'' [(''question'', JStr v)])"
  by (simp add: call_typed_def, simp_all add: typed_defs)

lemma call_names:
  "lc_name (call_of n args) = n" "lc_name (readonly_call v i) = ''run_readonly_command''"
  by (simp_all add: call_of_def readonly_call_def)

text \<open>A call to a tool that is allowed.\<close>

definition action_calls :: "string set \<Rightarrow> string \<Rightarrow> local_call \<Rightarrow> bool" where
  "action_calls allowed v call \<longleftrightarrow>
     lc_name call \<in> allowed
     \<and> ((\<exists>i names. call = execute_call v i names)
       \<or> (\<exists>kv. call = call_of ''retrieve_command_docs'' [(''query'', JStr v), kv])
       \<or> lookup_name v \<noteq> [] \<and> call = call_of ''lookup_command_docs'' [(''name'', JStr (lookup_name v))]
       \<or> (\<exists>i. call = readonly_call v i)
       \<or> call = call_of ''web_search'' [(''max_results'', JInt 5), (''query'', JStr v)]
       \<or> call = call_of ''web_read'' [(''url'', JStr v)]
       \<or> call = call_of ''ask_clarification'' [(''question'', JStr (if ends_with v ''?'' then v else v @ ''?''))])"

lemma action_calls_intros:
  "n = ''execute_shell_command'' \<Longrightarrow> n \<in> allowed \<Longrightarrow> action_calls allowed v (execute_call v i names)"
  "n = ''retrieve_command_docs'' \<Longrightarrow> n \<in> allowed \<Longrightarrow> action_calls allowed v (call_of n [(''query'', JStr v), kv])"
  "n = ''lookup_command_docs'' \<Longrightarrow> n \<in> allowed \<Longrightarrow> lookup_name v \<noteq> []
     \<Longrightarrow> action_calls allowed v (call_of n [(''name'', JStr (lookup_name v))])"
  "n = ''run_readonly_command'' \<Longrightarrow> n \<in> allowed \<Longrightarrow> action_calls allowed v (readonly_call v i)"
  "n = ''web_search'' \<Longrightarrow> n \<in> allowed
     \<Longrightarrow> action_calls allowed v (call_of n [(''max_results'', JInt 5), (''query'', JStr v)])"
  "n = ''web_read'' \<Longrightarrow> n \<in> allowed \<Longrightarrow> action_calls allowed v (call_of n [(''url'', JStr v)])"
  "n = ''ask_clarification'' \<Longrightarrow> n \<in> allowed
     \<Longrightarrow> action_calls allowed v (call_of n [(''question'', JStr (if ends_with v ''?'' then v else v @ ''?''))])"
  unfolding action_calls_def call_names execute_call_simps by blast+

lemma action_call_cases: "pred_option (action_calls allowed v) (action_call allowed action v)"
proof -
  have *: "pred_option Q (if b then x else y) = ((b \<longrightarrow> pred_option Q x) \<and> (\<not> b \<longrightarrow> pred_option Q y))"
    for Q b and x y :: "local_call option" by simp
  show ?thesis
    unfolding action_call_def * option.pred_inject(2)
    by (intro conjI impI option.pred_inject(1); elim conjE; rule action_calls_intros [OF refl]; assumption)
qed

lemma action_call_typed:
  assumes "action_call allowed action v = Some call" "trim v \<noteq> []"
  shows "lc_name call \<in> allowed \<and> call_typed call"
proof -
  have "trim (if ends_with v ''?'' then v else v @ ''?'') \<noteq> []" using assms(2) question_mark_typed by simp
  moreover have "fst (''max_results'', JInt 5) \<noteq> ''query''" by simp
  ultimately show ?thesis
    using action_call_cases [of allowed v action] typed_calls assms(2) lookup_name_typed [OF assms(2)]
    unfolding assms(1) option.pred_inject action_calls_def by metis
qed

lemma normalized_command_typed: "normalize_plain_command_candidate line = Some cmd \<Longrightarrow> trim cmd \<noteq> []"
  by (auto simp: normalize_plain_command_candidate_def Let_def split: if_splits option.splits)

lemma cleaned_value_trimmed: "clean_local_action_value v = Some cleaned \<Longrightarrow> trim cleaned = cleaned"
  by (auto simp: clean_local_action_value_def Let_def)

lemma parse_line_typed:
  assumes "parse_local_action_line line allowed_names = Some (Some call)"
  shows "lc_name call \<in> set allowed_names \<and> call_typed call"
proof (cases "split_local_action_line line")
  case None
  then show ?thesis using assms normalized_command_typed
    by (auto simp: parse_local_action_line_def call_typed_def split: if_splits)
next
  case (Some av)
  then obtain action v cleaned where "clean_local_action_value v = Some cleaned" "cleaned \<noteq> []"
      "action_call (set allowed_names) action cleaned = Some call"
    using assms by (auto simp: parse_local_action_line_def split: if_splits prod.splits)
  then show ?thesis using action_call_typed cleaned_value_trimmed by metis
qed

lemma parse_lines_typed:
  "parse_action_lines ls allowed_names = Some (Some call) \<Longrightarrow> lc_name call \<in> set allowed_names \<and> call_typed call"
  by (induction ls) (auto dest: parse_line_typed split: if_splits option.splits)

text \<open>C7: Whatever the model writes, the action parsed from it is a tool that is allowed for the prompt, its arguments
  are an object, a command to execute is a string that is not blank, and every other tool has its
  required argument.\<close>

theorem parsed_actions_typed:
  assumes "parse_local_action_tool_call output allowed_names = Some (Some call)"
  shows "lc_name call \<in> set allowed_names \<and> call_typed call"
  using assms parse_lines_typed parse_line_typed
  by (auto simp: parse_local_action_tool_call_def Let_def split: option.splits)

lemma parsed_actions_typed_witness:
  "lc_name (call_of ''lookup_command_docs'' [(''name'', JStr ''tar'')]) \<in> set [''lookup_command_docs'']
   \<and> call_typed (call_of ''lookup_command_docs'' [(''name'', JStr ''tar'')])"
  by (rule parsed_actions_typed [of "''LOOKUP: `tar` please''"]) code_simp

section \<open>Calls that are kept\<close>

text \<open>A command to execute as the orchestrator keeps it: the command and its program names and nothing under the
  other key for a command; the command is not blank, not visibly cut off and its quotes are closed.\<close>

definition executable_call :: "local_call \<Rightarrow> bool" where
  "executable_call call \<longleftrightarrow>
     json_get ''command'' (lc_arguments call) = None
     \<and> (case json_get ''cmd'' (lc_arguments call) of
          Some (JStr cmd) \<Rightarrow>
            trim cmd \<noteq> [] \<and> \<not> command_fragment_is_obviously_incomplete (trim cmd)
            \<and> \<not> has_unbalanced_shell_quotes (trim_end (trim cmd))
            \<and> json_get ''commands_used'' (lc_arguments call) = Some (JArr (map JStr (extract_command_names cmd 8)))
        | _ \<Rightarrow> False)"

lemma map_of_insort:
  fixes k :: "'k::linorder"
  assumes "k \<notin> fst ` set kvs"
  shows "map_of (insort_key fst (k, v) kvs) = (map_of kvs)(k \<mapsto> v)"
  using assms
proof (induction kvs)
  case (Cons kv kvs)
  obtain a b where "kv = (a, b)" by fastforce
  with Cons show ?case by (auto simp: fun_eq_iff)
qed simp

definition replaced_key :: "'k \<Rightarrow> 'v \<Rightarrow> ('k \<times> 'v) list \<Rightarrow> ('k \<times> 'v) list" where
  "replaced_key k v kvs = map (\<lambda>(k', w). if k' = k then (k, v) else (k', w)) kvs"

lemma map_of_replaced_at:
  "map_of (replaced_key k v kvs) j = (if j = k then if k \<in> fst ` set kvs then Some v else None else map_of kvs j)"
proof (induction kvs)
  case (Cons kv kvs)
  obtain a b where "kv = (a, b)" by fastforce
  with Cons show ?case by (cases "j = k"; cases "a = k") (simp_all add: replaced_key_def)
qed (simp add: replaced_key_def)

lemma map_of_replaced: "k \<in> fst ` set kvs \<Longrightarrow> map_of (replaced_key k v kvs) = (map_of kvs)(k \<mapsto> v)"
  by (rule ext) (simp add: map_of_replaced_at)

lemma json_get_set:
  assumes "json_set k v j = Some j'"
  shows "json_get k' j' = (if k' = k then Some v else json_get k' j)"
proof (cases j)
  case (JObj kvs)
  show ?thesis
  proof (cases "k \<in> fst ` set kvs")
    case True
    then have "j' = JObj (replaced_key k v kvs)" using assms JObj by (simp add: json_set_def replaced_key_def)
    then show ?thesis using True JObj by (simp add: json_get_def map_of_replaced)
  next
    case False
    then have "j' = JObj (insort_key fst (k, v) kvs)" using assms JObj by (simp add: json_set_def)
    then show ?thesis using False JObj by (simp add: json_get_def map_of_insort)
  qed
qed (use assms in \<open>auto simp: json_set_def json_get_def\<close>)

lemma map_of_without: "map_of (filter (\<lambda>kv. fst kv \<noteq> k) kvs) k' = (if k' = k then None else map_of kvs k')"
  by (induction kvs) auto

lemma json_get_remove: "json_get k' (json_remove k j) = (if k' = k then None else json_get k' j)"
  by (cases j) (simp_all add: json_remove_def json_get_def map_of_without)

lemma sanitized_call:
  assumes "sanitize_local_action_tool_call call prompt = Some c1" "lc_name call = ''execute_shell_command''"
    "local_action_tool_call_is_usable caps c1 prompt = Some True"
  shows "lc_name c1 = ''execute_shell_command'' \<and> executable_call c1"
proof (cases "call_command call")
  case None
  then show ?thesis using assms by (simp add: sanitize_local_action_tool_call_def local_action_tool_call_is_usable_def)
next
  case (Some line)
  then obtain cmd args args' where
      args: "json_set ''cmd'' (JStr cmd) (lc_arguments call) = Some args"
        "json_set ''commands_used'' (JArr (map JStr (extract_command_names cmd 8))) (json_remove ''command'' args) = Some args'"
      and c1: "c1 = call\<lparr>lc_arguments := args'\<rparr>"
    using assms(1,2) by (auto simp: sanitize_local_action_tool_call_def split: option.splits)
  have get: "json_get ''cmd'' args' = Some (JStr cmd)" "json_get ''command'' args' = None"
    "json_get ''commands_used'' args' = Some (JArr (map JStr (extract_command_names cmd 8)))"
    by (simp_all add: json_get_set [OF args(2)] json_get_remove json_get_set [OF args(1)])
  then have cmd: "call_command c1 = Some cmd" by (simp add: c1 call_command_def json_str_def)
  have name: "lc_name c1 = ''execute_shell_command''" using assms(2) c1 by simp
  have "local_execute_action_looks_complete caps cmd prompt = Some True"
    using assms(3) unfolding local_action_tool_call_is_usable_def cmd name by simp
  then have "trim cmd \<noteq> [] \<and> \<not> command_fragment_is_obviously_incomplete (trim cmd)"
    by (simp add: local_execute_action_looks_complete_def Let_def split: if_splits)
  then show ?thesis using name get
    by (simp add: c1 executable_call_def command_fragment_is_obviously_incomplete_def Let_def split: if_splits)
qed


text \<open>C28: The fallback never answers with a tool that the task does not offer; when the prompt asks for a text search in
  the directory it only runs a command or asks, and it does not ask back when the prompt has the details.\<close>

theorem fallback_stays_exposed:
  assumes "try_local_action_fallback env prompt tools = Some (Some (call, reply))"
  shows "lc_name call \<in> set tools
    \<and> (prompt_is_local_text_search prompt \<longrightarrow> lc_name call \<in> {''execute_shell_command'', ''ask_clarification''})
    \<and> (prompt_has_sufficient_local_action_details prompt \<longrightarrow> lc_name call \<noteq> ''ask_clarification'')"
proof -
  have "lc_name call \<in> set (local_action_allowed_names tools prompt)"
    using assms
    by (auto simp: try_local_action_fallback_def Let_def bind_eq_Some_conv find_Some_iff split: if_splits option.splits)
  then show ?thesis by (auto simp: local_action_allowed_names_def Let_def split: if_splits)
qed

section \<open>Witnesses\<close>

definition pwd_call :: local_call where
  "pwd_call = call_of ''execute_shell_command'' [(''command'', JStr ''pwd'')]"

definition pwd_kept :: local_call where
  "pwd_kept = call_of ''execute_shell_command'' [(''cmd'', JStr ''pwd''), (''commands_used'', JArr [JStr ''pwd''])]"

lemma sanitize_pwd: "sanitize_local_execute_command ''pwd'' ''where?'' = Some ''pwd''"
  by (rule sanitize_steps [of _ "''pwd''" "''pwd''" _ "''pwd''" "''pwd''"]) code_simp+

lemma pwd_sanitized: "sanitize_local_action_tool_call pwd_call ''where?'' = Some pwd_kept"
proof -
  have "call_command pwd_call = Some ''pwd''" "lc_name pwd_call = ''execute_shell_command''"
    "json_set ''cmd'' (JStr ''pwd'') (lc_arguments pwd_call) = Some (JObj [(''cmd'', JStr ''pwd''), (''command'', JStr ''pwd'')])"
    "json_set ''commands_used'' (JArr (map JStr (extract_command_names ''pwd'' 8)))
       (json_remove ''command'' (JObj [(''cmd'', JStr ''pwd''), (''command'', JStr ''pwd'')])) = Some (lc_arguments pwd_kept)"
    "pwd_call\<lparr>lc_arguments := lc_arguments pwd_kept\<rparr> = pwd_kept"
    by code_simp+
  then show ?thesis by (simp add: sanitize_local_action_tool_call_def sanitize_pwd)
qed

lemma pwd_usable: "local_action_tool_call_is_usable (\<lambda>_ _. None) pwd_kept ''where?'' = Some True"
proof -
  have c: "call_command pwd_kept = Some ''pwd''" "lc_name pwd_kept = ''execute_shell_command''" "trim ''pwd'' = ''pwd''"
    "\<not> command_fragment_is_obviously_incomplete ''pwd''" "cleaned_looks_complete (\<lambda>_ _. None) ''pwd'' ''where?''"
    by code_simp+
  then show ?thesis
    by (simp add: local_action_tool_call_is_usable_def local_execute_action_looks_complete_def sanitize_pwd)
qed


definition which_one :: local_call where
  "which_one = call_of ''ask_clarification'' [(''question'', JStr ''which one?'')]"

definition asking_env :: fallback_env where
  "asking_env = \<lparr>fb_action = \<lparr>ac_captures = (\<lambda>_ _. None), ac_env_var = (\<lambda>_. None)\<rparr>,
     fb_json = \<lparr>jr_from_str = (\<lambda>_. None), jr_quote_keys = id\<rparr>, fb_retrieve = (\<lambda>_. []),
     fb_stream = (\<lambda>_ _. Some [ToolCallEvent which_one, StreamDone])\<rparr>"

theorem fallback_stays_exposed_witness:
  "lc_name which_one \<in> set [''ask_clarification'', ''web_search'']
   \<and> lc_name which_one \<in> {''execute_shell_command'', ''ask_clarification''}"
proof -
  have "try_local_action_fallback asking_env ''find it recursively'' [''ask_clarification'', ''web_search'']
      = Some (Some (which_one, empty_reply\<lparr>sy_calls := [which_one]\<rparr>))" by code_simp
  moreover have "prompt_is_local_text_search ''find it recursively''" by code_simp
  ultimately show ?thesis using fallback_stays_exposed by blast
qed

end
