(* ===== verification/Direct_Answer.thy ===== *)
theory Direct_Answer
  imports Action_Fallback Observation
begin

text \<open>
  Answers without a command (\<open>termlm-core/src/main.rs\<close>): which questions are answered at once, when the
  stream of the answer is stopped, what is removed from the text of a model before it is shown, and
  the answers made from observations: the output of a read-only probe, the scripts of the project and
  the commands of the terminal.
\<close>

section \<open>Text that is shown\<close>

abbreviation ESC :: rchar where
  "ESC \<equiv> [CHR 0x1B]"

text \<open>The range \<open>'@'..='~'\<close> of the final bytes of a control sequence.\<close>

definition final_char :: "rchar \<Rightarrow> bool" where
  "final_char c \<longleftrightarrow> (case c of [b] \<Rightarrow> (0x40 :: nat) \<le> of_char b \<and> of_char b \<le> (0x7E :: nat) | _ \<Rightarrow> False)"

definition after_final :: "rchar list \<Rightarrow> rchar list" where
  "after_final cs = tl (dropWhile (\<lambda>c. \<not> final_char c) cs)"

function strip_controls :: "rchar list \<Rightarrow> rchar list" where
  "strip_controls [] = []"
| "strip_controls (c # cs) =
     (if c = ESC then (case cs of [] \<Rightarrow> [] | d # ds \<Rightarrow> if d = ''['' then strip_controls (after_final ds) else strip_controls cs)
      else if is_control c \<and> c \<notin> {[CHR 0x0A], [CHR 0x09]} then strip_controls cs
      else c # strip_controls cs)"
  by pat_completeness auto
termination
  by (relation "measure length")
    (auto simp: after_final_def intro!: le_imp_less_Suc le_SucI le_trans [OF diff_le_self length_dropWhile_le])

definition strip_terminal_control_sequences :: "string \<Rightarrow> string" where
  "strip_terminal_control_sequences s = concat (strip_controls (chars s))"

definition hidden_chars :: "rchar list" where
  "hidden_chars =
     [[CHR 0xE2, CHR 0x80, CHR 0x8B], [CHR 0xE2, CHR 0x80, CHR 0x8C], [CHR 0xE2, CHR 0x80, CHR 0x8D],
      [CHR 0xEF, CHR 0xBB, CHR 0xBF]]"

definition sanitize_model_display_text :: "string \<Rightarrow> string" where
  "sanitize_model_display_text s =
     (let cleaned = trim (concat (filter (\<lambda>c. c \<notin> set hidden_chars) (chars (strip_terminal_control_sequences s))))
      in if eq_ignore_ascii_case cleaned ''[multimodal]'' then [] else cleaned)"

definition sanitize_direct_answer_text :: "string \<Rightarrow> string" where
  "sanitize_direct_answer_text = sanitize_model_display_text"

section \<open>Tests of an answer\<close>

definition direct_answer_has_balanced_backticks :: "string \<Rightarrow> bool" where
  "direct_answer_has_balanced_backticks answer \<longleftrightarrow> even (length (filter (\<lambda>c. c = [backtick]) (chars answer)))"

definition direct_answer_looks_like_tool_call :: "string \<Rightarrow> bool" where
  "direct_answer_looks_like_tool_call answer =
     contains_any (to_ascii_lowercase answer)
       [''run_readonly_command{'', ''execute_shell_command{'', ''retrieve_command_docs{'', ''lookup_command_docs{'',
        ''web_search{'', ''<|tool_call|>'', ''call:execute_shell_command'']"

definition direct_answer_covers_prompt :: "string \<Rightarrow> string \<Rightarrow> bool" where
  "direct_answer_covers_prompt answer prompt =
     (let a = to_ascii_lowercase answer; p = to_ascii_lowercase prompt
      in if contains p ''chmod'' \<and> contains p ''755''
         then contains a ''755'' \<or> contains a ''rwx'' \<or> contains a ''read'' \<and> contains a ''write'' \<and> contains a ''execute''
         else if contains p ''hidden'' \<and> contains p ''file'' then contains a ''ls -a'' \<or> contains a ''ls -A''
         else if contains p ''disk usage'' \<or> contains p ''storage'' then contains a ''du ''
         else if contains p ''grep'' \<and> contains p ''rg'' then contains a ''grep'' \<and> contains a ''rg''
         else True)"

definition sentence_end :: "rchar \<Rightarrow> bool" where
  "sentence_end = any_of ''.!?''"

definition direct_answer_stream_has_complete_candidate :: "string \<Rightarrow> string \<Rightarrow> bool" where
  "direct_answer_stream_has_complete_candidate s prompt =
     (let answer = sanitize_direct_answer_text s; n = char_count answer; ended = trim_end answer
      in if n < 48 \<or> \<not> direct_answer_covers_prompt answer prompt then False
         else if \<not> direct_answer_has_balanced_backticks answer then False
         else 2 \<le> length (filter sentence_end (chars answer))
           \<or> 90 \<le> n \<and> (ends_with ended ''.'' \<or> ends_with ended ''!'' \<or> ends_with ended ''?''))"

definition intentions :: "string list" where
  "intentions =
     [''i should use'', ''i will use'', ''i should run'', ''i will run'', ''i need to run'', ''i would run'',
      ''should use `'', ''will use `'', ''run this as a read-only'', ''previous attempt'', ''validation_failed'']"

definition number_words :: "string list" where
  "number_words =
     [''zero'', ''one'', ''two'', ''three'', ''four'', ''five'', ''six'', ''seven'', ''eight'', ''nine'', ''ten'']"

definition has_digit :: "string \<Rightarrow> bool" where
  "has_digit s = list_ex (on_ascii byte_digit) (chars s)"

definition direct_answer_needs_tool_or_observation :: "string \<Rightarrow> string \<Rightarrow> bool" where
  "direct_answer_needs_tool_or_observation output prompt =
     (let answer = sanitize_direct_answer_text output; a = to_ascii_lowercase answer; p = to_ascii_lowercase prompt
      in if answer = [] then True
         else if direct_answer_looks_like_tool_call answer then True
         else if contains_any a intentions then True
         else if prompt_requests_file_count p \<and> \<not> has_digit answer \<and> \<not> contains_any a number_words then True
         else if contains_any p [''storage'', ''disk usage'', ''how much'']
           \<and> contains_any p [''document'', ''download'', ''desktop'', ''folder'', ''directory''] \<and> \<not> has_digit answer then True
         else prompt_asks_ranked_file p \<and> \<not> contains answer ''/'' \<and> \<not> contains answer ''.'')"

section \<open>The fast path\<close>

definition no_fast_path :: "string list" where
  "no_fast_path =
     [''latest'', ''current version'', ''today'', ''recent'', ''online'', ''internet'', ''web'', ''should i'', ''what should i'',
      ''how should i'', ''best way'', ''recommend'', ''is it safe'', ''safe to'', ''fails'', ''failed'', ''error'',
      ''troubleshoot'', ''permission'', ''permissions'', ''brew'', ''homebrew'', ''do i have'', ''installed'',
      ''current git branch'', ''desktop'', ''downloads'', ''documents'', ''how many'', ''how much storage'', ''oldest file'',
      ''newest file'', ''most recent file'']"

definition direct_answer_fast_path_allowed :: "string \<Rightarrow> task_classification \<Rightarrow> bool" where
  "direct_answer_fast_path_allowed prompt classification =
     (if classification \<in> {WebCurrentInfoQuestion, DiagnosticDebugging} then False
      else if contains_any (to_ascii_lowercase prompt) no_fast_path then False
      else prompt_prefers_direct_answer prompt classification)"

text \<open>The loop over the stream: a tool call or a failure gives up.\<close>

fun direct_answer_stream :: "string \<Rightarrow> stream_event list \<Rightarrow> stream_reply \<Rightarrow> stream_reply option" where
  "direct_answer_stream prompt [] r = Some r"
| "direct_answer_stream prompt (e # es) r =
     (case e of
        TextChunk content \<Rightarrow>
          let r1 = r\<lparr>sy_text := sy_text r @ content\<rparr>
          in if direct_answer_stream_has_complete_candidate (sy_text r1) prompt then Some (r1\<lparr>sy_cancelled := True\<rparr>)
             else direct_answer_stream prompt es r1
      | ThinkingChunk \<Rightarrow> direct_answer_stream prompt es r
      | ToolCallEvent _ \<Rightarrow> None
      | UsageEvent p c \<Rightarrow> direct_answer_stream prompt es (r\<lparr>sy_usage := Some (p, c)\<rparr>)
      | StreamDone \<Rightarrow> Some r
      | StreamFailed \<Rightarrow> None)"

definition accepted_answer :: "string \<Rightarrow> string \<Rightarrow> string option" where
  "accepted_answer prompt s =
     (let answer = sanitize_direct_answer_text s
      in if answer = [] \<or> char_count answer < 24 \<or> direct_answer_looks_like_tool_call answer
            \<or> \<not> direct_answer_covers_prompt answer prompt
         then None else Some answer)"

text \<open>\<open>provider\<close> is the configured provider, \<open>events\<close> its stream, none when the request fails.\<close>

definition try_local_direct_answer_fast_path ::
  "string \<Rightarrow> string \<Rightarrow> task_classification \<Rightarrow> stream_event list option \<Rightarrow> (string \<times> (nat \<times> nat) option) option" where
  "try_local_direct_answer_fast_path provider prompt classification events =
     (if provider \<noteq> ''local'' \<or> \<not> direct_answer_fast_path_allowed prompt classification then None
      else Option.bind events (\<lambda>es.
        Option.bind (direct_answer_stream prompt es empty_reply) (\<lambda>r.
          map_option (\<lambda>answer. (answer, sy_usage r)) (accepted_answer prompt (sy_text r)))))"

section \<open>Answers from a probe\<close>

definition in_ticks :: "string \<Rightarrow> string \<Rightarrow> string \<Rightarrow> string" where
  "in_ticks front v back = front @ ''`'' @ v @ ''`'' @ back"

definition asks_where :: "string \<Rightarrow> bool" where
  "asks_where lower = contains_any lower [''what directory'', ''which directory'', ''where am i'', ''current directory'']"

definition direct_answer_from_readonly_result :: "string \<Rightarrow> string \<Rightarrow> string \<Rightarrow> string option" where
  "direct_answer_from_readonly_result prompt cmd stdout =
     (let lower = to_ascii_lowercase prompt
      in if cmd = ''pwd'' \<or> asks_where lower then Some (in_ticks ''You are in the '' stdout '' directory.'')
         else if prompt_requests_file_count lower
         then (case lines stdout of [] \<Rightarrow> None | l # _ \<Rightarrow> Some (in_ticks ''The count is '' (trim l) ''.''))
         else if contains_any lower [''storage'', ''disk usage'', ''how much'']
         then Some (in_ticks ''The storage usage is '' stdout ''.'')
         else if prompt_asks_ranked_file lower then Some (in_ticks ''The matching file is '' stdout ''.'')
         else Some (in_ticks ''The result is '' stdout ''.''))"

definition json_bool :: "json \<Rightarrow> bool option" where
  "json_bool v = (case v of JBool b \<Rightarrow> Some b | _ \<Rightarrow> None)"

definition text_field :: "string \<Rightarrow> json \<Rightarrow> string" where
  "text_field k v = trim (case Option.bind (json_get k v) json_str of None \<Rightarrow> [] | Some s \<Rightarrow> s)"

text \<open>The command and the output of a probe that succeeded and wrote something.\<close>

definition probe_result :: "json_reader \<Rightarrow> string \<Rightarrow> (string \<times> string) option" where
  "probe_result jr tool_output =
     Option.bind (jr_from_str jr tool_output) (\<lambda>v.
       if Option.bind (json_get ''success'' v) json_bool \<noteq> Some True then None
       else if text_field ''stdout'' v = [] then None
       else Some (text_field ''cmd'' v, text_field ''stdout'' v))"

definition direct_answer_from_readonly_tool_json :: "json_reader \<Rightarrow> string \<Rightarrow> string \<Rightarrow> string option" where
  "direct_answer_from_readonly_tool_json jr prompt tool_output =
     Option.bind (probe_result jr tool_output) (\<lambda>(cmd, stdout). direct_answer_from_readonly_result prompt cmd stdout)"

definition prompt_requires_project_metadata_fact :: "string \<Rightarrow> bool" where
  "prompt_requires_project_metadata_fact prompt =
     (let lower = to_ascii_lowercase prompt
      in contains_any lower [''npm'', ''package.json'', ''package script'', ''project'']
         \<and> contains_any lower [''test'', ''build'', ''script'', ''run''])"

definition tool_outputs :: "string \<Rightarrow> chat_message list \<Rightarrow> string list" where
  "tool_outputs tool history =
     map cm_content (filter (\<lambda>m. cm_role m = ''tool'' \<and> cm_tool_name m = Some tool) (rev history))"

definition wanted_script :: "string \<Rightarrow> string \<Rightarrow> bool" where
  "wanted_script lower script =
     (let s = to_ascii_lowercase script
      in if contains lower ''test'' then contains s ''test''
         else if contains lower ''build'' then contains s ''build'' else True)"

definition project_script :: "json_reader \<Rightarrow> string \<Rightarrow> string \<Rightarrow> string option" where
  "project_script jr lower content =
     Option.bind (jr_from_str jr content) (\<lambda>v.
       case json_get ''scripts'' v of
         Some (JArr items) \<Rightarrow> find (wanted_script lower) (List.map_filter json_str items)
       | _ \<Rightarrow> None)"

definition direct_answer_from_recent_readonly_observation ::
  "json_reader \<Rightarrow> chat_message list option \<Rightarrow> string \<Rightarrow> string option" where
  "direct_answer_from_recent_readonly_observation jr history prompt =
     Option.bind history (\<lambda>h.
       let lower = to_ascii_lowercase prompt;
           script = (if prompt_requires_project_metadata_fact prompt
                     then some_of (project_script jr lower) (tool_outputs ''project_metadata'' h) else None)
       in case script of
            Some s \<Rightarrow> Some (in_ticks ''The project command is '' s ''.'')
          | None \<Rightarrow>
              Option.bind (some_of (probe_result jr) (tool_outputs ''run_readonly_command'' h))
                (\<lambda>(cmd, stdout). direct_answer_from_readonly_result prompt cmd stdout))"

section \<open>Answers from the terminal\<close>

definition newest_first :: "observed_entry list \<Rightarrow> observed_entry list" where
  "newest_first = sort_key (\<lambda>e. - int (oe_started_at e))"

definition entries_of_shell :: "uuid \<Rightarrow> observed_entry list \<Rightarrow> observed_entry list" where
  "entries_of_shell shell_id observed = newest_first (filter (\<lambda>e. oe_shell_id e = shell_id) observed)"

definition newline :: string where
  "newline = [CHR 0x0A]"

definition one_line :: "string \<Rightarrow> string" where
  "one_line s = replace_all s newline [CHR 0x5C, CHR ''n'']"

definition labelled :: "string \<Rightarrow> string \<Rightarrow> string" where
  "labelled label v = (if trim v \<noteq> [] then label @ one_line v @ newline else [])"

definition terminal_entry :: "nat \<Rightarrow> observed_entry \<Rightarrow> string" where
  "terminal_entry idx e =
     show_nat (idx + 1) @ ''. command: '' @ oe_command e @ newline
     @ ''   cwd: '' @ oe_cwd e @ newline @ ''   exit_code: '' @ show_int (oe_exit_code e) @ newline
     @ labelled ''   stdout_tail: '' (oe_stdout_tail e) @ labelled ''   stderr_tail: '' (oe_stderr_tail e)"

definition recent_terminal_context_for_direct_answer :: "observed_entry list \<Rightarrow> uuid \<Rightarrow> string \<Rightarrow> string option" where
  "recent_terminal_context_for_direct_answer observed shell_id prompt =
     (let entries = entries_of_shell shell_id observed
      in if entries = [] then None
         else Some (''User question: '' @ trim prompt @ newline @ newline
           @ ''Recent terminal context from the user'' @ [CHR 0x27] @ ''s interactive shell, newest first:'' @ newline
           @ concat (map (\<lambda>(i, e). terminal_entry i e) (enumerate 0 (take 5 entries)))))"

definition fenced :: "string \<Rightarrow> string" where
  "fenced v = newline @ ''```text'' @ newline @ truncate_string v 1200 @ newline @ ''```''"

definition terminal_answer :: "string \<Rightarrow> observed_entry \<Rightarrow> string option" where
  "terminal_answer lower e =
     (let command = trim (oe_command e); stdout = trim (oe_stdout_tail e); stderr = trim (oe_stderr_tail e)
      in if command = [] then None
         else if contains_any lower [''output'', ''print'', ''result'']
         then Some (if stdout \<noteq> [] then ''The most recent command output was:'' @ fenced stdout
                    else if stderr \<noteq> [] then ''The most recent command wrote this to stderr:'' @ fenced stderr
                    else in_ticks ''The most recent command '' command '' completed without captured output.'')
         else if contains_any lower [''exit'', ''status'']
         then Some (in_ticks ''The most recent command '' command ('' exited with status '' @ show_int (oe_exit_code e) @ ''.''))
         else Some (in_ticks ''The most recent command I saw in this shell was '' command ''.''))"

definition terminal_context_no_blank_answer ::
  "observed_entry list \<Rightarrow> uuid \<Rightarrow> string \<Rightarrow> task_classification \<Rightarrow> string option" where
  "terminal_context_no_blank_answer observed shell_id prompt classification =
     (if classification \<noteq> ReferentialFollowup then None
      else case entries_of_shell shell_id observed of
        [] \<Rightarrow> None
      | e # _ \<Rightarrow> terminal_answer (to_ascii_lowercase prompt) e)"

end
