(* ===== verification/Direct_Props.thy ===== *)
theory Direct_Props
  imports Direct_Answer Sanitize_Bytes
begin

text \<open>
  An answer that is shown holds no control character, and a question for a number of files that names
  the current directory is answered with the number in the place of the directory.
\<close>

section \<open>Control characters\<close>

definition printable :: "rchar \<Rightarrow> bool" where
  "printable c \<longleftrightarrow> \<not> is_control c \<or> c \<in> {[CHR 0x0A], [CHR 0x09]}"

lemma ESC_control: "is_control ESC" "ESC \<notin> {[CHR 0x0A], [CHR 0x09]}"
  by code_simp+

lemma ESC_not_printable: "\<not> printable ESC"
  using ESC_control by (simp add: printable_def)

lemma strip_controls_Cons:
  "strip_controls (c # cs) =
     (if c = ESC then if cs \<noteq> [] \<and> hd cs = ''['' then strip_controls (after_final (tl cs)) else strip_controls cs
      else if printable c then c # strip_controls cs else strip_controls cs)"
  by (cases cs) (simp_all add: printable_def)

declare strip_controls.simps(2) [simp del]

lemma strip_controls_printable: "\<forall>c \<in> set (strip_controls cs). printable c"
proof (induction "length cs" arbitrary: cs rule: less_induct)
  case less
  show ?case
  proof (cases cs)
    case (Cons c ds)
    have "length (after_final (tl ds)) < length cs"
      using Cons length_dropWhile_le [of "\<lambda>c. \<not> final_char c" "tl ds"] by (simp add: after_final_def)
    then show ?thesis using less Cons by (auto simp: strip_controls_Cons)
  qed simp
qed

lemma strip_controls_id: "\<forall>c \<in> set cs. printable c \<Longrightarrow> strip_controls cs = cs"
proof (induction cs)
  case (Cons c cs)
  then have "c \<noteq> ESC" using ESC_not_printable by auto
  then show ?case using Cons by (simp add: strip_controls_Cons)
qed simp

lemma after_final_suffix: "suffix (after_final cs) cs"
  unfolding after_final_def by (meson suffix_dropWhile suffix_order.trans suffix_tl)

lemma strip_controls_subseq: "subseq (strip_controls cs) cs"
proof (induction "length cs" arbitrary: cs rule: less_induct)
  case less
  show ?case
  proof (cases cs)
    case (Cons c ds)
    have "suffix (after_final (tl ds)) ds" by (meson after_final_suffix suffix_order.trans suffix_tl)
    then have f: "subseq (after_final (tl ds)) ds" "length (after_final (tl ds)) < length cs"
      using Cons by (auto simp: suffix_imp_subseq dest: suffix_length_le)
    have "subseq (strip_controls (after_final (tl ds))) ds" using less f by (meson subseq_order.trans)
    moreover have "subseq (strip_controls ds) ds" using less Cons by simp
    ultimately show ?thesis using Cons by (auto simp: strip_controls_Cons)
  qed simp
qed

lemma pieces_subseq: "subseq xs ys \<Longrightarrow> pieces ys \<Longrightarrow> pieces xs"
proof (induction rule: list_emb.induct)
  case (list_emb_Cons xs ys y)
  then show ?case using pieces_suffix [of "[y]" ys] by simp
next
  case (list_emb_Cons2 x y xs ys)
  then have "set xs \<subseteq> set ys" by (auto dest: list_emb_set)
  then show ?case using list_emb_Cons2 by auto
qed simp

lemma chars_strip: "chars (strip_terminal_control_sequences s) = strip_controls (chars s)"
  unfolding strip_terminal_control_sequences_def
  by (rule chars_concat) (rule pieces_subseq [OF strip_controls_subseq pieces_chars])

lemma chars_filter: "chars (concat (filter P (chars s))) = filter P (chars s)"
  by (rule chars_concat) (rule pieces_subseq [OF subseq_filter_left pieces_chars])

lemma shown_printable: "\<forall>c \<in> set (chars (sanitize_model_display_text s)). printable c"
proof -
  define visible where "visible = concat (filter (\<lambda>c. c \<notin> set hidden_chars) (chars (strip_terminal_control_sequences s)))"
  have "set (chars (trim visible)) \<subseteq> set (strip_controls (chars s))"
  proof -
    have "set (chars (trim visible)) \<subseteq> set (chars visible)" by (simp add: chars_trim set_trim_list)
    also have "chars visible = filter (\<lambda>c. c \<notin> set hidden_chars) (strip_controls (chars s))"
      unfolding visible_def chars_strip [symmetric] by (rule chars_filter)
    finally show ?thesis by auto
  qed
  moreover have "sanitize_model_display_text s = [] \<or> sanitize_model_display_text s = trim visible"
    by (simp add: sanitize_model_display_text_def visible_def Let_def)
  ultimately show ?thesis using strip_controls_printable [of "chars s"] by auto
qed

text \<open>C17: An answer of the fast path holds no control character but line feeds and tabs, so no terminal sequence of the
  model reaches the terminal of the user; it is at least 24 characters long and holds no tool call; and
  text without control characters passes the filter for control sequences unchanged.\<close>

theorem fast_answers_printable:
  assumes "try_local_direct_answer_fast_path provider prompt classification events = Some (answer, usage)"
  shows "(\<forall>c \<in> set (chars answer). printable c) \<and> 24 \<le> char_count answer
    \<and> \<not> direct_answer_looks_like_tool_call answer
    \<and> strip_terminal_control_sequences answer = answer"
proof -
  obtain s where s: "accepted_answer prompt s = Some answer"
    using assms by (auto simp: try_local_direct_answer_fast_path_def bind_eq_Some_conv split: if_splits)
  then have a: "answer = sanitize_model_display_text s" "24 \<le> char_count answer" "\<not> direct_answer_looks_like_tool_call answer"
    by (auto simp: accepted_answer_def sanitize_direct_answer_text_def Let_def split: if_splits)
  have p: "\<forall>c \<in> set (chars answer). printable c" unfolding a(1) by (rule shown_printable)
  then show ?thesis using a by (simp add: strip_terminal_control_sequences_def strip_controls_id)
qed

section \<open>Two questions in one\<close>

text \<open>When the user asks how many files are in the current directory, the daemon's own probe counts the files, but
  the output of that probe, which is the number, is presented as the name of the directory; and the test
  for a usable probe of the model accepts no command but \<open>pwd\<close>.\<close>

theorem count_answered_as_directory:
  assumes "prompt_requests_file_count (to_ascii_lowercase prompt)" "contains (to_ascii_lowercase prompt) ''current directory''"
    and "materialize_readonly_command_from_prompt env prompt = Some probe"
  shows "(\<exists>path. call_command probe = Some (''find '' @ path @ '' -type f -print | wc -l''))
    \<and> (\<forall>cmd n. direct_answer_from_readonly_result prompt cmd n = Some (in_ticks ''You are in the '' n '' directory.''))
    \<and> (\<forall>call. readonly_tool_call_is_usable call prompt \<longrightarrow>
         (\<exists>cmd. call_command call = Some cmd
           \<and> (case pc_tokens (parse_command (trim cmd)) of [] \<Rightarrow> [] | t # _ \<Rightarrow> t) = ''pwd''))"
proof (intro conjI allI impI)
  have "lc_arguments probe = JObj [(''cmd'', JStr (''find '' @ (readonly_prompt_scope_path_argument env prompt
      @ depth_option (to_ascii_lowercase prompt)) @ '' -type f -print | wc -l'')), (''reason'', JStr
      ''read-only command materialized from prompt, filesystem context, and command-effect validation'')]"
    using assms(1,3)
    by (simp add: materialize_readonly_command_from_prompt_def readonly_command_for_def Let_def readonly_call_def
        split: if_splits)
      (auto split: if_splits)
  then show "\<exists>path. call_command probe = Some (''find '' @ path @ '' -type f -print | wc -l'')"
    unfolding call_command_def json_get_def json_str_def by simp
  have dir: "asks_where (to_ascii_lowercase prompt)" "prompt_asks_directory (to_ascii_lowercase prompt)"
    using assms(2) by (simp_all add: asks_where_def prompt_asks_directory_def contains_any_def)
  show "direct_answer_from_readonly_result prompt cmd n = Some (in_ticks ''You are in the '' n '' directory.'')" for cmd n
    by (simp add: direct_answer_from_readonly_result_def dir(1))
  show "\<exists>cmd. call_command call = Some cmd
      \<and> (case pc_tokens (parse_command (trim cmd)) of [] \<Rightarrow> [] | t # _ \<Rightarrow> t) = ''pwd''"
    if "readonly_tool_call_is_usable call prompt" for call
    using that dir(2)
    by (auto simp: readonly_tool_call_is_usable_def readonly_command_candidate_is_complete_def Let_def
        split: option.splits if_splits)
qed

definition no_home :: action_env where
  "no_home = \<lparr>ac_captures = (\<lambda>_ _. None), ac_env_var = (\<lambda>_. None)\<rparr>"

definition count_question :: string where
  "count_question = ''how many files are in the current directory''"

text \<open>With 42 files the answer names the directory \<open>42\<close>.\<close>

theorem count_answered_as_directory_witness:
  "direct_answer_from_readonly_result count_question ''find . -maxdepth 1 -type f -print | wc -l'' ''42''
     = Some ''You are in the `42` directory.''"
proof -
  have q: "prompt_requests_file_count (to_ascii_lowercase count_question)"
    "contains (to_ascii_lowercase count_question) ''current directory''"
    "materialize_readonly_command_from_prompt no_home count_question
       = Some (readonly_call ''find . -maxdepth 1 -type f -print | wc -l''
           ''read-only command materialized from prompt, filesystem context, and command-effect validation'')"
    by code_simp+
  have "in_ticks ''You are in the '' ''42'' '' directory.'' = ''You are in the `42` directory.''" by code_simp
  then show ?thesis using count_answered_as_directory [OF q] by simp
qed

text \<open>A colour sequence is removed from the answer.\<close>

theorem fast_answers_printable_witness:
  "strip_terminal_control_sequences ''The command ls lists files.'' = ''The command ls lists files.''"
proof -
  have "try_local_direct_answer_fast_path ''local'' ''what is ls'' FreshCommandRequest
      (Some [TextChunk (''The command '' @ [CHR 0x1B] @ ''[1mls'' @ [CHR 0x1B] @ ''[0m lists files.''), StreamDone])
      = Some (''The command ls lists files.'', None)" by code_simp
  then show ?thesis using fast_answers_printable by blast
qed

end
