(* ===== verification/Tool_Schemas.thy ===== *)
theory Tool_Schemas
  imports Action_Fallback Tool_Exposure
begin

text \<open>
  The tools that are offered to the model (\<open>termlm-core/src/main.rs\<close>): their schemas, word for word, and
  the lists that \<open>try_provider_orchestration\<close> and \<open>provider_redraft_from_validation\<close> make of them. Objects
  of \<open>serde_json\<close> keep their keys in order.
\<close>

record tool_schema =
  ts_name :: string
  ts_description :: string
  ts_parameters :: json

section \<open>Schemas\<close>

definition tool_schema_execute_shell_command :: tool_schema where
  "tool_schema_execute_shell_command =
     \<lparr>ts_name = ''execute_shell_command'',
      ts_description =
        (''Propose exactly one zsh command line for the user to approve. Keep simple prompts simple; use ''
        @ ''pipelines or && only when needed to satisfy the requested behavior.''),
      ts_parameters = JObj
         [(''properties'', JObj
             [(''cmd'', JObj [(''type'', JStr ''string'')]),
              (''commands_used'', JObj
                 [(''items'', JObj [(''type'', JStr ''string'')]),
                  (''type'', JStr ''array'')]),
              (''continue_after_execution'', JObj [(''description'', JStr (''Set true only when the task explicitly requires another model/tool round after this approved ''
                    @ ''command runs. Omit or false for normal one-command answers.'')), (''type'', JStr ''boolean'')]),
              (''expected_effect'', JObj [(''description'', JStr ''Expected filesystem/process/network effect in plain language.''), (''type'', JStr ''string'')]),
              (''intent'', JObj [(''description'', JStr ''What the command is meant to accomplish.''), (''type'', JStr ''string'')])]),
          (''required'', JArr [JStr ''cmd'']),
          (''type'', JStr ''object'')]\<rparr>"

definition tool_schema_ask_clarification :: tool_schema where
  "tool_schema_ask_clarification =
     \<lparr>ts_name = ''ask_clarification'',
      ts_description =
        ''Ask one focused clarification question when no grounded command can be proposed yet.'',
      ts_parameters = JObj
         [(''properties'', JObj
             [(''question'', JObj [(''type'', JStr ''string'')])]),
          (''required'', JArr [JStr ''question'']),
          (''type'', JStr ''object'')]\<rparr>"

definition tool_schema_lookup_docs :: tool_schema where
  "tool_schema_lookup_docs =
     \<lparr>ts_name = ''lookup_command_docs'',
      ts_description =
        ''Look up local docs for an installed command.'',
      ts_parameters = JObj
         [(''properties'', JObj
             [(''name'', JObj [(''type'', JStr ''string'')]),
              (''section'', JObj [(''type'', JStr ''string'')])]),
          (''required'', JArr [JStr ''name'']),
          (''type'', JStr ''object'')]\<rparr>"

definition tool_schema_retrieve_command_docs :: tool_schema where
  "tool_schema_retrieve_command_docs =
     \<lparr>ts_name = ''retrieve_command_docs'',
      ts_description =
        (''Run hybrid local command-doc retrieval for a natural-language query. Use this when you do not ''
        @ ''yet know the exact command, need multiple candidate commands, or need broader local docs ''
        @ ''before drafting.''),
      ts_parameters = JObj
         [(''properties'', JObj
             [(''query'', JObj [(''type'', JStr ''string'')]),
              (''top_k'', JObj [(''type'', JStr ''integer'')])]),
          (''required'', JArr [JStr ''query'']),
          (''type'', JStr ''object'')]\<rparr>"

definition schema_read_file :: tool_schema where
  "schema_read_file =
     \<lparr>ts_name = ''read_file'',
      ts_description =
        ''Read a plaintext local file without executing shell commands.'',
      ts_parameters = JObj
         [(''properties'', JObj
             [(''max_bytes'', JObj [(''type'', JStr ''integer'')]),
              (''max_lines'', JObj [(''type'', JStr ''integer'')]),
              (''path'', JObj [(''type'', JStr ''string'')]),
              (''start_line'', JObj [(''type'', JStr ''integer'')])]),
          (''required'', JArr [JStr ''path'']),
          (''type'', JStr ''object'')]\<rparr>"

definition schema_search_files :: tool_schema where
  "schema_search_files =
     \<lparr>ts_name = ''search_files'',
      ts_description =
        ''Search text in workspace files.'',
      ts_parameters = JObj
         [(''properties'', JObj
             [(''glob'', JObj [(''type'', JStr ''string'')]),
              (''include_hidden'', JObj [(''type'', JStr ''boolean'')]),
              (''max_bytes_per_file'', JObj [(''type'', JStr ''integer'')]),
              (''max_results'', JObj [(''type'', JStr ''integer'')]),
              (''query'', JObj [(''type'', JStr ''string'')]),
              (''regex'', JObj [(''type'', JStr ''boolean'')]),
              (''respect_gitignore'', JObj [(''type'', JStr ''boolean'')]),
              (''root'', JObj [(''type'', JStr ''string'')])]),
          (''required'', JArr [JStr ''query'']),
          (''type'', JStr ''object'')]\<rparr>"

definition schema_list_workspace_files :: tool_schema where
  "schema_list_workspace_files =
     \<lparr>ts_name = ''list_workspace_files'',
      ts_description =
        ''List workspace files and directories.'',
      ts_parameters = JObj
         [(''properties'', JObj
             [(''include_hidden'', JObj [(''type'', JStr ''boolean'')]),
              (''max_depth'', JObj [(''type'', JStr ''integer'')]),
              (''max_entries'', JObj [(''type'', JStr ''integer'')]),
              (''root'', JObj [(''type'', JStr ''string'')])]),
          (''type'', JStr ''object'')]\<rparr>"

definition schema_run_readonly_command :: tool_schema where
  "schema_run_readonly_command =
     \<lparr>ts_name = ''run_readonly_command'',
      ts_description =
        (''Run a tightly allowlisted, non-modifying local command probe for facts needed to answer the ''
        @ ''prompt. Use absolute or relative paths; shell expansions like ~ and $HOME are not expanded. ''
        @ ''Simple pipelines are allowed only when every segment is an allowlisted read-only command. The ''
        @ ''daemon rejects redirection, control operators, command substitution, grouping, and ''
        @ ''non-allowlisted commands. Do not use this for user shell history or recently-run commands; use ''
        @ ''search_terminal_context instead.''),
      ts_parameters = JObj
         [(''properties'', JObj
             [(''cmd'', JObj [(''type'', JStr ''string'')]),
              (''reason'', JObj [(''type'', JStr ''string'')])]),
          (''required'', JArr [JStr ''cmd'']),
          (''type'', JStr ''object'')]\<rparr>"

definition schema_search_terminal_context :: tool_schema where
  "schema_search_terminal_context =
     \<lparr>ts_name = ''search_terminal_context'',
      ts_description =
        (''Search previously observed terminal commands and output from the user'' @ [CHR 0x27] @ ''s shell. Use this for ''
        @ ''questions about the last/previous command, what just ran, prior output, or recent terminal ''
        @ ''context.''),
      ts_parameters = JObj
         [(''properties'', JObj
             [(''max_results'', JObj [(''type'', JStr ''integer'')]),
              (''query'', JObj [(''type'', JStr ''string'')])]),
          (''required'', JArr [JStr ''query'']),
          (''type'', JStr ''object'')]\<rparr>"

definition schema_project_metadata :: tool_schema where
  "schema_project_metadata =
     \<lparr>ts_name = ''project_metadata'',
      ts_description =
        ''Detect project metadata from workspace files.'',
      ts_parameters = JObj
         [(''properties'', JObj
             [(''include_ci'', JObj [(''type'', JStr ''boolean'')]),
              (''include_scripts'', JObj [(''type'', JStr ''boolean'')]),
              (''max_bytes_per_file'', JObj [(''type'', JStr ''integer'')]),
              (''max_files_read'', JObj [(''type'', JStr ''integer'')]),
              (''root'', JObj [(''type'', JStr ''string'')])]),
          (''type'', JStr ''object'')]\<rparr>"

definition schema_git_context :: tool_schema where
  "schema_git_context =
     \<lparr>ts_name = ''git_context'',
      ts_description =
        ''Inspect git repository context without modifying state.'',
      ts_parameters = JObj
         [(''properties'', JObj
             [(''include_diff_summary'', JObj [(''type'', JStr ''boolean'')]),
              (''max_diff_bytes'', JObj [(''type'', JStr ''integer'')]),
              (''max_files'', JObj [(''type'', JStr ''integer'')]),
              (''max_recent_commits'', JObj [(''type'', JStr ''integer'')]),
              (''root'', JObj [(''type'', JStr ''string'')])]),
          (''type'', JStr ''object'')]\<rparr>"

definition schema_web_search :: tool_schema where
  "schema_web_search =
     \<lparr>ts_name = ''web_search'',
      ts_description =
        ''Search current public web sources for recent information.'',
      ts_parameters = JObj
         [(''properties'', JObj
             [(''freshness'', JObj [(''type'', JStr ''string'')]),
              (''max_results'', JObj [(''type'', JStr ''integer'')]),
              (''query'', JObj [(''type'', JStr ''string'')])]),
          (''required'', JArr [JStr ''query'']),
          (''type'', JStr ''object'')]\<rparr>"

definition schema_web_read :: tool_schema where
  "schema_web_read =
     \<lparr>ts_name = ''web_read'',
      ts_description =
        ''Fetch and extract readable markdown from a URL.'',
      ts_parameters = JObj
         [(''properties'', JObj
             [(''max_bytes'', JObj [(''type'', JStr ''integer'')]),
              (''url'', JObj [(''type'', JStr ''string'')])]),
          (''required'', JArr [JStr ''url'']),
          (''type'', JStr ''object'')]\<rparr>"

section \<open>Lists of tools\<close>

definition local_tool_schemas :: "settings \<Rightarrow> tool_schema list" where
  "local_tool_schemas cfg =
     (let out = [schema_read_file, schema_search_files, schema_list_workspace_files, schema_run_readonly_command,
                 schema_search_terminal_context];
          out = (if cfg_local_tools_readonly_command_enabled (cfg_local_tools cfg) then out
                 else filter (\<lambda>tool. ts_name tool \<noteq> ''run_readonly_command'') out);
          out = (if cfg_project_metadata_enabled (cfg_project_metadata cfg) then out @ [schema_project_metadata] else out)
      in if cfg_git_context_enabled (cfg_git_context cfg) then out @ [schema_git_context] else out)"

definition local_tool_schemas_for_profile :: "settings \<Rightarrow> tool_exposure_profile \<Rightarrow> tool_schema list" where
  "local_tool_schemas_for_profile cfg profile =
     (if \<not> cfg_local_tools_enabled (cfg_local_tools cfg) then []
      else filter (\<lambda>tool. if ts_name tool = ''search_terminal_context'' then te_terminal_context_tool profile
                         else te_local_file_tools profile) (local_tool_schemas cfg))"

definition web_tool_schemas :: "tool_schema list" where
  "web_tool_schemas = [schema_web_search, schema_web_read]"

definition offered_web_tools :: "settings \<Rightarrow> tool_exposure_profile \<Rightarrow> tool_schema list" where
  "offered_web_tools cfg profile =
     (if te_web_tools profile \<and> cfg_web_enabled (cfg_web cfg) \<and> cfg_web_expose_tools (cfg_web cfg)
      then web_tool_schemas else [])"

definition clear_command_prompt :: "tool_exposure_profile \<Rightarrow> string \<Rightarrow> string \<Rightarrow> bool" where
  "clear_command_prompt profile mode prompt \<longleftrightarrow>
     mode = ''?'' \<and> te_execute_shell_command profile \<and> prompt_has_sufficient_local_action_details prompt
     \<and> prompt_prefers_execute_action prompt"

text \<open>The tools of an orchestration round.\<close>

definition orchestration_tools :: "settings \<Rightarrow> tool_exposure_profile \<Rightarrow> string \<Rightarrow> string \<Rightarrow> tool_schema list" where
  "orchestration_tools cfg profile mode prompt =
     (let obvious = clear_command_prompt profile mode prompt
      in (if te_execute_shell_command profile
          then [tool_schema_execute_shell_command]
            @ (if mode = ''?'' \<and> \<not> prompt_has_sufficient_local_action_details prompt
               then [tool_schema_ask_clarification] else [])
          else [])
         @ (if te_lookup_command_docs profile \<and> \<not> obvious
            then [tool_schema_retrieve_command_docs, tool_schema_lookup_docs] else [])
         @ (if obvious then [] else local_tool_schemas_for_profile cfg profile)
         @ offered_web_tools cfg profile)"

text \<open>The tools of a redraft, where the command tool is always offered.\<close>

definition redraft_tools :: "settings \<Rightarrow> tool_exposure_profile \<Rightarrow> tool_schema list" where
  "redraft_tools cfg profile =
     [tool_schema_execute_shell_command]
     @ (if te_lookup_command_docs profile then [tool_schema_retrieve_command_docs, tool_schema_lookup_docs] else [])
     @ local_tool_schemas_for_profile cfg profile @ offered_web_tools cfg profile"

section \<open>What a schema asks for\<close>

definition schema_properties :: "tool_schema \<Rightarrow> (string \<times> json) list" where
  "schema_properties t = (case json_get ''properties'' (ts_parameters t) of Some (JObj kvs) \<Rightarrow> kvs | _ \<Rightarrow> [])"

definition schema_required :: "tool_schema \<Rightarrow> string list" where
  "schema_required t =
     (case json_get ''required'' (ts_parameters t) of Some (JArr ks) \<Rightarrow> List.map_filter json_str ks | _ \<Rightarrow> [])"

definition property_type :: "json \<Rightarrow> string option" where
  "property_type p = Option.bind (json_get ''type'' p) json_str"

text \<open>Arguments with all required strings, not blank.\<close>

definition meets_schema :: "tool_schema \<Rightarrow> local_call \<Rightarrow> bool" where
  "meets_schema t call \<longleftrightarrow> lc_name call = ts_name t \<and> list_all (call_has call) (schema_required t)"

definition well_formed_schema :: "tool_schema \<Rightarrow> bool" where
  "well_formed_schema t \<longleftrightarrow>
     json_get ''type'' (ts_parameters t) = Some (JStr ''object'')
     \<and> distinct (map fst (schema_properties t))
     \<and> list_all (\<lambda>(_, p). property_type p \<in> {Some ''string'', Some ''integer'', Some ''boolean'', Some ''array''})
         (schema_properties t)
     \<and> list_all (\<lambda>k. Option.bind (map_of (schema_properties t) k) property_type = Some ''string'') (schema_required t)"

text \<open>The arguments that make a call acceptable: those the daemon checks, and the command of the command tool.\<close>

definition checked_arguments :: "string \<Rightarrow> string list" where
  "checked_arguments name =
     (if name = ''execute_shell_command'' then [''cmd'', ''command'']
      else case map_of required_argument name of None \<Rightarrow> [] | Some keys \<Rightarrow> keys)"

definition all_tool_schemas :: "tool_schema list" where
  "all_tool_schemas =
     [tool_schema_execute_shell_command, tool_schema_ask_clarification, tool_schema_retrieve_command_docs,
      tool_schema_lookup_docs, schema_read_file, schema_search_files, schema_list_workspace_files,
      schema_run_readonly_command, schema_search_terminal_context, schema_project_metadata, schema_git_context,
      schema_web_search, schema_web_read]"

lemma local_tools_known:
  "set (local_tool_schemas cfg)
     \<subseteq> {schema_read_file, schema_search_files, schema_list_workspace_files, schema_run_readonly_command,
        schema_search_terminal_context, schema_project_metadata, schema_git_context}"
proof -
  have "set (filter P [schema_read_file, schema_search_files, schema_list_workspace_files, schema_run_readonly_command,
        schema_search_terminal_context]) \<subseteq> {schema_read_file, schema_search_files, schema_list_workspace_files,
        schema_run_readonly_command, schema_search_terminal_context}" for P
    by (rule order_trans [OF filter_is_subset]) simp
  then show ?thesis unfolding local_tool_schemas_def Let_def by (fastforce split: if_splits)
qed

lemma offered_tools_known:
  "set (orchestration_tools cfg profile mode prompt) \<subseteq> set all_tool_schemas"
  "set (redraft_tools cfg profile) \<subseteq> set all_tool_schemas"
proof -
  have l: "set (local_tool_schemas_for_profile cfg profile) \<subseteq> set all_tool_schemas"
  proof -
    have "set (local_tool_schemas_for_profile cfg profile) \<subseteq> set (local_tool_schemas cfg)"
      by (simp add: local_tool_schemas_for_profile_def filter_is_subset)
    also note local_tools_known
    also have "{schema_read_file, schema_search_files, schema_list_workspace_files, schema_run_readonly_command,
        schema_search_terminal_context, schema_project_metadata, schema_git_context} \<subseteq> set all_tool_schemas"
      by (simp add: all_tool_schemas_def)
    finally show ?thesis .
  qed
  have w: "set (offered_web_tools cfg profile) \<subseteq> set all_tool_schemas"
    by (cases "te_web_tools profile \<and> cfg_web_enabled (cfg_web cfg) \<and> cfg_web_expose_tools (cfg_web cfg)")
      (simp_all only: offered_web_tools_def if_True if_False web_tool_schemas_def all_tool_schemas_def, simp_all)
  have c: "{tool_schema_execute_shell_command, tool_schema_ask_clarification, tool_schema_retrieve_command_docs,
      tool_schema_lookup_docs} \<subseteq> set all_tool_schemas"
    by (simp add: all_tool_schemas_def)
  have if_set: "set (if b then xs else []) \<subseteq> A" "set (if b then [] else xs) \<subseteq> A"
    if "set xs \<subseteq> A" for b xs and A :: "tool_schema set"
    using that by (cases b; simp)+
  show "set (orchestration_tools cfg profile mode prompt) \<subseteq> set all_tool_schemas"
    unfolding orchestration_tools_def Let_def set_append Un_subset_iff
    by (intro conjI if_set l w) (use c in \<open>auto split: if_splits\<close>)
  show "set (redraft_tools cfg profile) \<subseteq> set all_tool_schemas"
    unfolding redraft_tools_def set_append Un_subset_iff
    by (intro conjI if_set l w) (use c in \<open>auto split: if_splits\<close>)
qed

lemma schemas_checked:
  "list_all (\<lambda>t. well_formed_schema t
       \<and> schema_required t = (case checked_arguments (ts_name t) of [] \<Rightarrow> [] | k # _ \<Rightarrow> [k])) all_tool_schemas"
  by code_simp

lemma meets_schema_checked:
  assumes "t \<in> set all_tool_schemas" "meets_schema t call"
  shows "tool_call_has_minimum_arguments call"
proof (cases "map_of required_argument (lc_name call)")
  case (Some keys)
  have "ts_name t \<noteq> ''execute_shell_command''" using Some assms(2) by (auto simp: meets_schema_def required_argument_def)
  then have "schema_required t = (case keys of [] \<Rightarrow> [] | k # _ \<Rightarrow> [k])"
    using schemas_checked assms Some by (auto simp: list_all_iff meets_schema_def checked_arguments_def)
  moreover have "keys \<noteq> []" using Some by (auto simp: required_argument_def split: if_splits)
  ultimately show ?thesis using assms(2) Some
    by (auto simp: meets_schema_def tool_call_has_minimum_arguments_def split: list.splits)
qed (simp add: tool_call_has_minimum_arguments_def)

text \<open>C16: Every tool that is offered to the model, in a round or a redraft, has a well-formed schema whose required
  arguments are strings among its properties and are exactly what the daemon checks of a call, so that
  every call that meets its schema passes that check.\<close>

theorem offered_schemas_checked:
  assumes "t \<in> set (orchestration_tools cfg profile mode prompt) \<union> set (redraft_tools cfg profile)"
  shows "well_formed_schema t
    \<and> schema_required t = (case checked_arguments (ts_name t) of [] \<Rightarrow> [] | k # _ \<Rightarrow> [k])
    \<and> (meets_schema t call \<longrightarrow> tool_call_has_minimum_arguments call)"
proof -
  have "t \<in> set all_tool_schemas" using assms offered_tools_known by blast
  then show ?thesis using schemas_checked meets_schema_checked by (auto simp: list_all_iff)
qed

lemma schema_names:
  "ts_name tool_schema_execute_shell_command = ''execute_shell_command''"
  "ts_name tool_schema_ask_clarification = ''ask_clarification''"
  "ts_name tool_schema_retrieve_command_docs = ''retrieve_command_docs''"
  "ts_name tool_schema_lookup_docs = ''lookup_command_docs''"
  "ts_name schema_read_file = ''read_file''"
  "ts_name schema_search_files = ''search_files''"
  "ts_name schema_list_workspace_files = ''list_workspace_files''"
  "ts_name schema_run_readonly_command = ''run_readonly_command''"
  "ts_name schema_search_terminal_context = ''search_terminal_context''"
  "ts_name schema_project_metadata = ''project_metadata''"
  "ts_name schema_git_context = ''git_context''"
  "ts_name schema_web_search = ''web_search''"
  "ts_name schema_web_read = ''web_read''"
  by code_simp+

lemma names_filter: "ts_name ` set (filter (\<lambda>t. Q (ts_name t)) ts) = {n \<in> ts_name ` set ts. Q n}"
  by auto

lemma local_tool_names:
  "ts_name ` set (local_tool_schemas cfg) =
     {n \<in> {''read_file'', ''search_files'', ''list_workspace_files'', ''run_readonly_command'', ''search_terminal_context''}.
        n \<noteq> ''run_readonly_command'' \<or> cfg_local_tools_readonly_command_enabled (cfg_local_tools cfg)}
     \<union> (if cfg_project_metadata_enabled (cfg_project_metadata cfg) then {''project_metadata''} else {})
     \<union> (if cfg_git_context_enabled (cfg_git_context cfg) then {''git_context''} else {})"
proof -
  define base where "base = [schema_read_file, schema_search_files, schema_list_workspace_files, schema_run_readonly_command,
    schema_search_terminal_context]"
  have b: "ts_name ` set base
      = {''read_file'', ''search_files'', ''list_workspace_files'', ''run_readonly_command'', ''search_terminal_context''}"
    unfolding base_def list.set image_insert image_empty schema_names ..
  have f: "ts_name ` set (filter (\<lambda>t. ts_name t \<noteq> ''run_readonly_command'') base)
      = {n \<in> ts_name ` set base. n \<noteq> ''run_readonly_command''}"
    by (rule names_filter)
  show ?thesis
    unfolding local_tool_schemas_def Let_def base_def [symmetric] b [symmetric]
    by (cases "cfg_local_tools_readonly_command_enabled (cfg_local_tools cfg)";
        cases "cfg_project_metadata_enabled (cfg_project_metadata cfg)"; cases "cfg_git_context_enabled (cfg_git_context cfg)")
      (simp_all only: if_True if_False set_append image_Un f list.set image_insert image_empty schema_names simp_thms
        Collect_mem_eq Un_empty_right)
qed

lemma offered_local_names:
  "n \<in> ts_name ` set (local_tool_schemas_for_profile cfg profile) \<longleftrightarrow>
     cfg_local_tools_enabled (cfg_local_tools cfg) \<and> n \<in> ts_name ` set (local_tool_schemas cfg)
     \<and> (if n = ''search_terminal_context'' then te_terminal_context_tool profile else te_local_file_tools profile)"
proof -
  have "ts_name ` set (filter (\<lambda>tool. if ts_name tool = ''search_terminal_context'' then te_terminal_context_tool profile
      else te_local_file_tools profile) (local_tool_schemas cfg))
    = {n \<in> ts_name ` set (local_tool_schemas cfg). if n = ''search_terminal_context'' then te_terminal_context_tool profile
        else te_local_file_tools profile}"
    by (rule names_filter)
  then show ?thesis by (simp add: local_tool_schemas_for_profile_def)
qed

lemma names_if: "n \<in> ts_name ` set (if c then ts else []) \<longleftrightarrow> c \<and> n \<in> ts_name ` set ts"
  "n \<in> ts_name ` set (if c then [] else ts) \<longleftrightarrow> \<not> c \<and> n \<in> ts_name ` set ts"
  by (cases c; simp)+

lemma names_list:
  "n \<in> ts_name ` set (ts @ us) \<longleftrightarrow> n \<in> ts_name ` set ts \<or> n \<in> ts_name ` set us"
  "n \<in> ts_name ` set (t # ts) \<longleftrightarrow> n = ts_name t \<or> n \<in> ts_name ` set ts" "\<not> n \<in> ts_name ` set []"
  by auto

lemma offered_names:
  "n \<in> set (map ts_name (orchestration_tools cfg profile mode prompt)) \<longleftrightarrow>
     te_execute_shell_command profile \<and> (n = ''execute_shell_command''
       \<or> mode = ''?'' \<and> \<not> prompt_has_sufficient_local_action_details prompt \<and> n = ''ask_clarification'')
     \<or> te_lookup_command_docs profile \<and> \<not> clear_command_prompt profile mode prompt
         \<and> (n = ''retrieve_command_docs'' \<or> n = ''lookup_command_docs'')
     \<or> \<not> clear_command_prompt profile mode prompt \<and> n \<in> ts_name ` set (local_tool_schemas_for_profile cfg profile)
     \<or> te_web_tools profile \<and> cfg_web_enabled (cfg_web cfg) \<and> cfg_web_expose_tools (cfg_web cfg)
         \<and> (n = ''web_search'' \<or> n = ''web_read'')"
  unfolding orchestration_tools_def offered_web_tools_def web_tool_schemas_def Let_def set_map
  by (simp only: names_list names_if schema_names simp_thms conj_disj_distribL disj_assoc conj_assoc)

text \<open>A tool is offered in a round exactly when its part of the profile and of the configuration is on: commands and
  questions with execution, web tools only when the web is enabled and exposed, files and the terminal
  only with local tools; an obvious command is drafted without lookups and observations.\<close>

theorem offered_tools_exact:
  "let names = set (map ts_name (orchestration_tools cfg profile mode prompt));
       obvious = clear_command_prompt profile mode prompt;
       web = (te_web_tools profile \<and> cfg_web_enabled (cfg_web cfg) \<and> cfg_web_expose_tools (cfg_web cfg));
       files = (cfg_local_tools_enabled (cfg_local_tools cfg) \<and> te_local_file_tools profile \<and> \<not> obvious)
   in (''execute_shell_command'' \<in> names) = te_execute_shell_command profile
      \<and> (''ask_clarification'' \<in> names) = (te_execute_shell_command profile \<and> mode = ''?''
           \<and> \<not> prompt_has_sufficient_local_action_details prompt)
      \<and> (''retrieve_command_docs'' \<in> names) = (te_lookup_command_docs profile \<and> \<not> obvious)
      \<and> (''web_search'' \<in> names) = web \<and> (''web_read'' \<in> names) = web
      \<and> (''read_file'' \<in> names) = files
      \<and> (''run_readonly_command'' \<in> names)
          = (files \<and> cfg_local_tools_readonly_command_enabled (cfg_local_tools cfg))
      \<and> (''git_context'' \<in> names) = (files \<and> cfg_git_context_enabled (cfg_git_context cfg))
      \<and> (''search_terminal_context'' \<in> names)
          = (cfg_local_tools_enabled (cfg_local_tools cfg) \<and> te_terminal_context_tool profile \<and> \<not> obvious)"
  unfolding Let_def offered_names offered_local_names local_tool_names
  by (intro conjI; (simp; fail | (simp add: conj_ac; fail) | (simp, argo)))

theorem offered_schemas_checked_witness:
  "tool_call_has_minimum_arguments (call_of ''web_read'' [(''url'', JStr ''https://x.org'')])"
proof -
  let ?cfg = "settings_default" and ?profile = "exposure_for FreshCommandRequest"
  have "te_web_tools ?profile" "cfg_web_enabled (cfg_web ?cfg)" "cfg_web_expose_tools (cfg_web ?cfg)"
    by (simp_all add: settings_default_def web_default_def)
  then have "schema_web_read \<in> set (offered_web_tools ?cfg ?profile)" by (simp add: offered_web_tools_def web_tool_schemas_def)
  then have "schema_web_read \<in> set (orchestration_tools ?cfg ?profile ''?'' ''x'')"
    unfolding orchestration_tools_def Let_def set_append by blast
  moreover have "meets_schema schema_web_read (call_of ''web_read'' [(''url'', JStr ''https://x.org'')])" by code_simp
  ultimately show ?thesis using offered_schemas_checked by blast
qed

end
