(* ===== verification/Web_Fetch.thy ===== *)
theory Web_Fetch
  imports Command_Text Config_Data
begin

text \<open>
  Reading a page of the web (\<open>termlm-web/src/security.rs\<close> and \<open>fetch.rs\<close>): which URLs and addresses are
  refused, the redirects a request may follow, and how much of a body is kept. The URL crate, the name
  resolver, the robots matcher, the extraction of a page and the server are parameters.
\<close>

section \<open>Addresses\<close>

text \<open>The four octets of an IPv4 address and the eight segments of an IPv6 address.\<close>

datatype ip_addr =
    V4 "8 word" "8 word" "8 word" "8 word"
  | V6 "16 word list"

text \<open>The classes of the standard library.\<close>

fun is_loopback :: "ip_addr \<Rightarrow> bool" where
  "is_loopback (V4 a b c d) = (a = 127)"
| "is_loopback (V6 ss) = (ss = [0, 0, 0, 0, 0, 0, 0, 1])"

fun is_private :: "ip_addr \<Rightarrow> bool" where
  "is_private (V4 a b c d) = (a = 10 \<or> a = 172 \<and> 16 \<le> b \<and> b \<le> 31 \<or> a = 192 \<and> b = 168)"
| "is_private (V6 ss) = False"

fun is_link_local :: "ip_addr \<Rightarrow> bool" where
  "is_link_local (V4 a b c d) = (a = 169 \<and> b = 254)"
| "is_link_local (V6 ss) = (and (hd ss) 0xFFC0 = 0xFE80)"

fun is_multicast :: "ip_addr \<Rightarrow> bool" where
  "is_multicast (V4 a b c d) = (224 \<le> a \<and> a \<le> 239)"
| "is_multicast (V6 ss) = (and (hd ss) 0xFF00 = 0xFF00)"

fun is_unique_local :: "ip_addr \<Rightarrow> bool" where
  "is_unique_local (V4 a b c d) = False"
| "is_unique_local (V6 ss) = (and (hd ss) 0xFE00 = 0xFC00)"

fun is_blocked_ip :: "ip_addr \<Rightarrow> bool" where
  "is_blocked_ip (V4 a b c d) \<longleftrightarrow>
     is_loopback (V4 a b c d) \<or> is_private (V4 a b c d) \<or> is_link_local (V4 a b c d) \<or> is_multicast (V4 a b c d)
     \<or> (a, b, c, d) = (169, 254, 169, 254)"
| "is_blocked_ip (V6 ss) \<longleftrightarrow>
     is_loopback (V6 ss) \<or> is_unique_local (V6 ss) \<or> is_link_local (V6 ss) \<or> is_multicast (V6 ss)"

section \<open>URLs\<close>

record parsed_url =
  pu_url :: string
  pu_scheme :: string
  pu_host :: "string option"
  pu_port :: "nat option"

record web_env =
  we_parse :: "string \<Rightarrow> parsed_url option"
  we_default_port :: "string \<Rightarrow> nat option"
  we_parse_ip :: "string \<Rightarrow> ip_addr option"
  we_resolve :: "string \<Rightarrow> nat \<Rightarrow> ip_addr list option"

definition is_local_hostname :: "string \<Rightarrow> bool" where
  "is_local_hostname host =
     (let lower = to_ascii_lowercase (trim_end_matches (any_of ''.'') host)
      in lower = ''localhost'' \<or> ends_with lower ''.localhost'' \<or> ends_with lower ''.local'' \<or> ends_with lower ''.internal'')"

definition known_port :: "web_env \<Rightarrow> parsed_url \<Rightarrow> nat option" where
  "known_port env u = (case pu_port u of Some p \<Rightarrow> Some p | None \<Rightarrow> we_default_port env (pu_scheme u))"

definition resolves_to_blocked :: "web_env \<Rightarrow> parsed_url \<Rightarrow> string \<Rightarrow> bool" where
  "resolves_to_blocked env u host =
     (case known_port env u of
        None \<Rightarrow> False
      | Some port \<Rightarrow> (case we_resolve env host port of None \<Rightarrow> False | Some ips \<Rightarrow> list_ex is_blocked_ip ips))"

definition check_host :: "web_env \<Rightarrow> parsed_url \<Rightarrow> string + parsed_url" where
  "check_host env u =
     (case pu_host u of
        None \<Rightarrow> Inl ''missing host''
      | Some host \<Rightarrow>
          if eq_ignore_ascii_case host ''localhost'' \<or> is_local_hostname host then Inl ''loopback address is blocked''
          else if (case we_parse_ip env host of None \<Rightarrow> False | Some ip \<Rightarrow> is_blocked_ip ip)
          then Inl ''private/local/metadata addresses are blocked''
          else if resolves_to_blocked env u host
          then Inl ''resolved host points to private/local/metadata addresses''
          else Inr u)"

definition validate_web_url :: "web_env \<Rightarrow> string \<Rightarrow> bool \<Rightarrow> bool \<Rightarrow> string + parsed_url" where
  "validate_web_url env url allow_plain_http allow_local_addresses =
     (case we_parse env url of
        None \<Rightarrow> Inl ''invalid URL''
      | Some u \<Rightarrow>
          if pu_scheme u = ''https'' \<or> pu_scheme u = ''http'' \<and> allow_plain_http
          then (if allow_local_addresses then Inr u else check_host env u)
          else if pu_scheme u = ''http'' then Inl ''plain HTTP is disabled''
          else Inl ''unsupported scheme'')"

section \<open>Redirects\<close>

definition DEFAULT_MAX_REDIRECTS :: nat where
  "DEFAULT_MAX_REDIRECTS = 10"

text \<open>The policy for one attempt after \<open>previous\<close> requests.\<close>

definition web_read_redirect_policy :: "web_env \<Rightarrow> bool \<Rightarrow> bool \<Rightarrow> nat \<Rightarrow> nat \<Rightarrow> string \<Rightarrow> string + unit" where
  "web_read_redirect_policy env allow_plain_http allow_local_addresses max_redirects previous url =
     (if max_redirects < previous then Inl ''redirect limit exceeded''
      else case validate_web_url env url allow_plain_http allow_local_addresses of
        Inl err \<Rightarrow> Inl (''redirect target failed security policy: '' @ err)
      | Inr _ \<Rightarrow> Inr ())"

text \<open>What a server answers to a URL: another location, or a page.\<close>

record page =
  pg_status :: nat
  pg_content_type :: string
  pg_chunks :: "string list"
  pg_broken :: bool

datatype response = Redirect string | Page page | NoAnswer

text \<open>The client: the URLs requested so far, the first one first, and the URL with its page. It stops at a redirect that
  the policy refuses; a request is only made for a URL that has been accepted, so each step has one URL less
  to spend.\<close>

function follow ::
  "(nat \<Rightarrow> string \<Rightarrow> string + unit) \<Rightarrow> (string \<Rightarrow> response) \<Rightarrow> nat \<Rightarrow> string list \<Rightarrow> string
    \<Rightarrow> string list \<times> (string + (string \<times> page))" where
  "follow policy server limit requested url =
     (let now = requested @ [url]
      in case server url of
           NoAnswer \<Rightarrow> (now, Inl ''fetch failed'')
         | Page p \<Rightarrow> (now, Inr (url, p))
         | Redirect target \<Rightarrow>
             (case policy (length now) target of
                Inl err \<Rightarrow> (now, Inl ''fetch failed'')
              | Inr _ \<Rightarrow> if limit < length now then (now, Inl ''fetch failed'') else follow policy server limit now target))"
  by pat_completeness auto
termination
  by (relation "measure (\<lambda>(policy, server, limit, requested, url). Suc limit - length requested)") auto

declare follow.simps [simp del]

section \<open>Reading\<close>

text \<open>\<open>str::is_char_boundary\<close> walked down from the limit.\<close>

fun boundary_below :: "string \<Rightarrow> nat \<Rightarrow> nat" where
  "boundary_below s 0 = 0"
| "boundary_below s (Suc n) = (if is_char_boundary s (Suc n) then Suc n else boundary_below s n)"

definition truncate_utf8_to_bytes :: "string \<Rightarrow> nat \<Rightarrow> string" where
  "truncate_utf8_to_bytes input max_bytes =
     (if length input \<le> max_bytes then input else take (boundary_below input (min max_bytes (length input))) input)"

text \<open>The loop over the chunks of the body: the bytes kept and whether some were left out; none when the stream
  breaks before the limit.\<close>

fun read_chunks :: "nat \<Rightarrow> bool \<Rightarrow> string \<Rightarrow> string list \<Rightarrow> (string \<times> bool) option" where
  "read_chunks max_bytes broken bytes [] = (if broken then None else Some (bytes, False))"
| "read_chunks max_bytes broken bytes (chunk # chunks) =
     (let remaining = max_bytes - length bytes
      in if remaining = 0 then Some (bytes, True)
         else if length chunk \<le> remaining then read_chunks max_bytes broken (bytes @ chunk) chunks
         else Some (bytes @ take remaining chunk, True))"

record web_read_request =
  wq_url :: string
  wq_max_bytes :: nat
  wq_allow_plain_http :: bool
  wq_allow_local_addresses :: bool
  wq_obey_robots_txt :: bool
  wq_max_html_bytes :: nat
  wq_max_markdown_bytes :: nat

record web_read_response =
  wr_url :: string
  wr_normalized_url :: string
  wr_final_url :: string
  wr_title :: "string option"
  wr_markdown :: string
  wr_content_type :: string
  wr_status :: nat
  wr_truncated :: bool
  wr_fetched_bytes :: nat
  wr_extracted_bytes :: nat
  wr_robots_allowed :: bool

text \<open>The page's text from its bytes, decoded with replacement and extracted, with its title; whether the robots file
  of an origin allows a URL; the URL without its fragment.\<close>

record read_env =
  re_web :: web_env
  re_extract :: "string \<Rightarrow> string \<times> string option"
  re_robots_allowed :: "parsed_url \<Rightarrow> bool"
  re_without_fragment :: "parsed_url \<Rightarrow> string"
  re_server :: "string \<Rightarrow> response"

definition robots_ok :: "read_env \<Rightarrow> web_read_request \<Rightarrow> parsed_url \<Rightarrow> bool" where
  "robots_ok env req u = (if wq_obey_robots_txt req then re_robots_allowed env u else True)"

definition parse_cap :: "web_read_request \<Rightarrow> nat" where
  "parse_cap req = min (max (wq_max_html_bytes req) 1024) (max (wq_max_bytes req) 1)"

definition page_response :: "read_env \<Rightarrow> web_read_request \<Rightarrow> parsed_url \<Rightarrow> string \<Rightarrow> page \<Rightarrow> string \<times> bool \<Rightarrow> web_read_response" where
  "page_response env req u final_url p body =
     (let (bytes, cut) = body;
          (markdown, title) = re_extract env (take (parse_cap req) bytes);
          shown = truncate_utf8_to_bytes markdown (wq_max_markdown_bytes req)
      in \<lparr>wr_url = wq_url req, wr_normalized_url = re_without_fragment env u, wr_final_url = final_url, wr_title = title,
          wr_markdown = shown, wr_content_type = pg_content_type p, wr_status = pg_status p,
          wr_truncated = cut \<or> parse_cap req < length bytes \<or> wq_max_markdown_bytes req < length markdown,
          wr_fetched_bytes = length bytes, wr_extracted_bytes = length shown, wr_robots_allowed = True\<rparr>)"

text \<open>The URLs that are requested, and the response or the error.\<close>

definition web_read :: "read_env \<Rightarrow> web_read_request \<Rightarrow> string list \<times> (string + web_read_response)" where
  "web_read env req =
     (let plain = wq_allow_plain_http req; loc = wq_allow_local_addresses req;
          policy = web_read_redirect_policy (re_web env) plain loc DEFAULT_MAX_REDIRECTS
      in case validate_web_url (re_web env) (wq_url req) plain loc of
           Inl err \<Rightarrow> ([], Inl err)
         | Inr u \<Rightarrow>
             if \<not> robots_ok env req u then ([], Inl ''blocked by robots.txt policy'')
             else case follow policy (re_server env) DEFAULT_MAX_REDIRECTS [] (pu_url u) of
               (requested, Inl err) \<Rightarrow> (requested, Inl err)
             | (requested, Inr (final_url, p)) \<Rightarrow>
                 (case validate_web_url (re_web env) final_url plain loc of
                    Inl err \<Rightarrow> (requested, Inl ''redirect target failed security policy'')
                  | Inr _ \<Rightarrow>
                      (case read_chunks (max (wq_max_bytes req) 1) (pg_broken p) [] (pg_chunks p) of
                         None \<Rightarrow> (requested, Inl ''stream read failed'')
                       | Some body \<Rightarrow> (requested, Inr (page_response env req u final_url p body)))))"

end
