(* ===== verification/Web_Props.thy ===== *)
theory Web_Props
  imports Web_Fetch
begin

text \<open>
  Every URL that is requested for a page passed the checks, the redirects are bounded, what is kept of a page
  is within its limits, and an IPv4 address written as IPv6 passes the checks.
\<close>

section \<open>Requests\<close>

text \<open>What the checks establish of a URL.\<close>

definition url_allowed :: "web_env \<Rightarrow> bool \<Rightarrow> bool \<Rightarrow> string \<Rightarrow> bool" where
  "url_allowed env plain loc url \<longleftrightarrow>
     (\<exists>u. we_parse env url = Some u
       \<and> (pu_scheme u = ''https'' \<or> pu_scheme u = ''http'' \<and> plain)
       \<and> (loc \<or> (\<exists>host. pu_host u = Some host \<and> \<not> is_local_hostname host
            \<and> (\<forall>ip. we_parse_ip env host = Some ip \<longrightarrow> \<not> is_blocked_ip ip)
            \<and> (\<forall>port ips. known_port env u = Some port \<longrightarrow> we_resolve env host port = Some ips
                 \<longrightarrow> (\<forall>ip \<in> set ips. \<not> is_blocked_ip ip)))))"

lemma validated_allowed:
  assumes "validate_web_url env url plain loc = Inr u"
  shows "we_parse env url = Some u \<and> url_allowed env plain loc url"
  using assms
  by (auto simp: validate_web_url_def check_host_def url_allowed_def resolves_to_blocked_def list_ex_iff
      split: option.splits if_splits)

lemma follow_requests:
  assumes "\<forall>n url. policy n url = Inr () \<longrightarrow> n \<le> limit \<and> P url"
  shows "\<exists>later. fst (follow policy server limit requested url) = requested @ url # later
    \<and> (\<forall>u \<in> set later. P u)
    \<and> length (fst (follow policy server limit requested url)) \<le> max (Suc limit) (Suc (length requested))
    \<and> (\<forall>f p. snd (follow policy server limit requested url) = Inr (f, p) \<longrightarrow> f = last (url # later) \<and> server f = Page p)"
  using assms
proof (induction policy server limit requested url rule: follow.induct)
  case (1 policy server limit requested url)
  let ?now = "requested @ [url]"
  show ?case
  proof (cases "\<exists>target. server url = Redirect target \<and> policy (length ?now) target = Inr () \<and> \<not> limit < length ?now")
    case True
    then obtain target where t: "server url = Redirect target" "policy (length ?now) target = Inr ()" "\<not> limit < length ?now"
      by blast
    have step: "follow policy server limit requested url = follow policy server limit ?now target"
      using t by (subst follow.simps) simp
    obtain later where l: "fst (follow policy server limit ?now target) = ?now @ target # later"
        "\<forall>u \<in> set later. P u" "length (fst (follow policy server limit ?now target)) \<le> max (Suc limit) (Suc (length ?now))"
        "\<forall>f p. snd (follow policy server limit ?now target) = Inr (f, p) \<longrightarrow> f = last (target # later) \<and> server f = Page p"
      using 1(1) [OF refl t 1(2)] by blast
    have "P target" using 1(2) t(2) by blast
    then show ?thesis unfolding step using l t(3) by (intro exI [of _ "target # later"]) auto
  next
    case False
    then have "fst (follow policy server limit requested url) = ?now
        \<and> (\<forall>f p. snd (follow policy server limit requested url) = Inr (f, p) \<longrightarrow> f = url \<and> server f = Page p)"
      by (subst follow.simps, subst (2) follow.simps) (auto simp: Let_def split: response.splits sum.splits)
    then show ?thesis by (intro exI [of _ "[]"]) auto
  qed
qed

text \<open>C14: Reading a page requests no URL before the given one has passed the checks; every redirect that is followed
  leads to a URL that passes them too, after at most ten redirects, whatever the servers answer. A URL
  passes when its scheme is allowed and, unless local addresses are, its host is no local name and no
  address it resolves to is blocked.\<close>

theorem web_requests_allowed:
  assumes "fst (web_read env req) = first # later"
  shows "url_allowed (re_web env) (wq_allow_plain_http req) (wq_allow_local_addresses req) (wq_url req)
    \<and> (\<exists>u. we_parse (re_web env) (wq_url req) = Some u \<and> first = pu_url u)
    \<and> (\<forall>url \<in> set later. url_allowed (re_web env) (wq_allow_plain_http req) (wq_allow_local_addresses req) url)
    \<and> length later \<le> DEFAULT_MAX_REDIRECTS"
proof -
  let ?plain = "wq_allow_plain_http req" and ?loc = "wq_allow_local_addresses req"
  let ?policy = "web_read_redirect_policy (re_web env) ?plain ?loc DEFAULT_MAX_REDIRECTS"
  obtain u where u: "validate_web_url (re_web env) (wq_url req) ?plain ?loc = Inr u"
    using assms by (auto simp: web_read_def Let_def split: sum.splits)
  have "fst (web_read env req) = fst (follow ?policy (re_server env) DEFAULT_MAX_REDIRECTS [] (pu_url u))"
    using assms u by (auto simp: web_read_def Let_def split: sum.splits prod.splits if_splits option.splits)
  moreover have "\<forall>n url. ?policy n url = Inr () \<longrightarrow> n \<le> DEFAULT_MAX_REDIRECTS \<and> url_allowed (re_web env) ?plain ?loc url"
    using validated_allowed by (auto simp: web_read_redirect_policy_def split: if_splits sum.splits)
  ultimately show ?thesis
    using follow_requests [of ?policy DEFAULT_MAX_REDIRECTS "url_allowed (re_web env) ?plain ?loc" "re_server env" "[]" "pu_url u"]
      validated_allowed [OF u] assms by auto
qed

section \<open>Limits\<close>

lemma boundary_below_le: "boundary_below s n \<le> n"
  by (induction n) (auto intro: le_SucI)

lemma boundary_below_boundary: "s \<noteq> [] \<Longrightarrow> is_char_boundary s (boundary_below s n)"
  by (induction n) (auto simp: is_char_boundary_def)

lemma truncate_utf8_bound: "length (truncate_utf8_to_bytes s n) \<le> n"
  using boundary_below_le [of s "min n (length s)"] by (auto simp: truncate_utf8_to_bytes_def)

lemma truncate_utf8_prefix: "prefix (truncate_utf8_to_bytes s n) s"
  by (simp add: truncate_utf8_to_bytes_def take_is_prefix)

lemma read_chunks_kept:
  "read_chunks n broken bytes chunks = Some (kept, short) \<Longrightarrow> length bytes \<le> n
     \<Longrightarrow> length kept \<le> n \<and> prefix kept (bytes @ concat chunks) \<and> (\<not> short \<longrightarrow> kept = bytes @ concat chunks \<and> \<not> broken)"
proof (induction n broken bytes chunks rule: read_chunks.induct)
  case (2 n broken bytes chunk chunks)
  show ?case
  proof (cases "length chunk \<le> n - length bytes \<and> n - length bytes \<noteq> 0")
    case True
    then have "length (bytes @ chunk) \<le> n" unfolding length_append using 2(3) by linarith
    then show ?thesis using 2(1) [OF refl] 2(2) True by simp
  next
    case False
    have "prefix (bytes @ take k chunk) (bytes @ chunk @ rest)" for k rest
      by (simp add: take_is_prefix prefix_prefix)
    then show ?thesis using 2(2,3) False by (auto simp: Let_def split: if_splits)
  qed
qed (auto split: if_splits)

text \<open>C24: A page that is read is within its limits: not more bytes than asked for are kept, they are the beginning of
  the body, and the text is a beginning of the extracted text within its own limit; when the response
  does not say that it is truncated, the text was extracted from the whole body and is complete.\<close>

theorem web_read_bounded:
  assumes "web_read env req = (requested, Inr r)"
  shows "wr_fetched_bytes r \<le> max (wq_max_bytes req) 1
    \<and> wr_extracted_bytes r = length (wr_markdown r)
    \<and> length (wr_markdown r) \<le> wq_max_markdown_bytes req
    \<and> (\<exists>p bytes. requested \<noteq> [] \<and> wr_final_url r = last requested \<and> re_server env (last requested) = Page p
        \<and> length bytes = wr_fetched_bytes r \<and> prefix bytes (concat (pg_chunks p))
        \<and> prefix (wr_markdown r) (fst (re_extract env (take (parse_cap req) bytes)))
        \<and> (\<not> wr_truncated r \<longrightarrow> wr_markdown r = fst (re_extract env (concat (pg_chunks p)))))"
proof -
  let ?plain = "wq_allow_plain_http req" and ?loc = "wq_allow_local_addresses req"
  let ?policy = "web_read_redirect_policy (re_web env) ?plain ?loc DEFAULT_MAX_REDIRECTS"
  obtain u where u: "validate_web_url (re_web env) (wq_url req) ?plain ?loc = Inr u"
    using assms by (auto simp: web_read_def Let_def split: sum.splits)
  obtain url p bytes short where f: "follow ?policy (re_server env) DEFAULT_MAX_REDIRECTS [] (pu_url u) = (requested, Inr (url, p))"
      and b: "read_chunks (max (wq_max_bytes req) 1) (pg_broken p) [] (pg_chunks p) = Some (bytes, short)"
      and r: "r = page_response env req u url p (bytes, short)"
    using assms u by (auto simp: web_read_def Let_def split: sum.splits prod.splits if_splits option.splits)
  have "\<forall>n url. ?policy n url = Inr () \<longrightarrow> n \<le> DEFAULT_MAX_REDIRECTS \<and> True"
    by (auto simp: web_read_redirect_policy_def split: if_splits)
  from follow_requests [OF this, of "re_server env" "[]" "pu_url u"] f
  have last: "requested \<noteq> []" "last requested = url" "re_server env url = Page p" by auto
  have kept: "length bytes \<le> max (wq_max_bytes req) 1" "prefix bytes (concat (pg_chunks p))" "\<not> short \<longrightarrow> bytes = concat (pg_chunks p)"
    using read_chunks_kept [OF b] by auto
  obtain md title where md: "re_extract env (take (parse_cap req) bytes) = (md, title)" by fastforce
  have resp: "wr_fetched_bytes r = length bytes" "wr_markdown r = truncate_utf8_to_bytes md (wq_max_markdown_bytes req)"
    "wr_final_url r = url" "wr_extracted_bytes r = length (wr_markdown r)"
    "wr_truncated r = (short \<or> parse_cap req < length bytes \<or> wq_max_markdown_bytes req < length md)"
    by (simp_all add: r page_response_def md Let_def)
  have "\<not> wr_truncated r \<longrightarrow> wr_markdown r = fst (re_extract env (concat (pg_chunks p)))"
    using resp kept(3) md by (auto simp: truncate_utf8_to_bytes_def)
  moreover have "prefix (wr_markdown r) (fst (re_extract env (take (parse_cap req) bytes)))"
    unfolding resp(2) md fst_conv by (rule truncate_utf8_prefix)
  moreover have "length (wr_markdown r) \<le> wq_max_markdown_bytes req" unfolding resp(2) by (rule truncate_utf8_bound)
  ultimately show ?thesis using last kept(1,2) resp(1,3,4)
    by (intro conjI exI [of _ p] exI [of _ bytes]) simp_all
qed

section \<open>Addresses that are not blocked\<close>

text \<open>The IPv6 form of an IPv4 address, to which systems connect as to the IPv4 address itself.\<close>

fun mapped_v4 :: "ip_addr \<Rightarrow> ip_addr" where
  "mapped_v4 (V4 a b c d) = V6 [0, 0, 0, 0, 0, 0xFFFF, word_cat a b, word_cat c d]"
| "mapped_v4 (V6 ss) = V6 ss"

lemma mapped_not_blocked: "\<not> is_blocked_ip (mapped_v4 (V4 a b c d))"
  by simp


definition rebound_url :: parsed_url where
  "rebound_url = \<lparr>pu_url = ''https://x.org/'', pu_scheme = ''https'', pu_host = Some ''x.org'', pu_port = None\<rparr>"

definition rebound_env :: "ip_addr list \<Rightarrow> web_env" where
  "rebound_env ips = \<lparr>we_parse = (\<lambda>url. if url = ''https://x.org/'' then Some rebound_url else None), we_default_port = (\<lambda>_. Some 443),
     we_parse_ip = (\<lambda>_. None), we_resolve = (\<lambda>_ _. Some ips)\<rparr>"


section \<open>Witnesses\<close>

definition small_env :: read_env where
  "small_env = \<lparr>re_web = rebound_env [V4 8 8 8 8], re_extract = (\<lambda>bytes. (bytes, None)), re_robots_allowed = (\<lambda>_. True),
     re_without_fragment = pu_url,
     re_server = (\<lambda>_. Page \<lparr>pg_status = 200, pg_content_type = ''text/plain'', pg_chunks = [''abc'', ''defg''], pg_broken = False\<rparr>)\<rparr>"

definition small_request :: web_read_request where
  "small_request = \<lparr>wq_url = ''https://x.org/'', wq_max_bytes = 5, wq_allow_plain_http = False, wq_allow_local_addresses = False,
     wq_obey_robots_txt = True, wq_max_html_bytes = 100, wq_max_markdown_bytes = 4\<rparr>"

definition small_response :: web_read_response where
  "small_response = \<lparr>wr_url = ''https://x.org/'', wr_normalized_url = ''https://x.org/'', wr_final_url = ''https://x.org/'',
     wr_title = None, wr_markdown = ''abcd'', wr_content_type = ''text/plain'', wr_status = 200, wr_truncated = True,
     wr_fetched_bytes = 5, wr_extracted_bytes = 4, wr_robots_allowed = True\<rparr>"

lemma small_read: "web_read small_env small_request = ([''https://x.org/''], Inr small_response)"
proof -
  let ?policy = "web_read_redirect_policy (re_web small_env) False False DEFAULT_MAX_REDIRECTS"
  have v: "validate_web_url (re_web small_env) ''https://x.org/'' False False = Inr rebound_url" by code_simp
  define p where "p = \<lparr>pg_status = 200, pg_content_type = ''text/plain'', pg_chunks = [''abc'', ''defg''], pg_broken = False\<rparr>"
  have f: "follow ?policy (re_server small_env) DEFAULT_MAX_REDIRECTS [] ''https://x.org/'' = ([''https://x.org/''], Inr (''https://x.org/'', p))"
    by (subst follow.simps) (simp add: small_env_def p_def)
  have r: "read_chunks (max 5 1) False [] [''abc'', ''defg''] = Some (''abcde'', True)" by code_simp
  have s: "page_response small_env small_request rebound_url ''https://x.org/'' p (''abcde'', True) = small_response"
    unfolding p_def by code_simp
  have q: "wq_url small_request = ''https://x.org/''" "wq_allow_plain_http small_request = False"
    "wq_allow_local_addresses small_request = False" "wq_max_bytes small_request = 5" "robots_ok small_env small_request rebound_url"
    "pu_url rebound_url = ''https://x.org/''" by code_simp+
  show ?thesis
    unfolding web_read_def Let_def q(1-4) v using f r s q(5,6) by (simp add: v p_def)
qed

theorem web_read_bounded_witness:
  "wr_fetched_bytes small_response \<le> 5 \<and> length (wr_markdown small_response) \<le> 4"
  using web_read_bounded [OF small_read] by (simp add: small_request_def)

theorem web_requests_allowed_witness:
  "url_allowed (re_web small_env) False False ''https://x.org/'' \<and> ''https://x.org/'' = pu_url rebound_url"
  using web_requests_allowed [of small_env small_request "''https://x.org/''" "[]"] small_read
  by (simp add: small_request_def rebound_url_def)

end
