(* ===== verification/Context_Assembly.thy ===== *)
theory Context_Assembly
  imports Direct_Answer
begin

text \<open>
  The prompt of a task (\<open>assemble_user_prompt\<close> in \<open>termlm-core/src/context/mod.rs\<close> and
  \<open>assemble_task_prompt\<close> in \<open>main.rs\<close>): the question, the recent commands of the terminal, older turns of
  the session and the file-system block, each cut to a number of tokens. The formats of time stamps
  and of the confidence are parameters, as is the file-system block.
\<close>

record terminal_snippet =
  sp_command :: string
  sp_cwd :: string
  sp_started_at :: nat
  sp_duration_ms :: nat
  sp_exit_code :: int
  sp_output_capture_status :: string
  sp_stdout_truncated :: bool
  sp_stderr_truncated :: bool
  sp_redactions_applied :: bool
  sp_detected_error_lines :: "string list"
  sp_detected_paths :: "string list"
  sp_detected_urls :: "string list"
  sp_detected_commands :: "string list"
  sp_stdout_head :: string
  sp_stdout_tail :: string
  sp_stderr_head :: string
  sp_stderr_tail :: string
  sp_stdout_full_ref :: "string option"
  sp_stderr_full_ref :: "string option"

record context_assembly =
  cx_prompt :: string
  cx_included_blocks :: "string list"

record context_env =
  cx_rfc3339 :: "nat \<Rightarrow> string"
  cx_two_decimals :: "rat \<Rightarrow> string"
  cx_filesystem_block :: "string option"

definition trim_to_tokens :: "string \<Rightarrow> nat \<Rightarrow> string" where
  "trim_to_tokens s max_tokens =
     (if max_tokens = 0 then []
      else let max_chars = usize_sat_mul max_tokens 4
           in if char_count s \<le> max_chars then s else take_chars (max_chars - 1) s @ ellipsis)"

section \<open>Blocks\<close>

definition show_bool :: "bool \<Rightarrow> string" where
  "show_bool b = (if b then ''true'' else ''false'')"

definition list_line :: "string \<Rightarrow> string \<Rightarrow> string list \<Rightarrow> string" where
  "list_line label sep items = (if items \<noteq> [] then label @ join sep items @ newline else [])"

definition ref_line :: "string \<Rightarrow> string option \<Rightarrow> string" where
  "ref_line label r = (case r of None \<Rightarrow> [] | Some path \<Rightarrow> label @ path @ newline)"

definition exact_stderr :: "string \<Rightarrow> string" where
  "exact_stderr stderr =
     ''  recent_failed_stderr_exact:'' @ newline
     @ concat (map (\<lambda>l. ''    '' @ l @ newline) (take 8 (lines stderr)))"

definition entry_head :: "context_env \<Rightarrow> terminal_snippet \<Rightarrow> string" where
  "entry_head env e =
     ''- '' @ cx_rfc3339 env (sp_started_at e) @ '' | cwd='' @ sp_cwd e @ '' | exit='' @ show_int (sp_exit_code e)
     @ '' | duration_ms='' @ show_nat (sp_duration_ms e) @ '' | capture='' @ sp_output_capture_status e @ newline
     @ ''  $ '' @ sp_command e @ newline
     @ (if sp_stdout_truncated e \<or> sp_stderr_truncated e
        then ''  truncation: stdout='' @ show_bool (sp_stdout_truncated e) @ '' stderr='' @ show_bool (sp_stderr_truncated e)
          @ newline else [])
     @ (if sp_redactions_applied e then ''  redaction: true'' @ newline else [])"

definition entry_details :: "terminal_snippet \<Rightarrow> string" where
  "entry_details e =
     list_line ''  detected_commands: '' '', '' (sp_detected_commands e)
     @ list_line ''  detected_paths: '' '', '' (sp_detected_paths e)
     @ list_line ''  detected_urls: '' '', '' (sp_detected_urls e)
     @ list_line ''  error_lines: '' '' | '' (sp_detected_error_lines e)
     @ labelled ''  stdout_head: '' (sp_stdout_head e) @ labelled ''  stdout_tail: '' (sp_stdout_tail e)
     @ labelled ''  stderr_head: '' (sp_stderr_head e) @ labelled ''  stderr_tail: '' (sp_stderr_tail e)"

text \<open>The flag says that the error output of a failed command has been copied line by line.\<close>

fun terminal_entries :: "context_env \<Rightarrow> bool \<Rightarrow> terminal_snippet list \<Rightarrow> string" where
  "terminal_entries env exact [] = []"
| "terminal_entries env exact (e # es) =
     (let now = \<not> exact \<and> trim (sp_stderr_tail e) \<noteq> [] \<and> sp_exit_code e \<noteq> 0
      in entry_head env e @ entry_details e @ (if now then exact_stderr (sp_stderr_tail e) else [])
         @ ref_line ''  stdout_ref: '' (sp_stdout_full_ref e) @ ref_line ''  stderr_ref: '' (sp_stderr_full_ref e)
         @ terminal_entries env (exact \<or> now) es)"

definition format_recent_terminal_block :: "context_env \<Rightarrow> terminal_snippet list \<Rightarrow> string" where
  "format_recent_terminal_block env entries =
     ''## Recent terminal context'' @ newline @ terminal_entries env False (take 25 entries)"

definition format_older_session_block :: "string list \<Rightarrow> string" where
  "format_older_session_block entries =
     ''## Older session memory'' @ newline
     @ concat (map (\<lambda>item. ''- '' @ item @ newline) (drop (length entries - 20) entries))"

fun classification_label :: "task_classification \<Rightarrow> string" where
  "classification_label FreshCommandRequest = ''fresh_command_request''"
| "classification_label ReferentialFollowup = ''referential_followup''"
| "classification_label DiagnosticDebugging = ''diagnostic_debugging''"
| "classification_label DocumentationQuestion = ''documentation_question''"
| "classification_label WebCurrentInfoQuestion = ''web_current_info_question''"
| "classification_label ExploratoryShellQuestion = ''exploratory_shell_question''"

definition contains_retry_intent :: "string \<Rightarrow> bool" where
  "contains_retry_intent prompt =
     contains_any (to_ascii_lowercase prompt) [''again'', ''retry'', ''re-run'', ''rerun'', ''try again'']"

definition references_older_state :: "string \<Rightarrow> bool" where
  "references_older_state prompt =
     contains_any (to_ascii_lowercase prompt)
       [''earlier'', ''before'', ''previous'', ''last time'', ''prior'', ''that output'']"

section \<open>Assembly\<close>

text \<open>The tokens for the whole context.\<close>

definition context_budget :: "context_budget_settings \<Rightarrow> nat" where
  "context_budget cb =
     (let b = cfg_context_budget_max_total_context_tokens cb - cfg_context_budget_reserve_response_tokens cb
      in if b = 0 then max (cfg_context_budget_current_question_tokens cb) 256 else b)"

text \<open>A block is cut to its limit and appended when it is not blank: the text, the rest of the budget and whether it
  is there.\<close>

definition append_block :: "string \<Rightarrow> nat \<Rightarrow> nat \<Rightarrow> string \<times> nat \<times> bool" where
  "append_block block limit budget =
     (let trimmed = trim_to_tokens block limit
      in if trim trimmed \<noteq> []
         then (newline @ newline @ trimmed, budget - min (estimate_tokens trimmed) budget, True)
         else ([], budget, False))"

definition order_snippets :: "context_budget_settings \<Rightarrow> terminal_snippet list \<Rightarrow> terminal_snippet list" where
  "order_snippets cb observed =
     (if cfg_context_budget_trim_strategy cb = ''priority_newest_first''
      then sort_key (\<lambda>b. - int (sp_started_at b)) observed else sort_key sp_started_at observed)"

definition recent_block ::
  "context_env \<Rightarrow> settings \<Rightarrow> terminal_snippet list \<Rightarrow> bool \<Rightarrow> nat \<Rightarrow> string \<times> nat \<times> bool" where
  "recent_block env cfg observed wanted budget =
     (if wanted \<and> 0 < budget
      then append_block (format_recent_terminal_block env (order_snippets (cfg_context_budget cfg) observed))
             (min (min (cfg_context_budget_recent_terminal_tokens (cfg_context_budget cfg))
               (cfg_terminal_context_recent_context_max_tokens (cfg_terminal_context cfg))) budget) budget
      else ([], budget, False))"

definition older_block :: "settings \<Rightarrow> string list \<Rightarrow> bool \<Rightarrow> nat \<Rightarrow> string \<times> nat \<times> bool" where
  "older_block cfg memory wanted budget =
     (if wanted \<and> 0 < budget \<and> memory \<noteq> []
      then append_block (format_older_session_block memory)
             (min (min (cfg_context_budget_older_session_tokens (cfg_context_budget cfg))
               (cfg_terminal_context_older_context_max_tokens (cfg_terminal_context cfg))) budget) budget
      else ([], budget, False))"

definition classification_line :: "context_env \<Rightarrow> classification_result \<Rightarrow> string" where
  "classification_line env c =
     newline @ newline @ ''[task_classification='' @ classification_label (cr_classification c) @ '' confidence=''
     @ cx_two_decimals env (cr_confidence c) @ '']''"

definition wants_recent :: "settings \<Rightarrow> task_classification \<Rightarrow> bool" where
  "wants_recent cfg c =
     (if cfg_tool_routing_expose_terminal_context_only_when_needed (cfg_tool_routing cfg)
      then c \<in> {DiagnosticDebugging, ReferentialFollowup}
      else cfg_terminal_context_enabled (cfg_terminal_context cfg))"

definition wants_older :: "settings \<Rightarrow> task_classification \<Rightarrow> string \<Rightarrow> terminal_snippet list \<Rightarrow> bool" where
  "wants_older cfg c question observed \<longleftrightarrow>
     wants_recent cfg c \<and> (references_older_state question \<or> observed = [] \<or> contains_retry_intent question)"

definition question_block :: "settings \<Rightarrow> string \<Rightarrow> string \<times> nat" where
  "question_block cfg question =
     (let budget = context_budget (cfg_context_budget cfg);
          current = trim_to_tokens question (min (cfg_context_budget_current_question_tokens (cfg_context_budget cfg)) budget)
      in (current, budget - min (estimate_tokens current) budget))"

definition assemble_user_prompt ::
  "context_env \<Rightarrow> string \<Rightarrow> classification_result \<Rightarrow> terminal_snippet list \<Rightarrow> string list \<Rightarrow> settings \<Rightarrow> context_assembly" where
  "assemble_user_prompt env question classification observed session_memory cfg =
     (if \<not> cfg_context_budget_enabled (cfg_context_budget cfg)
      then \<lparr>cx_prompt = question, cx_included_blocks = [''current_question'']\<rparr>
      else let c = cr_classification classification;
               (current, b1) = question_block cfg question;
               (recent, b2, has_recent) = recent_block env cfg observed (wants_recent cfg c) b1;
               (older, b3, has_older) = older_block cfg session_memory (wants_older cfg c question observed) b2
           in \<lparr>cx_prompt = current @ recent @ older @ classification_line env classification,
               cx_included_blocks = [''current_question''] @ (if has_recent then [''recent_terminal''] else [])
                 @ (if has_older then [''older_session''] else [])\<rparr>)"

section \<open>The task\<close>

definition snippet_of :: "observed_entry \<Rightarrow> terminal_snippet" where
  "snippet_of e =
     \<lparr>sp_command = oe_command e, sp_cwd = oe_cwd e, sp_started_at = oe_started_at e,
      sp_duration_ms = oe_duration_ms e, sp_exit_code = oe_exit_code e,
      sp_output_capture_status = oe_output_capture_status e, sp_stdout_truncated = oe_stdout_truncated e,
      sp_stderr_truncated = oe_stderr_truncated e, sp_redactions_applied = oe_redactions_applied e,
      sp_detected_error_lines = oe_detected_error_lines e, sp_detected_paths = oe_detected_paths e,
      sp_detected_urls = oe_detected_urls e, sp_detected_commands = oe_detected_commands e,
      sp_stdout_head = oe_stdout_head e, sp_stdout_tail = oe_stdout_tail e, sp_stderr_head = oe_stderr_head e,
      sp_stderr_tail = oe_stderr_tail e, sp_stdout_full_ref = oe_stdout_full_ref e,
      sp_stderr_full_ref = oe_stderr_full_ref e\<rparr>"

text \<open>The file-system snapshot with the directory of the prompt.\<close>

definition generated_filesystem_context_block :: "context_env \<Rightarrow> string \<Rightarrow> string option" where
  "generated_filesystem_context_block env cwd =
     map_option (\<lambda>block. if trim cwd \<noteq> [] then block @ ''active_prompt_directory: '' @ trim cwd @ newline else block)
       (cx_filesystem_block env)"

definition append_filesystem :: "context_assembly \<Rightarrow> string \<Rightarrow> context_assembly" where
  "append_filesystem a block =
     (let trimmed = trim_to_tokens block 700
      in if trim trimmed \<noteq> []
         then a\<lparr>cx_prompt := cx_prompt a @ newline @ newline @ trimmed,
                cx_included_blocks := cx_included_blocks a @ [''filesystem_context'']\<rparr>
         else a)"

definition assemble_task_prompt ::
  "context_env \<Rightarrow> settings \<Rightarrow> daemon \<Rightarrow> observed_entry list \<Rightarrow> uuid \<Rightarrow> string \<Rightarrow> string \<Rightarrow> classification_result \<Rightarrow> context_assembly" where
  "assemble_task_prompt env cfg s observed shell_id prompt cwd classification =
     (let snippets = map snippet_of (filter (\<lambda>e. oe_shell_id e = shell_id) observed);
          memory = (case map_of (ds_sessions s) shell_id of None \<Rightarrow> [] | Some conv \<Rightarrow> session_turn_lines conv);
          assembly = assemble_user_prompt env prompt classification snippets memory cfg
      in if cfg_context_budget_enabled (cfg_context_budget cfg)
         then (case generated_filesystem_context_block env cwd of None \<Rightarrow> assembly | Some b \<Rightarrow> append_filesystem assembly b)
         else assembly)"

end
