(* ===== verification/Context_Props.thy ===== *)
theory Context_Props
  imports Context_Assembly Daemon_Props
begin

text \<open>
  The prompt of a task stays within the configured number of tokens, but for the file-system block, which is
  added on top.
\<close>

section \<open>Counting characters\<close>

lemma char_count_Cons: "char_count (b # s) = char_count s + (if s \<noteq> [] \<and> is_cont (hd s) then 0 else 1)"
proof (cases "chars s")
  case Nil
  then have "s = []" by simp
  then show ?thesis by (simp add: char_count_def push_byte_def)
next
  case (Cons c cs)
  then have "c \<noteq> []" using pieces_chars [of s] by (metis pieces.simps(2))
  moreover have "s = c @ concat cs" using Cons concat_chars [of s] by simp
  ultimately show ?thesis using Cons by (cases c) (auto simp: char_count_def push_byte_def)
qed

definition char_starts :: "string \<Rightarrow> nat" where
  "char_starts s = length (filter (\<lambda>b. \<not> is_cont b) s)"

lemma char_count_starts: "char_count s = (case s of [] \<Rightarrow> 0 | b # bs \<Rightarrow> Suc (char_starts bs))"
proof (induction s)
  case (Cons b s)
  then show ?case by (cases s) (simp_all add: char_count_Cons char_starts_def)
qed (simp add: char_count_def)

lemma char_count_append: "char_count (s @ t) \<le> char_count s + char_count t"
  by (cases s; cases t) (auto simp: char_count_starts char_starts_def)

lemma char_count_suffix: "char_count t \<le> char_count (s @ t)"
  by (cases s; cases t) (auto simp: char_count_starts char_starts_def)

lemma char_count_take: "char_count (take_chars n s) = min n (char_count s)"
proof -
  have "pieces (take n (chars s))" using pieces_chars [of s] by (metis append_take_drop_id pieces_prefix)
  then show ?thesis by (simp add: char_count_def take_chars_def chars_concat min.commute)
qed

lemma char_count_ellipsis: "char_count (s @ ellipsis) = Suc (char_count s)"
proof -
  have "char_starts ellipsis = 1" "char_count ellipsis = 1" by code_simp+
  then show ?thesis by (cases s) (simp_all add: char_count_starts char_starts_def)
qed

lemma trim_to_tokens_bound: "char_count (trim_to_tokens s n) \<le> 4 * n"
proof (cases "n = 0 \<or> char_count s \<le> usize_sat_mul n 4")
  case True
  then show ?thesis by (auto simp: trim_to_tokens_def char_count_def usize_sat_mul_def)
next
  case False
  then have "1 \<le> usize_sat_mul n 4" "usize_sat_mul n 4 \<le> 4 * n" by (auto simp: usize_sat_mul_def usize_max_def)
  then show ?thesis using False
    by (simp add: trim_to_tokens_def Let_def char_count_ellipsis char_count_take)
qed

section \<open>The budget\<close>

text \<open>What a block takes from the budget pays for its characters, up to the rounding of a token.\<close>

lemma paid_for:
  assumes "char_count s \<le> 4 * budget"
  shows "char_count s + 4 * (budget - min (estimate_tokens s) budget) \<le> 4 * budget + 3"
proof (cases "estimate_tokens s \<le> budget")
  case True
  have "char_count s \<le> 4 * estimate_tokens s + 3" by (simp add: estimate_tokens_def)
  then show ?thesis using True by simp
qed (use assms in simp)

lemma append_block_bound:
  assumes "append_block block limit budget = (s, rest, used)" "limit \<le> budget"
  shows "char_count s + 4 * rest \<le> 4 * budget + 5"
proof -
  have nl: "char_count (newline @ newline @ v) \<le> 2 + char_count v" for v
    using char_count_append [of "newline @ newline" v] by (simp add: newline_def char_count_starts char_starts_def is_cont_def)
  have "char_count (trim_to_tokens block limit) \<le> 4 * budget" using trim_to_tokens_bound [of block limit] assms(2) by simp
  from paid_for [OF this] nl [of "trim_to_tokens block limit"] show ?thesis
    using assms(1) by (auto simp: append_block_def Let_def char_count_def split: if_splits)
qed

lemma blocks_bound:
  "recent_block env cfg observed wanted budget = (s, rest, used) \<Longrightarrow> char_count s + 4 * rest \<le> 4 * budget + 5"
  "older_block cfg memory wanted budget = (s, rest, used) \<Longrightarrow> char_count s + 4 * rest \<le> 4 * budget + 5"
  unfolding recent_block_def older_block_def
  by (auto split: if_splits dest!: append_block_bound simp: char_count_def)

lemma question_bound:
  assumes "question_block cfg question = (s, rest)"
  shows "char_count s + 4 * rest \<le> 4 * context_budget (cfg_context_budget cfg) + 3"
proof -
  let ?b = "context_budget (cfg_context_budget cfg)"
  have "char_count (trim_to_tokens question (min n ?b)) \<le> 4 * ?b" for n
    using trim_to_tokens_bound [of question "min n ?b"] by simp
  from paid_for [OF this] show ?thesis using assms by (auto simp: question_block_def Let_def)
qed

lemma assemble_user_prompt_bound:
  assumes "cfg_context_budget_enabled (cfg_context_budget cfg)"
  shows "char_count (cx_prompt (assemble_user_prompt env question classification observed memory cfg))
     \<le> 4 * context_budget (cfg_context_budget cfg) + 13 + char_count (classification_line env classification)"
proof -
  let ?c = "cr_classification classification"
  obtain current b1 where q: "question_block cfg question = (current, b1)" by fastforce
  obtain recent b2 r where rb: "recent_block env cfg observed (wants_recent cfg ?c) b1 = (recent, b2, r)" by (metis prod_cases3)
  obtain older b3 w where ob: "older_block cfg memory (wants_older cfg ?c question observed) b2 = (older, b3, w)" by (metis prod_cases3)
  let ?line = "classification_line env classification"
  have sum: "char_count (current @ recent @ older @ ?line) \<le> char_count current + (char_count recent + (char_count older + char_count ?line))"
    using char_count_append [of current "recent @ older @ ?line"] char_count_append [of recent "older @ ?line"]
      char_count_append [of older ?line] by linarith
  have eq: "cx_prompt (assemble_user_prompt env question classification observed memory cfg) = current @ recent @ older @ ?line"
    using assms by (simp add: assemble_user_prompt_def q rb ob)
  show ?thesis unfolding eq using sum question_bound [OF q] blocks_bound(1) [OF rb] blocks_bound(2) [OF ob] by linarith
qed

lemma append_filesystem_bound:
  "char_count (cx_prompt (append_filesystem a block)) \<le> char_count (cx_prompt a) + 2802"
proof -
  let ?t = "trim_to_tokens block 700"
  have "char_count ((newline @ newline) @ ?t) \<le> 2 + char_count ?t"
    using char_count_append [of "newline @ newline" ?t] by (simp add: newline_def char_count_starts char_starts_def is_cont_def)
  moreover have "char_count ?t \<le> 2800" using trim_to_tokens_bound [of block 700] by simp
  moreover have "char_count (cx_prompt a @ ((newline @ newline) @ ?t)) \<le> char_count (cx_prompt a) + char_count ((newline @ newline) @ ?t)"
    by (rule char_count_append)
  ultimately show ?thesis by (simp add: append_filesystem_def Let_def)
qed

text \<open>C15: With the context budget on, the prompt of a task has at most four characters per token of the budget and of
  the 700 tokens for the file system, and a few more for separators and the line with the class of the task,
  whatever the terminal, the session and the file system hold.\<close>

theorem task_prompt_bounded:
  assumes "cfg_context_budget_enabled (cfg_context_budget cfg)"
  shows "char_count (cx_prompt (assemble_task_prompt env cfg s observed shell_id prompt cwd classification))
     \<le> 4 * (context_budget (cfg_context_budget cfg) + 700) + 15 + char_count (classification_line env classification)"
proof -
  let ?user = "assemble_user_prompt env prompt classification (map snippet_of (filter (\<lambda>e. oe_shell_id e = shell_id) observed))
    (case map_of (ds_sessions s) shell_id of None \<Rightarrow> [] | Some conv \<Rightarrow> session_turn_lines conv) cfg"
  define user where "user = ?user"
  have "char_count (cx_prompt user) \<le> 4 * context_budget (cfg_context_budget cfg) + 13 + char_count (classification_line env classification)"
    unfolding user_def by (rule assemble_user_prompt_bound [OF assms])
  moreover have "char_count (cx_prompt (assemble_task_prompt env cfg s observed shell_id prompt cwd classification))
      \<le> char_count (cx_prompt user) + 2802"
    using append_filesystem_bound [of user]
    by (auto simp: assemble_task_prompt_def user_def [symmetric] Let_def split: option.splits)
  ultimately show ?thesis unfolding add_mult_distrib2 by linarith
qed

lemma trim_to_tokens_long:
  assumes "2800 < char_count block"
  shows "char_count (trim_to_tokens block 700) = 2800" "trim (trim_to_tokens block 700) \<noteq> []"
proof -
  have m: "usize_sat_mul 700 4 = 2800" by (simp add: usize_sat_mul_def usize_max_def)
  have t: "trim_to_tokens block 700 = take_chars 2799 block @ ellipsis" using assms by (simp add: trim_to_tokens_def m)
  then show "char_count (trim_to_tokens block 700) = 2800" using assms by (simp add: char_count_ellipsis char_count_take)
  have e: "chars ellipsis = [ellipsis]" "scalar_piece ellipsis" "\<not> is_whitespace ellipsis" by code_simp+
  have "chars (take_chars 2799 block @ ellipsis) = chars (take_chars 2799 block) @ chars ellipsis"
    by (rule chars_append) (simp add: e)
  then show "trim (trim_to_tokens block 700) \<noteq> []" using e by (simp add: t trim_eq_Nil)
qed

text \<open>The configured number of tokens does not bound the prompt: a long description of the file system is added
  after the budget has been spent, so the prompt has more than 2,800 characters however small the budget
  is.\<close>

theorem filesystem_block_unbudgeted:
  assumes "cfg_context_budget_enabled (cfg_context_budget cfg)"
    and "cx_filesystem_block env = Some block" "2800 < char_count block"
  shows "2800 \<le> char_count (cx_prompt (assemble_task_prompt env cfg s observed shell_id prompt cwd classification))"
proof -
  obtain b where b: "generated_filesystem_context_block env cwd = Some b" "\<exists>r. b = block @ r"
    using assms(2) by (auto simp: generated_filesystem_context_block_def)
  have "char_count block \<le> char_count b"
    using b(2) by (auto simp: char_count_starts char_starts_def split: list.splits)
  then have long: "2800 < char_count b" using assms(3) by simp
  have "2800 \<le> char_count (cx_prompt (append_filesystem a b))" for a
    using trim_to_tokens_long [OF long] char_count_suffix [of "trim_to_tokens b 700" "cx_prompt a @ newline @ newline"]
    by (simp add: append_filesystem_def Let_def)
  then show ?thesis using assms(1) b(1) by (simp add: assemble_task_prompt_def Let_def)
qed

section \<open>Witnesses\<close>

definition tight_settings :: settings where
  "tight_settings = settings_default\<lparr>cfg_context_budget := context_budget_default\<lparr>
     cfg_context_budget_max_total_context_tokens := 10, cfg_context_budget_reserve_response_tokens := 0\<rparr>\<rparr>"

definition long_block_env :: context_env where
  "long_block_env = \<lparr>cx_rfc3339 = (\<lambda>_. []), cx_two_decimals = (\<lambda>_. ''0.90''),
     cx_filesystem_block = Some (replicate 3000 (CHR ''x''))\<rparr>"

definition some_class :: classification_result where
  "some_class = \<lparr>cr_classification = FreshCommandRequest, cr_confidence = 9 / 10\<rparr>"

lemma tight_settings_facts:
  "cfg_context_budget_enabled (cfg_context_budget tight_settings)" "context_budget (cfg_context_budget tight_settings) = 10"
  by (simp_all add: tight_settings_def settings_default_def context_budget_default_def context_budget_def)

theorem task_prompt_bounded_witness:
  "char_count (cx_prompt (assemble_task_prompt long_block_env tight_settings (sample_daemon [] 0) [] 1 ''list files'' ''/tmp'' some_class))
     \<le> 2916"
proof -
  have "char_count (classification_line long_block_env some_class) = 61"
    by (simp add: long_block_env_def classification_line_def some_class_def) code_simp
  then show ?thesis
    using task_prompt_bounded [OF tight_settings_facts(1), of long_block_env "sample_daemon [] 0" "[]" 1 "''list files''" "''/tmp''" some_class]
      tight_settings_facts(2) by simp
qed

theorem filesystem_block_unbudgeted_witness:
  "2800 \<le> char_count (cx_prompt (assemble_task_prompt long_block_env tight_settings (sample_daemon [] 0) [] 1 ''list files'' ''/tmp'' some_class))
   \<and> 4 * context_budget (cfg_context_budget tight_settings) = 40"
proof -
  have "char_count (replicate 3000 (CHR ''x'')) = 3000"
    by (simp only: char_count_def) (subst chars_ascii, simp add: is_cont_def, simp)
  then show ?thesis
    using filesystem_block_unbudgeted [OF tight_settings_facts(1), of long_block_env] tight_settings_facts(2)
    by (simp add: long_block_env_def)
qed

end
