(* ===== verification/Local_Workspace.thy ===== *)
theory Local_Workspace
  imports Sandbox_Paths Command_Text Utf8 "HOL-Library.Char_ord" "HOL-Library.List_Lexorder"
begin

text \<open>
  The workspace of the local tools (\<open>termlm-local-tools/src/workspace.rs\<close>) and its listing
  (\<open>list_workspace_files.rs\<close>). The file system is a parameter: canonicalisation, which paths exist, the
  variable HOME, and the walk over the entries below a root, in the order and with the filters of the
  \<open>ignore\<close> crate.
\<close>

record workspace_env =
  wk_paths :: path_env
  wk_exists :: "path \<Rightarrow> bool"

record workspace_resolution =
  wr_root :: "path option"
  wr_reason :: string

definition MARKERS :: "string list" where
  "MARKERS =
     [''.git'', ''.hg'', ''.svn'', ''Cargo.toml'', ''Cargo.lock'', ''rust-toolchain.toml'', ''rust-toolchain'',
      ''package.json'', ''package-lock.json'', ''pnpm-lock.yaml'', ''bun.lock'', ''bun.lockb'', ''yarn.lock'',
      ''npm-shrinkwrap.json'', ''pyproject.toml'', ''poetry.lock'', ''Pipfile'', ''Pipfile.lock'', ''requirements.txt'',
      ''requirements-dev.txt'', ''setup.py'', ''setup.cfg'', ''tox.ini'', ''go.mod'', ''go.sum'', ''go.work'', ''go.work.sum'',
      ''pom.xml'', ''build.gradle'', ''build.gradle.kts'', ''settings.gradle'', ''settings.gradle.kts'', ''Gemfile'',
      ''Gemfile.lock'', ''Rakefile'', ''composer.json'', ''mix.exs'', ''mix.lock'', ''deno.json'', ''deno.jsonc'', ''Makefile'',
      ''justfile'', ''Taskfile.yml'', ''Taskfile.yaml'', ''CMakeLists.txt'', ''meson.build'', ''flake.nix'', ''shell.nix'',
      ''Dockerfile'', ''docker-compose.yml'', ''docker-compose.yaml'', ''compose.yaml'', ''compose.yml'',
      ''.github/workflows'', ''.gitlab-ci.yml'', ''.circleci/config.yml'', ''.buildkite/pipeline.yml'',
      ''azure-pipelines.yml'', ''.terraform.lock.hcl'']"

definition BLOCKED_ROOTS :: "string list" where
  "BLOCKED_ROOTS =
     [''/'', ''/usr'', ''/usr/bin'', ''/bin'', ''/sbin'', ''/etc'', ''/System'', ''/Library'', ''/Applications'',
      ''/opt/homebrew/bin'']"

text \<open>\<open>Path::parent\<close>.\<close>

definition parent :: "path \<Rightarrow> path option" where
  "parent p = (if p = [] \<or> p = [RootDir] then None else Some (butlast p))"

definition canonical :: "workspace_env \<Rightarrow> path \<Rightarrow> path" where
  "canonical env p = (case fe_canonicalize (wk_paths env) p of Some c \<Rightarrow> c | None \<Rightarrow> p)"

definition is_blocked :: "path \<Rightarrow> bool" where
  "is_blocked p =
     list_ex (\<lambda>b. if path_of b = [RootDir] then p = path_of b else p = path_of b \<or> path_starts_with p (path_of b))
       BLOCKED_ROOTS"

definition marked_with :: "workspace_env \<Rightarrow> path \<Rightarrow> string \<Rightarrow> bool" where
  "marked_with env root m = wk_exists env (join_path root (path_of m))"

definition has_markers :: "workspace_env \<Rightarrow> string list \<Rightarrow> path \<Rightarrow> bool" where
  "has_markers env extra root =
     (list_ex (marked_with env root) MARKERS \<or> list_ex (\<lambda>m. trim m \<noteq> [] \<and> marked_with env root (trim m)) extra)"

text \<open>The loop over the ancestors, the path itself first.\<close>

function climb :: "workspace_env \<Rightarrow> string list \<Rightarrow> path \<Rightarrow> path option" where
  "climb env extra cur =
     (if has_markers env extra cur then Some cur
      else if cur = [] \<or> cur = [RootDir] then None else climb env extra (butlast cur))"
  by pat_completeness auto
termination
  by (relation "measure (\<lambda>(_, _, cur). length cur)") auto

declare climb.simps [simp del]

definition home_dir :: "workspace_env \<Rightarrow> path option" where
  "home_dir env = map_option (\<lambda>h. canonical env (path_of h)) (fe_home (wk_paths env))"

definition denied :: "workspace_env \<Rightarrow> bool \<Rightarrow> bool \<Rightarrow> path \<Rightarrow> bool" where
  "denied env allow_home allow_system p \<longleftrightarrow>
     \<not> allow_system \<and> is_blocked p \<or> \<not> allow_home \<and> home_dir env = Some p"

definition resolve_workspace_root_with_markers ::
  "workspace_env \<Rightarrow> path \<Rightarrow> path option \<Rightarrow> bool \<Rightarrow> bool \<Rightarrow> string list \<Rightarrow> workspace_resolution" where
  "resolve_workspace_root_with_markers env raw_cwd explicit allow_home allow_system extra =
     (let cwd = canonical env raw_cwd
      in case explicit of
           Some root \<Rightarrow>
             if denied env allow_home allow_system (canonical env root)
             then \<lparr>wr_root = None, wr_reason = ''access_denied_sensitive_path''\<rparr>
             else \<lparr>wr_root = Some (canonical env root), wr_reason = ''explicit_root''\<rparr>
         | None \<Rightarrow>
             if denied env allow_home allow_system cwd
             then \<lparr>wr_root = None, wr_reason = ''no_workspace_detected_system_directory''\<rparr>
             else case climb env extra cwd of
               Some p \<Rightarrow> \<lparr>wr_root = Some p, wr_reason = ''marker_detected''\<rparr>
             | None \<Rightarrow> \<lparr>wr_root = Some cwd, wr_reason = ''ad_hoc_workspace''\<rparr>)"

definition resolve_workspace_root_with_policy ::
  "workspace_env \<Rightarrow> path \<Rightarrow> path option \<Rightarrow> bool \<Rightarrow> bool \<Rightarrow> workspace_resolution" where
  "resolve_workspace_root_with_policy env cwd explicit allow_home allow_system =
     resolve_workspace_root_with_markers env cwd explicit allow_home allow_system []"

definition resolve_workspace_root :: "workspace_env \<Rightarrow> path \<Rightarrow> path option \<Rightarrow> workspace_resolution" where
  "resolve_workspace_root env cwd explicit = resolve_workspace_root_with_markers env cwd explicit False False []"

section \<open>Listing\<close>

text \<open>An entry of the walk: its path below the root, whether it is a directory, and its modification time (zero
  when it cannot be read).\<close>

record walk_entry =
  we_rel :: "string list"
  we_dir :: bool
  we_mtime :: nat

record workspace_entry =
  wn_path :: path
  wn_kind :: string

record list_workspace_files_result =
  lw_root :: path
  lw_entries :: "workspace_entry list"
  lw_truncated :: bool

record candidate_entry =
  ca_rel :: "string list"
  ca_kind :: string
  ca_priority :: nat
  ca_depth :: nat
  ca_mtime_secs :: nat

definition is_manifest_or_top_doc :: "string \<Rightarrow> bool" where
  "is_manifest_or_top_doc name \<longleftrightarrow>
     name \<in> set [''cargo.toml'', ''package.json'', ''pyproject.toml'', ''go.mod'', ''makefile'', ''justfile'', ''taskfile.yml'',
       ''taskfile.yaml'', ''dockerfile'', ''docker-compose.yml'', ''docker-compose.yaml'', ''.tool-versions'', ''.nvmrc'',
       ''.python-version'', ''.env.example'']
     \<or> starts_with name ''readme'' \<or> starts_with name ''license''"

definition is_source_or_config_dir :: "string \<Rightarrow> bool" where
  "is_source_or_config_dir name \<longleftrightarrow>
     name \<in> set [''src'', ''lib'', ''app'', ''cmd'', ''scripts'', ''config'', ''configs'', ''docs'', ''test'', ''tests'']"

definition is_noise_dir :: "string \<Rightarrow> bool" where
  "is_noise_dir name \<longleftrightarrow>
     to_ascii_lowercase name \<in> set [''.git'', ''.hg'', ''.svn'', ''node_modules'', ''target'', ''dist'', ''build'', ''vendor'',
       ''.cache'', ''__pycache__'', ''.venv'', ''venv'', ''tmp'', ''.next'', ''.turbo'']"

text \<open>The file name of a relative path; a name that is not UTF-8 counts as empty.\<close>

definition lower_name :: "string list \<Rightarrow> string" where
  "lower_name rel = (if rel = [] \<or> \<not> utf8_valid (last rel) then [] else to_ascii_lowercase (last rel))"

definition entry_priority :: "string list \<Rightarrow> string \<Rightarrow> nat" where
  "entry_priority rel kind =
     (let name = lower_name rel; depth = length rel
      in if depth = 1 \<and> is_manifest_or_top_doc name then 0
         else if kind = ''dir'' \<and> depth \<le> 2 \<and> is_source_or_config_dir name then 1
         else if depth \<le> 2 then 2 else 3)"

text \<open>The filter of the walk leaves out a noise directory and all below it.\<close>

definition kept_entry :: "walk_entry \<Rightarrow> bool" where
  "kept_entry e \<longleftrightarrow>
     list_all (\<lambda>name. \<not> (utf8_valid name \<and> is_noise_dir name)) (if we_dir e then we_rel e else butlast (we_rel e))"

definition candidate_of :: "walk_entry \<Rightarrow> candidate_entry" where
  "candidate_of e =
     (let kind = (if we_dir e then ''dir'' else ''file'')
      in \<lparr>ca_rel = we_rel e, ca_kind = kind, ca_priority = entry_priority (we_rel e) kind, ca_depth = length (we_rel e),
          ca_mtime_secs = we_mtime e\<rparr>)"

definition sort_candidates :: "candidate_entry list \<Rightarrow> candidate_entry list" where
  "sort_candidates cs =
     sort_key ca_priority (sort_key ca_depth (sort_key (\<lambda>c. - int (ca_mtime_secs c)) (sort_key ca_rel cs)))"

text \<open>\<open>walk\<close> is the walk below the root up to the depth, without the root itself.\<close>

definition list_workspace_files ::
  "(path \<Rightarrow> nat \<Rightarrow> bool \<Rightarrow> walk_entry list) \<Rightarrow> path \<Rightarrow> nat \<Rightarrow> nat \<Rightarrow> bool \<Rightarrow> list_workspace_files_result" where
  "list_workspace_files walk root max_entries max_depth include_hidden =
     (let entries = filter kept_entry (walk root max_depth include_hidden);
          limit = usize_sat_mul max_entries 4;
          candidates = sort_candidates (map candidate_of (take limit entries))
      in \<lparr>lw_root = root,
          lw_entries = map (\<lambda>c. \<lparr>wn_path = root @ map Normal (ca_rel c), wn_kind = ca_kind c\<rparr>) (take max_entries candidates),
          lw_truncated = limit < length entries \<or> max_entries < length candidates\<rparr>)"

end
