(* ===== verification/Local_Text.thy ===== *)
theory Local_Text
  imports Local_Workspace Regex_Lang
begin

text \<open>
  Reading and searching text in \<open>termlm-local-tools/src\<close>: the test for plain text
  (\<open>text_detection.rs\<close>), the redaction of secrets (\<open>redaction.rs\<close>), \<open>read_file.rs\<close>,
  \<open>search_files.rs\<close> and \<open>terminal_search.rs\<close>. A file is its bytes, none when it cannot be opened or read.
  The regex crate is a parameter.
\<close>

section \<open>Plain text\<close>

record text_detection_options =
  td_sample_bytes :: nat
  td_reject_nul_bytes :: bool
  td_accepted_encodings :: "string list"
  td_deny_binary_magic :: bool

definition text_detection_options_default :: text_detection_options where
  "text_detection_options_default =
     \<lparr>td_sample_bytes = 8192, td_reject_nul_bytes = True, td_accepted_encodings = [''utf-8'', ''utf-16le'', ''utf-16be''],
      td_deny_binary_magic = True\<rparr>"

record text_detection =
  dt_plaintext_like :: bool
  dt_detector :: string
  dt_encoding :: string
  dt_reason :: string

definition detection :: "bool \<Rightarrow> string \<Rightarrow> string \<Rightarrow> text_detection" where
  "detection plain encoding reason =
     \<lparr>dt_plaintext_like = plain, dt_detector = ''content_sniff_v1'', dt_encoding = encoding, dt_reason = reason\<rparr>"

definition encoding_allowed :: "text_detection_options \<Rightarrow> string \<Rightarrow> bool" where
  "encoding_allowed opts encoding =
     (if td_accepted_encodings opts = [] then True
      else let wanted = to_ascii_lowercase encoding;
               accepted = (if wanted = ''utf8'' then [''utf-8'', ''utf8'']
                           else if wanted = ''utf16''
                           then [''utf-16'', ''utf16'', ''utf-16le'', ''utf16le'', ''utf-16be'', ''utf16be'']
                           else [wanted])
           in list_ex (\<lambda>v. to_ascii_lowercase (trim v) \<in> set accepted) (td_accepted_encodings opts))"

definition magic_numbers :: "string list" where
  "magic_numbers =
     [CHR 0x89 # ''PNG'', [CHR 0xFF, CHR 0xD8, CHR 0xFF], ''GIF89a'', ''GIF87a'', ''PK'' @ [CHR 0x03, CHR 0x04]]"

text \<open>\<open>step_by(2)\<close>.\<close>

fun every_other :: "'a list \<Rightarrow> 'a list" where
  "every_other (x # y # zs) = x # every_other zs"
| "every_other xs = xs"

definition zeroes :: "string \<Rightarrow> nat" where
  "zeroes s = length (filter (\<lambda>b. b = CHR 0x00) s)"

definition utf16_like :: "string \<Rightarrow> bool" where
  "utf16_like sample =
     (let half = length sample div 2
      in 2 \<le> length sample
         \<and> (half div 3 < zeroes (every_other sample) \<or> half div 3 < zeroes (every_other (drop 1 sample))))"

definition detect_plaintext_like_with_options :: "string \<Rightarrow> text_detection_options \<Rightarrow> text_detection" where
  "detect_plaintext_like_with_options bytes opts =
     (let sample = take (max (td_sample_bytes opts) 1) bytes
      in if td_reject_nul_bytes opts \<and> CHR 0x00 \<in> set sample then detection False ''binary'' ''nul_byte''
         else if td_deny_binary_magic opts \<and> list_ex (starts_with sample) magic_numbers
         then detection False ''binary'' ''binary_magic''
         else if utf8_valid sample
         then (if encoding_allowed opts ''utf8'' then detection True ''utf8'' ''utf8_valid''
               else detection False ''utf8'' ''encoding_not_allowed'')
         else if utf16_like sample
         then (if encoding_allowed opts ''utf16'' then detection True ''utf16'' ''utf16_heuristic''
               else detection False ''utf16'' ''encoding_not_allowed'')
         else detection False ''unknown'' ''decode_failed'')"

definition is_plaintext_like :: "string \<Rightarrow> bool" where
  "is_plaintext_like bytes = dt_plaintext_like (detect_plaintext_like_with_options bytes text_detection_options_default)"

section \<open>Redaction\<close>

text \<open>\<open>Regex::replace_all\<close> with a function of the captures, the whole match first.\<close>

record redaction_engine =
  rx_replace_all :: "string \<Rightarrow> (string option list \<Rightarrow> string) \<Rightarrow> string \<Rightarrow> string"

definition redacted_mark :: string where
  "redacted_mark = ''<redacted>''"

definition capture_text :: "string option list \<Rightarrow> nat \<Rightarrow> string" where
  "capture_text caps i = (if i < length caps then (case caps ! i of Some s \<Rightarrow> s | None \<Rightarrow> []) else [])"

definition replace_secret :: "string option list \<Rightarrow> string" where
  "replace_secret caps = (if 1 < length caps then capture_text caps 1 @ redacted_mark else redacted_mark)"

definition replace_password :: "string option list \<Rightarrow> string" where
  "replace_password caps = capture_text caps 1 @ redacted_mark @ capture_text caps 2"

definition db_url_password :: string where
  "db_url_password =
     ''(?i)'' @ [CHR 0x5C] @ ''b((?:postgres(?:ql)?|mysql|mariadb|mongodb(?:'' @ [CHR 0x5C]
     @ ''+srv)?|redis|amqp)://[^/'' @ [CHR 0x5C] @ ''s:@]+:)[^@/'' @ [CHR 0x5C] @ ''s]+(@)''"

definition secret_patterns :: "string list" where
  "secret_patterns =
     [''(?im)(authorization'' @ [CHR 0x5C] @ ''s*:'' @ [CHR 0x5C] @ ''s*(?:bearer|token|basic)'' @ [CHR 0x5C]
      @ ''s+)[^'' @ [CHR 0x5C] @ ''s'' @ [CHR 0x5C] @ ''r'' @ [CHR 0x5C] @ ''n]+'',
      ''(?im)(x-api-key'' @ [CHR 0x5C] @ ''s*:'' @ [CHR 0x5C] @ ''s*)[^'' @ [CHR 0x5C] @ ''s'' @ [CHR 0x5C]
      @ ''r'' @ [CHR 0x5C] @ ''n]+'',
      ''(?im)(cookie'' @ [CHR 0x5C] @ ''s*:'' @ [CHR 0x5C] @ ''s*)[^'' @ [CHR 0x5C] @ ''r'' @ [CHR 0x5C]
      @ ''n]+'',
      ''(?im)(set-cookie'' @ [CHR 0x5C] @ ''s*:'' @ [CHR 0x5C] @ ''s*[^=;'' @ [CHR 0x5C] @ ''r'' @ [CHR 0x5C]
      @ ''n]+=)[^;'' @ [CHR 0x5C] @ ''r'' @ [CHR 0x5C] @ ''n]+'',
      ''(?i)(api[_-]?key'' @ [CHR 0x5C] @ ''s*[=:]'' @ [CHR 0x5C] @ ''s*)[A-Za-z0-9._'' @ [CHR 0x5C] @ ''-]+'',
      ''(?i)(password'' @ [CHR 0x5C] @ ''s*[=:]'' @ [CHR 0x5C] @ ''s*)'' @ [CHR 0x5C] @ ''S+'',
      ''(?i)(aws_secret_access_key'' @ [CHR 0x5C] @ ''s*[=:]'' @ [CHR 0x5C] @ ''s*)[A-Za-z0-9/+=]{16,}'',
      [CHR 0x5C] @ ''b([A-Z][A-Z0-9_]*(?:TOKEN|SECRET|PASSWORD|PASSWD|API_KEY|ACCESS_KEY|PRIVATE_KEY)''
      @ [CHR 0x5C] @ ''s*='' @ [CHR 0x5C] @ ''s*)([^'' @ [CHR 0x5C] @ ''s'' @ [CHR 0x22, CHR 0x27] @ '']+)'',
      ''(?i)([?&](?:access_token|token|api_key|apikey|password)=)[^&'' @ [CHR 0x5C] @ ''s]+'',
      ''AKIA[0-9A-Z]{16}'',
      ''(?i)gh[pousr]_[A-Za-z0-9]{20,}'',
      ''(?i)github_pat_[A-Za-z0-9_]+'',
      ''(?i)sk-[A-Za-z0-9_-]{16,}'',
      ''-----BEGIN (?:RSA|OPENSSH|EC|PGP) PRIVATE KEY-----['' @ [CHR 0x5C] @ ''s'' @ [CHR 0x5C]
      @ ''S]*?-----END (?:RSA|OPENSSH|EC|PGP) PRIVATE KEY-----'']"

definition redact_secrets :: "redaction_engine \<Rightarrow> string \<Rightarrow> string" where
  "redact_secrets rx input =
     foldl (\<lambda>out re. rx_replace_all rx re replace_secret out)
       (rx_replace_all rx db_url_password replace_password input) secret_patterns"

section \<open>Reading a file\<close>

record read_file_result =
  rf_path :: path
  rf_cwd :: string
  rf_workspace_root :: path
  rf_content :: string
  rf_redacted :: bool
  rf_truncated :: bool
  rf_bytes_read :: nat
  rf_detector :: string
  rf_encoding :: string
  rf_detection_reason :: string

record local_env =
  le_read :: "path \<Rightarrow> string option"
  le_cwd :: string
  le_redact :: redaction_engine
  le_regex :: regex_engine

definition read_file_with_detection ::
  "local_env \<Rightarrow> path \<Rightarrow> nat \<Rightarrow> text_detection_options \<Rightarrow> string + read_file_result" where
  "read_file_with_detection env p max_bytes0 opts =
     (let max_bytes = max max_bytes0 1
      in case le_read env p of
           None \<Rightarrow> Inl ''read''
         | Some bytes \<Rightarrow>
             let data = take (usize_sat_add max_bytes 1) bytes;
                 found = detect_plaintext_like_with_options data opts
             in if \<not> dt_plaintext_like found then Inl ''binary_or_unsupported_file''
                else let kept = take max_bytes data
                     in Inr \<lparr>rf_path = p, rf_cwd = le_cwd env,
                             rf_workspace_root = (case parent p of Some q \<Rightarrow> q | None \<Rightarrow> p),
                             rf_content = redact_secrets (le_redact env) (from_utf8_lossy kept), rf_redacted = True,
                             rf_truncated = max_bytes < length data, rf_bytes_read = length kept,
                             rf_detector = dt_detector found, rf_encoding = dt_encoding found,
                             rf_detection_reason = dt_reason found\<rparr>)"

definition read_file :: "local_env \<Rightarrow> path \<Rightarrow> nat \<Rightarrow> string + read_file_result" where
  "read_file env p max_bytes = read_file_with_detection env p max_bytes text_detection_options_default"

section \<open>Searching files\<close>

record file_match =
  fm_path :: path
  fm_line :: nat
  fm_text :: string

record search_files_options =
  so_glob :: "string option"
  so_regex_mode :: bool
  so_max_results :: nat
  so_max_files_scanned :: nat
  so_max_bytes_per_file :: nat
  so_include_hidden :: bool
  so_respect_gitignore :: bool
  so_text_detection :: text_detection_options

definition search_files_options_default :: search_files_options where
  "search_files_options_default =
     \<lparr>so_glob = None, so_regex_mode = False, so_max_results = 100, so_max_files_scanned = 1000,
      so_max_bytes_per_file = 65536, so_include_hidden = False, so_respect_gitignore = True,
      so_text_detection = text_detection_options_default\<rparr>"

record search_state =
  ss_matches :: "file_match list"
  ss_scanned_files :: nat
  ss_plaintext_files_scanned :: nat
  ss_skipped_binary_files :: nat
  ss_scanned_bytes :: nat
  ss_files_truncated_by_size :: nat
  ss_encodings :: "string list"

definition search_start :: search_state where
  "search_start =
     \<lparr>ss_matches = [], ss_scanned_files = 0, ss_plaintext_files_scanned = 0, ss_skipped_binary_files = 0,
      ss_scanned_bytes = 0, ss_files_truncated_by_size = 0, ss_encodings = []\<rparr>"

record search_files_result =
  sr_root :: path
  sr_found :: search_state
  sr_truncated :: bool
  sr_encoding :: string

definition glob_char :: "rchar \<Rightarrow> string" where
  "glob_char ch =
     (if ch = ''*'' then ''.*'' else if ch = ''?'' then ''.'' else if ch = ''.'' then [CHR 0x5C] @ ''.''
      else if ch = [CHR 0x5C] then [CHR 0x5C, CHR 0x5C]
      else if ch \<in> set (map (\<lambda>c. [c]) ''+()|^${}[]'') then CHR 0x5C # ch else ch)"

definition glob_to_regex :: "string \<Rightarrow> string" where
  "glob_to_regex glob = ''^'' @ concat (map glob_char (chars glob)) @ ''$''"

definition summarize_encodings :: "string list \<Rightarrow> string" where
  "summarize_encodings encodings =
     (case remdups encodings of [] \<Rightarrow> ''none'' | [e] \<Rightarrow> e | _ \<Rightarrow> ''mixed'')"

definition line_matches :: "local_env \<Rightarrow> search_files_options \<Rightarrow> string \<Rightarrow> string \<Rightarrow> bool" where
  "line_matches env opts query l =
     (if so_regex_mode opts then re_is_match (le_regex env) False query l else contains l query)"

text \<open>The loop over the lines: the matches so far, and whether their number has reached the limit.\<close>

fun search_lines ::
  "local_env \<Rightarrow> search_files_options \<Rightarrow> string \<Rightarrow> path \<Rightarrow> nat \<Rightarrow> string list \<Rightarrow> file_match list \<Rightarrow> file_match list \<times> bool"
where
  "search_lines env opts query p idx [] ms = (ms, False)"
| "search_lines env opts query p idx (l # ls) ms =
     (if line_matches env opts query l
      then let ms1 = ms @ [\<lparr>fm_path = p, fm_line = idx + 1, fm_text = redact_secrets (le_redact env) l\<rparr>]
           in if so_max_results opts \<le> length ms1 then (ms1, True)
              else search_lines env opts query p (idx + 1) ls ms1
      else search_lines env opts query p (idx + 1) ls ms)"

text \<open>One file of the walk: its path and its path below the root. The flag ends the search.\<close>

definition search_file ::
  "local_env \<Rightarrow> search_files_options \<Rightarrow> string \<Rightarrow> path \<Rightarrow> string \<Rightarrow> search_state \<Rightarrow> search_state \<times> bool" where
  "search_file env opts query p rel s0 =
     (let s = s0\<lparr>ss_scanned_files := ss_scanned_files s0 + 1\<rparr>
      in if (case so_glob opts of None \<Rightarrow> False | Some g \<Rightarrow> \<not> re_is_match (le_regex env) False (glob_to_regex g) rel)
         then (s, False)
         else case le_read env p of
           None \<Rightarrow> (s, False)
         | Some bytes \<Rightarrow>
             let max_bytes = max (so_max_bytes_per_file opts) 1;
                 data = take max_bytes bytes;
                 s1 = s\<lparr>ss_scanned_bytes := usize_sat_add (ss_scanned_bytes s) (length data),
                        ss_files_truncated_by_size := (if max_bytes < length bytes
                          then usize_sat_add (ss_files_truncated_by_size s) 1 else ss_files_truncated_by_size s)\<rparr>;
                 found = detect_plaintext_like_with_options data (so_text_detection opts)
             in if \<not> dt_plaintext_like found
                then (s1\<lparr>ss_skipped_binary_files := usize_sat_add (ss_skipped_binary_files s1) 1\<rparr>, False)
                else let (ms, full) = search_lines env opts query p 0 (lines (from_utf8_lossy data)) (ss_matches s1)
                     in (s1\<lparr>ss_plaintext_files_scanned := usize_sat_add (ss_plaintext_files_scanned s1) 1,
                            ss_encodings := ss_encodings s1 @ [dt_encoding found], ss_matches := ms\<rparr>, full))"

text \<open>The loop over the files: the final state, and whether it was left early.\<close>

fun search_walk ::
  "local_env \<Rightarrow> search_files_options \<Rightarrow> string \<Rightarrow> (path \<times> string) list \<Rightarrow> search_state \<Rightarrow> search_state \<times> bool" where
  "search_walk env opts query [] s = (s, False)"
| "search_walk env opts query ((p, rel) # files) s =
     (if so_max_files_scanned opts \<le> ss_scanned_files s then (s, True)
      else case search_file env opts query p rel s of
        (s1, True) \<Rightarrow> (s1, True)
      | (s1, False) \<Rightarrow> search_walk env opts query files s1)"

text \<open>\<open>walk\<close> is the list of the regular files below the root, with the filters of the options.\<close>

definition search_files ::
  "local_env \<Rightarrow> (path \<Rightarrow> search_files_options \<Rightarrow> (path \<times> string) list) \<Rightarrow> path \<Rightarrow> string \<Rightarrow> search_files_options
    \<Rightarrow> string + search_files_result" where
  "search_files env walk root query opts =
     (if so_regex_mode opts \<and> \<not> re_compiles (le_regex env) False query then Inl ''invalid query''
      else if (case so_glob opts of None \<Rightarrow> False | Some g \<Rightarrow> \<not> re_compiles (le_regex env) False (glob_to_regex g))
      then Inl ''invalid glob''
      else let (s, early) = search_walk env opts query (walk root opts) search_start
           in Inr \<lparr>sr_root = root, sr_found = s, sr_truncated = early \<or> 0 < ss_files_truncated_by_size s,
                   sr_encoding = summarize_encodings (ss_encodings s)\<rparr>)"

section \<open>Searching the terminal\<close>

record terminal_record =
  tr_command_seq :: nat
  tr_command :: string
  tr_cwd :: string
  tr_started_at :: nat
  tr_duration_ms :: nat
  tr_exit_code :: int
  tr_detected_urls :: "string list"
  tr_stderr_head :: string
  tr_stderr_tail :: string
  tr_stdout_head :: string
  tr_stdout_tail :: string
  tr_stdout_full_ref :: "string option"
  tr_stderr_full_ref :: "string option"

definition record_matches :: "string \<Rightarrow> terminal_record \<Rightarrow> bool" where
  "record_matches query e \<longleftrightarrow>
     contains (tr_command e) query \<or> contains (tr_stderr_head e) query \<or> contains (tr_stderr_tail e) query
     \<or> contains (tr_stdout_head e) query \<or> contains (tr_stdout_tail e) query
     \<or> list_ex (\<lambda>u. contains u query) (tr_detected_urls e)"

definition redact_record :: "redaction_engine \<Rightarrow> terminal_record \<Rightarrow> terminal_record" where
  "redact_record rx r =
     r\<lparr>tr_command := redact_secrets rx (tr_command r), tr_stderr_head := redact_secrets rx (tr_stderr_head r),
       tr_stderr_tail := redact_secrets rx (tr_stderr_tail r), tr_stdout_head := redact_secrets rx (tr_stdout_head r),
       tr_stdout_tail := redact_secrets rx (tr_stdout_tail r),
       tr_detected_urls := map (redact_secrets rx) (tr_detected_urls r)\<rparr>"

definition search_terminal_context ::
  "redaction_engine \<Rightarrow> terminal_record list \<Rightarrow> string \<Rightarrow> nat \<Rightarrow> terminal_record list" where
  "search_terminal_context rx entries query max_results =
     map (redact_record rx) (take max_results (filter (record_matches query) (rev entries)))"

end
