(* ===== verification/Local_Props.thy ===== *)
theory Local_Props
  imports Local_Text
begin

text \<open>
  Which files count as text, what a search returns, which roots a workspace can have, and the order of a
  listing.
\<close>

section \<open>Plain text\<close>

lemma set_every_other: "set (every_other xs) \<subseteq> set xs"
  by (induction xs rule: every_other.induct) auto

lemma zeroes_eq_0: "CHR 0x00 \<notin> set s \<Longrightarrow> zeroes s = 0"
  by (auto simp: zeroes_def filter_empty_conv)

lemma not_utf16_like:
  assumes "CHR 0x00 \<notin> set s"
  shows "\<not> utf16_like s"
proof -
  have "CHR 0x00 \<notin> set (every_other s)" "CHR 0x00 \<notin> set (every_other (drop 1 s))"
    using assms set_every_other [of s] set_every_other [of "drop 1 s"] set_drop_subset [of 1 s] by blast+
  then show ?thesis by (simp add: utf16_like_def zeroes_eq_0 Let_def)
qed

text \<open>With the default options a file counts as text exactly when its first 8,192 bytes hold no NUL, do not
  start like an image or an archive, and are well-formed UTF-8; UTF-16 never does, although it is among
  the accepted encodings.\<close>

theorem plain_text_exact:
  "is_plaintext_like bytes \<longleftrightarrow>
     CHR 0x00 \<notin> set (take 8192 bytes) \<and> \<not> list_ex (starts_with (take 8192 bytes)) magic_numbers
     \<and> utf8_valid (take 8192 bytes)"
proof -
  have "encoding_allowed text_detection_options_default ''utf8''" by code_simp
  then show ?thesis
    using not_utf16_like [of "take 8192 bytes"]
    by (simp add: is_plaintext_like_def detect_plaintext_like_with_options_def text_detection_options_default_def
        detection_def Let_def)
qed

lemma utf8_valid_rest: "utf8_valid s \<Longrightarrow> utf8_valid (s @ t) \<Longrightarrow> utf8_valid t"
proof (induction s rule: utf8_valid.induct)
  case (1 s)
  show ?case
  proof (cases "s = []")
    case True
    then show ?thesis using "1.prems"(2) by simp
  next
    case False
    then have v: "fst (utf8_step s)" "utf8_valid (drop (snd (utf8_step s)) s)"
      using "1.prems"(1) utf8_valid_step by blast+
    note l = utf8_step_length [OF v(1)]
    have "utf8_valid (drop (snd (utf8_step s)) s @ t)"
      using "1.prems"(2) v(1) l False by (simp add: utf8_valid_step [of "s @ t"] utf8_step_append)
    then show ?thesis using "1.IH" False v by blast
  qed
qed

lemma utf8_valid_boundary:
  assumes "utf8_valid s" "utf8_valid (take n s)" "n < length s"
  shows "\<not> is_cont (s ! n)"
proof -
  have "utf8_valid (drop n s)" using utf8_valid_rest [of "take n s" "drop n s"] assms(1,2) by simp
  then show ?thesis using utf8_valid_hd [of "drop n s"] assms(3) by (simp add: hd_drop_conv_nth)
qed

text \<open>C37: A well-formed UTF-8 file is refused as binary when a character lies across the end of the sample, that is,
  at byte 8,192 or one byte after the limit of the request.\<close>

theorem split_character_refused:
  assumes "utf8_valid bytes" "le_read env p = Some bytes"
    and "n = min (usize_sat_add (max max_bytes 1) 1) 8192" "n < length bytes" "is_cont (bytes ! n)"
  shows "read_file env p max_bytes = Inl ''binary_or_unsupported_file''"
proof -
  define data where "data = take (usize_sat_add (max max_bytes 1) 1) bytes"
  have "take 8192 data = take n bytes" by (simp add: data_def assms(3) min.commute)
  then have "\<not> utf8_valid (take 8192 data)" using utf8_valid_boundary [OF assms(1) _ assms(4)] assms(5) by auto
  then have "\<not> is_plaintext_like data" by (simp add: plain_text_exact)
  then show ?thesis
    unfolding data_def
    by (simp add: read_file_def read_file_with_detection_def assms(2) Let_def is_plaintext_like_def)
qed

section \<open>Searching\<close>

text \<open>All matches in the lines of a file, and in a file of the walk.\<close>

definition matching_lines :: "local_env \<Rightarrow> search_files_options \<Rightarrow> string \<Rightarrow> path \<Rightarrow> nat \<Rightarrow> string list \<Rightarrow> file_match list" where
  "matching_lines env opts query p idx ls =
     map (\<lambda>(i, l). \<lparr>fm_path = p, fm_line = i + 1, fm_text = redact_secrets (le_redact env) l\<rparr>)
       (filter (\<lambda>(_, l). line_matches env opts query l) (enumerate idx ls))"

definition file_matches :: "local_env \<Rightarrow> search_files_options \<Rightarrow> string \<Rightarrow> path \<times> string \<Rightarrow> file_match list" where
  "file_matches env opts query file =
     (case file of (p, rel) \<Rightarrow>
        if (case so_glob opts of None \<Rightarrow> False | Some g \<Rightarrow> \<not> re_is_match (le_regex env) False (glob_to_regex g) rel) then []
        else case le_read env p of
          None \<Rightarrow> []
        | Some bytes \<Rightarrow>
            let data = take (max (so_max_bytes_per_file opts) 1) bytes
            in if dt_plaintext_like (detect_plaintext_like_with_options data (so_text_detection opts))
               then matching_lines env opts query p 0 (lines (from_utf8_lossy data)) else [])"

definition result_limit :: "search_files_options \<Rightarrow> nat" where
  "result_limit opts = max (so_max_results opts) 1"

lemma reached_limit: "so_max_results opts \<le> length (ms @ [m]) \<longleftrightarrow> result_limit opts \<le> length (ms @ [m])"
  by (auto simp: result_limit_def)

lemma search_lines_eq:
  assumes "length ms < result_limit opts"
  shows "search_lines env opts query p idx ls ms =
    (let all_ms = ms @ matching_lines env opts query p idx ls
     in (take (result_limit opts) all_ms, result_limit opts \<le> length all_ms))"
  using assms
proof (induction ls arbitrary: idx ms)
  case Nil
  then show ?case by (simp add: matching_lines_def)
next
  case (Cons l ls)
  show ?case
  proof (cases "line_matches env opts query l")
    case False
    then show ?thesis using Cons by (simp add: matching_lines_def)
  next
    case True
    let ?m = "\<lparr>fm_path = p, fm_line = idx + 1, fm_text = redact_secrets (le_redact env) l\<rparr>"
    have split: "ms @ matching_lines env opts query p idx (l # ls)
        = (ms @ [?m]) @ matching_lines env opts query p (Suc idx) ls"
      using True by (simp add: matching_lines_def)
    show ?thesis
    proof (cases "result_limit opts \<le> length (ms @ [?m])")
      case full: True
      then have len: "length (ms @ [?m]) = result_limit opts" using Cons.prems by simp
      have t: "take (result_limit opts) ((ms @ [?m]) @ r) = ms @ [?m]" for r
        by (metis len append_eq_conv_conj)
      have e: "search_lines env opts query p idx (l # ls) ms = (ms @ [?m], True)"
        using True full reached_limit [of opts ms ?m] by (simp add: Let_def)
      show ?thesis unfolding split Let_def t e using full by simp
    next
      case False
      then have "length (ms @ [?m]) < result_limit opts" by simp
      from Cons.IH [OF this, of "Suc idx"] show ?thesis
        unfolding split using True False reached_limit [of opts ms ?m] by (simp add: Let_def)
    qed
  qed
qed

lemma search_file_eq:
  assumes "length (ss_matches s) < result_limit opts"
  shows "ss_matches (fst (search_file env opts query p rel s))
      = take (result_limit opts) (ss_matches s @ file_matches env opts query (p, rel))"
    "snd (search_file env opts query p rel s)
      \<longleftrightarrow> result_limit opts \<le> length (ss_matches s @ file_matches env opts query (p, rel))"
    "ss_scanned_files (fst (search_file env opts query p rel s)) = ss_scanned_files s + 1"
  using assms
  by (auto simp: search_file_def file_matches_def search_lines_eq Let_def not_le split: option.splits)

lemma search_walk_eq:
  assumes "length (ss_matches s) < result_limit opts"
  shows "ss_matches (fst (search_walk env opts query files s))
    = take (result_limit opts) (ss_matches s
        @ concat (map (file_matches env opts query) (take (so_max_files_scanned opts - ss_scanned_files s) files)))"
  using assms
proof (induction files arbitrary: s)
  case Nil
  then show ?case by simp
next
  case (Cons f files)
  obtain p rel where f: "f = (p, rel)" by (cases f)
  show ?case
  proof (cases "so_max_files_scanned opts \<le> ss_scanned_files s")
    case True
    then show ?thesis using Cons.prems by (simp add: f)
  next
    case False
    let ?r = "search_file env opts query p rel s" and ?fm = "file_matches env opts query (p, rel)"
    obtain k where k: "so_max_files_scanned opts - ss_scanned_files s = Suc k" using False by (metis Suc_diff_Suc not_le)
    then have k1: "so_max_files_scanned opts - Suc (ss_scanned_files s) = k" by simp
    note e = search_file_eq [OF Cons.prems, of env query p rel]
    show ?thesis
    proof (cases "snd ?r")
      case True
      then have long: "result_limit opts \<le> length (ss_matches s @ ?fm)" using e(2) by simp
      have "search_walk env opts query (f # files) s = (fst ?r, True)"
        using False True by (cases ?r) (simp add: f)
      then have "ss_matches (fst (search_walk env opts query (f # files) s)) = take (result_limit opts) (ss_matches s @ ?fm)"
        using e(1) by simp
      also have "\<dots> = take (result_limit opts) ((ss_matches s @ ?fm) @ concat (map (file_matches env opts query) (take k files)))"
        using long by (simp only: take_append) simp
      finally show ?thesis by (simp add: k f)
    next
      case not_full: False
      then have short: "length (ss_matches s @ ?fm) < result_limit opts" using e(2) by simp
      then have m: "ss_matches (fst ?r) = ss_matches s @ ?fm" using e(1) by simp
      have "search_walk env opts query (f # files) s = search_walk env opts query files (fst ?r)"
        using False not_full by (cases ?r) (simp add: f)
      then show ?thesis using Cons.IH [of "fst ?r"] short m e(3) by (simp add: k k1 f)
    qed
  qed
qed

text \<open>C13: A search returns exactly the first matches in the order of the walk, at most the requested number (at least
  one), from the first files up to the limit; a file gives the matching lines of its readable, textual
  beginning, redacted.\<close>

theorem search_files_exact:
  assumes "search_files env walk root query opts = Inr r"
  shows "ss_matches (sr_found r) =
    take (max (so_max_results opts) 1)
      (concat (map (file_matches env opts query) (take (so_max_files_scanned opts) (walk root opts))))"
  using assms search_walk_eq [of search_start opts env query "walk root opts"]
  by (auto simp: search_files_def search_start_def result_limit_def Let_def split: if_splits prod.splits)

section \<open>Witnesses\<close>

definition one_file_env :: "string \<Rightarrow> local_env" where
  "one_file_env bytes =
     \<lparr>le_read = (\<lambda>p. if p = [RootDir, Normal ''notes.txt''] then Some bytes else None), le_cwd = ''/'',
      le_redact = \<lparr>rx_replace_all = (\<lambda>_ _ s. s)\<rparr>,
      le_regex = \<lparr>re_compiles = (\<lambda>_ _. True), re_is_match = (\<lambda>_ _ _. True)\<rparr>\<rparr>"

definition accented_text :: string where
  "accented_text = replicate 8191 (CHR ''a'') @ [CHR 0xC3, CHR 0xA9]"

theorem split_character_refused_witness:
  "utf8_valid accented_text
   \<and> read_file (one_file_env accented_text) [RootDir, Normal ''notes.txt''] 65536 = Inl ''binary_or_unsupported_file''"
proof -
  have v: "utf8_valid accented_text"
    unfolding accented_text_def
    by (rule utf8_valid_append [OF utf8_valid_ascii]) (simp, code_simp)
  have n: "min (usize_sat_add (max 65536 1) 1) 8192 = (8192 :: nat)" by (simp add: usize_sat_add_def usize_max_def)
  have l: "length accented_text = 8193" by (simp add: accented_text_def)
  have "is_cont (accented_text ! 8192)" by (simp add: accented_text_def nth_append is_cont_def)
  then show ?thesis
    using v n l split_character_refused [of accented_text "one_file_env accented_text" "[RootDir, Normal ''notes.txt'']" 8192 65536]
    by (simp add: one_file_env_def)
qed

definition one_file_walk :: "path \<Rightarrow> search_files_options \<Rightarrow> (path \<times> string) list" where
  "one_file_walk root opts = [([RootDir, Normal ''notes.txt''], ''notes.txt'')]"

lemma no_redaction: "redact_secrets (le_redact (one_file_env bytes)) s = s"
proof -
  have "foldl (\<lambda>out _. out) a (xs :: string list) = (a :: string)" for a xs by (induction xs) simp_all
  then show ?thesis by (simp add: redact_secrets_def one_file_env_def)
qed

lemma one_file_matches:
  "file_matches (one_file_env ''a todo'') search_files_options_default ''todo'' ([RootDir, Normal ''notes.txt''], ''notes.txt'')
    = [\<lparr>fm_path = [RootDir, Normal ''notes.txt''], fm_line = 1, fm_text = ''a todo''\<rparr>]"
proof -
  have v: "utf8_valid ''a todo''" by (rule utf8_valid_ascii) simp
  have "is_plaintext_like ''a todo''" by (simp add: plain_text_exact magic_numbers_def v)
  moreover have "le_read (one_file_env ''a todo'') [RootDir, Normal ''notes.txt''] = Some ''a todo''"
    by (simp add: one_file_env_def)
  moreover have "lines ''a todo'' = [''a todo'']" "contains ''a todo'' ''todo''" by code_simp+
  ultimately show ?thesis
    using v by (simp add: file_matches_def matching_lines_def line_matches_def search_files_options_default_def no_redaction
        is_plaintext_like_def Let_def)
qed

theorem search_files_exact_witness:
  "\<exists>r. search_files (one_file_env ''a todo'') one_file_walk [RootDir] ''todo'' search_files_options_default = Inr r
     \<and> ss_matches (sr_found r) = [\<lparr>fm_path = [RootDir, Normal ''notes.txt''], fm_line = 1, fm_text = ''a todo''\<rparr>]"
proof -
  let ?env = "one_file_env ''a todo''" and ?opts = search_files_options_default
  have fm: "file_matches ?env ?opts ''todo'' ([RootDir, Normal ''notes.txt''], ''notes.txt'')
      = [\<lparr>fm_path = [RootDir, Normal ''notes.txt''], fm_line = 1, fm_text = ''a todo''\<rparr>]"
    by (rule one_file_matches)
  obtain r where "search_files ?env one_file_walk [RootDir] ''todo'' ?opts = Inr r"
    by (simp add: search_files_def search_files_options_default_def case_prod_beta)
  then show ?thesis
    using search_files_exact [of ?env one_file_walk "[RootDir]" "''todo''" ?opts] fm
    by (simp add: one_file_walk_def search_files_options_default_def)
qed

end
