(* ===== verification/Local_Git.thy ===== *)
theory Local_Git
  imports Local_Text Action_Complete
begin

text \<open>
  \<open>termlm-local-tools/src/git_context.rs\<close>: the state of a repository from the output of git. Running git is a
  parameter: the output, or the message of the error. \<open>None\<close> is the panic of a slice or a cut inside a
  character.
\<close>

record git_context_options =
  gc_max_changed_files :: nat
  gc_max_recent_commits :: nat
  gc_include_diff_summary :: bool
  gc_max_diff_bytes :: nat

definition git_context_options_default :: git_context_options where
  "git_context_options_default =
     \<lparr>gc_max_changed_files = 200, gc_max_recent_commits = 10, gc_include_diff_summary = True, gc_max_diff_bytes = 12000\<rparr>"

record git_changes =
  gx_staged_files :: "string list"
  gx_unstaged_files :: "string list"
  gx_untracked_files :: "string list"
  gx_conflict_files :: "string list"
  gx_changed_files_truncated :: bool

record git_context_result =
  gr_status :: string
  gr_root :: "string option"
  gr_branch :: "string option"
  gr_upstream :: "string option"
  gr_ahead :: nat
  gr_behind :: nat
  gr_dirty :: bool
  gr_changes :: git_changes
  gr_stash_count :: nat
  gr_recent_commits :: "string list"
  gr_diff_summary :: "string option"
  gr_diff_truncated :: bool

type_synonym run_git = "string list \<Rightarrow> string + string"

definition no_changes :: git_changes where
  "no_changes =
     \<lparr>gx_staged_files = [], gx_unstaged_files = [], gx_untracked_files = [], gx_conflict_files = [],
      gx_changed_files_truncated = False\<rparr>"

text \<open>A file is added to a list of at most \<open>limit\<close>; whether there was room.\<close>

definition push_capped :: "nat \<Rightarrow> bool \<Rightarrow> string \<Rightarrow> string list \<Rightarrow> string list \<times> bool" where
  "push_capped limit wanted p xs = (if \<not> wanted then (xs, True) else if length xs < limit then (xs @ [p], True) else (xs, False))"

text \<open>One line of the status: two letters, a blank and the path.\<close>

definition note_change :: "nat \<Rightarrow> rchar \<Rightarrow> rchar \<Rightarrow> string \<Rightarrow> git_changes \<Rightarrow> git_changes" where
  "note_change limit x y p g =
     (let (staged, ok1) = push_capped limit (x \<noteq> '' '' \<and> x \<noteq> ''?'') p (gx_staged_files g);
          (unstaged, ok2) = push_capped limit (y \<noteq> '' '') p (gx_unstaged_files g);
          (untracked, ok3) = push_capped limit (x = ''?'' \<and> y = ''?'') p (gx_untracked_files g);
          (conflict, ok4) = push_capped limit (x = ''U'' \<or> y = ''U'' \<or> x = ''A'' \<and> y = ''A'' \<or> x = ''D'' \<and> y = ''D'') p
            (gx_conflict_files g)
      in \<lparr>gx_staged_files = staged, gx_unstaged_files = unstaged, gx_untracked_files = untracked,
          gx_conflict_files = conflict,
          gx_changed_files_truncated = gx_changed_files_truncated g \<or> \<not> (ok1 \<and> ok2 \<and> ok3 \<and> ok4)\<rparr>)"

definition nth_char :: "string \<Rightarrow> nat \<Rightarrow> rchar" where
  "nth_char s i = (if i < length (chars s) then chars s ! i else '' '')"

definition status_line :: "nat \<Rightarrow> string \<Rightarrow> git_changes \<Rightarrow> git_changes option" where
  "status_line limit l g =
     (if length l < 4 then Some g
      else map_option (\<lambda>p. note_change limit (nth_char l 0) (nth_char l 1) p g) (slice_from l 3))"

fun status_lines :: "nat \<Rightarrow> string list \<Rightarrow> git_changes \<Rightarrow> git_changes option" where
  "status_lines limit [] g = Some g"
| "status_lines limit (l # ls) g = Option.bind (status_line limit l g) (status_lines limit ls)"

text \<open>The unmerged files of the diff, up to the limit.\<close>

fun conflict_names :: "nat \<Rightarrow> string list \<Rightarrow> git_changes \<Rightarrow> git_changes" where
  "conflict_names limit [] g = g"
| "conflict_names limit (l # ls) g =
     (let p = trim l
      in if p = [] \<or> p \<in> set (gx_conflict_files g) then conflict_names limit ls g
         else if length (gx_conflict_files g) < limit
         then conflict_names limit ls (g\<lparr>gx_conflict_files := gx_conflict_files g @ [p]\<rparr>)
         else g\<lparr>gx_changed_files_truncated := True\<rparr>)"

definition or_empty :: "string + string \<Rightarrow> string" where
  "or_empty r = (case r of Inr s \<Rightarrow> s | Inl _ \<Rightarrow> [])"

definition parse_count :: "string option \<Rightarrow> nat" where
  "parse_count tok = (case Option.bind tok parse_u32 of Some n \<Rightarrow> n | None \<Rightarrow> 0)"

definition upstream_ahead_behind :: "run_git \<Rightarrow> (nat \<times> nat) option" where
  "upstream_ahead_behind git =
     (case git [''rev-list'', ''--left-right'', ''--count'', CHR 0x40 # ''{u}...HEAD''] of
        Inl _ \<Rightarrow> None
      | Inr counts \<Rightarrow>
          let parts = split_whitespace counts;
              part = (\<lambda>i. if i < length parts then Some (parts ! i) else None)
          in Some (parse_count (part 1), parse_count (part 0)))"

definition diff_section :: "string \<Rightarrow> string \<Rightarrow> string list" where
  "diff_section label stat = (if trim stat \<noteq> [] then [label @ [CHR 0x0A] @ trim_end stat] else [])"

text \<open>\<open>String::truncate\<close> panics when the length is inside a character. The summary and whether it was cut.\<close>

definition diff_summary ::
  "run_git \<Rightarrow> redaction_engine \<Rightarrow> git_context_options \<Rightarrow> (string option \<times> bool) option" where
  "diff_summary git rx opts =
     (if \<not> gc_include_diff_summary opts then Some (None, False)
      else let sections = diff_section ''unstaged:'' (or_empty (git [''diff'', ''--stat'', ''--no-color'']))
                 @ diff_section ''staged:'' (or_empty (git [''diff'', ''--cached'', ''--stat'', ''--no-color'']));
               combined = join [CHR 0x0A, CHR 0x0A] sections
           in if trim combined = [] then Some (None, False)
              else let s = redact_secrets rx combined
                   in if length s \<le> gc_max_diff_bytes opts then Some (Some s, False)
                      else if is_char_boundary s (gc_max_diff_bytes opts)
                      then Some (Some (take (gc_max_diff_bytes opts) s), True) else None)"

definition is_not_a_git_repository_error :: "string \<Rightarrow> bool" where
  "is_not_a_git_repository_error msg = contains (to_ascii_lowercase msg) ''not a git repository''"

definition not_a_git_repository :: "string \<Rightarrow> git_context_result" where
  "not_a_git_repository root =
     \<lparr>gr_status = ''not_a_git_repository'', gr_root = Some root, gr_branch = None, gr_upstream = None, gr_ahead = 0,
      gr_behind = 0, gr_dirty = False, gr_changes = no_changes, gr_stash_count = 0, gr_recent_commits = [],
      gr_diff_summary = None, gr_diff_truncated = False\<rparr>"

definition upstream_of :: "run_git \<Rightarrow> string option" where
  "upstream_of git =
     (case git [''rev-parse'', ''--abbrev-ref'', ''--symbolic-full-name'', CHR 0x40 # ''{u}''] of
        Inl _ \<Rightarrow> None
      | Inr s \<Rightarrow> if trim s \<noteq> [] then Some (trim s) else None)"

definition git_changes_of :: "run_git \<Rightarrow> nat \<Rightarrow> string \<Rightarrow> git_changes option" where
  "git_changes_of git limit status =
     map_option (conflict_names limit (lines (or_empty (git [''diff'', ''--name-only'', ''--diff-filter=U'']))))
       (status_lines limit (lines status) no_changes)"

text \<open>After the branch and the status have been read.\<close>

definition git_report ::
  "run_git \<Rightarrow> redaction_engine \<Rightarrow> git_context_options \<Rightarrow> string \<Rightarrow> string \<Rightarrow> git_changes \<Rightarrow> string + git_context_result option"
where
  "git_report git rx opts root branch g =
     (let upstream = upstream_of git;
          (ahead, behind) = (if upstream \<noteq> None then (case upstream_ahead_behind git of Some v \<Rightarrow> v | None \<Rightarrow> (0, 0)) else (0, 0));
          stashes = length (filter (\<lambda>l. trim l \<noteq> []) (lines (or_empty (git [''stash'', ''list'']))))
      in case git [''log'', ''--oneline'', ''-n'', show_nat (max (gc_max_recent_commits opts) 1)] of
           Inl err \<Rightarrow> Inl err
         | Inr commits \<Rightarrow>
             Inr (map_option (\<lambda>(summary, was_cut).
               \<lparr>gr_status = ''ok'', gr_root = Some root, gr_branch = Some (trim branch), gr_upstream = upstream,
                gr_ahead = ahead, gr_behind = behind,
                gr_dirty = (gx_staged_files g \<noteq> [] \<or> gx_unstaged_files g \<noteq> [] \<or> gx_untracked_files g \<noteq> []
                  \<or> gx_conflict_files g \<noteq> []),
                gr_changes = g, gr_stash_count = stashes, gr_recent_commits = lines commits,
                gr_diff_summary = summary, gr_diff_truncated = was_cut\<rparr>) (diff_summary git rx opts)))"

definition git_context ::
  "run_git \<Rightarrow> redaction_engine \<Rightarrow> string \<Rightarrow> git_context_options \<Rightarrow> string + git_context_result option" where
  "git_context git rx root opts =
     (case git [''rev-parse'', ''--show-toplevel''] of
        Inl err \<Rightarrow> if is_not_a_git_repository_error err then Inr (Some (not_a_git_repository root)) else Inl err
      | Inr toplevel \<Rightarrow>
          (case git [''rev-parse'', ''--abbrev-ref'', ''HEAD''] of
             Inl err \<Rightarrow> Inl err
           | Inr branch \<Rightarrow>
               (case git [''status'', ''--porcelain''] of
                  Inl err \<Rightarrow> Inl err
                | Inr status \<Rightarrow>
                    (case git_changes_of git (gc_max_changed_files opts) status of
                       None \<Rightarrow> Inr None
                     | Some g \<Rightarrow> git_report git rx opts (trim toplevel) branch g))))"

end
