(* ===== verification/Local_Roots.thy ===== *)
theory Local_Roots
  imports Local_Workspace Local_Git "HOL-Library.Multiset"
begin

text \<open>
  Which roots a workspace can have, the order of a listing, and what the lists of a repository hold.
\<close>

section \<open>Roots\<close>

lemma climb_Some:
  assumes "climb env extra cur = Some p"
  shows "prefix p cur" "has_markers env extra p" "\<And>q. prefix q cur \<Longrightarrow> length p < length q \<Longrightarrow> \<not> has_markers env extra q"
proof -
  have "prefix p cur \<and> has_markers env extra p \<and> (\<forall>q. prefix q cur \<longrightarrow> length p < length q \<longrightarrow> \<not> has_markers env extra q)"
    using assms
  proof (induction env extra cur rule: climb.induct)
    case (1 env extra cur)
    show ?case
    proof (cases "has_markers env extra cur")
      case True
      then have "p = cur" using "1.prems" by (simp add: climb.simps)
      then show ?thesis using True by (auto dest: prefix_length_le)
    next
      case False
      then have c: "cur \<noteq> []" "cur \<noteq> [RootDir]" "climb env extra (butlast cur) = Some p"
        using "1.prems" by (auto simp: climb.simps [of env extra cur] split: if_splits)
      note IH = "1.IH" [OF False _ c(3)]
      have b: "prefix p (butlast cur)" "has_markers env extra p"
        "\<And>q. prefix q (butlast cur) \<Longrightarrow> length p < length q \<Longrightarrow> \<not> has_markers env extra q"
        using IH c by blast+
      have "prefix q cur \<Longrightarrow> q = cur \<or> prefix q (butlast cur)" for q
        using c(1) by (metis append_butlast_last_id prefix_snoc)
      moreover have "prefix p cur" using b(1) by (metis append_butlast_last_id c(1) prefix_prefix)
      ultimately show ?thesis using b False by blast
    qed
  qed
  then show "prefix p cur" "has_markers env extra p" "\<And>q. prefix q cur \<Longrightarrow> length p < length q \<Longrightarrow> \<not> has_markers env extra q"
    by blast+
qed

lemma blocked_below:
  assumes "is_blocked root" "prefix root cwd" "\<not> is_blocked cwd"
  shows "root = [RootDir]"
proof (rule ccontr)
  assume r: "root \<noteq> [RootDir]"
  then obtain b where b: "b \<in> set BLOCKED_ROOTS" "path_of b \<noteq> [RootDir]" "prefix (path_of b) root"
    using assms(1) by (fastforce simp: is_blocked_def list_ex_iff path_starts_with_def split: if_splits)
  then have "prefix (path_of b) cwd" using assms(2) by (blast intro: prefix_order.trans)
  then have "is_blocked cwd" using b by (auto simp: is_blocked_def list_ex_iff path_starts_with_def)
  then show False using assms(3) by simp
qed

text \<open>C12: A directory that may not be a workspace becomes one only through the loop over the parents: it is the root of
  the file system or the home directory, has a marker, and lies above the working directory. An explicit
  root and an ad-hoc workspace are always allowed.\<close>

theorem denied_roots_only_by_marker:
  assumes "wr_root (resolve_workspace_root_with_markers env cwd explicit allow_home allow_system extra) = Some root"
    and "denied env allow_home allow_system root"
  shows "explicit = None
    \<and> wr_reason (resolve_workspace_root_with_markers env cwd explicit allow_home allow_system extra) = ''marker_detected''
    \<and> (root = [RootDir] \<or> home_dir env = Some root) \<and> has_markers env extra root
    \<and> strict_prefix root (canonical env cwd)"
proof -
  let ?cwd = "canonical env cwd"
  have c: "explicit = None" "\<not> denied env allow_home allow_system ?cwd" "climb env extra ?cwd = Some root"
    using assms by (auto simp: resolve_workspace_root_with_markers_def Let_def split: option.splits if_splits)
  note r = climb_Some [OF c(3)]
  have "root \<noteq> ?cwd" using assms(2) c(2) by blast
  moreover have "root = [RootDir] \<or> home_dir env = Some root"
    using assms(2) c(2) blocked_below [OF _ r(1)] unfolding denied_def by blast
  ultimately show ?thesis using c r
    by (simp add: resolve_workspace_root_with_markers_def Let_def strict_prefix_def)
qed

definition dotfiles_env :: workspace_env where
  "dotfiles_env =
     \<lparr>wk_paths = \<lparr>fe_canonicalize = Some, fe_home = Some ''/home/ann'', fe_cwd = None\<rparr>,
      wk_exists = (\<lambda>p. p = path_of ''/home/ann/.git'')\<rparr>"

theorem denied_roots_only_by_marker_witness:
  "wr_root (resolve_workspace_root_with_markers dotfiles_env (path_of ''/home/ann/notes'') None False False [])
     = Some (path_of ''/home/ann'')
   \<and> has_markers dotfiles_env [] (path_of ''/home/ann'')
   \<and> strict_prefix (path_of ''/home/ann'') (canonical dotfiles_env (path_of ''/home/ann/notes''))"
proof -
  have "resolve_workspace_root_with_markers dotfiles_env (path_of ''/home/ann/notes'') None False False []
      = \<lparr>wr_root = Some (path_of ''/home/ann''), wr_reason = ''marker_detected''\<rparr>"
    "denied dotfiles_env False False (path_of ''/home/ann'')"
    by code_simp+
  then show ?thesis
    using denied_roots_only_by_marker [of dotfiles_env "path_of ''/home/ann/notes''" None False False "[]" "path_of ''/home/ann''"]
    by simp
qed

section \<open>The listing\<close>

text \<open>The order of the code's comparison.\<close>

definition listed_before :: "candidate_entry \<Rightarrow> candidate_entry \<Rightarrow> bool" where
  "listed_before a b \<longleftrightarrow>
     ca_priority a < ca_priority b \<or> ca_priority a = ca_priority b \<and>
       (ca_depth a < ca_depth b \<or> ca_depth a = ca_depth b \<and>
         (ca_mtime_secs b < ca_mtime_secs a \<or> ca_mtime_secs a = ca_mtime_secs b \<and> ca_rel a \<le> ca_rel b))"

lemma sorted_wrt_by_key:
  assumes "sorted (map f ys)" "\<And>k. sorted_wrt R (filter (\<lambda>y. f y = k) ys)"
  shows "sorted_wrt (\<lambda>a b. f a < f b \<or> f a = f b \<and> R a b) ys"
  using assms
proof (induction ys)
  case Nil
  then show ?case by simp
next
  case (Cons y ys)
  have "sorted_wrt R (filter (\<lambda>z. f z = k) ys)" for k
    using Cons.prems(2) [of k] by (simp split: if_splits)
  moreover have "f y < f z \<or> f y = f z \<and> R y z" if "z \<in> set ys" for z
    using Cons.prems(1) Cons.prems(2) [of "f y"] that by (auto simp: order.order_iff_strict)
  ultimately show ?case using Cons by simp
qed

lemma sort_key_keeps_order:
  assumes "sorted_wrt R xs"
  shows "sorted_wrt (\<lambda>a b. f a < f b \<or> f a = f b \<and> R a b) (sort_key f xs)"
proof (rule sorted_wrt_by_key)
  fix k
  show "sorted_wrt R (filter (\<lambda>y. f y = k) (sort_key f xs))"
    by (simp only: sort_key_stable) (rule sorted_wrt_filter [OF assms])
qed simp

lemma sort_candidates_sorted: "sorted_wrt listed_before (sort_candidates cs)"
proof -
  have "sorted_wrt (\<lambda>a b. ca_rel a \<le> ca_rel b) (sort_key ca_rel cs)"
    using sorted_sort_key [of ca_rel cs] by (simp add: sorted_map)
  from sort_key_keeps_order [OF sort_key_keeps_order [OF sort_key_keeps_order [OF this]]]
  have "sorted_wrt (\<lambda>a b. ca_priority a < ca_priority b \<or> ca_priority a = ca_priority b \<and>
       (ca_depth a < ca_depth b \<or> ca_depth a = ca_depth b \<and>
         (- int (ca_mtime_secs a) < - int (ca_mtime_secs b) \<or> - int (ca_mtime_secs a) = - int (ca_mtime_secs b)
           \<and> ca_rel a \<le> ca_rel b))) (sort_candidates cs)"
    by (simp only: sort_candidates_def)
  then show ?thesis by (rule sorted_wrt_mono_rel [rotated]) (auto simp: listed_before_def)
qed

lemma mset_sort_candidates [simp]: "mset (sort_candidates cs) = mset cs"
  by (simp add: sort_candidates_def)

text \<open>C25: A listing has at most the requested number of entries, none of them in a noise directory, in the order of
  priority, depth, newest first and path; when it is not marked as truncated it holds every kept entry of the
  walk exactly once.\<close>

theorem listing_exact:
  "\<exists>cs. lw_entries (list_workspace_files walk root n d hidden)
        = map (\<lambda>c. \<lparr>wn_path = root @ map Normal (ca_rel c), wn_kind = ca_kind c\<rparr>) cs
    \<and> length cs \<le> n \<and> sorted_wrt listed_before cs
    \<and> mset cs \<subseteq># mset (map candidate_of (filter kept_entry (walk root d hidden)))
    \<and> (lw_truncated (list_workspace_files walk root n d hidden)
       \<or> mset cs = mset (map candidate_of (filter kept_entry (walk root d hidden))))"
proof -
  define entries where "entries = filter kept_entry (walk root d hidden)"
  define all_cs where "all_cs = sort_candidates (map candidate_of (take (usize_sat_mul n 4) entries))"
  have r: "list_workspace_files walk root n d hidden =
    \<lparr>lw_root = root, lw_entries = map (\<lambda>c. \<lparr>wn_path = root @ map Normal (ca_rel c), wn_kind = ca_kind c\<rparr>) (take n all_cs),
     lw_truncated = usize_sat_mul n 4 < length entries \<or> n < length all_cs\<rparr>"
    by (simp add: list_workspace_files_def entries_def all_cs_def Let_def)
  have m: "mset all_cs = mset (map candidate_of (take (usize_sat_mul n 4) entries))"
    by (simp only: all_cs_def mset_sort_candidates)
  have sub: "mset (take k xs) \<subseteq># mset xs" for k and xs :: "candidate_entry list"
    by (metis append_take_drop_id mset_append mset_subset_eq_add_left)
  have "mset (take n all_cs) \<subseteq># mset (map candidate_of entries)"
    using sub [of n all_cs] sub [of "usize_sat_mul n 4" "map candidate_of entries"]
    by (simp only: m take_map subset_mset.order_trans)
  moreover have "sorted_wrt listed_before (take n all_cs)"
    using sorted_wrt_take [OF sort_candidates_sorted] by (simp only: all_cs_def)
  moreover have "usize_sat_mul n 4 < length entries \<or> n < length all_cs \<or> mset (take n all_cs) = mset (map candidate_of entries)"
    using m by (cases "length entries \<le> usize_sat_mul n 4"; cases "length all_cs \<le> n") simp_all
  ultimately show ?thesis unfolding r entries_def [symmetric] by (intro exI [of _ "take n all_cs"]) auto
qed

section \<open>The state of a repository\<close>

definition changes_within :: "nat \<Rightarrow> git_changes \<Rightarrow> bool" where
  "changes_within limit g \<longleftrightarrow>
     length (gx_staged_files g) \<le> limit \<and> length (gx_unstaged_files g) \<le> limit
     \<and> length (gx_untracked_files g) \<le> limit \<and> length (gx_conflict_files g) \<le> limit"

definition untracked_doubled :: "git_changes \<Rightarrow> bool" where
  "untracked_doubled g \<longleftrightarrow> gx_changed_files_truncated g \<or> set (gx_untracked_files g) \<subseteq> set (gx_unstaged_files g)"

lemma push_capped_length: "length xs \<le> limit \<Longrightarrow> length (fst (push_capped limit w p xs)) \<le> limit"
  by (simp add: push_capped_def)

lemma push_capped_keeps: "set xs \<subseteq> set (fst (push_capped limit w p xs))"
  by (auto simp: push_capped_def)

lemma push_capped_adds: "w \<Longrightarrow> snd (push_capped limit w p xs) \<Longrightarrow> p \<in> set (fst (push_capped limit w p xs))"
  by (simp add: push_capped_def split: if_splits)

lemma push_capped_only: "q \<in> set (fst (push_capped limit w p xs)) \<Longrightarrow> q \<in> set xs \<or> w \<and> q = p"
  by (auto simp: push_capped_def split: if_splits)

lemma note_change_fields:
  "gx_unstaged_files (note_change limit x y p g) = fst (push_capped limit (y \<noteq> '' '') p (gx_unstaged_files g))"
  "gx_untracked_files (note_change limit x y p g) = fst (push_capped limit (x = ''?'' \<and> y = ''?'') p (gx_untracked_files g))"
  "\<not> gx_changed_files_truncated (note_change limit x y p g) \<Longrightarrow>
    \<not> gx_changed_files_truncated g \<and> snd (push_capped limit (y \<noteq> '' '') p (gx_unstaged_files g))"
  by (simp_all add: note_change_def Let_def case_prod_beta)

lemma note_change_within: "changes_within limit g \<Longrightarrow> changes_within limit (note_change limit x y p g)"
  by (simp add: changes_within_def note_change_def Let_def case_prod_beta push_capped_length)

lemma note_change_doubled:
  assumes "untracked_doubled g"
  shows "untracked_doubled (note_change limit x y p g)"
proof (cases "gx_changed_files_truncated (note_change limit x y p g)")
  case True
  then show ?thesis by (simp add: untracked_doubled_def)
next
  case False
  note f = note_change_fields(3) [OF False]
  then have sub: "set (gx_untracked_files g) \<subseteq> set (gx_unstaged_files g)" using assms by (simp add: untracked_doubled_def)
  have "q \<in> set (gx_unstaged_files (note_change limit x y p g))"
    if "q \<in> set (gx_untracked_files (note_change limit x y p g))" for q
  proof (cases "q \<in> set (gx_untracked_files g)")
    case True
    then show ?thesis using sub push_capped_keeps by (force simp: note_change_fields)
  next
    case False
    then have "y = ''?''" "q = p" using push_capped_only that by (force simp: note_change_fields)+
    then show ?thesis using f push_capped_adds by (simp add: note_change_fields)
  qed
  then show ?thesis by (auto simp: untracked_doubled_def)
qed

lemmas note_change_keeps = note_change_within note_change_doubled

lemma status_lines_keep:
  assumes "status_lines limit ls g = Some g1" "changes_within limit g" "untracked_doubled g"
  shows "changes_within limit g1 \<and> untracked_doubled g1"
  using assms
proof (induction ls arbitrary: g)
  case Nil
  then show ?case by simp
next
  case (Cons l ls)
  then obtain g2 where g2: "status_line limit l g = Some g2" "status_lines limit ls g2 = Some g1"
    by (auto simp: bind_eq_Some_conv)
  then have "changes_within limit g2 \<and> untracked_doubled g2"
    using Cons.prems(2,3) note_change_keeps by (auto simp: status_line_def split: if_splits)
  then show ?case using Cons.IH g2(2) by blast
qed

lemma conflict_names_keep:
  "changes_within limit g \<Longrightarrow> untracked_doubled g \<Longrightarrow>
    changes_within limit (conflict_names limit ls g) \<and> untracked_doubled (conflict_names limit ls g)"
proof (induction ls arbitrary: g)
  case Nil
  then show ?case by simp
next
  case (Cons l ls)
  have "changes_within limit (g\<lparr>gx_conflict_files := gx_conflict_files g @ [trim l]\<rparr>)"
    if "length (gx_conflict_files g) < limit" using Cons.prems(1) that by (simp add: changes_within_def)
  moreover have "untracked_doubled (g\<lparr>gx_conflict_files := fs\<rparr>)" for fs
    using Cons.prems(2) by (simp add: untracked_doubled_def)
  moreover have "changes_within limit (g\<lparr>gx_changed_files_truncated := True\<rparr>)"
    "untracked_doubled (g\<lparr>gx_changed_files_truncated := True\<rparr>)"
    using Cons.prems(1) by (simp_all add: changes_within_def untracked_doubled_def)
  ultimately show ?case using Cons by (simp add: Let_def)
qed

text \<open>The lists of changed files stay within the limit, and every untracked file is also reported as an unstaged
  change of a tracked file unless something was left out.\<close>

theorem untracked_reported_twice:
  assumes "git_changes_of git limit status = Some g"
  shows "length (gx_staged_files g) \<le> limit \<and> length (gx_unstaged_files g) \<le> limit
    \<and> length (gx_untracked_files g) \<le> limit \<and> length (gx_conflict_files g) \<le> limit
    \<and> (gx_changed_files_truncated g \<or> set (gx_untracked_files g) \<subseteq> set (gx_unstaged_files g))"
proof -
  obtain g1 where g1: "status_lines limit (lines status) no_changes = Some g1"
    "g = conflict_names limit (lines (or_empty (git [''diff'', ''--name-only'', ''--diff-filter=U'']))) g1"
    using assms by (auto simp: git_changes_of_def)
  have "changes_within limit no_changes" "untracked_doubled no_changes"
    by (simp_all add: no_changes_def changes_within_def untracked_doubled_def)
  with g1 status_lines_keep conflict_names_keep
  have "changes_within limit g \<and> untracked_doubled g" by blast
  then show ?thesis by (simp add: changes_within_def untracked_doubled_def)
qed

theorem untracked_reported_twice_witness:
  "\<exists>g. git_changes_of (\<lambda>_. Inr []) 10 (''?? notes.txt'') = Some g \<and> gx_untracked_files g = [''notes.txt'']
     \<and> set (gx_untracked_files g) \<subseteq> set (gx_unstaged_files g)"
proof -
  have "git_changes_of (\<lambda>_. Inr []) 10 (''?? notes.txt'') =
    Some \<lparr>gx_staged_files = [], gx_unstaged_files = [''notes.txt''], gx_untracked_files = [''notes.txt''],
      gx_conflict_files = [], gx_changed_files_truncated = False\<rparr>"
    by code_simp
  then show ?thesis using untracked_reported_twice by fastforce
qed

end
