(* ===== verification/Local_Project.thy ===== *)
theory Local_Project
  imports Local_Workspace Tool_Parser
begin

text \<open>
  \<open>termlm-local-tools/src/project_metadata.rs\<close>: the languages, package managers, scripts and CI files of a
  project. The file system and the parsers of JSON and TOML are parameters; sets are sorted lists.
\<close>

record project_env =
  pj_exists :: "string \<Rightarrow> bool"
  pj_is_file :: "string \<Rightarrow> bool"
  pj_len :: "string \<Rightarrow> nat option"
  pj_read :: "string \<Rightarrow> string option"
  pj_json :: "string \<Rightarrow> json option"
  pj_toml :: "string \<Rightarrow> json option"

record project_metadata_options =
  po_max_files_read :: nat
  po_max_bytes_per_file :: nat
  po_detect_scripts :: bool
  po_detect_package_managers :: bool
  po_detect_ci :: bool

definition project_metadata_options_default :: project_metadata_options where
  "project_metadata_options_default =
     \<lparr>po_max_files_read = 50, po_max_bytes_per_file = 65536, po_detect_scripts = True,
      po_detect_package_managers = True, po_detect_ci = True\<rparr>"

record project_info =
  pm_languages :: "string list"
  pm_package_managers :: "string list"
  pm_scripts :: "string list"
  pm_ci_files :: "string list"
  pm_files_read :: nat
  pm_files_scanned :: nat
  pm_truncated :: bool

definition no_metadata :: project_info where
  "no_metadata =
     \<lparr>pm_languages = [], pm_package_managers = [], pm_scripts = [], pm_ci_files = [], pm_files_read = 0,
      pm_files_scanned = 0, pm_truncated = False\<rparr>"

definition consume_file :: "project_env \<Rightarrow> project_metadata_options \<Rightarrow> string \<Rightarrow> project_info \<Rightarrow> project_info \<times> string option"
where
  "consume_file env opts p g0 =
     (let g = g0\<lparr>pm_files_scanned := usize_sat_add (pm_files_scanned g0) 1\<rparr>
      in if \<not> pj_exists env p \<or> \<not> pj_is_file env p then (g, None)
         else if po_max_files_read opts \<le> pm_files_read g then (g\<lparr>pm_truncated := True\<rparr>, None)
         else case pj_len env p of
           None \<Rightarrow> (g, None)
         | Some n \<Rightarrow>
             if po_max_bytes_per_file opts < n then (g\<lparr>pm_truncated := True\<rparr>, None)
             else (case pj_read env p of
               None \<Rightarrow> (g, None)
             | Some s \<Rightarrow> (g\<lparr>pm_files_read := usize_sat_add (pm_files_read g) 1\<rparr>, Some s)))"

definition add_language :: "string \<Rightarrow> project_info \<Rightarrow> project_info" where
  "add_language l g = g\<lparr>pm_languages := btree_insert l (pm_languages g)\<rparr>"

definition add_manager :: "project_metadata_options \<Rightarrow> string \<Rightarrow> project_info \<Rightarrow> project_info" where
  "add_manager opts m g =
     (if po_detect_package_managers opts then g\<lparr>pm_package_managers := btree_insert m (pm_package_managers g)\<rparr> else g)"

definition add_scripts :: "project_metadata_options \<Rightarrow> string list \<Rightarrow> project_info \<Rightarrow> project_info" where
  "add_scripts opts names g =
     (if po_detect_scripts opts then g\<lparr>pm_scripts := foldl (\<lambda>xs s. btree_insert s xs) (pm_scripts g) names\<rparr> else g)"

text \<open>The first 50 keys of a table.\<close>

definition table_keys :: "json option \<Rightarrow> string list" where
  "table_keys v = (case v of Some (JObj kvs) \<Rightarrow> take 50 (map fst kvs) | _ \<Rightarrow> [])"

definition json_path :: "json option \<Rightarrow> string list \<Rightarrow> json option" where
  "json_path = foldl (\<lambda>v k. Option.bind v (json_get k))"

definition cargo_part :: "project_env \<Rightarrow> project_metadata_options \<Rightarrow> project_info \<Rightarrow> project_info" where
  "cargo_part env opts g =
     (if pj_exists env ''Cargo.toml''
      then fst (consume_file env opts ''Cargo.toml''
             (add_scripts opts [''cargo build'', ''cargo test''] (add_manager opts ''cargo'' (add_language ''rust'' g))))
      else g)"

definition package_json_part :: "project_env \<Rightarrow> project_metadata_options \<Rightarrow> project_info \<Rightarrow> project_info" where
  "package_json_part env opts g =
     (case consume_file env opts ''package.json'' g of
        (g1, None) \<Rightarrow> g1
      | (g1, Some s) \<Rightarrow>
          add_scripts opts (map (\<lambda>name. ''npm run '' @ name) (table_keys (json_path (pj_json env s) [''scripts''])))
            (add_manager opts ''npm'' (add_language ''javascript'' g1)))"

definition pyproject_part :: "project_env \<Rightarrow> project_metadata_options \<Rightarrow> project_info \<Rightarrow> project_info" where
  "pyproject_part env opts g =
     (case consume_file env opts ''pyproject.toml'' g of
        (g1, None) \<Rightarrow> g1
      | (g1, Some s) \<Rightarrow>
          add_scripts opts
            (map (\<lambda>key. ''python -m '' @ key) (table_keys (json_path (pj_toml env s) [''project'', ''scripts'']))
             @ map (\<lambda>key. ''poetry run '' @ key) (table_keys (json_path (pj_toml env s) [''tool'', ''poetry'', ''scripts''])))
            (add_manager opts ''pip'' (add_language ''python'' g1)))"

definition go_part :: "project_env \<Rightarrow> project_metadata_options \<Rightarrow> project_info \<Rightarrow> project_info" where
  "go_part env opts g =
     (if pj_exists env ''go.mod''
      then add_scripts opts [''go test ./...''] (add_manager opts ''go'' (add_language ''go'' g)) else g)"

definition lockfiles :: "(string \<times> string) list" where
  "lockfiles =
     [(''package-lock.json'', ''npm''), (''yarn.lock'', ''yarn''), (''pnpm-lock.yaml'', ''pnpm''), (''bun.lockb'', ''bun''),
      (''Cargo.lock'', ''cargo''), (''poetry.lock'', ''poetry''), (''Pipfile.lock'', ''pipenv''), (''go.sum'', ''go'')]"

definition ci_paths :: "string list" where
  "ci_paths =
     [''.github/workflows'', ''.gitlab-ci.yml'', ''.circleci/config.yml'', ''azure-pipelines.yml'', ''buildkite.yml'']"

definition ci_part :: "project_env \<Rightarrow> project_metadata_options \<Rightarrow> project_info \<Rightarrow> project_info" where
  "ci_part env opts g =
     (if po_detect_ci opts
      then g\<lparr>pm_ci_files := foldl (\<lambda>xs p. btree_insert p xs) (pm_ci_files g) (filter (pj_exists env) ci_paths)\<rparr> else g)"

definition task_runners :: "project_env \<Rightarrow> string list" where
  "task_runners env =
     (if pj_exists env ''Makefile'' then [''make''] else [])
     @ (if pj_exists env ''justfile'' \<or> pj_exists env ''Justfile'' then [''just''] else [])
     @ (if pj_exists env ''Taskfile.yml'' then [''task''] else [])"

definition project_metadata :: "project_env \<Rightarrow> project_metadata_options \<Rightarrow> project_info" where
  "project_metadata env opts =
     (let g = go_part env opts (pyproject_part env opts (package_json_part env opts (cargo_part env opts no_metadata)));
          g = foldl (\<lambda>m (file, manager). if pj_exists env file then add_manager opts manager m else m) g lockfiles;
          g = ci_part env opts g
      in if pm_scripts g = [] then add_scripts opts (task_runners env) g else g)"

end
