(* ===== verification/Upgrade.thy ===== *)
theory Upgrade
  imports Local_Workspace "HOL-Library.AList"
begin

text \<open>
  \<open>termlm upgrade\<close> (\<open>termlm-client/src/upgrade.rs\<close>): which release asset is chosen, the check of its
  checksum, unpacking, the checks of the payload, and the installation as a sequence of file operations each
  of which can fail. A directory is a tree; the entries of a directory are read in the order of the list.
  The network, SHA-256, the archive reader, the JSON parser and the environment variables are parameters.
\<close>

section \<open>Releases\<close>

record release_asset =
  as_name :: string
  as_url :: string

record release =
  rl_tag_name :: string
  rl_assets :: "release_asset list"

record bundle_manifest =
  bm_schema_version :: nat
  bm_version :: string
  bm_target :: string
  bm_artifact_kind :: string
  bm_includes_models :: bool

record install_receipt =
  ir_release_tag :: string
  ir_bundle_version :: string
  ir_repository :: string
  ir_platform :: string
  ir_asset_name :: string
  ir_artifact_kind :: string
  ir_includes_models :: bool

definition DEFAULT_GITHUB_REPO :: string where
  "DEFAULT_GITHUB_REPO = ''thtmnisamnstr/termlm''"

definition GITHUB_API_BASE :: string where
  "GITHUB_API_BASE = ''https://api.github.com/repos''"

type_synonym env_vars = "string \<Rightarrow> string option"

definition not_blank :: "string option \<Rightarrow> string option" where
  "not_blank v = (case v of Some s \<Rightarrow> if trim s \<noteq> [] then Some s else None | None \<Rightarrow> None)"

definition or_default :: "string option \<Rightarrow> string \<Rightarrow> string" where
  "or_default v d = (case v of Some s \<Rightarrow> s | None \<Rightarrow> d)"

definition first_some :: "'a option \<Rightarrow> 'a option \<Rightarrow> 'a option" where
  "first_some a b = (case a of Some _ \<Rightarrow> a | None \<Rightarrow> b)"

definition resolve_repo :: "env_vars \<Rightarrow> string option \<Rightarrow> string" where
  "resolve_repo vars repo_override =
     or_default (not_blank (first_some repo_override (vars ''TERMLM_GITHUB_REPO''))) DEFAULT_GITHUB_REPO"

definition github_api_base :: "env_vars \<Rightarrow> string" where
  "github_api_base vars =
     (case map_option (\<lambda>v. trim_end_matches (any_of ''/'') (trim v)) (vars ''TERMLM_GITHUB_API_BASE'') of
        Some s \<Rightarrow> if s \<noteq> [] then s else GITHUB_API_BASE
      | None \<Rightarrow> GITHUB_API_BASE)"

definition github_token :: "env_vars \<Rightarrow> string option" where
  "github_token vars = not_blank (first_some (vars ''TERMLM_GITHUB_TOKEN'') (vars ''GITHUB_TOKEN''))"

definition release_url :: "string \<Rightarrow> string \<Rightarrow> string option \<Rightarrow> string" where
  "release_url api_base repo tag =
     (case tag of
        Some t \<Rightarrow> api_base @ ''/'' @ repo @ ''/releases/tags/'' @ t
      | None \<Rightarrow> api_base @ ''/'' @ repo @ ''/releases/latest'')"

definition platform_id_for :: "string \<Rightarrow> string \<Rightarrow> string option" where
  "platform_id_for os arch = (if os = ''macos'' \<and> arch = ''aarch64'' then Some ''darwin-arm64'' else None)"

definition allow_missing_checksums :: "env_vars \<Rightarrow> bool" where
  "allow_missing_checksums vars =
     (case vars ''TERMLM_UPGRADE_ALLOW_MISSING_CHECKSUMS'' of
        None \<Rightarrow> False
      | Some v \<Rightarrow> to_ascii_lowercase (trim v) \<in> {''1'', ''true'', ''yes''})"

definition upgrade_asset :: "string \<Rightarrow> release_asset \<Rightarrow> bool" where
  "upgrade_asset platform a \<longleftrightarrow>
     (let lower = to_ascii_lowercase (as_name a)
      in contains lower (to_ascii_lowercase platform) \<and> contains lower ''no-model''
         \<and> (ends_with lower ''.tar.gz'' \<or> ends_with lower ''.tgz''))"

definition select_upgrade_asset :: "release_asset list \<Rightarrow> string \<Rightarrow> release_asset option" where
  "select_upgrade_asset assets platform =
     (let found = sort_key (\<lambda>a. length (as_name a)) (filter (upgrade_asset platform) assets)
      in if found = [] then None else Some (last found))"

definition select_checksums_asset :: "release_asset list \<Rightarrow> release_asset option" where
  "select_checksums_asset assets =
     find (\<lambda>a. let lower = to_ascii_lowercase (as_name a)
               in lower = ''sha256sums'' \<or> lower = ''sha256sums.txt'' \<or> ends_with lower ''/sha256sums''
                  \<or> ends_with lower ''/sha256sums.txt'') assets"

section \<open>Checksums\<close>

definition hexdigit_byte :: "char \<Rightarrow> bool" where
  "hexdigit_byte b \<longleftrightarrow> byte_digit b \<or> byte_in 97 102 b \<or> byte_in 65 70 b"

text \<open>One line of the list: a name and its checksum in lower case.\<close>

definition sums_line :: "string \<Rightarrow> (string \<times> string) option" where
  "sums_line l =
     (let trimmed = trim l
      in if trimmed = [] \<or> starts_with trimmed ''#'' then None
         else case split_whitespace trimmed of
           sha # name # _ \<Rightarrow>
             if length sha \<noteq> 64 \<or> \<not> list_all (on_ascii hexdigit_byte) (chars sha) then None
             else Some (concat (dropWhile (any_of ''*'') (chars name)), to_ascii_lowercase sha)
         | _ \<Rightarrow> None)"

definition parse_sha256_sums :: "string \<Rightarrow> (string \<times> string) list" where
  "parse_sha256_sums s = foldl (\<lambda>m (name, sha). AList.update name sha m) [] (List.map_filter sums_line (lines s))"

definition file_name :: "string \<Rightarrow> string option" where
  "file_name p = (case rev (path_of p) of Normal n # _ \<Rightarrow> Some n | _ \<Rightarrow> None)"

definition expected_checksum :: "(string \<times> string) list \<Rightarrow> string \<Rightarrow> string option" where
  "expected_checksum sums asset_name = first_some (map_of sums asset_name) (Option.bind (file_name asset_name) (map_of sums))"

definition verify_checksum_from_sums :: "(string \<Rightarrow> string) \<Rightarrow> string \<Rightarrow> string \<Rightarrow> string \<Rightarrow> string + unit" where
  "verify_checksum_from_sums sha256 archive sums asset_name =
     (case expected_checksum (parse_sha256_sums sums) asset_name of
        None \<Rightarrow> Inl ''checksum entry missing''
      | Some expected \<Rightarrow> if sha256 archive \<noteq> expected then Inl ''checksum mismatch'' else Inr ())"

section \<open>Unpacking\<close>

datatype node = FileNode string | DirNode "(string \<times> node) list"

datatype tar_kind = TarDir | TarLink | TarFile string

record tar_entry =
  te_path :: path
  te_kind :: tar_kind

text \<open>The names below the destination.\<close>

fun safe_join :: "path \<Rightarrow> string list option" where
  "safe_join [] = Some []"
| "safe_join (Normal seg # cs) = map_option (Cons seg) (safe_join cs)"
| "safe_join (CurDir # cs) = safe_join cs"
| "safe_join (_ # cs) = None"

text \<open>Creating the directories of a path, and writing a file whose directories are created; an existing file in the
  way is an error, and so is a directory in the place of the file.\<close>

fun make_dirs :: "string list \<Rightarrow> (string \<times> node) list \<Rightarrow> (string \<times> node) list option" where
  "make_dirs [] kids = Some kids"
| "make_dirs (n # ns) kids =
     (case map_of kids n of
        None \<Rightarrow> map_option (\<lambda>k. AList.update n (DirNode k) kids) (make_dirs ns [])
      | Some (DirNode k) \<Rightarrow> map_option (\<lambda>k1. AList.update n (DirNode k1) kids) (make_dirs ns k)
      | Some (FileNode _) \<Rightarrow> None)"

fun write_file :: "string list \<Rightarrow> string \<Rightarrow> (string \<times> node) list \<Rightarrow> (string \<times> node) list option" where
  "write_file [] c kids = None"
| "write_file [n] c kids =
     (case map_of kids n of Some (DirNode _) \<Rightarrow> None | _ \<Rightarrow> Some (AList.update n (FileNode c) kids))"
| "write_file (n # m # ns) c kids =
     (case map_of kids n of
        None \<Rightarrow> map_option (\<lambda>k. AList.update n (DirNode k) kids) (write_file (m # ns) c [])
      | Some (DirNode k) \<Rightarrow> map_option (\<lambda>k1. AList.update n (DirNode k1) kids) (write_file (m # ns) c k)
      | Some (FileNode _) \<Rightarrow> None)"

definition unpack_entry :: "tar_entry \<Rightarrow> (string \<times> node) list \<Rightarrow> string + (string \<times> node) list" where
  "unpack_entry e kids =
     (case safe_join (te_path e) of
        None \<Rightarrow> Inl ''unsafe path in archive''
      | Some names \<Rightarrow>
          (case te_kind e of
             TarLink \<Rightarrow> Inl ''release bundles may not contain symlink/hardlink entries''
           | TarDir \<Rightarrow> (case make_dirs names kids of None \<Rightarrow> Inl ''create'' | Some k \<Rightarrow> Inr k)
           | TarFile c \<Rightarrow> (case write_file names c kids of None \<Rightarrow> Inl ''unpack'' | Some k \<Rightarrow> Inr k)))"

text \<open>An entry that cannot be read is none.\<close>

fun unpack_tar :: "tar_entry option list \<Rightarrow> (string \<times> node) list \<Rightarrow> string + (string \<times> node) list" where
  "unpack_tar [] kids = Inr kids"
| "unpack_tar (None # es) kids = Inl ''read tar entry''"
| "unpack_tar (Some e # es) kids =
     (case unpack_entry e kids of Inl err \<Rightarrow> Inl err | Inr k \<Rightarrow> unpack_tar es k)"

definition extract_release_bundle ::
  "(string \<Rightarrow> tar_entry option list) \<Rightarrow> string \<Rightarrow> string \<Rightarrow> string + (string \<times> node) list" where
  "extract_release_bundle untar name archive =
     (let lower = to_ascii_lowercase name
      in if ends_with lower ''.tar.gz'' \<or> ends_with lower ''.tgz'' \<or> ends_with lower ''.tar''
         then unpack_tar (untar archive) [] else Inl ''unsupported release archive format'')"

section \<open>The payload\<close>

fun lookup_node :: "string list \<Rightarrow> node \<Rightarrow> node option" where
  "lookup_node [] t = Some t"
| "lookup_node (n # ns) (DirNode kids) = Option.bind (map_of kids n) (lookup_node ns)"
| "lookup_node (n # ns) (FileNode _) = None"

definition has_path :: "node \<Rightarrow> string list \<Rightarrow> bool" where
  "has_path t ns = (lookup_node ns t \<noteq> None)"

definition is_payload_root :: "node \<Rightarrow> bool" where
  "is_payload_root t \<longleftrightarrow>
     has_path t [''bin'', ''termlm-core''] \<and> (has_path t [''bin'', ''termlm''] \<or> has_path t [''bin'', ''termlm-client''])
     \<and> has_path t [''plugins'', ''zsh'', ''termlm.plugin.zsh'']"

definition is_dir_node :: "node \<Rightarrow> bool" where
  "is_dir_node t = (case t of DirNode _ \<Rightarrow> True | FileNode _ \<Rightarrow> False)"

definition locate_payload_root :: "(string \<times> node) list \<Rightarrow> string + node" where
  "locate_payload_root kids =
     (if is_payload_root (DirNode kids) then Inr (DirNode kids)
      else case find (\<lambda>t. is_dir_node t \<and> is_payload_root t) (map snd kids) of
        Some t \<Rightarrow> Inr t
      | None \<Rightarrow> Inl ''release payload missing expected structure'')"

definition load_bundle_manifest :: "(string \<Rightarrow> bundle_manifest option) \<Rightarrow> node \<Rightarrow> string + bundle_manifest option" where
  "load_bundle_manifest parse root =
     (case lookup_node [''bundle-manifest.json''] root of
        None \<Rightarrow> Inr None
      | Some (DirNode _) \<Rightarrow> Inl ''read''
      | Some (FileNode c) \<Rightarrow>
          (case parse c of
             None \<Rightarrow> Inl ''parse''
           | Some m \<Rightarrow> if bm_schema_version m = 0 then Inl ''invalid bundle manifest schema_version=0'' else Inr (Some m)))"

fun contains_any_file :: "node \<Rightarrow> bool" where
  "contains_any_file (FileNode _) = True"
| "contains_any_file (DirNode kids) = list_ex (\<lambda>(_, t). contains_any_file t) kids"

text \<open>The directory of models, if any, must hold no file at any depth; a file in its place cannot be read as a
  directory.\<close>

definition enforce_no_models_bundle :: "node \<Rightarrow> bundle_manifest option \<Rightarrow> string + unit" where
  "enforce_no_models_bundle root manifest =
     (if (case manifest of None \<Rightarrow> False
          | Some m \<Rightarrow> bm_includes_models m \<or> \<not> eq_ignore_ascii_case (bm_artifact_kind m) ''no-models'')
      then Inl ''upgrade requires no-models release bundle''
      else case lookup_node [''models''] root of
        None \<Rightarrow> Inr ()
      | Some t \<Rightarrow> if contains_any_file t then Inl ''upgrade bundle unexpectedly contains model artifacts'' else Inr ())"

section \<open>Installing\<close>

text \<open>The installation: the files of the binary directory (temporary ones included) with their contents and whether they
  are executable, the plugin directory and its copy in progress, and the receipt and its copy.\<close>

record installation =
  in_bin :: "string \<rightharpoonup> string \<times> bool"
  in_plugin :: "node option"
  in_plugin_tmp :: "node option"
  in_receipt :: "install_receipt option"
  in_receipt_tmp :: "install_receipt option"

datatype install_step =
    CopyBinary string "string option"
  | MakeExecutable string
  | RenameBinary string
  | RemovePluginTmp
  | CopyPlugin "node option"
  | RemovePlugin
  | RenamePlugin
  | WriteReceipt install_receipt
  | RenameReceipt

definition tmp_name :: "string \<Rightarrow> string" where
  "tmp_name name = ''.'' @ name @ ''.upgrade''"

text \<open>\<open>copy_dir_recursive\<close> copies directories and regular files; the tree has nothing else.\<close>

fun done_step :: "install_step \<Rightarrow> installation \<Rightarrow> installation" where
  "done_step (CopyBinary name (Some c)) s = s\<lparr>in_bin := (in_bin s)(tmp_name name \<mapsto> (c, False))\<rparr>"
| "done_step (CopyBinary name None) s = s"
| "done_step (MakeExecutable name) s =
     s\<lparr>in_bin := (case in_bin s (tmp_name name) of None \<Rightarrow> in_bin s | Some (c, _) \<Rightarrow> (in_bin s)(tmp_name name \<mapsto> (c, True)))\<rparr>"
| "done_step (RenameBinary name) s =
     s\<lparr>in_bin := (in_bin s)(name := in_bin s (tmp_name name), tmp_name name := None)\<rparr>"
| "done_step RemovePluginTmp s = s\<lparr>in_plugin_tmp := None\<rparr>"
| "done_step (CopyPlugin t) s = s\<lparr>in_plugin_tmp := t\<rparr>"
| "done_step RemovePlugin s = s\<lparr>in_plugin := None\<rparr>"
| "done_step RenamePlugin s = s\<lparr>in_plugin := in_plugin_tmp s, in_plugin_tmp := None\<rparr>"
| "done_step (WriteReceipt r) s = s\<lparr>in_receipt_tmp := Some r\<rparr>"
| "done_step RenameReceipt s = s\<lparr>in_receipt := in_receipt_tmp s, in_receipt_tmp := None\<rparr>"

text \<open>What a failed step leaves behind: a failed copy or rename of a binary removes the temporary file.\<close>

fun failed_step :: "install_step \<Rightarrow> installation \<Rightarrow> installation" where
  "failed_step (CopyBinary name _) s = s\<lparr>in_bin := (in_bin s)(tmp_name name := None)\<rparr>"
| "failed_step (RenameBinary name) s = s\<lparr>in_bin := (in_bin s)(tmp_name name := None)\<rparr>"
| "failed_step _ s = s"

text \<open>A copy has a source that is a file; every other failure is up to the system.\<close>

fun step_possible :: "install_step \<Rightarrow> bool" where
  "step_possible (CopyBinary _ None) = False"
| "step_possible (CopyPlugin None) = False"
| "step_possible _ = True"

text \<open>\<open>fails k\<close> says that the operation number \<open>k\<close> fails.\<close>

fun run_steps :: "(nat \<Rightarrow> bool) \<Rightarrow> nat \<Rightarrow> install_step list \<Rightarrow> installation \<Rightarrow> installation \<times> bool" where
  "run_steps fails k [] s = (s, True)"
| "run_steps fails k (step # steps) s =
     (if fails k \<or> \<not> step_possible step then (failed_step step s, False)
      else run_steps fails (Suc k) steps (done_step step s))"

definition install_binary :: "string \<Rightarrow> string option \<Rightarrow> install_step list" where
  "install_binary dest src = [CopyBinary dest src, MakeExecutable dest, RenameBinary dest]"

definition install_dir_replace :: "node option \<Rightarrow> install_step list" where
  "install_dir_replace src = [RemovePluginTmp, CopyPlugin src, RemovePlugin, RenamePlugin]"

definition write_install_receipt :: "install_receipt \<Rightarrow> install_step list" where
  "write_install_receipt r = [WriteReceipt r, RenameReceipt]"

definition file_at :: "node \<Rightarrow> string list \<Rightarrow> string option" where
  "file_at t ns = (case lookup_node ns t of Some (FileNode c) \<Rightarrow> Some c | _ \<Rightarrow> None)"

definition cli_path :: "node \<Rightarrow> string list" where
  "cli_path root = (if has_path root [''bin'', ''termlm''] then [''bin'', ''termlm''] else [''bin'', ''termlm-client''])"

definition compat_path :: "node \<Rightarrow> string list" where
  "compat_path root =
     (if has_path root [''bin'', ''termlm-client''] then [''bin'', ''termlm-client''] else cli_path root)"

definition install_steps :: "node \<Rightarrow> install_step list" where
  "install_steps root =
     install_binary ''termlm'' (file_at root (cli_path root))
     @ install_binary ''termlm-core'' (file_at root [''bin'', ''termlm-core''])
     @ install_binary ''termlm-client'' (file_at root (compat_path root))
     @ install_dir_replace (lookup_node [''plugins'', ''zsh''] root)"

definition install_payload :: "(nat \<Rightarrow> bool) \<Rightarrow> node \<Rightarrow> installation \<Rightarrow> installation \<times> bool" where
  "install_payload fails root s =
     (if \<not> has_path root [''bin'', ''termlm''] \<and> \<not> has_path root [''bin'', ''termlm-client''] then (s, False)
      else if \<not> has_path root [''bin'', ''termlm-core''] then (s, False)
      else if \<not> has_path root [''plugins'', ''zsh'']
      then run_steps fails 0
             (install_binary ''termlm'' (file_at root (cli_path root))
              @ install_binary ''termlm-core'' (file_at root [''bin'', ''termlm-core''])
              @ install_binary ''termlm-client'' (file_at root (compat_path root)) @ [CopyPlugin None]) s
      else run_steps fails 0 (install_steps root) s)"

text \<open>\<open>--help\<close> of an installed binary is a parameter of its contents.\<close>

definition verify_installed_payload :: "(string \<Rightarrow> bool) \<Rightarrow> installation \<Rightarrow> bool" where
  "verify_installed_payload help_ok s \<longleftrightarrow>
     in_bin s ''termlm'' \<noteq> None \<and> in_bin s ''termlm-core'' \<noteq> None
     \<and> (case in_plugin s of Some t \<Rightarrow> file_at t [''termlm.plugin.zsh''] \<noteq> None | None \<Rightarrow> False)
     \<and> (\<forall>name \<in> {''termlm'', ''termlm-core''}. case in_bin s name of Some (c, x) \<Rightarrow> x \<and> help_ok c | None \<Rightarrow> False)"

section \<open>The command\<close>

record upgrade_env =
  ue_vars :: env_vars
  ue_os :: string
  ue_arch :: string
  ue_release :: "string \<Rightarrow> string option \<Rightarrow> release option"
  ue_download :: "string \<Rightarrow> string option \<Rightarrow> string option"
  ue_sha256 :: "string \<Rightarrow> string"
  ue_untar :: "string \<Rightarrow> tar_entry option list"
  ue_manifest :: "string \<Rightarrow> bundle_manifest option"
  ue_help_ok :: "string \<Rightarrow> bool"
  ue_fails :: "nat \<Rightarrow> bool"

text \<open>The archive of the asset, once its checksum has been checked or its absence is allowed.\<close>

definition checked_archive :: "upgrade_env \<Rightarrow> release \<Rightarrow> release_asset \<Rightarrow> string + string" where
  "checked_archive env rel asset =
     (let token = github_token (ue_vars env)
      in case ue_download env (as_url asset) token of
           None \<Rightarrow> Inl ''download''
         | Some archive \<Rightarrow>
             (case select_checksums_asset (rl_assets rel) of
                Some sums \<Rightarrow>
                  (case ue_download env (as_url sums) token of
                     None \<Rightarrow> Inl ''download''
                   | Some s \<Rightarrow>
                       (case verify_checksum_from_sums (ue_sha256 env) archive s (as_name asset) of
                          Inl _ \<Rightarrow> Inl ''release checksum validation failed''
                        | Inr _ \<Rightarrow> Inr archive))
              | None \<Rightarrow>
                  if allow_missing_checksums (ue_vars env) then Inr archive
                  else Inl ''release is missing SHA256SUMS; refusing upgrade''))"

definition checked_payload ::
  "upgrade_env \<Rightarrow> release_asset \<Rightarrow> string \<Rightarrow> string + (node \<times> bundle_manifest option)" where
  "checked_payload env asset archive =
     (case extract_release_bundle (ue_untar env) (as_name asset) archive of
        Inl err \<Rightarrow> Inl err
      | Inr kids \<Rightarrow>
          (case locate_payload_root kids of
             Inl err \<Rightarrow> Inl err
           | Inr root \<Rightarrow>
               (case load_bundle_manifest (ue_manifest env) root of
                  Inl err \<Rightarrow> Inl err
                | Inr manifest \<Rightarrow>
                    (case enforce_no_models_bundle root manifest of
                       Inl err \<Rightarrow> Inl err
                     | Inr _ \<Rightarrow> Inr (root, manifest)))))"

definition manifest_or_default :: "release \<Rightarrow> string \<Rightarrow> bundle_manifest option \<Rightarrow> bundle_manifest" where
  "manifest_or_default rel platform manifest =
     (case manifest of
        Some m \<Rightarrow> m
      | None \<Rightarrow> \<lparr>bm_schema_version = 1, bm_version = concat (dropWhile (any_of ''v'') (chars (rl_tag_name rel))),
                 bm_target = platform, bm_artifact_kind = ''no-models'', bm_includes_models = False\<rparr>)"

definition receipt_of :: "release \<Rightarrow> release_asset \<Rightarrow> string \<Rightarrow> bundle_manifest \<Rightarrow> install_receipt" where
  "receipt_of rel asset repo m =
     \<lparr>ir_release_tag = rl_tag_name rel, ir_bundle_version = bm_version m, ir_repository = repo, ir_platform = bm_target m,
      ir_asset_name = as_name asset, ir_artifact_kind = bm_artifact_kind m, ir_includes_models = bm_includes_models m\<rparr>"

text \<open>What is to be installed: the payload and its receipt.\<close>

definition upgrade_plan ::
  "upgrade_env \<Rightarrow> string option \<Rightarrow> string option \<Rightarrow> string + (node \<times> install_receipt)" where
  "upgrade_plan env repo_override tag =
     (let repo = resolve_repo (ue_vars env) repo_override
      in case platform_id_for (ue_os env) (ue_arch env) of
           None \<Rightarrow> Inl ''unsupported platform for upgrade''
         | Some platform \<Rightarrow>
             (case ue_release env (release_url (github_api_base (ue_vars env)) repo tag) (github_token (ue_vars env)) of
                None \<Rightarrow> Inl ''GitHub release request failed''
              | Some rel \<Rightarrow>
                  (case select_upgrade_asset (rl_assets rel) platform of
                     None \<Rightarrow> Inl ''release has no no-models bundle''
                   | Some asset \<Rightarrow>
                       (case checked_archive env rel asset of
                          Inl err \<Rightarrow> Inl err
                        | Inr archive \<Rightarrow>
                            (case checked_payload env asset archive of
                               Inl err \<Rightarrow> Inl err
                             | Inr (root, manifest) \<Rightarrow>
                                 if ue_vars env ''HOME'' = None then Inl ''HOME is not set''
                                 else Inr (root, receipt_of rel asset repo (manifest_or_default rel platform manifest)))))))"

definition run_upgrade :: "upgrade_env \<Rightarrow> string option \<Rightarrow> string option \<Rightarrow> installation \<Rightarrow> installation \<times> (string + unit)" where
  "run_upgrade env repo_override tag s =
     (case upgrade_plan env repo_override tag of
        Inl err \<Rightarrow> (s, Inl err)
      | Inr (root, receipt) \<Rightarrow>
          (case install_payload (ue_fails env) root s of
             (s1, False) \<Rightarrow> (s1, Inl ''install'')
           | (s1, True) \<Rightarrow>
               if \<not> verify_installed_payload (ue_help_ok env) s1 then (s1, Inl ''verify'')
               else case run_steps (ue_fails env) (length (install_steps root)) (write_install_receipt receipt) s1 of
                 (s2, False) \<Rightarrow> (s2, Inl ''receipt'')
               | (s2, True) \<Rightarrow> (s2, Inr ())))"

end
