(* ===== verification/Upgrade_Props.thy ===== *)
theory Upgrade_Props
  imports Upgrade
begin

text \<open>
  What an upgrade installs, and what a failed one leaves behind.
\<close>

section \<open>One binary\<close>

definition dest_names :: "string list" where
  "dest_names = [''termlm'', ''termlm-core'', ''termlm-client'']"

lemma tmp_name_fresh: "d \<in> set dest_names \<Longrightarrow> e \<in> set dest_names \<Longrightarrow> tmp_name d \<noteq> e"
  by (auto simp: dest_names_def tmp_name_def)

definition bin_installed :: "string \<Rightarrow> string \<Rightarrow> installation \<Rightarrow> installation" where
  "bin_installed d c s = s\<lparr>in_bin := (in_bin s)(d \<mapsto> (c, True), tmp_name d := None)\<rparr>"

lemma run_binary:
  assumes "tmp_name d \<noteq> d"
  obtains (finished) c where "src = Some c" "run_steps fails k (install_binary d src @ rest) s = run_steps fails (k + 3) rest (bin_installed d c s)"
  | (failed) x where "run_steps fails k (install_binary d src @ rest) s = (s\<lparr>in_bin := (in_bin s)(tmp_name d := x)\<rparr>, False)"
proof (cases src)
  case None
  then show thesis by (intro failed [of None]) (simp add: install_binary_def)
next
  case (Some c)
  consider "fails k" | "\<not> fails k" "fails (Suc k)" | "\<not> fails k" "\<not> fails (Suc k)" "fails (Suc (Suc k))"
    | "\<not> fails k" "\<not> fails (Suc k)" "\<not> fails (Suc (Suc k))" by blast
  then show thesis
  proof cases
    case 1
    then show thesis by (intro failed [of None]) (simp add: install_binary_def)
  next
    case 2
    then show thesis by (intro failed [of "Some (c, False)"]) (simp add: install_binary_def Some)
  next
    case 3
    then show thesis by (intro failed [of None]) (simp add: install_binary_def Some)
  next
    case 4
    have "(in_bin s)(tmp_name d \<mapsto> (c, True), d \<mapsto> (c, True), tmp_name d := None)
        = (in_bin s)(d \<mapsto> (c, True), tmp_name d := None)"
      using assms by (auto simp: fun_eq_iff)
    with 4 assms show thesis
      by (intro finished [OF Some]) (simp add: install_binary_def Some bin_installed_def eval_nat_numeral)
  qed
qed

lemma run_dir:
  assumes "run_steps fails k (install_dir_replace src) s = (s1, ok)"
  shows "in_bin s1 = in_bin s" "in_receipt s1 = in_receipt s" "in_plugin s1 \<in> {in_plugin s, None, src}"
    "ok \<Longrightarrow> in_plugin s1 = src \<and> src \<noteq> None"
  using assms by (cases src; auto simp: install_dir_replace_def split: if_splits)+

section \<open>Failed upgrades\<close>

text \<open>The contents that the payload has for a binary.\<close>

definition new_binary :: "node \<Rightarrow> string \<Rightarrow> string option" where
  "new_binary root name =
     (if name = ''termlm'' then file_at root (cli_path root)
      else if name = ''termlm-core'' then file_at root [''bin'', ''termlm-core'']
      else if name = ''termlm-client'' then file_at root (compat_path root) else None)"

definition whole :: "node \<Rightarrow> installation \<Rightarrow> installation \<Rightarrow> bool" where
  "whole root old s \<longleftrightarrow>
     (\<forall>name \<in> set dest_names. in_bin s name = in_bin old name
        \<or> (\<exists>c. new_binary root name = Some c \<and> in_bin s name = Some (c, True)))"

lemma whole_tmp: "whole root old s \<Longrightarrow> d \<in> set dest_names \<Longrightarrow> whole root old (s\<lparr>in_bin := (in_bin s)(tmp_name d := x)\<rparr>)"
  using tmp_name_fresh by (auto simp: whole_def)

lemma whole_installed:
  "whole root old s \<Longrightarrow> d \<in> set dest_names \<Longrightarrow> new_binary root d = Some c \<Longrightarrow> whole root old (bin_installed d c s)"
  using tmp_name_fresh [of d] by (fastforce simp: whole_def bin_installed_def)

lemma run_binary_whole:
  assumes "run_steps fails k (install_binary d (new_binary root d) @ rest) s = (s1, ok)" "d \<in> set dest_names"
    and "whole root old s"
    and "\<And>k' s'. whole root old s' \<Longrightarrow> in_plugin s' = in_plugin s \<Longrightarrow> run_steps fails k' rest s' = (s1, ok) \<Longrightarrow> P"
    and "whole root old s1 \<Longrightarrow> in_plugin s1 = in_plugin s \<Longrightarrow> \<not> ok \<Longrightarrow> P"
  shows P
proof -
  have t: "tmp_name d \<noteq> d" using tmp_name_fresh assms(2) by blast
  show P
  proof (rule run_binary [OF t, of "new_binary root d" fails k rest s])
    fix c
    assume "new_binary root d = Some c"
      "run_steps fails k (install_binary d (new_binary root d) @ rest) s = run_steps fails (k + 3) rest (bin_installed d c s)"
    then show P
      using assms(1) assms(4) [of "bin_installed d c s" "k + 3"] whole_installed [OF assms(3,2)] by (simp add: bin_installed_def)
  next
    fix x
    assume "run_steps fails k (install_binary d (new_binary root d) @ rest) s = (s\<lparr>in_bin := (in_bin s)(tmp_name d := x)\<rparr>, False)"
    then show P using assms(1) assms(5) whole_tmp [OF assms(3,2), of x] by auto
  qed
qed


section \<open>Successful upgrades\<close>

text \<open>The archive is the one the list of checksums names, or the check has been switched off.\<close>

definition archive_accepted :: "upgrade_env \<Rightarrow> release \<Rightarrow> release_asset \<Rightarrow> string \<Rightarrow> bool" where
  "archive_accepted env rel asset archive \<longleftrightarrow>
     ue_download env (as_url asset) (github_token (ue_vars env)) = Some archive
     \<and> (case select_checksums_asset (rl_assets rel) of
          None \<Rightarrow> allow_missing_checksums (ue_vars env)
        | Some sums_asset \<Rightarrow>
            (case ue_download env (as_url sums_asset) (github_token (ue_vars env)) of
               None \<Rightarrow> False
             | Some sums \<Rightarrow> expected_checksum (parse_sha256_sums sums) (as_name asset) = Some (ue_sha256 env archive)))"

definition entry_safe :: "tar_entry option \<Rightarrow> bool" where
  "entry_safe e \<longleftrightarrow> (case e of None \<Rightarrow> False | Some t \<Rightarrow> safe_join (te_path t) \<noteq> None \<and> te_kind t \<noteq> TarLink)"

definition no_models :: "node \<Rightarrow> bool" where
  "no_models root \<longleftrightarrow> (case lookup_node [''models''] root of None \<Rightarrow> True | Some t \<Rightarrow> \<not> contains_any_file t)"

lemma checked_archive_accepted: "checked_archive env rel asset = Inr archive \<Longrightarrow> archive_accepted env rel asset archive"
  by (auto simp: checked_archive_def archive_accepted_def verify_checksum_from_sums_def Let_def
      split: option.splits sum.splits if_splits)

lemma unpack_tar_safe: "unpack_tar es kids = Inr kids1 \<Longrightarrow> list_all entry_safe es"
  by (induction es kids rule: unpack_tar.induct)
    (auto simp: entry_safe_def unpack_entry_def split: sum.splits option.splits tar_kind.splits)

lemma checked_payload_facts:
  assumes "checked_payload env asset archive = Inr (root, manifest)"
  shows "list_all entry_safe (ue_untar env archive)" "no_models root" "is_payload_root root"
proof -
  obtain kids where k: "extract_release_bundle (ue_untar env) (as_name asset) archive = Inr kids" "locate_payload_root kids = Inr root"
    "enforce_no_models_bundle root manifest = Inr ()"
    using assms by (auto simp: checked_payload_def split: sum.splits)
  show "list_all entry_safe (ue_untar env archive)"
    using k(1) unpack_tar_safe by (auto simp: extract_release_bundle_def Let_def split: if_splits)
  show "no_models root" using k(3) by (auto simp: enforce_no_models_bundle_def no_models_def split: option.splits if_splits)
  show "is_payload_root root"
    using k(2) by (auto simp: locate_payload_root_def find_Some_iff split: option.splits if_splits)
qed

lemma lookup_node_append: "lookup_node (ns @ ms) t = Option.bind (lookup_node ns t) (lookup_node ms)"
  by (induction ns t rule: lookup_node.induct) (simp_all split: Option.bind_splits)

lemma payload_has_plugin: "is_payload_root root \<Longrightarrow> lookup_node [''plugins'', ''zsh''] root \<noteq> None"
  using lookup_node_append [of "[''plugins'', ''zsh'']" "[''termlm.plugin.zsh'']" root]
  by (auto simp: is_payload_root_def has_path_def bind_eq_Some_conv)

lemma run_binary_ok:
  assumes "run_steps fails k (install_binary d src @ rest) s = (s1, True)" "d \<in> set dest_names"
  obtains c where "src = Some c" "run_steps fails (k + 3) rest (bin_installed d c s) = (s1, True)"
proof -
  have t: "tmp_name d \<noteq> d" using tmp_name_fresh assms(2) by blast
  show thesis by (rule run_binary [OF t, of src fails k rest s]) (use assms(1) that in auto)
qed

lemma bin_installed_at: "d \<in> set dest_names \<Longrightarrow> e \<in> set dest_names \<Longrightarrow>
    in_bin (bin_installed d c s) e = (if e = d then Some (c, True) else in_bin s e)"
  using tmp_name_fresh [of d e] tmp_name_fresh [of d d] by (auto simp: bin_installed_def)

lemma install_steps_ok:
  assumes "run_steps fails k (install_steps root) s = (s1, True)"
  shows "\<forall>name \<in> set dest_names. \<exists>c. new_binary root name = Some c \<and> in_bin s1 name = Some (c, True)"
    "in_plugin s1 = lookup_node [''plugins'', ''zsh''] root"
proof -
  note d = dest_names_def
  obtain a where a: "file_at root (cli_path root) = Some a"
    "run_steps fails (k + 3) (install_binary ''termlm-core'' (file_at root [''bin'', ''termlm-core''])
      @ install_binary ''termlm-client'' (file_at root (compat_path root))
      @ install_dir_replace (lookup_node [''plugins'', ''zsh''] root)) (bin_installed ''termlm'' a s) = (s1, True)"
    using assms unfolding install_steps_def by (rule run_binary_ok) (simp_all add: d)
  obtain b where b: "file_at root [''bin'', ''termlm-core''] = Some b"
    "run_steps fails (k + 3 + 3) (install_binary ''termlm-client'' (file_at root (compat_path root))
      @ install_dir_replace (lookup_node [''plugins'', ''zsh''] root))
      (bin_installed ''termlm-core'' b (bin_installed ''termlm'' a s)) = (s1, True)"
    using a(2) by (rule run_binary_ok) (simp_all add: d)
  obtain c where c: "file_at root (compat_path root) = Some c"
    "run_steps fails (k + 3 + 3 + 3) (install_dir_replace (lookup_node [''plugins'', ''zsh''] root))
      (bin_installed ''termlm-client'' c (bin_installed ''termlm-core'' b (bin_installed ''termlm'' a s))) = (s1, True)"
    using b(2) by (rule run_binary_ok) (simp_all add: d)
  note e = run_dir [OF c(2)]
  show "in_plugin s1 = lookup_node [''plugins'', ''zsh''] root" using e(4) by simp
  show "\<forall>name \<in> set dest_names. \<exists>c. new_binary root name = Some c \<and> in_bin s1 name = Some (c, True)"
    using a(1) b(1) c(1) by (simp add: d e(1) bin_installed_at new_binary_def)
qed

lemma receipt_ok:
  assumes "run_steps fails k (write_install_receipt r) s = (s1, True)"
  shows "in_bin s1 = in_bin s" "in_plugin s1 = in_plugin s" "in_receipt s1 = Some r"
  using assms by (auto simp: write_install_receipt_def split: if_splits)


section \<open>A failed rename\<close>

definition demo_payload :: node where
  "demo_payload =
     DirNode [(''bin'', DirNode [(''termlm'', FileNode ''new cli''), (''termlm-core'', FileNode ''new core'')]),
       (''plugins'', DirNode [(''zsh'', DirNode [(''termlm.plugin.zsh'', FileNode ''new plugin'')])])]"

definition demo_installation :: installation where
  "demo_installation =
     \<lparr>in_bin = (\<lambda>name. if name \<in> set dest_names then Some (''old'', True) else None),
      in_plugin = Some (DirNode [(''termlm.plugin.zsh'', FileNode ''old plugin'')]), in_plugin_tmp = None,
      in_receipt = None, in_receipt_tmp = None\<rparr>"

text \<open>C36: When the last rename of an installation fails, the binaries are the new ones and there is no plugin at all:
  the old one has been removed, and nothing is rolled back.\<close>

theorem interrupted_upgrade_loses_plugin:
  assumes "\<And>k. fails k \<longleftrightarrow> k = 12" "is_payload_root root"
    and "\<forall>name \<in> set dest_names. new_binary root name \<noteq> None"
  shows "snd (install_payload fails root s) = False \<and> in_plugin (fst (install_payload fails root s)) = None
    \<and> (\<forall>name \<in> set dest_names. in_bin (fst (install_payload fails root s)) name = map_option (\<lambda>c. (c, True)) (new_binary root name))"
proof -
  note p = payload_has_plugin [OF assms(2)]
  obtain t where t: "lookup_node [''plugins'', ''zsh''] root = Some t" using p by blast
  obtain a b c where n: "file_at root (cli_path root) = Some a" "file_at root [''bin'', ''termlm-core''] = Some b"
    "file_at root (compat_path root) = Some c"
    using assms(3) by (auto simp: dest_names_def new_binary_def)
  have e: "install_payload fails root s = run_steps fails 0 (install_steps root) s"
    using assms(2) p by (auto simp: install_payload_def is_payload_root_def has_path_def)
  show ?thesis
    unfolding e
    by (simp add: install_steps_def install_binary_def install_dir_replace_def n t assms(1) dest_names_def new_binary_def tmp_name_def)
qed

theorem interrupted_upgrade_loses_plugin_witness:
  "in_plugin demo_installation \<noteq> None
   \<and> in_plugin (fst (install_payload (\<lambda>k. k = 12) demo_payload demo_installation)) = None
   \<and> in_bin (fst (install_payload (\<lambda>k. k = 12) demo_payload demo_installation)) ''termlm'' = Some (''new cli'', True)"
proof -
  have "is_payload_root demo_payload" "\<forall>name \<in> set dest_names. new_binary demo_payload name \<noteq> None"
    "new_binary demo_payload ''termlm'' = Some ''new cli''"
    by code_simp+
  then show ?thesis
    using interrupted_upgrade_loses_plugin [of "\<lambda>k. k = 12" demo_payload demo_installation]
    by (simp add: demo_installation_def dest_names_def)
qed

definition demo_archive :: "tar_entry option list" where
  "demo_archive =
     map (\<lambda>(p, c). Some \<lparr>te_path = path_of p, te_kind = TarFile c\<rparr>)
       [(''bin/termlm'', ''new cli''), (''bin/termlm-core'', ''new core''), (''plugins/zsh/termlm.plugin.zsh'', ''new plugin'')]"

definition demo_sums :: string where
  "demo_sums = replicate 64 (CHR ''a'') @ ''  termlm-darwin-arm64-no-models.tar.gz''"

definition demo_upgrade_env :: upgrade_env where
  "demo_upgrade_env =
     \<lparr>ue_vars = (\<lambda>v. if v = ''HOME'' then Some ''/home/ann'' else None), ue_os = ''macos'', ue_arch = ''aarch64'',
      ue_release = (\<lambda>_ _. Some \<lparr>rl_tag_name = ''v1'', rl_assets =
        [\<lparr>as_name = ''termlm-darwin-arm64-no-models.tar.gz'', as_url = ''a''\<rparr>, \<lparr>as_name = ''SHA256SUMS'', as_url = ''s''\<rparr>]\<rparr>),
      ue_download = (\<lambda>url _. if url = ''s'' then Some demo_sums else Some ''archive''),
      ue_sha256 = (\<lambda>_. replicate 64 (CHR ''a'')), ue_untar = (\<lambda>_. demo_archive), ue_manifest = (\<lambda>_. None),
      ue_help_ok = (\<lambda>_. True), ue_fails = (\<lambda>_. False)\<rparr>"


end
